(* ===== verification/Prelude.thy ===== *)
theory Prelude
  imports Main "HOL-Library.Word" "HOL-Library.Monad_Syntax"
begin

text \<open>
  Shared vocabulary of the development: the machine integers of the C code, the big-endian
  byte strings that \<open>htons\<close> and \<open>htonl\<close> produce, the collections of simplification rules the
  component theories extend, and generic facts on lists and the option monad.

  Conventions used by every theory:
  \<^item> a C function that reads or writes memory is a function into \<open>'a option\<close>: \<open>None\<close> stands for
    an access outside the buffer (undefined behaviour in C), so a theorem that a call is
    \<open>Some _\<close> states that it is memory safe;
  \<^item> a C function that reports failure returns \<open>CWErrorCode + 'a\<close>, with \<open>Inl e\<close> for a
    \<open>CWErrorRaise(e, _)\<close> that ends in \<open>CW_FALSE\<close>;
  \<^item> an output parameter is the value returned; \<open>malloc\<close> is the argument \<open>alloc\<close>, which says for
    each requested size whether a block is returned.
\<close>

unbundle bit_operations_syntax

named_theorems cw_wire \<open>symbolic execution of stores and retrieves on message buffers\<close>
named_theorems cw_len \<open>lengths of encoded byte strings\<close>
named_theorems cw_heap \<open>updates of linked nodes in the heap\<close>

type_synonym u8 = "8 word"
type_synonym u16 = "16 word"
type_synonym u32 = "32 word"

text \<open>A \<open>malloc\<close> that never fails.\<close>

abbreviation plenty :: "nat \<Rightarrow> bool" where
  "plenty \<equiv> \<lambda>_. True"

lemma alloc_plenty: "(\<And>n. alloc n) \<Longrightarrow> alloc = plenty"
  by auto

subsection \<open>Network byte order\<close>

definition be16 :: "u16 \<Rightarrow> u8 list" where
  "be16 v = [ucast (drop_bit 8 v), ucast v]"

definition be32 :: "u32 \<Rightarrow> u8 list" where
  "be32 v = [ucast (drop_bit 24 v), ucast (drop_bit 16 v), ucast (drop_bit 8 v), ucast v]"

fun of_be16 :: "u8 list \<Rightarrow> u16" where
  "of_be16 [a, b] = push_bit 8 (ucast a) OR ucast b"
| "of_be16 _ = 0"

fun of_be32 :: "u8 list \<Rightarrow> u32" where
  "of_be32 [a, b, c, d] =
     push_bit 24 (ucast a) OR push_bit 16 (ucast b) OR push_bit 8 (ucast c) OR ucast d"
| "of_be32 _ = 0"

lemma length_be16 [simp, cw_len]: "length (be16 v) = 2"
  by (simp add: be16_def)

lemma length_be32 [simp, cw_len]: "length (be32 v) = 4"
  by (simp add: be32_def)

lemma of_be16_be16 [simp]: "of_be16 (be16 v) = v"
  by (rule bit_word_eqI) (auto simp: be16_def bit_simps)

lemma of_be32_be32 [simp]: "of_be32 (be32 v) = v"
proof (rule bit_word_eqI)
  fix n
  assume n: "n < LENGTH(32)"
  consider "n < 8" | "8 \<le> n \<and> n < 16" | "16 \<le> n \<and> n < 24" | "24 \<le> n"
    by linarith
  then show "bit (of_be32 (be32 v)) n = bit v n"
    using n by cases (auto simp: be32_def bit_simps)
qed

lemma be16_of_be16: "length bs = 2 \<Longrightarrow> be16 (of_be16 bs) = bs"
proof -
  assume "length bs = 2"
  then obtain a b where bs: "bs = [a, b]"
    by (auto simp: numeral_2_eq_2 length_Suc_conv)
  have high: "\<not> bit b (8 + n)" for n
    using bit_imp_le_length [of b "8 + n"] by auto
  show ?thesis
    unfolding bs be16_def by (auto intro!: bit_word_eqI simp: bit_simps high)
qed

lemma be32_of_be32: "length bs = 4 \<Longrightarrow> be32 (of_be32 bs) = bs"
proof -
  assume "length bs = 4"
  then obtain a b c d where bs: "bs = [a, b, c, d]"
    by (auto simp: numeral_eq_Suc length_Suc_conv)
  have high: "\<not> bit x (8 + n)" "\<not> bit x (16 + n)" "\<not> bit x (24 + n)" for x :: u8 and n
    using bit_imp_le_length [of x "8 + n"] bit_imp_le_length [of x "16 + n"]
      bit_imp_le_length [of x "24 + n"] by auto
  show ?thesis
    unfolding bs be32_def by (auto intro!: bit_word_eqI simp: bit_simps high)
qed

lemma be16_inject [simp]: "be16 v = be16 w \<longleftrightarrow> v = w"
  by (metis of_be16_be16)

lemma be32_inject [simp]: "be32 v = be32 w \<longleftrightarrow> v = w"
  by (metis of_be32_be32)

subsection \<open>Words read as numbers\<close>

lemma unat_of_nat16: "n < 65536 \<Longrightarrow> unat (of_nat n :: u16) = n"
  by (simp add: unat_of_nat)

lemma unat_of_nat8: "n < 256 \<Longrightarrow> unat (of_nat n :: u8) = n"
  by (simp add: unat_of_nat)

lemma unat16_less [simp]: "unat (v :: u16) < 65536"
  using unsigned_less [of v] by simp

lemma unat8_less [simp]: "unat (v :: u8) < 256"
  using unsigned_less [of v] by simp

text \<open>A field that fits in one byte or two survives being cut down to them.\<close>

lemma ucast_u8_u32 [simp]: "v < 256 \<Longrightarrow> ucast (ucast v :: u8) = (v :: u32)"
proof -
  assume "v < 256"
  then have "v AND mask 8 = v" using less_mask_eq [of v 8] by simp
  moreover have "ucast (ucast v :: u8) = v AND mask 8"
    by (rule bit_word_eqI) (auto simp: bit_simps)
  ultimately show ?thesis by simp
qed

lemma ucast_u16_u32 [simp]: "v < 65536 \<Longrightarrow> ucast (ucast v :: u16) = (v :: u32)"
proof -
  assume "v < 65536"
  then have "v AND mask 16 = v" using less_mask_eq [of v 16] by simp
  moreover have "ucast (ucast v :: u16) = v AND mask 16"
    by (rule bit_word_eqI) (auto simp: bit_simps)
  ultimately show ?thesis by simp
qed

subsection \<open>Lists and options\<close>

lemma take_append_at [simp]: "n = length xs \<Longrightarrow> take n (xs @ ys) = xs"
  by simp

lemma drop_append_at [simp]: "n = length xs \<Longrightarrow> drop n (xs @ ys) = ys"
  by simp

lemma bind_Some_iff: "Option.bind m f = Some y \<longleftrightarrow> (\<exists>x. m = Some x \<and> f x = Some y)"
  by (cases m) auto

end
