(* ===== verification/Wire.thy ===== *)
theory Wire
  imports Prelude
begin

text \<open>
  The message buffer of \<open>CWProtocol.c\<close> (\<open>CWProtocolMessage\<close>: a block and the offset of the next
  byte), the store and retrieve primitives, the element framing of \<open>CWAssembleMsgElem\<close>, and the
  macros \<open>CWParseMessageElementStart\<close> / \<open>CWParseMessageElementEnd\<close> every element parser is
  wrapped in. \<open>wbuf\<close> and \<open>rbuf\<close> are the two shapes of buffer on which stores and retrieves are
  executed symbolically by the rules of \<open>cw_wire\<close>.
\<close>

subsection \<open>Error codes\<close>

datatype CWErrorCode =
    CW_ERROR_SUCCESS
  | CW_ERROR_OUT_OF_MEMORY
  | CW_ERROR_WRONG_ARG
  | CW_ERROR_INTERRUPTED
  | CW_ERROR_NEED_RESOURCE
  | CW_ERROR_COMUNICATING
  | CW_ERROR_CREATING
  | CW_ERROR_GENERAL
  | CW_ERROR_OPERATION_ABORTED
  | CW_ERROR_SENDING
  | CW_ERROR_RECEIVING
  | CW_ERROR_INVALID_FORMAT
  | CW_ERROR_TIME_EXPIRED
  | CW_ERROR_NONE

subsection \<open>Message buffers\<close>

text \<open>\<open>data_msgType = None\<close>: the field has not been assigned since the struct was declared.\<close>

record cw_msg =
  msg :: "u8 list"
  offset :: nat
  data_msgType :: "nat option"

text \<open>\<open>put\<close> is \<open>CW_COPY_MEMORY(&msg[offset], bytes, n); offset += n\<close>; \<open>get\<close> the converse.\<close>

definition put :: "cw_msg \<Rightarrow> u8 list \<Rightarrow> cw_msg option" where
  "put m bs =
     (if offset m + length bs \<le> length (msg m)
      then Some (m\<lparr>msg := take (offset m) (msg m) @ bs @ drop (offset m + length bs) (msg m),
                   offset := offset m + length bs\<rparr>)
      else None)"

definition get :: "nat \<Rightarrow> cw_msg \<Rightarrow> (u8 list \<times> cw_msg) option" where
  "get n m =
     (if offset m + n \<le> length (msg m)
      then Some (take n (drop (offset m) (msg m)), m\<lparr>offset := offset m + n\<rparr>)
      else None)"

text \<open>\<open>CW_CREATE_PROTOCOL_MESSAGE\<close>: a block of \<open>n\<close> zero bytes, offset 0.\<close>

definition CW_CREATE_PROTOCOL_MESSAGE :: "(nat \<Rightarrow> bool) \<Rightarrow> nat \<Rightarrow> CWErrorCode + cw_msg" where
  "CW_CREATE_PROTOCOL_MESSAGE alloc n =
     (if alloc n
      then Inr \<lparr>msg = replicate n 0, offset = 0, data_msgType = None\<rparr>
      else Inl CW_ERROR_OUT_OF_MEMORY)"

definition CWProtocolStore8 :: "cw_msg \<Rightarrow> u8 \<Rightarrow> cw_msg option" where
  "CWProtocolStore8 m val = put m [val]"

definition CWProtocolStore16 :: "cw_msg \<Rightarrow> u16 \<Rightarrow> cw_msg option" where
  "CWProtocolStore16 m val = put m (be16 val)"

definition CWProtocolStore32 :: "cw_msg \<Rightarrow> u32 \<Rightarrow> cw_msg option" where
  "CWProtocolStore32 m val = put m (be32 val)"

text \<open>A C string is the list of its bytes before the terminating \<open>'\0'\<close>.\<close>

definition CWProtocolStoreStr :: "cw_msg \<Rightarrow> u8 list \<Rightarrow> cw_msg option" where
  "CWProtocolStoreStr m str = put m str"

definition CWProtocolStoreMessage :: "cw_msg \<Rightarrow> cw_msg \<Rightarrow> cw_msg option" where
  "CWProtocolStoreMessage m m' =
     (if offset m' \<le> length (msg m') then put m (take (offset m') (msg m')) else None)"

definition CWProtocolStoreRawBytes :: "cw_msg \<Rightarrow> u8 list \<Rightarrow> nat \<Rightarrow> cw_msg option" where
  "CWProtocolStoreRawBytes m bytes len =
     (if len \<le> length bytes then put m (take len bytes) else None)"

definition CWProtocolRetrieve8 :: "cw_msg \<Rightarrow> (u8 \<times> cw_msg) option" where
  "CWProtocolRetrieve8 m = do { (bs, m) \<leftarrow> get 1 m; Some (hd bs, m) }"

definition CWProtocolRetrieve16 :: "cw_msg \<Rightarrow> (u16 \<times> cw_msg) option" where
  "CWProtocolRetrieve16 m = do { (bs, m) \<leftarrow> get 2 m; Some (of_be16 bs, m) }"

definition CWProtocolRetrieve32 :: "cw_msg \<Rightarrow> (u32 \<times> cw_msg) option" where
  "CWProtocolRetrieve32 m = do { (bs, m) \<leftarrow> get 4 m; Some (of_be32 bs, m) }"

text \<open>The block is allocated before the copy: when \<open>malloc\<close> fails the result is \<open>NULL\<close> and the
  offset does not move. The string returned leaves out the \<open>'\0'\<close> the code appends.\<close>

definition CWProtocolRetrieveStr ::
  "(nat \<Rightarrow> bool) \<Rightarrow> nat \<Rightarrow> cw_msg \<Rightarrow> (u8 list option \<times> cw_msg) option" where
  "CWProtocolRetrieveStr alloc len m =
     (if alloc (len + 1) then do { (bs, m) \<leftarrow> get len m; Some (Some bs, m) }
      else Some (None, m))"

definition CWProtocolRetrieveRawBytes ::
  "(nat \<Rightarrow> bool) \<Rightarrow> nat \<Rightarrow> cw_msg \<Rightarrow> (u8 list option \<times> cw_msg) option" where
  "CWProtocolRetrieveRawBytes alloc len m =
     (if alloc len then do { (bs, m) \<leftarrow> get len m; Some (Some bs, m) }
      else Some (None, m))"

subsection \<open>Element framing\<close>

text \<open>\<open>None\<close> is \<open>msgPtr == NULL\<close>.\<close>

definition CWAssembleMsgElem ::
  "(nat \<Rightarrow> bool) \<Rightarrow> cw_msg option \<Rightarrow> u32 \<Rightarrow> (CWErrorCode + cw_msg) option" where
  "CWAssembleMsgElem alloc msgPtr type =
     (case msgPtr of
        None \<Rightarrow> Some (Inl CW_ERROR_WRONG_ARG)
      | Some m \<Rightarrow>
          (case CW_CREATE_PROTOCOL_MESSAGE alloc (6 + offset m) of
             Inl e \<Rightarrow> Some (Inl e)
           | Inr completeMsg \<Rightarrow> do {
               completeMsg \<leftarrow> CWProtocolStore16 completeMsg (ucast type);
               completeMsg \<leftarrow> CWProtocolStore16 completeMsg (of_nat (offset m));
               completeMsg \<leftarrow> CWProtocolStoreMessage completeMsg m;
               Some (Inr (m\<lparr>msg := msg completeMsg, offset := offset completeMsg\<rparr>))
             }))"

definition CWParseFormatMsgElem :: "cw_msg \<Rightarrow> ((u16 \<times> u16) \<times> cw_msg) option" where
  "CWParseFormatMsgElem completeMsg = do {
     (type, completeMsg) \<leftarrow> CWProtocolRetrieve16 completeMsg;
     (len, completeMsg) \<leftarrow> CWProtocolRetrieve16 completeMsg;
     Some ((type, len), completeMsg)
   }"

text \<open>
  A parser returns its value and the advanced message, or the error it raised. The two macros
  around an element parser reject a \<open>NULL\<close> message and an element whose body did not consume
  exactly \<open>len\<close> bytes.
\<close>

type_synonym 'a parser = "cw_msg \<Rightarrow> (CWErrorCode + 'a \<times> cw_msg) option"

definition CWParseMessageElement ::
  "'a parser \<Rightarrow> cw_msg option \<Rightarrow> nat \<Rightarrow> (CWErrorCode + 'a \<times> cw_msg) option" where
  "CWParseMessageElement body msgPtr len =
     (case msgPtr of
        None \<Rightarrow> Some (Inl CW_ERROR_WRONG_ARG)
      | Some m \<Rightarrow> do {
          r \<leftarrow> body m;
          Some (case r of
                  Inl e \<Rightarrow> Inl e
                | Inr (v, m') \<Rightarrow>
                    if int (offset m') - int (offset m) = int len then Inr (v, m')
                    else Inl CW_ERROR_INVALID_FORMAT)
        })"

subsection \<open>Writing: buffers filled from the front\<close>

definition wbuf :: "nat \<Rightarrow> u8 list \<Rightarrow> cw_msg" where
  "wbuf n bs = \<lparr>msg = bs @ replicate (n - length bs) 0, offset = length bs, data_msgType = None\<rparr>"

definition contents :: "cw_msg \<Rightarrow> u8 list" where
  "contents m = take (offset m) (msg m)"

lemma wbuf_sel [simp]:
  "offset (wbuf n bs) = length bs"
  "data_msgType (wbuf n bs) = None"
  by (simp_all add: wbuf_def)

lemma length_msg_wbuf: "length bs \<le> n \<Longrightarrow> length (msg (wbuf n bs)) = n"
  by (simp add: wbuf_def)

lemma contents_wbuf [simp]: "contents (wbuf n bs) = bs"
  by (simp add: contents_def wbuf_def)

lemma msg_wbuf_full [simp]: "length bs = n \<Longrightarrow> msg (wbuf n bs) = bs"
  by (simp add: wbuf_def)

lemma CW_CREATE_wbuf [cw_wire]:
  "CW_CREATE_PROTOCOL_MESSAGE alloc n =
     (if alloc n then Inr (wbuf n []) else Inl CW_ERROR_OUT_OF_MEMORY)"
  by (simp add: CW_CREATE_PROTOCOL_MESSAGE_def wbuf_def)

lemma put_wbuf [cw_wire]:
  "put (wbuf n bs) cs =
     (if length bs + length cs \<le> max n (length bs) then Some (wbuf n (bs @ cs)) else None)"
  by (auto simp: put_def wbuf_def max_def)

lemma Store8_wbuf [cw_wire]:
  "length bs + 1 \<le> n \<Longrightarrow> CWProtocolStore8 (wbuf n bs) v = Some (wbuf n (bs @ [v]))"
  by (simp add: CWProtocolStore8_def put_wbuf)

lemma Store16_wbuf [cw_wire]:
  "length bs + 2 \<le> n \<Longrightarrow> CWProtocolStore16 (wbuf n bs) v = Some (wbuf n (bs @ be16 v))"
  by (simp add: CWProtocolStore16_def put_wbuf)

lemma Store32_wbuf [cw_wire]:
  "length bs + 4 \<le> n \<Longrightarrow> CWProtocolStore32 (wbuf n bs) v = Some (wbuf n (bs @ be32 v))"
  by (simp add: CWProtocolStore32_def put_wbuf)

lemma StoreStr_wbuf [cw_wire]:
  "length bs + length s \<le> n \<Longrightarrow> CWProtocolStoreStr (wbuf n bs) s = Some (wbuf n (bs @ s))"
  by (simp add: CWProtocolStoreStr_def put_wbuf)

lemma StoreRaw_wbuf [cw_wire]:
  "k \<le> length s \<Longrightarrow> length bs + k \<le> n \<Longrightarrow>
     CWProtocolStoreRawBytes (wbuf n bs) s k = Some (wbuf n (bs @ take k s))"
  by (simp add: CWProtocolStoreRawBytes_def put_wbuf)

lemma StoreMessage_wbuf [cw_wire]:
  "offset m \<le> length (msg m) \<Longrightarrow> length bs + offset m \<le> n \<Longrightarrow>
     CWProtocolStoreMessage (wbuf n bs) m = Some (wbuf n (bs @ contents m))"
  by (simp add: CWProtocolStoreMessage_def put_wbuf contents_def)

text \<open>A store past the end of a full buffer is a write outside the block.\<close>

lemma Store8_wbuf_full [cw_wire]: "n \<le> length bs \<Longrightarrow> CWProtocolStore8 (wbuf n bs) v = None"
  by (simp add: CWProtocolStore8_def put_wbuf)

text \<open>The bytes of a message element: type, length of the body, body.\<close>

definition elem_bytes :: "u16 \<Rightarrow> u8 list \<Rightarrow> u8 list" where
  "elem_bytes type body = be16 type @ be16 (of_nat (length body)) @ body"

lemma length_elem_bytes [simp, cw_len]: "length (elem_bytes type body) = 4 + length body"
  by (simp add: elem_bytes_def)

definition elem_msg :: "u16 \<Rightarrow> u8 list \<Rightarrow> cw_msg" where
  "elem_msg type body = wbuf (6 + length body) (elem_bytes type body)"

lemma elem_msg_sel [simp]:
  "offset (elem_msg type body) = 4 + length body"
  "contents (elem_msg type body) = elem_bytes type body"
  by (simp_all add: elem_msg_def)

lemma length_msg_elem [simp]: "length (msg (elem_msg type body)) = 6 + length body"
  by (simp add: elem_msg_def length_msg_wbuf)

lemma wbuf_replace [cw_wire]:
  "(wbuf n bs)\<lparr>msg := msg (wbuf k cs), offset := j\<rparr> = (wbuf k cs)\<lparr>offset := j\<rparr>"
  "j = length cs \<Longrightarrow> (wbuf k cs)\<lparr>offset := j\<rparr> = wbuf k cs"
  by (simp_all add: wbuf_def)

lemma CWAssembleMsgElem_wbuf [cw_wire]:
  "length bs \<le> n \<Longrightarrow>
   CWAssembleMsgElem alloc (Some (wbuf n bs)) type =
     Some (if alloc (6 + length bs) then Inr (elem_msg (ucast type) bs)
           else Inl CW_ERROR_OUT_OF_MEMORY)"
  by (simp add: CWAssembleMsgElem_def cw_wire length_msg_wbuf elem_msg_def elem_bytes_def)

subsection \<open>Messages put together from messages\<close>

text \<open>The loop that stores an array of messages one after the other.\<close>

fun store_messages :: "cw_msg \<Rightarrow> cw_msg list \<Rightarrow> cw_msg option" where
  "store_messages m [] = Some m"
| "store_messages m (e # es) = do { m \<leftarrow> CWProtocolStoreMessage m e; store_messages m es }"

definition msg_fits :: "cw_msg \<Rightarrow> bool" where
  "msg_fits m \<longleftrightarrow> offset m \<le> length (msg m)"

lemma length_contents: "msg_fits m \<Longrightarrow> length (contents m) = offset m"
  by (simp add: contents_def msg_fits_def)

lemma msg_fits_wbuf [simp]: "msg_fits (wbuf n bs)"
  by (simp add: msg_fits_def wbuf_def)

lemma length_concat_contents:
  "\<forall>m \<in> set ms. msg_fits m \<Longrightarrow> length (concat (map contents ms)) = sum_list (map offset ms)"
  by (induction ms) (auto simp: length_contents)

lemma store_messages_wbuf [cw_wire]:
  "\<forall>m \<in> set ms. msg_fits m \<Longrightarrow> length bs + sum_list (map offset ms) \<le> n \<Longrightarrow>
   store_messages (wbuf n bs) ms = Some (wbuf n (bs @ concat (map contents ms)))"
  by (induction ms arbitrary: bs) (simp_all add: StoreMessage_wbuf length_contents msg_fits_def)

subsection \<open>Reading: a position inside a byte string\<close>

definition rbuf :: "nat option \<Rightarrow> u8 list \<Rightarrow> u8 list \<Rightarrow> cw_msg" where
  "rbuf d pre rest = \<lparr>msg = pre @ rest, offset = length pre, data_msgType = d\<rparr>"

lemma rbuf_sel [simp]:
  "offset (rbuf d pre rest) = length pre"
  "msg (rbuf d pre rest) = pre @ rest"
  "data_msgType (rbuf d pre rest) = d"
  by (simp_all add: rbuf_def)

lemma rbuf_kind [cw_wire]: "(rbuf d pre rest)\<lparr>data_msgType := e\<rparr> = rbuf e pre rest"
  by (simp add: rbuf_def)

lemma get_rbuf [cw_wire]:
  "length bs = n \<Longrightarrow> get n (rbuf d pre (bs @ rest)) = Some (bs, rbuf d (pre @ bs) rest)"
  by (simp add: get_def rbuf_def)

lemma get_rbuf_short [cw_wire]: "length rest < n \<Longrightarrow> get n (rbuf d pre rest) = None"
  by (simp add: get_def rbuf_def)

lemma Retrieve8_rbuf [cw_wire]:
  "CWProtocolRetrieve8 (rbuf d pre (b # rest)) = Some (b, rbuf d (pre @ [b]) rest)"
  using get_rbuf [of "[b]" 1 d pre rest] by (simp add: CWProtocolRetrieve8_def)

lemma Retrieve16_rbuf [cw_wire]:
  "CWProtocolRetrieve16 (rbuf d pre (be16 v @ rest)) = Some (v, rbuf d (pre @ be16 v) rest)"
  by (simp add: CWProtocolRetrieve16_def get_rbuf)

lemma Retrieve32_rbuf [cw_wire]:
  "CWProtocolRetrieve32 (rbuf d pre (be32 v @ rest)) = Some (v, rbuf d (pre @ be32 v) rest)"
  by (simp add: CWProtocolRetrieve32_def get_rbuf)

lemma RetrieveStr_rbuf [cw_wire]:
  "alloc (n + 1) \<Longrightarrow> length bs = n \<Longrightarrow>
   CWProtocolRetrieveStr alloc n (rbuf d pre (bs @ rest)) =
     Some (Some bs, rbuf d (pre @ bs) rest)"
  by (simp add: CWProtocolRetrieveStr_def get_rbuf)

lemma RetrieveRaw_rbuf [cw_wire]:
  "alloc n \<Longrightarrow> length bs = n \<Longrightarrow>
   CWProtocolRetrieveRawBytes alloc n (rbuf d pre (bs @ rest)) =
     Some (Some bs, rbuf d (pre @ bs) rest)"
  by (simp add: CWProtocolRetrieveRawBytes_def get_rbuf)

lemma CWParseFormatMsgElem_rbuf [cw_wire]:
  "CWParseFormatMsgElem (rbuf d pre (be16 t @ be16 l @ rest)) =
     Some ((t, l), rbuf d (pre @ be16 t @ be16 l) rest)"
  by (simp add: CWParseFormatMsgElem_def cw_wire)

subsection \<open>What a retrieve does to the message\<close>

text \<open>A retrieve leaves the block alone, moves the offset forward by the bytes read, and stays
  inside the block.\<close>

lemma get_Some:
  "get n m = Some (bs, m') \<Longrightarrow>
     offset m' = offset m + n \<and> msg m' = msg m \<and> data_msgType m' = data_msgType m \<and>
     offset m' \<le> length (msg m) \<and> length bs = n"
  by (auto simp: get_def split: if_splits)

lemma Retrieve8_Some:
  "CWProtocolRetrieve8 m = Some (v, m') \<Longrightarrow>
     offset m' = offset m + 1 \<and> msg m' = msg m \<and> offset m' \<le> length (msg m)"
  by (auto simp: CWProtocolRetrieve8_def bind_Some_iff dest!: get_Some)

lemma Retrieve16_Some:
  "CWProtocolRetrieve16 m = Some (v, m') \<Longrightarrow>
     offset m' = offset m + 2 \<and> msg m' = msg m \<and> offset m' \<le> length (msg m)"
  by (auto simp: CWProtocolRetrieve16_def bind_Some_iff dest!: get_Some)

lemma Retrieve32_Some:
  "CWProtocolRetrieve32 m = Some (v, m') \<Longrightarrow>
     offset m' = offset m + 4 \<and> msg m' = msg m \<and> offset m' \<le> length (msg m)"
  by (auto simp: CWProtocolRetrieve32_def bind_Some_iff dest!: get_Some)

lemma CWParseFormatMsgElem_Some:
  "CWParseFormatMsgElem m = Some (v, m') \<Longrightarrow>
     offset m' = offset m + 4 \<and> msg m' = msg m \<and> offset m' \<le> length (msg m)"
  by (auto simp: CWParseFormatMsgElem_def bind_Some_iff dest!: Retrieve16_Some)

lemmas retrieve_Some = Retrieve8_Some Retrieve16_Some Retrieve32_Some CWParseFormatMsgElem_Some

end
