(* ===== verification/Constants.thy ===== *)
theory Constants
  imports Prelude
begin

text \<open>
  The message types and message element types of \<open>CWProtocol.h\<close>, and its result codes. The codes are
  \<open>int\<close> constants of the C code, so 32-bit words here; \<open>cw_types\<close> rewrites them to their values.
\<close>

subsection \<open>Message types\<close>

definition CW_MSG_TYPE_VALUE_DISCOVERY_REQUEST :: u32 where
  "CW_MSG_TYPE_VALUE_DISCOVERY_REQUEST = 1"
definition CW_MSG_TYPE_VALUE_DISCOVERY_RESPONSE :: u32 where
  "CW_MSG_TYPE_VALUE_DISCOVERY_RESPONSE = 2"
definition CW_MSG_TYPE_VALUE_JOIN_REQUEST :: u32 where "CW_MSG_TYPE_VALUE_JOIN_REQUEST = 3"
definition CW_MSG_TYPE_VALUE_JOIN_RESPONSE :: u32 where "CW_MSG_TYPE_VALUE_JOIN_RESPONSE = 4"
definition CW_MSG_TYPE_VALUE_CONFIGURE_REQUEST :: u32 where
  "CW_MSG_TYPE_VALUE_CONFIGURE_REQUEST = 5"
definition CW_MSG_TYPE_VALUE_CONFIGURE_RESPONSE :: u32 where
  "CW_MSG_TYPE_VALUE_CONFIGURE_RESPONSE = 6"
definition CW_MSG_TYPE_VALUE_CONFIGURE_UPDATE_REQUEST :: u32 where
  "CW_MSG_TYPE_VALUE_CONFIGURE_UPDATE_REQUEST = 7"
definition CW_MSG_TYPE_VALUE_CONFIGURE_UPDATE_RESPONSE :: u32 where
  "CW_MSG_TYPE_VALUE_CONFIGURE_UPDATE_RESPONSE = 8"
definition CW_MSG_TYPE_VALUE_WTP_EVENT_REQUEST :: u32 where
  "CW_MSG_TYPE_VALUE_WTP_EVENT_REQUEST = 9"
definition CW_MSG_TYPE_VALUE_WTP_EVENT_RESPONSE :: u32 where
  "CW_MSG_TYPE_VALUE_WTP_EVENT_RESPONSE = 10"
definition CW_MSG_TYPE_VALUE_CHANGE_STATE_EVENT_REQUEST :: u32 where
  "CW_MSG_TYPE_VALUE_CHANGE_STATE_EVENT_REQUEST = 11"
definition CW_MSG_TYPE_VALUE_CHANGE_STATE_EVENT_RESPONSE :: u32 where
  "CW_MSG_TYPE_VALUE_CHANGE_STATE_EVENT_RESPONSE = 12"
definition CW_MSG_TYPE_VALUE_ECHO_REQUEST :: u32 where "CW_MSG_TYPE_VALUE_ECHO_REQUEST = 13"
definition CW_MSG_TYPE_VALUE_ECHO_RESPONSE :: u32 where "CW_MSG_TYPE_VALUE_ECHO_RESPONSE = 14"
definition CW_MSG_TYPE_VALUE_IMAGE_DATA_REQUEST :: u32 where
  "CW_MSG_TYPE_VALUE_IMAGE_DATA_REQUEST = 15"
definition CW_MSG_TYPE_VALUE_IMAGE_DATA_RESPONSE :: u32 where
  "CW_MSG_TYPE_VALUE_IMAGE_DATA_RESPONSE = 16"
definition CW_MSG_TYPE_VALUE_RESET_REQUEST :: u32 where "CW_MSG_TYPE_VALUE_RESET_REQUEST = 17"
definition CW_MSG_TYPE_VALUE_RESET_RESPONSE :: u32 where "CW_MSG_TYPE_VALUE_RESET_RESPONSE = 18"
definition CW_MSG_TYPE_VALUE_PRIMARY_DISCOVERY_REQUEST :: u32 where
  "CW_MSG_TYPE_VALUE_PRIMARY_DISCOVERY_REQUEST = 19"
definition CW_MSG_TYPE_VALUE_PRIMARY_DISCOVERY_RESPONSE :: u32 where
  "CW_MSG_TYPE_VALUE_PRIMARY_DISCOVERY_RESPONSE = 20"
definition CW_MSG_TYPE_VALUE_DATA_TRANSFER_REQUEST :: u32 where
  "CW_MSG_TYPE_VALUE_DATA_TRANSFER_REQUEST = 21"
definition CW_MSG_TYPE_VALUE_DATA_TRANSFER_RESPONSE :: u32 where
  "CW_MSG_TYPE_VALUE_DATA_TRANSFER_RESPONSE = 22"
definition CW_MSG_TYPE_VALUE_CLEAR_CONFIGURATION_REQUEST :: u32 where
  "CW_MSG_TYPE_VALUE_CLEAR_CONFIGURATION_REQUEST = 23"
definition CW_MSG_TYPE_VALUE_CLEAR_CONFIGURATION_RESPONSE :: u32 where
  "CW_MSG_TYPE_VALUE_CLEAR_CONFIGURATION_RESPONSE = 24"
definition CW_MSG_TYPE_VALUE_STATION_CONFIGURATION_REQUEST :: u32 where
  "CW_MSG_TYPE_VALUE_STATION_CONFIGURATION_REQUEST = 25"
definition CW_MSG_TYPE_VALUE_STATION_CONFIGURATION_RESPONSE :: u32 where
  "CW_MSG_TYPE_VALUE_STATION_CONFIGURATION_RESPONSE = 26"

subsection \<open>Message element types\<close>

definition CW_MSG_ELEMENT_AC_DESCRIPTOR_CW_TYPE :: u32 where
  "CW_MSG_ELEMENT_AC_DESCRIPTOR_CW_TYPE = 1"
definition CW_MSG_ELEMENT_AC_IPV4_LIST_CW_TYPE :: u32 where
  "CW_MSG_ELEMENT_AC_IPV4_LIST_CW_TYPE = 2"
definition CW_MSG_ELEMENT_AC_IPV6_LIST_CW_TYPE :: u32 where
  "CW_MSG_ELEMENT_AC_IPV6_LIST_CW_TYPE = 3"
definition CW_MSG_ELEMENT_AC_NAME_CW_TYPE :: u32 where "CW_MSG_ELEMENT_AC_NAME_CW_TYPE = 4"
definition CW_MSG_ELEMENT_AC_NAME_INDEX_CW_TYPE :: u32 where
  "CW_MSG_ELEMENT_AC_NAME_INDEX_CW_TYPE = 5"
definition CW_MSG_ELEMENT_TIMESTAMP_CW_TYPE :: u32 where "CW_MSG_ELEMENT_TIMESTAMP_CW_TYPE = 6"
definition CW_MSG_ELEMENT_ADD_MAC_ACL_CW_TYPE :: u32 where "CW_MSG_ELEMENT_ADD_MAC_ACL_CW_TYPE = 7"
definition CW_MSG_ELEMENT_ADD_STATION_CW_TYPE :: u32 where "CW_MSG_ELEMENT_ADD_STATION_CW_TYPE = 8"
definition CW_MSG_ELEMENT_ADD_STATIC_MAC_ACL_CW_TYPE :: u32 where
  "CW_MSG_ELEMENT_ADD_STATIC_MAC_ACL_CW_TYPE = 9"
definition CW_MSG_ELEMENT_CW_CONTROL_IPV4_ADDRESS_CW_TYPE :: u32 where
  "CW_MSG_ELEMENT_CW_CONTROL_IPV4_ADDRESS_CW_TYPE = 10"
definition CW_MSG_ELEMENT_CW_CONTROL_IPV6_ADDRESS_CW_TYPE :: u32 where
  "CW_MSG_ELEMENT_CW_CONTROL_IPV6_ADDRESS_CW_TYPE = 11"
definition CW_MSG_ELEMENT_CW_TIMERS_CW_TYPE :: u32 where "CW_MSG_ELEMENT_CW_TIMERS_CW_TYPE = 12"
definition CW_MSG_ELEMENT_DATA_TRANSFER_DATA_CW_TYPE :: u32 where
  "CW_MSG_ELEMENT_DATA_TRANSFER_DATA_CW_TYPE = 13"
definition CW_MSG_ELEMENT_DATA_TRANSFER_MODE_CW_TYPE :: u32 where
  "CW_MSG_ELEMENT_DATA_TRANSFER_MODE_CW_TYPE = 14"
definition CW_MSG_ELEMENT_CW_DECRYPT_ER_REPORT_CW_TYPE :: u32 where
  "CW_MSG_ELEMENT_CW_DECRYPT_ER_REPORT_CW_TYPE = 15"
definition CW_MSG_ELEMENT_CW_DECRYPT_ER_REPORT_PERIOD_CW_TYPE :: u32 where
  "CW_MSG_ELEMENT_CW_DECRYPT_ER_REPORT_PERIOD_CW_TYPE = 16"
definition CW_MSG_ELEMENT_DELETE_MAC_ACL_CW_TYPE :: u32 where
  "CW_MSG_ELEMENT_DELETE_MAC_ACL_CW_TYPE = 17"
definition CW_MSG_ELEMENT_DELETE_STATION_CW_TYPE :: u32 where
  "CW_MSG_ELEMENT_DELETE_STATION_CW_TYPE = 18"
definition CW_MSG_ELEMENT_DELETE_STATIC_MAC_ACL_CW_TYPE :: u32 where
  "CW_MSG_ELEMENT_DELETE_STATIC_MAC_ACL_CW_TYPE = 19"
definition CW_MSG_ELEMENT_DISCOVERY_TYPE_CW_TYPE :: u32 where
  "CW_MSG_ELEMENT_DISCOVERY_TYPE_CW_TYPE = 20"
definition CW_MSG_ELEMENT_DUPLICATE_IPV4_ADDRESS_CW_TYPE :: u32 where
  "CW_MSG_ELEMENT_DUPLICATE_IPV4_ADDRESS_CW_TYPE = 21"
definition CW_MSG_ELEMENT_DUPLICATE_IPV6_ADDRESS_CW_TYPE :: u32 where
  "CW_MSG_ELEMENT_DUPLICATE_IPV6_ADDRESS_CW_TYPE = 22"
definition CW_MSG_ELEMENT_IDLE_TIMEOUT_CW_TYPE :: u32 where
  "CW_MSG_ELEMENT_IDLE_TIMEOUT_CW_TYPE = 23"
definition CW_MSG_ELEMENT_IMAGE_DATA_CW_TYPE :: u32 where "CW_MSG_ELEMENT_IMAGE_DATA_CW_TYPE = 24"
definition CW_MSG_ELEMENT_IMAGE_IDENTIFIER_CW_TYPE :: u32 where
  "CW_MSG_ELEMENT_IMAGE_IDENTIFIER_CW_TYPE = 25"
definition CW_MSG_ELEMENT_IMAGE_INFO_CW_TYPE :: u32 where "CW_MSG_ELEMENT_IMAGE_INFO_CW_TYPE = 26"
definition CW_MSG_ELEMENT_INITIATED_DOWNLOAD_CW_TYPE :: u32 where
  "CW_MSG_ELEMENT_INITIATED_DOWNLOAD_CW_TYPE = 27"
definition CW_MSG_ELEMENT_LOCATION_DATA_CW_TYPE :: u32 where
  "CW_MSG_ELEMENT_LOCATION_DATA_CW_TYPE = 28"
definition CW_MSG_ELEMENT_MAX_MSG_LEN_CW_TYPE :: u32 where "CW_MSG_ELEMENT_MAX_MSG_LEN_CW_TYPE = 29"
definition CW_MSG_ELEMENT_MTU_DISCOVERY_PADDING_CW_TYPE :: u32 where
  "CW_MSG_ELEMENT_MTU_DISCOVERY_PADDING_CW_TYPE = 30"
definition CW_MSG_ELEMENT_RADIO_ADMIN_STATE_CW_TYPE :: u32 where
  "CW_MSG_ELEMENT_RADIO_ADMIN_STATE_CW_TYPE = 31"
definition CW_MSG_ELEMENT_RADIO_OPERAT_STATE_CW_TYPE :: u32 where
  "CW_MSG_ELEMENT_RADIO_OPERAT_STATE_CW_TYPE = 32"
definition CW_MSG_ELEMENT_RESULT_CODE_CW_TYPE :: u32 where "CW_MSG_ELEMENT_RESULT_CODE_CW_TYPE = 33"
definition CW_MSG_ELEMENT_RETURNED_MSG_ELEM_CW_TYPE :: u32 where
  "CW_MSG_ELEMENT_RETURNED_MSG_ELEM_CW_TYPE = 34"
definition CW_MSG_ELEMENT_SESSION_ID_CW_TYPE :: u32 where "CW_MSG_ELEMENT_SESSION_ID_CW_TYPE = 35"
definition CW_MSG_ELEMENT_STATISTICS_TIMER_CW_TYPE :: u32 where
  "CW_MSG_ELEMENT_STATISTICS_TIMER_CW_TYPE = 36"
definition CW_MSG_ELEMENT_VENDOR_SPEC_PAYLOAD_CW_TYPE :: u32 where
  "CW_MSG_ELEMENT_VENDOR_SPEC_PAYLOAD_CW_TYPE = 37"
definition CW_MSG_ELEMENT_WTP_BOARD_DATA_CW_TYPE :: u32 where
  "CW_MSG_ELEMENT_WTP_BOARD_DATA_CW_TYPE = 38"
definition CW_MSG_ELEMENT_WTP_DESCRIPTOR_CW_TYPE :: u32 where
  "CW_MSG_ELEMENT_WTP_DESCRIPTOR_CW_TYPE = 39"
definition CW_MSG_ELEMENT_WTP_FALLBACK_CW_TYPE :: u32 where
  "CW_MSG_ELEMENT_WTP_FALLBACK_CW_TYPE = 40"
definition CW_MSG_ELEMENT_WTP_FRAME_TUNNEL_MODE_CW_TYPE :: u32 where
  "CW_MSG_ELEMENT_WTP_FRAME_TUNNEL_MODE_CW_TYPE = 41"
definition CW_MSG_ELEMENT_WTP_IPV4_ADDRESS_CW_TYPE :: u32 where
  "CW_MSG_ELEMENT_WTP_IPV4_ADDRESS_CW_TYPE = 42"
definition CW_MSG_ELEMENT_WTP_MAC_TYPE_CW_TYPE :: u32 where
  "CW_MSG_ELEMENT_WTP_MAC_TYPE_CW_TYPE = 43"
definition CW_MSG_ELEMENT_WTP_NAME_CW_TYPE :: u32 where "CW_MSG_ELEMENT_WTP_NAME_CW_TYPE = 44"
definition CW_MSG_ELEMENT_WTP_OPERAT_STATISTICS_CW_TYPE :: u32 where
  "CW_MSG_ELEMENT_WTP_OPERAT_STATISTICS_CW_TYPE = 45"
definition CW_MSG_ELEMENT_WTP_RADIO_STATISTICS_CW_TYPE :: u32 where
  "CW_MSG_ELEMENT_WTP_RADIO_STATISTICS_CW_TYPE = 46"
definition CW_MSG_ELEMENT_WTP_REBOOT_STATISTICS_CW_TYPE :: u32 where
  "CW_MSG_ELEMENT_WTP_REBOOT_STATISTICS_CW_TYPE = 47"
definition CW_MSG_ELEMENT_WTP_STATIC_IP_CW_TYPE :: u32 where
  "CW_MSG_ELEMENT_WTP_STATIC_IP_CW_TYPE = 48"
definition CW_MSG_ELEMENT_RESULT_CODE_CW_TYPE_WITH_PAYLOAD :: u32 where
  "CW_MSG_ELEMENT_RESULT_CODE_CW_TYPE_WITH_PAYLOAD = 49"

subsection \<open>Result codes\<close>

definition CW_PROTOCOL_SUCCESS :: u32 where "CW_PROTOCOL_SUCCESS = 0"
definition CW_PROTOCOL_FAILURE_AC_LIST :: u32 where "CW_PROTOCOL_FAILURE_AC_LIST = 1"
definition CW_PROTOCOL_SUCCESS_NAT :: u32 where "CW_PROTOCOL_SUCCESS_NAT = 2"
definition CW_PROTOCOL_FAILURE :: u32 where "CW_PROTOCOL_FAILURE = 3"
definition CW_PROTOCOL_FAILURE_RES_DEPLETION :: u32 where "CW_PROTOCOL_FAILURE_RES_DEPLETION = 4"
definition CW_PROTOCOL_FAILURE_UNKNOWN_SRC :: u32 where "CW_PROTOCOL_FAILURE_UNKNOWN_SRC = 5"
definition CW_PROTOCOL_FAILURE_INCORRECT_DATA :: u32 where "CW_PROTOCOL_FAILURE_INCORRECT_DATA = 6"
definition CW_PROTOCOL_FAILURE_ID_IN_USE :: u32 where "CW_PROTOCOL_FAILURE_ID_IN_USE = 7"
definition CW_PROTOCOL_FAILURE_WTP_HW_UNSUPP :: u32 where "CW_PROTOCOL_FAILURE_WTP_HW_UNSUPP = 8"
definition CW_PROTOCOL_FAILURE_BINDING_UNSUPP :: u32 where "CW_PROTOCOL_FAILURE_BINDING_UNSUPP = 9"
definition CW_PROTOCOL_FAILURE_UNABLE_TO_RESET :: u32 where
  "CW_PROTOCOL_FAILURE_UNABLE_TO_RESET = 10"
definition CW_PROTOCOL_FAILURE_FIRM_WRT_ERROR :: u32 where "CW_PROTOCOL_FAILURE_FIRM_WRT_ERROR = 11"
definition CW_PROTOCOL_FAILURE_SERVICE_PROVIDED_ANYHOW :: u32 where
  "CW_PROTOCOL_FAILURE_SERVICE_PROVIDED_ANYHOW = 12"
definition CW_PROTOCOL_FAILURE_SERVICE_NOT_PROVIDED :: u32 where
  "CW_PROTOCOL_FAILURE_SERVICE_NOT_PROVIDED = 13"
definition CW_PROTOCOL_FAILURE_INVALID_CHECKSUM :: u32 where
  "CW_PROTOCOL_FAILURE_INVALID_CHECKSUM = 14"
definition CW_PROTOCOL_FAILURE_INVALID_DATA_LEN :: u32 where
  "CW_PROTOCOL_FAILURE_INVALID_DATA_LEN = 15"
definition CW_PROTOCOL_FAILURE_OTHER_ERROR :: u32 where "CW_PROTOCOL_FAILURE_OTHER_ERROR = 16"
definition CW_PROTOCOL_FAILURE_IMAGE_ALREADY_PRESENT :: u32 where
  "CW_PROTOCOL_FAILURE_IMAGE_ALREADY_PRESENT = 17"
definition CW_PROTOCOL_FAILURE_INVALID_STATE :: u32 where "CW_PROTOCOL_FAILURE_INVALID_STATE = 18"
definition CW_PROTOCOL_FAILURE_UNRECOGNIZED_REQ :: u32 where
  "CW_PROTOCOL_FAILURE_UNRECOGNIZED_REQ = 19"
definition CW_PROTOCOL_FAILURE_MISSING_MSG_ELEM :: u32 where
  "CW_PROTOCOL_FAILURE_MISSING_MSG_ELEM = 20"
definition CW_PROTOCOL_FAILURE_UNRECOGNIZED_MSG_ELEM :: u32 where
  "CW_PROTOCOL_FAILURE_UNRECOGNIZED_MSG_ELEM = 21"

lemmas cw_types =
  CW_MSG_TYPE_VALUE_DISCOVERY_REQUEST_def
  CW_MSG_TYPE_VALUE_DISCOVERY_RESPONSE_def
  CW_MSG_TYPE_VALUE_JOIN_REQUEST_def
  CW_MSG_TYPE_VALUE_JOIN_RESPONSE_def
  CW_MSG_TYPE_VALUE_CONFIGURE_REQUEST_def
  CW_MSG_TYPE_VALUE_CONFIGURE_RESPONSE_def
  CW_MSG_TYPE_VALUE_CONFIGURE_UPDATE_REQUEST_def
  CW_MSG_TYPE_VALUE_CONFIGURE_UPDATE_RESPONSE_def
  CW_MSG_TYPE_VALUE_WTP_EVENT_REQUEST_def
  CW_MSG_TYPE_VALUE_WTP_EVENT_RESPONSE_def
  CW_MSG_TYPE_VALUE_CHANGE_STATE_EVENT_REQUEST_def
  CW_MSG_TYPE_VALUE_CHANGE_STATE_EVENT_RESPONSE_def
  CW_MSG_TYPE_VALUE_ECHO_REQUEST_def
  CW_MSG_TYPE_VALUE_ECHO_RESPONSE_def
  CW_MSG_TYPE_VALUE_IMAGE_DATA_REQUEST_def
  CW_MSG_TYPE_VALUE_IMAGE_DATA_RESPONSE_def
  CW_MSG_TYPE_VALUE_RESET_REQUEST_def
  CW_MSG_TYPE_VALUE_RESET_RESPONSE_def
  CW_MSG_TYPE_VALUE_PRIMARY_DISCOVERY_REQUEST_def
  CW_MSG_TYPE_VALUE_PRIMARY_DISCOVERY_RESPONSE_def
  CW_MSG_TYPE_VALUE_DATA_TRANSFER_REQUEST_def
  CW_MSG_TYPE_VALUE_DATA_TRANSFER_RESPONSE_def
  CW_MSG_TYPE_VALUE_CLEAR_CONFIGURATION_REQUEST_def
  CW_MSG_TYPE_VALUE_CLEAR_CONFIGURATION_RESPONSE_def
  CW_MSG_TYPE_VALUE_STATION_CONFIGURATION_REQUEST_def
  CW_MSG_TYPE_VALUE_STATION_CONFIGURATION_RESPONSE_def
  CW_MSG_ELEMENT_AC_DESCRIPTOR_CW_TYPE_def
  CW_MSG_ELEMENT_AC_IPV4_LIST_CW_TYPE_def
  CW_MSG_ELEMENT_AC_IPV6_LIST_CW_TYPE_def
  CW_MSG_ELEMENT_AC_NAME_CW_TYPE_def
  CW_MSG_ELEMENT_AC_NAME_INDEX_CW_TYPE_def
  CW_MSG_ELEMENT_TIMESTAMP_CW_TYPE_def
  CW_MSG_ELEMENT_ADD_MAC_ACL_CW_TYPE_def
  CW_MSG_ELEMENT_ADD_STATION_CW_TYPE_def
  CW_MSG_ELEMENT_ADD_STATIC_MAC_ACL_CW_TYPE_def
  CW_MSG_ELEMENT_CW_CONTROL_IPV4_ADDRESS_CW_TYPE_def
  CW_MSG_ELEMENT_CW_CONTROL_IPV6_ADDRESS_CW_TYPE_def
  CW_MSG_ELEMENT_CW_TIMERS_CW_TYPE_def
  CW_MSG_ELEMENT_DATA_TRANSFER_DATA_CW_TYPE_def
  CW_MSG_ELEMENT_DATA_TRANSFER_MODE_CW_TYPE_def
  CW_MSG_ELEMENT_CW_DECRYPT_ER_REPORT_CW_TYPE_def
  CW_MSG_ELEMENT_CW_DECRYPT_ER_REPORT_PERIOD_CW_TYPE_def
  CW_MSG_ELEMENT_DELETE_MAC_ACL_CW_TYPE_def
  CW_MSG_ELEMENT_DELETE_STATION_CW_TYPE_def
  CW_MSG_ELEMENT_DELETE_STATIC_MAC_ACL_CW_TYPE_def
  CW_MSG_ELEMENT_DISCOVERY_TYPE_CW_TYPE_def
  CW_MSG_ELEMENT_DUPLICATE_IPV4_ADDRESS_CW_TYPE_def
  CW_MSG_ELEMENT_DUPLICATE_IPV6_ADDRESS_CW_TYPE_def
  CW_MSG_ELEMENT_IDLE_TIMEOUT_CW_TYPE_def
  CW_MSG_ELEMENT_IMAGE_DATA_CW_TYPE_def
  CW_MSG_ELEMENT_IMAGE_IDENTIFIER_CW_TYPE_def
  CW_MSG_ELEMENT_IMAGE_INFO_CW_TYPE_def
  CW_MSG_ELEMENT_INITIATED_DOWNLOAD_CW_TYPE_def
  CW_MSG_ELEMENT_LOCATION_DATA_CW_TYPE_def
  CW_MSG_ELEMENT_MAX_MSG_LEN_CW_TYPE_def
  CW_MSG_ELEMENT_MTU_DISCOVERY_PADDING_CW_TYPE_def
  CW_MSG_ELEMENT_RADIO_ADMIN_STATE_CW_TYPE_def
  CW_MSG_ELEMENT_RADIO_OPERAT_STATE_CW_TYPE_def
  CW_MSG_ELEMENT_RESULT_CODE_CW_TYPE_def
  CW_MSG_ELEMENT_RETURNED_MSG_ELEM_CW_TYPE_def
  CW_MSG_ELEMENT_SESSION_ID_CW_TYPE_def
  CW_MSG_ELEMENT_STATISTICS_TIMER_CW_TYPE_def
  CW_MSG_ELEMENT_VENDOR_SPEC_PAYLOAD_CW_TYPE_def
  CW_MSG_ELEMENT_WTP_BOARD_DATA_CW_TYPE_def
  CW_MSG_ELEMENT_WTP_DESCRIPTOR_CW_TYPE_def
  CW_MSG_ELEMENT_WTP_FALLBACK_CW_TYPE_def
  CW_MSG_ELEMENT_WTP_FRAME_TUNNEL_MODE_CW_TYPE_def
  CW_MSG_ELEMENT_WTP_IPV4_ADDRESS_CW_TYPE_def
  CW_MSG_ELEMENT_WTP_MAC_TYPE_CW_TYPE_def
  CW_MSG_ELEMENT_WTP_NAME_CW_TYPE_def
  CW_MSG_ELEMENT_WTP_OPERAT_STATISTICS_CW_TYPE_def
  CW_MSG_ELEMENT_WTP_RADIO_STATISTICS_CW_TYPE_def
  CW_MSG_ELEMENT_WTP_REBOOT_STATISTICS_CW_TYPE_def
  CW_MSG_ELEMENT_WTP_STATIC_IP_CW_TYPE_def
  CW_MSG_ELEMENT_RESULT_CODE_CW_TYPE_WITH_PAYLOAD_def
  CW_PROTOCOL_SUCCESS_def
  CW_PROTOCOL_FAILURE_AC_LIST_def
  CW_PROTOCOL_SUCCESS_NAT_def
  CW_PROTOCOL_FAILURE_def
  CW_PROTOCOL_FAILURE_RES_DEPLETION_def
  CW_PROTOCOL_FAILURE_UNKNOWN_SRC_def
  CW_PROTOCOL_FAILURE_INCORRECT_DATA_def
  CW_PROTOCOL_FAILURE_ID_IN_USE_def
  CW_PROTOCOL_FAILURE_WTP_HW_UNSUPP_def
  CW_PROTOCOL_FAILURE_BINDING_UNSUPP_def
  CW_PROTOCOL_FAILURE_UNABLE_TO_RESET_def
  CW_PROTOCOL_FAILURE_FIRM_WRT_ERROR_def
  CW_PROTOCOL_FAILURE_SERVICE_PROVIDED_ANYHOW_def
  CW_PROTOCOL_FAILURE_SERVICE_NOT_PROVIDED_def
  CW_PROTOCOL_FAILURE_INVALID_CHECKSUM_def
  CW_PROTOCOL_FAILURE_INVALID_DATA_LEN_def
  CW_PROTOCOL_FAILURE_OTHER_ERROR_def
  CW_PROTOCOL_FAILURE_IMAGE_ALREADY_PRESENT_def
  CW_PROTOCOL_FAILURE_INVALID_STATE_def
  CW_PROTOCOL_FAILURE_UNRECOGNIZED_REQ_def
  CW_PROTOCOL_FAILURE_MISSING_MSG_ELEM_def
  CW_PROTOCOL_FAILURE_UNRECOGNIZED_MSG_ELEM_def

end
