(* ===== verification/Elements.thy ===== *)
theory Elements
  imports Wire Constants
begin

text \<open>
  What every message element shares: the element types and value structures of
  \<open>CWProtocol.h\<close>, the vendor information lists several elements end with, the elements both ends
  assemble and parse (\<open>CWProtocol.c\<close>), and the contract of an element, the locale
  \<open>element_codec\<close>: an assembler that writes the framed body \<open>enc v\<close>, and a parser that reads the
  value back from it, wherever it stands in a message.

  A C \<open>int\<close> or enumeration field is a 32-bit word; a value read as one byte or two is extended
  with zeros. The memory of a string is the list of its bytes. An array index into a list of
  values is a list operation. \<open>le\<close> says that the host is little-endian.
\<close>

subsection \<open>Creating the message of an element\<close>

text \<open>\<open>CW_CREATE_PROTOCOL_MESSAGE(m, n, return CWErrorRaise(CW_ERROR_OUT_OF_MEMORY, NULL))\<close> followed
  by the rest of the function.\<close>

definition with_message ::
  "(nat \<Rightarrow> bool) \<Rightarrow> nat \<Rightarrow> (cw_msg \<Rightarrow> (CWErrorCode + 'a) option) \<Rightarrow> (CWErrorCode + 'a) option" where
  "with_message alloc n f =
     (case CW_CREATE_PROTOCOL_MESSAGE alloc n of Inl e \<Rightarrow> Some (Inl e) | Inr m \<Rightarrow> f m)"

lemma with_message_wbuf [cw_wire]:
  "with_message alloc n f = (if alloc n then f (wbuf n []) else Some (Inl CW_ERROR_OUT_OF_MEMORY))"
  by (simp add: with_message_def CW_CREATE_wbuf)

text \<open>The loop that assembles one element message per entry of an array; the first error ends it.\<close>

fun assemble_each ::
  "('v \<Rightarrow> (CWErrorCode + cw_msg) option) \<Rightarrow> 'v list \<Rightarrow> (CWErrorCode + cw_msg list) option" where
  "assemble_each f [] = Some (Inr [])"
| "assemble_each f (x # xs) = do {
     r \<leftarrow> f x;
     (case r of
        Inl e \<Rightarrow> Some (Inl e)
      | Inr m \<Rightarrow> do { rest \<leftarrow> assemble_each f xs; Some (map_sum id ((#) m) rest) })
   }"

definition sizeof_msg :: nat where "sizeof_msg = 16"

text \<open>An array of messages is allocated, each entry assembled, and all of them stored in one message.\<close>

definition assemble_array ::
  "(nat \<Rightarrow> bool) \<Rightarrow> ('v \<Rightarrow> (CWErrorCode + cw_msg) option) \<Rightarrow> 'v list \<Rightarrow> (CWErrorCode + cw_msg) option" where
  "assemble_array alloc f xs =
     (if \<not> alloc (sizeof_msg * length xs) then Some (Inl CW_ERROR_OUT_OF_MEMORY)
      else do {
        r \<leftarrow> assemble_each f xs;
        (case r of
           Inl e \<Rightarrow> Some (Inl e)
         | Inr msgs \<Rightarrow>
             with_message alloc (sum_list (map offset msgs)) (\<lambda>m. do {
               m \<leftarrow> store_messages m msgs; Some (Inr m) }))
      })"

lemma assemble_each_all:
  "\<forall>x \<in> set xs. f x = Some (Inr (g x)) \<Longrightarrow> assemble_each f xs = Some (Inr (map g xs))"
  by (induction xs) auto

lemma assemble_each_safe:
  "\<forall>x \<in> set xs. f x \<noteq> None \<Longrightarrow> assemble_each f xs \<noteq> None"
  by (induction xs) (auto split: sum.splits)

lemma assemble_array_all:
  assumes "\<And>n. alloc n" and "\<forall>x \<in> set xs. f x = Some (Inr (elem_msg t (g x)))"
  shows "assemble_array alloc f xs =
    Some (Inr (let bs = concat (map (\<lambda>x. elem_bytes t (g x)) xs) in wbuf (length bs) bs))"
proof -
  have fits: "\<forall>m \<in> set (map (\<lambda>x. elem_msg t (g x)) xs). msg_fits m"
    by (auto simp: msg_fits_def)
  have bytes: "concat (map contents (map (\<lambda>x. elem_msg t (g x)) xs)) =
      concat (map (\<lambda>x. elem_bytes t (g x)) xs)"
    by (simp add: comp_def)
  have len: "length (concat (map (\<lambda>x. elem_bytes t (g x)) xs)) =
      sum_list (map offset (map (\<lambda>x. elem_msg t (g x)) xs))"
    using length_concat_contents [OF fits] by (simp only: bytes)
  show ?thesis
    using assms assemble_each_all [of xs f "\<lambda>x. elem_msg t (g x)"]
      store_messages_wbuf [OF fits, of "[]"]
    by (simp add: assemble_array_def with_message_wbuf bytes [simplified] len [simplified]
        Let_def comp_def del: store_messages.simps)
qed

subsection \<open>Byte order in memory\<close>

text \<open>\<open>htonl\<close> and \<open>ntohl\<close> on the four bytes of an \<open>int\<close> in memory, and on a value.\<close>

definition htonl_mem :: "bool \<Rightarrow> u8 list \<Rightarrow> u8 list" where
  "htonl_mem le bs = (if le then rev (take 4 bs) @ drop 4 bs else bs)"

definition htonl :: "bool \<Rightarrow> u32 \<Rightarrow> u32" where
  "htonl le v = (if le then of_be32 (rev (be32 v)) else v)"

definition htons :: "bool \<Rightarrow> u16 \<Rightarrow> u16" where
  "htons le v = (if le then of_be16 (rev (be16 v)) else v)"

lemma htonl_mem_twice [simp]: "htonl_mem le (htonl_mem le bs) = bs"
  by (cases "length bs \<le> 4") (simp_all add: htonl_mem_def)

lemma length_htonl_mem [simp]: "length (htonl_mem le bs) = length bs"
  by (auto simp: htonl_mem_def)

lemma htonl_twice [simp]: "htonl le (htonl le v) = v"
  by (simp add: htonl_def be32_of_be32)


subsection \<open>Vendor information\<close>

record CWVendorInfoValues =
  vendorIdentifier :: u32
  vi_type :: u32
  vi_length :: nat
  valuePtr :: "u8 list"

definition sizeof_CWVendorInfoValues :: nat where "sizeof_CWVendorInfoValues = 24"

text \<open>Type, length and value; a 4-byte value is turned to network order in place.\<close>

definition store_vendor_tlv :: "bool \<Rightarrow> CWVendorInfoValues \<Rightarrow> cw_msg \<Rightarrow> cw_msg option" where
  "store_vendor_tlv le info m = do {
     m \<leftarrow> CWProtocolStore16 m (ucast (vi_type info));
     m \<leftarrow> CWProtocolStore16 m (of_nat (vi_length info));
     CWProtocolStoreRawBytes m
       (if vi_length info = 4 then htonl_mem le (valuePtr info) else valuePtr info) (vi_length info)
   }"

fun store_vendor_tlvs :: "bool \<Rightarrow> CWVendorInfoValues list \<Rightarrow> cw_msg \<Rightarrow> cw_msg option" where
  "store_vendor_tlvs le [] m = Some m"
| "store_vendor_tlvs le (v # vs) m = do { m \<leftarrow> store_vendor_tlv le v m; store_vendor_tlvs le vs m }"

fun store_vendor_infos :: "bool \<Rightarrow> CWVendorInfoValues list \<Rightarrow> cw_msg \<Rightarrow> cw_msg option" where
  "store_vendor_infos le [] m = Some m"
| "store_vendor_infos le (v # vs) m = do {
     m \<leftarrow> CWProtocolStore32 m (vendorIdentifier v);
     m \<leftarrow> store_vendor_tlv le v m;
     store_vendor_infos le vs m
   }"

text \<open>The first loop of the parsers counts the entries up to offset \<open>stop\<close>, skipping the values
  without looking whether they are there.\<close>

definition skip_vendor_tlv :: "cw_msg \<Rightarrow> cw_msg option" where
  "skip_vendor_tlv m = do {
     (_, m) \<leftarrow> CWProtocolRetrieve16 m;
     (tmp, m) \<leftarrow> CWProtocolRetrieve16 m;
     Some (m\<lparr>offset := offset m + unat tmp\<rparr>)
   }"

partial_function (option) count_vendor_infos ::
  "bool \<Rightarrow> int \<Rightarrow> nat \<Rightarrow> cw_msg \<Rightarrow> (nat \<times> cw_msg) option" where
  "count_vendor_infos with_id stop count m =
     (if int (offset m) < stop then do {
        (_, m) \<leftarrow> (if with_id then CWProtocolRetrieve32 m else Some (0, m));
        m \<leftarrow> skip_vendor_tlv m;
        count_vendor_infos with_id stop (count + 1) m
      }
      else Some (count, m))"

text \<open>The second loop reads them; \<open>fixed_id\<close> is the identifier that stands before all entries.\<close>

definition read_vendor_tlv ::
  "(nat \<Rightarrow> bool) \<Rightarrow> bool \<Rightarrow> u32 \<Rightarrow> CWVendorInfoValues parser" where
  "read_vendor_tlv alloc le ident m = do {
     (type, m) \<leftarrow> CWProtocolRetrieve16 m;
     (len, m) \<leftarrow> CWProtocolRetrieve16 m;
     (value, m) \<leftarrow> CWProtocolRetrieveRawBytes alloc (unat len) m;
     (case value of
        None \<Rightarrow> Some (Inl CW_ERROR_OUT_OF_MEMORY)
      | Some bs \<Rightarrow>
          Some (Inr (\<lparr>vendorIdentifier = ident, vi_type = ucast type, vi_length = unat len,
                      valuePtr = (if unat len = 4 then htonl_mem le bs else bs)\<rparr>, m)))
   }"

fun read_vendor_infos ::
  "(nat \<Rightarrow> bool) \<Rightarrow> bool \<Rightarrow> u32 option \<Rightarrow> nat \<Rightarrow> (CWVendorInfoValues list) parser" where
  "read_vendor_infos alloc le fixed_id 0 m = Some (Inr ([], m))"
| "read_vendor_infos alloc le fixed_id (Suc n) m = do {
     (ident, m) \<leftarrow> (case fixed_id of None \<Rightarrow> CWProtocolRetrieve32 m | Some i \<Rightarrow> Some (i, m));
     r \<leftarrow> read_vendor_tlv alloc le ident m;
     (case r of
        Inl e \<Rightarrow> Some (Inl e)
      | Inr (v, m) \<Rightarrow> do {
          rest \<leftarrow> read_vendor_infos alloc le fixed_id n m;
          Some (map_sum id (map_prod ((#) v) id) rest)
        })
   }"

text \<open>Both loops together, as \<open>CWParseWTPBoardData\<close>, \<open>CWParseWTPDescriptor\<close> and
  \<open>CWParseACDescriptor\<close> run them.\<close>

definition parse_vendor_infos ::
  "(nat \<Rightarrow> bool) \<Rightarrow> bool \<Rightarrow> u32 option \<Rightarrow> int \<Rightarrow> (CWVendorInfoValues list) parser" where
  "parse_vendor_infos alloc le fixed_id stop m = do {
     let theOffset = offset m;
     (count, m) \<leftarrow> count_vendor_infos (fixed_id = None) stop 0 m;
     let m = m\<lparr>offset := theOffset\<rparr>;
     if \<not> alloc (sizeof_CWVendorInfoValues * count) then Some (Inl CW_ERROR_OUT_OF_MEMORY)
     else read_vendor_infos alloc le fixed_id count m
   }"

definition vendor_wf :: "CWVendorInfoValues \<Rightarrow> bool" where
  "vendor_wf v \<longleftrightarrow> vi_type v < 65536 \<and> vi_length v < 65536 \<and> length (valuePtr v) = vi_length v"

definition tlv_bytes :: "bool \<Rightarrow> CWVendorInfoValues \<Rightarrow> u8 list" where
  "tlv_bytes le v = be16 (ucast (vi_type v)) @ be16 (of_nat (vi_length v)) @
     (if vi_length v = 4 then htonl_mem le (valuePtr v) else valuePtr v)"

definition vendor_bytes :: "bool \<Rightarrow> CWVendorInfoValues \<Rightarrow> u8 list" where
  "vendor_bytes le v = be32 (vendorIdentifier v) @ tlv_bytes le v"

lemma length_tlv_bytes [simp]: "vendor_wf v \<Longrightarrow> length (tlv_bytes le v) = 4 + vi_length v"
  by (simp add: tlv_bytes_def vendor_wf_def)

lemma length_vendor_bytes [simp]: "vendor_wf v \<Longrightarrow> length (vendor_bytes le v) = 8 + vi_length v"
  by (simp add: vendor_bytes_def)

lemma store_vendor_tlv_wbuf [cw_wire]:
  "vendor_wf v \<Longrightarrow> length bs + 4 + vi_length v \<le> n \<Longrightarrow>
   store_vendor_tlv le v (wbuf n bs) = Some (wbuf n (bs @ tlv_bytes le v))"
  by (simp add: store_vendor_tlv_def cw_wire tlv_bytes_def vendor_wf_def)

lemma store_vendor_tlvs_wbuf [cw_wire]:
  "\<forall>v \<in> set vs. vendor_wf v \<Longrightarrow> length bs + sum_list (map (\<lambda>v. 4 + vi_length v) vs) \<le> n \<Longrightarrow>
   store_vendor_tlvs le vs (wbuf n bs) = Some (wbuf n (bs @ concat (map (tlv_bytes le) vs)))"
  by (induction vs arbitrary: bs) (simp_all add: store_vendor_tlv_wbuf)

lemma store_vendor_infos_wbuf [cw_wire]:
  "\<forall>v \<in> set vs. vendor_wf v \<Longrightarrow> length bs + sum_list (map (\<lambda>v. 8 + vi_length v) vs) \<le> n \<Longrightarrow>
   store_vendor_infos le vs (wbuf n bs) = Some (wbuf n (bs @ concat (map (vendor_bytes le) vs)))"
  by (induction vs arbitrary: bs) (simp_all add: cw_wire vendor_bytes_def)

lemma length_concat_tlvs:
  "\<forall>v \<in> set vs. vendor_wf v \<Longrightarrow>
   length (concat (map (tlv_bytes le) vs)) = sum_list (map (\<lambda>v. 4 + vi_length v) vs)"
  by (induction vs) auto

lemma length_concat_vendors:
  "\<forall>v \<in> set vs. vendor_wf v \<Longrightarrow>
   length (concat (map (vendor_bytes le) vs)) = sum_list (map (\<lambda>v. 8 + vi_length v) vs)"
  by (induction vs) auto

text \<open>The bytes of the entries, with or without their identifiers.\<close>

definition infos_bytes :: "bool \<Rightarrow> u32 option \<Rightarrow> CWVendorInfoValues list \<Rightarrow> u8 list" where
  "infos_bytes le fixed_id vs =
     concat (map (if fixed_id = None then vendor_bytes le else tlv_bytes le) vs)"

lemma rbuf_skip: "length bs = k \<Longrightarrow> (rbuf d pre (bs @ rest))\<lparr>offset := length pre + k\<rparr> = rbuf d (pre @ bs) rest"
  by (simp add: rbuf_def)

lemma rbuf_back: "(rbuf d (pre @ bs) rest)\<lparr>offset := length pre\<rparr> = rbuf d pre (bs @ rest)"
  by (simp add: rbuf_def)

lemma skip_vendor_tlv_at:
  "unat len = length val \<Longrightarrow>
   skip_vendor_tlv (rbuf d pre (be16 t @ be16 len @ val @ rest)) =
     Some (rbuf d (pre @ be16 t @ be16 len @ val) rest)"
  by (simp add: skip_vendor_tlv_def cw_wire) 

lemma skip_vendor_tlv_rbuf [cw_wire]:
  "vendor_wf v \<Longrightarrow>
   skip_vendor_tlv (rbuf d pre (tlv_bytes le v @ rest)) = Some (rbuf d (pre @ tlv_bytes le v) rest)"
  using skip_vendor_tlv_at [of "of_nat (vi_length v)"
      "if vi_length v = 4 then htonl_mem le (valuePtr v) else valuePtr v"]
  by (simp add: tlv_bytes_def vendor_wf_def unat_of_nat16 del: if_split split: if_split_asm)

lemma infos_bytes_Nil [simp]: "infos_bytes le i [] = []"
  by (simp add: infos_bytes_def)

lemma infos_bytes_Cons [simp]:
  "infos_bytes le i (v # vs) =
     (if i = None then be32 (vendorIdentifier v) else []) @ tlv_bytes le v @ infos_bytes le i vs"
  by (simp add: infos_bytes_def vendor_bytes_def)

lemma count_vendor_infos_rbuf:
  "\<forall>v \<in> set vs. vendor_wf v \<Longrightarrow>
   stop = int (length pre + length (infos_bytes le i vs)) \<Longrightarrow>
   count_vendor_infos (i = None) stop c (rbuf d pre (infos_bytes le i vs @ rest)) =
     Some (c + length vs, rbuf d (pre @ infos_bytes le i vs) rest)"
proof (induction vs arbitrary: pre c)
  case Nil
  then show ?case by (subst count_vendor_infos.simps) simp
next
  case (Cons v vs)
  let ?pre = "pre @ (if i = None then be32 (vendorIdentifier v) else []) @ tlv_bytes le v"
  have "count_vendor_infos (i = None) stop (c + 1) (rbuf d ?pre (infos_bytes le i vs @ rest)) =
      Some (c + 1 + length vs, rbuf d (?pre @ infos_bytes le i vs) rest)"
    using Cons.prems by (intro Cons.IH) auto
  moreover have "vendor_wf v" "int (length pre) < stop"
    using Cons.prems by auto
  ultimately show ?case
    by (subst count_vendor_infos.simps) (cases i, simp_all add: cw_wire)
qed

lemma read_vendor_tlv_at:
  "alloc (length val) \<Longrightarrow> unat len = length val \<Longrightarrow>
   read_vendor_tlv alloc le ident (rbuf d pre (be16 t @ be16 len @ val @ rest)) =
     Some (Inr (\<lparr>vendorIdentifier = ident, vi_type = ucast t, vi_length = length val,
                valuePtr = (if length val = 4 then htonl_mem le val else val)\<rparr>,
              rbuf d (pre @ be16 t @ be16 len @ val) rest))"
  by (simp add: read_vendor_tlv_def cw_wire)

lemma read_vendor_tlv_rbuf [cw_wire]:
  assumes "vendor_wf v" and "vendorIdentifier v = ident"
  shows "read_vendor_tlv plenty le ident (rbuf d pre (tlv_bytes le v @ rest)) =
    Some (Inr (v, rbuf d (pre @ tlv_bytes le v) rest))"
  using assms read_vendor_tlv_at [of plenty "if vi_length v = 4 then htonl_mem le (valuePtr v) else valuePtr v"
      "of_nat (vi_length v)" le ident d pre "ucast (vi_type v)" rest]
  by (cases v) (auto simp: tlv_bytes_def vendor_wf_def unat_of_nat16)

lemma read_vendor_infos_rbuf:
  "\<forall>v \<in> set vs. vendor_wf v \<and> (\<forall>j. i = Some j \<longrightarrow> vendorIdentifier v = j) \<Longrightarrow>
   read_vendor_infos plenty le i (length vs) (rbuf d pre (infos_bytes le i vs @ rest)) =
     Some (Inr (vs, rbuf d (pre @ infos_bytes le i vs) rest))"
proof (induction vs arbitrary: pre)
  case (Cons v vs)
  let ?pre = "pre @ (if i = None then be32 (vendorIdentifier v) else []) @ tlv_bytes le v"
  have "read_vendor_infos plenty le i (length vs) (rbuf d ?pre (infos_bytes le i vs @ rest)) =
      Some (Inr (vs, rbuf d (?pre @ infos_bytes le i vs) rest))"
    using Cons.prems by (intro Cons.IH) auto
  then show ?case
    using Cons.prems by (cases i) (simp_all add: Retrieve32_rbuf read_vendor_tlv_rbuf)
qed simp

lemma parse_vendor_infos_rbuf:
  assumes "\<forall>v \<in> set vs. vendor_wf v \<and> (\<forall>j. i = Some j \<longrightarrow> vendorIdentifier v = j)"
    and "stop = int (length pre + length (infos_bytes le i vs))"
  shows "parse_vendor_infos plenty le i stop (rbuf d pre (infos_bytes le i vs @ rest)) =
    Some (Inr (vs, rbuf d (pre @ infos_bytes le i vs) rest))"
  using count_vendor_infos_rbuf [of vs stop pre le i 0 d rest] read_vendor_infos_rbuf [of vs i le d pre rest]
    assms by (simp add: parse_vendor_infos_def Let_def rbuf_back)


subsection \<open>The contract of a message element\<close>

text \<open>One element as every receiver reads it: the format, then the parser of its body.\<close>

definition receive_element ::
  "(cw_msg option \<Rightarrow> nat \<Rightarrow> (CWErrorCode + 'a \<times> cw_msg) option) \<Rightarrow> cw_msg \<Rightarrow>
     (u16 \<times> (CWErrorCode + 'a \<times> cw_msg)) option" where
  "receive_element parse m = do {
     ((elemType, elemLen), m) \<leftarrow> CWParseFormatMsgElem m;
     r \<leftarrow> parse (Some m) (unat elemLen);
     Some (elemType, r)
   }"

text \<open>\<open>n\<close> elements of one type, one after the other.\<close>

fun receive_elements ::
  "(cw_msg option \<Rightarrow> nat \<Rightarrow> (CWErrorCode + 'a \<times> cw_msg) option) \<Rightarrow> nat \<Rightarrow> cw_msg \<Rightarrow>
     (CWErrorCode + (u16 \<times> 'a) list \<times> cw_msg) option" where
  "receive_elements parse 0 m = Some (Inr ([], m))"
| "receive_elements parse (Suc n) m = do {
     (t, r) \<leftarrow> receive_element parse m;
     (case r of
        Inl e \<Rightarrow> Some (Inl e)
      | Inr (v, m) \<Rightarrow> do {
          rest \<leftarrow> receive_elements parse n m;
          Some (map_sum id (map_prod ((#) (t, v)) id) rest)
        })
   }"

text \<open>What a sender and a receiver agree on: the assembled message is one element, and wherever it
  stands in a received message it is read back as the value \<open>v\<close>, and nothing beyond it is.\<close>

definition carries ::
  "u32 \<Rightarrow> (CWErrorCode + cw_msg) option \<Rightarrow>
     (cw_msg option \<Rightarrow> nat \<Rightarrow> (CWErrorCode + 'a \<times> cw_msg) option) \<Rightarrow> 'a \<Rightarrow> bool" where
  "carries ty assembled parse v \<longleftrightarrow>
     (\<exists>m. assembled = Some (Inr m) \<and> msg_fits m \<and>
        (\<forall>d pre rest. receive_element parse (rbuf d pre (contents m @ rest)) =
           Some (ucast ty, Inr (v, rbuf d (pre @ contents m) rest))))"

locale element_codec =
  fixes ty :: u32
    and enc :: "'a \<Rightarrow> u8 list"
    and fits :: "'a \<Rightarrow> bool"
    and assemble :: "(nat \<Rightarrow> bool) \<Rightarrow> 'a \<Rightarrow> (CWErrorCode + cw_msg) option"
    and parse :: "(nat \<Rightarrow> bool) \<Rightarrow> cw_msg option \<Rightarrow> nat \<Rightarrow> (CWErrorCode + 'a \<times> cw_msg) option"
  assumes assemble_enc: "fits v \<Longrightarrow> assemble plenty v = Some (Inr (elem_msg (ucast ty) (enc v)))"
    and short: "fits v \<Longrightarrow> length (enc v) < 65536"
    and parse_enc: "fits v \<Longrightarrow> parse plenty (Some (rbuf d pre (enc v @ rest))) (length (enc v)) =
        Some (Inr (v, rbuf d (pre @ enc v) rest))"
begin

lemma received:
  "fits v \<Longrightarrow>
   receive_element (parse plenty) (rbuf d pre (elem_bytes (ucast ty) (enc v) @ rest)) =
     Some (ucast ty, Inr (v, rbuf d (pre @ elem_bytes (ucast ty) (enc v)) rest))"
  using parse_enc [of v d "pre @ be16 (ucast ty) @ be16 (of_nat (length (enc v)))" rest] short
  by (simp add: receive_element_def elem_bytes_def CWParseFormatMsgElem_rbuf unat_of_nat16)

lemma received_all:
  "\<forall>v \<in> set vs. fits v \<Longrightarrow>
   receive_elements (parse plenty) (length vs)
     (rbuf d pre (concat (map (\<lambda>v. elem_bytes (ucast ty) (enc v)) vs) @ rest)) =
   Some (Inr (map (Pair (ucast ty)) vs,
              rbuf d (pre @ concat (map (\<lambda>v. elem_bytes (ucast ty) (enc v)) vs)) rest))"
  by (induction vs arbitrary: pre) (auto simp: received)

lemma carried: "fits v \<Longrightarrow> carries ty (assemble plenty v) (parse plenty) v"
  by (simp add: carries_def assemble_enc received msg_fits_def)

end

text \<open>An element whose assembler reports every failed allocation.\<close>

locale reliable_element = element_codec ty enc fits assemble parse
  for ty :: u32 and enc :: "'a \<Rightarrow> u8 list" and fits assemble parse +
  assumes reports: "fits v \<Longrightarrow> assemble alloc v = assemble plenty v \<or>
    assemble alloc v = Some (Inl CW_ERROR_OUT_OF_MEMORY)"
begin

lemma assemble_safe: "fits v \<Longrightarrow> assemble alloc v \<noteq> None"
  using reports [of v alloc] assemble_enc [of v] by auto

lemma success_is_framed:
  "fits v \<Longrightarrow> assemble alloc v = Some (Inr m) \<Longrightarrow> m = elem_msg (ucast ty) (enc v)"
  using reports [of v alloc] assemble_enc [of v] by auto

end

text \<open>An element whose body has one size only refuses any other length.\<close>

locale fixed_element = reliable_element ty enc fits assemble parse
  for ty :: u32 and enc :: "'a \<Rightarrow> u8 list" and fits assemble parse +
  assumes refuses: "fits v \<Longrightarrow> n \<noteq> length (enc v) \<Longrightarrow>
    parse plenty (Some (rbuf d pre (enc v @ rest))) n = Some (Inl CW_ERROR_INVALID_FORMAT)"
begin

lemma wrong_length_refused:
  "fits v \<Longrightarrow> n < 65536 \<Longrightarrow> n \<noteq> length (enc v) \<Longrightarrow>
   receive_element (parse plenty) (rbuf d pre (be16 (ucast ty) @ be16 (of_nat n) @ enc v @ rest)) =
     Some (ucast ty, Inl CW_ERROR_INVALID_FORMAT)"
  using refuses [of v n d "pre @ be16 (ucast ty) @ be16 (of_nat n)" rest]
  by (simp add: receive_element_def CWParseFormatMsgElem_rbuf unat_of_nat16)

end

subsection \<open>Elements of both ends\<close>

definition CWAssembleMsgElemResultCode ::
  "(nat \<Rightarrow> bool) \<Rightarrow> u32 \<Rightarrow> (CWErrorCode + cw_msg) option" where
  "CWAssembleMsgElemResultCode alloc code = with_message alloc 4 (\<lambda>m. do {
     m \<leftarrow> CWProtocolStore32 m code;
     CWAssembleMsgElem alloc (Some m) CW_MSG_ELEMENT_RESULT_CODE_CW_TYPE })"

definition CWParseResultCode ::
  "cw_msg option \<Rightarrow> nat \<Rightarrow> (CWErrorCode + u32 \<times> cw_msg) option" where
  "CWParseResultCode = CWParseMessageElement (\<lambda>m. do {
     (v, m) \<leftarrow> CWProtocolRetrieve32 m; Some (Inr (v, m)) })"

definition CWAssembleMsgElemSessionID ::
  "(nat \<Rightarrow> bool) \<Rightarrow> u32 \<Rightarrow> (CWErrorCode + cw_msg) option" where
  "CWAssembleMsgElemSessionID alloc sessionID = with_message alloc 4 (\<lambda>m. do {
     m \<leftarrow> CWProtocolStore32 m sessionID;
     CWAssembleMsgElem alloc (Some m) CW_MSG_ELEMENT_SESSION_ID_CW_TYPE })"

text \<open>When \<open>malloc\<close> fails, \<open>*valPtr\<close> is \<open>NULL\<close>: the code tests \<open>valPtr\<close> instead and goes on.\<close>

definition CWParseACName ::
  "(nat \<Rightarrow> bool) \<Rightarrow> cw_msg option \<Rightarrow> nat \<Rightarrow> (CWErrorCode + u8 list option \<times> cw_msg) option" where
  "CWParseACName alloc msgPtr len = CWParseMessageElement (\<lambda>m. do {
     (s, m) \<leftarrow> CWProtocolRetrieveStr alloc len m; Some (Inr (s, m)) }) msgPtr len"

text \<open>An IPv4 socket address; \<open>s_addr\<close> and \<open>sin_port\<close> are in network order.\<close>

record sockaddr_in =
  s_addr :: u32
  sin_family :: nat
  sin_port :: u16

definition AF_INET :: nat where "AF_INET = 2"
definition AF_INET6 :: nat where "AF_INET6 = 10"
definition CW_CONTROL_PORT :: u16 where "CW_CONTROL_PORT = 1234"

record CWRadioAdminInfoValues =
  ai_ID :: u32
  ai_state :: u32
  ai_cause :: u32

record CWRadioOperationalInfoValues =
  oi_ID :: u32
  oi_state :: u32
  oi_cause :: u32

text \<open>The cause is left as it was in \<open>*valPtr\<close>.\<close>

definition CWParseWTPRadioAdminState ::
  "CWRadioAdminInfoValues \<Rightarrow> cw_msg option \<Rightarrow> nat \<Rightarrow>
     (CWErrorCode + CWRadioAdminInfoValues \<times> cw_msg) option" where
  "CWParseWTPRadioAdminState valPtr = CWParseMessageElement (\<lambda>m. do {
     (i, m) \<leftarrow> CWProtocolRetrieve8 m;
     (st, m) \<leftarrow> CWProtocolRetrieve8 m;
     Some (Inr (valPtr\<lparr>ai_ID := ucast i, ai_state := ucast st\<rparr>, m)) })"

definition CWParseWTPRadioOperationalState ::
  "cw_msg option \<Rightarrow> nat \<Rightarrow> (CWErrorCode + CWRadioOperationalInfoValues \<times> cw_msg) option" where
  "CWParseWTPRadioOperationalState = CWParseMessageElement (\<lambda>m. do {
     (i, m) \<leftarrow> CWProtocolRetrieve8 m;
     (st, m) \<leftarrow> CWProtocolRetrieve8 m;
     (c, m) \<leftarrow> CWProtocolRetrieve8 m;
     Some (Inr (\<lparr>oi_ID = ucast i, oi_state = ucast st, oi_cause = ucast c\<rparr>, m)) })"

lemma CWParseMessageElement_rbuf [cw_wire]:
  "CWParseMessageElement body (Some (rbuf d pre bs)) len = do {
     r \<leftarrow> body (rbuf d pre bs);
     Some (case r of
             Inl e \<Rightarrow> Inl e
           | Inr (v, m') \<Rightarrow>
               if int (offset m') - int (length pre) = int len then Inr (v, m')
               else Inl CW_ERROR_INVALID_FORMAT) }"
  by (simp only: CWParseMessageElement_def option.case rbuf_sel)

interpretation result_code: fixed_element CW_MSG_ELEMENT_RESULT_CODE_CW_TYPE be32 "\<lambda>_. True"
  CWAssembleMsgElemResultCode "\<lambda>_. CWParseResultCode"
  by unfold_locales
    (auto simp: CWAssembleMsgElemResultCode_def CWParseResultCode_def cw_wire)


end
