(* ===== verification/Lists.thy ===== *)
theory Lists
  imports Prelude
begin

text \<open>
  \<open>CWList.c\<close>: the singly linked list of opaque data pointers. The chain of
  \<open>CWListElement\<close>s reachable from a \<open>CWList\<close> is the list of its data fields; a \<open>CWList *\<close> argument
  is the list before the call and the list returned after it. Each cell is
  \<open>sizeof_CWListElement\<close> bytes of \<open>malloc\<close>. A \<open>NULL\<close> data, element or function pointer is \<open>None\<close>.
\<close>

definition sizeof_CWListElement :: nat where "sizeof_CWListElement = 16"

datatype CWListIterateMode = CW_LIST_ITERATE_RESET | CW_LIST_ITERATE

definition CWAddElementToList ::
  "(nat \<Rightarrow> bool) \<Rightarrow> 'a list \<Rightarrow> 'a option \<Rightarrow> bool \<times> 'a list" where
  "CWAddElementToList alloc list element =
     (case element of
        None \<Rightarrow> (False, list)
      | Some d \<Rightarrow> if alloc sizeof_CWListElement then (True, d # list) else (False, list))"

text \<open>The walk to the last cell, which is then linked to the new one.\<close>

fun link_at_tail :: "'a list \<Rightarrow> 'a \<Rightarrow> 'a list" where
  "link_at_tail [] d = [d]"
| "link_at_tail (x # rest) d = x # link_at_tail rest d"

definition CWAddElementToListTail ::
  "(nat \<Rightarrow> bool) \<Rightarrow> 'a list \<Rightarrow> 'a option \<Rightarrow> bool \<times> 'a list" where
  "CWAddElementToListTail alloc list element =
     (case element of
        None \<Rightarrow> (False, list)
      | Some d \<Rightarrow>
          if alloc sizeof_CWListElement then (True, link_at_tail list d) else (False, list))"

fun CWListGetFirstElem :: "'a list \<Rightarrow> 'a option \<times> 'a list" where
  "CWListGetFirstElem [] = (None, [])"
| "CWListGetFirstElem (d # rest) = (Some d, rest)"

text \<open>The static iterator \<open>l\<close> is the part of the chain still to visit.\<close>

definition CWListGetNext ::
  "'a list \<Rightarrow> 'a list \<Rightarrow> CWListIterateMode \<Rightarrow> 'a option \<times> 'a list" where
  "CWListGetNext l list mode =
     (if list = [] then (None, l)
      else
        (case (if mode = CW_LIST_ITERATE_RESET then list else l) of
           [] \<Rightarrow> (None, l)
         | d # rest \<Rightarrow> (Some d, rest)))"

fun search_from :: "'b \<Rightarrow> ('b \<Rightarrow> 'a \<Rightarrow> bool) \<Rightarrow> 'a list \<Rightarrow> 'a option" where
  "search_from base compare [] = None"
| "search_from base compare (d # rest) =
     (if compare base d then Some d else search_from base compare rest)"

definition CWSearchInList ::
  "'a list \<Rightarrow> 'b option \<Rightarrow> ('b \<Rightarrow> 'a \<Rightarrow> bool) option \<Rightarrow> 'a option" where
  "CWSearchInList list baseElement compareFunc =
     (case (baseElement, compareFunc) of
        (Some base, Some compare) \<Rightarrow> search_from base compare list
      | _ \<Rightarrow> None)"

text \<open>The deletion loop keeps the cells already passed (\<open>passed\<close>, nearest first), the last of which
  is \<open>oldEl\<close>: the match is unlinked from it, or from the head of the list when there is none.\<close>

fun delete_from ::
  "'b \<Rightarrow> ('b \<Rightarrow> 'a \<Rightarrow> bool) \<Rightarrow> 'a list \<Rightarrow> 'a list \<Rightarrow> 'a option \<times> 'a list" where
  "delete_from base compare passed [] = (None, rev passed)"
| "delete_from base compare passed (d # rest) =
     (if compare base d then (Some d, rev passed @ rest)
      else delete_from base compare (d # passed) rest)"

definition CWDeleteInList ::
  "'a list \<Rightarrow> 'b option \<Rightarrow> ('b \<Rightarrow> 'a \<Rightarrow> bool) option \<Rightarrow> 'a option \<times> 'a list" where
  "CWDeleteInList list baseElement compareFunc =
     (case (baseElement, compareFunc) of
        (Some base, Some compare) \<Rightarrow> delete_from base compare [] list
      | _ \<Rightarrow> (None, list))"

text \<open>The calls of \<open>deleteFunc\<close> are threaded through the state it works on.\<close>

fun delete_all :: "('a \<Rightarrow> 's \<Rightarrow> 's) \<Rightarrow> 'a list \<Rightarrow> 's \<Rightarrow> 's \<times> 'a list" where
  "delete_all f [] s = (s, [])"
| "delete_all f (d # rest) s = delete_all f rest (f d s)"

definition CWDeleteList :: "('a \<Rightarrow> 's \<Rightarrow> 's) option \<Rightarrow> 'a list \<Rightarrow> 's \<Rightarrow> 's \<times> 'a list" where
  "CWDeleteList deleteFunc list s =
     (case deleteFunc of
        None \<Rightarrow> (s, list)
      | Some f \<Rightarrow> if list = [] then (s, list) else delete_all f list s)"

fun count_from :: "int \<Rightarrow> 'a list \<Rightarrow> int" where
  "count_from count [] = count"
| "count_from count (d # rest) = count_from (count + 1) rest"

definition CWCountElementInList :: "'a list \<Rightarrow> int" where
  "CWCountElementInList list = count_from 0 list"

subsection \<open>What the operations do\<close>

lemma link_at_tail_eq [simp]: "link_at_tail xs d = xs @ [d]"
  by (induction xs) auto

lemma search_from_find: "search_from base compare xs = find (compare base) xs"
  by (induction xs) auto

lemma search_from_append:
  "\<forall>d \<in> set xs. \<not> compare base d \<Longrightarrow>
   search_from base compare (xs @ ys) = search_from base compare ys"
  by (induction xs) auto

lemma search_from_None:
  "search_from base compare xs = None \<longleftrightarrow> (\<forall>d \<in> set xs. \<not> compare base d)"
  by (induction xs) auto

lemma CWSearchInList_None_iff:
  "CWSearchInList xs (Some base) (Some compare) = None \<longleftrightarrow> (\<forall>d \<in> set xs. \<not> compare base d)"
  by (simp add: CWSearchInList_def search_from_None)

lemma delete_from_split:
  "\<forall>d \<in> set xs. \<not> compare base d \<Longrightarrow> compare base y \<Longrightarrow>
   delete_from base compare passed (xs @ y # zs) = (Some y, rev passed @ xs @ zs)"
  by (induction xs arbitrary: passed) auto

lemma delete_from_none:
  "\<forall>d \<in> set xs. \<not> compare base d \<Longrightarrow>
   delete_from base compare passed xs = (None, rev passed @ xs)"
  by (induction xs arbitrary: passed) auto

lemma delete_all_eq: "delete_all f xs s = (fold f xs s, [])"
  by (induction xs arbitrary: s) auto

lemma CWDeleteList_eq [simp]: "CWDeleteList (Some f) xs s = (fold f xs s, [])"
  by (simp add: CWDeleteList_def delete_all_eq)

lemma count_from_eq: "count_from n xs = n + int (length xs)"
  by (induction xs arbitrary: n) auto

lemma CWCountElementInList_eq [simp]: "CWCountElementInList xs = int (length xs)"
  by (simp add: CWCountElementInList_def count_from_eq)

text \<open>
  \<open>CWDeleteInList\<close> and \<open>CWSearchInList\<close> agree: deletion returns exactly the element the search
  finds; when there is one, it is the first match and it alone leaves the list, everything before
  and after it keeping its place; when there is none, the list is unchanged.
\<close>

theorem delete_removes_what_search_finds:
  "case CWDeleteInList list (Some base) (Some compare) of
     (r, list') \<Rightarrow>
       r = CWSearchInList list (Some base) (Some compare) \<and>
       (case r of
          None \<Rightarrow> list' = list \<and> (\<forall>d \<in> set list. \<not> compare base d)
        | Some y \<Rightarrow> \<exists>xs zs. list = xs @ y # zs \<and> list' = xs @ zs \<and> compare base y \<and>
                     (\<forall>d \<in> set xs. \<not> compare base d))"
proof (cases "\<exists>d \<in> set list. compare base d")
  case True
  then obtain xs y zs where "list = xs @ y # zs" "compare base y" "\<forall>d \<in> set xs. \<not> compare base d"
    by (metis split_list_first_prop)
  then show ?thesis
    by (auto simp: CWDeleteInList_def CWSearchInList_def delete_from_split search_from_append)
next
  case False
  moreover from False have "search_from base compare list = None"
    by (simp add: search_from_None)
  ultimately show ?thesis
    by (simp add: CWDeleteInList_def CWSearchInList_def delete_from_none)
qed

lemma delete_removes_what_search_finds_witness:
  "CWDeleteInList [3, 8, 5, 8 :: nat] (Some 8) (Some (=)) = (Some 8, [3, 5, 8]) \<and>
   (case CWDeleteInList [3, 8, 5, 8 :: nat] (Some 8) (Some (=)) of
      (r, _) \<Rightarrow> r = CWSearchInList [3, 8, 5, 8] (Some 8) (Some (=)))"
  using delete_removes_what_search_finds [of "[3, 8, 5, 8 :: nat]" "8 :: nat" "(=)"]
  by (auto simp: CWDeleteInList_def)

text \<open>The iterator visits every element once, in order, and then reports the end.\<close>

fun iterate_list :: "nat \<Rightarrow> 'a list \<Rightarrow> 'a list \<Rightarrow> 'a option list" where
  "iterate_list 0 l list = []"
| "iterate_list (Suc n) l list =
     (case CWListGetNext l list CW_LIST_ITERATE of (r, l') \<Rightarrow> r # iterate_list n l' list)"

lemma iterate_list_suffix:
  "list \<noteq> [] \<Longrightarrow> iterate_list (Suc (length l)) l list = map Some l @ [None]"
  by (induction l) (simp_all add: CWListGetNext_def)

lemma iterate_list_from_reset:
  assumes "list = d # rest"
  shows "CWListGetNext l list CW_LIST_ITERATE_RESET = (Some d, rest)"
    and "iterate_list (length list) rest list = map Some rest @ [None]"
  using assms iterate_list_suffix [of list rest] by (simp_all add: CWListGetNext_def)

end
