(* ===== verification/WTP_Elements.thy ===== *)
theory WTP_Elements
  imports Elements Lists
begin

text \<open>
  The message elements the wireless termination point sends: the assemblers of
  \<open>WTPProtocol.c\<close> with the getters of \<open>WTPProtocol_User.c\<close> they call, and the parsers of
  \<open>ACProtocol.c\<close> that read them. \<open>WTP_globals\<close> holds the global variables the getters read;
  \<open>getsockname\<close> is the fields \<open>sock_ipv4\<close> and \<open>sock_ipv6\<close>. A getter that returns \<open>CW_FALSE\<close>
  without raising an error is \<open>Inl CW_ERROR_NONE\<close>.
\<close>

subsection \<open>State of the WTP\<close>

record WTPRebootStatisticsInfo =
  rs_rebootCount :: u32
  rs_ACInitiatedCount :: u32
  rs_linkFailurerCount :: u32
  rs_SWFailureCount :: u32
  rs_HWFailuireCount :: u32
  rs_otherFailureCount :: u32
  rs_unknownFailureCount :: u32
  rs_lastFailureType :: u32

record WTPRadioStatisticsInfo =
  ra_lastFailureType :: u32
  ra_resetCount :: u16
  ra_SWFailureCount :: u16
  ra_HWFailuireCount :: u16
  ra_otherFailureCount :: u16
  ra_unknownFailureCount :: u16
  ra_configUpdateCount :: u16
  ra_channelChangeCount :: u16
  ra_bandChangeCount :: u16
  ra_currentNoiseFloor :: u16

record CWWTPRadioInfoValues =
  radioID :: u32
  decryptErrorMACAddressList :: "u8 list list"
  reportInterval :: u32
  adminState :: u32
  adminCause :: u32
  operationalState :: u32
  operationalCause :: u32
  TxQueueLevel :: u32
  wirelessLinkFramesPerSec :: u32
  statistics :: WTPRadioStatisticsInfo

record WTP_globals =
  gWTPName :: "u8 list"
  gWTPLocation :: "u8 list"
  gACInfo_name :: "u8 list"
  gRadiosInfo :: "CWWTPRadioInfoValues list"
  gWTPRebootStatistics :: WTPRebootStatisticsInfo
  gWTPStatisticsTimer :: u32
  gIPv4StatusDuplicate :: u32
  gIPv6StatusDuplicate :: u32
  sock_ipv4 :: u32
  sock_ipv6 :: "u8 list"

definition CWWTPResetRebootStatistics :: "WTPRebootStatisticsInfo \<Rightarrow> WTPRebootStatisticsInfo" where
  "CWWTPResetRebootStatistics s = s\<lparr>rs_rebootCount := 0, rs_ACInitiatedCount := 0,
     rs_linkFailurerCount := 0, rs_SWFailureCount := 0, rs_HWFailuireCount := 0,
     rs_otherFailureCount := 0, rs_unknownFailureCount := 0, rs_lastFailureType := 0\<rparr>"

definition CWWTPResetRadioStatistics :: "WTPRadioStatisticsInfo \<Rightarrow> WTPRadioStatisticsInfo" where
  "CWWTPResetRadioStatistics s = s\<lparr>ra_lastFailureType := 255, ra_resetCount := 0,
     ra_SWFailureCount := 0, ra_HWFailuireCount := 0, ra_otherFailureCount := 0,
     ra_unknownFailureCount := 0, ra_configUpdateCount := 0, ra_channelChangeCount := 0,
     ra_bandChangeCount := 0, ra_currentNoiseFloor := 0\<rparr>"

subsection \<open>Getters\<close>

definition CWWTPGetDiscoveryType :: u32 where "CWWTPGetDiscoveryType = 1"
definition CWWTPGetMaxRadios :: u32 where "CWWTPGetMaxRadios = 1"
definition CWWTPGetRadiosInUse :: "WTP_globals \<Rightarrow> u32" where
  "CWWTPGetRadiosInUse g = of_nat (length (gRadiosInfo g))"
definition CWWTPGetEncCapabilities :: u32 where "CWWTPGetEncCapabilities = 2569"
definition CWWTPGetFrameTunnelMode :: u32 where "CWWTPGetFrameTunnelMode = 1"
definition CWWTPGetMACType :: u32 where "CWWTPGetMACType = 0"
definition CWWTPGetIPv4Address :: "bool \<Rightarrow> WTP_globals \<Rightarrow> u32" where
  "CWWTPGetIPv4Address le g = htonl le (sock_ipv4 g)"

text \<open>
  An \<open>int\<close> as its 4 bytes in the host's memory. A vendor value is a block of \<open>sizeof(long int)\<close>
  bytes (\<open>longsz\<close>) of which the code assigns the first four: the others, \<open>junk\<close>, are what \<open>malloc\<close>
  left there.
\<close>

definition int_mem :: "bool \<Rightarrow> u32 \<Rightarrow> u8 list" where
  "int_mem le v = (if le then rev (be32 v) else be32 v)"

definition vendor_info :: "bool \<Rightarrow> nat \<Rightarrow> u8 list \<Rightarrow> u32 \<Rightarrow> u32 \<Rightarrow> CWVendorInfoValues" where
  "vendor_info le longsz junk t v = \<lparr>vendorIdentifier = 23456, vi_type = t, vi_length = longsz,
     valuePtr = take longsz (int_mem le v @ junk)\<rparr>"

definition CWWTPGetBoardData ::
  "(nat \<Rightarrow> bool) \<Rightarrow> bool \<Rightarrow> nat \<Rightarrow> u8 list \<Rightarrow> CWErrorCode + CWVendorInfoValues list" where
  "CWWTPGetBoardData alloc le longsz junk =
     (if \<not> alloc (sizeof_CWVendorInfoValues * 2) \<or> \<not> alloc longsz then Inl CW_ERROR_OUT_OF_MEMORY
      else Inr [vendor_info le longsz junk 0 123456, vendor_info le longsz junk 1 123456])"

definition CWWTPGetVendorInfos ::
  "(nat \<Rightarrow> bool) \<Rightarrow> bool \<Rightarrow> nat \<Rightarrow> u8 list \<Rightarrow> CWErrorCode + CWVendorInfoValues list" where
  "CWWTPGetVendorInfos alloc le longsz junk =
     (if \<not> alloc (sizeof_CWVendorInfoValues * 3) \<or> \<not> alloc longsz then Inl CW_ERROR_OUT_OF_MEMORY
      else Inr [vendor_info le longsz junk 0 123456, vendor_info le longsz junk 1 12347,
                vendor_info le longsz junk 2 1234568])"

definition sizeof_radio_values :: nat where "sizeof_radio_values = 12"

definition CWGetWTPRadiosAdminState ::
  "(nat \<Rightarrow> bool) \<Rightarrow> WTP_globals \<Rightarrow> CWErrorCode + CWRadioAdminInfoValues list" where
  "CWGetWTPRadiosAdminState alloc g =
     (if \<not> alloc (sizeof_radio_values * length (gRadiosInfo g)) then Inl CW_ERROR_OUT_OF_MEMORY
      else Inr (map (\<lambda>r. \<lparr>ai_ID = radioID r, ai_state = adminState r, ai_cause = adminCause r\<rparr>)
                 (gRadiosInfo g)))"

definition radio_operational :: "CWWTPRadioInfoValues \<Rightarrow> CWRadioOperationalInfoValues" where
  "radio_operational r =
     \<lparr>oi_ID = radioID r, oi_state = operationalState r, oi_cause = operationalCause r\<rparr>"

text \<open>A negative \<open>radioID\<close> asks for all radios, another one for the first radio with that identifier.\<close>

definition CWGetWTPRadiosOperationalState ::
  "(nat \<Rightarrow> bool) \<Rightarrow> WTP_globals \<Rightarrow> int \<Rightarrow> CWErrorCode + CWRadioOperationalInfoValues list" where
  "CWGetWTPRadiosOperationalState alloc g rid =
     (if rid < 0 then
        (if \<not> alloc (sizeof_radio_values * length (gRadiosInfo g)) then Inl CW_ERROR_OUT_OF_MEMORY
         else Inr (map radio_operational (gRadiosInfo g)))
      else
        (case find (\<lambda>r. radioID r = of_int rid) (gRadiosInfo g) of
           None \<Rightarrow> Inl CW_ERROR_NONE
         | Some r \<Rightarrow> if \<not> alloc sizeof_radio_values then Inl CW_ERROR_OUT_OF_MEMORY
                     else Inr [radio_operational r]))"

record CWDecryptErrorReportValues =
  de_ID :: u32
  de_numEntries :: u8
  de_MACs :: "u8 list"

definition sizeof_CWDecryptErrorReportValues :: nat where "sizeof_CWDecryptErrorReportValues = 16"

text \<open>\<open>numEntries\<close> is an \<open>unsigned char\<close>; the copy walks \<open>numEntries\<close> cells of a list.\<close>

definition decrypt_entry ::
  "(nat \<Rightarrow> bool) \<Rightarrow> CWWTPRadioInfoValues \<Rightarrow> u8 list list \<Rightarrow>
     (CWErrorCode + CWDecryptErrorReportValues) option" where
  "decrypt_entry alloc r walked =
     (let n = unat (of_int (CWCountElementInList (decryptErrorMACAddressList r)) :: u8)
      in if \<not> alloc (6 * n) then Some (Inl CW_ERROR_OUT_OF_MEMORY)
         else if n > length walked then None
         else Some (Inr \<lparr>de_ID = radioID r, de_numEntries = of_nat n, de_MACs = concat (take n walked)\<rparr>))"

fun decrypt_entries ::
  "(nat \<Rightarrow> bool) \<Rightarrow> CWWTPRadioInfoValues list \<Rightarrow>
     (CWErrorCode + CWDecryptErrorReportValues list) option" where
  "decrypt_entries alloc [] = Some (Inr [])"
| "decrypt_entries alloc (r # rs) = do {
     e \<leftarrow> decrypt_entry alloc r (decryptErrorMACAddressList r);
     (case e of
        Inl e \<Rightarrow> Some (Inl e)
      | Inr v \<Rightarrow> do { rest \<leftarrow> decrypt_entries alloc rs; Some (map_sum id ((#) v) rest) })
   }"

text \<open>For one radio the loop goes on after a match, so the last match stays; the addresses copied are
  those of the first radio.\<close>

fun decrypt_search ::
  "(nat \<Rightarrow> bool) \<Rightarrow> u8 list list \<Rightarrow> u32 \<Rightarrow> CWDecryptErrorReportValues option \<Rightarrow>
     CWWTPRadioInfoValues list \<Rightarrow> (CWErrorCode + CWDecryptErrorReportValues option) option" where
  "decrypt_search alloc first rid found [] = Some (Inr found)"
| "decrypt_search alloc first rid found (r # rs) =
     (if radioID r = rid then
        (if \<not> alloc sizeof_CWDecryptErrorReportValues then Some (Inl CW_ERROR_OUT_OF_MEMORY)
         else do {
           e \<leftarrow> decrypt_entry alloc r first;
           (case e of
              Inl e \<Rightarrow> Some (Inl e)
            | Inr v \<Rightarrow> decrypt_search alloc first rid (Some v) rs)
         })
      else decrypt_search alloc first rid found rs)"

definition CWGetDecryptErrorReport ::
  "(nat \<Rightarrow> bool) \<Rightarrow> WTP_globals \<Rightarrow> int \<Rightarrow> (CWErrorCode + CWDecryptErrorReportValues list) option" where
  "CWGetDecryptErrorReport alloc g rid =
     (if rid < 0 then
        (if \<not> alloc (sizeof_CWDecryptErrorReportValues * length (gRadiosInfo g))
         then Some (Inl CW_ERROR_OUT_OF_MEMORY)
         else decrypt_entries alloc (gRadiosInfo g))
      else do {
        r \<leftarrow> decrypt_search alloc
               (case gRadiosInfo g of [] \<Rightarrow> [] | r # _ \<Rightarrow> decryptErrorMACAddressList r)
               (of_int rid) None (gRadiosInfo g);
        Some (case r of
                Inl e \<Rightarrow> Inl e
              | Inr None \<Rightarrow> Inl CW_ERROR_NONE
              | Inr (Some v) \<Rightarrow> Inr [v])
      })"

record CWACNameWithIndexValues =
  acn_index :: u32
  acn_ACName :: "u8 list option"

text \<open>The byte strings of the C literals.\<close>

definition c_string :: "string \<Rightarrow> u8 list" where
  "c_string s = map (\<lambda>c. of_nat (of_char c)) s"

definition CWWTPGetACNameWithIndex ::
  "(nat \<Rightarrow> bool) \<Rightarrow> CWErrorCode + CWACNameWithIndexValues list" where
  "CWWTPGetACNameWithIndex alloc =
     (if \<not> alloc (16 * 2) \<or> \<not> alloc (length (c_string ''ACPrimary'') + 1) \<or>
         \<not> alloc (length (c_string ''ACSecondary'') + 1)
      then Inl CW_ERROR_OUT_OF_MEMORY
      else Inr [\<lparr>acn_index = 0, acn_ACName = Some (c_string ''ACPrimary'')\<rparr>,
                \<lparr>acn_index = 1, acn_ACName = Some (c_string ''ACSecondary'')\<rparr>])"


subsection \<open>Assembling\<close>

definition CWAssembleMsgElemACName ::
  "(nat \<Rightarrow> bool) \<Rightarrow> WTP_globals \<Rightarrow> (CWErrorCode + cw_msg) option" where
  "CWAssembleMsgElemACName alloc g = with_message alloc (length (gACInfo_name g)) (\<lambda>m. do {
     m \<leftarrow> CWProtocolStoreStr m (gACInfo_name g);
     CWAssembleMsgElem alloc (Some m) CW_MSG_ELEMENT_AC_NAME_CW_TYPE })"

definition CWAssembleMsgElemACNameWithIndex ::
  "(nat \<Rightarrow> bool) \<Rightarrow> (CWErrorCode + cw_msg) option" where
  "CWAssembleMsgElemACNameWithIndex alloc =
     (case CWWTPGetACNameWithIndex alloc of
        Inl e \<Rightarrow> Some (Inl e)
      | Inr infos \<Rightarrow>
          assemble_array alloc (\<lambda>v. do {
            name \<leftarrow> acn_ACName v;
            with_message alloc (1 + length name) (\<lambda>m. do {
              m \<leftarrow> CWProtocolStore8 m (ucast (acn_index v));
              m \<leftarrow> CWProtocolStoreStr m name;
              CWAssembleMsgElem alloc (Some m) CW_MSG_ELEMENT_AC_NAME_INDEX_CW_TYPE })
          }) infos)"

definition debug_data :: "u8 list" where
  "debug_data = c_string '' #### DATA DEBUG INFO #### ''"

definition CWAssembleMsgElemDataTransferData ::
  "(nat \<Rightarrow> bool) \<Rightarrow> u32 \<Rightarrow> (CWErrorCode + cw_msg) option" where
  "CWAssembleMsgElemDataTransferData alloc data_type = with_message alloc (2 + length debug_data) (\<lambda>m. do {
     m \<leftarrow> CWProtocolStore8 m (ucast data_type);
     m \<leftarrow> CWProtocolStore8 m (of_nat (length debug_data));
     m \<leftarrow> CWProtocolStoreStr m debug_data;
     CWAssembleMsgElem alloc (Some m) CW_MSG_ELEMENT_DATA_TRANSFER_DATA_CW_TYPE })"

definition CWAssembleMsgElemDiscoveryType ::
  "(nat \<Rightarrow> bool) \<Rightarrow> (CWErrorCode + cw_msg) option" where
  "CWAssembleMsgElemDiscoveryType alloc = with_message alloc 1 (\<lambda>m. do {
     m \<leftarrow> CWProtocolStore8 m (ucast CWWTPGetDiscoveryType);
     CWAssembleMsgElem alloc (Some m) CW_MSG_ELEMENT_DISCOVERY_TYPE_CW_TYPE })"

definition CWAssembleMsgElemLocationData ::
  "(nat \<Rightarrow> bool) \<Rightarrow> WTP_globals \<Rightarrow> (CWErrorCode + cw_msg) option" where
  "CWAssembleMsgElemLocationData alloc g = with_message alloc (length (gWTPLocation g)) (\<lambda>m. do {
     m \<leftarrow> CWProtocolStoreStr m (gWTPLocation g);
     CWAssembleMsgElem alloc (Some m) CW_MSG_ELEMENT_LOCATION_DATA_CW_TYPE })"

definition CWAssembleMsgElemStatisticsTimer ::
  "(nat \<Rightarrow> bool) \<Rightarrow> WTP_globals \<Rightarrow> (CWErrorCode + cw_msg) option" where
  "CWAssembleMsgElemStatisticsTimer alloc g = with_message alloc 2 (\<lambda>m. do {
     m \<leftarrow> CWProtocolStore16 m (ucast (gWTPStatisticsTimer g));
     CWAssembleMsgElem alloc (Some m) CW_MSG_ELEMENT_STATISTICS_TIMER_CW_TYPE })"

text \<open>\<open>infos.vendorInfos[0]\<close> is read even when the array is empty, which is undefined.\<close>

definition CWAssembleMsgElemWTPBoardData ::
  "(nat \<Rightarrow> bool) \<Rightarrow> bool \<Rightarrow> nat \<Rightarrow> u8 list \<Rightarrow> (CWErrorCode + cw_msg) option" where
  "CWAssembleMsgElemWTPBoardData alloc le longsz junk =
     (case CWWTPGetBoardData alloc le longsz junk of
        Inl e \<Rightarrow> Some (Inl e)
      | Inr infos \<Rightarrow>
          with_message alloc (4 + sum_list (map (\<lambda>v. 4 + vi_length v) infos)) (\<lambda>m. do {
            m \<leftarrow> (case infos of [] \<Rightarrow> None | v # _ \<Rightarrow> CWProtocolStore32 m (vendorIdentifier v));
            m \<leftarrow> store_vendor_tlvs le infos m;
            CWAssembleMsgElem alloc (Some m) CW_MSG_ELEMENT_WTP_BOARD_DATA_CW_TYPE }))"

definition CWAssembleMsgElemWTPDescriptor ::
  "(nat \<Rightarrow> bool) \<Rightarrow> bool \<Rightarrow> nat \<Rightarrow> u8 list \<Rightarrow> WTP_globals \<Rightarrow> (CWErrorCode + cw_msg) option" where
  "CWAssembleMsgElemWTPDescriptor alloc le longsz junk g =
     (case CWWTPGetVendorInfos alloc le longsz junk of
        Inl e \<Rightarrow> Some (Inl e)
      | Inr infos \<Rightarrow>
          with_message alloc (4 + sum_list (map (\<lambda>v. 8 + vi_length v) infos)) (\<lambda>m. do {
            m \<leftarrow> CWProtocolStore8 m (ucast CWWTPGetMaxRadios);
            m \<leftarrow> CWProtocolStore8 m (ucast (CWWTPGetRadiosInUse g));
            m \<leftarrow> CWProtocolStore16 m (ucast CWWTPGetEncCapabilities);
            m \<leftarrow> store_vendor_infos le infos m;
            CWAssembleMsgElem alloc (Some m) CW_MSG_ELEMENT_WTP_DESCRIPTOR_CW_TYPE }))"

definition CWAssembleMsgElemWTPFrameTunnelMode ::
  "(nat \<Rightarrow> bool) \<Rightarrow> (CWErrorCode + cw_msg) option" where
  "CWAssembleMsgElemWTPFrameTunnelMode alloc = with_message alloc 1 (\<lambda>m. do {
     m \<leftarrow> CWProtocolStore8 m (ucast CWWTPGetFrameTunnelMode);
     CWAssembleMsgElem alloc (Some m) CW_MSG_ELEMENT_WTP_FRAME_TUNNEL_MODE_CW_TYPE })"

definition CWAssembleMsgElemWTPIPv4Address ::
  "(nat \<Rightarrow> bool) \<Rightarrow> bool \<Rightarrow> WTP_globals \<Rightarrow> (CWErrorCode + cw_msg) option" where
  "CWAssembleMsgElemWTPIPv4Address alloc le g = with_message alloc 4 (\<lambda>m. do {
     m \<leftarrow> CWProtocolStore32 m (CWWTPGetIPv4Address le g);
     CWAssembleMsgElem alloc (Some m) CW_MSG_ELEMENT_WTP_IPV4_ADDRESS_CW_TYPE })"

definition CWAssembleMsgElemWTPMACType ::
  "(nat \<Rightarrow> bool) \<Rightarrow> (CWErrorCode + cw_msg) option" where
  "CWAssembleMsgElemWTPMACType alloc = with_message alloc 1 (\<lambda>m. do {
     m \<leftarrow> CWProtocolStore8 m (ucast CWWTPGetMACType);
     CWAssembleMsgElem alloc (Some m) CW_MSG_ELEMENT_WTP_MAC_TYPE_CW_TYPE })"

definition CWAssembleMsgElemWTPName ::
  "(nat \<Rightarrow> bool) \<Rightarrow> WTP_globals \<Rightarrow> (CWErrorCode + cw_msg) option" where
  "CWAssembleMsgElemWTPName alloc g = with_message alloc (length (gWTPName g)) (\<lambda>m. do {
     m \<leftarrow> CWProtocolStoreStr m (gWTPName g);
     CWAssembleMsgElem alloc (Some m) CW_MSG_ELEMENT_WTP_NAME_CW_TYPE })"

text \<open>
  The two assemblers of radio statistics ignore the result of \<open>CWAssembleMsgElem\<close> and return
  \<open>CW_TRUE\<close>: when the framed message cannot be allocated, the body goes out without its header.
  A radio index outside the array is an access out of bounds.
\<close>

definition ignore_failure :: "cw_msg \<Rightarrow> CWErrorCode + cw_msg \<Rightarrow> CWErrorCode + cw_msg" where
  "ignore_failure m r = (case r of Inl _ \<Rightarrow> Inr m | Inr m' \<Rightarrow> Inr m')"

definition array_get :: "'a list \<Rightarrow> int \<Rightarrow> 'a option" where
  "array_get xs i = (if 0 \<le> i \<and> nat i < length xs then Some (xs ! nat i) else None)"

definition CWAssembleMsgElemWTPOperationalStatistics ::
  "(nat \<Rightarrow> bool) \<Rightarrow> WTP_globals \<Rightarrow> int \<Rightarrow> (CWErrorCode + cw_msg) option" where
  "CWAssembleMsgElemWTPOperationalStatistics alloc g radio =
     (if radio < 0 \<or> radio \<ge> int (length (gRadiosInfo g)) then Some (Inl CW_ERROR_WRONG_ARG)
      else with_message alloc 4 (\<lambda>m. do {
        r \<leftarrow> array_get (gRadiosInfo g) radio;
        m \<leftarrow> CWProtocolStore8 m (of_int radio);
        m \<leftarrow> CWProtocolStore8 m (ucast (TxQueueLevel r));
        m \<leftarrow> CWProtocolStore16 m (ucast (wirelessLinkFramesPerSec r));
        e \<leftarrow> CWAssembleMsgElem alloc (Some m) CW_MSG_ELEMENT_WTP_OPERAT_STATISTICS_CW_TYPE;
        Some (ignore_failure m e) }))"

definition CWAssembleMsgElemWTPRadioStatistics ::
  "(nat \<Rightarrow> bool) \<Rightarrow> WTP_globals \<Rightarrow> int \<Rightarrow> (CWErrorCode + cw_msg) option" where
  "CWAssembleMsgElemWTPRadioStatistics alloc g radio =
     (if radio < 0 \<or> radio > int (length (gRadiosInfo g)) then Some (Inl CW_ERROR_WRONG_ARG)
      else with_message alloc 20 (\<lambda>m. do {
        m \<leftarrow> CWProtocolStore8 m (of_int radio);
        r \<leftarrow> array_get (gRadiosInfo g) radio;
        let st = statistics r;
        m \<leftarrow> CWProtocolStore8 m (ucast (ra_lastFailureType st));
        m \<leftarrow> CWProtocolStore16 m (ra_resetCount st);
        m \<leftarrow> CWProtocolStore16 m (ra_SWFailureCount st);
        m \<leftarrow> CWProtocolStore16 m (ra_HWFailuireCount st);
        m \<leftarrow> CWProtocolStore16 m (ra_otherFailureCount st);
        m \<leftarrow> CWProtocolStore16 m (ra_unknownFailureCount st);
        m \<leftarrow> CWProtocolStore16 m (ra_configUpdateCount st);
        m \<leftarrow> CWProtocolStore16 m (ra_channelChangeCount st);
        m \<leftarrow> CWProtocolStore16 m (ra_bandChangeCount st);
        m \<leftarrow> CWProtocolStore16 m (ra_currentNoiseFloor st);
        e \<leftarrow> CWAssembleMsgElem alloc (Some m) CW_MSG_ELEMENT_WTP_RADIO_STATISTICS_CW_TYPE;
        Some (ignore_failure m e) }))"

definition CWAssembleMsgElemWTPRebootStatistics ::
  "(nat \<Rightarrow> bool) \<Rightarrow> WTP_globals \<Rightarrow> (CWErrorCode + cw_msg) option" where
  "CWAssembleMsgElemWTPRebootStatistics alloc g = with_message alloc 15 (\<lambda>m. do {
     let st = gWTPRebootStatistics g;
     m \<leftarrow> CWProtocolStore16 m (ucast (rs_rebootCount st));
     m \<leftarrow> CWProtocolStore16 m (ucast (rs_ACInitiatedCount st));
     m \<leftarrow> CWProtocolStore16 m (ucast (rs_linkFailurerCount st));
     m \<leftarrow> CWProtocolStore16 m (ucast (rs_SWFailureCount st));
     m \<leftarrow> CWProtocolStore16 m (ucast (rs_HWFailuireCount st));
     m \<leftarrow> CWProtocolStore16 m (ucast (rs_otherFailureCount st));
     m \<leftarrow> CWProtocolStore16 m (ucast (rs_unknownFailureCount st));
     m \<leftarrow> CWProtocolStore8 m (ucast (rs_lastFailureType st));
     CWAssembleMsgElem alloc (Some m) CW_MSG_ELEMENT_WTP_REBOOT_STATISTICS_CW_TYPE })"

text \<open>The offending device is a constant (\<open>test version\<close> in the code).\<close>

definition test_mac :: "u8 list" where "test_mac = [103, 204, 204, 190, 180, 0]"

definition CWAssembleMsgElemDuplicateIPv4Address ::
  "(nat \<Rightarrow> bool) \<Rightarrow> bool \<Rightarrow> WTP_globals \<Rightarrow> (CWErrorCode + cw_msg) option" where
  "CWAssembleMsgElemDuplicateIPv4Address alloc le g = with_message alloc 11 (\<lambda>m. do {
     m \<leftarrow> CWProtocolStore32 m (CWWTPGetIPv4Address le g);
     m \<leftarrow> CWProtocolStore8 m (ucast (gIPv4StatusDuplicate g));
     m \<leftarrow> CWProtocolStore8 m 6;
     if \<not> alloc 6 then Some (Inl CW_ERROR_OUT_OF_MEMORY)
     else do {
       m \<leftarrow> CWProtocolStoreRawBytes m test_mac 6;
       CWAssembleMsgElem alloc (Some m) CW_MSG_ELEMENT_DUPLICATE_IPV4_ADDRESS_CW_TYPE } })"

definition CWAssembleMsgElemDuplicateIPv6Address ::
  "(nat \<Rightarrow> bool) \<Rightarrow> WTP_globals \<Rightarrow> (CWErrorCode + cw_msg) option" where
  "CWAssembleMsgElemDuplicateIPv6Address alloc g = with_message alloc 23 (\<lambda>m. do {
     m \<leftarrow> CWProtocolStoreRawBytes m (sock_ipv6 g) 16;
     m \<leftarrow> CWProtocolStore8 m (ucast (gIPv6StatusDuplicate g));
     m \<leftarrow> CWProtocolStore8 m 6;
     if \<not> alloc 6 then Some (Inl CW_ERROR_OUT_OF_MEMORY)
     else do {
       m \<leftarrow> CWProtocolStoreRawBytes m test_mac 6;
       CWAssembleMsgElem alloc (Some m) CW_MSG_ELEMENT_DUPLICATE_IPV6_ADDRESS_CW_TYPE } })"

definition assemble_admin_state ::
  "(nat \<Rightarrow> bool) \<Rightarrow> CWRadioAdminInfoValues \<Rightarrow> (CWErrorCode + cw_msg) option" where
  "assemble_admin_state alloc r = with_message alloc 2 (\<lambda>m. do {
     m \<leftarrow> CWProtocolStore8 m (ucast (ai_ID r));
     m \<leftarrow> CWProtocolStore8 m (ucast (ai_state r));
     CWAssembleMsgElem alloc (Some m) CW_MSG_ELEMENT_RADIO_ADMIN_STATE_CW_TYPE })"

definition CWAssembleMsgElemRadioAdminState ::
  "(nat \<Rightarrow> bool) \<Rightarrow> WTP_globals \<Rightarrow> (CWErrorCode + cw_msg) option" where
  "CWAssembleMsgElemRadioAdminState alloc g =
     (case CWGetWTPRadiosAdminState alloc g of
        Inl e \<Rightarrow> Some (Inl e)
      | Inr infos \<Rightarrow> assemble_array alloc (assemble_admin_state alloc) infos)"

definition assemble_operational_state ::
  "(nat \<Rightarrow> bool) \<Rightarrow> CWRadioOperationalInfoValues \<Rightarrow> (CWErrorCode + cw_msg) option" where
  "assemble_operational_state alloc r = with_message alloc 3 (\<lambda>m. do {
     m \<leftarrow> CWProtocolStore8 m (ucast (oi_ID r));
     m \<leftarrow> CWProtocolStore8 m (ucast (oi_state r));
     m \<leftarrow> CWProtocolStore8 m (ucast (oi_cause r));
     CWAssembleMsgElem alloc (Some m) CW_MSG_ELEMENT_RADIO_OPERAT_STATE_CW_TYPE })"

definition CWAssembleMsgElemRadioOperationalState ::
  "(nat \<Rightarrow> bool) \<Rightarrow> WTP_globals \<Rightarrow> int \<Rightarrow> (CWErrorCode + cw_msg) option" where
  "CWAssembleMsgElemRadioOperationalState alloc g rid =
     (case CWGetWTPRadiosOperationalState alloc g rid of
        Inl e \<Rightarrow> Some (Inl e)
      | Inr infos \<Rightarrow> assemble_array alloc (assemble_operational_state alloc) infos)"

text \<open>The message has \<open>2 + 6 * numEntries\<close> bytes; the stores add up to one more.\<close>

definition assemble_decrypt_report ::
  "(nat \<Rightarrow> bool) \<Rightarrow> CWDecryptErrorReportValues \<Rightarrow> (CWErrorCode + cw_msg) option" where
  "assemble_decrypt_report alloc r = with_message alloc (2 + 6 * unat (de_numEntries r)) (\<lambda>m. do {
     m \<leftarrow> CWProtocolStore8 m (ucast (de_ID r));
     m \<leftarrow> CWProtocolStore8 m (de_numEntries r);
     m \<leftarrow> CWProtocolStore8 m (6 * de_numEntries r);
     m \<leftarrow> CWProtocolStoreRawBytes m (de_MACs r) (6 * unat (de_numEntries r));
     CWAssembleMsgElem alloc (Some m) CW_MSG_ELEMENT_CW_DECRYPT_ER_REPORT_CW_TYPE })"

definition CWAssembleMsgElemDecryptErrorReport ::
  "(nat \<Rightarrow> bool) \<Rightarrow> WTP_globals \<Rightarrow> int \<Rightarrow> (CWErrorCode + cw_msg) option" where
  "CWAssembleMsgElemDecryptErrorReport alloc g rid = do {
     r \<leftarrow> CWGetDecryptErrorReport alloc g rid;
     (case r of
        Inl e \<Rightarrow> Some (Inl e)
      | Inr infos \<Rightarrow> assemble_array alloc (assemble_decrypt_report alloc) infos)
   }"


subsection \<open>Parsing at the AC\<close>

definition CWParseDiscoveryType :: "cw_msg option \<Rightarrow> nat \<Rightarrow> (CWErrorCode + u32 \<times> cw_msg) option" where
  "CWParseDiscoveryType = CWParseMessageElement (\<lambda>m. do {
     (v, m) \<leftarrow> CWProtocolRetrieve8 m; Some (Inr (ucast v, m)) })"

text \<open>With \<open>len = 0\<close> the string length passed on is \<open>-1\<close>: a block of 0 bytes is asked for and a copy
  of \<open>-1\<close> bytes is undefined.\<close>

definition CWParseACNameWithIndex ::
  "(nat \<Rightarrow> bool) \<Rightarrow> cw_msg option \<Rightarrow> nat \<Rightarrow> (CWErrorCode + CWACNameWithIndexValues \<times> cw_msg) option" where
  "CWParseACNameWithIndex alloc msgPtr len = CWParseMessageElement (\<lambda>m. do {
     (i, m) \<leftarrow> CWProtocolRetrieve8 m;
     (s, m) \<leftarrow> (if len = 0 then (if alloc 0 then None else Some (None, m))
               else CWProtocolRetrieveStr alloc (len - 1) m);
     Some (Inr (\<lparr>acn_index = ucast i, acn_ACName = s\<rparr>, m)) }) msgPtr len"

definition CWParseLocationData ::
  "(nat \<Rightarrow> bool) \<Rightarrow> cw_msg option \<Rightarrow> nat \<Rightarrow> (CWErrorCode + u8 list option \<times> cw_msg) option" where
  "CWParseLocationData alloc msgPtr len = CWParseMessageElement (\<lambda>m. do {
     (s, m) \<leftarrow> CWProtocolRetrieveStr alloc len m; Some (Inr (s, m)) }) msgPtr len"

definition CWParseWTPName ::
  "(nat \<Rightarrow> bool) \<Rightarrow> cw_msg option \<Rightarrow> nat \<Rightarrow> (CWErrorCode + u8 list option \<times> cw_msg) option" where
  "CWParseWTPName alloc msgPtr len = CWParseMessageElement (\<lambda>m. do {
     (s, m) \<leftarrow> CWProtocolRetrieveStr alloc len m; Some (Inr (s, m)) }) msgPtr len"

record WTPDuplicateIPv4 =
  d4_ipv4Address :: u32
  d4_status :: u32
  d4_length :: u32
  d4_MAC :: "u8 list option"

definition CWParseMsgElemDuplicateIPv4Address ::
  "(nat \<Rightarrow> bool) \<Rightarrow> cw_msg option \<Rightarrow> nat \<Rightarrow> (CWErrorCode + WTPDuplicateIPv4 \<times> cw_msg) option" where
  "CWParseMsgElemDuplicateIPv4Address alloc = CWParseMessageElement (\<lambda>m. do {
     (a, m) \<leftarrow> CWProtocolRetrieve32 m;
     (st, m) \<leftarrow> CWProtocolRetrieve8 m;
     (l, m) \<leftarrow> CWProtocolRetrieve8 m;
     (mac, m) \<leftarrow> CWProtocolRetrieveRawBytes alloc (unat l) m;
     Some (Inr (\<lparr>d4_ipv4Address = a, d4_status = ucast st, d4_length = ucast l, d4_MAC = mac\<rparr>, m)) })"

record WTPDuplicateIPv6 =
  d6_ipv6Address :: "u8 list"
  d6_status :: u32
  d6_length :: u32
  d6_MAC :: "u8 list option"

text \<open>The address is read byte by byte through a block of one byte each; \<open>NULL\<close> is dereferenced when
  \<open>malloc\<close> fails.\<close>

fun read_bytes_singly :: "(nat \<Rightarrow> bool) \<Rightarrow> nat \<Rightarrow> cw_msg \<Rightarrow> (u8 list \<times> cw_msg) option" where
  "read_bytes_singly alloc 0 m = Some ([], m)"
| "read_bytes_singly alloc (Suc n) m = do {
     (aux, m) \<leftarrow> CWProtocolRetrieveRawBytes alloc 1 m;
     bs \<leftarrow> aux;
     (rest, m) \<leftarrow> read_bytes_singly alloc n m;
     Some (hd bs # rest, m)
   }"

definition CWParseMsgElemDuplicateIPv6Address ::
  "(nat \<Rightarrow> bool) \<Rightarrow> cw_msg option \<Rightarrow> nat \<Rightarrow> (CWErrorCode + WTPDuplicateIPv6 \<times> cw_msg) option" where
  "CWParseMsgElemDuplicateIPv6Address alloc = CWParseMessageElement (\<lambda>m. do {
     (a, m) \<leftarrow> read_bytes_singly alloc 16 m;
     (st, m) \<leftarrow> CWProtocolRetrieve8 m;
     (l, m) \<leftarrow> CWProtocolRetrieve8 m;
     (mac, m) \<leftarrow> CWProtocolRetrieveRawBytes alloc (unat l) m;
     Some (Inr (\<lparr>d6_ipv6Address = a, d6_status = ucast st, d6_length = ucast l, d6_MAC = mac\<rparr>, m)) })"

definition CWParseSessionID :: "cw_msg option \<Rightarrow> nat \<Rightarrow> (CWErrorCode + u32 \<times> cw_msg) option" where
  "CWParseSessionID = CWParseMessageElement (\<lambda>m. do {
     (v, m) \<leftarrow> CWProtocolRetrieve32 m; Some (Inr (v, m)) })"

definition CWParseWTPStatisticsTimer :: "cw_msg option \<Rightarrow> nat \<Rightarrow> (CWErrorCode + u32 \<times> cw_msg) option" where
  "CWParseWTPStatisticsTimer = CWParseMessageElement (\<lambda>m. do {
     (v, m) \<leftarrow> CWProtocolRetrieve16 m; Some (Inr (ucast v, m)) })"

definition CWParseWTPBoardData ::
  "(nat \<Rightarrow> bool) \<Rightarrow> bool \<Rightarrow> cw_msg option \<Rightarrow> nat \<Rightarrow>
     (CWErrorCode + CWVendorInfoValues list \<times> cw_msg) option" where
  "CWParseWTPBoardData alloc le msgPtr len = CWParseMessageElement (\<lambda>m. do {
     let stop = int (offset m) + int len;
     (vendorID, m) \<leftarrow> CWProtocolRetrieve32 m;
     parse_vendor_infos alloc le (Some vendorID) stop m }) msgPtr len"

record CWProtocolWTPDataTransferRequestValues =
  dt_data :: u32
  dt_length :: u32
  dt_debug_info :: "u8 list option"

definition CWParseMsgElemDataTransferData ::
  "(nat \<Rightarrow> bool) \<Rightarrow> cw_msg option \<Rightarrow> nat \<Rightarrow>
     (CWErrorCode + CWProtocolWTPDataTransferRequestValues \<times> cw_msg) option" where
  "CWParseMsgElemDataTransferData alloc = CWParseMessageElement (\<lambda>m. do {
     (t, m) \<leftarrow> CWProtocolRetrieve8 m;
     (l, m) \<leftarrow> CWProtocolRetrieve8 m;
     (s, m) \<leftarrow> CWProtocolRetrieveStr alloc (unat l) m;
     Some (Inr (\<lparr>dt_data = ucast t, dt_length = ucast l, dt_debug_info = s\<rparr>, m)) })"

record CWWTPDescriptor =
  wd_maxRadios :: u32
  wd_radiosInUse :: u32
  wd_encCapabilities :: u32
  wd_vendorInfos :: "CWVendorInfoValues list"

definition CWParseWTPDescriptor ::
  "(nat \<Rightarrow> bool) \<Rightarrow> bool \<Rightarrow> cw_msg option \<Rightarrow> nat \<Rightarrow> (CWErrorCode + CWWTPDescriptor \<times> cw_msg) option" where
  "CWParseWTPDescriptor alloc le msgPtr len = CWParseMessageElement (\<lambda>m. do {
     let stop = int (offset m) + int len;
     (a, m) \<leftarrow> CWProtocolRetrieve8 m;
     (b, m) \<leftarrow> CWProtocolRetrieve8 m;
     (c, m) \<leftarrow> CWProtocolRetrieve16 m;
     r \<leftarrow> parse_vendor_infos alloc le None stop m;
     Some (map_sum id (map_prod (\<lambda>vs. \<lparr>wd_maxRadios = ucast a, wd_radiosInUse = ucast b,
             wd_encCapabilities = ucast c, wd_vendorInfos = vs\<rparr>) id) r) }) msgPtr len"

definition CWParseWTPFrameTunnelMode :: "cw_msg option \<Rightarrow> nat \<Rightarrow> (CWErrorCode + u32 \<times> cw_msg) option" where
  "CWParseWTPFrameTunnelMode = CWParseMessageElement (\<lambda>m. do {
     (v, m) \<leftarrow> CWProtocolRetrieve8 m; Some (Inr (ucast v, m)) })"

definition CWParseWTPIPv4Address ::
  "bool \<Rightarrow> cw_msg option \<Rightarrow> nat \<Rightarrow> (CWErrorCode + sockaddr_in \<times> cw_msg) option" where
  "CWParseWTPIPv4Address le = CWParseMessageElement (\<lambda>m. do {
     (v, m) \<leftarrow> CWProtocolRetrieve32 m;
     Some (Inr (\<lparr>s_addr = htonl le v, sin_family = AF_INET, sin_port = htons le CW_CONTROL_PORT\<rparr>, m)) })"

definition CWParseWTPMACType :: "cw_msg option \<Rightarrow> nat \<Rightarrow> (CWErrorCode + u32 \<times> cw_msg) option" where
  "CWParseWTPMACType = CWParseMessageElement (\<lambda>m. do {
     (v, m) \<leftarrow> CWProtocolRetrieve8 m; Some (Inr (ucast v, m)) })"

definition CWParseWTPRebootStatistics ::
  "cw_msg option \<Rightarrow> nat \<Rightarrow> (CWErrorCode + WTPRebootStatisticsInfo \<times> cw_msg) option" where
  "CWParseWTPRebootStatistics = CWParseMessageElement (\<lambda>m. do {
     (a, m) \<leftarrow> CWProtocolRetrieve16 m;
     (b, m) \<leftarrow> CWProtocolRetrieve16 m;
     (c, m) \<leftarrow> CWProtocolRetrieve16 m;
     (d, m) \<leftarrow> CWProtocolRetrieve16 m;
     (e, m) \<leftarrow> CWProtocolRetrieve16 m;
     (f, m) \<leftarrow> CWProtocolRetrieve16 m;
     (g, m) \<leftarrow> CWProtocolRetrieve16 m;
     (h, m) \<leftarrow> CWProtocolRetrieve8 m;
     Some (Inr (\<lparr>rs_rebootCount = ucast a, rs_ACInitiatedCount = ucast b,
                 rs_linkFailurerCount = ucast c, rs_SWFailureCount = ucast d,
                 rs_HWFailuireCount = ucast e, rs_otherFailureCount = ucast f,
                 rs_unknownFailureCount = ucast g, rs_lastFailureType = ucast h\<rparr>, m)) })"

record WTPRadioStatisticsValues =
  rv_radioID :: u32
  rv_statistics :: WTPRadioStatisticsInfo

definition CWParseWTPRadioStatistics ::
  "cw_msg option \<Rightarrow> nat \<Rightarrow> (CWErrorCode + WTPRadioStatisticsValues \<times> cw_msg) option" where
  "CWParseWTPRadioStatistics = CWParseMessageElement (\<lambda>m. do {
     (i, m) \<leftarrow> CWProtocolRetrieve8 m;
     (t, m) \<leftarrow> CWProtocolRetrieve8 m;
     (a, m) \<leftarrow> CWProtocolRetrieve16 m;
     (b, m) \<leftarrow> CWProtocolRetrieve16 m;
     (c, m) \<leftarrow> CWProtocolRetrieve16 m;
     (d, m) \<leftarrow> CWProtocolRetrieve16 m;
     (e, m) \<leftarrow> CWProtocolRetrieve16 m;
     (f, m) \<leftarrow> CWProtocolRetrieve16 m;
     (g, m) \<leftarrow> CWProtocolRetrieve16 m;
     (h, m) \<leftarrow> CWProtocolRetrieve16 m;
     (n, m) \<leftarrow> CWProtocolRetrieve16 m;
     Some (Inr (\<lparr>rv_radioID = ucast i, rv_statistics =
       \<lparr>ra_lastFailureType = ucast t, ra_resetCount = a, ra_SWFailureCount = b,
        ra_HWFailuireCount = c, ra_otherFailureCount = d, ra_unknownFailureCount = e,
        ra_configUpdateCount = f, ra_channelChangeCount = g, ra_bandChangeCount = h,
        ra_currentNoiseFloor = n\<rparr>\<rparr>, m)) })"

record WTPOperationalStatisticsValues =
  os_radioID :: u32
  os_TxQueueLevel :: u32
  os_wirelessLinkFramesPerSec :: u32

definition CWParseWTPOperationalStatistics ::
  "cw_msg option \<Rightarrow> nat \<Rightarrow> (CWErrorCode + WTPOperationalStatisticsValues \<times> cw_msg) option" where
  "CWParseWTPOperationalStatistics = CWParseMessageElement (\<lambda>m. do {
     (i, m) \<leftarrow> CWProtocolRetrieve8 m;
     (q, m) \<leftarrow> CWProtocolRetrieve8 m;
     (w, m) \<leftarrow> CWProtocolRetrieve16 m;
     Some (Inr (\<lparr>os_radioID = ucast i, os_TxQueueLevel = ucast q,
                 os_wirelessLinkFramesPerSec = ucast w\<rparr>, m)) })"

record CWDecryptErrorReport =
  der_ID :: u32
  der_numEntries :: u8
  der_length :: u8
  der_list :: "u8 list option"

text \<open>The addresses are copied from the block \<open>CWProtocolRetrieveRawBytes\<close> returns, unchecked.\<close>

definition CWParseMsgElemDecryptErrorReport ::
  "(nat \<Rightarrow> bool) \<Rightarrow> cw_msg option \<Rightarrow> nat \<Rightarrow> (CWErrorCode + CWDecryptErrorReport \<times> cw_msg) option" where
  "CWParseMsgElemDecryptErrorReport alloc = CWParseMessageElement (\<lambda>m. do {
     (i, m) \<leftarrow> CWProtocolRetrieve8 m;
     (n, m) \<leftarrow> CWProtocolRetrieve8 m;
     (l, m) \<leftarrow> CWProtocolRetrieve8 m;
     if n = 0 then Some (Inr (\<lparr>der_ID = ucast i, der_numEntries = n, der_length = l, der_list = None\<rparr>, m))
     else if \<not> alloc (6 * unat n) then Some (Inl CW_ERROR_OUT_OF_MEMORY)
     else do {
       (macs, m) \<leftarrow> CWProtocolRetrieveRawBytes alloc (6 * unat n) m;
       bs \<leftarrow> macs;
       Some (Inr (\<lparr>der_ID = ucast i, der_numEntries = n, der_length = l, der_list = Some bs\<rparr>, m))
     } })"


subsection \<open>Each element carries its value\<close>

text \<open>A byte or a half word stored from a C \<open>int\<close>.\<close>

definition byte_bytes :: "u32 \<Rightarrow> u8 list" where "byte_bytes v = [ucast v]"

definition half_bytes :: "u32 \<Rightarrow> u8 list" where "half_bytes v = be16 (ucast v)"

lemma byte_half_len [simp]: "length (byte_bytes v) = 1" "length (half_bytes v) = 2"
  by (simp_all add: byte_bytes_def half_bytes_def)

interpretation wtp_acname: reliable_element CW_MSG_ELEMENT_AC_NAME_CW_TYPE the
  "\<lambda>v. v = Some (gACInfo_name g) \<and> length (gACInfo_name g) < 65536"
  "\<lambda>alloc _. CWAssembleMsgElemACName alloc g" CWParseACName for g
  by unfold_locales (auto simp: CWAssembleMsgElemACName_def CWParseACName_def cw_wire)

interpretation wtp_location: reliable_element CW_MSG_ELEMENT_LOCATION_DATA_CW_TYPE the
  "\<lambda>v. v = Some (gWTPLocation g) \<and> length (gWTPLocation g) < 65536"
  "\<lambda>alloc _. CWAssembleMsgElemLocationData alloc g" CWParseLocationData for g
  by unfold_locales (auto simp: CWAssembleMsgElemLocationData_def CWParseLocationData_def cw_wire)

interpretation wtp_name: reliable_element CW_MSG_ELEMENT_WTP_NAME_CW_TYPE the
  "\<lambda>v. v = Some (gWTPName g) \<and> length (gWTPName g) < 65536"
  "\<lambda>alloc _. CWAssembleMsgElemWTPName alloc g" CWParseWTPName for g
  by unfold_locales (auto simp: CWAssembleMsgElemWTPName_def CWParseWTPName_def cw_wire)

interpretation wtp_session: fixed_element CW_MSG_ELEMENT_SESSION_ID_CW_TYPE be32 "\<lambda>_. True"
  CWAssembleMsgElemSessionID "\<lambda>_. CWParseSessionID"
  by unfold_locales (auto simp: CWAssembleMsgElemSessionID_def CWParseSessionID_def cw_wire)

interpretation wtp_discovery: fixed_element CW_MSG_ELEMENT_DISCOVERY_TYPE_CW_TYPE byte_bytes
  "\<lambda>v. v = CWWTPGetDiscoveryType"
  "\<lambda>alloc _. CWAssembleMsgElemDiscoveryType alloc" "\<lambda>_. CWParseDiscoveryType"
  by unfold_locales (auto simp: CWAssembleMsgElemDiscoveryType_def CWParseDiscoveryType_def cw_wire
      byte_bytes_def CWWTPGetDiscoveryType_def)

interpretation wtp_tunnel: fixed_element CW_MSG_ELEMENT_WTP_FRAME_TUNNEL_MODE_CW_TYPE byte_bytes
  "\<lambda>v. v = CWWTPGetFrameTunnelMode"
  "\<lambda>alloc _. CWAssembleMsgElemWTPFrameTunnelMode alloc" "\<lambda>_. CWParseWTPFrameTunnelMode"
  by unfold_locales (auto simp: CWAssembleMsgElemWTPFrameTunnelMode_def CWParseWTPFrameTunnelMode_def
      cw_wire byte_bytes_def CWWTPGetFrameTunnelMode_def)

interpretation wtp_mactype: fixed_element CW_MSG_ELEMENT_WTP_MAC_TYPE_CW_TYPE byte_bytes
  "\<lambda>v. v = CWWTPGetMACType"
  "\<lambda>alloc _. CWAssembleMsgElemWTPMACType alloc" "\<lambda>_. CWParseWTPMACType"
  by unfold_locales (auto simp: CWAssembleMsgElemWTPMACType_def CWParseWTPMACType_def cw_wire
      byte_bytes_def CWWTPGetMACType_def)

interpretation wtp_stattimer: fixed_element CW_MSG_ELEMENT_STATISTICS_TIMER_CW_TYPE half_bytes
  "\<lambda>v. v = gWTPStatisticsTimer g \<and> v < 65536"
  "\<lambda>alloc _. CWAssembleMsgElemStatisticsTimer alloc g" "\<lambda>_. CWParseWTPStatisticsTimer" for g
  by unfold_locales (auto simp: CWAssembleMsgElemStatisticsTimer_def CWParseWTPStatisticsTimer_def
      cw_wire half_bytes_def)

interpretation wtp_ipv4: fixed_element CW_MSG_ELEMENT_WTP_IPV4_ADDRESS_CW_TYPE
  "\<lambda>a. be32 (htonl le (s_addr a))"
  "\<lambda>a. a = \<lparr>s_addr = sock_ipv4 g, sin_family = AF_INET, sin_port = htons le CW_CONTROL_PORT\<rparr>"
  "\<lambda>alloc _. CWAssembleMsgElemWTPIPv4Address alloc le g" "\<lambda>_. CWParseWTPIPv4Address le" for g le
  by unfold_locales (auto simp: CWAssembleMsgElemWTPIPv4Address_def CWParseWTPIPv4Address_def
      cw_wire CWWTPGetIPv4Address_def)


definition reboot_fits :: "WTPRebootStatisticsInfo \<Rightarrow> bool" where
  "reboot_fits v \<longleftrightarrow> rs_rebootCount v < 65536 \<and> rs_ACInitiatedCount v < 65536 \<and>
     rs_linkFailurerCount v < 65536 \<and> rs_SWFailureCount v < 65536 \<and> rs_HWFailuireCount v < 65536 \<and>
     rs_otherFailureCount v < 65536 \<and> rs_unknownFailureCount v < 65536 \<and> rs_lastFailureType v < 256"

definition reboot_bytes :: "WTPRebootStatisticsInfo \<Rightarrow> u8 list" where
  "reboot_bytes v = half_bytes (rs_rebootCount v) @ half_bytes (rs_ACInitiatedCount v) @
     half_bytes (rs_linkFailurerCount v) @ half_bytes (rs_SWFailureCount v) @
     half_bytes (rs_HWFailuireCount v) @ half_bytes (rs_otherFailureCount v) @
     half_bytes (rs_unknownFailureCount v) @ byte_bytes (rs_lastFailureType v)"

interpretation wtp_reboot: fixed_element CW_MSG_ELEMENT_WTP_REBOOT_STATISTICS_CW_TYPE reboot_bytes
  "\<lambda>v. v = gWTPRebootStatistics g \<and> reboot_fits v"
  "\<lambda>alloc _. CWAssembleMsgElemWTPRebootStatistics alloc g" "\<lambda>_. CWParseWTPRebootStatistics" for g
  by unfold_locales (auto simp: CWAssembleMsgElemWTPRebootStatistics_def CWParseWTPRebootStatistics_def
      cw_wire reboot_bytes_def reboot_fits_def half_bytes_def byte_bytes_def Let_def)

text \<open>The radio identifier on the wire is the index of the radio, cut to one byte.\<close>

definition radio_stats_value :: "WTP_globals \<Rightarrow> nat \<Rightarrow> WTPRadioStatisticsValues" where
  "radio_stats_value g i = \<lparr>rv_radioID = of_nat i, rv_statistics = statistics (gRadiosInfo g ! i)\<rparr>"

definition radio_stats_bytes :: "WTPRadioStatisticsValues \<Rightarrow> u8 list" where
  "radio_stats_bytes v = (let st = rv_statistics v in
     byte_bytes (rv_radioID v) @ byte_bytes (ra_lastFailureType st) @ be16 (ra_resetCount st) @
     be16 (ra_SWFailureCount st) @ be16 (ra_HWFailuireCount st) @ be16 (ra_otherFailureCount st) @
     be16 (ra_unknownFailureCount st) @ be16 (ra_configUpdateCount st) @
     be16 (ra_channelChangeCount st) @ be16 (ra_bandChangeCount st) @ be16 (ra_currentNoiseFloor st))"

lemma ucast_of_nat_byte: "ucast (of_nat i :: u32) = (of_nat i :: u8)"
  by (rule bit_word_eqI) (auto simp: bit_simps)

lemma of_nat_byte: "i < 256 \<Longrightarrow> ucast (of_nat i :: u8) = (of_nat i :: u32)"
  by (simp add: ucast_of_nat_byte [symmetric] word_less_nat_alt unat_of_nat)

interpretation wtp_radiostats: element_codec CW_MSG_ELEMENT_WTP_RADIO_STATISTICS_CW_TYPE radio_stats_bytes
  "\<lambda>v. v = radio_stats_value g i \<and> i < length (gRadiosInfo g) \<and> i < 256 \<and>
     ra_lastFailureType (rv_statistics v) < 256"
  "\<lambda>alloc _. CWAssembleMsgElemWTPRadioStatistics alloc g (int i)"
  "\<lambda>_. CWParseWTPRadioStatistics" for g i
  by unfold_locales (auto simp: CWAssembleMsgElemWTPRadioStatistics_def CWParseWTPRadioStatistics_def
      cw_wire radio_stats_bytes_def radio_stats_value_def byte_bytes_def Let_def array_get_def
      ignore_failure_def of_nat_byte ucast_of_nat_byte)

definition operational_stats_value :: "WTP_globals \<Rightarrow> nat \<Rightarrow> WTPOperationalStatisticsValues" where
  "operational_stats_value g i = \<lparr>os_radioID = of_nat i, os_TxQueueLevel = TxQueueLevel (gRadiosInfo g ! i),
     os_wirelessLinkFramesPerSec = wirelessLinkFramesPerSec (gRadiosInfo g ! i)\<rparr>"

definition operational_stats_bytes :: "WTPOperationalStatisticsValues \<Rightarrow> u8 list" where
  "operational_stats_bytes v = byte_bytes (os_radioID v) @ byte_bytes (os_TxQueueLevel v) @
     half_bytes (os_wirelessLinkFramesPerSec v)"

interpretation wtp_opstats: element_codec CW_MSG_ELEMENT_WTP_OPERAT_STATISTICS_CW_TYPE
  operational_stats_bytes
  "\<lambda>v. v = operational_stats_value g i \<and> i < length (gRadiosInfo g) \<and> i < 256 \<and>
     os_TxQueueLevel v < 256 \<and> os_wirelessLinkFramesPerSec v < 65536"
  "\<lambda>alloc _. CWAssembleMsgElemWTPOperationalStatistics alloc g (int i)"
  "\<lambda>_. CWParseWTPOperationalStatistics" for g i
  by unfold_locales (auto simp: CWAssembleMsgElemWTPOperationalStatistics_def
      CWParseWTPOperationalStatistics_def cw_wire operational_stats_bytes_def operational_stats_value_def
      byte_bytes_def half_bytes_def array_get_def ignore_failure_def of_nat_byte ucast_of_nat_byte)

lemma test_mac_len [simp]: "length test_mac = 6" "take 6 test_mac = test_mac"
  by (simp_all add: test_mac_def)

interpretation wtp_transfer: reliable_element CW_MSG_ELEMENT_DATA_TRANSFER_DATA_CW_TYPE
  "\<lambda>v. byte_bytes (dt_data v) @ byte_bytes (dt_length v) @ the (dt_debug_info v)"
  "\<lambda>v. v = \<lparr>dt_data = t, dt_length = 27, dt_debug_info = Some debug_data\<rparr> \<and> t < 256"
  "\<lambda>alloc _. CWAssembleMsgElemDataTransferData alloc t" CWParseMsgElemDataTransferData for t
proof -
  have [simp]: "length debug_data = 27" by (simp add: debug_data_def c_string_def)
  show "reliable_element CW_MSG_ELEMENT_DATA_TRANSFER_DATA_CW_TYPE
      (\<lambda>v. byte_bytes (dt_data v) @ byte_bytes (dt_length v) @ the (dt_debug_info v))
      (\<lambda>v. v = \<lparr>dt_data = t, dt_length = 27, dt_debug_info = Some debug_data\<rparr> \<and> t < 256)
      (\<lambda>alloc _. CWAssembleMsgElemDataTransferData alloc t) CWParseMsgElemDataTransferData"
    by unfold_locales (auto simp: CWAssembleMsgElemDataTransferData_def
        CWParseMsgElemDataTransferData_def cw_wire byte_bytes_def)
qed

interpretation wtp_admin: fixed_element CW_MSG_ELEMENT_RADIO_ADMIN_STATE_CW_TYPE
  "\<lambda>v. byte_bytes (ai_ID v) @ byte_bytes (ai_state v)"
  "\<lambda>v. ai_ID v < 256 \<and> ai_state v < 256 \<and> ai_cause v = ai_cause old"
  assemble_admin_state "\<lambda>_. CWParseWTPRadioAdminState old" for old
  by unfold_locales (auto simp: assemble_admin_state_def CWParseWTPRadioAdminState_def cw_wire
      byte_bytes_def)

interpretation wtp_operational: fixed_element CW_MSG_ELEMENT_RADIO_OPERAT_STATE_CW_TYPE
  "\<lambda>v. byte_bytes (oi_ID v) @ byte_bytes (oi_state v) @ byte_bytes (oi_cause v)"
  "\<lambda>v. oi_ID v < 256 \<and> oi_state v < 256 \<and> oi_cause v < 256"
  assemble_operational_state "\<lambda>_. CWParseWTPRadioOperationalState"
  by unfold_locales (auto simp: assemble_operational_state_def CWParseWTPRadioOperationalState_def
      cw_wire byte_bytes_def)


lemma vendor_wf_info [simp]:
  "4 \<le> n \<Longrightarrow> n < 65536 \<Longrightarrow> n \<le> 4 + length junk \<Longrightarrow> t < 65536 \<Longrightarrow> vendor_wf (vendor_info le n junk t v)"
  by (simp add: vendor_wf_def vendor_info_def int_mem_def)

lemma vendor_info_sel [simp]:
  "vi_length (vendor_info le n junk t v) = n" "vendorIdentifier (vendor_info le n junk t v) = 23456"
  by (simp_all add: vendor_info_def)

definition longsz_ok :: "nat \<Rightarrow> u8 list \<Rightarrow> bool" where
  "longsz_ok longsz junk \<longleftrightarrow> 4 \<le> longsz \<and> longsz \<le> 1000 \<and> longsz \<le> 4 + length junk"

definition descriptor_infos :: "bool \<Rightarrow> nat \<Rightarrow> u8 list \<Rightarrow> CWVendorInfoValues list" where
  "descriptor_infos le longsz junk = [vendor_info le longsz junk 0 123456,
     vendor_info le longsz junk 1 12347, vendor_info le longsz junk 2 1234568]"

definition board_infos :: "bool \<Rightarrow> nat \<Rightarrow> u8 list \<Rightarrow> CWVendorInfoValues list" where
  "board_infos le longsz junk =
     [vendor_info le longsz junk 0 123456, vendor_info le longsz junk 1 123456]"

lemma infos_wf:
  "longsz_ok longsz junk \<Longrightarrow> \<forall>v \<in> set (descriptor_infos le longsz junk). vendor_wf v"
  "longsz_ok longsz junk \<Longrightarrow> \<forall>v \<in> set (board_infos le longsz junk). vendor_wf v"
  "v \<in> set (board_infos le longsz junk) \<Longrightarrow> vendorIdentifier v = 23456"
  by (auto simp: longsz_ok_def descriptor_infos_def board_infos_def)

lemma infos_sizes:
  "sum_list (map (\<lambda>v. 8 + vi_length v) (descriptor_infos le longsz junk)) = 24 + 3 * longsz"
  "sum_list (map (\<lambda>v. 4 + vi_length v) (board_infos le longsz junk)) = 8 + 2 * longsz"
  by (simp_all add: descriptor_infos_def board_infos_def)

lemma infos_lengths:
  "longsz_ok longsz junk \<Longrightarrow>
     length (infos_bytes le None (descriptor_infos le longsz junk)) = 24 + 3 * longsz"
  "longsz_ok longsz junk \<Longrightarrow>
     length (infos_bytes le (Some i) (board_infos le longsz junk)) = 8 + 2 * longsz"
  using length_concat_vendors [OF infos_wf(1), of longsz junk le le] infos_sizes(1) [of le longsz junk]
    length_concat_tlvs [OF infos_wf(2), of longsz junk le le] infos_sizes(2) [of le longsz junk]
  by (simp_all add: infos_bytes_def)

lemma board_case [simp]:
  "(case board_infos le longsz junk of [] \<Rightarrow> x | v # vs \<Rightarrow> f v) = f (vendor_info le longsz junk 0 123456)"
  by (simp add: board_infos_def)

lemmas concat_lengths = infos_lengths [unfolded infos_bytes_def, simplified]

lemma board_wf:
  "longsz_ok longsz junk \<Longrightarrow>
     \<forall>v \<in> set (board_infos le longsz junk). vendor_wf v \<and> (\<forall>j. Some 23456 = Some j \<longrightarrow> vendorIdentifier v = j)"
  using infos_wf(2) [of longsz junk le] infos_wf(3) [of _ le longsz junk] by auto

interpretation wtp_descriptor: reliable_element CW_MSG_ELEMENT_WTP_DESCRIPTOR_CW_TYPE
  "\<lambda>v. byte_bytes (wd_maxRadios v) @ byte_bytes (wd_radiosInUse v) @
     half_bytes (wd_encCapabilities v) @ infos_bytes le None (wd_vendorInfos v)"
  "\<lambda>v. v = \<lparr>wd_maxRadios = 1, wd_radiosInUse = of_nat (length (gRadiosInfo g)),
            wd_encCapabilities = 2569, wd_vendorInfos = descriptor_infos le longsz junk\<rparr> \<and>
       longsz_ok longsz junk \<and> length (gRadiosInfo g) < 256"
  "\<lambda>alloc _. CWAssembleMsgElemWTPDescriptor alloc le longsz junk g"
  "\<lambda>alloc. CWParseWTPDescriptor alloc le" for le longsz junk g
proof (unfold_locales, goal_cases)
  case (1 v)
  then show ?case
    using infos_wf(1) [of longsz junk le] infos_sizes(1) [of le longsz junk]
      store_vendor_infos_wbuf [OF infos_wf(1), of longsz junk] concat_lengths(1) [of longsz junk le]
    by (auto simp: CWAssembleMsgElemWTPDescriptor_def CWWTPGetVendorInfos_def
        descriptor_infos_def [symmetric] cw_wire byte_bytes_def half_bytes_def infos_bytes_def
        CWWTPGetMaxRadios_def CWWTPGetRadiosInUse_def CWWTPGetEncCapabilities_def)
next
  case (2 v)
  then show ?case by (auto simp: infos_lengths) (auto simp: longsz_ok_def)
next
  case (3 v d pre rest)
  then show ?case
    using parse_vendor_infos_rbuf [of "descriptor_infos le longsz junk" None
        "int (length pre) + int (28 + 3 * longsz)"
        "pre @ byte_bytes 1 @ byte_bytes (of_nat (length (gRadiosInfo g))) @ half_bytes 2569" le d rest]
      infos_wf(1) [of longsz junk le]
    by (auto simp: CWParseWTPDescriptor_def cw_wire byte_bytes_def half_bytes_def infos_lengths
        of_nat_byte ucast_of_nat_byte)
next
  case (4 v alloc)
  then show ?case
    using infos_wf(1) [of longsz junk le] infos_sizes(1) [of le longsz junk]
      store_vendor_infos_wbuf [OF infos_wf(1), of longsz junk] concat_lengths(1) [of longsz junk le]
    by (auto simp: CWAssembleMsgElemWTPDescriptor_def CWWTPGetVendorInfos_def
        descriptor_infos_def [symmetric] cw_wire)
qed

interpretation wtp_board: reliable_element CW_MSG_ELEMENT_WTP_BOARD_DATA_CW_TYPE
  "\<lambda>vs. be32 23456 @ infos_bytes le (Some 23456) vs"
  "\<lambda>vs. vs = board_infos le longsz junk \<and> longsz_ok longsz junk"
  "\<lambda>alloc _. CWAssembleMsgElemWTPBoardData alloc le longsz junk"
  "\<lambda>alloc. CWParseWTPBoardData alloc le" for le longsz junk
proof (unfold_locales, goal_cases)
  case (1 v)
  then show ?case
    using infos_wf(2) [of longsz junk le] infos_sizes(2) [of le longsz junk]
      store_vendor_tlvs_wbuf [OF infos_wf(2), of longsz junk] concat_lengths(2) [of longsz junk le]
    by (auto simp: CWAssembleMsgElemWTPBoardData_def CWWTPGetBoardData_def
        board_infos_def [symmetric] cw_wire infos_bytes_def)
next
  case (2 v)
  then show ?case by (auto simp: infos_lengths) (auto simp: longsz_ok_def)
next
  case (3 v d pre rest)
  then show ?case
    using parse_vendor_infos_rbuf [OF board_wf, of longsz junk
        "int (length pre) + int (12 + 2 * longsz)" "pre @ be32 23456" le le d rest]
    by (auto simp: CWParseWTPBoardData_def cw_wire infos_lengths)
next
  case (4 v alloc)
  then show ?case
    using infos_wf(2) [of longsz junk le] infos_sizes(2) [of le longsz junk]
      store_vendor_tlvs_wbuf [OF infos_wf(2), of longsz junk] concat_lengths(2) [of longsz junk le]
    by (auto simp: CWAssembleMsgElemWTPBoardData_def CWWTPGetBoardData_def
        board_infos_def [symmetric] cw_wire)
qed

subsection \<open>What the AC learns from the elements of a WTP\<close>

text \<open>
  C4: The one-value elements of a WTP reach the AC unchanged: whatever the state of the WTP, as long
  as its strings are shorter than 64 KiB and its counters fit their fields, the assembled session
  identifier, name, location, AC name, discovery type, tunnel mode, MAC type, statistics timer,
  IPv4 address, reboot statistics and debug data are read back by the parser of the AC as the value
  the WTP holds, wherever the element stands in a message, and nothing beyond the element is read.
\<close>

theorem wtp_values_reach_the_ac:
  assumes "length (gWTPName g) < 65536" and "length (gWTPLocation g) < 65536"
    and "length (gACInfo_name g) < 65536" and "gWTPStatisticsTimer g < 65536"
    and "reboot_fits (gWTPRebootStatistics g)" and "t < 256"
  shows "carries CW_MSG_ELEMENT_SESSION_ID_CW_TYPE
           (CWAssembleMsgElemSessionID plenty i) CWParseSessionID i \<and>
    carries CW_MSG_ELEMENT_WTP_NAME_CW_TYPE
           (CWAssembleMsgElemWTPName plenty g) (CWParseWTPName plenty) (Some (gWTPName g)) \<and>
    carries CW_MSG_ELEMENT_LOCATION_DATA_CW_TYPE
           (CWAssembleMsgElemLocationData plenty g) (CWParseLocationData plenty) (Some (gWTPLocation g)) \<and>
    carries CW_MSG_ELEMENT_AC_NAME_CW_TYPE
           (CWAssembleMsgElemACName plenty g) (CWParseACName plenty) (Some (gACInfo_name g)) \<and>
    carries CW_MSG_ELEMENT_DISCOVERY_TYPE_CW_TYPE
           (CWAssembleMsgElemDiscoveryType plenty) CWParseDiscoveryType CWWTPGetDiscoveryType \<and>
    carries CW_MSG_ELEMENT_WTP_FRAME_TUNNEL_MODE_CW_TYPE
           (CWAssembleMsgElemWTPFrameTunnelMode plenty) CWParseWTPFrameTunnelMode CWWTPGetFrameTunnelMode \<and>
    carries CW_MSG_ELEMENT_WTP_MAC_TYPE_CW_TYPE
           (CWAssembleMsgElemWTPMACType plenty) CWParseWTPMACType CWWTPGetMACType \<and>
    carries CW_MSG_ELEMENT_STATISTICS_TIMER_CW_TYPE
           (CWAssembleMsgElemStatisticsTimer plenty g) CWParseWTPStatisticsTimer (gWTPStatisticsTimer g) \<and>
    carries CW_MSG_ELEMENT_WTP_IPV4_ADDRESS_CW_TYPE
           (CWAssembleMsgElemWTPIPv4Address plenty le g) (CWParseWTPIPv4Address le)
           \<lparr>s_addr = sock_ipv4 g, sin_family = AF_INET, sin_port = htons le CW_CONTROL_PORT\<rparr> \<and>
    carries CW_MSG_ELEMENT_WTP_REBOOT_STATISTICS_CW_TYPE
           (CWAssembleMsgElemWTPRebootStatistics plenty g) CWParseWTPRebootStatistics
           (gWTPRebootStatistics g) \<and>
    carries CW_MSG_ELEMENT_DATA_TRANSFER_DATA_CW_TYPE
           (CWAssembleMsgElemDataTransferData plenty t) (CWParseMsgElemDataTransferData plenty)
           \<lparr>dt_data = t, dt_length = 27, dt_debug_info = Some debug_data\<rparr>"
  using assms by (intro conjI wtp_session.carried wtp_name.carried wtp_location.carried
      wtp_acname.carried wtp_discovery.carried wtp_tunnel.carried wtp_mactype.carried
      wtp_stattimer.carried wtp_ipv4.carried wtp_reboot.carried wtp_transfer.carried) auto

definition sample_radio :: CWWTPRadioInfoValues where
  "sample_radio = \<lparr>radioID = 3, decryptErrorMACAddressList = [[1, 2, 3, 4, 5, 6]], reportInterval = 15,
     adminState = 1, adminCause = 1, operationalState = 1, operationalCause = 0, TxQueueLevel = 7,
     wirelessLinkFramesPerSec = 300, statistics = \<lparr>ra_lastFailureType = 255, ra_resetCount = 1,
       ra_SWFailureCount = 2, ra_HWFailuireCount = 3, ra_otherFailureCount = 4,
       ra_unknownFailureCount = 5, ra_configUpdateCount = 6, ra_channelChangeCount = 7,
       ra_bandChangeCount = 8, ra_currentNoiseFloor = 9\<rparr>\<rparr>"

definition sample_wtp :: WTP_globals where
  "sample_wtp = \<lparr>gWTPName = [87, 49], gWTPLocation = [76], gACInfo_name = [65, 67],
     gRadiosInfo = [sample_radio], gWTPRebootStatistics = \<lparr>rs_rebootCount = 4, rs_ACInitiatedCount = 1,
       rs_linkFailurerCount = 2, rs_SWFailureCount = 0, rs_HWFailuireCount = 0, rs_otherFailureCount = 0,
       rs_unknownFailureCount = 1, rs_lastFailureType = 255\<rparr>, gWTPStatisticsTimer = 120,
     gIPv4StatusDuplicate = 0, gIPv6StatusDuplicate = 0, sock_ipv4 = 0xC0A80001,
     sock_ipv6 = replicate 16 0\<rparr>"

lemma wtp_values_reach_the_ac_witness:
  "carries CW_MSG_ELEMENT_WTP_NAME_CW_TYPE
     (CWAssembleMsgElemWTPName plenty sample_wtp) (CWParseWTPName plenty) (Some [87, 49]) \<and>
   carries CW_MSG_ELEMENT_STATISTICS_TIMER_CW_TYPE
     (CWAssembleMsgElemStatisticsTimer plenty sample_wtp) CWParseWTPStatisticsTimer 120"
  using wtp_values_reach_the_ac [of sample_wtp 1 7 True]
  by (simp add: sample_wtp_def reboot_fits_def)

text \<open>
  The WTP descriptor reaches the AC whole: radio counts, encryption capabilities and the three
  vendor entries are read back by the two loops of \<open>CWParseWTPDescriptor\<close> exactly as the WTP holds
  them, for every size of \<open>long int\<close> and both byte orders; with a \<open>long int\<close> of more than 4 bytes the
  entries include the bytes of the block the WTP never assigned.
\<close>

theorem wtp_descriptor_reaches_the_ac:
  assumes "longsz_ok longsz junk" and "length (gRadiosInfo g) < 256"
  shows "carries CW_MSG_ELEMENT_WTP_DESCRIPTOR_CW_TYPE
    (CWAssembleMsgElemWTPDescriptor plenty le longsz junk g) (CWParseWTPDescriptor plenty le)
    \<lparr>wd_maxRadios = 1, wd_radiosInUse = of_nat (length (gRadiosInfo g)), wd_encCapabilities = 2569,
     wd_vendorInfos = [vendor_info le longsz junk 0 123456, vendor_info le longsz junk 1 12347,
                       vendor_info le longsz junk 2 1234568]\<rparr>"
  using assms by (intro wtp_descriptor.carried) (simp add: descriptor_infos_def)


lemma wtp_descriptor_reaches_the_ac_witness:
  "carries CW_MSG_ELEMENT_WTP_DESCRIPTOR_CW_TYPE
    (CWAssembleMsgElemWTPDescriptor plenty True 8 [9, 9, 9, 9] sample_wtp) (CWParseWTPDescriptor plenty True)
    \<lparr>wd_maxRadios = 1, wd_radiosInUse = 1, wd_encCapabilities = 2569,
     wd_vendorInfos = [vendor_info True 8 [9, 9, 9, 9] 0 123456, vendor_info True 8 [9, 9, 9, 9] 1 12347,
                       vendor_info True 8 [9, 9, 9, 9] 2 1234568]\<rparr>"
  using wtp_descriptor_reaches_the_ac [of 8 "[9, 9, 9, 9]" sample_wtp True]
  by (simp add: longsz_ok_def sample_wtp_def)

text \<open>
  The board data reaches the AC as the WTP holds it: the vendor identifier is sent once and the
  parser gives it to both entries.
\<close>

theorem wtp_board_data_reaches_the_ac:
  assumes "longsz_ok longsz junk"
  shows "carries CW_MSG_ELEMENT_WTP_BOARD_DATA_CW_TYPE
    (CWAssembleMsgElemWTPBoardData plenty le longsz junk) (CWParseWTPBoardData plenty le)
    [vendor_info le longsz junk 0 123456, vendor_info le longsz junk 1 123456]"
  using assms by (intro wtp_board.carried) (simp add: board_infos_def)

lemma wtp_board_data_reaches_the_ac_witness:
  "carries CW_MSG_ELEMENT_WTP_BOARD_DATA_CW_TYPE
    (CWAssembleMsgElemWTPBoardData plenty False 4 []) (CWParseWTPBoardData plenty False)
    [vendor_info False 4 [] 0 123456, vendor_info False 4 [] 1 123456]"
  by (rule wtp_board_data_reaches_the_ac) (simp add: longsz_ok_def)

text \<open>
  The states of all radios reach the AC: the message \<open>CWAssembleMsgElemRadioOperationalState\<close> builds
  for a negative radio identifier, and the one \<open>CWAssembleMsgElemRadioAdminState\<close> builds, hold one
  element per radio, in order, and reading as many elements gives back the identifier, state and
  cause (for the administrative state, the identifier and state) of each radio.
\<close>

theorem radio_states_reach_the_ac:
  assumes "\<forall>r \<in> set (gRadiosInfo g). radioID r < 256 \<and> operationalState r < 256 \<and>
      operationalCause r < 256 \<and> adminState r < 256 \<and> adminCause r = ai_cause old" and "rid < 0"
  shows "\<exists>m m'. CWAssembleMsgElemRadioOperationalState plenty g rid = Some (Inr m) \<and>
      (\<forall>pre rest. receive_elements CWParseWTPRadioOperationalState (length (gRadiosInfo g))
           (rbuf None pre (contents m @ rest)) =
         Some (Inr (map (\<lambda>r. (ucast CW_MSG_ELEMENT_RADIO_OPERAT_STATE_CW_TYPE, radio_operational r))
                      (gRadiosInfo g), rbuf None (pre @ contents m) rest))) \<and>
      CWAssembleMsgElemRadioAdminState plenty g = Some (Inr m') \<and>
      (\<forall>pre rest. receive_elements (CWParseWTPRadioAdminState old) (length (gRadiosInfo g))
           (rbuf None pre (contents m' @ rest)) =
         Some (Inr (map (\<lambda>r. (ucast CW_MSG_ELEMENT_RADIO_ADMIN_STATE_CW_TYPE,
                              \<lparr>ai_ID = radioID r, ai_state = adminState r, ai_cause = adminCause r\<rparr>))
                      (gRadiosInfo g), rbuf None (pre @ contents m') rest)))"
proof -
  let ?op = "map radio_operational (gRadiosInfo g)"
  let ?ad = "map (\<lambda>r. \<lparr>ai_ID = radioID r, ai_state = adminState r, ai_cause = adminCause r\<rparr>) (gRadiosInfo g)"
  have op: "\<forall>v \<in> set ?op. oi_ID v < 256 \<and> oi_state v < 256 \<and> oi_cause v < 256"
    using assms(1) by (auto simp: radio_operational_def)
  have ad: "\<forall>v \<in> set ?ad. ai_ID v < 256 \<and> ai_state v < 256 \<and> ai_cause v = ai_cause old"
    using assms(1) by auto
  have "\<forall>v \<in> set ?op. assemble_operational_state plenty v = Some (Inr (elem_msg
      (ucast CW_MSG_ELEMENT_RADIO_OPERAT_STATE_CW_TYPE)
      (byte_bytes (oi_ID v) @ byte_bytes (oi_state v) @ byte_bytes (oi_cause v))))"
    using op wtp_operational.assemble_enc by blast
  from assemble_array_all [of plenty, OF TrueI this] assms(2) wtp_operational.received_all [OF op]
  have 1: "\<exists>m. CWAssembleMsgElemRadioOperationalState plenty g rid = Some (Inr m) \<and>
      (\<forall>pre rest. receive_elements CWParseWTPRadioOperationalState (length ?op)
           (rbuf None pre (contents m @ rest)) =
         Some (Inr (map (Pair (ucast CW_MSG_ELEMENT_RADIO_OPERAT_STATE_CW_TYPE)) ?op,
           rbuf None (pre @ contents m) rest)))"
    by (simp add: CWAssembleMsgElemRadioOperationalState_def CWGetWTPRadiosOperationalState_def Let_def
        del: map_map length_map)
  have "\<forall>v \<in> set ?ad. assemble_admin_state plenty v = Some (Inr (elem_msg
      (ucast CW_MSG_ELEMENT_RADIO_ADMIN_STATE_CW_TYPE) (byte_bytes (ai_ID v) @ byte_bytes (ai_state v))))"
    using ad wtp_admin.assemble_enc by blast
  from assemble_array_all [of plenty, OF TrueI this] wtp_admin.received_all [OF ad]
  have 2: "\<exists>m. CWAssembleMsgElemRadioAdminState plenty g = Some (Inr m) \<and>
      (\<forall>pre rest. receive_elements (CWParseWTPRadioAdminState old) (length ?ad)
           (rbuf None pre (contents m @ rest)) =
         Some (Inr (map (Pair (ucast CW_MSG_ELEMENT_RADIO_ADMIN_STATE_CW_TYPE)) ?ad,
           rbuf None (pre @ contents m) rest)))"
    by (simp add: CWAssembleMsgElemRadioAdminState_def CWGetWTPRadiosAdminState_def Let_def
        del: map_map length_map)
  show ?thesis using 1 2 by (simp add: comp_def)
qed


lemma radio_states_reach_the_ac_witness:
  "\<exists>m. CWAssembleMsgElemRadioOperationalState plenty sample_wtp (- 1) = Some (Inr m) \<and>
     receive_elements CWParseWTPRadioOperationalState 1 (rbuf None [] (contents m @ [])) =
       Some (Inr ([(32, \<lparr>oi_ID = 3, oi_state = 1, oi_cause = 0\<rparr>)], rbuf None (contents m) []))"
proof -
  have "\<forall>r \<in> set (gRadiosInfo sample_wtp). radioID r < 256 \<and> operationalState r < 256 \<and>
      operationalCause r < 256 \<and> adminState r < 256 \<and>
      adminCause r = ai_cause \<lparr>ai_ID = 0, ai_state = 0, ai_cause = 1\<rparr>"
    by (simp add: sample_wtp_def sample_radio_def)
  from radio_states_reach_the_ac [OF this, of "- 1"] obtain m where
    "CWAssembleMsgElemRadioOperationalState plenty sample_wtp (- 1) = Some (Inr m)"
    "\<forall>pre rest. receive_elements CWParseWTPRadioOperationalState (length (gRadiosInfo sample_wtp))
           (rbuf None pre (contents m @ rest)) =
         Some (Inr (map (\<lambda>r. (ucast CW_MSG_ELEMENT_RADIO_OPERAT_STATE_CW_TYPE, radio_operational r))
                      (gRadiosInfo sample_wtp), rbuf None (pre @ contents m) rest))"
    by auto
  moreover from this(2) [rule_format, of "[]" "[]"]
  have "receive_elements CWParseWTPRadioOperationalState 1 (rbuf None [] (contents m @ [])) =
      Some (Inr ([(32, \<lparr>oi_ID = 3, oi_state = 1, oi_cause = 0\<rparr>)], rbuf None (contents m) []))"
    by (simp add: sample_wtp_def sample_radio_def radio_operational_def
        CW_MSG_ELEMENT_RADIO_OPERAT_STATE_CW_TYPE_def)
  ultimately show ?thesis by blast
qed

text \<open>
  One-byte and fixed-size elements are checked by length: an element whose length field differs
  from the size of its body is refused with \<open>CW_ERROR_INVALID_FORMAT\<close> as soon as the bytes of a
  correct body follow, for the session identifier, the MAC type, the tunnel mode, the discovery type and
  the operational state.
\<close>

theorem wrong_element_length_refused:
  fixes v :: CWRadioOperationalInfoValues
  assumes "n < 65536" and "oi_ID v < 256" and "oi_state v < 256" and "oi_cause v < 256"
  shows "(n \<noteq> 4 \<longrightarrow> receive_element CWParseSessionID
      (rbuf d pre (be16 (ucast CW_MSG_ELEMENT_SESSION_ID_CW_TYPE) @ be16 (of_nat n) @ be32 i @ rest)) =
        Some (ucast CW_MSG_ELEMENT_SESSION_ID_CW_TYPE, Inl CW_ERROR_INVALID_FORMAT)) \<and>
    (n \<noteq> 1 \<longrightarrow> receive_element CWParseWTPMACType
      (rbuf d pre (be16 (ucast CW_MSG_ELEMENT_WTP_MAC_TYPE_CW_TYPE) @ be16 (of_nat n) @ [0] @ rest)) =
        Some (ucast CW_MSG_ELEMENT_WTP_MAC_TYPE_CW_TYPE, Inl CW_ERROR_INVALID_FORMAT)) \<and>
    (n \<noteq> 1 \<longrightarrow> receive_element CWParseWTPFrameTunnelMode
      (rbuf d pre (be16 (ucast CW_MSG_ELEMENT_WTP_FRAME_TUNNEL_MODE_CW_TYPE) @ be16 (of_nat n) @ [1] @ rest)) =
        Some (ucast CW_MSG_ELEMENT_WTP_FRAME_TUNNEL_MODE_CW_TYPE, Inl CW_ERROR_INVALID_FORMAT)) \<and>
    (n \<noteq> 1 \<longrightarrow> receive_element CWParseDiscoveryType
      (rbuf d pre (be16 (ucast CW_MSG_ELEMENT_DISCOVERY_TYPE_CW_TYPE) @ be16 (of_nat n) @ [1] @ rest)) =
        Some (ucast CW_MSG_ELEMENT_DISCOVERY_TYPE_CW_TYPE, Inl CW_ERROR_INVALID_FORMAT)) \<and>
    (n \<noteq> 3 \<longrightarrow> receive_element CWParseWTPRadioOperationalState
      (rbuf d pre (be16 (ucast CW_MSG_ELEMENT_RADIO_OPERAT_STATE_CW_TYPE) @ be16 (of_nat n) @
         [ucast (oi_ID v), ucast (oi_state v), ucast (oi_cause v)] @ rest)) =
        Some (ucast CW_MSG_ELEMENT_RADIO_OPERAT_STATE_CW_TYPE, Inl CW_ERROR_INVALID_FORMAT))"
  using assms wtp_session.wrong_length_refused [OF TrueI, of n i d pre rest]
    wtp_mactype.wrong_length_refused [OF refl, of n d pre rest]
    wtp_tunnel.wrong_length_refused [OF refl, of n d pre rest]
    wtp_discovery.wrong_length_refused [OF refl, of n d pre rest]
    wtp_operational.wrong_length_refused [of v n d pre rest]
  by (simp add: byte_bytes_def CWWTPGetMACType_def CWWTPGetFrameTunnelMode_def CWWTPGetDiscoveryType_def)

lemma wrong_element_length_refused_witness:
  "receive_element CWParseSessionID
     (rbuf None [] (be16 (ucast CW_MSG_ELEMENT_SESSION_ID_CW_TYPE) @ be16 5 @ be32 77 @ [1])) =
   Some (ucast CW_MSG_ELEMENT_SESSION_ID_CW_TYPE, Inl CW_ERROR_INVALID_FORMAT)"
  using wrong_element_length_refused [of 5 "\<lparr>oi_ID = 0, oi_state = 0, oi_cause = 0\<rparr>" None "[]" 77 "[1]"]
  by simp

subsection \<open>Assemblers that write past their block\<close>

lemma Store_full [cw_wire]:
  "n < length bs + k \<Longrightarrow> length bs \<le> n \<Longrightarrow> k \<le> length s \<Longrightarrow> CWProtocolStoreRawBytes (wbuf n bs) s k = None"
  by (simp add: CWProtocolStoreRawBytes_def put_wbuf max_def)

lemma decrypt_entry_ok:
  "\<exists>v. decrypt_entry plenty r (decryptErrorMACAddressList r) = Some (Inr v) \<and>
     ((\<forall>mac \<in> set (decryptErrorMACAddressList r). length mac = 6) \<longrightarrow>
        length (de_MACs v) = 6 * unat (de_numEntries v))"
proof -
  let ?n = "unat (of_int (CWCountElementInList (decryptErrorMACAddressList r)) :: u8)"
  have "?n \<le> length (decryptErrorMACAddressList r)"
    by (simp add: unat_of_nat)
  moreover have "length (concat ms) = 6 * length ms" if "\<forall>mac \<in> set ms. length mac = 6" for ms :: "u8 list list"
    using that by (induction ms) auto
  then have "length (concat (take ?n (decryptErrorMACAddressList r))) =
      6 * length (take ?n (decryptErrorMACAddressList r))"
    if "\<forall>mac \<in> set (decryptErrorMACAddressList r). length mac = 6"
    using that by (meson in_set_takeD)
  ultimately show ?thesis
    by (auto simp: decrypt_entry_def Let_def)
qed

lemma decrypt_entries_ok: "\<exists>vs. decrypt_entries plenty rs = Some (Inr vs)"
proof (induction rs)
  case (Cons r rs)
  with decrypt_entry_ok [of r] show ?case by auto
qed simp

lemma assemble_decrypt_report_overflow:
  "length (de_MACs v) = 6 * unat (de_numEntries v) \<Longrightarrow> assemble_decrypt_report plenty v = None"
  by (cases "unat (de_numEntries v)") (simp_all add: assemble_decrypt_report_def cw_wire)

text \<open>
  The two duplicate address elements and the decrypt error report cannot be assembled: each asks for
  a block one byte shorter than what it stores, so whenever the memory is granted the last store
  goes past the end of the block, for every state of the WTP (with at least one radio in the case of the
  report, whose addresses are six bytes each).
\<close>

theorem assemblers_overflow_their_block:
  assumes "\<forall>n. alloc n" and "gRadiosInfo g \<noteq> []" and "rid < 0"
    and "\<forall>r \<in> set (gRadiosInfo g). \<forall>mac \<in> set (decryptErrorMACAddressList r). length mac = 6"
    and "length (sock_ipv6 g) = 16"
  shows "CWAssembleMsgElemDuplicateIPv4Address alloc le g = None \<and>
    CWAssembleMsgElemDuplicateIPv6Address alloc g = None \<and>
    CWAssembleMsgElemDecryptErrorReport alloc g rid = None"
proof -
  obtain r rs where g: "gRadiosInfo g = r # rs" using assms(2) by (cases "gRadiosInfo g") auto
  have alloc: "alloc = plenty" using assms(1) by auto
  obtain v where v: "decrypt_entry plenty r (decryptErrorMACAddressList r) = Some (Inr v)"
      "length (de_MACs v) = 6 * unat (de_numEntries v)"
    using decrypt_entry_ok [of r] assms(4) g by auto
  obtain vs where "decrypt_entries plenty rs = Some (Inr vs)"
    using decrypt_entries_ok by blast
  with v g assms(3) assemble_decrypt_report_overflow [OF v(2)]
  have "CWAssembleMsgElemDecryptErrorReport plenty g rid = None"
    by (simp add: CWAssembleMsgElemDecryptErrorReport_def CWGetDecryptErrorReport_def assemble_array_def)
  with assms(5) show ?thesis
    unfolding alloc by (simp add: CWAssembleMsgElemDuplicateIPv4Address_def
        CWAssembleMsgElemDuplicateIPv6Address_def cw_wire)
qed

lemma assemblers_overflow_their_block_witness:
  "CWAssembleMsgElemDuplicateIPv4Address plenty True sample_wtp = None \<and>
   CWAssembleMsgElemDecryptErrorReport plenty sample_wtp (- 1) = None"
  using assemblers_overflow_their_block [of plenty sample_wtp "- 1" True]
  by (simp add: sample_wtp_def sample_radio_def)

text \<open>
  The radio statistics assemblers hide a failed allocation and misjudge the last index: when
  the block of the body is granted and the block of the framed element is not, both report success
  with a message that lacks the element header; and \<open>CWAssembleMsgElemWTPRadioStatistics\<close>
  accepts the index one past the last radio, which it then reads outside the array.
\<close>

theorem radio_statistics_hide_failures:
  assumes "i < length (gRadiosInfo g)" and "alloc 4" and "\<not> alloc 10" and "alloc 20" and "\<not> alloc 26"
  shows "CWAssembleMsgElemWTPOperationalStatistics alloc g (int i) =
      Some (Inr (wbuf 4 ([of_nat i] @ byte_bytes (TxQueueLevel (gRadiosInfo g ! i)) @
        half_bytes (wirelessLinkFramesPerSec (gRadiosInfo g ! i))))) \<and>
    CWAssembleMsgElemWTPRadioStatistics alloc g (int i) =
      Some (Inr (wbuf 20 (radio_stats_bytes (radio_stats_value g i)))) \<and>
    CWAssembleMsgElemWTPRadioStatistics alloc g (int (length (gRadiosInfo g))) = None"
  using assms by (simp add: CWAssembleMsgElemWTPOperationalStatistics_def
      CWAssembleMsgElemWTPRadioStatistics_def cw_wire array_get_def ignore_failure_def
      byte_bytes_def half_bytes_def Let_def radio_stats_bytes_def radio_stats_value_def ucast_of_nat_byte)

lemma radio_statistics_hide_failures_witness:
  "CWAssembleMsgElemWTPRadioStatistics (\<lambda>n. n \<noteq> 10 \<and> n \<noteq> 26) sample_wtp 0 =
     Some (Inr (wbuf 20 (radio_stats_bytes (radio_stats_value sample_wtp 0)))) \<and>
   CWAssembleMsgElemWTPRadioStatistics (\<lambda>n. n \<noteq> 10 \<and> n \<noteq> 26) sample_wtp 1 = None"
  using radio_statistics_hide_failures [of 0 sample_wtp "\<lambda>n. n \<noteq> 10 \<and> n \<noteq> 26"]
  by (simp add: sample_wtp_def)

end
