(* ===== verification/AC_Elements.thy ===== *)
theory AC_Elements
  imports WTP_Elements
begin

text \<open>
  The message elements the access controller sends: the assemblers of \<open>ACProtocol.c\<close> with the getters
  of \<open>ACProtocol_User.c\<close>, and the parsers of \<open>WTPProtocol.c\<close>. \<open>AC_globals\<close> holds the globals the
  getters read, and of \<open>gWTPs[index]\<close>, the WTP a thread serves, its radios. Where both programs have
  a function of the same name, the one of the AC is prefixed \<open>AC_\<close>.
\<close>

subsection \<open>State of the AC\<close>

text \<open>\<open>addr\<close> of an interface as an IPv4 address and as the 16 bytes of an IPv6 address.\<close>

record net_interface =
  ni_addr4 :: u32
  ni_addr6 :: "u8 list"
  ni_addrIPv4 :: u32
  ni_WTPCount :: u32

record AC_globals =
  gACName :: "u8 list"
  gActiveStations :: u32
  gLimit :: u32
  gActiveWTPs :: u32
  gMaxWTPs :: u32
  gACDescriptorSecurity :: u32
  gRMACField :: u32
  gDTLSPolicy :: u32
  gACHWVersion :: u32
  gACSWVersion :: u32
  gInterfaces :: "net_interface list"
  prefer_IPv4 :: bool
  gDiscoveryTimer :: u32
  gEchoRequestTimer :: u32
  gIdleTimeout :: u32
  ac_radioAdminInfo :: "CWRadioAdminInfoValues list"
  ac_radiosInfo :: "CWWTPRadioInfoValues list"

subsection \<open>Getters\<close>

text \<open>\<open>locked\<close> is whether the mutex could be taken.\<close>

definition CWACGetActiveWTPs :: "bool \<Rightarrow> AC_globals \<Rightarrow> u32" where
  "CWACGetActiveWTPs locked g = (if \<not> locked then 0 else gActiveWTPs g)"

definition CWACGetInterfacesCount :: "AC_globals \<Rightarrow> int" where
  "CWACGetInterfacesCount g = int (length (gInterfaces g))"

definition CWACGetInterfaceIPv4AddressAtIndex :: "bool \<Rightarrow> AC_globals \<Rightarrow> net_interface \<Rightarrow> u32" where
  "CWACGetInterfaceIPv4AddressAtIndex le g i =
     htonl le (if prefer_IPv4 g then ni_addr4 i else ni_addrIPv4 i)"

definition ac_vendor_info :: "bool \<Rightarrow> u32 \<Rightarrow> u32 \<Rightarrow> CWVendorInfoValues" where
  "ac_vendor_info le t v =
     \<lparr>vendorIdentifier = 65432, vi_type = t, vi_length = 4, valuePtr = int_mem le v\<rparr>"

definition CWACGetVendorInfos ::
  "(nat \<Rightarrow> bool) \<Rightarrow> bool \<Rightarrow> AC_globals \<Rightarrow> CWErrorCode + CWVendorInfoValues list" where
  "CWACGetVendorInfos alloc le g =
     (if \<not> alloc (sizeof_CWVendorInfoValues * 2) \<or> \<not> alloc 4 then Inl CW_ERROR_OUT_OF_MEMORY
      else Inr [ac_vendor_info le 4 (gACHWVersion g), ac_vendor_info le 5 (gACSWVersion g)])"

text \<open>\<open>inet_pton\<close> puts the four numbers of the dotted address in memory in that order.\<close>

definition inet_addr :: "bool \<Rightarrow> u8 list \<Rightarrow> u32" where
  "inet_addr le bs = htonl le (of_be32 bs)"

definition CWACGetACIPv4List :: "(nat \<Rightarrow> bool) \<Rightarrow> bool \<Rightarrow> CWErrorCode + u32 list" where
  "CWACGetACIPv4List alloc le =
     (if \<not> alloc (4 * 2) then Inl CW_ERROR_OUT_OF_MEMORY
      else Inr [inet_addr le [172, 10, 10, 77], inet_addr le [172, 10, 10, 76]])"

definition CWACGetACIPv6List :: "(nat \<Rightarrow> bool) \<Rightarrow> CWErrorCode + u8 list list" where
  "CWACGetACIPv6List alloc =
     (if \<not> alloc (16 * 2) then Inl CW_ERROR_OUT_OF_MEMORY
      else Inr
        [[0x5f, 0x1b, 0xdf, 0x00, 0xce, 0x3e, 0xe2, 0x00, 0x00, 0x20, 0x08, 0x00, 0x20, 0x78, 0xe3, 0xe3],
         [0x5f, 0x1b, 0xdf, 0x00, 0xce, 0x3e, 0xe2, 0x00, 0x00, 0x20, 0x08, 0x00, 0x20, 0x78, 0xe3, 0xe4]])"

text \<open>
  For one radio the loop is bounded by \<open>valPtr->radiosCount\<close>, which nobody assigned (\<open>garbage\<close>), and
  a match at index \<open>i\<close> is stored at index \<open>i\<close> of an array of one.
\<close>

function search_operational ::
  "(nat \<Rightarrow> bool) \<Rightarrow> CWWTPRadioInfoValues list \<Rightarrow> u32 \<Rightarrow> int \<Rightarrow> int \<Rightarrow>
     (CWErrorCode + CWRadioOperationalInfoValues list) option" where
  "search_operational alloc radios rid garbage i =
     (if i < garbage then do {
        r \<leftarrow> array_get radios i;
        (if radioID r = rid then
           (if \<not> alloc sizeof_radio_values then Some (Inl CW_ERROR_OUT_OF_MEMORY)
            else if i = 0 then Some (Inr [radio_operational r])
            else None)
         else search_operational alloc radios rid garbage (i + 1))
      }
      else Some (Inl CW_ERROR_NONE))"
  by pat_completeness auto
termination by (relation "measure (\<lambda>(alloc, radios, rid, garbage, i). nat (garbage - i))") auto

definition AC_CWGetWTPRadiosOperationalState ::
  "(nat \<Rightarrow> bool) \<Rightarrow> AC_globals \<Rightarrow> int \<Rightarrow> int \<Rightarrow>
     (CWErrorCode + CWRadioOperationalInfoValues list) option" where
  "AC_CWGetWTPRadiosOperationalState alloc g garbage rid =
     (if rid < 0 then
        (if \<not> alloc (sizeof_radio_values * length (ac_radiosInfo g)) then Some (Inl CW_ERROR_OUT_OF_MEMORY)
         else Some (Inr (map radio_operational (ac_radiosInfo g))))
      else search_operational alloc (ac_radiosInfo g) (of_int rid) garbage 0)"

subsection \<open>Assembling\<close>

definition CWAssembleMsgElemACDescriptor ::
  "(nat \<Rightarrow> bool) \<Rightarrow> bool \<Rightarrow> bool \<Rightarrow> AC_globals \<Rightarrow> (CWErrorCode + cw_msg) option" where
  "CWAssembleMsgElemACDescriptor alloc le locked g =
     (case CWACGetVendorInfos alloc le g of
        Inl e \<Rightarrow> Some (Inl e)
      | Inr infos \<Rightarrow>
          with_message alloc (sum_list (map (\<lambda>v. 8 + vi_length v) infos) + 12) (\<lambda>m. do {
            m \<leftarrow> CWProtocolStore16 m (ucast (gActiveStations g));
            m \<leftarrow> CWProtocolStore16 m (ucast (gLimit g));
            m \<leftarrow> CWProtocolStore16 m (ucast (CWACGetActiveWTPs locked g));
            m \<leftarrow> CWProtocolStore16 m (ucast (gMaxWTPs g));
            m \<leftarrow> CWProtocolStore8 m (ucast (gACDescriptorSecurity g));
            m \<leftarrow> CWProtocolStore8 m (ucast (gRMACField g));
            m \<leftarrow> CWProtocolStore8 m 0;
            m \<leftarrow> CWProtocolStore8 m (ucast (gDTLSPolicy g));
            m \<leftarrow> store_vendor_infos le infos m;
            CWAssembleMsgElem alloc (Some m) CW_MSG_ELEMENT_AC_DESCRIPTOR_CW_TYPE }))"

fun store_words :: "u32 list \<Rightarrow> cw_msg \<Rightarrow> cw_msg option" where
  "store_words [] m = Some m"
| "store_words (w # ws) m = do { m \<leftarrow> CWProtocolStore32 m w; store_words ws m }"

definition CWAssembleMsgElemACIPv4List ::
  "(nat \<Rightarrow> bool) \<Rightarrow> bool \<Rightarrow> (CWErrorCode + cw_msg) option" where
  "CWAssembleMsgElemACIPv4List alloc le =
     (case CWACGetACIPv4List alloc le of
        Inl e \<Rightarrow> Some (Inl e)
      | Inr list \<Rightarrow> with_message alloc (4 * length list) (\<lambda>m. do {
          m \<leftarrow> store_words list m;
          CWAssembleMsgElem alloc (Some m) CW_MSG_ELEMENT_AC_IPV4_LIST_CW_TYPE }))"

fun store_addresses :: "u8 list list \<Rightarrow> cw_msg \<Rightarrow> cw_msg option" where
  "store_addresses [] m = Some m"
| "store_addresses (a # as) m = do { m \<leftarrow> CWProtocolStoreRawBytes m a 16; store_addresses as m }"

definition CWAssembleMsgElemACIPv6List :: "(nat \<Rightarrow> bool) \<Rightarrow> (CWErrorCode + cw_msg) option" where
  "CWAssembleMsgElemACIPv6List alloc =
     (case CWACGetACIPv6List alloc of
        Inl e \<Rightarrow> Some (Inl e)
      | Inr list \<Rightarrow> with_message alloc (16 * length list) (\<lambda>m. do {
          m \<leftarrow> store_addresses list m;
          CWAssembleMsgElem alloc (Some m) CW_MSG_ELEMENT_AC_IPV6_LIST_CW_TYPE }))"

definition AC_CWAssembleMsgElemACName ::
  "(nat \<Rightarrow> bool) \<Rightarrow> AC_globals \<Rightarrow> (CWErrorCode + cw_msg) option" where
  "AC_CWAssembleMsgElemACName alloc g = with_message alloc (length (gACName g)) (\<lambda>m. do {
     m \<leftarrow> CWProtocolStoreStr m (gACName g);
     CWAssembleMsgElem alloc (Some m) CW_MSG_ELEMENT_AC_NAME_CW_TYPE })"

definition CWAssembleMsgElemAddStation ::
  "(nat \<Rightarrow> bool) \<Rightarrow> u32 \<Rightarrow> u8 list \<Rightarrow> (CWErrorCode + cw_msg) option" where
  "CWAssembleMsgElemAddStation alloc rid StationMacAddr = with_message alloc 8 (\<lambda>m. do {
     m \<leftarrow> CWProtocolStore8 m (ucast rid);
     m \<leftarrow> CWProtocolStore8 m 6;
     m \<leftarrow> CWProtocolStoreRawBytes m StationMacAddr 6;
     CWAssembleMsgElem alloc (Some m) CW_MSG_ELEMENT_ADD_STATION_CW_TYPE })"

text \<open>
  One element per interface. The result of \<open>CWAssembleMsgElem\<close> is ignored, so on failure \<open>temp\<close> keeps the
  bare body; the message for all of them is created when the first element is there, sized for
  \<open>count\<close> elements like it.
\<close>

fun store_interfaces ::
  "(nat \<Rightarrow> bool) \<Rightarrow> (net_interface \<Rightarrow> (CWErrorCode + cw_msg) option) \<Rightarrow> nat \<Rightarrow> net_interface list \<Rightarrow>
     cw_msg option \<Rightarrow> (CWErrorCode + cw_msg option) option" where
  "store_interfaces alloc f count [] acc = Some (Inr acc)"
| "store_interfaces alloc f count (i # is) acc = do {
     r \<leftarrow> f i;
     (case r of
        Inl e \<Rightarrow> Some (Inl e)
      | Inr temp \<Rightarrow>
          (case (case acc of
                   None \<Rightarrow> CW_CREATE_PROTOCOL_MESSAGE alloc (offset temp * count)
                 | Some m \<Rightarrow> Inr m) of
             Inl e \<Rightarrow> Some (Inl e)
           | Inr m \<Rightarrow> do {
               m \<leftarrow> CWProtocolStoreMessage m temp;
               store_interfaces alloc f count is (Some m)
             }))
   }"

definition control_ipv4_element ::
  "(nat \<Rightarrow> bool) \<Rightarrow> bool \<Rightarrow> AC_globals \<Rightarrow> net_interface \<Rightarrow> (CWErrorCode + cw_msg) option" where
  "control_ipv4_element alloc le g i = with_message alloc 6 (\<lambda>temp. do {
     temp \<leftarrow> CWProtocolStore32 temp (CWACGetInterfaceIPv4AddressAtIndex le g i);
     temp \<leftarrow> CWProtocolStore16 temp (ucast (ni_WTPCount i));
     e \<leftarrow> CWAssembleMsgElem alloc (Some temp) CW_MSG_ELEMENT_CW_CONTROL_IPV4_ADDRESS_CW_TYPE;
     Some (ignore_failure temp e) })"

text \<open>Without an interface the IPv6 assembler leaves \<open>*msgPtr\<close> as it was: \<open>Inr None\<close>.\<close>

definition CWAssembleMsgElemCWControlIPv4Addresses ::
  "(nat \<Rightarrow> bool) \<Rightarrow> bool \<Rightarrow> AC_globals \<Rightarrow> (CWErrorCode + cw_msg option) option" where
  "CWAssembleMsgElemCWControlIPv4Addresses alloc le g =
     (if CWACGetInterfacesCount g \<le> 0 then Some (Inl CW_ERROR_NEED_RESOURCE)
      else store_interfaces alloc (control_ipv4_element alloc le g) (length (gInterfaces g))
             (gInterfaces g) None)"

definition control_ipv6_element ::
  "(nat \<Rightarrow> bool) \<Rightarrow> net_interface \<Rightarrow> (CWErrorCode + cw_msg) option" where
  "control_ipv6_element alloc i = with_message alloc 18 (\<lambda>temp. do {
     temp \<leftarrow> CWProtocolStoreRawBytes temp (ni_addr6 i) 16;
     temp \<leftarrow> CWProtocolStore16 temp (ucast (ni_WTPCount i));
     e \<leftarrow> CWAssembleMsgElem alloc (Some temp) CW_MSG_ELEMENT_CW_CONTROL_IPV6_ADDRESS_CW_TYPE;
     Some (ignore_failure temp e) })"

definition CWAssembleMsgElemCWControlIPv6Addresses ::
  "(nat \<Rightarrow> bool) \<Rightarrow> AC_globals \<Rightarrow> (CWErrorCode + cw_msg option) option" where
  "CWAssembleMsgElemCWControlIPv6Addresses alloc g =
     store_interfaces alloc (control_ipv6_element alloc) (length (gInterfaces g)) (gInterfaces g) None"

definition CWAssembleMsgElemCWTimer ::
  "(nat \<Rightarrow> bool) \<Rightarrow> AC_globals \<Rightarrow> (CWErrorCode + cw_msg) option" where
  "CWAssembleMsgElemCWTimer alloc g = with_message alloc 2 (\<lambda>m. do {
     m \<leftarrow> CWProtocolStore8 m (ucast (gDiscoveryTimer g));
     m \<leftarrow> CWProtocolStore8 m (ucast (gEchoRequestTimer g));
     CWAssembleMsgElem alloc (Some m) CW_MSG_ELEMENT_CW_TIMERS_CW_TYPE })"

definition decrypt_period_element ::
  "(nat \<Rightarrow> bool) \<Rightarrow> CWRadioAdminInfoValues \<Rightarrow> (CWErrorCode + cw_msg) option" where
  "decrypt_period_element alloc r = with_message alloc 3 (\<lambda>m. do {
     m \<leftarrow> CWProtocolStore8 m (ucast (ai_ID r));
     m \<leftarrow> CWProtocolStore16 m 15;
     CWAssembleMsgElem alloc (Some m) CW_MSG_ELEMENT_CW_DECRYPT_ER_REPORT_PERIOD_CW_TYPE })"

definition CWAssembleMsgElemDecryptErrorReportPeriod ::
  "(nat \<Rightarrow> bool) \<Rightarrow> AC_globals \<Rightarrow> (CWErrorCode + cw_msg) option" where
  "CWAssembleMsgElemDecryptErrorReportPeriod alloc g =
     assemble_array alloc (decrypt_period_element alloc) (ac_radioAdminInfo g)"

definition CWAssembleMsgElemIdleTimeout ::
  "(nat \<Rightarrow> bool) \<Rightarrow> AC_globals \<Rightarrow> (CWErrorCode + cw_msg) option" where
  "CWAssembleMsgElemIdleTimeout alloc g = with_message alloc 4 (\<lambda>m. do {
     m \<leftarrow> CWProtocolStore32 m (gIdleTimeout g);
     CWAssembleMsgElem alloc (Some m) CW_MSG_ELEMENT_IDLE_TIMEOUT_CW_TYPE })"

definition CWAssembleMsgElemWTPFallback ::
  "(nat \<Rightarrow> bool) \<Rightarrow> (CWErrorCode + cw_msg) option" where
  "CWAssembleMsgElemWTPFallback alloc = with_message alloc 1 (\<lambda>m. do {
     m \<leftarrow> CWProtocolStore8 m (0);
     CWAssembleMsgElem alloc (Some m) CW_MSG_ELEMENT_WTP_FALLBACK_CW_TYPE })"

definition AC_CWAssembleMsgElemRadioOperationalState ::
  "(nat \<Rightarrow> bool) \<Rightarrow> int \<Rightarrow> int \<Rightarrow> AC_globals \<Rightarrow> (CWErrorCode + cw_msg) option" where
  "AC_CWAssembleMsgElemRadioOperationalState alloc garbage rid g = do {
     r \<leftarrow> AC_CWGetWTPRadiosOperationalState alloc g garbage rid;
     (case r of
        Inl e \<Rightarrow> Some (Inl e)
      | Inr infos \<Rightarrow> assemble_array alloc (assemble_operational_state alloc) infos)
   }"

subsection \<open>Parsing at the WTP\<close>

text \<open>The fields of \<open>CWACInfoValues\<close> the descriptor fills.\<close>

record ac_descriptor =
  ad_stations :: u32
  ad_limit :: u32
  ad_activeWTPs :: u32
  ad_maxWTPs :: u32
  ad_security :: u32
  ad_RMACField :: u32
  ad_DTLSPolicy :: u32
  ad_vendorInfos :: "CWVendorInfoValues list"

definition CWParseACDescriptor ::
  "(nat \<Rightarrow> bool) \<Rightarrow> bool \<Rightarrow> cw_msg option \<Rightarrow> nat \<Rightarrow> (CWErrorCode + ac_descriptor \<times> cw_msg) option" where
  "CWParseACDescriptor alloc le msgPtr len = CWParseMessageElement (\<lambda>m. do {
     let stop = int (offset m) + int len;
     (a, m) \<leftarrow> CWProtocolRetrieve16 m;
     (b, m) \<leftarrow> CWProtocolRetrieve16 m;
     (c, m) \<leftarrow> CWProtocolRetrieve16 m;
     (d, m) \<leftarrow> CWProtocolRetrieve16 m;
     (e, m) \<leftarrow> CWProtocolRetrieve8 m;
     (f, m) \<leftarrow> CWProtocolRetrieve8 m;
     (_, m) \<leftarrow> CWProtocolRetrieve8 m;
     (p, m) \<leftarrow> CWProtocolRetrieve8 m;
     r \<leftarrow> parse_vendor_infos alloc le None stop m;
     Some (map_sum id (map_prod (\<lambda>vs. \<lparr>ad_stations = ucast a, ad_limit = ucast b,
             ad_activeWTPs = ucast c, ad_maxWTPs = ucast d, ad_security = ucast e,
             ad_RMACField = ucast f, ad_DTLSPolicy = ucast p, ad_vendorInfos = vs\<rparr>) id) r) }) msgPtr len"

fun retrieve_words :: "nat \<Rightarrow> cw_msg \<Rightarrow> (u32 list \<times> cw_msg) option" where
  "retrieve_words 0 m = Some ([], m)"
| "retrieve_words (Suc n) m = do {
     (w, m) \<leftarrow> CWProtocolRetrieve32 m; (ws, m) \<leftarrow> retrieve_words n m; Some (w # ws, m) }"

definition CWParseACIPv4List ::
  "(nat \<Rightarrow> bool) \<Rightarrow> cw_msg option \<Rightarrow> nat \<Rightarrow> (CWErrorCode + u32 list \<times> cw_msg) option" where
  "CWParseACIPv4List alloc msgPtr len = CWParseMessageElement (\<lambda>m.
     if len = 0 \<or> len mod 4 \<noteq> 0 then Some (Inl CW_ERROR_INVALID_FORMAT)
     else if \<not> alloc (4 * (len div 4)) then Some (Inl CW_ERROR_OUT_OF_MEMORY)
     else do { (ws, m) \<leftarrow> retrieve_words (len div 4) m; Some (Inr (ws, m)) }) msgPtr len"

text \<open>Each address is copied from the block \<open>CWProtocolRetrieveRawBytes\<close> returns, unchecked.\<close>

fun retrieve_addresses :: "(nat \<Rightarrow> bool) \<Rightarrow> nat \<Rightarrow> cw_msg \<Rightarrow> (u8 list list \<times> cw_msg) option" where
  "retrieve_addresses alloc 0 m = Some ([], m)"
| "retrieve_addresses alloc (Suc n) m = do {
     (ptr, m) \<leftarrow> CWProtocolRetrieveRawBytes alloc 16 m;
     a \<leftarrow> ptr;
     (as, m) \<leftarrow> retrieve_addresses alloc n m;
     Some (a # as, m) }"

definition CWParseACIPv6List ::
  "(nat \<Rightarrow> bool) \<Rightarrow> cw_msg option \<Rightarrow> nat \<Rightarrow> (CWErrorCode + u8 list list \<times> cw_msg) option" where
  "CWParseACIPv6List alloc msgPtr len = CWParseMessageElement (\<lambda>m.
     if len = 0 \<or> len mod 16 \<noteq> 0 then Some (Inl CW_ERROR_INVALID_FORMAT)
     else if \<not> alloc (16 * (len div 16)) then Some (Inl CW_ERROR_OUT_OF_MEMORY)
     else do { (as, m) \<leftarrow> retrieve_addresses alloc (len div 16) m; Some (Inr (as, m)) }) msgPtr len"

text \<open>The six bytes of the address are logged, whatever the length field said.\<close>

definition CWParseAddStation ::
  "(nat \<Rightarrow> bool) \<Rightarrow> cw_msg option \<Rightarrow> nat \<Rightarrow> (CWErrorCode + (u32 \<times> u8 list) \<times> cw_msg) option" where
  "CWParseAddStation alloc = CWParseMessageElement (\<lambda>m. do {
     (r, m) \<leftarrow> CWProtocolRetrieve8 m;
     (l, m) \<leftarrow> CWProtocolRetrieve8 m;
     (mac, m) \<leftarrow> CWProtocolRetrieveRawBytes alloc (unat l) m;
     bs \<leftarrow> mac;
     if length bs < 6 then None else Some (Inr ((ucast r, bs), m)) })"

record CWProtocolIPv4NetworkInterface =
  i4_WTPCount :: u32
  i4_addr :: sockaddr_in

definition CWParseCWControlIPv4Addresses ::
  "bool \<Rightarrow> cw_msg option \<Rightarrow> nat \<Rightarrow> (CWErrorCode + CWProtocolIPv4NetworkInterface \<times> cw_msg) option" where
  "CWParseCWControlIPv4Addresses le = CWParseMessageElement (\<lambda>m. do {
     (a, m) \<leftarrow> CWProtocolRetrieve32 m;
     (n, m) \<leftarrow> CWProtocolRetrieve16 m;
     Some (Inr (\<lparr>i4_WTPCount = ucast n, i4_addr = \<lparr>s_addr = htonl le a, sin_family = AF_INET,
                 sin_port = htons le CW_CONTROL_PORT\<rparr>\<rparr>, m)) })"

record sockaddr_in6 =
  s6_addr :: "u8 list"
  sin6_family :: nat
  sin6_port :: u16

record CWProtocolIPv6NetworkInterface =
  i6_WTPCount :: u32
  i6_addr :: sockaddr_in6

definition CWParseCWControlIPv6Addresses ::
  "(nat \<Rightarrow> bool) \<Rightarrow> bool \<Rightarrow> cw_msg option \<Rightarrow> nat \<Rightarrow>
     (CWErrorCode + CWProtocolIPv6NetworkInterface \<times> cw_msg) option" where
  "CWParseCWControlIPv6Addresses alloc le = CWParseMessageElement (\<lambda>m. do {
     (p, m) \<leftarrow> CWProtocolRetrieveRawBytes alloc 16 m;
     a \<leftarrow> p;
     (n, m) \<leftarrow> CWProtocolRetrieve16 m;
     Some (Inr (\<lparr>i6_WTPCount = ucast n, i6_addr = \<lparr>s6_addr = a, sin6_family = AF_INET6,
                 sin6_port = htons le CW_CONTROL_PORT\<rparr>\<rparr>, m)) })"

definition CWParseCWTimers :: "cw_msg option \<Rightarrow> nat \<Rightarrow> (CWErrorCode + (u32 \<times> u32) \<times> cw_msg) option" where
  "CWParseCWTimers = CWParseMessageElement (\<lambda>m. do {
     (a, m) \<leftarrow> CWProtocolRetrieve8 m;
     (b, m) \<leftarrow> CWProtocolRetrieve8 m;
     Some (Inr ((ucast a, ucast b), m)) })"

record WTPDecryptErrorReportValues =
  dp_radioID :: u32
  dp_reportInterval :: u32

definition CWParseDecryptErrorReportPeriod ::
  "cw_msg option \<Rightarrow> nat \<Rightarrow> (CWErrorCode + WTPDecryptErrorReportValues \<times> cw_msg) option" where
  "CWParseDecryptErrorReportPeriod = CWParseMessageElement (\<lambda>m. do {
     (a, m) \<leftarrow> CWProtocolRetrieve8 m;
     (b, m) \<leftarrow> CWProtocolRetrieve16 m;
     Some (Inr (\<lparr>dp_radioID = ucast a, dp_reportInterval = ucast b\<rparr>, m)) })"

definition CWParseIdleTimeout :: "cw_msg option \<Rightarrow> nat \<Rightarrow> (CWErrorCode + u32 \<times> cw_msg) option" where
  "CWParseIdleTimeout = CWParseMessageElement (\<lambda>m. do {
     (v, m) \<leftarrow> CWProtocolRetrieve32 m; Some (Inr (v, m)) })"

definition CWParseWTPFallback :: "cw_msg option \<Rightarrow> nat \<Rightarrow> (CWErrorCode + u32 \<times> cw_msg) option" where
  "CWParseWTPFallback = CWParseMessageElement (\<lambda>m. do {
     (v, m) \<leftarrow> CWProtocolRetrieve8 m; Some (Inr (ucast v, m)) })"


subsection \<open>Each element carries its value\<close>

interpretation ac_name: reliable_element CW_MSG_ELEMENT_AC_NAME_CW_TYPE the
  "\<lambda>v. v = Some (gACName g) \<and> length (gACName g) < 65536"
  "\<lambda>alloc _. AC_CWAssembleMsgElemACName alloc g" CWParseACName for g
  by unfold_locales (auto simp: AC_CWAssembleMsgElemACName_def CWParseACName_def cw_wire)

interpretation ac_timers: fixed_element CW_MSG_ELEMENT_CW_TIMERS_CW_TYPE
  "\<lambda>(a, b). byte_bytes a @ byte_bytes b"
  "\<lambda>(a, b). a = gDiscoveryTimer g \<and> b = gEchoRequestTimer g \<and> a < 256 \<and> b < 256"
  "\<lambda>alloc _. CWAssembleMsgElemCWTimer alloc g" "\<lambda>_. CWParseCWTimers" for g
  by unfold_locales (auto simp: CWAssembleMsgElemCWTimer_def CWParseCWTimers_def cw_wire byte_bytes_def)

interpretation ac_idle: fixed_element CW_MSG_ELEMENT_IDLE_TIMEOUT_CW_TYPE be32
  "\<lambda>v. v = gIdleTimeout g"
  "\<lambda>alloc _. CWAssembleMsgElemIdleTimeout alloc g" "\<lambda>_. CWParseIdleTimeout" for g
  by unfold_locales (auto simp: CWAssembleMsgElemIdleTimeout_def CWParseIdleTimeout_def cw_wire)

interpretation ac_fallback: fixed_element CW_MSG_ELEMENT_WTP_FALLBACK_CW_TYPE byte_bytes
  "\<lambda>v. v = 0"
  "\<lambda>alloc _. CWAssembleMsgElemWTPFallback alloc" "\<lambda>_. CWParseWTPFallback"
  by unfold_locales (auto simp: CWAssembleMsgElemWTPFallback_def CWParseWTPFallback_def cw_wire
      byte_bytes_def)

interpretation ac_station: reliable_element CW_MSG_ELEMENT_ADD_STATION_CW_TYPE
  "\<lambda>(r, mac). byte_bytes r @ [6] @ mac"
  "\<lambda>(r, mac). r = rid \<and> rid < 256 \<and> mac = StationMacAddr \<and> length mac = 6"
  "\<lambda>alloc _. CWAssembleMsgElemAddStation alloc rid StationMacAddr" CWParseAddStation
  for rid StationMacAddr
  by unfold_locales (auto simp: CWAssembleMsgElemAddStation_def CWParseAddStation_def cw_wire
      byte_bytes_def split: if_split_asm)

interpretation ac_decrypt_period: fixed_element CW_MSG_ELEMENT_CW_DECRYPT_ER_REPORT_PERIOD_CW_TYPE
  "\<lambda>v. byte_bytes (dp_radioID v) @ half_bytes (dp_reportInterval v)"
  "\<lambda>v. v = \<lparr>dp_radioID = ai_ID r, dp_reportInterval = 15\<rparr> \<and> ai_ID r < 256"
  "\<lambda>alloc _. decrypt_period_element alloc r" "\<lambda>_. CWParseDecryptErrorReportPeriod" for r
  by unfold_locales (auto simp: decrypt_period_element_def CWParseDecryptErrorReportPeriod_def cw_wire
      byte_bytes_def half_bytes_def)


subsection \<open>The AC descriptor\<close>

definition ac_infos :: "bool \<Rightarrow> AC_globals \<Rightarrow> CWVendorInfoValues list" where
  "ac_infos le g = [ac_vendor_info le 4 (gACHWVersion g), ac_vendor_info le 5 (gACSWVersion g)]"

definition ac_descriptor_of :: "bool \<Rightarrow> bool \<Rightarrow> AC_globals \<Rightarrow> ac_descriptor" where
  "ac_descriptor_of le locked g =
     \<lparr>ad_stations = gActiveStations g, ad_limit = gLimit g, ad_activeWTPs = CWACGetActiveWTPs locked g,
      ad_maxWTPs = gMaxWTPs g, ad_security = gACDescriptorSecurity g, ad_RMACField = gRMACField g,
      ad_DTLSPolicy = gDTLSPolicy g, ad_vendorInfos = ac_infos le g\<rparr>"

definition ac_fits :: "AC_globals \<Rightarrow> bool" where
  "ac_fits g \<longleftrightarrow> gActiveStations g < 65536 \<and> gLimit g < 65536 \<and> gActiveWTPs g < 65536 \<and>
     gMaxWTPs g < 65536 \<and> gACDescriptorSecurity g < 256 \<and> gRMACField g < 256 \<and> gDTLSPolicy g < 256"

definition ac_head :: "ac_descriptor \<Rightarrow> u8 list" where
  "ac_head v = half_bytes (ad_stations v) @ half_bytes (ad_limit v) @ half_bytes (ad_activeWTPs v) @
     half_bytes (ad_maxWTPs v) @ byte_bytes (ad_security v) @ byte_bytes (ad_RMACField v) @ [0] @
     byte_bytes (ad_DTLSPolicy v)"

lemma ac_infos_facts:
  "\<forall>v \<in> set (ac_infos le g). vendor_wf v"
  "sum_list (map (\<lambda>v. 8 + vi_length v) (ac_infos le g)) = 24"
  "length (concat (map (vendor_bytes le') (ac_infos le g))) = 24"
  "length (infos_bytes le' None (ac_infos le g)) = 24"
  by (auto simp: ac_infos_def ac_vendor_info_def vendor_wf_def int_mem_def tlv_bytes_def vendor_bytes_def)

lemma length_ac_head [simp]: "length (ac_head v) = 12"
  by (simp add: ac_head_def)

interpretation ac_descriptor_elem: reliable_element CW_MSG_ELEMENT_AC_DESCRIPTOR_CW_TYPE
  "\<lambda>v. ac_head v @ infos_bytes le None (ad_vendorInfos v)"
  "\<lambda>v. v = ac_descriptor_of le locked g \<and> ac_fits g"
  "\<lambda>alloc _. CWAssembleMsgElemACDescriptor alloc le locked g"
  "\<lambda>alloc. CWParseACDescriptor alloc le" for le locked g
proof (unfold_locales, goal_cases)
  case (1 v)
  then show ?case
    using store_vendor_infos_wbuf [OF ac_infos_facts(1)]
    by (auto simp: CWAssembleMsgElemACDescriptor_def CWACGetVendorInfos_def ac_infos_def [symmetric]
        ac_infos_facts cw_wire ac_descriptor_of_def ac_head_def byte_bytes_def half_bytes_def
        infos_bytes_def)
next
  case (2 v)
  then show ?case by (auto simp: ac_infos_facts ac_descriptor_of_def)
next
  case (3 v d pre rest)
  then show ?case
    using parse_vendor_infos_rbuf [of "ac_infos le g" None "int (length pre) + 36"
        "pre @ ac_head (ac_descriptor_of le locked g)" le d rest] ac_infos_facts(1) [of le g]
    by (auto simp: CWParseACDescriptor_def cw_wire ac_infos_facts ac_descriptor_of_def ac_head_def
        byte_bytes_def half_bytes_def ac_fits_def CWACGetActiveWTPs_def)
next
  case (4 v alloc)
  then show ?case
    using store_vendor_infos_wbuf [OF ac_infos_facts(1)]
    by (auto simp: CWAssembleMsgElemACDescriptor_def CWACGetVendorInfos_def ac_infos_def [symmetric]
        ac_infos_facts cw_wire)
qed

subsection \<open>Lists of addresses\<close>

lemma store_words_wbuf [cw_wire]:
  "length bs + 4 * length ws \<le> n \<Longrightarrow>
   store_words ws (wbuf n bs) = Some (wbuf n (bs @ concat (map be32 ws)))"
  by (induction ws arbitrary: bs) (simp_all add: cw_wire)

lemma retrieve_words_rbuf [cw_wire]:
  "retrieve_words (length ws) (rbuf d pre (concat (map be32 ws) @ rest)) =
     Some (ws, rbuf d (pre @ concat (map be32 ws)) rest)"
  by (induction ws arbitrary: pre) (simp_all add: cw_wire)

lemma length_concat_words [simp, cw_len]: "length (concat (map be32 ws)) = 4 * length ws"
  by (induction ws) auto

lemma store_addresses_wbuf [cw_wire]:
  "\<forall>a \<in> set as. length a = 16 \<Longrightarrow> length bs + 16 * length as \<le> n \<Longrightarrow>
   store_addresses as (wbuf n bs) = Some (wbuf n (bs @ concat as))"
  by (induction as arbitrary: bs) (simp_all add: cw_wire)

lemma retrieve_addresses_rbuf [cw_wire]:
  "\<forall>a \<in> set as. length a = 16 \<Longrightarrow>
   retrieve_addresses plenty (length as) (rbuf d pre (concat as @ rest)) =
     Some (as, rbuf d (pre @ concat as) rest)"
  by (induction as arbitrary: pre) (simp_all add: cw_wire)

lemma length_concat_addresses:
  "\<forall>a \<in> set as. length a = 16 \<Longrightarrow> length (concat as) = 16 * length as"
  by (induction as) auto

interpretation ac_ipv4_list: reliable_element CW_MSG_ELEMENT_AC_IPV4_LIST_CW_TYPE
  "\<lambda>ws. concat (map be32 ws)"
  "\<lambda>ws. Inr ws = CWACGetACIPv4List plenty le"
  "\<lambda>alloc _. CWAssembleMsgElemACIPv4List alloc le" CWParseACIPv4List for le
proof (unfold_locales, goal_cases)
  case (3 v d pre rest)
  then have "length v = 2" by (simp add: CWACGetACIPv4List_def)
  then show ?case
    using retrieve_words_rbuf [of v d pre rest] by (simp add: CWParseACIPv4List_def cw_wire)
qed (auto simp: CWAssembleMsgElemACIPv4List_def CWACGetACIPv4List_def cw_wire)

interpretation ac_ipv6_list: reliable_element CW_MSG_ELEMENT_AC_IPV6_LIST_CW_TYPE
  concat "\<lambda>as. Inr as = CWACGetACIPv6List plenty"
  "\<lambda>alloc _. CWAssembleMsgElemACIPv6List alloc" CWParseACIPv6List
proof (unfold_locales, goal_cases)
  case (3 v d pre rest)
  then have v: "length v = 2" "\<forall>a \<in> set v. length a = 16" by (simp_all add: CWACGetACIPv6List_def)
  then show ?case
    using retrieve_addresses_rbuf [of v d pre rest] length_concat_addresses [of v]
    by (simp add: CWParseACIPv6List_def cw_wire)
qed (auto simp: CWAssembleMsgElemACIPv6List_def CWACGetACIPv6List_def cw_wire)


subsection \<open>One element per interface\<close>

lemma store_interfaces_acc:
  assumes "\<forall>i \<in> set is. f i = Some (Inr (elem_msg t (g i))) \<and> length (g i) = k"
    and "length bs + (4 + k) * length is \<le> n"
  shows "store_interfaces alloc f c is (Some (wbuf n bs)) =
    Some (Inr (Some (wbuf n (bs @ concat (map (\<lambda>i. elem_bytes t (g i)) is)))))"
  using assms
proof (induction "is" arbitrary: bs)
  case (Cons i "is")
  then show ?case using Cons.IH [of "bs @ elem_bytes t (g i)"] by (simp add: StoreMessage_wbuf)
qed simp

lemma length_concat_elems:
  "\<forall>i \<in> set is. length (g i) = k \<Longrightarrow>
   length (concat (map (\<lambda>i. elem_bytes t (g i)) is)) = (4 + k) * length is"
  by (induction "is") auto

lemma store_interfaces_all:
  assumes "\<forall>i \<in> set is. f i = Some (Inr (elem_msg t (g i))) \<and> length (g i) = k" and "is \<noteq> []"
  shows "store_interfaces plenty f (length is) is None =
    Some (Inr (Some (let bs = concat (map (\<lambda>i. elem_bytes t (g i)) is) in wbuf (length bs) bs)))"
proof (cases "is")
  case (Cons i js)
  with assms(1) have i: "f i = Some (Inr (elem_msg t (g i)))" "length (g i) = k"
    and js: "\<forall>i \<in> set js. f i = Some (Inr (elem_msg t (g i))) \<and> length (g i) = k" by auto
  then show ?thesis
    using store_interfaces_acc [OF js, of "elem_bytes t (g i)" "(4 + k) * length is" plenty "length is"]
      length_concat_elems [of js g k t]
    by (simp add: Cons CW_CREATE_wbuf StoreMessage_wbuf Let_def)
qed (use assms(2) in simp)

definition if4_value :: "bool \<Rightarrow> AC_globals \<Rightarrow> net_interface \<Rightarrow> CWProtocolIPv4NetworkInterface" where
  "if4_value le g i = \<lparr>i4_WTPCount = ni_WTPCount i,
     i4_addr = \<lparr>s_addr = (if prefer_IPv4 g then ni_addr4 i else ni_addrIPv4 i),
                sin_family = AF_INET, sin_port = htons le CW_CONTROL_PORT\<rparr>\<rparr>"

definition if6_value :: "bool \<Rightarrow> net_interface \<Rightarrow> CWProtocolIPv6NetworkInterface" where
  "if6_value le i = \<lparr>i6_WTPCount = ni_WTPCount i,
     i6_addr = \<lparr>s6_addr = ni_addr6 i, sin6_family = AF_INET6, sin6_port = htons le CW_CONTROL_PORT\<rparr>\<rparr>"

definition if4_bytes :: "bool \<Rightarrow> CWProtocolIPv4NetworkInterface \<Rightarrow> u8 list" where
  "if4_bytes le v = be32 (htonl le (s_addr (i4_addr v))) @ half_bytes (i4_WTPCount v)"

definition if6_bytes :: "CWProtocolIPv6NetworkInterface \<Rightarrow> u8 list" where
  "if6_bytes v = s6_addr (i6_addr v) @ half_bytes (i6_WTPCount v)"

interpretation ac_control4: element_codec CW_MSG_ELEMENT_CW_CONTROL_IPV4_ADDRESS_CW_TYPE
  "if4_bytes le" "\<lambda>v. v = if4_value le g i \<and> ni_WTPCount i < 65536"
  "\<lambda>alloc _. control_ipv4_element alloc le g i" "\<lambda>_. CWParseCWControlIPv4Addresses le" for le g i
  by unfold_locales (auto simp: control_ipv4_element_def CWParseCWControlIPv4Addresses_def cw_wire
      if4_bytes_def if4_value_def half_bytes_def CWACGetInterfaceIPv4AddressAtIndex_def ignore_failure_def)

interpretation ac_control6: element_codec CW_MSG_ELEMENT_CW_CONTROL_IPV6_ADDRESS_CW_TYPE
  if6_bytes "\<lambda>v. v = if6_value le i \<and> ni_WTPCount i < 65536 \<and> length (ni_addr6 i) = 16"
  "\<lambda>alloc _. control_ipv6_element alloc i" "\<lambda>alloc. CWParseCWControlIPv6Addresses alloc le" for le i
  by unfold_locales (auto simp: control_ipv6_element_def CWParseCWControlIPv6Addresses_def cw_wire
      if6_bytes_def if6_value_def half_bytes_def ignore_failure_def)

lemma receive_elements_each:
  "\<forall>i \<in> set is. \<forall>pre rest. receive_element parse (rbuf d pre (elem_bytes t (g i) @ rest)) =
       Some (t, Inr (v i, rbuf d (pre @ elem_bytes t (g i)) rest)) \<Longrightarrow>
   receive_elements parse (length is) (rbuf d pre (concat (map (\<lambda>i. elem_bytes t (g i)) is) @ rest)) =
     Some (Inr (map (\<lambda>i. (t, v i)) is, rbuf d (pre @ concat (map (\<lambda>i. elem_bytes t (g i)) is)) rest))"
  by (induction "is" arbitrary: pre) auto

text \<open>
  The AC announces every interface it has: with at least one interface, and fewer than 65536 WTPs on
  each, \<open>CWAssembleMsgElemCWControlIPv4Addresses\<close> builds one element per interface, in order, and the
  WTP reading as many elements gets back each address and WTP count; without interfaces it is refused with
  \<open>CW_ERROR_NEED_RESOURCE\<close>.
\<close>

theorem control_ipv4_addresses_reach_the_wtp:
  assumes "\<forall>i \<in> set (gInterfaces g). ni_WTPCount i < 65536"
  shows "if gInterfaces g = [] then
      CWAssembleMsgElemCWControlIPv4Addresses alloc le g = Some (Inl CW_ERROR_NEED_RESOURCE)
    else
      \<exists>m. CWAssembleMsgElemCWControlIPv4Addresses plenty le g = Some (Inr (Some m)) \<and> msg_fits m \<and>
        (\<forall>d pre rest. receive_elements (CWParseCWControlIPv4Addresses le) (length (gInterfaces g))
             (rbuf d pre (contents m @ rest)) =
           Some (Inr (map (\<lambda>i. (ucast CW_MSG_ELEMENT_CW_CONTROL_IPV4_ADDRESS_CW_TYPE, if4_value le g i))
                        (gInterfaces g), rbuf d (pre @ contents m) rest)))"
proof (cases "gInterfaces g = []")
  case True
  then show ?thesis by (simp add: CWAssembleMsgElemCWControlIPv4Addresses_def CWACGetInterfacesCount_def)
next
  case False
  let ?t = "ucast CW_MSG_ELEMENT_CW_CONTROL_IPV4_ADDRESS_CW_TYPE :: u16"
  have "\<forall>i \<in> set (gInterfaces g). control_ipv4_element plenty le g i =
      Some (Inr (elem_msg ?t (if4_bytes le (if4_value le g i)))) \<and> length (if4_bytes le (if4_value le g i)) = 6"
    using assms ac_control4.assemble_enc [of _ le g] by (auto simp: if4_bytes_def)
  note sent = store_interfaces_all [OF this False]
  have "receive_elements (CWParseCWControlIPv4Addresses le) (length (gInterfaces g)) (rbuf d pre
        (concat (map (\<lambda>i. elem_bytes ?t (if4_bytes le (if4_value le g i))) (gInterfaces g)) @ rest)) =
      Some (Inr (map (\<lambda>i. (?t, if4_value le g i)) (gInterfaces g), rbuf d (pre @
        concat (map (\<lambda>i. elem_bytes ?t (if4_bytes le (if4_value le g i))) (gInterfaces g))) rest))" for d pre rest
    using assms ac_control4.received [of _ le g] by (intro receive_elements_each) blast
  with sent False show ?thesis
    by (simp add: CWAssembleMsgElemCWControlIPv4Addresses_def CWACGetInterfacesCount_def Let_def)
qed

definition sample_ac :: AC_globals where
  "sample_ac = \<lparr>gACName = [65, 67], gActiveStations = 5, gLimit = 100, gActiveWTPs = 2, gMaxWTPs = 10,
     gACDescriptorSecurity = 1, gRMACField = 0, gDTLSPolicy = 4, gACHWVersion = 7, gACSWVersion = 9,
     gInterfaces = [\<lparr>ni_addr4 = 0x0100A8C0, ni_addr6 = replicate 16 0, ni_addrIPv4 = 0, ni_WTPCount = 3\<rparr>,
       \<lparr>ni_addr4 = 0x0200A8C0, ni_addr6 = replicate 16 1, ni_addrIPv4 = 0, ni_WTPCount = 4\<rparr>],
     prefer_IPv4 = True, gDiscoveryTimer = 20, gEchoRequestTimer = 30, gIdleTimeout = 10,
     ac_radioAdminInfo = [\<lparr>ai_ID = 3, ai_state = 1, ai_cause = 1\<rparr>], ac_radiosInfo = [sample_radio]\<rparr>"

lemma control_ipv4_addresses_reach_the_wtp_witness:
  "\<exists>m. CWAssembleMsgElemCWControlIPv4Addresses plenty True sample_ac = Some (Inr (Some m)) \<and>
     receive_elements (CWParseCWControlIPv4Addresses True) (length (gInterfaces sample_ac))
         (rbuf None [] (contents m @ [])) =
       Some (Inr ([(10, if4_value True sample_ac (gInterfaces sample_ac ! 0)),
                   (10, if4_value True sample_ac (gInterfaces sample_ac ! 1))],
                  rbuf None ([] @ contents m) []))"
proof -
  have "\<forall>i \<in> set (gInterfaces sample_ac). ni_WTPCount i < 65536" by (simp add: sample_ac_def)
  from control_ipv4_addresses_reach_the_wtp [OF this, of plenty True] obtain m where
    "CWAssembleMsgElemCWControlIPv4Addresses plenty True sample_ac = Some (Inr (Some m))"
    "\<forall>d pre rest. receive_elements (CWParseCWControlIPv4Addresses True) (length (gInterfaces sample_ac))
       (rbuf d pre (contents m @ rest)) =
     Some (Inr (map (\<lambda>i. (ucast CW_MSG_ELEMENT_CW_CONTROL_IPV4_ADDRESS_CW_TYPE, if4_value True sample_ac i))
                 (gInterfaces sample_ac), rbuf d (pre @ contents m) rest))"
    by (auto simp: sample_ac_def)
  moreover have "map (\<lambda>i. (ucast CW_MSG_ELEMENT_CW_CONTROL_IPV4_ADDRESS_CW_TYPE, if4_value True sample_ac i))
       (gInterfaces sample_ac) =
     [(10, if4_value True sample_ac (gInterfaces sample_ac ! 0)),
      (10, if4_value True sample_ac (gInterfaces sample_ac ! 1))]"
    by (simp add: sample_ac_def CW_MSG_ELEMENT_CW_CONTROL_IPV4_ADDRESS_CW_TYPE_def)
  ultimately show ?thesis by metis
qed

subsection \<open>Properties of the elements of the AC\<close>

text \<open>
  C8: The descriptor and the settings of the AC reach the WTP unchanged: with counters that fit their
  fields, the descriptor (with both vendor entries, on hosts of either byte order), the AC name, the
  timers, the idle timeout, the fallback flag, both address lists and the station to add are read back by the
  parsers of the WTP as the AC holds them, wherever the element stands, and nothing beyond it is read.
\<close>

theorem ac_values_reach_the_wtp:
  assumes "ac_fits g" and "length (gACName g) < 65536" and "gDiscoveryTimer g < 256"
    and "gEchoRequestTimer g < 256" and "rid < 256" and "length mac = 6"
  shows "carries CW_MSG_ELEMENT_AC_DESCRIPTOR_CW_TYPE
      (CWAssembleMsgElemACDescriptor plenty le locked g) (CWParseACDescriptor plenty le)
      \<lparr>ad_stations = gActiveStations g, ad_limit = gLimit g,
       ad_activeWTPs = (if locked then gActiveWTPs g else 0), ad_maxWTPs = gMaxWTPs g,
       ad_security = gACDescriptorSecurity g, ad_RMACField = gRMACField g, ad_DTLSPolicy = gDTLSPolicy g,
       ad_vendorInfos = [ac_vendor_info le 4 (gACHWVersion g), ac_vendor_info le 5 (gACSWVersion g)]\<rparr> \<and>
    carries CW_MSG_ELEMENT_AC_NAME_CW_TYPE
      (AC_CWAssembleMsgElemACName plenty g) (CWParseACName plenty) (Some (gACName g)) \<and>
    carries CW_MSG_ELEMENT_CW_TIMERS_CW_TYPE
      (CWAssembleMsgElemCWTimer plenty g) CWParseCWTimers (gDiscoveryTimer g, gEchoRequestTimer g) \<and>
    carries CW_MSG_ELEMENT_IDLE_TIMEOUT_CW_TYPE
      (CWAssembleMsgElemIdleTimeout plenty g) CWParseIdleTimeout (gIdleTimeout g) \<and>
    carries CW_MSG_ELEMENT_WTP_FALLBACK_CW_TYPE
      (CWAssembleMsgElemWTPFallback plenty) CWParseWTPFallback 0 \<and>
    carries CW_MSG_ELEMENT_AC_IPV4_LIST_CW_TYPE
      (CWAssembleMsgElemACIPv4List plenty le) (CWParseACIPv4List plenty)
      [inet_addr le [172, 10, 10, 77], inet_addr le [172, 10, 10, 76]] \<and>
    (\<exists>as. CWACGetACIPv6List plenty = Inr as \<and>
      carries CW_MSG_ELEMENT_AC_IPV6_LIST_CW_TYPE
        (CWAssembleMsgElemACIPv6List plenty) (CWParseACIPv6List plenty) as) \<and>
    carries CW_MSG_ELEMENT_ADD_STATION_CW_TYPE
      (CWAssembleMsgElemAddStation plenty rid mac) (CWParseAddStation plenty) (rid, mac)"
  using assms ac_descriptor_elem.carried [of _ le locked g] ac_name.carried [of _ g]
    ac_timers.carried [of g] ac_idle.carried [of _ g] ac_fallback.carried ac_ipv4_list.carried [of _ le]
    ac_ipv6_list.carried ac_station.carried [of rid mac]
  by (auto simp: ac_descriptor_of_def CWACGetActiveWTPs_def ac_infos_def CWACGetACIPv4List_def
      CWACGetACIPv6List_def split: if_split_asm)

lemma ac_values_reach_the_wtp_witness:
  "carries CW_MSG_ELEMENT_AC_NAME_CW_TYPE
     (AC_CWAssembleMsgElemACName plenty sample_ac) (CWParseACName plenty) (Some [65, 67]) \<and>
   carries CW_MSG_ELEMENT_CW_TIMERS_CW_TYPE
     (CWAssembleMsgElemCWTimer plenty sample_ac) CWParseCWTimers (20, 30)"
  using ac_values_reach_the_wtp [of sample_ac 3 "[1, 2, 3, 4, 5, 6]" True True]
  by (simp add: sample_ac_def ac_fits_def)

text \<open>
  The AC sends its IPv4 list in the wrong byte order on a little-endian host: the addresses are
  already in network order when \<open>CWProtocolStore32\<close> swaps them, so the element holds 77.10.10.172 and
  76.10.10.172. A big-endian AC sends 172.10.10.77 and 172.10.10.76, so two hosts of different byte
  order do not understand each other's list.
\<close>

theorem ipv4_list_reversed_on_little_endian:
  "CWAssembleMsgElemACIPv4List plenty True =
     Some (Inr (elem_msg (ucast CW_MSG_ELEMENT_AC_IPV4_LIST_CW_TYPE)
       [77, 10, 10, 172, 76, 10, 10, 172])) \<and>
   CWAssembleMsgElemACIPv4List plenty False =
     Some (Inr (elem_msg (ucast CW_MSG_ELEMENT_AC_IPV4_LIST_CW_TYPE)
       [172, 10, 10, 77, 172, 10, 10, 76]))"
proof -
  have "be32 2886339149 = [172, 10, 10, 77]" "be32 2886339148 = [172, 10, 10, 76]"
    "be32 1292503724 = [77, 10, 10, 172]" "be32 1275726508 = [76, 10, 10, 172]"
    by (simp_all add: be32_def)
  then show ?thesis
    by (simp add: CWAssembleMsgElemACIPv4List_def CWACGetACIPv4List_def inet_addr_def htonl_def cw_wire
        be32_of_be32)
qed

text \<open>
  The Add Station parser logs six bytes of the address it was given, whatever length the element
  announced: when the block can be allocated and the announced length is less than six, it reads beyond
  the block.
\<close>

theorem add_station_short_address_overread:
  assumes "unat l < 6" and "length mac = unat l" and "alloc (unat l)"
  shows "CWParseAddStation alloc (Some (rbuf d pre (r # l # mac @ rest))) len = None"
  using assms RetrieveRaw_rbuf [of alloc "unat l" mac d "pre @ [r, l]" rest]
  by (simp add: CWParseAddStation_def cw_wire)

lemma add_station_short_address_overread_witness:
  "CWParseAddStation plenty (Some (rbuf None [] (3 # 2 # [7, 8] @ []))) 4 = None"
  using add_station_short_address_overread [of 2 "[7, 8]" plenty None "[]" 3 "[]" 4] by simp

end
