(* ===== verification/Transport.thy ===== *)
theory Transport
  imports Wire
begin

text \<open>
  The CAPWAP transport header and control header: \<open>CWAssembleTransportHeader\<close>,
  \<open>CWParseTransportHeader\<close>, \<open>CWAssembleControlHeader\<close> and \<open>CWParseControlHeader\<close> of
  \<open>CWProtocol.c\<close>, and the wireless-specific part of the header, \<open>CWAssembleTransportHeaderBinding\<close>
  and \<open>CWParseTransportHeaderBinding\<close> of \<open>CWBinding.c\<close>. C \<open>int\<close> and \<open>unsigned int\<close> fields are
  32-bit words; a \<open>char\<close> field is an 8-bit word.
\<close>

subsection \<open>Bit fields\<close>

text \<open>The macros of \<open>CWProtocol.h\<close>; bit 0 is the most significant one.\<close>

definition CWSetField32 :: "u32 \<Rightarrow> nat \<Rightarrow> nat \<Rightarrow> u32 \<Rightarrow> u32" where
  "CWSetField32 src start len val =
     src OR push_bit (32 - start - len) (NOT (push_bit len 0xFFFFFFFF) AND val)"

definition CWGetField32 :: "u32 \<Rightarrow> nat \<Rightarrow> nat \<Rightarrow> u32" where
  "CWGetField32 src start len =
     NOT (push_bit len 0xFFFFFFFF) AND drop_bit (32 - start - len) src"

text \<open>The same macro on a signed \<open>int\<close>, where \<open>>>\<close> copies the sign bit.\<close>

definition CWGetField32_int :: "u32 \<Rightarrow> nat \<Rightarrow> nat \<Rightarrow> u32" where
  "CWGetField32_int src start len =
     NOT (push_bit len 0xFFFFFFFF) AND signed_drop_bit (32 - start - len) src"

definition CW_TRANSPORT_HEADER_VERSION_START :: nat where "CW_TRANSPORT_HEADER_VERSION_START = 0"
definition CW_TRANSPORT_HEADER_VERSION_LEN :: nat where "CW_TRANSPORT_HEADER_VERSION_LEN = 4"
definition CW_TRANSPORT_HEADER_TYPE_START :: nat where "CW_TRANSPORT_HEADER_TYPE_START = 4"
definition CW_TRANSPORT_HEADER_TYPE_LEN :: nat where "CW_TRANSPORT_HEADER_TYPE_LEN = 4"
definition CW_TRANSPORT_HEADER_HLEN_START :: nat where "CW_TRANSPORT_HEADER_HLEN_START = 8"
definition CW_TRANSPORT_HEADER_HLEN_LEN :: nat where "CW_TRANSPORT_HEADER_HLEN_LEN = 5"
definition CW_TRANSPORT_HEADER_RID_START :: nat where "CW_TRANSPORT_HEADER_RID_START = 13"
definition CW_TRANSPORT_HEADER_RID_LEN :: nat where "CW_TRANSPORT_HEADER_RID_LEN = 5"
definition CW_TRANSPORT_HEADER_WBID_START :: nat where "CW_TRANSPORT_HEADER_WBID_START = 18"
definition CW_TRANSPORT_HEADER_WBID_LEN :: nat where "CW_TRANSPORT_HEADER_WBID_LEN = 5"
definition CW_TRANSPORT_HEADER_T_START :: nat where "CW_TRANSPORT_HEADER_T_START = 23"
definition CW_TRANSPORT_HEADER_T_LEN :: nat where "CW_TRANSPORT_HEADER_T_LEN = 1"
definition CW_TRANSPORT_HEADER_F_START :: nat where "CW_TRANSPORT_HEADER_F_START = 24"
definition CW_TRANSPORT_HEADER_F_LEN :: nat where "CW_TRANSPORT_HEADER_F_LEN = 1"
definition CW_TRANSPORT_HEADER_L_START :: nat where "CW_TRANSPORT_HEADER_L_START = 25"
definition CW_TRANSPORT_HEADER_L_LEN :: nat where "CW_TRANSPORT_HEADER_L_LEN = 1"
definition CW_TRANSPORT_HEADER_W_START :: nat where "CW_TRANSPORT_HEADER_W_START = 26"
definition CW_TRANSPORT_HEADER_W_LEN :: nat where "CW_TRANSPORT_HEADER_W_LEN = 1"
definition CW_TRANSPORT_HEADER_M_START :: nat where "CW_TRANSPORT_HEADER_M_START = 27"
definition CW_TRANSPORT_HEADER_M_LEN :: nat where "CW_TRANSPORT_HEADER_M_LEN = 1"
definition CW_TRANSPORT_HEADER_K_START :: nat where "CW_TRANSPORT_HEADER_K_START = 28"
definition CW_TRANSPORT_HEADER_K_LEN :: nat where "CW_TRANSPORT_HEADER_K_LEN = 1"
definition CW_TRANSPORT_HEADER_FLAGS_START :: nat where "CW_TRANSPORT_HEADER_FLAGS_START = 29"
definition CW_TRANSPORT_HEADER_FLAGS_LEN :: nat where "CW_TRANSPORT_HEADER_FLAGS_LEN = 3"
definition CW_TRANSPORT_HEADER_FRAGMENT_ID_START :: nat where
  "CW_TRANSPORT_HEADER_FRAGMENT_ID_START = 0"
definition CW_TRANSPORT_HEADER_FRAGMENT_ID_LEN :: nat where
  "CW_TRANSPORT_HEADER_FRAGMENT_ID_LEN = 16"
definition CW_TRANSPORT_HEADER_FRAGMENT_OFFSET_START :: nat where
  "CW_TRANSPORT_HEADER_FRAGMENT_OFFSET_START = 16"
definition CW_TRANSPORT_HEADER_FRAGMENT_OFFSET_LEN :: nat where
  "CW_TRANSPORT_HEADER_FRAGMENT_OFFSET_LEN = 13"
definition CW_TRANSPORT_HEADER_RESERVED_START :: nat where "CW_TRANSPORT_HEADER_RESERVED_START = 29"
definition CW_TRANSPORT_HEADER_RESERVED_LEN :: nat where "CW_TRANSPORT_HEADER_RESERVED_LEN = 3"

lemmas transport_fields =
  CW_TRANSPORT_HEADER_VERSION_START_def CW_TRANSPORT_HEADER_VERSION_LEN_def
  CW_TRANSPORT_HEADER_TYPE_START_def CW_TRANSPORT_HEADER_TYPE_LEN_def
  CW_TRANSPORT_HEADER_HLEN_START_def CW_TRANSPORT_HEADER_HLEN_LEN_def
  CW_TRANSPORT_HEADER_RID_START_def CW_TRANSPORT_HEADER_RID_LEN_def
  CW_TRANSPORT_HEADER_WBID_START_def CW_TRANSPORT_HEADER_WBID_LEN_def
  CW_TRANSPORT_HEADER_T_START_def CW_TRANSPORT_HEADER_T_LEN_def
  CW_TRANSPORT_HEADER_F_START_def CW_TRANSPORT_HEADER_F_LEN_def
  CW_TRANSPORT_HEADER_L_START_def CW_TRANSPORT_HEADER_L_LEN_def
  CW_TRANSPORT_HEADER_W_START_def CW_TRANSPORT_HEADER_W_LEN_def
  CW_TRANSPORT_HEADER_M_START_def CW_TRANSPORT_HEADER_M_LEN_def
  CW_TRANSPORT_HEADER_K_START_def CW_TRANSPORT_HEADER_K_LEN_def
  CW_TRANSPORT_HEADER_FLAGS_START_def CW_TRANSPORT_HEADER_FLAGS_LEN_def
  CW_TRANSPORT_HEADER_FRAGMENT_ID_START_def CW_TRANSPORT_HEADER_FRAGMENT_ID_LEN_def
  CW_TRANSPORT_HEADER_FRAGMENT_OFFSET_START_def CW_TRANSPORT_HEADER_FRAGMENT_OFFSET_LEN_def
  CW_TRANSPORT_HEADER_RESERVED_START_def CW_TRANSPORT_HEADER_RESERVED_LEN_def

definition CW_PROTOCOL_VERSION :: u32 where "CW_PROTOCOL_VERSION = 0"
definition CW_PACKET_PLAIN :: u32 where "CW_PACKET_PLAIN = 0"
definition CW_PACKET_CRYPT :: u32 where "CW_PACKET_CRYPT = 1"
definition CW_IANA_ENTERPRISE_NUMBER :: u32 where "CW_IANA_ENTERPRISE_NUMBER = 13277"
definition CW_CONTROL_HEADER_OFFSET_FOR_MSG_ELEMS :: u16 where
  "CW_CONTROL_HEADER_OFFSET_FOR_MSG_ELEMS = 3"
definition gCWIANATimes256 :: u32 where
  "gCWIANATimes256 = CW_IANA_ENTERPRISE_NUMBER * 256"
definition gMaxDTLSHeaderSize :: int where "gMaxDTLSHeaderSize = 25"
definition gMaxCAPWAPHeaderSize :: int where "gMaxCAPWAPHeaderSize = 8"
definition gMaxCAPWAPHeaderSizeBinding :: nat where "gMaxCAPWAPHeaderSizeBinding = 16"

definition CW_DATA_MSG_FRAME_TYPE :: nat where "CW_DATA_MSG_FRAME_TYPE = 1"
definition CW_DATA_MSG_STATS_TYPE :: nat where "CW_DATA_MSG_STATS_TYPE = 2"
definition CW_DATA_MSG_FREQ_STATS_TYPE :: nat where "CW_DATA_MSG_FREQ_STATS_TYPE = 3"

definition CW_BINDING_HLEN :: u32 where "CW_BINDING_HLEN = 4"
definition CW_BINDING_DATALENGTH :: u32 where "CW_BINDING_DATALENGTH = 6"
definition CW_TRANSPORT_HEADER_LENGTH_START :: nat where "CW_TRANSPORT_HEADER_LENGTH_START = 0"
definition CW_TRANSPORT_HEADER_LENGTH_LEN :: nat where "CW_TRANSPORT_HEADER_LENGTH_LEN = 8"
definition CW_TRANSPORT_HEADER_RSSI_START :: nat where "CW_TRANSPORT_HEADER_RSSI_START = 8"
definition CW_TRANSPORT_HEADER_RSSI_LEN :: nat where "CW_TRANSPORT_HEADER_RSSI_LEN = 8"
definition CW_TRANSPORT_HEADER_SNR_START :: nat where "CW_TRANSPORT_HEADER_SNR_START = 16"
definition CW_TRANSPORT_HEADER_SNR_LEN :: nat where "CW_TRANSPORT_HEADER_SNR_LEN = 8"
definition CW_TRANSPORT_HEADER_DATARATE_1_START :: nat where
  "CW_TRANSPORT_HEADER_DATARATE_1_START = 24"
definition CW_TRANSPORT_HEADER_DATARATE_1_LEN :: nat where
  "CW_TRANSPORT_HEADER_DATARATE_1_LEN = 8"
definition CW_TRANSPORT_HEADER_DATARATE_2_START :: nat where
  "CW_TRANSPORT_HEADER_DATARATE_2_START = 0"
definition CW_TRANSPORT_HEADER_DATARATE_2_LEN :: nat where
  "CW_TRANSPORT_HEADER_DATARATE_2_LEN = 8"
definition CW_TRANSPORT_HEADER_PADDING_START :: nat where "CW_TRANSPORT_HEADER_PADDING_START = 8"
definition CW_TRANSPORT_HEADER_PADDING_LEN :: nat where "CW_TRANSPORT_HEADER_PADDING_LEN = 24"

lemmas binding_fields =
  CW_TRANSPORT_HEADER_LENGTH_START_def CW_TRANSPORT_HEADER_LENGTH_LEN_def
  CW_TRANSPORT_HEADER_RSSI_START_def CW_TRANSPORT_HEADER_RSSI_LEN_def
  CW_TRANSPORT_HEADER_SNR_START_def CW_TRANSPORT_HEADER_SNR_LEN_def
  CW_TRANSPORT_HEADER_DATARATE_1_START_def CW_TRANSPORT_HEADER_DATARATE_1_LEN_def
  CW_TRANSPORT_HEADER_DATARATE_2_START_def CW_TRANSPORT_HEADER_DATARATE_2_LEN_def
  CW_TRANSPORT_HEADER_PADDING_START_def CW_TRANSPORT_HEADER_PADDING_LEN_def

subsection \<open>Header values\<close>

record CWBindingTransportHeaderValues =
  RSSI :: u8
  SNR :: u8
  dataRate :: u32

record CWProtocolTransportHeaderValues =
  payloadType :: u32
  tv_type :: u32
  isFragment :: u32
  tv_last :: u32
  fragmentID :: u32
  fragmentOffset :: u32
  keepAlive :: u32
  bindingValuesPtr :: "CWBindingTransportHeaderValues option"

record CWControlHeaderValues =
  messageTypeValue :: u32
  seqNum :: u8
  msgElemsLen :: u16

subsection \<open>Wireless-specific information\<close>

text \<open>\<open>dataRate\<close> is an \<open>int\<close>, so \<open>>> 8\<close> is arithmetic; a \<open>char\<close> promoted to \<open>int\<close> is masked to its
  8 bits by the macro.\<close>

definition CWAssembleTransportHeaderBinding ::
  "cw_msg \<Rightarrow> CWBindingTransportHeaderValues \<Rightarrow> cw_msg option" where
  "CWAssembleTransportHeaderBinding transportHdr values =
     (let val = CWSetField32 0 CW_TRANSPORT_HEADER_LENGTH_START
                  CW_TRANSPORT_HEADER_LENGTH_LEN CW_BINDING_DATALENGTH;
          val = CWSetField32 val CW_TRANSPORT_HEADER_RSSI_START
                  CW_TRANSPORT_HEADER_RSSI_LEN (scast (RSSI values));
          val = CWSetField32 val CW_TRANSPORT_HEADER_SNR_START
                  CW_TRANSPORT_HEADER_SNR_LEN (scast (SNR values));
          val = CWSetField32 val CW_TRANSPORT_HEADER_DATARATE_1_START
                  CW_TRANSPORT_HEADER_DATARATE_1_LEN (signed_drop_bit 8 (dataRate values))
      in do {
        transportHdr \<leftarrow> CWProtocolStore32 transportHdr val;
        let val = CWSetField32 0 CW_TRANSPORT_HEADER_DATARATE_2_START
                    CW_TRANSPORT_HEADER_DATARATE_2_LEN (dataRate values AND 0xFF);
        let val = CWSetField32 val CW_TRANSPORT_HEADER_PADDING_START
                    CW_TRANSPORT_HEADER_PADDING_LEN 0;
        CWProtocolStore32 transportHdr val
      })"

text \<open>\<open>None\<close> is \<open>msgPtr == NULL\<close>.\<close>

definition CWParseTransportHeaderBinding ::
  "cw_msg option \<Rightarrow> (CWErrorCode + CWBindingTransportHeaderValues \<times> cw_msg) option" where
  "CWParseTransportHeaderBinding msgPtr =
     (case msgPtr of
        None \<Rightarrow> Some (Inl CW_ERROR_WRONG_ARG)
      | Some m \<Rightarrow> do {
          (val, m) \<leftarrow> CWProtocolRetrieve32 m;
          if CWGetField32 val CW_TRANSPORT_HEADER_LENGTH_START CW_TRANSPORT_HEADER_LENGTH_LEN
               \<noteq> CW_BINDING_DATALENGTH
          then Some (Inl CW_ERROR_INVALID_FORMAT)
          else do {
            let rssi = ucast (CWGetField32 val CW_TRANSPORT_HEADER_RSSI_START
                                CW_TRANSPORT_HEADER_RSSI_LEN);
            let snr = ucast (CWGetField32 val CW_TRANSPORT_HEADER_SNR_START
                               CW_TRANSPORT_HEADER_SNR_LEN);
            let rate = CWGetField32 val CW_TRANSPORT_HEADER_DATARATE_1_START
                         CW_TRANSPORT_HEADER_DATARATE_1_LEN;
            (val, m) \<leftarrow> CWProtocolRetrieve32 m;
            let m = (if rate = 255 then
                       (if snr = 1 then m\<lparr>data_msgType := Some CW_DATA_MSG_FREQ_STATS_TYPE\<rparr>
                        else m\<lparr>data_msgType := Some CW_DATA_MSG_STATS_TYPE\<rparr>)
                     else if rate = 0 then m\<lparr>data_msgType := Some CW_DATA_MSG_FRAME_TYPE\<rparr>
                     else m);
            let rate = push_bit 8 rate OR
                       CWGetField32 val CW_TRANSPORT_HEADER_DATARATE_1_START
                         CW_TRANSPORT_HEADER_DATARATE_1_LEN;
            Some (Inr (\<lparr>RSSI = rssi, SNR = snr, dataRate = rate\<rparr>, m))
          }
        })"

subsection \<open>Transport header\<close>

text \<open>The first 32-bit word and the second.\<close>

definition transport_word1 :: "CWProtocolTransportHeaderValues \<Rightarrow> u32" where
  "transport_word1 values =
     (let val = CWSetField32 0 CW_TRANSPORT_HEADER_VERSION_START
                  CW_TRANSPORT_HEADER_VERSION_LEN CW_PROTOCOL_VERSION;
          val = CWSetField32 val CW_TRANSPORT_HEADER_TYPE_START CW_TRANSPORT_HEADER_TYPE_LEN
                  (if payloadType values = CW_PACKET_PLAIN then 0 else 1);
          val = (case bindingValuesPtr values of
                   Some _ \<Rightarrow> CWSetField32 val CW_TRANSPORT_HEADER_HLEN_START
                               CW_TRANSPORT_HEADER_HLEN_LEN CW_BINDING_HLEN
                 | None \<Rightarrow> CWSetField32 val CW_TRANSPORT_HEADER_HLEN_START
                             CW_TRANSPORT_HEADER_HLEN_LEN 2);
          val = CWSetField32 val CW_TRANSPORT_HEADER_RID_START CW_TRANSPORT_HEADER_RID_LEN 0;
          val = CWSetField32 val CW_TRANSPORT_HEADER_WBID_START CW_TRANSPORT_HEADER_WBID_LEN 1;
          val = CWSetField32 val CW_TRANSPORT_HEADER_T_START CW_TRANSPORT_HEADER_T_LEN 1;
          val = CWSetField32 val CW_TRANSPORT_HEADER_F_START CW_TRANSPORT_HEADER_F_LEN
                  (isFragment values);
          val = CWSetField32 val CW_TRANSPORT_HEADER_L_START CW_TRANSPORT_HEADER_L_LEN
                  (tv_last values);
          val = (case bindingValuesPtr values of
                   Some _ \<Rightarrow> CWSetField32 val CW_TRANSPORT_HEADER_W_START
                               CW_TRANSPORT_HEADER_W_LEN 1
                 | None \<Rightarrow> CWSetField32 val CW_TRANSPORT_HEADER_W_START
                             CW_TRANSPORT_HEADER_W_LEN 0);
          val = CWSetField32 val CW_TRANSPORT_HEADER_M_START CW_TRANSPORT_HEADER_M_LEN 0;
          val = CWSetField32 val CW_TRANSPORT_HEADER_K_START CW_TRANSPORT_HEADER_K_LEN 0
      in CWSetField32 val CW_TRANSPORT_HEADER_FLAGS_START CW_TRANSPORT_HEADER_FLAGS_LEN 0)"

definition transport_word2 :: "CWProtocolTransportHeaderValues \<Rightarrow> u32" where
  "transport_word2 values =
     (let val = CWSetField32 0 CW_TRANSPORT_HEADER_FRAGMENT_ID_START
                  CW_TRANSPORT_HEADER_FRAGMENT_ID_LEN (fragmentID values);
          val = CWSetField32 val CW_TRANSPORT_HEADER_FRAGMENT_OFFSET_START
                  CW_TRANSPORT_HEADER_FRAGMENT_OFFSET_LEN (fragmentOffset values)
      in CWSetField32 val CW_TRANSPORT_HEADER_RESERVED_START CW_TRANSPORT_HEADER_RESERVED_LEN 0)"

definition CWAssembleTransportHeader ::
  "(nat \<Rightarrow> bool) \<Rightarrow> CWProtocolTransportHeaderValues option \<Rightarrow>
     (CWErrorCode + cw_msg) option" where
  "CWAssembleTransportHeader alloc valuesPtr =
     (case valuesPtr of
        None \<Rightarrow> Some (Inl CW_ERROR_WRONG_ARG)
      | Some values \<Rightarrow>
          (case CW_CREATE_PROTOCOL_MESSAGE alloc
                  (if bindingValuesPtr values \<noteq> None then gMaxCAPWAPHeaderSizeBinding else 8) of
             Inl e \<Rightarrow> Some (Inl e)
           | Inr transportHdr \<Rightarrow> do {
               transportHdr \<leftarrow> CWProtocolStore32 transportHdr (transport_word1 values);
               transportHdr \<leftarrow> CWProtocolStore32 transportHdr (transport_word2 values);
               transportHdr \<leftarrow> (case bindingValuesPtr values of
                                 Some b \<Rightarrow> CWAssembleTransportHeaderBinding transportHdr b
                               | None \<Rightarrow> Some transportHdr);
               Some (Inr transportHdr)
             }))"

text \<open>The result carries the header values, the data flag (\<open>*dataFlagPtr\<close>, \<open>CW_FALSE\<close> on entry)
  and the advanced message.\<close>

definition CWParseTransportHeader ::
  "(nat \<Rightarrow> bool) \<Rightarrow> cw_msg option \<Rightarrow>
     (CWErrorCode + (CWProtocolTransportHeaderValues \<times> bool) \<times> cw_msg) option" where
  "CWParseTransportHeader alloc msgPtr =
     (case msgPtr of
        None \<Rightarrow> Some (Inl CW_ERROR_WRONG_ARG)
      | Some m \<Rightarrow> do {
          (val, m) \<leftarrow> CWProtocolRetrieve32 m;
          if CWGetField32_int val CW_TRANSPORT_HEADER_VERSION_START CW_TRANSPORT_HEADER_VERSION_LEN
               \<noteq> CW_PROTOCOL_VERSION
          then Some (Inl CW_ERROR_INVALID_FORMAT)
          else do {
            let ptype = CWGetField32_int val CW_TRANSPORT_HEADER_TYPE_START
                          CW_TRANSPORT_HEADER_TYPE_LEN;
            let transport4BytesLen = CWGetField32_int val CW_TRANSPORT_HEADER_HLEN_START
                                       CW_TRANSPORT_HEADER_HLEN_LEN;
            let tval = CWGetField32_int val CW_TRANSPORT_HEADER_T_START CW_TRANSPORT_HEADER_T_LEN;
            let isFrag = CWGetField32_int val CW_TRANSPORT_HEADER_F_START CW_TRANSPORT_HEADER_F_LEN;
            let lastv = CWGetField32_int val CW_TRANSPORT_HEADER_L_START CW_TRANSPORT_HEADER_L_LEN;
            let optionalWireless = CWGetField32_int val CW_TRANSPORT_HEADER_W_START
                                     CW_TRANSPORT_HEADER_W_LEN;
            let keep = CWGetField32_int val CW_TRANSPORT_HEADER_K_START CW_TRANSPORT_HEADER_K_LEN;
            (val, m) \<leftarrow> CWProtocolRetrieve32 m;
            let fragID = CWGetField32_int val CW_TRANSPORT_HEADER_FRAGMENT_ID_START
                           CW_TRANSPORT_HEADER_FRAGMENT_ID_LEN;
            let fragOff = CWGetField32_int val CW_TRANSPORT_HEADER_FRAGMENT_OFFSET_START
                            CW_TRANSPORT_HEADER_FRAGMENT_OFFSET_LEN;
            let values = \<lparr>payloadType = ptype, tv_type = tval, isFragment = isFrag, tv_last = lastv,
                          fragmentID = fragID, fragmentOffset = fragOff, keepAlive = keep,
                          bindingValuesPtr = None\<rparr>;
            if transport4BytesLen = 4 \<and> optionalWireless = 1 then
              (if alloc 8 then do {
                 r \<leftarrow> CWParseTransportHeaderBinding (Some m);
                 Some (case r of
                         Inl e \<Rightarrow> Inl e
                       | Inr (b, m) \<Rightarrow> Inr ((values\<lparr>bindingValuesPtr := Some b\<rparr>, True), m))
               }
               else Some (Inl CW_ERROR_OUT_OF_MEMORY))
            else if transport4BytesLen = 2 then Some (Inr ((values, False), m))
            else Some (Inl CW_ERROR_INVALID_FORMAT)
          }
        })"

subsection \<open>Control header\<close>

definition CWAssembleControlHeader ::
  "(nat \<Rightarrow> bool) \<Rightarrow> CWControlHeaderValues option \<Rightarrow> (CWErrorCode + cw_msg) option" where
  "CWAssembleControlHeader alloc valPtr =
     (case valPtr of
        None \<Rightarrow> Some (Inl CW_ERROR_WRONG_ARG)
      | Some val \<Rightarrow>
          (case CW_CREATE_PROTOCOL_MESSAGE alloc 8 of
             Inl e \<Rightarrow> Some (Inl e)
           | Inr controlHdr \<Rightarrow> do {
               controlHdr \<leftarrow> CWProtocolStore32 controlHdr
                               (gCWIANATimes256 + messageTypeValue val);
               controlHdr \<leftarrow> CWProtocolStore8 controlHdr (seqNum val);
               controlHdr \<leftarrow> CWProtocolStore16 controlHdr
                               (CW_CONTROL_HEADER_OFFSET_FOR_MSG_ELEMS + msgElemsLen val);
               controlHdr \<leftarrow> CWProtocolStore8 controlHdr 0;
               Some (Inr controlHdr)
             }))"

text \<open>\<open>None\<close> is \<open>msgPtr == NULL\<close>.\<close>

definition CWParseControlHeader ::
  "cw_msg option \<Rightarrow> (CWErrorCode + CWControlHeaderValues \<times> cw_msg) option" where
  "CWParseControlHeader msgPtr =
     (case msgPtr of
        None \<Rightarrow> Some (Inl CW_ERROR_WRONG_ARG)
      | Some m \<Rightarrow> do {
          (mtype, m) \<leftarrow> CWProtocolRetrieve32 m;
          (seq, m) \<leftarrow> CWProtocolRetrieve8 m;
          (elemsLen, m) \<leftarrow> CWProtocolRetrieve16 m;
          (flags, m) \<leftarrow> CWProtocolRetrieve8 m;
          Some (Inr (\<lparr>messageTypeValue = mtype - gCWIANATimes256, seqNum = seq,
                      msgElemsLen = elemsLen\<rparr>, m))
        })"

subsection \<open>Reading back a field that was set\<close>

lemma field_mask: "NOT (push_bit len (0xFFFFFFFF :: u32)) = mask len"
proof -
  have ones: "(0xFFFFFFFF :: u32) = - 1" by simp
  show ?thesis
    unfolding ones by (rule bit_word_eqI) (auto simp: bit_simps)
qed

lemma bit_CWGetField32:
  "start + len \<le> 32 \<Longrightarrow>
   bit (CWGetField32 v start len) n \<longleftrightarrow> n < len \<and> bit v (32 - start - len + n)"
  by (cases "n < 32") (auto simp: CWGetField32_def field_mask bit_simps dest: bit_imp_le_length)

lemma bit_CWSetField32:
  "start + len \<le> 32 \<Longrightarrow>
   bit (CWSetField32 src start len v) n \<longleftrightarrow>
     bit src n \<or> 32 - start - len \<le> n \<and> n < 32 - start \<and> bit v (n - (32 - start - len))"
  by (cases "n < 32") (auto simp: CWSetField32_def field_mask bit_simps dest: bit_imp_le_length)

lemma CWGetField32_int_eq [simp]:
  "start + len \<le> 32 \<Longrightarrow> CWGetField32_int v start len = CWGetField32 v start len"
  by (rule bit_word_eqI) (auto simp: CWGetField32_int_def CWGetField32_def field_mask bit_simps)

lemma CWGetField32_0 [simp]: "CWGetField32 0 start len = 0"
  by (simp add: CWGetField32_def)

lemma CWSetField32_zero [simp]: "CWSetField32 src start len 0 = src"
  by (simp add: CWSetField32_def)

lemma get_set_same:
  "start + len \<le> 32 \<Longrightarrow>
   CWGetField32 (CWSetField32 src start len v) start len =
     CWGetField32 src start len OR (v AND mask len)"
  by (rule bit_word_eqI) (auto simp: bit_CWGetField32 bit_CWSetField32 bit_simps)

lemma get_set_other:
  "start + len \<le> 32 \<Longrightarrow> start' + len' \<le> 32 \<Longrightarrow>
   start + len \<le> start' \<or> start' + len' \<le> start \<Longrightarrow>
   CWGetField32 (CWSetField32 src start len v) start' len' = CWGetField32 src start' len'"
  by (rule bit_word_eqI) (auto simp: bit_CWGetField32 bit_CWSetField32)

lemmas field_simps32 = get_set_same get_set_other transport_fields binding_fields

lemma mask_small:
  "(v :: u32) < 2 \<Longrightarrow> v AND mask 1 = v"
  "(v :: u32) < 65536 \<Longrightarrow> v AND mask 16 = v"
  "(v :: u32) < 8192 \<Longrightarrow> v AND mask 13 = v"
  using less_mask_eq [of v 1] less_mask_eq [of v 16] less_mask_eq [of v 13] by simp_all

lemma mask_consts:
  "(1 :: u32) AND mask 1 = 1" "(1 :: u32) AND mask 4 = 1" "(1 :: u32) AND mask 5 = 1"
  "(2 :: u32) AND mask 5 = 2" "(4 :: u32) AND mask 5 = 4" "(6 :: u32) AND mask 8 = 6"
  by (simp_all add: mask_numeral)

subsection \<open>The bytes of the headers\<close>

definition binding_word1 :: "CWBindingTransportHeaderValues \<Rightarrow> u32" where
  "binding_word1 b =
     CWSetField32 (CWSetField32 (CWSetField32 (CWSetField32 0 0 8 6) 8 8 (scast (RSSI b)))
       16 8 (scast (SNR b))) 24 8 (signed_drop_bit 8 (dataRate b))"

definition binding_word2 :: "CWBindingTransportHeaderValues \<Rightarrow> u32" where
  "binding_word2 b = CWSetField32 (CWSetField32 0 0 8 (dataRate b AND 0xFF)) 8 24 0"

definition header_bytes :: "CWProtocolTransportHeaderValues \<Rightarrow> u8 list" where
  "header_bytes v = be32 (transport_word1 v) @ be32 (transport_word2 v) @
     (case bindingValuesPtr v of
        None \<Rightarrow> [] | Some b \<Rightarrow> be32 (binding_word1 b) @ be32 (binding_word2 b))"

definition header_size :: "CWProtocolTransportHeaderValues \<Rightarrow> nat" where
  "header_size v = (if bindingValuesPtr v \<noteq> None then 16 else 8)"

lemma length_header_bytes [simp, cw_len]: "length (header_bytes v) = header_size v"
  by (auto simp: header_bytes_def header_size_def split: option.split)

lemma CWAssembleTransportHeaderBinding_wbuf [cw_wire]:
  "length bs + 8 \<le> n \<Longrightarrow>
   CWAssembleTransportHeaderBinding (wbuf n bs) b =
     Some (wbuf n (bs @ be32 (binding_word1 b) @ be32 (binding_word2 b)))"
  by (simp add: CWAssembleTransportHeaderBinding_def cw_wire binding_fields binding_word1_def
      binding_word2_def CW_BINDING_DATALENGTH_def)

lemma CWAssembleTransportHeader_eq [cw_wire]:
  "CWAssembleTransportHeader alloc (Some v) =
     Some (if alloc (header_size v) then Inr (wbuf (header_size v) (header_bytes v))
           else Inl CW_ERROR_OUT_OF_MEMORY)"
  by (auto simp: CWAssembleTransportHeader_def cw_wire header_bytes_def header_size_def
      gMaxCAPWAPHeaderSizeBinding_def split: option.split)

definition control_bytes :: "CWControlHeaderValues \<Rightarrow> u8 list" where
  "control_bytes v = be32 (gCWIANATimes256 + messageTypeValue v) @ [seqNum v] @
     be16 (3 + msgElemsLen v) @ [0]"

lemma length_control_bytes [simp, cw_len]: "length (control_bytes v) = 8"
  by (simp add: control_bytes_def)

lemma CWAssembleControlHeader_eq [cw_wire]:
  "CWAssembleControlHeader alloc (Some v) =
     Some (if alloc 8 then Inr (wbuf 8 (control_bytes v)) else Inl CW_ERROR_OUT_OF_MEMORY)"
  by (simp add: CWAssembleControlHeader_def cw_wire control_bytes_def
      CW_CONTROL_HEADER_OFFSET_FOR_MSG_ELEMS_def)

subsection \<open>Round trips\<close>

definition header_wf :: "CWProtocolTransportHeaderValues \<Rightarrow> bool" where
  "header_wf v \<longleftrightarrow> isFragment v < 2 \<and> tv_last v < 2 \<and> fragmentID v < 65536 \<and> fragmentOffset v < 8192"

text \<open>What survives of the header values: any non-plain payload type becomes 1, the type bit is 1
  and the keep-alive bit 0.\<close>

definition sent_values :: "CWProtocolTransportHeaderValues \<Rightarrow> CWProtocolTransportHeaderValues" where
  "sent_values v = v\<lparr>payloadType := (if payloadType v = 0 then 0 else 1), tv_type := 1,
     keepAlive := 0, bindingValuesPtr := None\<rparr>"

lemma transport_word1_fields:
  assumes "header_wf v"
  shows "CWGetField32 (transport_word1 v) 0 4 = 0"
    "CWGetField32 (transport_word1 v) 4 4 = (if payloadType v = 0 then 0 else 1)"
    "CWGetField32 (transport_word1 v) 8 5 = (if bindingValuesPtr v = None then 2 else 4)"
    "CWGetField32 (transport_word1 v) 23 1 = 1"
    "CWGetField32 (transport_word1 v) 24 1 = isFragment v"
    "CWGetField32 (transport_word1 v) 25 1 = tv_last v"
    "CWGetField32 (transport_word1 v) 26 1 = (if bindingValuesPtr v = None then 0 else 1)"
    "CWGetField32 (transport_word1 v) 28 1 = 0"
  using assms
  by (auto simp: transport_word1_def Let_def field_simps32 mask_small mask_consts header_wf_def
      CW_PROTOCOL_VERSION_def CW_PACKET_PLAIN_def CW_BINDING_HLEN_def
      simp del: One_nat_def split: option.split)

lemma transport_word2_fields:
  assumes "header_wf v"
  shows "CWGetField32 (transport_word2 v) 0 16 = fragmentID v"
    "CWGetField32 (transport_word2 v) 16 13 = fragmentOffset v"
  using assms
  by (auto simp: transport_word2_def Let_def field_simps32 mask_small header_wf_def
      simp del: One_nat_def)

lemma CWParseTransportHeader_plain:
  assumes "header_wf v" and "bindingValuesPtr v = None"
  shows "CWParseTransportHeader alloc (Some (rbuf d pre (header_bytes v @ rest))) =
     Some (Inr ((sent_values v, False), rbuf d (pre @ header_bytes v) rest))"
  using assms
  by (cases v) (simp add: CWParseTransportHeader_def header_bytes_def cw_wire transport_fields
      transport_word1_fields transport_word2_fields CW_PROTOCOL_VERSION_def sent_values_def
      del: One_nat_def)

text \<open>
  C3: A transport header without wireless information survives the trip over the wire:
  whatever well-formed values \<open>CWAssembleTransportHeader\<close> is given, it writes exactly 8 bytes, and
  \<open>CWParseTransportHeader\<close> on those bytes, anywhere in a received packet, returns the same fragment
  flag, last flag, fragment identifier and offset, and stops right after the header.
\<close>

theorem transport_header_roundtrip:
  assumes "header_wf v" and "bindingValuesPtr v = None" and "alloc 8"
  shows "\<exists>h. CWAssembleTransportHeader alloc (Some v) = Some (Inr h) \<and> offset h = 8 \<and>
     (\<forall>d pre rest alloc'.
        CWParseTransportHeader alloc' (Some (rbuf d pre (contents h @ rest))) =
          Some (Inr ((v\<lparr>payloadType := (if payloadType v = CW_PACKET_PLAIN then 0 else 1),
                         tv_type := 1, keepAlive := 0\<rparr>, False),
                     rbuf d (pre @ contents h) rest)))"
proof -
  have "sent_values v = v\<lparr>payloadType := (if payloadType v = CW_PACKET_PLAIN then 0 else 1),
      tv_type := 1, keepAlive := 0\<rparr>"
    using assms(2) by (cases v) (simp add: sent_values_def CW_PACKET_PLAIN_def)
  with assms show ?thesis
    by (simp add: CWAssembleTransportHeader_eq CWParseTransportHeader_plain header_size_def)
qed

definition sample_header :: CWProtocolTransportHeaderValues where
  "sample_header = \<lparr>payloadType = 1, tv_type = 0, isFragment = 1, tv_last = 0, fragmentID = 77,
     fragmentOffset = 186, keepAlive = 0, bindingValuesPtr = None\<rparr>"

lemma transport_header_roundtrip_witness:
  "\<exists>h. CWAssembleTransportHeader (\<lambda>_. True) (Some sample_header) = Some (Inr h) \<and> offset h = 8 \<and>
     (\<forall>d pre rest alloc'.
        CWParseTransportHeader alloc' (Some (rbuf d pre (contents h @ rest))) =
          Some (Inr ((sample_header\<lparr>payloadType := 1, tv_type := 1, keepAlive := 0\<rparr>, False),
                     rbuf d (pre @ contents h) rest)))"
  using transport_header_roundtrip [of sample_header "\<lambda>_. True"]
  by (simp add: sample_header_def header_wf_def CW_PACKET_PLAIN_def)

text \<open>The kind of data message announced by the wireless information.\<close>

definition data_kind :: "CWBindingTransportHeaderValues \<Rightarrow> nat option \<Rightarrow> nat option" where
  "data_kind b d =
     (let rate = signed_drop_bit 8 (dataRate b) AND mask 8
      in if rate = 255 then
           (if SNR b = 1 then Some CW_DATA_MSG_FREQ_STATS_TYPE else Some CW_DATA_MSG_STATS_TYPE)
         else if rate = 0 then Some CW_DATA_MSG_FRAME_TYPE
         else d)"

lemma scast_mask8 [simp]: "ucast ((scast (x :: u8) :: u32) AND mask 8) = x"
  by (rule bit_word_eqI) (auto simp: bit_simps)

lemma ucast_mask8 [simp]: "ucast (mask 8 AND (scast (x :: u8) :: u32)) = x"
  by (simp add: and.commute)

lemma binding_word_fields:
  "CWGetField32 (binding_word1 b) 0 8 = 6"
  "ucast (CWGetField32 (binding_word1 b) 8 8) = RSSI b"
  "ucast (CWGetField32 (binding_word1 b) 16 8) = SNR b"
  "CWGetField32 (binding_word1 b) 24 8 = signed_drop_bit 8 (dataRate b) AND mask 8"
  "CWGetField32 (binding_word2 b) 24 8 = 0"
  by (simp_all add: binding_word1_def binding_word2_def get_set_same get_set_other mask_consts)

lemma high_rate_byte:
  "push_bit 8 (signed_drop_bit 8 (r :: u32)) AND push_bit 8 (mask 8) = r AND 0xFF00"
proof -
  have ff: "(0xFF00 :: u32) = push_bit 8 (mask 8)"
    by (simp add: mask_numeral)
  show ?thesis
    unfolding ff by (rule bit_word_eqI) (auto simp: bit_simps)
qed

lemma CWParseTransportHeaderBinding_rbuf [cw_wire]:
  "CWParseTransportHeaderBinding
     (Some (rbuf d pre (be32 (binding_word1 b) @ be32 (binding_word2 b) @ rest))) =
     Some (Inr (b\<lparr>dataRate := dataRate b AND 0xFF00\<rparr>,
       rbuf (data_kind b d) (pre @ be32 (binding_word1 b) @ be32 (binding_word2 b)) rest))"
  by (cases b) (auto simp: CWParseTransportHeaderBinding_def cw_wire binding_fields
      binding_word_fields CW_BINDING_DATALENGTH_def high_rate_byte data_kind_def Let_def)

lemma CWParseTransportHeader_binding:
  assumes "header_wf v" and "bindingValuesPtr v = Some b" and "alloc 8"
  shows "CWParseTransportHeader alloc (Some (rbuf d pre (header_bytes v @ rest))) =
     Some (Inr (((sent_values v)\<lparr>bindingValuesPtr := Some (b\<lparr>dataRate := dataRate b AND 0xFF00\<rparr>)\<rparr>,
                 True),
       rbuf (data_kind b d) (pre @ header_bytes v) rest))"
  using assms
  by (cases v) (simp add: CWParseTransportHeader_def header_bytes_def cw_wire transport_fields
      transport_word1_fields transport_word2_fields CW_PROTOCOL_VERSION_def sent_values_def
      del: One_nat_def)

text \<open>
  A transport header with wireless information keeps RSSI and SNR and raises the data flag, but
  the parser reads the low byte of the data rate where the assembler writes padding, so every
  rate comes back with its low byte cleared (\<open>rate AND 0xFF00\<close>); and the kind of data message
  recorded in the message is decided by the high byte alone: 255 is a statistics packet (a
  frequency one when SNR is 1), 0 a wireless frame.
\<close>

theorem binding_header_loses_low_rate_byte:
  assumes "header_wf v" and "bindingValuesPtr v = Some b" and "alloc 16" and "alloc' 8"
  shows "\<exists>h. CWAssembleTransportHeader alloc (Some v) = Some (Inr h) \<and> offset h = 16 \<and>
     (\<exists>v' m. CWParseTransportHeader alloc' (Some (rbuf None [] (contents h @ rest))) =
               Some (Inr ((v', True), m)) \<and>
             bindingValuesPtr v' = Some (b\<lparr>dataRate := dataRate b AND 0xFF00\<rparr>) \<and>
             fragmentID v' = fragmentID v \<and> fragmentOffset v' = fragmentOffset v \<and>
             m = rbuf (data_kind b None) (contents h) rest)"
  using assms
  by (simp add: CWAssembleTransportHeader_eq CWParseTransportHeader_binding header_size_def
      sent_values_def)

definition sample_binding_header :: CWProtocolTransportHeaderValues where
  "sample_binding_header = sample_header\<lparr>bindingValuesPtr :=
     Some \<lparr>RSSI = 200, SNR = 3, dataRate = 0x0136\<rparr>\<rparr>"

lemma binding_header_loses_low_rate_byte_witness:
  "\<exists>h. CWAssembleTransportHeader (\<lambda>_. True) (Some sample_binding_header) = Some (Inr h) \<and>
     offset h = 16 \<and>
     (\<exists>v' m. CWParseTransportHeader (\<lambda>_. True) (Some (rbuf None [] (contents h @ []))) =
               Some (Inr ((v', True), m)) \<and>
             bindingValuesPtr v' = Some \<lparr>RSSI = 200, SNR = 3, dataRate = 0x0100\<rparr>)"
  using binding_header_loses_low_rate_byte
    [of sample_binding_header "\<lparr>RSSI = 200, SNR = 3, dataRate = 0x0136\<rparr>" "\<lambda>_. True" "\<lambda>_. True" "[]"]
  by (auto simp: sample_binding_header_def sample_header_def header_wf_def)

lemma CWParseControlHeader_rbuf [cw_wire]:
  "CWParseControlHeader (Some (rbuf d pre (control_bytes v @ rest))) =
     Some (Inr (v\<lparr>msgElemsLen := 3 + msgElemsLen v\<rparr>, rbuf d (pre @ control_bytes v) rest))"
  by (cases v) (simp add: CWParseControlHeader_def control_bytes_def cw_wire)

text \<open>
  The control header survives the trip over the wire: whatever message type, sequence number
  and element length \<open>CWAssembleControlHeader\<close> is given, \<open>CWParseControlHeader\<close> returns the same
  type and sequence number (the IANA offset is undone modulo \<open>2^32\<close>) and the length plus the 3
  bytes that the receivers subtract again.
\<close>

theorem control_header_roundtrip:
  assumes "alloc 8"
  shows "\<exists>h. CWAssembleControlHeader alloc (Some v) = Some (Inr h) \<and> offset h = 8 \<and>
     (\<forall>d pre rest. CWParseControlHeader (Some (rbuf d pre (contents h @ rest))) =
        Some (Inr (v\<lparr>msgElemsLen := CW_CONTROL_HEADER_OFFSET_FOR_MSG_ELEMS + msgElemsLen v\<rparr>,
                   rbuf d (pre @ contents h) rest)))"
  using assms
  by (simp add: CWAssembleControlHeader_eq CWParseControlHeader_rbuf
      CW_CONTROL_HEADER_OFFSET_FOR_MSG_ELEMS_def)

lemma control_header_roundtrip_witness:
  "\<exists>h. CWAssembleControlHeader (\<lambda>_. True)
         (Some \<lparr>messageTypeValue = 13, seqNum = 255, msgElemsLen = 0\<rparr>) = Some (Inr h) \<and>
     (\<forall>rest. CWParseControlHeader (Some (rbuf None [] (contents h @ rest))) =
        Some (Inr (\<lparr>messageTypeValue = 13, seqNum = 255, msgElemsLen = 3\<rparr>,
                   rbuf None (contents h) rest)))"
  using control_header_roundtrip
    [of "\<lambda>_. True" "\<lparr>messageTypeValue = 13, seqNum = 255, msgElemsLen = 0\<rparr>"]
  by (force simp: CW_CONTROL_HEADER_OFFSET_FOR_MSG_ELEMS_def)

subsection \<open>Malformed headers\<close>

text \<open>A retrieve succeeds whenever enough bytes are left.\<close>

lemma Retrieve32_ok:
  "offset m + 4 \<le> length (msg m) \<Longrightarrow>
   CWProtocolRetrieve32 m =
     Some (of_be32 (take 4 (drop (offset m) (msg m))), m\<lparr>offset := offset m + 4\<rparr>)"
  by (simp add: CWProtocolRetrieve32_def get_def)

lemma CWParseTransportHeaderBinding_safe:
  "offset m + 8 \<le> length (msg m) \<Longrightarrow> CWParseTransportHeaderBinding (Some m) \<noteq> None"
  by (simp add: CWParseTransportHeaderBinding_def Retrieve32_ok Let_def)

lemma CWParseTransportHeader_safe:
  "offset m + 16 \<le> length (msg m) \<Longrightarrow> CWParseTransportHeader alloc (Some m) \<noteq> None"
proof -
  assume room: "offset m + 16 \<le> length (msg m)"
  then have "CWParseTransportHeaderBinding (Some (m\<lparr>offset := offset m + 8\<rparr>)) \<noteq> None"
    by (intro CWParseTransportHeaderBinding_safe) simp
  then obtain r where "CWParseTransportHeaderBinding (Some (m\<lparr>offset := offset m + 8\<rparr>)) = Some r"
    by blast
  with room show ?thesis
    by (simp add: CWParseTransportHeader_def Retrieve32_ok Let_def add.commute)
qed

lemma CWParseTransportHeader_short:
  "length (msg m) < offset m + 4 \<Longrightarrow> CWParseTransportHeader alloc (Some m) = None"
  by (simp add: CWParseTransportHeader_def CWProtocolRetrieve32_def get_def)

text \<open>
  The transport header parser accepts only the two header layouts the program speaks: a
  header of another protocol version, or whose length is neither 2 words nor 4 words with the
  wireless flag set, is refused with \<open>CW_ERROR_INVALID_FORMAT\<close> and never accepted.
\<close>

theorem transport_header_rejects:
  assumes "CWGetField32 w1 0 4 \<noteq> 0 \<or>
     (CWGetField32 w1 8 5 \<noteq> 2 \<and> \<not> (CWGetField32 w1 8 5 = 4 \<and> CWGetField32 w1 26 1 = 1))"
  shows "CWParseTransportHeader alloc (Some (rbuf d pre (be32 w1 @ be32 w2 @ rest))) =
     Some (Inl CW_ERROR_INVALID_FORMAT)"
  using assms
  by (auto simp: CWParseTransportHeader_def cw_wire transport_fields CW_PROTOCOL_VERSION_def
      Let_def simp del: One_nat_def)

lemma transport_header_rejects_witness:
  "CWParseTransportHeader (\<lambda>_. True) (Some (rbuf None [] (be32 0x00180320 @ be32 0 @ []))) =
     Some (Inl CW_ERROR_INVALID_FORMAT)"
proof (rule transport_header_rejects)
  have "CWGetField32 0x00180320 8 5 = 3"
    by (simp add: CWGetField32_def)
  then show "CWGetField32 0x00180320 0 4 \<noteq> 0 \<or>
     (CWGetField32 0x00180320 8 5 \<noteq> 2 \<and>
      \<not> (CWGetField32 0x00180320 8 5 = 4 \<and> CWGetField32 0x00180320 26 1 = 1))"
    by simp
qed

end
