(* ===== verification/Fragments.thy ===== *)
theory Fragments
  imports Transport Lists
begin

text \<open>
  Fragmentation and reassembly: \<open>CWAssembleMessage\<close>, \<open>CWProtocolParseFragment\<close> and
  \<open>CWCompareFragment\<close> of \<open>CWProtocol.c\<close>, and \<open>CWAssembleDataMessage\<close> of \<open>CWBinding.c\<close>.
  \<open>None\<close> is undefined behaviour or an endless loop. Sizes that \<open>malloc\<close> is asked for as a negative
  \<open>int\<close> become a \<open>size_t\<close> beyond any block, so such a request fails.
\<close>

definition sizeof_CWProtocolMessage :: nat where "sizeof_CWProtocolMessage = 16"
definition sizeof_CWProtocolFragment :: nat where "sizeof_CWProtocolFragment = 56"

definition CW_CREATE_PROTOCOL_MESSAGE_int :: "(nat \<Rightarrow> bool) \<Rightarrow> int \<Rightarrow> CWErrorCode + cw_msg" where
  "CW_CREATE_PROTOCOL_MESSAGE_int alloc n =
     (if n < 0 then Inl CW_ERROR_OUT_OF_MEMORY else CW_CREATE_PROTOCOL_MESSAGE alloc (nat n))"

text \<open>The first \<open>n\<close> entries of an array argument; \<open>None\<close> is the \<open>NULL\<close> pointer.\<close>

definition array_prefix :: "nat \<Rightarrow> 'a list option \<Rightarrow> 'a list option" where
  "array_prefix n xs =
     (if n = 0 then Some []
      else case xs of
             None \<Rightarrow> None
           | Some ys \<Rightarrow> if n \<le> length ys then Some (take n ys) else None)"

subsection \<open>Fragmentation\<close>

text \<open>\<open>PMTU = (PMTU / 8) * 8\<close> after the headers are taken off: 0 when nothing useful is left.\<close>

definition aligned_pmtu :: "int \<Rightarrow> nat" where
  "aligned_pmtu PMTU = (if PMTU > 0 then nat PMTU div 8 * 8 else 0)"

definition fragments_num :: "nat \<Rightarrow> nat \<Rightarrow> nat" where
  "fragments_num pmtu totalSize =
     (if pmtu = 0 then 1 else totalSize div pmtu + (if totalSize mod pmtu \<noteq> 0 then 1 else 0))"

text \<open>
  The loop over the fragments: \<open>i\<close> counts up to \<open>n\<close> (\<open>k\<close> iterations left), \<open>tv\<close> holds the fields
  the loop does not set, \<open>src\<close> is the message cut up, whose offset advances. When a header cannot
  be assembled the code calls \<open>free\<close> on the address of the caller's pointer, which is undefined.
\<close>

fun fragment_loop ::
  "(nat \<Rightarrow> bool) \<Rightarrow> CWProtocolTransportHeaderValues \<Rightarrow> nat \<Rightarrow> nat \<Rightarrow> nat \<Rightarrow> nat \<Rightarrow> nat \<Rightarrow> cw_msg \<Rightarrow>
     (CWErrorCode + cw_msg list) option" where
  "fragment_loop alloc tv totalSize PMTU n 0 i src = Some (Inr [])"
| "fragment_loop alloc tv totalSize PMTU n (Suc k) i src =
     (let fragSize = (if i < n - 1 then PMTU else totalSize - (n - 1) * PMTU);
          transportVal = tv\<lparr>isFragment := 1, fragmentOffset := of_nat (offset src div 8),
                            tv_last := (if i < n - 1 then 0 else 1)\<rparr>
      in do {
        r \<leftarrow> CWAssembleTransportHeader alloc (Some transportVal);
        (case r of
           Inl e \<Rightarrow> None
         | Inr transportHdr \<Rightarrow>
             (case CW_CREATE_PROTOCOL_MESSAGE alloc (offset transportHdr + fragSize) of
                Inl e \<Rightarrow> Some (Inl e)
              | Inr frag \<Rightarrow> do {
                  frag \<leftarrow> CWProtocolStoreMessage frag transportHdr;
                  frag \<leftarrow> CWProtocolStoreRawBytes frag (drop (offset src) (msg src)) fragSize;
                  rest \<leftarrow> fragment_loop alloc tv totalSize PMTU n k (i + 1)
                            (src\<lparr>offset := offset src + fragSize\<rparr>);
                  Some (map_sum id ((#) frag) rest)
                }))
      })"

text \<open>\<open>fragID\<close> is the value \<open>CWGetFragmentID()\<close> returns, \<open>*fragmentsNumPtr\<close> the length of the list
  returned.\<close>

definition CWAssembleMessage ::
  "(nat \<Rightarrow> bool) \<Rightarrow> u32 \<Rightarrow> int \<Rightarrow> u32 \<Rightarrow> u32 \<Rightarrow> cw_msg list option \<Rightarrow> nat \<Rightarrow> cw_msg list option \<Rightarrow>
     nat \<Rightarrow> u32 \<Rightarrow> (CWErrorCode + cw_msg list) option" where
  "CWAssembleMessage alloc fragID PMTU seqValue msgTypeValue msgElems msgElemNum msgElemsBinding
     msgElemBindingNum is_crypted =
     (if msgElems = None \<and> msgElemNum > 0 \<or> msgElemsBinding = None \<and> msgElemBindingNum > 0
      then Some (Inl CW_ERROR_WRONG_ARG)
      else do {
        elems \<leftarrow> array_prefix msgElemNum msgElems;
        elemsBinding \<leftarrow> array_prefix msgElemBindingNum msgElemsBinding;
        let msgElemsLen = sum_list (map offset elems) + sum_list (map offset elemsBinding);
        let controlVal = \<lparr>messageTypeValue = msgTypeValue, seqNum = ucast seqValue,
                          msgElemsLen = of_nat msgElemsLen\<rparr>;
        r \<leftarrow> CWAssembleControlHeader alloc (Some controlVal);
        (case r of
           Inl e \<Rightarrow> Some (Inl e)
         | Inr controlHdr \<Rightarrow>
             (case CW_CREATE_PROTOCOL_MESSAGE alloc (offset controlHdr + msgElemsLen) of
                Inl e \<Rightarrow> Some (Inl e)
              | Inr msg0 \<Rightarrow> do {
                  msg0 \<leftarrow> CWProtocolStoreMessage msg0 controlHdr;
                  msg0 \<leftarrow> store_messages msg0 elems;
                  msg0 \<leftarrow> store_messages msg0 elemsBinding;
                  let pmtu = aligned_pmtu (PMTU - gMaxDTLSHeaderSize - gMaxCAPWAPHeaderSize);
                  let n = fragments_num pmtu (offset msg0);
                  let transportVal = \<lparr>payloadType = is_crypted, tv_type = 0, isFragment = 0,
                        tv_last = 0, fragmentID = 0, fragmentOffset = 0, keepAlive = 0,
                        bindingValuesPtr = None\<rparr>;
                  if n = 1 then
                    (if \<not> alloc sizeof_CWProtocolMessage then Some (Inl CW_ERROR_OUT_OF_MEMORY)
                     else do {
                       r \<leftarrow> CWAssembleTransportHeader alloc (Some transportVal);
                       (case r of
                          Inl e \<Rightarrow> None
                        | Inr transportHdr \<Rightarrow>
                            (case CW_CREATE_PROTOCOL_MESSAGE alloc
                                    (offset transportHdr + offset msg0) of
                               Inl e \<Rightarrow> Some (Inl e)
                             | Inr complete \<Rightarrow> do {
                                 complete \<leftarrow> CWProtocolStoreMessage complete transportHdr;
                                 complete \<leftarrow> CWProtocolStoreMessage complete msg0;
                                 Some (Inr [complete])
                               }))
                     })
                  else if \<not> alloc (sizeof_CWProtocolMessage * n)
                  then Some (Inl CW_ERROR_OUT_OF_MEMORY)
                  else fragment_loop alloc (transportVal\<lparr>fragmentID := fragID\<rparr>) (offset msg0)
                         pmtu n n 0 (msg0\<lparr>offset := 0\<rparr>)
                }))
      })"

text \<open>
  In the fragmenting branch of \<open>CWAssembleDataMessage\<close> the local \<open>transportVal.payloadType\<close> is never
  assigned: \<open>garbage\<close> is the value it happens to hold.
\<close>

definition CWAssembleDataMessage ::
  "(nat \<Rightarrow> bool) \<Rightarrow> u32 \<Rightarrow> u32 \<Rightarrow> int \<Rightarrow> cw_msg option \<Rightarrow> CWBindingTransportHeaderValues option \<Rightarrow> u32 \<Rightarrow>
     (CWErrorCode + cw_msg list) option" where
  "CWAssembleDataMessage alloc garbage fragID PMTU frame bindingValues is_crypted =
     (case (frame, bindingValues) of
        (Some frame, Some b) \<Rightarrow>
          (let pmtu = aligned_pmtu (PMTU - int gMaxCAPWAPHeaderSizeBinding);
               n = fragments_num pmtu (offset frame);
               transportVal = \<lparr>payloadType = is_crypted, tv_type = 0, isFragment = 0,
                 tv_last = 0, fragmentID = 0, fragmentOffset = 0, keepAlive = 0,
                 bindingValuesPtr = Some b\<rparr>
           in if n = 1 then do {
                r \<leftarrow> CWAssembleTransportHeader alloc (Some transportVal);
                (case r of
                   Inl e \<Rightarrow> Some (Inl e)
                 | Inr transportHdr \<Rightarrow>
                     if \<not> alloc sizeof_CWProtocolMessage then Some (Inl CW_ERROR_OUT_OF_MEMORY)
                     else
                       (case CW_CREATE_PROTOCOL_MESSAGE alloc
                               (offset transportHdr + offset frame) of
                          Inl e \<Rightarrow> Some (Inl e)
                        | Inr complete \<Rightarrow> do {
                            complete \<leftarrow> CWProtocolStoreMessage complete transportHdr;
                            complete \<leftarrow> CWProtocolStoreMessage complete frame;
                            Some (Inr [complete])
                          }))
              }
              else if \<not> alloc (sizeof_CWProtocolMessage * n)
              then Some (Inl CW_ERROR_OUT_OF_MEMORY)
              else fragment_loop alloc
                     (transportVal\<lparr>payloadType := garbage, fragmentID := fragID\<rparr>)
                     (offset frame) pmtu n n 0 (frame\<lparr>offset := 0\<rparr>))
      | _ \<Rightarrow> Some (Inl CW_ERROR_WRONG_ARG))"

subsection \<open>Reassembly\<close>

record CWProtocolFragment =
  frag_data :: "u8 list"
  dataLen :: nat
  frag_ID :: u32
  frag_Offset :: u32
  frag_last :: u32

definition CWCompareFragment :: "CWProtocolFragment \<Rightarrow> CWProtocolFragment \<Rightarrow> bool" where
  "CWCompareFragment newEl oldEl \<longleftrightarrow>
     frag_ID newEl = frag_ID oldEl \<and> frag_Offset newEl = frag_Offset oldEl"

fun total_size :: "nat \<Rightarrow> CWProtocolFragment list \<Rightarrow> nat" where
  "total_size t [] = t"
| "total_size t (f # fs) =
     total_size (if frag_last f = 1 then unat (frag_Offset f) * 8 + dataLen f else t) fs"

fun current_size :: "nat \<Rightarrow> CWProtocolFragment list \<Rightarrow> nat" where
  "current_size c [] = c"
| "current_size c (f # fs) = current_size (c + dataLen f) fs"

fun find_at_offset :: "CWProtocolFragment list \<Rightarrow> nat \<Rightarrow> CWProtocolFragment option" where
  "find_at_offset [] currentOffset = None"
| "find_at_offset (f # fs) currentOffset =
     (if unat (frag_Offset f) = currentOffset then Some f else find_at_offset fs currentOffset)"

text \<open>The \<open>CW_REPEAT_FOREVER\<close> loop that copies the fragments in order of offset.\<close>

partial_function (option) copy_fragments ::
  "CWProtocolFragment list \<Rightarrow> cw_msg \<Rightarrow> nat option \<Rightarrow> nat \<Rightarrow> (CWErrorCode + cw_msg) option" where
  "copy_fragments frags reassembled kind currentOffset =
     (case find_at_offset frags currentOffset of
        None \<Rightarrow> Some (Inl CW_ERROR_INVALID_FORMAT)
      | Some el \<Rightarrow> do {
          reassembled \<leftarrow> CWProtocolStoreRawBytes reassembled (frag_data el) (dataLen el);
          (if frag_last el = 1 then Some (Inr (reassembled\<lparr>data_msgType := kind\<rparr>))
           else copy_fragments frags (reassembled\<lparr>data_msgType := kind\<rparr>) kind
                  (currentOffset + dataLen el div 8))
        })"

text \<open>From \<open>check if we have all the fragments\<close> on: the list has the new fragment in it. The result
  is the reassembled message or the error, and the list left behind.\<close>

definition complete_fragments ::
  "(nat \<Rightarrow> bool) \<Rightarrow> CWProtocolFragment list \<Rightarrow> nat option \<Rightarrow>
     ((CWErrorCode + cw_msg) \<times> CWProtocolFragment list) option" where
  "complete_fragments alloc frags kind =
     (let totalSize = total_size 0 frags
      in if totalSize = 0 then Some (Inl CW_ERROR_NEED_RESOURCE, frags)
         else if current_size 0 frags \<noteq> totalSize then Some (Inl CW_ERROR_NEED_RESOURCE, frags)
         else
           (case CW_CREATE_PROTOCOL_MESSAGE alloc totalSize of
              Inl e \<Rightarrow> Some (Inl e, frags)
            | Inr reassembled \<Rightarrow> do {
                r \<leftarrow> copy_fragments frags reassembled kind 0;
                Some (r, snd (CWDeleteList (Some (\<lambda>f s. s)) frags ()))
              }))"

text \<open>Copying the payload of the new fragment and putting it in the list \<open>frags\<close>.\<close>

definition add_fragment ::
  "(nat \<Rightarrow> bool) \<Rightarrow> u8 list \<Rightarrow> nat \<Rightarrow> int \<Rightarrow> CWProtocolTransportHeaderValues \<Rightarrow>
     CWProtocolFragment list \<Rightarrow>
     ((CWErrorCode + unit) \<times> CWProtocolFragment list) option" where
  "add_fragment alloc buf start len values frags =
     (if len < 0 \<or> \<not> alloc (nat len) then Some (Inl CW_ERROR_OUT_OF_MEMORY, frags)
      else if start + nat len > length buf then None
      else
        (case CWAddElementToList alloc frags
                (Some \<lparr>frag_data = take (nat len) (drop start buf), dataLen = nat len,
                       frag_ID = fragmentID values, frag_Offset = fragmentOffset values,
                       frag_last = tv_last values\<rparr>) of
           (True, frags) \<Rightarrow> Some (Inr (), frags)
         | (False, frags) \<Rightarrow>
             Some (Inl CW_ERROR_OUT_OF_MEMORY,
                   snd (CWDeleteList (Some (\<lambda>f s. s)) frags ()))))"

definition CWProtocolParseFragment ::
  "(nat \<Rightarrow> bool) \<Rightarrow> u8 list \<Rightarrow> int \<Rightarrow> CWProtocolFragment list \<Rightarrow>
     ((CWErrorCode + cw_msg \<times> bool) \<times> CWProtocolFragment list) option" where
  "CWProtocolParseFragment alloc buf readBytes frags = do {
     r \<leftarrow> CWParseTransportHeader alloc (Some \<lparr>msg = buf, offset = 0, data_msgType = None\<rparr>);
     (case r of
        Inl e \<Rightarrow> Some (Inl e, frags)
      | Inr ((values, dataFlag), m) \<Rightarrow>
          if isFragment values = 0 then
            (case CW_CREATE_PROTOCOL_MESSAGE_int alloc (readBytes - int (offset m)) of
               Inl e \<Rightarrow> Some (Inl e, frags)
             | Inr reassembled \<Rightarrow> do {
                 reassembled \<leftarrow> CWProtocolStoreRawBytes reassembled (drop (offset m) buf)
                                 (nat (readBytes - int (offset m)));
                 Some (Inr (reassembled\<lparr>data_msgType := data_msgType m\<rparr>, dataFlag), frags)
               })
          else if \<not> alloc sizeof_CWProtocolFragment then Some (Inl CW_ERROR_OUT_OF_MEMORY, frags)
          else do {
            let len = readBytes - int (offset m);
            let frag = \<lparr>frag_data = [], dataLen = nat len, frag_ID = fragmentID values,
                        frag_Offset = fragmentOffset values, frag_last = tv_last values\<rparr>;
            let same_set = (case frags of [] \<Rightarrow> True | f # _ \<Rightarrow> frag_ID f = frag_ID frag);
            if same_set \<and> CWSearchInList frags (Some frag) (Some CWCompareFragment) \<noteq> None
            then Some (Inl CW_ERROR_NEED_RESOURCE, frags)
            else do {
              (r, frags) \<leftarrow> add_fragment alloc buf (offset m) len values
                (if same_set then frags else snd (CWDeleteList (Some (\<lambda>f s. s)) frags ()));
              (case r of
                 Inl e \<Rightarrow> Some (Inl e, frags)
               | Inr _ \<Rightarrow> do {
                   (r, frags) \<leftarrow> complete_fragments alloc frags (data_msgType m);
                   Some (map_sum id (\<lambda>reassembled. (reassembled, dataFlag)) r, frags)
                 })
            }
          })
   }"


subsection \<open>The packets a message is cut into\<close>

text \<open>
  Fragment \<open>i\<close> of \<open>n\<close> carries \<open>frag_chunk\<close>, behind the header \<open>frag_header\<close>. \<open>fragment_plan\<close> is
  what the callers of the loop establish: full-size fragments of a multiple of 8 bytes, the last
  of them not empty, all within the 16 bits of the identifier and the 13 bits of the offset.
\<close>

definition frag_chunk :: "nat \<Rightarrow> nat \<Rightarrow> u8 list \<Rightarrow> nat \<Rightarrow> u8 list" where
  "frag_chunk P n B i = (if i < n - 1 then take P (drop (i * P) B) else drop (i * P) B)"

definition frag_header ::
  "CWProtocolTransportHeaderValues \<Rightarrow> nat \<Rightarrow> nat \<Rightarrow> nat \<Rightarrow> CWProtocolTransportHeaderValues" where
  "frag_header tv P n i =
     tv\<lparr>isFragment := 1, fragmentOffset := of_nat (i * P div 8),
        tv_last := (if i < n - 1 then 0 else 1)\<rparr>"

definition frag_packet ::
  "CWProtocolTransportHeaderValues \<Rightarrow> nat \<Rightarrow> nat \<Rightarrow> u8 list \<Rightarrow> nat \<Rightarrow> u8 list" where
  "frag_packet tv P n B i = header_bytes (frag_header tv P n i) @ frag_chunk P n B i"

definition frag_record ::
  "CWProtocolTransportHeaderValues \<Rightarrow> nat \<Rightarrow> nat \<Rightarrow> u8 list \<Rightarrow> nat \<Rightarrow> CWProtocolFragment" where
  "frag_record tv P n B i =
     \<lparr>frag_data = frag_chunk P n B i, dataLen = length (frag_chunk P n B i),
      frag_ID = fragmentID tv, frag_Offset = of_nat (i * P div 8),
      frag_last = (if i < n - 1 then 0 else 1)\<rparr>"

definition fragment_plan :: "CWProtocolTransportHeaderValues \<Rightarrow> nat \<Rightarrow> nat \<Rightarrow> u8 list \<Rightarrow> bool" where
  "fragment_plan tv P n B \<longleftrightarrow>
     0 < P \<and> 8 dvd P \<and> 0 < n \<and> (n - 1) * P < length B \<and> length B \<le> n * P \<and>
     length B \<le> 65536 \<and> fragmentID tv < 65536"

lemma mult_less_step: "i < (n :: nat) - 1 \<Longrightarrow> i * P + P \<le> (n - 1) * P"
  using mult_le_mono1 [of "Suc i" "n - 1" P] by simp

lemma length_frag_chunk:
  "fragment_plan tv P n B \<Longrightarrow> i < n \<Longrightarrow>
   length (frag_chunk P n B i) = (if i < n - 1 then P else length B - (n - 1) * P)"
proof (cases "i < n - 1")
  case True
  assume "fragment_plan tv P n B" "i < n"
  with True mult_less_step [of i n P] have "i * P + P \<le> length B"
    by (simp add: fragment_plan_def)
  with True show ?thesis
    by (simp add: frag_chunk_def)
next
  case False
  assume "fragment_plan tv P n B" "i < n"
  with False have "i = n - 1" by simp
  then show ?thesis by (simp add: frag_chunk_def)
qed

lemma frag_chunk_pos:
  "fragment_plan tv P n B \<Longrightarrow> i < n \<Longrightarrow> 0 < length (frag_chunk P n B i)"
  by (simp add: length_frag_chunk) (simp add: fragment_plan_def)

lemma take_frag_chunk:
  assumes "fragment_plan tv P n B" and "i < n"
  shows "take (i * P) B @ frag_chunk P n B i = (if i < n - 1 then take (Suc i * P) B else B)"
  by (simp add: frag_chunk_def take_add [symmetric] add.commute)

lemma fragment_loop_eq:
  assumes plan: "fragment_plan tv P n B" and all: "\<And>k. alloc k"
  shows "k + i = n \<Longrightarrow> offset src = i * P \<Longrightarrow> take (length B) (msg src) = B \<Longrightarrow>
    fragment_loop alloc tv (length B) P n k i src =
      Some (Inr (map (\<lambda>j. wbuf (length (frag_packet tv P n B j)) (frag_packet tv P n B j)) [i..<n]))"
proof (induction k arbitrary: i src)
  case 0
  then show ?case by simp
next
  case (Suc k)
  have i: "i < n" using Suc.prems(1) by simp
  let ?size = "if i < n - 1 then P else length B - (n - 1) * P"
  have bound: "i * P + ?size \<le> length B"
  proof (cases "i < n - 1")
    case True
    then show ?thesis
      using mult_less_step [of i n P] plan by (simp add: fragment_plan_def)
  next
    case False
    with i have "i = n - 1" by simp
    with plan show ?thesis by (simp add: fragment_plan_def)
  qed
  have src: "length B \<le> length (msg src)"
    using Suc.prems(3) by (metis length_take min.absorb_iff1 min.commute)
  have chunk: "take ?size (drop (i * P) (msg src)) = frag_chunk P n B i"
  proof -
    have "take ?size (drop (i * P) (msg src)) = take ?size (drop (i * P) (take (length B) (msg src)))"
      using bound by (simp add: drop_take min_def)
    also have "\<dots> = take ?size (drop (i * P) B)"
      using Suc.prems(3) by simp
    also have "\<dots> = frag_chunk P n B i"
    proof (cases "i < n - 1")
      case False
      with i have "i = n - 1" by simp
      then show ?thesis by (simp add: frag_chunk_def)
    qed (simp add: frag_chunk_def)
    finally show ?thesis .
  qed
  have off: "(i * P + ?size = Suc i * P) \<or> k = 0"
    using i Suc.prems(1) by auto
  have rest: "fragment_loop alloc tv (length B) P n k (i + 1) (src\<lparr>offset := offset src + ?size\<rparr>) =
      Some (Inr (map (\<lambda>j. wbuf (length (frag_packet tv P n B j)) (frag_packet tv P n B j)) [i + 1..<n]))"
  proof (cases "k = 0")
    case True
    with Suc.prems(1) show ?thesis by simp
  next
    case False
    with off Suc.prems show ?thesis by (intro Suc.IH) auto
  qed
  have upt: "[i..<n] = i # [i + 1..<n]" using i by (simp add: upt_rec)
  define size where "size = ?size"
  have step: "fragment_loop alloc tv (length B) P n (Suc k) i src = do {
      r \<leftarrow> CWAssembleTransportHeader alloc (Some (frag_header tv P n i));
      (case r of
         Inl e \<Rightarrow> None
       | Inr hdr \<Rightarrow>
           (case CW_CREATE_PROTOCOL_MESSAGE alloc (offset hdr + size) of
              Inl e \<Rightarrow> Some (Inl e)
            | Inr frag \<Rightarrow> do {
                frag \<leftarrow> CWProtocolStoreMessage frag hdr;
                frag \<leftarrow> CWProtocolStoreRawBytes frag (drop (offset src) (msg src)) size;
                rest \<leftarrow> fragment_loop alloc tv (length B) P n k (i + 1)
                          (src\<lparr>offset := offset src + size\<rparr>);
                Some (map_sum id ((#) frag) rest)
              })) }"
    unfolding fragment_loop.simps(2) Let_def size_def frag_header_def Suc.prems(2) ..
  have len: "length (frag_chunk P n B i) = size"
    using length_frag_chunk [OF plan i] by (simp add: size_def)
  show ?case
    unfolding step using rest [folded size_def] chunk [folded size_def] bound [folded size_def]
      src Suc.prems(2) all len
    by (simp add: cw_wire upt frag_packet_def length_msg_wbuf)
qed


subsection \<open>Receiving a packet\<close>

definition header_kind :: "CWProtocolTransportHeaderValues \<Rightarrow> nat option" where
  "header_kind v = (case bindingValuesPtr v of None \<Rightarrow> None | Some b \<Rightarrow> data_kind b None)"

definition has_binding :: "CWProtocolTransportHeaderValues \<Rightarrow> bool" where
  "has_binding v \<longleftrightarrow> bindingValuesPtr v \<noteq> None"

lemma CWParseTransportHeader_sent:
  assumes "header_wf v" and "alloc 8"
  obtains vs where
    "\<And>rest. CWParseTransportHeader alloc
        (Some \<lparr>msg = header_bytes v @ rest, offset = 0, data_msgType = None\<rparr>) =
      Some (Inr ((vs, has_binding v), rbuf (header_kind v) (header_bytes v) rest))"
    "isFragment vs = isFragment v" "fragmentID vs = fragmentID v"
    "fragmentOffset vs = fragmentOffset v" "tv_last vs = tv_last v"
proof (cases "bindingValuesPtr v")
  case None
  show ?thesis
    by (rule that [of "sent_values v"])
      (use CWParseTransportHeader_plain [OF assms(1) None, where alloc = alloc and d = None and pre = "[]"] None in
        \<open>simp_all add: rbuf_def has_binding_def header_kind_def sent_values_def\<close>)
next
  case (Some b)
  show ?thesis
    by (rule that [of "(sent_values v)\<lparr>bindingValuesPtr := Some (b\<lparr>dataRate := dataRate b AND 0xFF00\<rparr>)\<rparr>"])
      (use CWParseTransportHeader_binding [OF assms(1) Some, where alloc = alloc and d = None and pre = "[]"] assms(2) Some in
        \<open>simp_all add: rbuf_def has_binding_def header_kind_def sent_values_def\<close>)
qed

definition packet_fragment :: "CWProtocolTransportHeaderValues \<Rightarrow> u8 list \<Rightarrow> CWProtocolFragment" where
  "packet_fragment v d =
     \<lparr>frag_data = d, dataLen = length d, frag_ID = fragmentID v, frag_Offset = fragmentOffset v,
      frag_last = tv_last v\<rparr>"

lemma packet_fragment_sel [simp]:
  "frag_data (packet_fragment v d) = d" "dataLen (packet_fragment v d) = length d"
  "frag_ID (packet_fragment v d) = fragmentID v"
  "frag_Offset (packet_fragment v d) = fragmentOffset v"
  "frag_last (packet_fragment v d) = tv_last v"
  by (simp_all add: packet_fragment_def)

lemma CWCompareFragment_packet [simp]:
  "CWCompareFragment (f\<lparr>frag_data := []\<rparr>) g = CWCompareFragment f g"
  by (simp add: CWCompareFragment_def)

lemma add_fragment_ok:
  "(\<And>k. alloc k) \<Longrightarrow> start + length d = length buf \<Longrightarrow> drop start buf = d \<Longrightarrow>
   add_fragment alloc buf start (int (length d)) values frags =
     Some (Inr (), packet_fragment values d # frags)"
  by (auto simp: add_fragment_def CWAddElementToList_def packet_fragment_def)

lemma parse_fragment_packet:
  assumes wf: "header_wf v" and frag: "isFragment v = 1" and all: "\<And>k. alloc k"
  shows "CWProtocolParseFragment alloc (header_bytes v @ d) (int (length (header_bytes v @ d))) frags =
    (if (case frags of [] \<Rightarrow> True | f # _ \<Rightarrow> frag_ID f = fragmentID v)
     then if \<exists>g \<in> set frags. CWCompareFragment (packet_fragment v d) g
          then Some (Inl CW_ERROR_NEED_RESOURCE, frags)
          else do { (r, frags) \<leftarrow> complete_fragments alloc (packet_fragment v d # frags) (header_kind v);
                    Some (map_sum id (\<lambda>m. (m, has_binding v)) r, frags) }
     else do { (r, frags) \<leftarrow> complete_fragments alloc [packet_fragment v d] (header_kind v);
               Some (map_sum id (\<lambda>m. (m, has_binding v)) r, frags) })"
proof -
  obtain vs where parse:
    "\<And>rest. CWParseTransportHeader alloc
        (Some \<lparr>msg = header_bytes v @ rest, offset = 0, data_msgType = None\<rparr>) =
      Some (Inr ((vs, has_binding v), rbuf (header_kind v) (header_bytes v) rest))"
    and val: "isFragment vs = isFragment v" "fragmentID vs = fragmentID v"
    "fragmentOffset vs = fragmentOffset v" "tv_last vs = tv_last v"
    using CWParseTransportHeader_sent [of v alloc] wf all by blast
  have pf: "packet_fragment vs d = packet_fragment v d"
    by (simp add: packet_fragment_def val)
  have cmp: "CWSearchInList frags (Some \<lparr>frag_data = [], dataLen = length d,
        frag_ID = fragmentID v, frag_Offset = fragmentOffset v, frag_last = tv_last v\<rparr>)
        (Some CWCompareFragment) \<noteq> None \<longleftrightarrow> (\<exists>g \<in> set frags. CWCompareFragment (packet_fragment v d) g)"
    by (simp add: CWSearchInList_None_iff CWCompareFragment_def packet_fragment_def)
  show ?thesis
    using cmp by (cases frags)
      (auto simp: CWProtocolParseFragment_def parse val frag all Let_def add_fragment_ok pf
        simp del: not_None_eq)
qed

subsection \<open>Putting the fragments together\<close>

lemma total_size_none:
  "\<forall>f \<in> set fs. frag_last f \<noteq> 1 \<Longrightarrow> total_size t fs = t"
  by (induction fs arbitrary: t) auto

lemma total_size_split:
  "total_size t (fs @ l # gs) =
     total_size (if frag_last l = 1 then unat (frag_Offset l) * 8 + dataLen l else total_size t fs) gs"
  by (induction fs arbitrary: t) auto

lemma current_size_eq: "current_size c fs = c + sum_list (map dataLen fs)"
  by (induction fs arbitrary: c) auto

lemma total_size_unique:
  assumes "distinct fs" and "l \<in> set fs" and "frag_last l = 1"
    and "\<forall>f \<in> set fs. f \<noteq> l \<longrightarrow> frag_last f \<noteq> 1"
  shows "total_size t fs = unat (frag_Offset l) * 8 + dataLen l"
proof -
  obtain xs ys where split: "fs = xs @ l # ys"
    using assms(2) by (meson split_list)
  with assms(1, 4) have "\<forall>f \<in> set ys. frag_last f \<noteq> 1" by auto
  with assms(3) show ?thesis
    by (simp add: split total_size_split total_size_none)
qed

lemma find_at_offset_append:
  "\<forall>f \<in> set xs. unat (frag_Offset f) \<noteq> k \<Longrightarrow> find_at_offset (xs @ ys) k = find_at_offset ys k"
  by (induction xs) auto

lemma find_at_offset_unique:
  assumes "l \<in> set fs" and "unat (frag_Offset l) = k"
    and "\<forall>f \<in> set fs. f \<noteq> l \<longrightarrow> unat (frag_Offset f) \<noteq> k"
  shows "find_at_offset fs k = Some l"
proof -
  obtain xs ys where "fs = xs @ l # ys" "l \<notin> set xs"
    using assms(1) by (meson split_list_first)
  moreover from this assms(3) have "\<forall>f \<in> set xs. unat (frag_Offset f) \<noteq> k" by auto
  ultimately show ?thesis
    using assms(2) by (simp add: find_at_offset_append)
qed

lemma put_kind:
  "put (m\<lparr>data_msgType := d\<rparr>) bs = map_option (\<lambda>m. m\<lparr>data_msgType := d\<rparr>) (put m bs)"
  by (simp add: put_def)

lemma contents_kind [simp]: "contents (m\<lparr>data_msgType := d\<rparr>) = contents m"
  by (simp add: contents_def)

lemma StoreRaw_kind:
  "length bs + length s \<le> n \<Longrightarrow>
   CWProtocolStoreRawBytes ((wbuf n bs)\<lparr>data_msgType := d\<rparr>) s (length s) =
     Some ((wbuf n (bs @ s))\<lparr>data_msgType := d\<rparr>)"
  by (simp add: CWProtocolStoreRawBytes_def put_kind put_wbuf)


subsection \<open>Fragments of one message\<close>

lemma frag_record_packet:
  "packet_fragment (frag_header tv P n i) (frag_chunk P n B i) = frag_record tv P n B i"
  by (simp add: packet_fragment_def frag_header_def frag_record_def)

lemma frag_offset_bound:
  assumes "fragment_plan tv P n B" and "i < n"
  shows "i * P div 8 < 8192"
proof -
  have "i * P \<le> (n - 1) * P" using assms(2) by (intro mult_le_mono1) simp
  also have "\<dots> < 65536" using assms(1) by (simp add: fragment_plan_def)
  finally show ?thesis by (simp add: less_mult_imp_div_less)
qed

lemma frag_offset_unat:
  "fragment_plan tv P n B \<Longrightarrow> i < n \<Longrightarrow> unat (of_nat (i * P div 8) :: u32) = i * P div 8"
  using frag_offset_bound [of tv P n B i] by (simp add: unat_of_nat)

lemma frag_offset_mult:
  "fragment_plan tv P n B \<Longrightarrow> i * P div 8 = i * (P div 8)"
  by (simp add: fragment_plan_def div_mult_swap)

lemma frag_offset_inj:
  "fragment_plan tv P n B \<Longrightarrow> i * P div 8 = j * P div 8 \<Longrightarrow> i = j"
  by (simp add: frag_offset_mult) (auto simp: fragment_plan_def dvd_def)

lemma header_wf_frag:
  "fragment_plan tv P n B \<Longrightarrow> i < n \<Longrightarrow> header_wf (frag_header tv P n i)"
  using frag_offset_bound [of tv P n B i] frag_offset_unat [of tv P n B i]
  by (simp add: header_wf_def frag_header_def fragment_plan_def word_less_nat_alt)

lemma frag_record_offset [simp]:
  "fragment_plan tv P n B \<Longrightarrow> i < n \<Longrightarrow> unat (frag_Offset (frag_record tv P n B i)) = i * P div 8"
  by (simp add: frag_record_def frag_offset_unat)

lemma frag_record_len:
  "fragment_plan tv P n B \<Longrightarrow> i < n \<Longrightarrow>
   dataLen (frag_record tv P n B i) = (if i < n - 1 then P else length B - (n - 1) * P)"
  using length_frag_chunk [of tv P n B i] by (simp add: frag_record_def)

lemma frag_record_last [simp]:
  "frag_last (frag_record tv P n B i) = 1 \<longleftrightarrow> \<not> i < n - 1"
  "frag_ID (frag_record tv P n B i) = fragmentID tv"
  by (simp_all add: frag_record_def)

lemma frag_record_compare:
  assumes "fragment_plan tv P n B" and "i < n" and "j < n"
  shows "CWCompareFragment (frag_record tv P n B i) (frag_record tv P n B j) \<longleftrightarrow> i = j"
  using frag_offset_inj [OF assms(1), of i j] frag_record_offset [OF assms(1,2)]
    frag_record_offset [OF assms(1,3)]
  by (auto simp: CWCompareFragment_def dest: arg_cong [where f = unat])

lemma frag_record_inject:
  assumes "fragment_plan tv P n B" and "i < n" and "j < n"
  shows "frag_record tv P n B i = frag_record tv P n B j \<longleftrightarrow> i = j"
  using frag_offset_inj [OF assms(1), of i j] frag_record_offset [OF assms(1,2)]
    frag_record_offset [OF assms(1,3)] by (auto dest: arg_cong [where f = frag_Offset])

lemma sum_frag_len:
  assumes "fragment_plan tv P n B"
  shows "(\<Sum>i<n. dataLen (frag_record tv P n B i)) = length B"
proof -
  obtain m where n: "n = Suc m" using assms by (cases n) (auto simp: fragment_plan_def)
  have "(\<Sum>i<m. dataLen (frag_record tv P n B i)) = (\<Sum>i<m. P)"
    using frag_record_len [OF assms] by (intro sum.cong) (auto simp: n)
  moreover have "dataLen (frag_record tv P n B m) = length B - m * P"
    using frag_record_len [OF assms, of m] by (simp add: n)
  ultimately show ?thesis
    using assms by (simp add: n fragment_plan_def)
qed

lemma current_size_frags:
  assumes "fragment_plan tv P n B" and "distinct js" and "set js \<subseteq> {..<n}"
  shows "current_size 0 (map (frag_record tv P n B) js) = (\<Sum>i\<in>set js. dataLen (frag_record tv P n B i))"
  using assms(2) by (simp add: current_size_eq sum_list_distinct_conv_sum_set comp_def)

lemma current_size_missing:
  assumes plan: "fragment_plan tv P n B" and "distinct js" and "set js \<subset> {..<n}"
  shows "current_size 0 (map (frag_record tv P n B) js) < length B"
proof -
  obtain i where i: "i < n" "i \<notin> set js" using assms(3) by auto
  have "(\<Sum>i\<in>set js. dataLen (frag_record tv P n B i)) < (\<Sum>i<n. dataLen (frag_record tv P n B i))"
    using assms(3) i frag_chunk_pos [OF plan i(1)]
    by (intro sum_strict_mono2 [where b = i]) (auto simp: frag_record_def)
  then show ?thesis
    using assms by (simp add: current_size_frags sum_frag_len)
qed

lemma total_size_frags:
  assumes plan: "fragment_plan tv P n B" and "distinct js" and "set js \<subseteq> {..<n}"
  shows "total_size 0 (map (frag_record tv P n B) js) = (if n - 1 \<in> set js then length B else 0)"
proof (cases "n - 1 \<in> set js")
  case True
  let ?l = "frag_record tv P n B (n - 1)"
  have n: "n - 1 < n" using plan by (simp add: fragment_plan_def)
  have inj: "inj_on (frag_record tv P n B) (set js)"
    using assms by (auto simp: inj_on_def frag_record_inject subset_iff)
  have others: "\<forall>f \<in> set (map (frag_record tv P n B) js). f \<noteq> ?l \<longrightarrow> frag_last f \<noteq> 1"
  proof clarsimp
    fix j assume "j \<in> set js" "frag_record tv P n B j \<noteq> frag_record tv P n B (n - Suc 0)"
    with assms(3) have "j \<noteq> n - 1" "j < n" by auto
    then show "j < n - Suc 0" by simp
  qed
  have "total_size 0 (map (frag_record tv P n B) js) = unat (frag_Offset ?l) * 8 + dataLen ?l"
    by (rule total_size_unique) (use True inj assms others in \<open>auto simp: distinct_map\<close>)
  also have "\<dots> = length B"
  proof -
    have "8 dvd (n - 1) * P" using plan by (simp add: fragment_plan_def)
    then show ?thesis
      using plan n by (simp add: frag_record_len [OF plan] fragment_plan_def)
  qed
  finally show ?thesis using True by simp
next
  case False
  have "frag_last (frag_record tv P n B j) \<noteq> 1" if "j \<in> set js" for j
  proof -
    from that False assms(3) have "j \<noteq> n - 1" "j < n" by auto
    then show ?thesis by simp
  qed
  with False show ?thesis by (simp add: total_size_none)
qed


lemma find_frag_record:
  assumes plan: "fragment_plan tv P n B" and "set js = {..<n}" and "i < n"
  shows "find_at_offset (map (frag_record tv P n B) js) (i * P div 8) = Some (frag_record tv P n B i)"
proof (rule find_at_offset_unique)
  show "\<forall>f \<in> set (map (frag_record tv P n B) js).
      f \<noteq> frag_record tv P n B i \<longrightarrow> unat (frag_Offset f) \<noteq> i * P div 8"
  proof clarsimp
    fix j assume j: "j \<in> set js" "frag_record tv P n B j \<noteq> frag_record tv P n B i"
      and "unat (frag_Offset (frag_record tv P n B j)) = i * P div 8"
    with assms have "j * P div 8 = i * P div 8" by simp
    with j show False using frag_offset_inj [OF plan] by blast
  qed
qed (use assms in auto)

lemma copy_fragments_from:
  assumes plan: "fragment_plan tv P n B" and js: "set js = {..<n}"
  shows "i < n \<Longrightarrow>
    copy_fragments (map (frag_record tv P n B) js)
      ((wbuf (length B) (take (i * P) B))\<lparr>data_msgType := d\<rparr>) kind (i * P div 8) =
    Some (Inr ((wbuf (length B) B)\<lparr>data_msgType := kind\<rparr>))"
proof (induction "n - 1 - i" arbitrary: i d)
  case 0
  then have i: "\<not> i < n - 1" by simp
  have "(i * P) + dataLen (frag_record tv P n B i) = length B"
  proof -
    from i 0(2) have "i = n - 1" by simp
    with frag_record_len [OF plan 0(2)] plan show ?thesis by (simp add: fragment_plan_def)
  qed
  moreover have "take (i * P) B @ frag_chunk P n B i = B"
    using take_frag_chunk [OF plan 0(2)] i by simp
  ultimately show ?case
    using i 0(2) plan
    by (subst copy_fragments.simps)
      (simp add: find_frag_record [OF plan js] StoreRaw_kind frag_record_def)
next
  case (Suc k)
  then have i: "i < n - 1" "Suc i < n" "k = n - 1 - Suc i" by auto
  let ?f = "frag_record tv P n B i"
  have fit: "i * P + P \<le> length B"
    using mult_less_step [of i n P] i(1) plan by (simp add: fragment_plan_def)
  have len: "dataLen ?f = P" "length (frag_chunk P n B i) = P"
    using frag_record_len [OF plan Suc(3)] length_frag_chunk [OF plan Suc(3)] i(1) by auto
  have grow: "take (i * P) B @ frag_data ?f = take (Suc i * P) B"
    using take_frag_chunk [OF plan Suc(3)] i(1) by (simp add: frag_record_def)
  have off: "i * P div 8 + P div 8 = Suc i * P div 8"
    using plan unfolding frag_offset_mult [OF plan] by simp
  have store: "CWProtocolStoreRawBytes ((wbuf (length B) (take (i * P) B))\<lparr>data_msgType := d\<rparr>)
      (frag_data ?f) (dataLen ?f) = Some ((wbuf (length B) (take (Suc i * P) B))\<lparr>data_msgType := d\<rparr>)"
    using StoreRaw_kind [of "take (i * P) B" "frag_data ?f" "length B" d] fit len grow
    by (simp add: frag_record_def)
  have "frag_last ?f \<noteq> 1" using i(1) by simp
  with Suc.hyps(1) [OF i(3) i(2), of kind] show ?case
    by (subst copy_fragments.simps)
      (simp add: find_frag_record [OF plan js Suc(3)] store [unfolded len(1)] len(1) off)
qed

lemma complete_fragments_missing:
  assumes plan: "fragment_plan tv P n B" and "distinct js" and "set js \<subset> {..<n}"
  shows "complete_fragments alloc (map (frag_record tv P n B) js) kind =
    Some (Inl CW_ERROR_NEED_RESOURCE, map (frag_record tv P n B) js)"
  using current_size_missing [OF assms] total_size_frags [OF plan assms(2)] assms(3)
  by (auto simp: complete_fragments_def Let_def)

lemma fold_same [simp]: "fold (\<lambda>f s. s) xs s = s"
  by (induction xs) auto

lemma complete_fragments_all:
  assumes plan: "fragment_plan tv P n B" and dist: "distinct js" and js: "set js = {..<n}"
    and "alloc (length B)"
  shows "complete_fragments alloc (map (frag_record tv P n B) js) kind =
    Some (Inr ((wbuf (length B) B)\<lparr>data_msgType := kind\<rparr>), [])"
proof -
  have n: "n - 1 \<in> set js" "0 < n" "0 < length B"
    using plan by (auto simp: js fragment_plan_def)
  have total: "total_size 0 (map (frag_record tv P n B) js) = length B"
    using total_size_frags [OF plan dist] js n(1) by simp
  have current: "current_size 0 (map (frag_record tv P n B) js) = length B"
    using current_size_frags [OF plan dist] js sum_frag_len [OF plan] by simp
  have "copy_fragments (map (frag_record tv P n B) js) (wbuf (length B) []) kind 0 =
      Some (Inr ((wbuf (length B) B)\<lparr>data_msgType := kind\<rparr>))"
    using copy_fragments_from [OF plan js n(2), where d = None] n(2) plan
    by (auto simp: fragment_plan_def wbuf_def)
  with total current n(3) assms(4) show ?thesis
    by (simp add: complete_fragments_def cw_wire)
qed

text \<open>One packet of the message arriving when the fragments \<open>js\<close> are in the list.\<close>

lemma parse_frag_packet:
  assumes plan: "fragment_plan tv P n B" and all: "\<And>k. alloc k" and "distinct js"
    and sub: "set js \<subseteq> {..<n}" and "i < n"
  shows "CWProtocolParseFragment alloc (frag_packet tv P n B i) (int (length (frag_packet tv P n B i)))
      (map (frag_record tv P n B) js) =
    Some (if i \<in> set js \<or> insert i (set js) \<noteq> {..<n}
          then (Inl CW_ERROR_NEED_RESOURCE,
                map (frag_record tv P n B) (if i \<in> set js then js else i # js))
          else (Inr ((wbuf (length B) B)\<lparr>data_msgType := header_kind tv\<rparr>, has_binding tv), []))"
proof -
  let ?fs = "map (frag_record tv P n B) js"
  have same: "case ?fs of [] \<Rightarrow> True | f # _ \<Rightarrow> frag_ID f = fragmentID (frag_header tv P n i)"
    by (cases js) (simp_all add: frag_header_def)
  have dup: "(\<exists>g \<in> set ?fs. CWCompareFragment (frag_record tv P n B i) g) \<longleftrightarrow> i \<in> set js"
    using frag_record_compare [OF plan \<open>i < n\<close>] sub by auto
  have kind: "header_kind (frag_header tv P n i) = header_kind tv"
      "has_binding (frag_header tv P n i) = has_binding tv"
    by (simp_all add: header_kind_def has_binding_def frag_header_def)
  have parse: "CWProtocolParseFragment alloc (frag_packet tv P n B i)
      (int (length (frag_packet tv P n B i))) ?fs =
    (if i \<in> set js then Some (Inl CW_ERROR_NEED_RESOURCE, ?fs)
     else do { (r, frags) \<leftarrow> complete_fragments alloc (map (frag_record tv P n B) (i # js))
                               (header_kind tv);
               Some (map_sum id (\<lambda>m. (m, has_binding tv)) r, frags) })"
    unfolding frag_packet_def
    by (subst parse_fragment_packet [OF header_wf_frag [OF plan \<open>i < n\<close>] _ all])
      (use same dup kind in \<open>simp_all add: frag_record_packet\<close>, simp add: frag_header_def)
  show ?thesis
  proof (cases "i \<in> set js")
    case False
    with assms have dist: "distinct (i # js)" and sub': "set (i # js) \<subseteq> {..<n}" by auto
    show ?thesis
    proof (cases "set (i # js) = {..<n}")
      case True
      with False show ?thesis
        unfolding parse complete_fragments_all [where alloc = alloc, OF plan dist True all] by simp
    next
      case missing: False
      with sub' have "set (i # js) \<subset> {..<n}" by auto
      with False missing show ?thesis
        unfolding parse by (simp add: complete_fragments_missing [OF plan dist, simplified])
    qed
  qed (simp add: parse)
qed


subsection \<open>Receiving a whole message\<close>

text \<open>The receive loop of both ends: each datagram is parsed against the list left by the last.\<close>

fun receive ::
  "(nat \<Rightarrow> bool) \<Rightarrow> u8 list list \<Rightarrow> CWProtocolFragment list \<Rightarrow>
     ((CWErrorCode + cw_msg \<times> bool) list \<times> CWProtocolFragment list) option" where
  "receive alloc [] frags = Some ([], frags)"
| "receive alloc (p # ps) frags = do {
     (r, frags) \<leftarrow> CWProtocolParseFragment alloc p (int (length p)) frags;
     (rs, frags) \<leftarrow> receive alloc ps frags;
     Some (r # rs, frags)
   }"

lemma receive_append:
  "receive alloc (ps @ qs) frags = do {
     (rs, frags) \<leftarrow> receive alloc ps frags;
     (rs', frags) \<leftarrow> receive alloc qs frags;
     Some (rs @ rs', frags) }"
proof (induction ps arbitrary: frags)
  case Nil
  show ?case by (cases "receive alloc qs frags") auto
next
  case (Cons p ps)
  show ?case
  proof (cases "CWProtocolParseFragment alloc p (int (length p)) frags")
    case (Some rf)
    then show ?thesis
    proof (cases "receive alloc ps (snd rf)")
      case rest: (Some rs)
      then show ?thesis
        using Some by (cases rf, cases rs, cases "receive alloc qs (snd rs)") (auto simp: Cons)
    qed (cases rf, simp add: Cons)
  qed simp
qed

lemma receive_missing:
  assumes plan: "fragment_plan tv P n B" and all: "\<And>k. alloc k"
  shows "distinct js \<Longrightarrow> set js \<union> set ks \<subset> {..<n} \<Longrightarrow>
    \<exists>js'. distinct js' \<and> set js' = set js \<union> set ks \<and>
      receive alloc (map (frag_packet tv P n B) ks) (map (frag_record tv P n B) js) =
        Some (replicate (length ks) (Inl CW_ERROR_NEED_RESOURCE), map (frag_record tv P n B) js')"
proof (induction ks arbitrary: js)
  case Nil
  then show ?case by auto
next
  case (Cons k ks)
  define js1 where "js1 = (if k \<in> set js then js else k # js)"
  have sets: "distinct js1" "set js1 = insert k (set js)" "set js1 \<union> set ks \<subset> {..<n}"
    using Cons.prems by (auto simp: js1_def)
  have "insert k (set js) \<noteq> {..<n}" "set js \<subseteq> {..<n}" "k < n"
    using Cons.prems(2) by auto
  with parse_frag_packet [OF plan all Cons.prems(1)] have step:
    "CWProtocolParseFragment alloc (frag_packet tv P n B k) (int (length (frag_packet tv P n B k)))
       (map (frag_record tv P n B) js) =
     Some (Inl CW_ERROR_NEED_RESOURCE, map (frag_record tv P n B) js1)"
    by (simp add: js1_def)
  from Cons.IH [OF sets(1,3)] obtain js' where
    "distinct js'" "set js' = set js1 \<union> set ks"
    "receive alloc (map (frag_packet tv P n B) ks) (map (frag_record tv P n B) js1) =
       Some (replicate (length ks) (Inl CW_ERROR_NEED_RESOURCE), map (frag_record tv P n B) js')"
    by blast
  with sets(2) step show ?case by auto
qed

lemma receive_all:
  assumes plan: "fragment_plan tv P n B" and all: "\<And>k. alloc k"
    and "insert j (set ks) = {..<n}" and "j \<notin> set ks"
  shows "receive alloc (map (frag_packet tv P n B) (ks @ [j])) [] =
    Some (replicate (length ks) (Inl CW_ERROR_NEED_RESOURCE) @
          [Inr ((wbuf (length B) B)\<lparr>data_msgType := header_kind tv\<rparr>, has_binding tv)], [])"
proof -
  from assms(3,4) have "set [] \<union> set ks \<subset> {..<n}" by auto
  from receive_missing [where alloc = alloc, OF plan all distinct.simps(1) [THEN iffD2, OF TrueI] this]
  obtain js where js: "distinct js" "set js = set ks"
    "receive alloc (map (frag_packet tv P n B) ks) [] =
       Some (replicate (length ks) (Inl CW_ERROR_NEED_RESOURCE), map (frag_record tv P n B) js)"
    by auto
  have "j < n" "set js \<subseteq> {..<n}" using assms(3) js(2) by auto
  with parse_frag_packet [where alloc = alloc, OF plan all js(1)] assms(3,4) js show ?thesis
    by (simp add: receive_append)
qed


lemma parse_single_packet:
  assumes wf: "header_wf v" and frag: "isFragment v = 0" and all: "\<And>k. alloc k"
  shows "CWProtocolParseFragment alloc (header_bytes v @ d) (int (length (header_bytes v @ d))) frags =
    Some (Inr ((wbuf (length d) d)\<lparr>data_msgType := header_kind v\<rparr>, has_binding v), frags)"
proof -
  obtain vs where parse:
    "\<And>rest. CWParseTransportHeader alloc
        (Some \<lparr>msg = header_bytes v @ rest, offset = 0, data_msgType = None\<rparr>) =
      Some (Inr ((vs, has_binding v), rbuf (header_kind v) (header_bytes v) rest))"
    and "isFragment vs = isFragment v"
    using CWParseTransportHeader_sent [of v alloc] wf all by blast
  then show ?thesis
    by (simp add: CWProtocolParseFragment_def CW_CREATE_PROTOCOL_MESSAGE_int_def frag all cw_wire)
qed

subsection \<open>From the sender's message to the receiver's\<close>

lemma aligned_pmtu_dvd [simp]: "8 dvd aligned_pmtu p"
  by (simp add: aligned_pmtu_def)

lemma aligned_pmtu_le: "aligned_pmtu p \<le> nat p"
  by (simp add: aligned_pmtu_def)

lemma fragment_plan_num:
  assumes "0 < P" and "8 dvd P" and "B \<noteq> []" and "length B \<le> 65536" and "fragmentID tv < 65536"
  shows "fragment_plan tv P (fragments_num P (length B)) B"
proof -
  let ?q = "length B div P" and ?r = "length B mod P"
  have split: "length B = ?q * P + ?r" "?r < P"
    using assms(1) by simp_all
  show ?thesis
  proof (cases "?r = 0")
    case True
    with split(1) assms(3) obtain m where m: "?q = Suc m" by (cases ?q) auto
    with True have "fragments_num P (length B) = Suc m"
      using assms(1) by (simp add: fragments_num_def)
    moreover have "length B = Suc m * P" using split(1) True m by simp
    ultimately show ?thesis
      using assms by (simp add: fragment_plan_def)
  next
    case False
    then have "fragments_num P (length B) = Suc ?q"
      using assms(1) by (simp add: fragments_num_def)
    moreover have "?q * P < length B" "length B \<le> Suc ?q * P"
      using split False unfolding mult_Suc by linarith+
    ultimately show ?thesis
      using assms by (simp add: fragment_plan_def)
  qed
qed

text \<open>The packets for the bytes \<open>B\<close>: one packet with the plain header values \<open>tv\<close>, or the fragments.\<close>

definition packets_of ::
  "CWProtocolTransportHeaderValues \<Rightarrow> CWProtocolTransportHeaderValues \<Rightarrow> nat \<Rightarrow> u8 list \<Rightarrow> u8 list list" where
  "packets_of tv tvf P B =
     (let n = fragments_num P (length B)
      in if n = 1 then [header_bytes tv @ B] else map (frag_packet tvf P n B) [0..<n])"

lemma receive_packets:
  assumes wf: "header_wf tv" "isFragment tv = 0"
    and same: "bindingValuesPtr tvf = bindingValuesPtr tv" "fragmentID tvf < 65536"
    and P: "8 dvd P" and B: "B \<noteq> []" "length B \<le> 65536" and all: "\<And>k. alloc k"
    and js: "insert j (set ks) = {..<length (packets_of tv tvf P B)}" "j \<notin> set ks"
  shows "receive alloc (map (\<lambda>i. packets_of tv tvf P B ! i) (ks @ [j])) [] =
    Some (replicate (length ks) (Inl CW_ERROR_NEED_RESOURCE) @
          [Inr ((wbuf (length B) B)\<lparr>data_msgType := header_kind tv\<rparr>, has_binding tv)], [])"
proof (cases "fragments_num P (length B) = 1")
  case True
  then have ps: "packets_of tv tvf P B = [header_bytes tv @ B]"
    by (simp add: packets_of_def)
  have "insert j (set ks) = {0}" unfolding js(1) by (auto simp: ps)
  then have "j = 0" by blast
  moreover from \<open>insert j (set ks) = {0}\<close> have "set ks \<subseteq> {0}" by blast
  with \<open>j = 0\<close> js(2) have "set ks = {}" by (metis subset_singletonD singletonI)
  then have "ks = []" by simp
  ultimately show ?thesis
    using parse_single_packet [where alloc = alloc, OF wf all, of B "[]"] by (simp add: ps)
next
  case False
  let ?n = "fragments_num P (length B)"
  have ps: "packets_of tv tvf P B = map (frag_packet tvf P ?n B) [0..<?n]"
    using False by (simp add: packets_of_def Let_def)
  have "0 < P" using False by (cases P) (simp_all add: fragments_num_def)
  from fragment_plan_num [OF this P B same(2)] have plan: "fragment_plan tvf P ?n B" .
  have kind: "header_kind tvf = header_kind tv" "has_binding tvf = has_binding tv"
    using same(1) by (simp_all add: header_kind_def has_binding_def)
  have js': "insert j (set ks) = {..<?n}" using js(1) by (simp add: ps)
  then have "i < ?n" if "i \<in> set (ks @ [j])" for i
    using that by (metis Un_iff empty_set insert_iff lessThan_iff list.simps(15) set_append emptyE)
  then have "map (\<lambda>i. packets_of tv tvf P B ! i) (ks @ [j]) = map (frag_packet tvf P ?n B) (ks @ [j])"
    by (intro map_cong) (simp_all add: ps)
  with receive_all [where alloc = alloc, OF plan all js' js(2)] kind show ?thesis
    by (simp only: kind)
qed

lemma packets_of_fit:
  assumes "0 < P" and "8 dvd P" and "B \<noteq> []" and "length B \<le> 65536" and "fragmentID tvf < 65536"
    and "bindingValuesPtr tvf = bindingValuesPtr tv" and "p \<in> set (packets_of tv tvf P B)"
  shows "length p \<le> header_size tv + P"
proof (cases "fragments_num P (length B) = 1")
  case True
  with fragment_plan_num [OF assms(1-5)] assms show ?thesis
    by (simp add: packets_of_def fragment_plan_def)
next
  case False
  let ?n = "fragments_num P (length B)"
  from False assms(7) obtain i where i: "i < ?n" "p = frag_packet tvf P ?n B i"
    by (auto simp: packets_of_def Let_def)
  have plan: "fragment_plan tvf P ?n B"
    using fragment_plan_num [OF assms(1-5)] .
  then have "length B - (?n - 1) * P \<le> P"
    by (cases ?n) (simp_all add: fragment_plan_def le_diff_conv)
  then show ?thesis
    using length_frag_chunk [OF plan i(1)] assms(6)
    by (simp add: i(2) frag_packet_def frag_header_def header_size_def)
qed


text \<open>The bytes of a control message and the header values of its packets.\<close>

definition message_bytes :: "u32 \<Rightarrow> u32 \<Rightarrow> cw_msg list \<Rightarrow> u8 list" where
  "message_bytes seq type elems =
     (let body = concat (map contents elems)
      in control_bytes \<lparr>messageTypeValue = type, seqNum = ucast seq,
                        msgElemsLen = of_nat (length body)\<rparr> @ body)"

definition plain_values :: "u32 \<Rightarrow> CWBindingTransportHeaderValues option \<Rightarrow> CWProtocolTransportHeaderValues" where
  "plain_values crypt b = \<lparr>payloadType = crypt, tv_type = 0, isFragment = 0, tv_last = 0,
     fragmentID = 0, fragmentOffset = 0, keepAlive = 0, bindingValuesPtr = b\<rparr>"

lemma plain_values_wf [simp]: "header_wf (plain_values crypt b)" "isFragment (plain_values crypt b) = 0"
  by (simp_all add: header_wf_def plain_values_def)

lemma plain_values_sel [simp]:
  "bindingValuesPtr (plain_values crypt b) = b"
  "has_binding (plain_values crypt b) \<longleftrightarrow> b \<noteq> None"
  "header_kind (plain_values crypt b) = (case b of None \<Rightarrow> None | Some b \<Rightarrow> data_kind b None)"
  by (simp_all add: plain_values_def has_binding_def header_kind_def)

abbreviation message_pmtu :: "int \<Rightarrow> nat" where
  "message_pmtu PMTU \<equiv> aligned_pmtu (PMTU - gMaxDTLSHeaderSize - gMaxCAPWAPHeaderSize)"

definition wbufs :: "u8 list list \<Rightarrow> cw_msg list" where
  "wbufs ps = map (\<lambda>p. wbuf (length p) p) ps"

lemma wbufs_sel [simp]:
  "length (wbufs ps) = length ps"
  "i < length ps \<Longrightarrow> contents (wbufs ps ! i) = ps ! i"
  "contents ` set (wbufs ps) = set ps"
  by (simp_all add: wbufs_def image_comp)

lemma fragment_loop_packets:
  assumes all: "\<And>k. alloc k" and P: "8 dvd P" and B: "B \<noteq> []" "length B \<le> 65536"
    and n: "fragments_num P (length B) \<noteq> 1" and ID: "fragmentID tvf < 65536"
    and src: "offset src = 0" "take (length B) (msg src) = B"
  shows "fragment_loop alloc tvf (length B) P (fragments_num P (length B))
      (fragments_num P (length B)) 0 src = Some (Inr (wbufs (packets_of tv tvf P B)))"
proof -
  have "0 < P" using n by (cases P) (simp_all add: fragments_num_def)
  from fragment_loop_eq [where alloc = alloc, OF fragment_plan_num [OF this P B ID] all] src n
  show ?thesis by (simp add: packets_of_def Let_def wbufs_def comp_def)
qed

lemma CWAssembleMessage_eq:
  assumes all: "\<And>k. alloc k" and fits: "\<forall>m \<in> set (es @ bs). msg_fits m"
    and ID: "fragID < 65536" and len: "length (message_bytes seq type (es @ bs)) \<le> 65536"
  shows "CWAssembleMessage alloc fragID PMTU seq type (Some es) (length es) (Some bs) (length bs) crypt =
    Some (Inr (wbufs (packets_of (plain_values crypt None)
                        ((plain_values crypt None)\<lparr>fragmentID := fragID\<rparr>)
                        (message_pmtu PMTU) (message_bytes seq type (es @ bs)))))"
proof -
  let ?B = "message_bytes seq type (es @ bs)"
  let ?P = "message_pmtu PMTU"
  let ?tvf = "(plain_values crypt None)\<lparr>fragmentID := fragID\<rparr>"
  have sizes: "length (concat (map contents es)) = sum_list (map offset es)"
      "length (concat (map contents bs)) = sum_list (map offset bs)"
    using fits by (auto simp: length_concat_contents)
  have B: "?B = control_bytes \<lparr>messageTypeValue = type, seqNum = ucast seq,
        msgElemsLen = of_nat (sum_list (map offset es) + sum_list (map offset bs))\<rparr> @
        concat (map contents es) @ concat (map contents bs)"
    using sizes by (simp add: message_bytes_def Let_def)
  then have lenB: "length ?B = 8 + (sum_list (map offset es) + sum_list (map offset bs))" "?B \<noteq> []"
    using sizes by (auto simp: control_bytes_def)
  have prefix: "array_prefix (length xs) (Some xs) = Some xs" for xs :: "cw_msg list"
    by (simp add: array_prefix_def)
  have loop: "fragment_loop alloc ?tvf (length ?B) ?P (fragments_num ?P (length ?B))
        (fragments_num ?P (length ?B)) 0 ((wbuf (length ?B) ?B)\<lparr>offset := 0\<rparr>) =
      Some (Inr (wbufs (packets_of (plain_values crypt None) ?tvf ?P ?B)))"
    if "fragments_num ?P (length ?B) \<noteq> 1"
    by (rule fragment_loop_packets) (use all lenB len that ID in \<open>simp_all add: wbuf_def plain_values_def\<close>)
  have build: "CWAssembleMessage alloc fragID PMTU seq type (Some es) (length es) (Some bs) (length bs) crypt =
     (if fragments_num ?P (length ?B) = 1
      then Some (Inr [wbuf (8 + length ?B) (header_bytes (plain_values crypt None) @ ?B)])
      else fragment_loop alloc ?tvf (length ?B) ?P (fragments_num ?P (length ?B))
             (fragments_num ?P (length ?B)) 0 ((wbuf (length ?B) ?B)\<lparr>offset := 0\<rparr>))"
    using fits sizes lenB
    by (simp add: CWAssembleMessage_def prefix Let_def cw_wire all B plain_values_def
        header_size_def length_msg_wbuf del: One_nat_def)
  show ?thesis
    using build loop by (auto simp: packets_of_def wbufs_def header_size_def plain_values_def)
qed


subsection \<open>End to end\<close>

text \<open>
  C1: A control message survives fragmentation, whatever the order in which its packets arrive and
  however often they are duplicated. \<open>CWAssembleMessage\<close> cuts the control header and the message
  elements into packets; if the indices \<open>ks @ [j]\<close> name every packet and \<open>j\<close> is the one that was
  missing, then parsing them one after the other from an empty fragment list asks for more after
  each packet of \<open>ks\<close>, and the last packet yields exactly the message, marked as control
  traffic, with no fragment left in the list.
\<close>

theorem control_message_reassembly:
  assumes "\<forall>k. alloc k" and "\<forall>m \<in> set (es @ bs). msg_fits m" and "fragID < 65536"
    and "length (message_bytes seq type (es @ bs)) \<le> 65536"
    and "CWAssembleMessage alloc fragID PMTU seq type (Some es) (length es) (Some bs) (length bs) crypt =
           Some (Inr ps)"
    and "insert j (set ks) = {..<length ps}" and "j \<notin> set ks"
  shows "\<exists>m. receive alloc (map (\<lambda>i. contents (ps ! i)) (ks @ [j])) [] =
           Some (replicate (length ks) (Inl CW_ERROR_NEED_RESOURCE) @ [Inr (m, False)], []) \<and>
         contents m = message_bytes seq type (es @ bs) \<and> contents m = msg m \<and> data_msgType m = None"
proof -
  let ?B = "message_bytes seq type (es @ bs)"
  let ?ps = "packets_of (plain_values crypt None) ((plain_values crypt None)\<lparr>fragmentID := fragID\<rparr>)
    (message_pmtu PMTU) ?B"
  have ps: "ps = wbufs ?ps"
    using CWAssembleMessage_eq [of alloc es bs fragID seq type PMTU crypt] assms by simp
  have js: "insert j (set ks) = {..<length ?ps}" using assms(6) by (simp add: ps)
  have "i < length ?ps" if "i \<in> set (ks @ [j])" for i
    using that unfolding lessThan_iff [symmetric] js [symmetric] by auto
  then have "map (\<lambda>i. contents (ps ! i)) (ks @ [j]) = map (\<lambda>i. ?ps ! i) (ks @ [j])"
    by (intro map_cong) (simp_all add: ps)
  moreover have "?B \<noteq> []" by (simp add: message_bytes_def Let_def control_bytes_def)
  then have "receive alloc (map (\<lambda>i. ?ps ! i) (ks @ [j])) [] =
      Some (replicate (length ks) (Inl CW_ERROR_NEED_RESOURCE) @
            [Inr ((wbuf (length ?B) ?B)\<lparr>data_msgType := header_kind (plain_values crypt None)\<rparr>,
                  has_binding (plain_values crypt None))], [])"
    by (intro receive_packets) (use js assms in simp_all)
  ultimately have "receive alloc (map (\<lambda>i. contents (ps ! i)) (ks @ [j])) [] =
      Some (replicate (length ks) (Inl CW_ERROR_NEED_RESOURCE) @
            [Inr ((wbuf (length ?B) ?B)\<lparr>data_msgType := None\<rparr>, False)], [])"
    by (simp only: plain_values_sel) simp
  then show ?thesis by (auto simp: contents_def wbuf_def)
qed

lemma control_message_reassembly_witness:
  "\<exists>ps m. CWAssembleMessage (\<lambda>_. True) 9 65 5 7 (Some [wbuf 60 (replicate 60 1)]) 1 (Some []) 0 0 =
       Some (Inr ps) \<and>
     receive (\<lambda>_. True) (map (\<lambda>i. contents (ps ! i)) ([2, 2, 0] @ [1])) [] =
       Some ([Inl CW_ERROR_NEED_RESOURCE, Inl CW_ERROR_NEED_RESOURCE, Inl CW_ERROR_NEED_RESOURCE,
              Inr (m, False)], []) \<and>
     contents m = message_bytes 5 7 [wbuf 60 (replicate 60 1)]"
proof -
  let ?es = "[wbuf 60 (replicate 60 1)]"
  have len: "length (message_bytes 5 7 ?es) = 68"
    by (simp add: message_bytes_def Let_def)
  obtain ps where ps: "CWAssembleMessage (\<lambda>_. True) 9 65 5 7 (Some ?es) 1 (Some []) 0 0 = Some (Inr ps)"
      "length ps = 3"
    using CWAssembleMessage_eq [of "\<lambda>_. True" ?es "[]" 9 5 7 65 0] len
    by (simp add: packets_of_def fragments_num_def aligned_pmtu_def gMaxDTLSHeaderSize_def
        gMaxCAPWAPHeaderSize_def)
  have "insert 1 (set [2, 2, 0 :: nat]) = {..<length ps}"
    using ps(2) by auto
  with control_message_reassembly [of "\<lambda>_. True" ?es "[]" 9 5 7 65 0 ps 1 "[2, 2, 0]"] ps len
  show ?thesis by auto
qed

text \<open>
  C6: When the path MTU leaves room for at least eight bytes of payload, every packet
  \<open>CWAssembleMessage\<close> produces is at most \<open>PMTU - gMaxDTLSHeaderSize\<close> bytes long, transport
  header included, so that a DTLS record around it still fits in the MTU; when it does not, the
  code gives up on the bound and sends the whole message as one packet.
\<close>

theorem control_packets_fit_pmtu:
  assumes "\<forall>k. alloc k" and "\<forall>m \<in> set (es @ bs). msg_fits m" and "fragID < 65536"
    and "length (message_bytes seq type (es @ bs)) \<le> 65536"
  shows "\<exists>ps. CWAssembleMessage alloc fragID PMTU seq type (Some es) (length es) (Some bs) (length bs) crypt =
             Some (Inr ps) \<and>
           (if PMTU - gMaxDTLSHeaderSize - gMaxCAPWAPHeaderSize \<ge> 8
            then \<forall>p \<in> set ps. int (offset p) \<le> PMTU - gMaxDTLSHeaderSize
            else \<exists>p. ps = [p] \<and> offset p = 8 + length (message_bytes seq type (es @ bs)))"
proof -
  let ?B = "message_bytes seq type (es @ bs)"
  let ?ps = "packets_of (plain_values crypt None) ((plain_values crypt None)\<lparr>fragmentID := fragID\<rparr>)
    (message_pmtu PMTU) ?B"
  have eq: "CWAssembleMessage alloc fragID PMTU seq type (Some es) (length es) (Some bs) (length bs) crypt =
      Some (Inr (wbufs ?ps))"
    using assms by (intro CWAssembleMessage_eq) auto
  show ?thesis
  proof (cases "PMTU - gMaxDTLSHeaderSize - gMaxCAPWAPHeaderSize \<ge> 8")
    case True
    then have pos: "0 < message_pmtu PMTU" by (simp add: aligned_pmtu_def)
    have "?B \<noteq> []" by (simp add: message_bytes_def Let_def control_bytes_def)
    then have "length p \<le> header_size (plain_values crypt None) + message_pmtu PMTU" if "p \<in> set ?ps" for p
      by (rule packets_of_fit [OF pos aligned_pmtu_dvd _ assms(4) _ _ that])
        (simp_all add: assms(3) plain_values_def)
    moreover have "int (8 + message_pmtu PMTU) \<le> PMTU - gMaxDTLSHeaderSize"
      using aligned_pmtu_le [of "PMTU - gMaxDTLSHeaderSize - gMaxCAPWAPHeaderSize"] True
      by (simp add: gMaxCAPWAPHeaderSize_def)
    ultimately have "\<forall>p \<in> set (wbufs ?ps). int (offset p) \<le> PMTU - gMaxDTLSHeaderSize"
      by (fastforce simp: wbufs_def header_size_def plain_values_def)
    with True eq show ?thesis by simp
  next
    case False
    then have "message_pmtu PMTU = 0" by (auto simp: aligned_pmtu_def)
    then have "?ps = [header_bytes (plain_values crypt None) @ ?B]"
      by (simp add: packets_of_def fragments_num_def)
    with False eq show ?thesis by (simp add: wbufs_def header_size_def plain_values_def)
  qed
qed

lemma control_packets_fit_pmtu_witness:
  "\<exists>ps. CWAssembleMessage (\<lambda>_. True) 9 65 5 7 (Some [wbuf 60 (replicate 60 1)]) 1 (Some []) 0 0 =
       Some (Inr ps) \<and> (\<forall>p \<in> set ps. offset p \<le> 40)"
  using control_packets_fit_pmtu [of "\<lambda>_. True" "[wbuf 60 (replicate 60 1)]" "[]" 9 5 7 65 0]
  by (simp add: message_bytes_def Let_def gMaxDTLSHeaderSize_def gMaxCAPWAPHeaderSize_def)


lemma CWAssembleDataMessage_eq:
  assumes all: "\<And>k. alloc k" and fits: "msg_fits frame" and B: "contents frame \<noteq> []"
    and ID: "fragID < 65536" and len: "offset frame \<le> 65536"
  shows "CWAssembleDataMessage alloc garbage fragID PMTU (Some frame) (Some b) crypt =
    Some (Inr (wbufs (packets_of (plain_values crypt (Some b))
                        ((plain_values garbage (Some b))\<lparr>fragmentID := fragID\<rparr>)
                        (aligned_pmtu (PMTU - int gMaxCAPWAPHeaderSizeBinding)) (contents frame))))"
proof -
  let ?P = "aligned_pmtu (PMTU - int gMaxCAPWAPHeaderSizeBinding)"
  let ?tvf = "(plain_values garbage (Some b))\<lparr>fragmentID := fragID\<rparr>"
  have lenB: "length (contents frame) = offset frame"
    using fits by (rule length_contents)
  have loop: "fragment_loop alloc ?tvf (offset frame) ?P (fragments_num ?P (offset frame))
        (fragments_num ?P (offset frame)) 0 (frame\<lparr>offset := 0\<rparr>) =
      Some (Inr (wbufs (packets_of (plain_values crypt (Some b)) ?tvf ?P (contents frame))))"
    if "fragments_num ?P (offset frame) \<noteq> 1"
    unfolding lenB [symmetric]
    by (rule fragment_loop_packets)
      (use all lenB len that ID B in \<open>simp_all add: contents_def plain_values_def\<close>)
  have tvf: "?tvf = \<lparr>payloadType = garbage, tv_type = 0, isFragment = 0, tv_last = 0,
      fragmentID = fragID, fragmentOffset = 0, keepAlive = 0, bindingValuesPtr = Some b\<rparr>"
    by (simp add: plain_values_def)
  have build: "CWAssembleDataMessage alloc garbage fragID PMTU (Some frame) (Some b) crypt =
     (if fragments_num ?P (offset frame) = 1
      then Some (Inr [wbuf (16 + offset frame) (header_bytes (plain_values crypt (Some b)) @ contents frame)])
      else fragment_loop alloc ?tvf (offset frame) ?P (fragments_num ?P (offset frame))
             (fragments_num ?P (offset frame)) 0 (frame\<lparr>offset := 0\<rparr>))"
    unfolding tvf using fits lenB
    by (simp add: CWAssembleDataMessage_def Let_def cw_wire all plain_values_def
        header_size_def length_msg_wbuf msg_fits_def del: One_nat_def)
  show ?thesis
    using build loop lenB by (auto simp: packets_of_def wbufs_def header_size_def)
qed

text \<open>
  A wireless frame survives the data channel in the same way: the packets of
  \<open>CWAssembleDataMessage\<close>, parsed in any order and with any duplicates before the last missing one,
  give back the frame, flagged as data and with the kind of data the wireless information announces,
  and this does not depend on the payload type the fragmenting branch leaves unassigned.
\<close>

theorem data_frame_reassembly:
  assumes "\<forall>k. alloc k" and "msg_fits frame" and "0 < offset frame" and "offset frame \<le> 65536"
    and "fragID < 65536"
    and "CWAssembleDataMessage alloc garbage fragID PMTU (Some frame) (Some b) crypt = Some (Inr ps)"
    and "insert j (set ks) = {..<length ps}" and "j \<notin> set ks"
  shows "\<exists>m. receive alloc (map (\<lambda>i. contents (ps ! i)) (ks @ [j])) [] =
           Some (replicate (length ks) (Inl CW_ERROR_NEED_RESOURCE) @ [Inr (m, True)], []) \<and>
         contents m = contents frame \<and> contents m = msg m \<and> data_msgType m = data_kind b None"
proof -
  let ?B = "contents frame"
  let ?tv = "plain_values crypt (Some b)" and ?tvf = "(plain_values garbage (Some b))\<lparr>fragmentID := fragID\<rparr>"
  let ?ps = "packets_of ?tv ?tvf (aligned_pmtu (PMTU - int gMaxCAPWAPHeaderSizeBinding)) ?B"
  have B: "length ?B = offset frame" "?B \<noteq> []"
    using assms(2,3) length_contents by fastforce+
  have ps: "ps = wbufs ?ps"
    using CWAssembleDataMessage_eq [of alloc frame fragID garbage PMTU b crypt] assms B by simp
  have js: "insert j (set ks) = {..<length ?ps}" using assms(7) by (simp add: ps)
  have "i < length ?ps" if "i \<in> set (ks @ [j])" for i
    using that unfolding lessThan_iff [symmetric] js [symmetric] by auto
  then have same: "map (\<lambda>i. contents (ps ! i)) (ks @ [j]) = map (\<lambda>i. ?ps ! i) (ks @ [j])"
    by (intro map_cong) (simp_all add: ps)
  have "receive alloc (map (\<lambda>i. ?ps ! i) (ks @ [j])) [] =
      Some (replicate (length ks) (Inl CW_ERROR_NEED_RESOURCE) @
            [Inr ((wbuf (length ?B) ?B)\<lparr>data_msgType := header_kind ?tv\<rparr>, has_binding ?tv)], [])"
    by (intro receive_packets) (use js assms B in simp_all)
  then have "receive alloc (map (\<lambda>i. contents (ps ! i)) (ks @ [j])) [] =
      Some (replicate (length ks) (Inl CW_ERROR_NEED_RESOURCE) @
            [Inr ((wbuf (length ?B) ?B)\<lparr>data_msgType := data_kind b None\<rparr>, True)], [])"
    unfolding same by (simp only: plain_values_sel) simp
  then show ?thesis by (intro exI conjI, assumption) simp_all
qed

lemma data_frame_reassembly_witness:
  "\<exists>ps m. CWAssembleDataMessage (\<lambda>_. True) 99 7 40 (Some (wbuf 50 (replicate 50 3)))
         (Some \<lparr>RSSI = 1, SNR = 2, dataRate = 0\<rparr>) 0 = Some (Inr ps) \<and>
     receive (\<lambda>_. True) (map (\<lambda>i. contents (ps ! i)) ([2, 0] @ [1])) [] =
       Some ([Inl CW_ERROR_NEED_RESOURCE, Inl CW_ERROR_NEED_RESOURCE, Inr (m, True)], []) \<and>
     contents m = replicate 50 3"
proof -
  let ?b = "\<lparr>RSSI = 1, SNR = 2, dataRate = 0\<rparr> :: CWBindingTransportHeaderValues"
  obtain ps where ps: "CWAssembleDataMessage (\<lambda>_. True) 99 7 40 (Some (wbuf 50 (replicate 50 3)))
         (Some ?b) 0 = Some (Inr ps)" "length ps = 3"
    using CWAssembleDataMessage_eq [of "\<lambda>_. True" "wbuf 50 (replicate 50 3)" 7 99 40 ?b 0]
    by (simp add: packets_of_def fragments_num_def aligned_pmtu_def gMaxCAPWAPHeaderSizeBinding_def)
  have "insert 1 (set [2, 0 :: nat]) = {..<length ps}"
    using ps(2) by auto
  with data_frame_reassembly [of "\<lambda>_. True" "wbuf 50 (replicate 50 3)" 7 99 40 ?b 0 ps 1 "[2, 0]"] ps
  show ?thesis by auto
qed

subsection \<open>Fragments that do not belong together\<close>

text \<open>
  A fragment of another message throws away what was collected: when the list holds fragments
  of one identifier and a well-formed first fragment of a different one arrives, the old
  fragments are gone and the list holds the new fragment alone.
\<close>

theorem new_fragment_id_drops_the_old:
  assumes "\<forall>k. alloc k" and "header_wf v" and "isFragment v = 1" and "tv_last v = 0"
    and "frags \<noteq> []" and "frag_ID (hd frags) \<noteq> fragmentID v"
  shows "CWProtocolParseFragment alloc (header_bytes v @ d) (int (length (header_bytes v @ d))) frags =
    Some (Inl CW_ERROR_NEED_RESOURCE, [packet_fragment v d])"
proof -
  from assms(5) obtain f fs where "frags = f # fs" by (cases frags) auto
  moreover have "complete_fragments alloc [packet_fragment v d] kind =
      Some (Inl CW_ERROR_NEED_RESOURCE, [packet_fragment v d])" for kind
    using assms(4) by (simp add: complete_fragments_def packet_fragment_def)
  ultimately show ?thesis
    using parse_fragment_packet [of v alloc d frags] assms by simp
qed

definition fragment_values :: "u32 \<Rightarrow> u32 \<Rightarrow> u32 \<Rightarrow> CWProtocolTransportHeaderValues" where
  "fragment_values ID off l = \<lparr>payloadType = 0, tv_type = 1, isFragment = 1, tv_last = l,
     fragmentID = ID, fragmentOffset = off, keepAlive = 0, bindingValuesPtr = None\<rparr>"

lemma fragment_values_wf [simp]:
  "ID < 65536 \<Longrightarrow> off < 8192 \<Longrightarrow> l < 2 \<Longrightarrow> header_wf (fragment_values ID off l)"
  "isFragment (fragment_values ID off l) = 1"
  "fragmentID (fragment_values ID off l) = ID"
  "fragmentOffset (fragment_values ID off l) = off"
  "tv_last (fragment_values ID off l) = l"
  by (simp_all add: header_wf_def fragment_values_def)

lemma new_fragment_id_drops_the_old_witness:
  "CWProtocolParseFragment (\<lambda>_. True) (header_bytes (fragment_values 4 0 0) @ [1, 2])
      (int (length (header_bytes (fragment_values 4 0 0) @ [1, 2])))
      [packet_fragment (fragment_values 3 0 0) [9]] =
    Some (Inl CW_ERROR_NEED_RESOURCE, [packet_fragment (fragment_values 4 0 0) [1, 2]])"
  by (rule new_fragment_id_drops_the_old) (simp_all add: packet_fragment_def)

text \<open>Copying from a fragment that is too short to advance the offset never returns.\<close>

lemma copy_short_fragment:
  assumes "find_at_offset frags off = Some f" and "frag_last f \<noteq> 1" and "dataLen f < 8"
  shows "copy_fragments frags m kind off = None"
proof (rule ccontr)
  assume "copy_fragments frags m kind off \<noteq> None"
  then obtain r where "copy_fragments frags m kind off = Some r" by blast
  moreover have "fs = frags \<longrightarrow> k \<noteq> off" if "copy_fragments fs m kind k = Some r" for fs m kind k r
  proof (rule copy_fragments.raw_induct [OF _ that])
    fix copy :: "CWProtocolFragment list \<Rightarrow> cw_msg \<Rightarrow> nat option \<Rightarrow> nat \<Rightarrow> (CWErrorCode + cw_msg) option"
    fix fs m kind k r
    assume IH: "\<And>fs m kind k r. copy fs m kind k = Some r \<Longrightarrow> fs = frags \<longrightarrow> k \<noteq> off"
    assume step: "(case find_at_offset fs k of
        None \<Rightarrow> Some (Inl CW_ERROR_INVALID_FORMAT)
      | Some el \<Rightarrow> do {
          reassembled \<leftarrow> CWProtocolStoreRawBytes m (frag_data el) (dataLen el);
          (if frag_last el = 1 then Some (Inr (reassembled\<lparr>data_msgType := kind\<rparr>))
           else copy fs (reassembled\<lparr>data_msgType := kind\<rparr>) kind (k + dataLen el div 8))
        }) = Some r"
    show "fs = frags \<longrightarrow> k \<noteq> off"
    proof (intro impI notI)
      assume "fs = frags" "k = off"
      with step assms obtain m' where "copy frags m' kind off = Some r"
        by (auto simp: bind_Some_iff)
      with IH show False by blast
    qed
  qed
  ultimately show False by blast
qed

lemma parse_fragment_same:
  assumes "header_wf v" and "isFragment v = 1" and "\<And>k. alloc k"
    and "\<forall>g \<in> set frags. frag_ID g = fragmentID v \<and> frag_Offset g \<noteq> fragmentOffset v"
  shows "CWProtocolParseFragment alloc (header_bytes v @ d) (int (length (header_bytes v @ d))) frags =
    do { (r, frags) \<leftarrow> complete_fragments alloc (packet_fragment v d # frags) (header_kind v);
         Some (map_sum id (\<lambda>m. (m, has_binding v)) r, frags) }"
  using assms by (subst parse_fragment_packet)
    (auto simp: CWCompareFragment_def packet_fragment_def split: list.splits)

text \<open>
  C7: The reassembly loop trusts the sizes: three datagrams of one fragment identifier, a first
  one of fewer than 8 bytes that is not the last, a second that makes up the 8 bytes, and
  a last one at offset 1, satisfy the size test, and the copy loop then never leaves the first
  fragment: it either runs for ever or writes past the block it allocated. No result is returned.
\<close>

theorem short_fragments_break_reassembly:
  assumes "\<forall>k. alloc k" and "ID < 65536" and "length d0 < 8" and "length d0 + length d5 = 8"
  shows "receive alloc [header_bytes (fragment_values ID 0 0) @ d0,
      header_bytes (fragment_values ID 5 0) @ d5, header_bytes (fragment_values ID 1 1) @ d1] [] = None"
proof -
  let ?f0 = "packet_fragment (fragment_values ID 0 0) d0"
  let ?f5 = "packet_fragment (fragment_values ID 5 0) d5"
  let ?f1 = "packet_fragment (fragment_values ID 1 1) d1"
  have 0: "complete_fragments alloc [?f0] kind = Some (Inl CW_ERROR_NEED_RESOURCE, [?f0])" for kind
    by (simp add: complete_fragments_def packet_fragment_def)
  have 5: "complete_fragments alloc [?f5, ?f0] kind = Some (Inl CW_ERROR_NEED_RESOURCE, [?f5, ?f0])" for kind
    by (simp add: complete_fragments_def packet_fragment_def)
  have "find_at_offset [?f1, ?f5, ?f0] 0 = Some ?f0"
    by (simp add: packet_fragment_def)
  then have "copy_fragments [?f1, ?f5, ?f0] m kind 0 = None" for m kind
    by (rule copy_short_fragment) (use assms in \<open>simp_all add: packet_fragment_def\<close>)
  then have 1: "complete_fragments alloc [?f1, ?f5, ?f0] kind = None" for kind
    using assms by (simp add: complete_fragments_def packet_fragment_def cw_wire Let_def)
  show ?thesis
    using assms by (simp add: parse_fragment_same 0 5 1 del: length_append)
qed

lemma short_fragments_break_reassembly_witness:
  "receive (\<lambda>_. True) [header_bytes (fragment_values 7 0 0) @ [1, 2, 3, 4],
      header_bytes (fragment_values 7 5 0) @ [5, 6, 7, 8],
      header_bytes (fragment_values 7 1 1) @ [9]] [] = None"
  by (rule short_fragments_break_reassembly) simp_all

end
