(* ===== verification/Messages.thy ===== *)
theory Messages
  imports AC_Elements Fragments
begin

text \<open>
  What every parser of a control message shares: the loop over the message elements, with the switch over
  the element type as a function \<open>handle\<close>, and the test that the elements fill the announced length. The
  contract of such a switch is the locale \<open>element_switch\<close>; its extension \<open>strict_switch\<close> is one that
  refuses every other element. \<open>'s\<close> is what the parser fills in. Then the responses without elements, or
  with a result code, that both programs send.
\<close>

subsection \<open>The loop over the elements\<close>

text \<open>
  \<open>while((msgPtr->offset - offsetTillMessages) < len)\<close>; \<open>stop\<close> is \<open>offsetTillMessages + len\<close>. No result:
  an access outside the message, or a loop that does not end.
\<close>

partial_function (option) element_loop ::
  "(u16 \<Rightarrow> nat \<Rightarrow> 's \<Rightarrow> cw_msg \<Rightarrow> (CWErrorCode + 's \<times> cw_msg) option) \<Rightarrow> int \<Rightarrow> 's \<Rightarrow> cw_msg \<Rightarrow>
     (CWErrorCode + 's \<times> cw_msg) option" where
  "element_loop handle stop s m =
     (if int (offset m) < stop then do {
        ((elemType, elemLen), m) \<leftarrow> CWParseFormatMsgElem m;
        r \<leftarrow> handle elemType (unat elemLen) s m;
        (case r of
           Inl e \<Rightarrow> Some (Inl e)
         | Inr (s, m) \<Rightarrow> element_loop handle stop s m)
      }
      else Some (Inr (s, m)))"

definition parse_elements ::
  "(u16 \<Rightarrow> nat \<Rightarrow> 's \<Rightarrow> cw_msg \<Rightarrow> (CWErrorCode + 's \<times> cw_msg) option) \<Rightarrow> nat \<Rightarrow> 's \<Rightarrow> cw_msg \<Rightarrow>
     (CWErrorCode + 's \<times> cw_msg) option" where
  "parse_elements handle len s m = do {
     r \<leftarrow> element_loop handle (int (offset m) + int len) s m;
     Some (case r of
             Inl e \<Rightarrow> Inl e
           | Inr (s, m') \<Rightarrow>
               if int (offset m') - int (offset m) \<noteq> int len then Inl CW_ERROR_INVALID_FORMAT
               else Inr (s, m'))
   }"

text \<open>A case that leaves the element to a second pass.\<close>

definition skip_element :: "nat \<Rightarrow> 's \<Rightarrow> cw_msg \<Rightarrow> (CWErrorCode + 's \<times> cw_msg) option" where
  "skip_element elemLen s m = Some (Inr (s, m\<lparr>offset := offset m + elemLen\<rparr>))"

text \<open>A case that calls the parser of the element and stores the value.\<close>

definition parse_into ::
  "(CWErrorCode + 'v \<times> cw_msg) option \<Rightarrow> ('v \<Rightarrow> 's) \<Rightarrow> (CWErrorCode + 's \<times> cw_msg) option" where
  "parse_into result put_value = do { r \<leftarrow> result; Some (map_sum id (map_prod put_value id) r) }"

text \<open>The bytes of a sequence of elements.\<close>

definition stream :: "('e \<Rightarrow> u16) \<Rightarrow> ('e \<Rightarrow> u8 list) \<Rightarrow> 'e list \<Rightarrow> u8 list" where
  "stream ty body es = concat (map (\<lambda>e. elem_bytes (ty e) (body e)) es)"

lemma stream_simps [simp]:
  "stream ty body [] = []"
  "stream ty body (e # es) = elem_bytes (ty e) (body e) @ stream ty body es"
  "stream ty body (es @ fs) = stream ty body es @ stream ty body fs"
  by (simp_all add: stream_def)

lemma parse_into_simps [simp]:
  "parse_into None f = None"
  "parse_into (Some (Inl e)) f = Some (Inl e)"
  "parse_into (Some (Inr (v, m))) f = Some (Inr (f v, m))"
  by (simp_all add: parse_into_def)

lemma skip_element_rbuf [simp]:
  "skip_element (length bs) s (rbuf d pre (bs @ rest)) = Some (Inr (s, rbuf d (pre @ bs) rest))"
  by (simp add: skip_element_def rbuf_skip)

lemma skip_element_end [simp]:
  "skip_element (length bs) s (rbuf d pre bs) = Some (Inr (s, rbuf d (pre @ bs) []))"
  using skip_element_rbuf [of bs s d pre "[]"] by simp

lemma element_loop_stops [simp]:
  "stop \<le> int (offset m) \<Longrightarrow> element_loop handle stop s m = Some (Inr (s, m))"
  by (subst element_loop.simps) simp

lemma element_loop_step:
  "int (length pre) < stop \<Longrightarrow> length bs < 65536 \<Longrightarrow>
   element_loop handle stop s (rbuf d pre (elem_bytes t bs @ rest)) = do {
     r \<leftarrow> handle t (length bs) s (rbuf d (pre @ be16 t @ be16 (of_nat (length bs))) (bs @ rest));
     (case r of Inl e \<Rightarrow> Some (Inl e) | Inr (s, m) \<Rightarrow> element_loop handle stop s m) }"
  by (subst element_loop.simps) (simp add: elem_bytes_def CWParseFormatMsgElem_rbuf unat_of_nat16)

subsection \<open>The contract of a switch\<close>

locale element_switch =
  fixes handle :: "u16 \<Rightarrow> nat \<Rightarrow> 's \<Rightarrow> cw_msg \<Rightarrow> (CWErrorCode + 's \<times> cw_msg) option"
    and ty :: "'e \<Rightarrow> u16" and body :: "'e \<Rightarrow> u8 list" and ok :: "'e \<Rightarrow> bool"
    and effect :: "'e \<Rightarrow> 's \<Rightarrow> 's" and room :: "'e list \<Rightarrow> 's \<Rightarrow> bool"
  assumes handled: "ok e \<Longrightarrow> room (e # es) s \<Longrightarrow>
      handle (ty e) (length (body e)) s (rbuf d pre (body e @ rest)) =
        Some (Inr (effect e s, rbuf d (pre @ body e) rest))"
    and short: "ok e \<Longrightarrow> length (body e) < 65536"
    and room_step: "ok e \<Longrightarrow> room (e # es) s \<Longrightarrow> room es (effect e s)"
begin

lemma loop_reads:
  "\<forall>e \<in> set es. ok e \<Longrightarrow> room es s \<Longrightarrow> stop = int (length pre + length (stream ty body es)) \<Longrightarrow>
   element_loop handle stop s (rbuf d pre (stream ty body es @ rest)) =
     Some (Inr (fold effect es s, rbuf d (pre @ stream ty body es) rest))"
proof (induction es arbitrary: s pre)
  case (Cons e es)
  have "element_loop handle stop (effect e s)
      (rbuf d (pre @ elem_bytes (ty e) (body e)) (stream ty body es @ rest)) =
      Some (Inr (fold effect es (effect e s),
        rbuf d ((pre @ elem_bytes (ty e) (body e)) @ stream ty body es) rest))"
    using Cons.prems room_step by (intro Cons.IH) auto
  then show ?case
    using Cons.prems handled [of e es s d "pre @ be16 (ty e) @ be16 (of_nat (length (body e)))"
        "stream ty body es @ rest"] short [of e]
    by (simp add: element_loop_step) (simp add: elem_bytes_def)
qed simp

lemma parses:
  "\<forall>e \<in> set es. ok e \<Longrightarrow> room es s \<Longrightarrow>
   parse_elements handle (length (stream ty body es)) s (rbuf d pre (stream ty body es @ rest)) =
     Some (Inr (fold effect es s, rbuf d (pre @ stream ty body es) rest))"
  using loop_reads [of es s _ pre d rest] by (simp add: parse_elements_def)

end

text \<open>A switch whose \<open>default\<close> refuses the message.\<close>

locale strict_switch = element_switch handle ty body ok effect room
  for handle :: "u16 \<Rightarrow> nat \<Rightarrow> 's \<Rightarrow> cw_msg \<Rightarrow> (CWErrorCode + 's \<times> cw_msg) option"
    and ty :: "'e \<Rightarrow> u16" and body ok effect room +
  fixes known :: "u16 set"
  assumes refused: "t \<notin> known \<Longrightarrow> handle t n s m = Some (Inl CW_ERROR_INVALID_FORMAT)"
begin

lemma unknown_refused:
  assumes "\<forall>e \<in> set es. ok e" and "room es s" and "t \<notin> known" and "length bs < 65536"
    and "length (stream ty body es) < len"
  shows "parse_elements handle len s (rbuf d pre (stream ty body es @ elem_bytes t bs @ rest)) =
    Some (Inl CW_ERROR_INVALID_FORMAT)"
proof -
  have "element_loop handle stop s' (rbuf d pre' (stream ty body fs @ elem_bytes t bs @ rest)) =
      Some (Inl CW_ERROR_INVALID_FORMAT)"
    if "\<forall>e \<in> set fs. ok e" "room fs s'" "int (length pre' + length (stream ty body fs)) < stop"
    for fs s' pre' stop
    using that
  proof (induction fs arbitrary: s' pre')
    case Nil
    then show ?case using assms(3,4) by (simp add: element_loop_step refused)
  next
    case (Cons e fs)
    have "element_loop handle stop (effect e s') (rbuf d (pre' @ elem_bytes (ty e) (body e))
        (stream ty body fs @ elem_bytes t bs @ rest)) = Some (Inl CW_ERROR_INVALID_FORMAT)"
      using Cons.prems room_step by (intro Cons.IH) auto
    then show ?case
      using Cons.prems handled [of e fs s' d "pre' @ be16 (ty e) @ be16 (of_nat (length (body e)))"
          "stream ty body fs @ elem_bytes t bs @ rest"] short [of e]
      by (simp add: element_loop_step) (simp add: elem_bytes_def)
  qed
  from this [of es s pre "int (length pre) + int len"] assms show ?thesis
    by (simp add: parse_elements_def)
qed

end

subsection \<open>Messages without elements, and the answer to an unknown request\<close>

text \<open>The calls of \<open>CWAssembleMessage\<close> with \<open>NULL\<close> arrays of no elements.\<close>

definition assemble_empty ::
  "(nat \<Rightarrow> bool) \<Rightarrow> u32 \<Rightarrow> int \<Rightarrow> u32 \<Rightarrow> u32 \<Rightarrow> u32 \<Rightarrow> (CWErrorCode + cw_msg list) option" where
  "assemble_empty alloc fragID PMTU seqValue msgType crypt =
     CWAssembleMessage alloc fragID PMTU seqValue msgType None 0 None 0 crypt"

definition CWAssembleUnrecognizedMessageResponse ::
  "(nat \<Rightarrow> bool) \<Rightarrow> u32 \<Rightarrow> int \<Rightarrow> u32 \<Rightarrow> u32 \<Rightarrow> u32 \<Rightarrow> (CWErrorCode + cw_msg list) option" where
  "CWAssembleUnrecognizedMessageResponse alloc fragID PMTU seqValue msgType crypt =
     (if \<not> alloc sizeof_CWProtocolMessage then Some (Inl CW_ERROR_OUT_OF_MEMORY)
      else do {
        r \<leftarrow> CWAssembleMsgElemResultCode alloc CW_PROTOCOL_FAILURE_UNRECOGNIZED_REQ;
        (case r of
           Inl e \<Rightarrow> Some (Inl e)
         | Inr m \<Rightarrow> CWAssembleMessage alloc fragID PMTU seqValue msgType (Some [m]) 1 None 0 crypt)
      })"

text \<open>
  What a peer gets: parsing the packets in the order sent, from no fragments, asks for more until the last
  packet, which completes the control message with the bytes \<open>B\<close>.
\<close>

definition delivers :: "u8 list list \<Rightarrow> u8 list \<Rightarrow> bool" where
  "delivers packets B \<longleftrightarrow>
     (\<exists>m. receive plenty packets [] =
            Some (replicate (length packets - 1) (Inl CW_ERROR_NEED_RESOURCE) @ [Inr (m, False)], []) \<and>
          contents m = B \<and> msg m = B)"

lemma packets_of_nonempty:
  assumes "B \<noteq> []"
  shows "0 < length (packets_of tv tvf P B)"
proof -
  have "P \<le> length B" if "P dvd length B" using that assms by (intro dvd_imp_le) simp_all
  then have "0 < fragments_num P (length B)"
    by (auto simp: fragments_num_def div_greater_zero_iff dvd_eq_mod_eq_0)
  then show ?thesis by (simp add: packets_of_def Let_def)
qed

lemma last_index:
  "0 < n \<Longrightarrow> insert (n - 1) (set [0..<n - 1]) = {..<n} \<and> n - 1 \<notin> set [0..<n - 1] \<and>
     [0..<n - 1] @ [n - 1] = [0..<n]"
  by (cases n) (auto simp: lessThan_Suc atLeast0LessThan)

lemma message_delivered:
  assumes fits: "\<forall>m \<in> set es. msg_fits m" and ID: "fragID < 65536"
    and len: "length (message_bytes seq type es) \<le> 65536"
  shows "\<exists>ps. CWAssembleMessage plenty fragID PMTU seq type (Some es) (length es) (Some []) 0 crypt =
            Some (Inr ps) \<and> (\<forall>p \<in> set ps. msg_fits p) \<and>
          delivers (map contents ps) (message_bytes seq type es)"
proof -
  let ?B = "message_bytes seq type es"
  let ?ps = "packets_of (plain_values crypt None) ((plain_values crypt None)\<lparr>fragmentID := fragID\<rparr>)
    (message_pmtu PMTU) ?B"
  have sent: "CWAssembleMessage plenty fragID PMTU seq type (Some es) (length es) (Some []) 0 crypt =
      Some (Inr (wbufs ?ps))"
    using CWAssembleMessage_eq [of plenty es "[]" fragID seq type PMTU crypt] assms by simp
  have B: "?B \<noteq> []" by (simp add: message_bytes_def Let_def control_bytes_def)
  let ?n = "length ?ps"
  have n: "0 < ?n" using packets_of_nonempty [OF B] .
  note js = last_index [OF n]
  then have all: "map (\<lambda>i. ?ps ! i) ([0..<?n - 1] @ [?n - 1]) = ?ps"
    using map_nth [of ?ps] by metis
  have "receive plenty ?ps [] = Some (replicate (length [0..<?n - 1]) (Inl CW_ERROR_NEED_RESOURCE) @
      [Inr ((wbuf (length ?B) ?B)\<lparr>data_msgType := header_kind (plain_values crypt None)\<rparr>,
            has_binding (plain_values crypt None))], [])"
    by (subst all [symmetric], rule receive_packets) (use js assms B in simp_all)
  then have "delivers ?ps ?B"
    unfolding delivers_def
    by (intro exI [of _ "(wbuf (length ?B) ?B)\<lparr>data_msgType := None\<rparr>"]) (simp add: contents_def wbuf_def)
  moreover have "map contents (wbufs ?ps) = ?ps" by (simp add: wbufs_def comp_def)
  moreover have "\<forall>p \<in> set (wbufs ?ps). msg_fits p" by (auto simp: wbufs_def)
  ultimately show ?thesis using sent by (intro exI [of _ "wbufs ?ps"]) simp
qed

end
