(* ===== verification/AC_Session.thy ===== *)
theory AC_Session
  imports Messages
begin

text \<open>
  A session of the AC with one WTP: the entry \<open>gWTPs[WTPIndex]\<close>, the NeighborDead timer
  (\<open>ACRunState.c\<close>), the request that waits for its response (\<open>ACRetransmission.c\<close>), the handlers of the
  two timer signals and the end of the session (\<open>ACMainLoop.c\<close>), and the counters of \<open>AC.c\<close>.

  \<open>run_env\<close> is what the outside world does while one event is handled: which allocations, packets and
  timers succeed, the identifiers \<open>CWGetSeqNum\<close> and \<open>CWGetFragmentID\<close> return, and the results of the
  writes to the local sockets; \<open>env_garbage\<close> is what a stack variable holds that no one assigned, \<open>env_radio\<close> what
  \<open>malloc\<close> left in a radio entry. \<open>env_send\<close> is \<open>CWSecuritySend\<close>: the error it raises, or nothing. What a
  function does to the outside world is a list of outputs. A running timer is the number of seconds it
  was requested with; mutexes are left out, and the signal masks are in the theory of the main loop, as is what an error
  means that no one raised.
\<close>

subsection \<open>State\<close>

datatype CWStateTransition =
    CW_ENTER_SULKING | CW_ENTER_DISCOVERY | CW_ENTER_JOIN | CW_ENTER_CONFIGURE
  | CW_ENTER_DATA_CHECK | CW_ENTER_RUN | CW_ENTER_RESET | CW_QUIT

datatype CWSubState = CW_DTLS_HANDSHAKE_IN_PROGRESS | CW_WAITING_REQUEST | CW_COMPLETED

record WTPQosValues =
  queueDepth :: u8
  cwMin :: u32
  cwMax :: u32
  AIFS :: u8
  dot1PTag :: u8
  DSCPTag :: u8

record OFDMControlValues =
  currentChan :: u32
  BandSupport :: u8
  TIThreshold :: u32

text \<open>
  The order of an application to a WTP: a command of UCI, or a message of the update manager. The members of
  its union are separate fields; a type uses those of one member only.
\<close>

record CWVendorUciValues =
  uci_command :: u8
  uci_commandArgs :: "u8 list option"

record CWVendorWumValues =
  wum_type :: u8
  wum_major_v :: u8
  wum_minor_v :: u8
  wum_revision_v :: u8
  wum_pack_size :: u32
  wum_seq_num :: u32
  wum_cup_fragment_size :: u32
  wum_cup :: "u8 list option"

datatype vendor_order = Uci_order CWVendorUciValues | Wum_order CWVendorWumValues

text \<open>The address of a peer, as far as \<open>sock_cmp_addr\<close> and \<open>sock_cmp_port\<close> compare it.\<close>

record CWNetworkLev4Address =
  sa_family :: nat
  sa_addr :: "u8 list"
  sa_port :: u16

text \<open>
  A string is null (\<open>None\<close>) or its bytes. \<open>pm_bindingQos\<close> is the array behind \<open>bindingValuesPtr\<close>. The
  entries of \<open>radiosInfo\<close> are a list: after the Join state its length is \<open>radioCount\<close>, unless the array could not
  be allocated.
\<close>

record CWWTPProtocolManager =
  pm_locationData :: "u8 list option"
  pm_name :: "u8 list option"
  pm_sessionID :: u32
  pm_descriptor :: CWWTPDescriptor
  pm_ipv4Address :: sockaddr_in
  pm_radioCount :: nat
  pm_radiosInfo :: "CWWTPRadioInfoValues list"
  pm_ACName :: "u8 list option"
  pm_ACNameIndex :: "CWACNameWithIndexValues list"
  pm_radioAdminInfo :: "CWRadioAdminInfoValues list"
  pm_StatisticsTimer :: u32
  pm_WTPBoardData :: "CWVendorInfoValues list"
  pm_WTPRebootStatistics :: "WTPRebootStatisticsInfo option"
  pm_bindingQos :: "WTPQosValues list"

record CWWTPManager =
  wtp_peer :: CWNetworkLev4Address
  isNotFree :: bool
  isRequestClose :: bool
  currentState :: CWStateTransition
  interfaceIndex :: nat
  wtp_socket :: nat
  subState :: CWSubState
  packetReceiveList :: "u8 list list"
  currentTimer :: "nat option"
  fragmentsList :: "CWProtocolFragment list"
  pathMTU :: int
  interfaceResult :: nat
  interfaceCommandProgress :: bool
  interfaceCommand :: nat
  qosValues :: "WTPQosValues list option"
  ofdmValues :: "OFDMControlValues option"
  vendorValues :: "vendor_order option"
  applicationIndex :: nat
  WTPProtocolManager :: CWWTPProtocolManager
  messages :: "cw_msg list option"
  messagesCount :: nat
  retransmissionCount :: nat
  currentPacketTimer :: "nat option"
  isRetransmitting :: bool
  responseType :: u32
  responseSeqNum :: u32

record run_env =
  env_alloc :: "nat \<Rightarrow> bool"
  env_send :: "u8 list \<Rightarrow> CWErrorCode option"
  env_timer :: "nat \<Rightarrow> bool"
  env_seqNum :: u32
  env_fragID :: u32
  env_crypt :: u32
  env_garbage :: u32
  env_radio :: CWWTPRadioInfoValues
  env_writen :: "nat \<Rightarrow> u8 list \<Rightarrow> bool"
  env_monitor :: "u8 list \<Rightarrow> bool"
  gCWRetransmitTimer :: nat
  gCWNeighborDeadInterval :: nat
  gCWMaxRetransmit :: nat
  env_echoInterval :: nat
  gCWChangeStatePendingTimer :: nat

datatype action =
    Sent "u8 list"
  | To_application nat "u8 list"
  | To_monitor "u8 list"
  | Signal_interfaceComplete
  | Signal_interfaceWait
  | Left_interface

text \<open>A function of the session thread returns, or the thread ends in \<open>CWExitThread\<close>.\<close>

datatype 'a thread_result = Returned 'a | Closed

definition UNUSED_MSG_TYPE :: u32 where "UNUSED_MSG_TYPE = 0"

subsection \<open>The NeighborDead timer\<close>

definition CWStartNeighborDeadTimer :: "run_env \<Rightarrow> CWWTPManager \<Rightarrow> bool \<times> CWWTPManager" where
  "CWStartNeighborDeadTimer env wtp =
     (if env_timer env (gCWNeighborDeadInterval env)
      then (True, wtp\<lparr>currentTimer := Some (gCWNeighborDeadInterval env)\<rparr>)
      else (False, wtp\<lparr>currentTimer := None\<rparr>))"

definition CWStartNeighborDeadTimerForEcho :: "run_env \<Rightarrow> CWWTPManager \<Rightarrow> bool \<times> CWWTPManager" where
  "CWStartNeighborDeadTimerForEcho env wtp =
     (if env_timer env (env_echoInterval env)
      then (True, wtp\<lparr>currentTimer := Some (env_echoInterval env)\<rparr>)
      else (False, wtp\<lparr>currentTimer := None\<rparr>))"

definition CWStopNeighborDeadTimer :: "CWWTPManager \<Rightarrow> bool \<times> CWWTPManager" where
  "CWStopNeighborDeadTimer wtp = (True, wtp\<lparr>currentTimer := None\<rparr>)"

definition CWRestartNeighborDeadTimer :: "run_env \<Rightarrow> CWWTPManager \<Rightarrow> bool \<times> CWWTPManager" where
  "CWRestartNeighborDeadTimer env wtp =
     (case CWStopNeighborDeadTimer wtp of
        (False, wtp) \<Rightarrow> (False, wtp)
      | (True, wtp) \<Rightarrow> CWStartNeighborDeadTimer env wtp)"

definition CWRestartNeighborDeadTimerForEcho :: "run_env \<Rightarrow> CWWTPManager \<Rightarrow> bool \<times> CWWTPManager" where
  "CWRestartNeighborDeadTimerForEcho env wtp =
     (case CWStopNeighborDeadTimer wtp of
        (False, wtp) \<Rightarrow> (False, wtp)
      | (True, wtp) \<Rightarrow> CWStartNeighborDeadTimerForEcho env wtp)"

subsection \<open>Requests and their retransmission\<close>

fun send_packets ::
  "(u8 list \<Rightarrow> CWErrorCode option) \<Rightarrow> cw_msg list \<Rightarrow> (CWErrorCode option \<times> action list) option" where
  "send_packets send [] = Some (None, [])"
| "send_packets send (m # ms) =
     (if \<not> msg_fits m then None
      else
        (case send (contents m) of
           Some e \<Rightarrow> Some (Some e, [])
         | None \<Rightarrow> do {
             (r, out) \<leftarrow> send_packets send ms;
             Some (r, Sent (contents m) # out)
           }))"

text \<open>The packets are freed as soon as all of them are sent (\<open>CW_FREE_WTP_MSG_ARRAY\<close>).\<close>

definition CWACSendFragments ::
  "run_env \<Rightarrow> CWWTPManager \<Rightarrow> ((CWErrorCode + unit) \<times> CWWTPManager \<times> action list) option" where
  "CWACSendFragments env wtp =
     (case messages wtp of
        None \<Rightarrow> Some (Inl CW_ERROR_WRONG_ARG, wtp, [])
      | Some ms \<Rightarrow>
          if messagesCount wtp > length ms then None
          else do {
            (r, out) \<leftarrow> send_packets (env_send env) (take (messagesCount wtp) ms);
            (case r of
               Some e \<Rightarrow> Some (Inl e, wtp, out)
             | None \<Rightarrow> Some (Inr (), wtp\<lparr>messages := None, messagesCount := 0\<rparr>, out))
          })"

definition CWACResendAcknowledgedPacket ::
  "run_env \<Rightarrow> CWWTPManager \<Rightarrow> ((CWErrorCode + unit) \<times> CWWTPManager \<times> action list) option" where
  "CWACResendAcknowledgedPacket env wtp = do {
     (r, wtp, out) \<leftarrow> CWACSendFragments env wtp;
     (case r of
        Inl e \<Rightarrow> Some (Inl e, wtp, out)
      | Inr _ \<Rightarrow>
          if env_timer env (gCWRetransmitTimer env)
          then Some (Inr (), wtp\<lparr>currentPacketTimer := Some (gCWRetransmitTimer env)\<rparr>, out)
          else Some (Inl CW_ERROR_NONE, wtp\<lparr>currentPacketTimer := None\<rparr>, out))
   }"

definition CWACSendAcknowledgedPacket ::
  "run_env \<Rightarrow> CWWTPManager \<Rightarrow> u32 \<Rightarrow> u32 \<Rightarrow>
     ((CWErrorCode + unit) \<times> CWWTPManager \<times> action list) option" where
  "CWACSendAcknowledgedPacket env wtp msgType seqValue =
     CWACResendAcknowledgedPacket env
       (wtp\<lparr>retransmissionCount := 0, isRetransmitting := True, responseType := msgType,
            responseSeqNum := seqValue\<rparr>)"

text \<open>\<open>messagesCount\<close> entries are freed, then the array; the count stays.\<close>

definition CWACStopRetransmission :: "CWWTPManager \<Rightarrow> CWWTPManager option" where
  "CWACStopRetransmission wtp =
     (if isRetransmitting wtp then
        (if messagesCount wtp > (case messages wtp of None \<Rightarrow> 0 | Some ms \<Rightarrow> length ms) then None
         else Some (wtp\<lparr>isRetransmitting := False, currentPacketTimer := None,
                        responseType := UNUSED_MSG_TYPE, responseSeqNum := 0, messages := None\<rparr>))
      else Some wtp)"

subsection \<open>The end of a session\<close>

definition interface_command_done :: "CWWTPManager \<Rightarrow> CWWTPManager \<times> action list" where
  "interface_command_done wtp =
     (if interfaceCommandProgress wtp
      then (wtp\<lparr>interfaceResult := 1, interfaceCommandProgress := False\<rparr>, [Signal_interfaceComplete])
      else (wtp, []))"

definition CWCloseThread :: "CWWTPManager \<Rightarrow> (CWWTPManager \<times> action list) option" where
  "CWCloseThread wtp = do {
     wtp \<leftarrow> CWACStopRetransmission (wtp\<lparr>qosValues := None, currentTimer := None\<rparr>);
     let (wtp, out) = interface_command_done wtp;
     Some (wtp\<lparr>subState := CW_DTLS_HANDSHAKE_IN_PROGRESS,
               fragmentsList := snd (CWDeleteList (Some (\<lambda>f s. s)) (fragmentsList wtp) ()),
               packetReceiveList := [], isNotFree := False\<rparr>, Left_interface # out)
   }"

subsection \<open>The timer signals\<close>

definition CWCriticalTimerExpiredHandler :: "CWWTPManager \<Rightarrow> CWWTPManager \<times> action list" where
  "CWCriticalTimerExpiredHandler wtp = (wtp\<lparr>isRequestClose := True\<rparr>, [Signal_interfaceWait])"

definition CWSoftTimerExpiredHandler ::
  "run_env \<Rightarrow> CWWTPManager \<Rightarrow> (unit thread_result \<times> CWWTPManager \<times> action list) option" where
  "CWSoftTimerExpiredHandler env wtp =
     (if \<not> isRetransmitting wtp \<or> messages wtp = None then Some (Returned (), wtp, [])
      else
        (let wtp = wtp\<lparr>retransmissionCount := retransmissionCount wtp + 1\<rparr>
         in if retransmissionCount wtp \<ge> gCWMaxRetransmit env
            then Some (Returned (), wtp\<lparr>isRequestClose := True\<rparr>, [Signal_interfaceWait])
            else do {
              (r, wtp, out) \<leftarrow> CWACResendAcknowledgedPacket env wtp;
              (case r of
                 Inr _ \<Rightarrow> Some (Returned (), wtp, out)
               | Inl e \<Rightarrow> do {
                   (wtp, out') \<leftarrow> CWCloseThread wtp;
                   Some (Closed, wtp, out @ out')
                 })
            }))"

subsection \<open>Counters\<close>

definition CW_MAX_SEQ_NUM :: u32 where "CW_MAX_SEQ_NUM = 255"
definition CW_MAX_FRAGMENT_ID :: u32 where "CW_MAX_FRAGMENT_ID = 65535"

text \<open>The value returned and the next value of the static counter.\<close>

definition CWGetSeqNum :: "u32 \<Rightarrow> u32 \<times> u32" where
  "CWGetSeqNum n = (n, if n = CW_MAX_SEQ_NUM then 0 else n + 1)"

definition CWGetFragmentID :: "u32 \<Rightarrow> u32 \<times> u32" where
  "CWGetFragmentID n = (n, if n = CW_MAX_FRAGMENT_ID then 0 else n + 1)"

text \<open>The values of \<open>k\<close> successive calls.\<close>

fun draws :: "(u32 \<Rightarrow> u32 \<times> u32) \<Rightarrow> nat \<Rightarrow> u32 \<Rightarrow> u32 list" where
  "draws f 0 n = []"
| "draws f (Suc k) n = (case f n of (r, n') \<Rightarrow> r # draws f k n')"

subsection \<open>Properties\<close>

text \<open>
  C9: A request of the AC is sent once and never again: after \<open>CWACSendAcknowledgedPacket\<close> succeeds, every
  packet of the request was handed to the network in order, but the packets are gone while the session
  still counts as retransmitting; so when the retransmission timer expires the handler sends nothing, counts
  nothing, restarts no timer and never gives the WTP up, however often it runs.
\<close>

theorem request_is_never_retransmitted:
  assumes "CWACSendAcknowledgedPacket env wtp type seq = Some (Inr (), wtp', out)"
  shows "(\<exists>ms. messages wtp = Some ms \<and>
        out = map (\<lambda>m. Sent (contents m)) (take (messagesCount wtp) ms)) \<and>
    isRetransmitting wtp' \<and> currentPacketTimer wtp' = Some (gCWRetransmitTimer env) \<and>
    CWSoftTimerExpiredHandler env' wtp' = Some (Returned (), wtp', [])"
proof -
  have sent: "r = None \<Longrightarrow> send_packets f ms = Some (r, o') \<Longrightarrow> o' = map (\<lambda>m. Sent (contents m)) ms"
    for f ms r o'
    by (induction ms arbitrary: o') (auto simp: bind_Some_iff split: if_split_asm option.splits)
  from assms obtain ms where "messages wtp = Some ms" "messagesCount wtp \<le> length ms"
    and "send_packets (env_send env) (take (messagesCount wtp) ms) = Some (None, out)"
    and "messages wtp' = None" "isRetransmitting wtp'" "currentPacketTimer wtp' = Some (gCWRetransmitTimer env)"
    by (auto simp: CWACSendAcknowledgedPacket_def CWACResendAcknowledgedPacket_def CWACSendFragments_def
        bind_Some_iff split: option.splits if_split_asm sum.splits)
  then show ?thesis using sent by (auto simp: CWSoftTimerExpiredHandler_def)
qed

definition sample_env :: run_env where
  "sample_env = \<lparr>env_alloc = plenty, env_send = (\<lambda>_. None), env_timer = (\<lambda>_. True), env_seqNum = 7,
     env_fragID = 3, env_crypt = 0, env_garbage = 99, env_radio = sample_radio,
     env_writen = (\<lambda>_ _. True), env_monitor = (\<lambda>_. True),
     gCWRetransmitTimer = 3, gCWNeighborDeadInterval = 70, gCWMaxRetransmit = 5, env_echoInterval = 30,
     gCWChangeStatePendingTimer = 25\<rparr>"

definition sample_session :: CWWTPManager where
  "sample_session = \<lparr>wtp_peer = \<lparr>sa_family = AF_INET, sa_addr = [192, 0, 2, 7], sa_port = 5246\<rparr>, isNotFree = True,
     isRequestClose = False, currentState = CW_ENTER_RUN, interfaceIndex = 0, wtp_socket = 5,
     subState = CW_WAITING_REQUEST, packetReceiveList = [], currentTimer = Some 70, fragmentsList = [],
     pathMTU = 1400, interfaceResult = 0, interfaceCommandProgress = False, interfaceCommand = 0, qosValues = None, ofdmValues = None, vendorValues = None,
     applicationIndex = 0, WTPProtocolManager = \<lparr>pm_locationData = None, pm_name = None, pm_sessionID = 0,
       pm_descriptor = \<lparr>wd_maxRadios = 1, wd_radiosInUse = 1, wd_encCapabilities = 0, wd_vendorInfos = []\<rparr>,
       pm_ipv4Address = \<lparr>s_addr = 0, sin_family = AF_INET, sin_port = 0\<rparr>, pm_radioCount = 1,
       pm_radiosInfo = [sample_radio], pm_ACName = None, pm_ACNameIndex = [], pm_radioAdminInfo = [],
       pm_StatisticsTimer = 120, pm_WTPBoardData = [], pm_WTPRebootStatistics = None, pm_bindingQos = []\<rparr>, messages = None, messagesCount = 0,
     retransmissionCount = 0, currentPacketTimer = None, isRetransmitting = False, responseType = 0,
     responseSeqNum = 0\<rparr>"

lemma request_is_never_retransmitted_witness:
  "\<exists>wtp'. CWACSendAcknowledgedPacket sample_env
       (sample_session\<lparr>messages := Some [wbuf 2 [1, 2]], messagesCount := 1\<rparr>) 26 7 =
     Some (Inr (), wtp', [Sent [1, 2]]) \<and>
     CWSoftTimerExpiredHandler sample_env wtp' = Some (Returned (), wtp', [])"
proof -
  obtain wtp' where s: "CWACSendAcknowledgedPacket sample_env
      (sample_session\<lparr>messages := Some [wbuf 2 [1, 2]], messagesCount := 1\<rparr>) 26 7 =
     Some (Inr (), wtp', [Sent [1, 2]])"
    by (simp add: CWACSendAcknowledgedPacket_def CWACResendAcknowledgedPacket_def CWACSendFragments_def
        sample_env_def sample_session_def)
  from request_is_never_retransmitted [OF this, of sample_env] s show ?thesis by blast
qed

text \<open>
  Sequence numbers and fragment identifiers are cyclic counters: the call number \<open>k\<close> returns
  \<open>k mod 256\<close> and \<open>k mod 65536\<close>, so a number always fits its field of the header and comes back only
  after all the others.
\<close>

theorem counters_cycle:
  "draws CWGetSeqNum k 0 = map (\<lambda>i. of_nat (i mod 256)) [0..<k] \<and>
   draws CWGetFragmentID k 0 = map (\<lambda>i. of_nat (i mod 65536)) [0..<k]"
proof -
  have cycle: "draws f k (of_nat (j mod c)) = map (\<lambda>i. of_nat (i mod c)) [j..<j + k]"
    if f: "\<And>i. i < c \<Longrightarrow> f (of_nat i) = (of_nat i, of_nat (Suc i mod c))" and c: "0 < c" for f j c
  proof (induction k arbitrary: j)
    case (Suc k)
    have "f (of_nat (j mod c)) = (of_nat (j mod c), of_nat (Suc j mod c))"
      using f [of "j mod c"] c by (simp add: mod_Suc_eq)
    moreover have "[j..<j + Suc k] = j # [Suc j..<Suc j + k]"
      by (subst upt_conv_Cons) (simp_all del: upt_Suc)
    ultimately show ?case using Suc [of "Suc j"] by (simp del: upt_Suc)
  qed simp
  have "CWGetSeqNum (of_nat i) = (of_nat i, of_nat (Suc i mod 256))" if "i < 256" for i
  proof (cases "i = 255")
    case False
    from that have "unat (of_nat i :: u32) = i" by (simp add: unat_of_nat)
    with False have "(of_nat i :: u32) \<noteq> 255" by (auto dest: arg_cong [where f = unat])
    with that False show ?thesis by (simp add: CWGetSeqNum_def CW_MAX_SEQ_NUM_def mod_less)
  qed (simp add: CWGetSeqNum_def CW_MAX_SEQ_NUM_def)
  moreover have "CWGetFragmentID (of_nat i) = (of_nat i, of_nat (Suc i mod 65536))" if "i < 65536" for i
  proof (cases "i = 65535")
    case False
    from that have "unat (of_nat i :: u32) = i" by (simp add: unat_of_nat)
    with False have "(of_nat i :: u32) \<noteq> 65535" by (auto dest: arg_cong [where f = unat])
    with that False show ?thesis by (simp add: CWGetFragmentID_def CW_MAX_FRAGMENT_ID_def mod_less)
  qed (simp add: CWGetFragmentID_def CW_MAX_FRAGMENT_ID_def)
  ultimately show ?thesis using cycle [of 256 CWGetSeqNum 0] cycle [of 65536 CWGetFragmentID 0] by simp
qed

end
