(* ===== verification/AC_Run.thy ===== *)
theory AC_Run
  imports AC_Session
begin

text \<open>
  The Run state of the AC (\<open>ACRunState.c\<close>): the parsers of the messages a WTP sends, the saving of what
  they carry in \<open>WTPProtocolManager\<close>, the assemblers of the answers, and \<open>ACEnterRun\<close>, the handler of one
  received message. A variable of the stack that a parser may leave unassigned is an argument (\<open>garbage\<close>).
\<close>

subsection \<open>The generic header\<close>

text \<open>An odd type is a request; a response must match the request that waits for it.\<close>

definition CWACParseGenericRunMessage ::
  "CWWTPManager \<Rightarrow> cw_msg option \<Rightarrow> (CWErrorCode + CWControlHeaderValues \<times> cw_msg) option" where
  "CWACParseGenericRunMessage wtp msgPtr =
     (case msgPtr of
        None \<Rightarrow> Some (Inl CW_ERROR_WRONG_ARG)
      | Some m \<Rightarrow> do {
          r \<leftarrow> CWParseControlHeader (Some m);
          Some (case r of
                  Inl e \<Rightarrow> Inl e
                | Inr (controlVal, m) \<Rightarrow>
                    (let controlVal = controlVal\<lparr>msgElemsLen :=
                           msgElemsLen controlVal - CW_CONTROL_HEADER_OFFSET_FOR_MSG_ELEMS\<rparr>
                     in if messageTypeValue controlVal mod 2 = 1 then Inr (controlVal, m)
                        else if responseSeqNum wtp \<noteq> ucast (seqNum controlVal) \<or>
                                responseType wtp \<noteq> messageTypeValue controlVal
                        then Inl CW_ERROR_INVALID_FORMAT
                        else Inr (controlVal, m)))
        })"

subsection \<open>Responses with a result code\<close>

record CWProtocolVendorSpecificValues =
  vendorPayloadType :: u16
  vs_payload :: "u8 list option"

definition CW_MSG_ELEMENT_VENDOR_SPEC_PAYLOAD_UCI :: u16 where
  "CW_MSG_ELEMENT_VENDOR_SPEC_PAYLOAD_UCI = 1"
definition CW_MSG_ELEMENT_VENDOR_SPEC_PAYLOAD_WUM :: u16 where
  "CW_MSG_ELEMENT_VENDOR_SPEC_PAYLOAD_WUM = 2"
definition sizeof_CWProtocolVendorSpecificValues :: nat where
  "sizeof_CWProtocolVendorSpecificValues = 16"

text \<open>
  A length read into an \<open>int\<close>: \<open>malloc\<close> refuses a negative one, except that \<open>len + 1\<close> is 0 for -1 and the
  copy then runs over all memory.
\<close>

definition retrieve_str_int ::
  "(nat \<Rightarrow> bool) \<Rightarrow> u32 \<Rightarrow> cw_msg \<Rightarrow> (u8 list option \<times> cw_msg) option" where
  "retrieve_str_int alloc len m =
     (if 0 \<le> sint len then CWProtocolRetrieveStr alloc (nat (sint len)) m
      else if sint len = - 1 \<and> alloc 0 then None
      else Some (None, m))"

text \<open>The state is \<open>*resultCode\<close> and \<open>*vendValues\<close>.\<close>

definition update_response_payload ::
  "(nat \<Rightarrow> bool) \<Rightarrow> cw_msg \<Rightarrow>
     (CWErrorCode + (u32 \<times> CWProtocolVendorSpecificValues option) \<times> cw_msg) option" where
  "update_response_payload alloc m =
     (if \<not> alloc sizeof_CWProtocolVendorSpecificValues then Some (Inl CW_ERROR_OUT_OF_MEMORY)
      else do {
        (code, m) \<leftarrow> CWProtocolRetrieve32 m;
        (elem, m) \<leftarrow> CWProtocolRetrieve16 m;
        if ucast elem \<noteq> CW_MSG_ELEMENT_VENDOR_SPEC_PAYLOAD_CW_TYPE
        then Some (Inl CW_ERROR_INVALID_FORMAT)
        else do {
          (ptype, m) \<leftarrow> CWProtocolRetrieve16 m;
          if ptype = CW_MSG_ELEMENT_VENDOR_SPEC_PAYLOAD_UCI then do {
            (payloadSize, m) \<leftarrow> CWProtocolRetrieve32 m;
            (payload, m) \<leftarrow> (if payloadSize \<noteq> 0 then retrieve_str_int alloc payloadSize m
                             else Some (None, m));
            Some (Inr ((code, Some \<lparr>vendorPayloadType = ptype, vs_payload = payload\<rparr>), m))
          }
          else if ptype = CW_MSG_ELEMENT_VENDOR_SPEC_PAYLOAD_WUM then do {
            (payloadSize, m) \<leftarrow> CWProtocolRetrieve32 m;
            if sint payloadSize \<le> 0 then Some (Inl CW_ERROR_INVALID_FORMAT)
            else do {
              (payload, m) \<leftarrow> CWProtocolRetrieveRawBytes alloc (unat payloadSize) m;
              Some (Inr ((code, Some \<lparr>vendorPayloadType = ptype, vs_payload = payload\<rparr>), m))
            }
          }
          else Some (Inl CW_ERROR_INVALID_FORMAT)
        }
      })"

definition update_response_switch ::
  "(nat \<Rightarrow> bool) \<Rightarrow> u16 \<Rightarrow> nat \<Rightarrow> u32 \<times> CWProtocolVendorSpecificValues option \<Rightarrow> cw_msg \<Rightarrow>
     (CWErrorCode + (u32 \<times> CWProtocolVendorSpecificValues option) \<times> cw_msg) option" where
  "update_response_switch alloc elemType elemLen s m =
     (if ucast elemType = CW_MSG_ELEMENT_RESULT_CODE_CW_TYPE then do {
        (code, m) \<leftarrow> CWProtocolRetrieve32 m;
        Some (Inr ((code, snd s), m))
      }
      else if ucast elemType = CW_MSG_ELEMENT_RESULT_CODE_CW_TYPE_WITH_PAYLOAD
      then update_response_payload alloc m
      else Some (Inl CW_ERROR_INVALID_FORMAT))"

definition CWParseConfigurationUpdateResponseMessage ::
  "(nat \<Rightarrow> bool) \<Rightarrow> u32 \<Rightarrow> cw_msg option \<Rightarrow> nat \<Rightarrow>
     (CWErrorCode + (u32 \<times> CWProtocolVendorSpecificValues option) \<times> cw_msg) option" where
  "CWParseConfigurationUpdateResponseMessage alloc garbage msgPtr len =
     (case msgPtr of
        None \<Rightarrow> Some (Inl CW_ERROR_WRONG_ARG)
      | Some m \<Rightarrow> parse_elements (update_response_switch alloc) len (garbage, None) m)"

definition result_code_switch ::
  "u16 \<Rightarrow> nat \<Rightarrow> u32 \<Rightarrow> cw_msg \<Rightarrow> (CWErrorCode + u32 \<times> cw_msg) option" where
  "result_code_switch elemType elemLen s m =
     (if ucast elemType = CW_MSG_ELEMENT_RESULT_CODE_CW_TYPE then do {
        (code, m) \<leftarrow> CWProtocolRetrieve32 m;
        Some (Inr (code, m))
      }
      else Some (Inl CW_ERROR_INVALID_FORMAT))"

definition CWParseClearConfigurationResponseMessage ::
  "u32 \<Rightarrow> cw_msg option \<Rightarrow> nat \<Rightarrow> (CWErrorCode + u32 \<times> cw_msg) option" where
  "CWParseClearConfigurationResponseMessage garbage msgPtr len =
     (case msgPtr of
        None \<Rightarrow> Some (Inl CW_ERROR_WRONG_ARG)
      | Some m \<Rightarrow> parse_elements result_code_switch len garbage m)"

definition CWParseStationConfigurationResponseMessage ::
  "u32 \<Rightarrow> cw_msg option \<Rightarrow> nat \<Rightarrow> (CWErrorCode + u32 \<times> cw_msg) option" where
  "CWParseStationConfigurationResponseMessage garbage msgPtr len =
     (case msgPtr of
        None \<Rightarrow> Some (Inl CW_ERROR_WRONG_ARG)
      | Some m \<Rightarrow> parse_elements result_code_switch len garbage m)"

subsection \<open>Requests of the WTP\<close>

definition data_transfer_switch ::
  "(nat \<Rightarrow> bool) \<Rightarrow> u16 \<Rightarrow> nat \<Rightarrow> CWProtocolWTPDataTransferRequestValues option \<Rightarrow> cw_msg \<Rightarrow>
     (CWErrorCode + CWProtocolWTPDataTransferRequestValues option \<times> cw_msg) option" where
  "data_transfer_switch alloc elemType elemLen s m =
     (if ucast elemType = CW_MSG_ELEMENT_DATA_TRANSFER_DATA_CW_TYPE
      then parse_into (CWParseMsgElemDataTransferData alloc (Some m) elemLen) Some
      else Some (Inl CW_ERROR_INVALID_FORMAT))"

definition CWParseWTPDataTransferRequestMessage ::
  "(nat \<Rightarrow> bool) \<Rightarrow> cw_msg option \<Rightarrow> nat \<Rightarrow>
     (CWErrorCode + CWProtocolWTPDataTransferRequestValues option \<times> cw_msg) option" where
  "CWParseWTPDataTransferRequestMessage alloc msgPtr len =
     (case msgPtr of
        None \<Rightarrow> Some (Inl CW_ERROR_WRONG_ARG)
      | Some m \<Rightarrow> parse_elements (data_transfer_switch alloc) len None m)"

text \<open>An array is the list of the entries assigned so far, next to the number allocated.\<close>

record CWProtocolWTPEventRequestValues =
  errorReport :: "CWDecryptErrorReport option"
  duplicateIPv4 :: "WTPDuplicateIPv4 option"
  duplicateIPv6 :: "WTPDuplicateIPv6 option"
  WTPOperationalStatisticsCount :: nat
  WTPOperationalStatistics :: "WTPOperationalStatisticsValues list"
  WTPRadioStatisticsCount :: nat
  WTPRadioStatistics :: "WTPRadioStatisticsValues list"
  WTPRebootStatistics :: "WTPRebootStatisticsInfo option"

definition no_events :: CWProtocolWTPEventRequestValues where
  "no_events = \<lparr>errorReport = None, duplicateIPv4 = None, duplicateIPv6 = None,
     WTPOperationalStatisticsCount = 0, WTPOperationalStatistics = [], WTPRadioStatisticsCount = 0,
     WTPRadioStatistics = [], WTPRebootStatistics = None\<rparr>"

definition sizeof_WTPDuplicateIPv4 :: nat where "sizeof_WTPDuplicateIPv4 = 24"
definition sizeof_WTPDuplicateIPv6 :: nat where "sizeof_WTPDuplicateIPv6 = 40"
definition sizeof_WTPRebootStatisticsInfo :: nat where "sizeof_WTPRebootStatisticsInfo = 32"
definition sizeof_WTPOperationalStatisticsValues :: nat where
  "sizeof_WTPOperationalStatisticsValues = 12"
definition sizeof_WTPRadioStatisticsValues :: nat where "sizeof_WTPRadioStatisticsValues = 28"

text \<open>The first pass reads the single elements and counts the statistics.\<close>

definition event_switch ::
  "(nat \<Rightarrow> bool) \<Rightarrow> u16 \<Rightarrow> nat \<Rightarrow> CWProtocolWTPEventRequestValues \<Rightarrow> cw_msg \<Rightarrow>
     (CWErrorCode + CWProtocolWTPEventRequestValues \<times> cw_msg) option" where
  "event_switch alloc elemType elemLen s m =
     (if ucast elemType = CW_MSG_ELEMENT_CW_DECRYPT_ER_REPORT_CW_TYPE then
        (if \<not> alloc sizeof_CWDecryptErrorReportValues then Some (Inl CW_ERROR_OUT_OF_MEMORY)
         else parse_into (CWParseMsgElemDecryptErrorReport alloc (Some m) elemLen)
                (\<lambda>v. s\<lparr>errorReport := Some v\<rparr>))
      else if ucast elemType = CW_MSG_ELEMENT_DUPLICATE_IPV4_ADDRESS_CW_TYPE then
        (if \<not> alloc sizeof_WTPDuplicateIPv4 \<or> \<not> alloc 6 then Some (Inl CW_ERROR_OUT_OF_MEMORY)
         else parse_into (CWParseMsgElemDuplicateIPv4Address alloc (Some m) elemLen)
                (\<lambda>v. s\<lparr>duplicateIPv4 := Some v\<rparr>))
      else if ucast elemType = CW_MSG_ELEMENT_DUPLICATE_IPV6_ADDRESS_CW_TYPE then
        (if \<not> alloc sizeof_WTPDuplicateIPv6 \<or> \<not> alloc 6 then Some (Inl CW_ERROR_OUT_OF_MEMORY)
         else parse_into (CWParseMsgElemDuplicateIPv6Address alloc (Some m) elemLen)
                (\<lambda>v. s\<lparr>duplicateIPv6 := Some v\<rparr>))
      else if ucast elemType = CW_MSG_ELEMENT_WTP_OPERAT_STATISTICS_CW_TYPE then
        skip_element elemLen
          (s\<lparr>WTPOperationalStatisticsCount := WTPOperationalStatisticsCount s + 1\<rparr>) m
      else if ucast elemType = CW_MSG_ELEMENT_WTP_RADIO_STATISTICS_CW_TYPE then
        skip_element elemLen (s\<lparr>WTPRadioStatisticsCount := WTPRadioStatisticsCount s + 1\<rparr>) m
      else if ucast elemType = CW_MSG_ELEMENT_WTP_REBOOT_STATISTICS_CW_TYPE then
        (if \<not> alloc sizeof_WTPRebootStatisticsInfo then Some (Inl CW_ERROR_OUT_OF_MEMORY)
         else parse_into (CWParseWTPRebootStatistics (Some m) elemLen)
                (\<lambda>v. s\<lparr>WTPRebootStatistics := Some v\<rparr>))
      else Some (Inl CW_ERROR_INVALID_FORMAT))"

text \<open>The second pass fills the arrays; past their end is no access.\<close>

definition statistics_switch ::
  "u16 \<Rightarrow> nat \<Rightarrow> CWProtocolWTPEventRequestValues \<Rightarrow> cw_msg \<Rightarrow>
     (CWErrorCode + CWProtocolWTPEventRequestValues \<times> cw_msg) option" where
  "statistics_switch elemType elemLen s m =
     (if ucast elemType = CW_MSG_ELEMENT_WTP_OPERAT_STATISTICS_CW_TYPE then
        (if WTPOperationalStatisticsCount s \<le> length (WTPOperationalStatistics s) then None
         else parse_into (CWParseWTPOperationalStatistics (Some m) elemLen)
                (\<lambda>v. s\<lparr>WTPOperationalStatistics := WTPOperationalStatistics s @ [v]\<rparr>))
      else if ucast elemType = CW_MSG_ELEMENT_WTP_RADIO_STATISTICS_CW_TYPE then
        (if WTPRadioStatisticsCount s \<le> length (WTPRadioStatistics s) then None
         else parse_into (CWParseWTPRadioStatistics (Some m) elemLen)
                (\<lambda>v. s\<lparr>WTPRadioStatistics := WTPRadioStatistics s @ [v]\<rparr>))
      else skip_element elemLen s m)"

definition CWParseWTPEventRequestMessage ::
  "(nat \<Rightarrow> bool) \<Rightarrow> cw_msg option \<Rightarrow> nat \<Rightarrow>
     (CWErrorCode + CWProtocolWTPEventRequestValues \<times> cw_msg) option" where
  "CWParseWTPEventRequestMessage alloc msgPtr len =
     (case msgPtr of
        None \<Rightarrow> Some (Inl CW_ERROR_WRONG_ARG)
      | Some m \<Rightarrow> do {
          r \<leftarrow> parse_elements (event_switch alloc) len no_events m;
          (case r of
             Inl e \<Rightarrow> Some (Inl e)
           | Inr (s, m') \<Rightarrow>
               if \<not> alloc (sizeof_WTPOperationalStatisticsValues * WTPOperationalStatisticsCount s) \<or>
                  \<not> alloc (sizeof_WTPRadioStatisticsValues * WTPRadioStatisticsCount s)
               then Some (Inl CW_ERROR_OUT_OF_MEMORY)
               else element_loop statistics_switch (int (offset m) + int len) s
                      (m'\<lparr>offset := offset m\<rparr>))
        })"

text \<open>The state of the first pass is the number of radios and the result code.\<close>

record CWProtocolChangeStateEventRequestValues =
  cs_radiosCount :: nat
  cs_radios :: "CWRadioOperationalInfoValues list"
  cs_resultCode :: u32

definition sizeof_CWProtocolChangeStateEventRequestValues :: nat where
  "sizeof_CWProtocolChangeStateEventRequestValues = 24"

definition change_state_switch ::
  "u16 \<Rightarrow> nat \<Rightarrow> CWProtocolChangeStateEventRequestValues \<Rightarrow> cw_msg \<Rightarrow>
     (CWErrorCode + CWProtocolChangeStateEventRequestValues \<times> cw_msg) option" where
  "change_state_switch elemType elemLen s m =
     (if ucast elemType = CW_MSG_ELEMENT_RADIO_OPERAT_STATE_CW_TYPE then
        skip_element elemLen (s\<lparr>cs_radiosCount := cs_radiosCount s + 1\<rparr>) m
      else if ucast elemType = CW_MSG_ELEMENT_RESULT_CODE_CW_TYPE then
        parse_into (CWParseResultCode (Some m) elemLen) (\<lambda>v. s\<lparr>cs_resultCode := v\<rparr>)
      else Some (Inl CW_ERROR_INVALID_FORMAT))"

definition radios_switch ::
  "u16 \<Rightarrow> nat \<Rightarrow> CWProtocolChangeStateEventRequestValues \<Rightarrow> cw_msg \<Rightarrow>
     (CWErrorCode + CWProtocolChangeStateEventRequestValues \<times> cw_msg) option" where
  "radios_switch elemType elemLen s m =
     (if ucast elemType = CW_MSG_ELEMENT_RADIO_OPERAT_STATE_CW_TYPE then
        (if cs_radiosCount s \<le> length (cs_radios s) then None
         else parse_into (CWParseWTPRadioOperationalState (Some m) elemLen)
                (\<lambda>v. s\<lparr>cs_radios := cs_radios s @ [v]\<rparr>))
      else skip_element elemLen s m)"

definition CWParseChangeStateEventRequestMessage2 ::
  "(nat \<Rightarrow> bool) \<Rightarrow> u32 \<Rightarrow> cw_msg option \<Rightarrow> nat \<Rightarrow>
     (CWErrorCode + CWProtocolChangeStateEventRequestValues \<times> cw_msg) option" where
  "CWParseChangeStateEventRequestMessage2 alloc garbage msgPtr len =
     (case msgPtr of
        None \<Rightarrow> Some (Inl CW_ERROR_WRONG_ARG)
      | Some m \<Rightarrow>
          if \<not> alloc sizeof_CWProtocolChangeStateEventRequestValues
          then Some (Inl CW_ERROR_OUT_OF_MEMORY)
          else do {
            r \<leftarrow> parse_elements change_state_switch len
                  \<lparr>cs_radiosCount = 0, cs_radios = [], cs_resultCode = garbage\<rparr> m;
            (case r of
               Inl e \<Rightarrow> Some (Inl e)
             | Inr (s, m') \<Rightarrow>
                 if \<not> alloc (sizeof_radio_values * cs_radiosCount s) then Some (Inl CW_ERROR_OUT_OF_MEMORY)
                 else element_loop radios_switch (int (offset m) + int len) s
                        (m'\<lparr>offset := offset m\<rparr>))
          })"

definition echo_switch :: "u16 \<Rightarrow> nat \<Rightarrow> unit \<Rightarrow> cw_msg \<Rightarrow> (CWErrorCode + unit \<times> cw_msg) option" where
  "echo_switch elemType elemLen s m = Some (Inl CW_ERROR_INVALID_FORMAT)"

definition CWParseEchoRequestMessage ::
  "cw_msg option \<Rightarrow> nat \<Rightarrow> (CWErrorCode + unit \<times> cw_msg) option" where
  "CWParseEchoRequestMessage msgPtr len =
     (case msgPtr of
        None \<Rightarrow> Some (Inl CW_ERROR_WRONG_ARG)
      | Some m \<Rightarrow> parse_elements echo_switch len () m)"

subsection \<open>Saving what the WTP reported\<close>

text \<open>Every radio of the WTP with the identifier of the statistics is updated.\<close>

definition save_operational ::
  "WTPOperationalStatisticsValues \<Rightarrow> CWWTPRadioInfoValues list \<Rightarrow> CWWTPRadioInfoValues list" where
  "save_operational v = map (\<lambda>r. if radioID r = os_radioID v
     then r\<lparr>TxQueueLevel := os_TxQueueLevel v,
            wirelessLinkFramesPerSec := os_wirelessLinkFramesPerSec v\<rparr>
     else r)"

text \<open>
  The radio statistics at index \<open>i\<close> go to the radios with the identifier of the operational statistics
  at index \<open>i\<close>, which may be past the end of that array.
\<close>

fun save_radio_statistics ::
  "WTPRadioStatisticsValues list \<Rightarrow> nat \<Rightarrow> WTPOperationalStatisticsValues list \<Rightarrow>
     CWWTPRadioInfoValues list \<Rightarrow> CWWTPRadioInfoValues list option" where
  "save_radio_statistics [] i ops radios = Some radios"
| "save_radio_statistics (v # vs) i ops radios =
     (if radios = [] then save_radio_statistics vs (i + 1) ops radios
      else if i \<ge> length ops then None
      else save_radio_statistics vs (i + 1) ops
             (map (\<lambda>r. if radioID r = os_radioID (ops ! i) then r\<lparr>statistics := rv_statistics v\<rparr> else r)
               radios))"

definition CWSaveWTPEventRequestMessage ::
  "CWProtocolWTPEventRequestValues \<Rightarrow> CWWTPProtocolManager \<Rightarrow> CWWTPProtocolManager option" where
  "CWSaveWTPEventRequestMessage ev pm = do {
     let pm = (case WTPRebootStatistics ev of
                 None \<Rightarrow> pm | Some v \<Rightarrow> pm\<lparr>pm_WTPRebootStatistics := Some v\<rparr>);
     let radios = fold save_operational (WTPOperationalStatistics ev) (pm_radiosInfo pm);
     radios \<leftarrow> save_radio_statistics (WTPRadioStatistics ev) 0 (WTPOperationalStatistics ev) radios;
     Some (pm\<lparr>pm_radiosInfo := radios\<rparr>)
   }"

text \<open>One reported radio against all radios of the WTP: \<open>found\<close> is tested after each of them.\<close>

fun save_radio_state ::
  "CWRadioOperationalInfoValues \<Rightarrow> bool \<Rightarrow> bool \<Rightarrow> CWWTPRadioInfoValues list \<Rightarrow>
     bool \<times> CWWTPRadioInfoValues list" where
  "save_radio_state v found retValue [] = (retValue, [])"
| "save_radio_state v found retValue (r # rs) =
     (let found = (found \<or> radioID r = oi_ID v);
          r' = (if radioID r = oi_ID v
                then r\<lparr>operationalState := oi_state v, operationalCause := oi_cause v\<rparr> else r);
          (retValue, rs) = save_radio_state v found (retValue \<and> found) rs
      in (retValue, r' # rs))"

fun save_radio_states ::
  "CWRadioOperationalInfoValues list \<Rightarrow> bool \<Rightarrow> CWWTPRadioInfoValues list \<Rightarrow>
     bool \<times> CWWTPRadioInfoValues list" where
  "save_radio_states [] retValue rs = (retValue, rs)"
| "save_radio_states (v # vs) retValue rs =
     (case save_radio_state v False retValue rs of
        (retValue, rs) \<Rightarrow> save_radio_states vs retValue rs)"

definition CWSaveChangeStateEventRequestMessage ::
  "CWProtocolChangeStateEventRequestValues \<Rightarrow> CWWTPProtocolManager \<Rightarrow> bool \<times> CWWTPProtocolManager" where
  "CWSaveChangeStateEventRequestMessage values pm =
     (case save_radio_states (cs_radios values) True (pm_radiosInfo pm) of
        (retValue, rs) \<Rightarrow> (retValue, pm\<lparr>pm_radiosInfo := rs\<rparr>))"

text \<open>\<open>CWBindingSaveConfigurationUpdateResponse\<close> copies three fields of each of the four profiles.\<close>

definition NUM_QOS_PROFILES :: nat where "NUM_QOS_PROFILES = 4"

fun copy_qos :: "nat \<Rightarrow> WTPQosValues list \<Rightarrow> WTPQosValues list \<Rightarrow> WTPQosValues list option" where
  "copy_qos 0 src dst = Some dst"
| "copy_qos (Suc n) (q # src) (b # dst) =
     map_option ((#) (b\<lparr>cwMin := cwMin q, cwMax := cwMax q, AIFS := AIFS q\<rparr>)) (copy_qos n src dst)"
| "copy_qos (Suc n) _ _ = None"

definition CWBindingSaveConfigurationUpdateResponse ::
  "u32 \<Rightarrow> CWWTPManager \<Rightarrow> (bool \<times> CWWTPManager) option" where
  "CWBindingSaveConfigurationUpdateResponse resultCode wtp =
     (if resultCode = CW_PROTOCOL_SUCCESS then
        (case qosValues wtp of
           None \<Rightarrow> Some (True, wtp)
         | Some qs \<Rightarrow> do {
             bs \<leftarrow> copy_qos NUM_QOS_PROFILES qs (pm_bindingQos (WTPProtocolManager wtp));
             Some (True, wtp\<lparr>WTPProtocolManager := (WTPProtocolManager wtp)\<lparr>pm_bindingQos := bs\<rparr>\<rparr>)
           })
      else Some (True, wtp))"

definition WTP_VERSION_RESPONSE :: u8 where "WTP_VERSION_RESPONSE = 2"
definition WTP_COMMIT_ACK :: u8 where "WTP_COMMIT_ACK = 8"

text \<open>
  The size of the payload for the application, and whether the session is to be closed. A payload of the
  update manager that could not be allocated is dereferenced.
\<close>

definition update_payload_size ::
  "u32 \<Rightarrow> CWProtocolVendorSpecificValues \<Rightarrow> (nat \<times> bool) option" where
  "update_payload_size resultCode v =
     (if vendorPayloadType v = CW_MSG_ELEMENT_VENDOR_SPEC_PAYLOAD_UCI then
        Some (case vs_payload v of None \<Rightarrow> 0 | Some bs \<Rightarrow> length (takeWhile (\<lambda>b. b \<noteq> 0) bs), False)
      else if vendorPayloadType v = CW_MSG_ELEMENT_VENDOR_SPEC_PAYLOAD_WUM then
        (case vs_payload v of
           Some (b # bs) \<Rightarrow>
             Some (if b = WTP_VERSION_RESPONSE then 4 else 1,
                   b = WTP_COMMIT_ACK \<and> resultCode = CW_PROTOCOL_SUCCESS)
         | _ \<Rightarrow> None)
      else None)"

definition CWSaveConfigurationUpdateResponseMessage ::
  "run_env \<Rightarrow> nat \<Rightarrow> u32 \<Rightarrow> CWProtocolVendorSpecificValues option \<Rightarrow> CWWTPManager \<Rightarrow>
     (bool \<times> CWWTPManager \<times> action list) option" where
  "CWSaveConfigurationUpdateResponseMessage env WTPIndex resultCode vendValues wtp =
     (case vendValues of
        None \<Rightarrow> do {
          (r, wtp) \<leftarrow> CWBindingSaveConfigurationUpdateResponse resultCode wtp;
          Some (r, wtp, [])
        }
      | Some v \<Rightarrow> do {
          (payloadSize, closeWTPManager) \<leftarrow> update_payload_size resultCode v;
          let close = (if closeWTPManager then (wtp\<lparr>isRequestClose := True\<rparr>, [Signal_interfaceWait])
                       else (wtp, []));
          if \<not> env_alloc env (12 + payloadSize) then Some (True, close)
          else if payloadSize > length (case vs_payload v of None \<Rightarrow> [] | Some bs \<Rightarrow> bs) then None
          else
            (let buf = be32 (of_nat WTPIndex) @ be32 resultCode @ be32 (of_nat payloadSize) @
                       take payloadSize (case vs_payload v of None \<Rightarrow> [] | Some bs \<Rightarrow> bs);
                 socketIndex = applicationIndex wtp
             in if \<not> env_writen env socketIndex buf then Some (False, wtp, [])
                else Some (True, fst close, To_application socketIndex buf # snd close))
        })"

subsection \<open>Answers and requests\<close>

definition CWAssembleWTPDataTransferResponse ::
  "run_env \<Rightarrow> int \<Rightarrow> u32 \<Rightarrow> (CWErrorCode + cw_msg list) option" where
  "CWAssembleWTPDataTransferResponse env PMTU seqValue =
     assemble_empty (env_alloc env) (env_fragID env) PMTU seqValue CW_MSG_TYPE_VALUE_DATA_TRANSFER_RESPONSE
       (env_crypt env)"

definition CWAssembleWTPEventResponse ::
  "run_env \<Rightarrow> int \<Rightarrow> u32 \<Rightarrow> (CWErrorCode + cw_msg list) option" where
  "CWAssembleWTPEventResponse env PMTU seqValue =
     assemble_empty (env_alloc env) (env_fragID env) PMTU seqValue CW_MSG_TYPE_VALUE_WTP_EVENT_RESPONSE
       (env_crypt env)"

definition CWAssembleEchoResponse ::
  "run_env \<Rightarrow> int \<Rightarrow> u32 \<Rightarrow> (CWErrorCode + cw_msg list) option" where
  "CWAssembleEchoResponse env PMTU seqValue =
     assemble_empty (env_alloc env) (env_fragID env) PMTU seqValue CW_MSG_TYPE_VALUE_ECHO_RESPONSE
       (env_crypt env)"

definition CWAssembleChangeStateEventResponse ::
  "run_env \<Rightarrow> int \<Rightarrow> u32 \<Rightarrow> (CWErrorCode + cw_msg list) option" where
  "CWAssembleChangeStateEventResponse env PMTU seqValue =
     assemble_empty (env_alloc env) (env_fragID env) PMTU seqValue
       CW_MSG_TYPE_VALUE_CHANGE_STATE_EVENT_RESPONSE (env_crypt env)"

definition CWAssembleClearConfigurationRequest ::
  "run_env \<Rightarrow> int \<Rightarrow> u32 \<Rightarrow> (CWErrorCode + cw_msg list) option" where
  "CWAssembleClearConfigurationRequest env PMTU seqValue =
     assemble_empty (env_alloc env) (env_fragID env) PMTU seqValue
       CW_MSG_TYPE_VALUE_CLEAR_CONFIGURATION_REQUEST (env_crypt env)"

definition CWAssembleStationConfigurationRequest ::
  "run_env \<Rightarrow> int \<Rightarrow> u32 \<Rightarrow> u8 list \<Rightarrow> (CWErrorCode + cw_msg list) option" where
  "CWAssembleStationConfigurationRequest env PMTU seqValue StationMacAddr =
     (if \<not> env_alloc env sizeof_CWProtocolMessage then Some (Inl CW_ERROR_OUT_OF_MEMORY)
      else do {
        r \<leftarrow> CWAssembleMsgElemAddStation (env_alloc env) 0 StationMacAddr;
        (case r of
           Inl e \<Rightarrow> Some (Inl e)
         | Inr m \<Rightarrow> CWAssembleMessage (env_alloc env) (env_fragID env) PMTU seqValue
             CW_MSG_TYPE_VALUE_STATION_CONFIGURATION_REQUEST (Some [m]) 1 None 0 (env_crypt env))
      })"

subsection \<open>Data messages\<close>

type_synonym run_outcome = "(CWErrorCode + unit) thread_result \<times> CWWTPManager \<times> action list"

definition MAC_ADDR_LEN :: nat where "MAC_ADDR_LEN = 6"
definition SOURCE_ADDR_START :: nat where "SOURCE_ADDR_START = 10"
definition CW_FREQ_CELL_INFO_PAYLOAD_SIZE :: int where "CW_FREQ_CELL_INFO_PAYLOAD_SIZE = 65"
definition CW_FREQ_ACK_SIZE :: int where "CW_FREQ_ACK_SIZE = 8"

text \<open>A request is assembled into \<open>messages\<close> and sent; when that fails the request is given up.\<close>

definition send_request ::
  "run_env \<Rightarrow> CWWTPManager \<Rightarrow> (CWErrorCode + cw_msg list) option \<Rightarrow> u32 \<Rightarrow>
     (bool \<times> CWWTPManager \<times> action list) option" where
  "send_request env wtp assembled response = do {
     r \<leftarrow> assembled;
     (case r of
        Inl e \<Rightarrow> Some (False, wtp, [])
      | Inr ps \<Rightarrow> do {
          (r, wtp, out) \<leftarrow> CWACSendAcknowledgedPacket env
             (wtp\<lparr>messages := Some ps, messagesCount := length ps\<rparr>) response (env_seqNum env);
          (case r of
             Inr _ \<Rightarrow> Some (True, wtp, out)
           | Inl e \<Rightarrow> do { wtp \<leftarrow> CWACStopRetransmission wtp; Some (False, wtp, out) })
        })
   }"

text \<open>A station whose frame arrives is configured on the WTP; its address is read from the frame.\<close>

definition run_data_frame :: "run_env \<Rightarrow> CWWTPManager \<Rightarrow> cw_msg \<Rightarrow> run_outcome option" where
  "run_data_frame env wtp m =
     (if SOURCE_ADDR_START + MAC_ADDR_LEN > length (msg m) then None
      else do {
        let StationMacAddr = take MAC_ADDR_LEN (drop SOURCE_ADDR_START (msg m));
        (_, wtp, out) \<leftarrow> send_request env wtp
           (CWAssembleStationConfigurationRequest env (pathMTU wtp) (env_seqNum env) StationMacAddr)
           CW_MSG_TYPE_VALUE_STATION_CONFIGURATION_RESPONSE;
        Some (Returned (Inr ()), wtp, out)
      })"

text \<open>
  Frequency statistics go to the application that asked for them. The size is computed in an \<open>int\<close>;
  \<open>malloc\<close> refuses a negative one.
\<close>

definition run_freq_stats ::
  "run_env \<Rightarrow> nat \<Rightarrow> CWWTPManager \<Rightarrow> cw_msg \<Rightarrow> run_outcome option" where
  "run_freq_stats env WTPIndex wtp m =
     (if length (msg m) < 4 then None
      else do {
        let isAck = of_be32 (take 4 (msg m));
        sizeOfPayload \<leftarrow>
          (if isAck \<noteq> 0 then Some CW_FREQ_ACK_SIZE
           else if length (msg m) < 8 then None
           else
             (let cells = sint (of_be32 (take 4 (drop 4 (msg m)))) * CW_FREQ_CELL_INFO_PAYLOAD_SIZE
              in if cells < - (2 ^ 31) \<or> cells \<ge> 2 ^ 31 then None
                 else Some (if cells + 8 < 2 ^ 31 then cells + 8 else cells + 8 - 2 ^ 32)));
        if sizeOfPayload < 0 \<or> \<not> env_alloc env (nat sizeOfPayload)
        then Some (Returned (Inr ()), wtp, [])
        else if length (msg m) < nat sizeOfPayload then None
        else
          (let payload = be32 (of_nat WTPIndex) @ take (nat sizeOfPayload - 4) (drop 4 (msg m))
           in if env_writen env (applicationIndex wtp) payload
              then Some (Returned (Inr ()), wtp, [To_application (applicationIndex wtp) payload])
              else Some (Returned (Inl CW_ERROR_NONE), wtp, []))
      })"

text \<open>\<open>pDataLen\<close> bytes of other statistics go to the monitor, whatever the size of the message.\<close>

definition run_stats :: "run_env \<Rightarrow> CWWTPManager \<Rightarrow> cw_msg \<Rightarrow> run_outcome option" where
  "run_stats env wtp m =
     (if length (msg m) < 656 then None
      else if env_monitor env (take 656 (msg m))
      then Some (Returned (Inr ()), wtp, [To_monitor (take 656 (msg m))])
      else Some (Returned (Inl CW_ERROR_NONE), wtp, []))"

definition run_data :: "run_env \<Rightarrow> nat \<Rightarrow> CWWTPManager \<Rightarrow> cw_msg \<Rightarrow> run_outcome option" where
  "run_data env WTPIndex wtp m = do {
     kind \<leftarrow> data_msgType m;
     if kind = CW_DATA_MSG_FRAME_TYPE then run_data_frame env wtp m
     else if kind = CW_DATA_MSG_FREQ_STATS_TYPE then run_freq_stats env WTPIndex wtp m
     else if kind = CW_DATA_MSG_STATS_TYPE then run_stats env wtp m
     else Some (Returned (Inr ()), wtp, [])
   }"

subsection \<open>The handler of the Run state\<close>

text \<open>The timer is started, or restarted; if that fails the thread ends.\<close>

definition after_timer ::
  "run_env \<Rightarrow> bool \<Rightarrow> CWWTPManager \<Rightarrow> (CWWTPManager \<Rightarrow> run_outcome option) \<Rightarrow> run_outcome option" where
  "after_timer env timerSet wtp rest =
     (case (if timerSet then CWRestartNeighborDeadTimer env wtp else CWStartNeighborDeadTimer env wtp) of
        (True, wtp) \<Rightarrow> rest wtp
      | (False, wtp) \<Rightarrow> do { (wtp, out) \<leftarrow> CWCloseThread wtp; Some (Closed, wtp, out) })"

definition on_parsed ::
  "(CWErrorCode + 'a \<times> cw_msg) option \<Rightarrow> CWWTPManager \<Rightarrow> ('a \<Rightarrow> run_outcome option) \<Rightarrow> run_outcome option" where
  "on_parsed parsed wtp rest = do {
     r \<leftarrow> parsed;
     (case r of Inl e \<Rightarrow> Some (Returned (Inl e), wtp, []) | Inr (v, _) \<Rightarrow> rest v)
   }"

definition run_done :: "CWWTPManager \<Rightarrow> action list \<Rightarrow> run_outcome option" where
  "run_done wtp out =
     Some (Returned (Inr ()), wtp\<lparr>currentState := CW_ENTER_RUN, subState := CW_WAITING_REQUEST\<rparr>, out)"

text \<open>The answer is assembled and its packets sent.\<close>

definition send_answer ::
  "run_env \<Rightarrow> CWWTPManager \<Rightarrow> (CWErrorCode + cw_msg list) option \<Rightarrow> run_outcome option" where
  "send_answer env wtp assembled = do {
     r \<leftarrow> assembled;
     (case r of
        Inl e \<Rightarrow> Some (Returned (Inl e), wtp, [])
      | Inr ps \<Rightarrow> do {
          (failed, out) \<leftarrow> send_packets (env_send env) ps;
          (case failed of
             Some e \<Rightarrow> Some (Returned (Inl e), wtp, out)
           | None \<Rightarrow> run_done wtp out)
        })
   }"

definition run_control ::
  "run_env \<Rightarrow> nat \<Rightarrow> bool \<Rightarrow> CWWTPManager \<Rightarrow> CWControlHeaderValues \<Rightarrow> cw_msg \<Rightarrow> run_outcome option" where
  "run_control env WTPIndex timerSet wtp controlVal m =
     (let t = messageTypeValue controlVal;
          len = unat (msgElemsLen controlVal);
          seqValue = ucast (seqNum controlVal)
      in if t = CW_MSG_TYPE_VALUE_CONFIGURE_UPDATE_RESPONSE then
           on_parsed (CWParseConfigurationUpdateResponseMessage (env_alloc env) (env_garbage env) (Some m) len)
             wtp (\<lambda>(resultCode, protocolValues). do {
               wtp \<leftarrow> CWACStopRetransmission wtp;
               after_timer env timerSet wtp (\<lambda>wtp. do {
                 (_, wtp, out) \<leftarrow> CWSaveConfigurationUpdateResponseMessage env WTPIndex resultCode protocolValues wtp;
                 let (wtp, out') = interface_command_done wtp;
                 run_done wtp (out @ out') }) })
         else if t = CW_MSG_TYPE_VALUE_CHANGE_STATE_EVENT_REQUEST then
           on_parsed (CWParseChangeStateEventRequestMessage2 (env_alloc env) (env_garbage env) (Some m) len)
             wtp (\<lambda>values. after_timer env timerSet wtp (\<lambda>wtp.
               (case CWSaveChangeStateEventRequestMessage values (WTPProtocolManager wtp) of
                  (saved, pm) \<Rightarrow>
                    (let wtp = wtp\<lparr>WTPProtocolManager := pm\<rparr>
                     in if \<not> saved then Some (Returned (Inl CW_ERROR_NONE), wtp, [])
                        else send_answer env wtp
                               (CWAssembleChangeStateEventResponse env (pathMTU wtp) seqValue)))))
         else if t = CW_MSG_TYPE_VALUE_ECHO_REQUEST then
           on_parsed (CWParseEchoRequestMessage (Some m) len)
             wtp (\<lambda>_. after_timer env timerSet wtp (\<lambda>wtp.
               send_answer env wtp (CWAssembleEchoResponse env (pathMTU wtp) seqValue)))
         else if t = CW_MSG_TYPE_VALUE_STATION_CONFIGURATION_RESPONSE then
           on_parsed (CWParseStationConfigurationResponseMessage (env_garbage env) (Some m) len)
             wtp (\<lambda>_. do {
               wtp \<leftarrow> CWACStopRetransmission wtp;
               after_timer env timerSet wtp (\<lambda>wtp. run_done wtp []) })
         else if t = CW_MSG_TYPE_VALUE_CLEAR_CONFIGURATION_RESPONSE then
           on_parsed (CWParseClearConfigurationResponseMessage (env_garbage env) (Some m) len)
             wtp (\<lambda>_. do {
               wtp \<leftarrow> CWACStopRetransmission wtp;
               after_timer env timerSet wtp (\<lambda>wtp.
                 let (wtp, out) = interface_command_done wtp in run_done wtp out) })
         else if t = CW_MSG_TYPE_VALUE_DATA_TRANSFER_REQUEST then
           on_parsed (CWParseWTPDataTransferRequestMessage (env_alloc env) (Some m) len)
             wtp (\<lambda>_. after_timer env timerSet wtp (\<lambda>wtp.
               send_answer env wtp (CWAssembleWTPDataTransferResponse env (pathMTU wtp) seqValue)))
         else if t = CW_MSG_TYPE_VALUE_WTP_EVENT_REQUEST then
           on_parsed (CWParseWTPEventRequestMessage (env_alloc env) (Some m) len)
             wtp (\<lambda>values. after_timer env timerSet wtp (\<lambda>wtp. do {
               pm \<leftarrow> CWSaveWTPEventRequestMessage values (WTPProtocolManager wtp);
               let wtp = wtp\<lparr>WTPProtocolManager := pm\<rparr>;
               send_answer env wtp (CWAssembleWTPEventResponse env (pathMTU wtp) seqValue) }))
         else
           after_timer env timerSet wtp (\<lambda>wtp.
             send_answer env wtp
               (CWAssembleUnrecognizedMessageResponse (env_alloc env) (env_fragID env) (pathMTU wtp)
                  seqValue (t + 1) (env_crypt env))))"

definition ACEnterRun ::
  "run_env \<Rightarrow> nat \<Rightarrow> CWWTPManager \<Rightarrow> cw_msg \<Rightarrow> bool \<Rightarrow> run_outcome option" where
  "ACEnterRun env WTPIndex wtp msgPtr dataFlag =
     (let m = msgPtr\<lparr>offset := 0\<rparr>;
          wtp = snd (CWStopNeighborDeadTimer wtp);
          timerSet = False
      in if dataFlag then run_data env WTPIndex wtp m
         else do {
           r \<leftarrow> CWACParseGenericRunMessage wtp (Some m);
           (case r of
              Inl e \<Rightarrow> Some (Returned (Inl e), wtp, [])
            | Inr (controlVal, m) \<Rightarrow> run_control env WTPIndex timerSet wtp controlVal m)
         })"

end
