(* ===== verification/AC_Requests.thy ===== *)
theory AC_Requests
  imports AC_Run
begin

text \<open>
  What the AC does with the requests of a WTP in the Run state: the switches of \<open>ACRunState.c\<close> meet the
  contract of \<open>Messages\<close>, so each parser returns what the elements say; then the saving and the answer.
\<close>

subsection \<open>The elements of the requests\<close>

lemma parse_operational_rbuf [cw_wire]:
  "os_radioID v < 256 \<Longrightarrow> os_TxQueueLevel v < 256 \<Longrightarrow> os_wirelessLinkFramesPerSec v < 65536 \<Longrightarrow>
   n = length (operational_stats_bytes v) \<Longrightarrow>
   CWParseWTPOperationalStatistics (Some (rbuf d pre (operational_stats_bytes v @ rest))) n =
     Some (Inr (v, rbuf d (pre @ operational_stats_bytes v) rest))"
  by (simp add: CWParseWTPOperationalStatistics_def operational_stats_bytes_def byte_bytes_def half_bytes_def
      cw_wire)

lemma parse_radio_statistics_rbuf [cw_wire]:
  "rv_radioID v < 256 \<Longrightarrow> ra_lastFailureType (rv_statistics v) < 256 \<Longrightarrow>
   n = length (radio_stats_bytes v) \<Longrightarrow>
   CWParseWTPRadioStatistics (Some (rbuf d pre (radio_stats_bytes v @ rest))) n =
     Some (Inr (v, rbuf d (pre @ radio_stats_bytes v) rest))"
  by (simp add: CWParseWTPRadioStatistics_def radio_stats_bytes_def byte_bytes_def Let_def cw_wire)

lemma parse_reboot_rbuf [cw_wire]:
  "reboot_fits v \<Longrightarrow> n = length (reboot_bytes v) \<Longrightarrow>
   CWParseWTPRebootStatistics (Some (rbuf d pre (reboot_bytes v @ rest))) n =
     Some (Inr (v, rbuf d (pre @ reboot_bytes v) rest))"
  by (simp add: CWParseWTPRebootStatistics_def reboot_bytes_def reboot_fits_def byte_bytes_def half_bytes_def
      cw_wire)

lemma statistics_lengths [simp]:
  "length (operational_stats_bytes v) = 4"
  "length (radio_stats_bytes w) = 20"
  "length (reboot_bytes r) = 15"
  by (simp_all add: operational_stats_bytes_def radio_stats_bytes_def reboot_bytes_def Let_def)

datatype event_element =
    Operational WTPOperationalStatisticsValues
  | Radio WTPRadioStatisticsValues
  | Reboot WTPRebootStatisticsInfo

primrec event_type :: "event_element \<Rightarrow> u16" where
  "event_type (Operational v) = ucast CW_MSG_ELEMENT_WTP_OPERAT_STATISTICS_CW_TYPE"
| "event_type (Radio v) = ucast CW_MSG_ELEMENT_WTP_RADIO_STATISTICS_CW_TYPE"
| "event_type (Reboot v) = ucast CW_MSG_ELEMENT_WTP_REBOOT_STATISTICS_CW_TYPE"

primrec event_body :: "event_element \<Rightarrow> u8 list" where
  "event_body (Operational v) = operational_stats_bytes v"
| "event_body (Radio v) = radio_stats_bytes v"
| "event_body (Reboot v) = reboot_bytes v"

primrec event_ok :: "event_element \<Rightarrow> bool" where
  "event_ok (Operational v) \<longleftrightarrow>
     os_radioID v < 256 \<and> os_TxQueueLevel v < 256 \<and> os_wirelessLinkFramesPerSec v < 65536"
| "event_ok (Radio v) \<longleftrightarrow> rv_radioID v < 256 \<and> ra_lastFailureType (rv_statistics v) < 256"
| "event_ok (Reboot v) \<longleftrightarrow> reboot_fits v"

primrec count_event :: "event_element \<Rightarrow> CWProtocolWTPEventRequestValues \<Rightarrow> CWProtocolWTPEventRequestValues" where
  "count_event (Operational v) s = s\<lparr>WTPOperationalStatisticsCount := WTPOperationalStatisticsCount s + 1\<rparr>"
| "count_event (Radio v) s = s\<lparr>WTPRadioStatisticsCount := WTPRadioStatisticsCount s + 1\<rparr>"
| "count_event (Reboot v) s = s\<lparr>WTPRebootStatistics := Some v\<rparr>"

primrec fill_event :: "event_element \<Rightarrow> CWProtocolWTPEventRequestValues \<Rightarrow> CWProtocolWTPEventRequestValues" where
  "fill_event (Operational v) s = s\<lparr>WTPOperationalStatistics := WTPOperationalStatistics s @ [v]\<rparr>"
| "fill_event (Radio v) s = s\<lparr>WTPRadioStatistics := WTPRadioStatistics s @ [v]\<rparr>"
| "fill_event (Reboot v) s = s"

text \<open>What the elements of a message say: the statistics in order, the last reboot statistics.\<close>

fun operationals :: "event_element list \<Rightarrow> WTPOperationalStatisticsValues list" where
  "operationals (Operational v # es) = v # operationals es"
| "operationals (_ # es) = operationals es"
| "operationals [] = []"

fun radio_statistics :: "event_element list \<Rightarrow> WTPRadioStatisticsValues list" where
  "radio_statistics (Radio v # es) = v # radio_statistics es"
| "radio_statistics (_ # es) = radio_statistics es"
| "radio_statistics [] = []"

fun last_reboot :: "WTPRebootStatisticsInfo option \<Rightarrow> event_element list \<Rightarrow> WTPRebootStatisticsInfo option" where
  "last_reboot r (Reboot v # es) = last_reboot (Some v) es"
| "last_reboot r (_ # es) = last_reboot r es"
| "last_reboot r [] = r"

definition event_values :: "event_element list \<Rightarrow> CWProtocolWTPEventRequestValues" where
  "event_values es = no_events\<lparr>
     WTPOperationalStatisticsCount := length (operationals es),
     WTPOperationalStatistics := operationals es,
     WTPRadioStatisticsCount := length (radio_statistics es),
     WTPRadioStatistics := radio_statistics es,
     WTPRebootStatistics := last_reboot None es\<rparr>"

lemmas element_types =
  CW_MSG_ELEMENT_WTP_OPERAT_STATISTICS_CW_TYPE_def CW_MSG_ELEMENT_WTP_RADIO_STATISTICS_CW_TYPE_def
  CW_MSG_ELEMENT_WTP_REBOOT_STATISTICS_CW_TYPE_def CW_MSG_ELEMENT_CW_DECRYPT_ER_REPORT_CW_TYPE_def
  CW_MSG_ELEMENT_DUPLICATE_IPV4_ADDRESS_CW_TYPE_def CW_MSG_ELEMENT_DUPLICATE_IPV6_ADDRESS_CW_TYPE_def
  CW_MSG_ELEMENT_RADIO_OPERAT_STATE_CW_TYPE_def CW_MSG_ELEMENT_RESULT_CODE_CW_TYPE_def
  CW_MSG_ELEMENT_RESULT_CODE_CW_TYPE_WITH_PAYLOAD_def CW_MSG_ELEMENT_DATA_TRANSFER_DATA_CW_TYPE_def

text \<open>The first pass refuses what it does not know; the second relies on the counts of the first.\<close>

interpretation event_pass: strict_switch "event_switch plenty" event_type event_body event_ok count_event
  "\<lambda>_ _. True" "{t. ucast t \<in> {CW_MSG_ELEMENT_CW_DECRYPT_ER_REPORT_CW_TYPE,
     CW_MSG_ELEMENT_DUPLICATE_IPV4_ADDRESS_CW_TYPE, CW_MSG_ELEMENT_DUPLICATE_IPV6_ADDRESS_CW_TYPE,
     CW_MSG_ELEMENT_WTP_OPERAT_STATISTICS_CW_TYPE, CW_MSG_ELEMENT_WTP_RADIO_STATISTICS_CW_TYPE,
     CW_MSG_ELEMENT_WTP_REBOOT_STATISTICS_CW_TYPE}}"
proof
  show "event_ok e \<Longrightarrow> event_switch plenty (event_type e) (length (event_body e)) s
      (rbuf d pre (event_body e @ rest)) = Some (Inr (count_event e s, rbuf d (pre @ event_body e) rest))"
    for e s d pre rest
    using skip_element_rbuf [of "event_body e" "count_event e s" d pre rest]
    by (cases e) (simp_all add: event_switch_def element_types cw_wire)
  show "event_ok e \<Longrightarrow> length (event_body e) < 65536" for e by (cases e) simp_all
qed (auto simp: event_switch_def)

definition event_room :: "event_element list \<Rightarrow> CWProtocolWTPEventRequestValues \<Rightarrow> bool" where
  "event_room es s \<longleftrightarrow>
     length (WTPOperationalStatistics s) + length (operationals es) \<le> WTPOperationalStatisticsCount s \<and>
     length (WTPRadioStatistics s) + length (radio_statistics es) \<le> WTPRadioStatisticsCount s"

interpretation event_fill: element_switch statistics_switch event_type event_body event_ok fill_event
  event_room
proof
  show "event_ok e \<Longrightarrow> event_room (e # es) s \<Longrightarrow> statistics_switch (event_type e) (length (event_body e)) s
      (rbuf d pre (event_body e @ rest)) = Some (Inr (fill_event e s, rbuf d (pre @ event_body e) rest))"
    for e es s d pre rest
    using skip_element_rbuf [of "event_body e" "fill_event e s" d pre rest]
    by (cases e) (simp_all add: statistics_switch_def element_types cw_wire event_room_def)
  show "event_ok e \<Longrightarrow> event_room (e # es) s \<Longrightarrow> event_room es (fill_event e s)" for e es s
    by (cases e) (simp_all add: event_room_def)
qed (rule event_pass.short)

lemma fold_count_event:
  "fold count_event es s = s\<lparr>
     WTPOperationalStatisticsCount := WTPOperationalStatisticsCount s + length (operationals es),
     WTPRadioStatisticsCount := WTPRadioStatisticsCount s + length (radio_statistics es),
     WTPRebootStatistics := last_reboot (WTPRebootStatistics s) es\<rparr>"
proof (induction es arbitrary: s)
  case (Cons e es)
  then show ?case by (cases e) simp_all
qed simp

lemma fold_fill_event:
  "fold fill_event es s = s\<lparr>
     WTPOperationalStatistics := WTPOperationalStatistics s @ operationals es,
     WTPRadioStatistics := WTPRadioStatistics s @ radio_statistics es\<rparr>"
proof (induction es arbitrary: s)
  case (Cons e es)
  then show ?case by (cases e) simp_all
qed simp

lemma rbuf_rewind: "n = length pre \<Longrightarrow> (rbuf d (pre @ bs) rest)\<lparr>offset := n\<rparr> = rbuf d pre (bs @ rest)"
  using rbuf_back by simp

lemma parse_event_request:
  assumes "\<forall>e \<in> set es. event_ok e"
  shows "CWParseWTPEventRequestMessage plenty
      (Some (rbuf d pre (stream event_type event_body es @ rest))) (length (stream event_type event_body es)) =
    Some (Inr (event_values es, rbuf d (pre @ stream event_type event_body es) rest))"
proof -
  let ?s = "fold count_event es no_events"
  have "event_room es ?s" by (simp add: event_room_def fold_count_event no_events_def)
  from event_fill.loop_reads [OF assms this, where pre = pre and d = d and rest = rest, OF refl]
  have "element_loop statistics_switch (int (length pre + length (stream event_type event_body es))) ?s
      (rbuf d pre (stream event_type event_body es @ rest)) =
    Some (Inr (event_values es, rbuf d (pre @ stream event_type event_body es) rest))"
    by (simp add: fold_count_event fold_fill_event event_values_def no_events_def)
  then show ?thesis
    using event_pass.parses [OF assms TrueI, of no_events d pre rest]
    by (simp add: CWParseWTPEventRequestMessage_def rbuf_rewind)
qed

subsection \<open>What saving leaves\<close>

text \<open>
  The reference: a radio gets the last report with its identifier. Radio statistics are matched by the
  identifier of the operational statistics at the same place in the message.
\<close>

definition report_operational ::
  "WTPOperationalStatisticsValues list \<Rightarrow> CWWTPRadioInfoValues \<Rightarrow> CWWTPRadioInfoValues" where
  "report_operational vs r =
     (case find (\<lambda>v. os_radioID v = radioID r) (rev vs) of
        None \<Rightarrow> r
      | Some v \<Rightarrow> r\<lparr>TxQueueLevel := os_TxQueueLevel v,
                     wirelessLinkFramesPerSec := os_wirelessLinkFramesPerSec v\<rparr>)"

definition report_radio ::
  "(WTPOperationalStatisticsValues \<times> WTPRadioStatisticsValues) list \<Rightarrow> CWWTPRadioInfoValues \<Rightarrow>
     CWWTPRadioInfoValues" where
  "report_radio ps r =
     (case find (\<lambda>p. os_radioID (fst p) = radioID r) (rev ps) of
        None \<Rightarrow> r
      | Some p \<Rightarrow> r\<lparr>statistics := rv_statistics (snd p)\<rparr>)"

definition report :: "event_element list \<Rightarrow> CWWTPRadioInfoValues \<Rightarrow> CWWTPRadioInfoValues" where
  "report es r = report_radio (zip (operationals es) (radio_statistics es))
     (report_operational (operationals es) r)"

lemma fold_save_operational: "fold save_operational vs rs = map (report_operational vs) rs"
proof (induction vs rule: rev_induct)
  case Nil
  then show ?case by (simp add: report_operational_def)
next
  case (snoc v vs)
  then show ?case
    by (auto simp: save_operational_def report_operational_def split: option.split)
qed

lemma save_radio_statistics_reports:
  "i + length vs \<le> length ops \<Longrightarrow> save_radio_statistics vs i ops (map (report_radio ps) rs) =
     Some (map (report_radio (ps @ zip (drop i ops) vs)) rs)"
proof (induction vs arbitrary: i ps)
  case (Cons v vs)
  then have ops: "drop i ops = ops ! i # drop (i + 1) ops" by (simp add: Cons_nth_drop_Suc)
  have step: "map (\<lambda>r. if radioID r = os_radioID (ops ! i) then r\<lparr>statistics := rv_statistics v\<rparr> else r)
      (map (report_radio ps) rs) = map (report_radio (ps @ [(ops ! i, v)])) rs"
    by (auto simp: report_radio_def split: option.split)
  show ?case
  proof (cases "rs = []")
    case True
    then show ?thesis using Cons by simp
  next
    case False
    then have "save_radio_statistics (v # vs) i ops (map (report_radio ps) rs) =
        save_radio_statistics vs (i + 1) ops (map (report_radio (ps @ [(ops ! i, v)])) rs)"
      unfolding step [symmetric] using Cons.prems by simp
    also have "\<dots> = Some (map (report_radio ((ps @ [(ops ! i, v)]) @ zip (drop (i + 1) ops) vs)) rs)"
      by (rule Cons.IH) (use Cons.prems in simp)
    finally show ?thesis by (simp add: ops)
  qed
qed simp

lemma save_radio_statistics_overrun:
  "length ops < i + length vs \<Longrightarrow> i \<le> length ops \<Longrightarrow> rs \<noteq> [] \<Longrightarrow>
   save_radio_statistics vs i ops rs = None"
proof (induction vs arbitrary: i rs)
  case (Cons v vs)
  then show ?case by (cases "i < length ops") (simp_all add: Cons.IH)
qed simp

definition saved_events :: "event_element list \<Rightarrow> CWWTPProtocolManager \<Rightarrow> CWWTPProtocolManager" where
  "saved_events es pm = pm\<lparr>pm_radiosInfo := map (report es) (pm_radiosInfo pm),
     pm_WTPRebootStatistics := last_reboot (pm_WTPRebootStatistics pm) es\<rparr>"

lemma last_reboot_None: "last_reboot r es = (case last_reboot None es of None \<Rightarrow> r | Some v \<Rightarrow> Some v)"
proof (induction es arbitrary: r)
  case (Cons e es)
  have "last_reboot (Some v) es = (case last_reboot (Some v) es of None \<Rightarrow> r | Some v \<Rightarrow> Some v)" for v
    using Cons.IH [of "Some v"] by (cases "last_reboot None es") simp_all
  with Cons.IH [of r] show ?case by (cases e) simp_all
qed simp

lemma save_event_request:
  assumes "length (radio_statistics es) \<le> length (operationals es)"
  shows "CWSaveWTPEventRequestMessage (event_values es) pm = Some (saved_events es pm)"
proof -
  let ?rs = "map (report_operational (operationals es)) (pm_radiosInfo pm)"
  have [simp]: "report_radio [] = id" by (auto simp: report_radio_def)
  have "save_radio_statistics (radio_statistics es) 0 (operationals es) ?rs = Some (map (report es) (pm_radiosInfo pm))"
    using save_radio_statistics_reports [of 0 "radio_statistics es" "operationals es" "[]" ?rs] assms
    by (simp add: report_def comp_def)
  then show ?thesis
    using last_reboot_None [of "pm_WTPRebootStatistics pm" es]
    by (cases "last_reboot None es")
      (simp_all add: CWSaveWTPEventRequestMessage_def event_values_def no_events_def fold_save_operational
        saved_events_def)
qed

subsection \<open>A request and its answer\<close>

text \<open>Nothing outside fails: memory, timers and the network.\<close>

definition nothing_fails :: "run_env \<Rightarrow> bool" where
  "nothing_fails env \<longleftrightarrow> env_alloc env = plenty \<and> (\<forall>p. env_send env p = None) \<and>
     (\<forall>n. env_timer env n) \<and> env_fragID env < 65536"

text \<open>The session as the handler leaves it after a control message: the timer runs, the next is awaited.\<close>

definition awaiting :: "run_env \<Rightarrow> CWWTPManager \<Rightarrow> CWWTPManager" where
  "awaiting env wtp = wtp\<lparr>currentTimer := Some (gCWNeighborDeadInterval env),
     currentState := CW_ENTER_RUN, subState := CW_WAITING_REQUEST\<rparr>"

definition answers :: "run_outcome option \<Rightarrow> CWWTPManager \<Rightarrow> u8 list \<Rightarrow> bool" where
  "answers outcome wtp' B \<longleftrightarrow>
     (\<exists>ps. outcome = Some (Returned (Inr ()), wtp', map Sent ps) \<and> delivers ps B)"

lemma send_packets_all:
  "\<forall>p. send p = None \<Longrightarrow> \<forall>m \<in> set ms. msg_fits m \<Longrightarrow>
   send_packets send ms = Some (None, map (\<lambda>m. Sent (contents m)) ms)"
  by (induction ms) simp_all

lemma CWAssembleMessage_NULL:
  "CWAssembleMessage alloc fragID PMTU seq type None 0 x n crypt =
   CWAssembleMessage alloc fragID PMTU seq type (Some []) 0 x n crypt"
  "CWAssembleMessage alloc fragID PMTU seq type y k None 0 crypt =
   CWAssembleMessage alloc fragID PMTU seq type y k (Some []) 0 crypt"
  by (simp_all add: CWAssembleMessage_def array_prefix_def)

lemma send_answer_answers:
  assumes "nothing_fails env" and "\<forall>m \<in> set es. msg_fits m" and "length (message_bytes seq type es) \<le> 65536"
  shows "answers (send_answer env wtp
      (CWAssembleMessage plenty (env_fragID env) PMTU seq type (Some es) (length es) (Some []) 0 crypt))
    (wtp\<lparr>currentState := CW_ENTER_RUN, subState := CW_WAITING_REQUEST\<rparr>) (message_bytes seq type es)"
proof -
  from assms(1) have "env_fragID env < 65536" and ok: "\<forall>p. env_send env p = None"
    by (simp_all add: nothing_fails_def)
  from message_delivered [OF assms(2) this(1) assms(3), of PMTU crypt] obtain ps where
    "CWAssembleMessage plenty (env_fragID env) PMTU seq type (Some es) (length es) (Some []) 0 crypt =
      Some (Inr ps)" "\<forall>p \<in> set ps. msg_fits p" "delivers (map contents ps) (message_bytes seq type es)"
    by blast
  then show ?thesis
    by (simp add: send_answer_def answers_def run_done_def send_packets_all [OF ok])
      (intro exI [of _ "map contents ps"], simp)
qed

lemma empty_answer:
  assumes "nothing_fails env"
  shows "answers (send_answer env wtp (assemble_empty plenty (env_fragID env) PMTU seq type crypt))
    (wtp\<lparr>currentState := CW_ENTER_RUN, subState := CW_WAITING_REQUEST\<rparr>) (message_bytes seq type [])"
  using send_answer_answers [OF assms, of "[]"]
  by (simp add: assemble_empty_def CWAssembleMessage_NULL message_bytes_def)

lemma timer_armed [simp]:
  "nothing_fails env \<Longrightarrow>
   after_timer env False wtp rest = rest (wtp\<lparr>currentTimer := Some (gCWNeighborDeadInterval env)\<rparr>)"
  by (simp add: after_timer_def CWStartNeighborDeadTimer_def nothing_fails_def)

lemma on_parsed_simps [simp]:
  "on_parsed (Some (Inl e)) wtp rest = Some (Returned (Inl e), wtp, [])"
  "on_parsed (Some (Inr (v, m))) wtp rest = rest v"
  by (simp_all add: on_parsed_def)

text \<open>The sequence number comes back through its byte of the header.\<close>

lemma message_bytes_seq [simp]:
  "message_bytes (ucast (ucast seq :: u8)) type es = message_bytes seq type es"
proof -
  have "ucast (ucast (ucast seq :: u8) :: u32) = (ucast seq :: u8)" by (rule bit_word_eqI) (auto simp: bit_simps)
  then show ?thesis by (simp add: message_bytes_def)
qed

lemma awaiting_manager:
  "(awaiting env wtp)\<lparr>WTPProtocolManager := pm\<rparr> =
   wtp\<lparr>currentTimer := Some (gCWNeighborDeadInterval env), WTPProtocolManager := pm,
       currentState := CW_ENTER_RUN, subState := CW_WAITING_REQUEST\<rparr>"
  by (simp add: awaiting_def)

text \<open>A control message with the elements \<open>es\<close>.\<close>

definition control_message ::
  "u32 \<Rightarrow> u32 \<Rightarrow> ('e \<Rightarrow> u16) \<Rightarrow> ('e \<Rightarrow> u8 list) \<Rightarrow> 'e list \<Rightarrow> u8 list" where
  "control_message seq type ty body es = message_bytes seq type (map (\<lambda>e. elem_msg (ty e) (body e)) es)"

lemma control_message_eq:
  "control_message seq type ty body es = control_bytes \<lparr>messageTypeValue = type, seqNum = ucast seq,
     msgElemsLen = of_nat (length (stream ty body es))\<rparr> @ stream ty body es"
  by (simp add: control_message_def message_bytes_def stream_def comp_def Let_def)

lemma run_receives:
  assumes "msg m = control_message seq type ty body es" and "type mod 2 = 1"
    and "length (stream ty body es) < 65536"
  shows "ACEnterRun env i wtp m False = run_control env i False (wtp\<lparr>currentTimer := None\<rparr>)
    \<lparr>messageTypeValue = type, seqNum = ucast seq, msgElemsLen = of_nat (length (stream ty body es))\<rparr>
    (rbuf (data_msgType m) (take 8 (msg m)) (stream ty body es))"
proof -
  let ?v = "\<lparr>messageTypeValue = type, seqNum = ucast seq, msgElemsLen = of_nat (length (stream ty body es))\<rparr>"
  have m: "m\<lparr>offset := 0\<rparr> = rbuf (data_msgType m) [] (control_bytes ?v @ stream ty body es)"
    using assms(1) by (simp add: rbuf_def control_message_eq)
  have "CWParseControlHeader (Some (m\<lparr>offset := 0\<rparr>)) = Some (Inr (?v\<lparr>msgElemsLen := 3 + msgElemsLen ?v\<rparr>,
      rbuf (data_msgType m) (take 8 (msg m)) (stream ty body es)))"
    unfolding m CWParseControlHeader_rbuf using assms(1) by (simp add: control_message_eq)
  then show ?thesis
    using assms(2)
    by (simp add: ACEnterRun_def CWACParseGenericRunMessage_def
        CWStopNeighborDeadTimer_def Let_def CW_CONTROL_HEADER_OFFSET_FOR_MSG_ELEMS_def)
qed

subsection \<open>WTP Event Request\<close>

lemmas message_types =
  CW_MSG_TYPE_VALUE_CONFIGURE_UPDATE_RESPONSE_def CW_MSG_TYPE_VALUE_CHANGE_STATE_EVENT_REQUEST_def
  CW_MSG_TYPE_VALUE_ECHO_REQUEST_def CW_MSG_TYPE_VALUE_STATION_CONFIGURATION_RESPONSE_def
  CW_MSG_TYPE_VALUE_CLEAR_CONFIGURATION_RESPONSE_def CW_MSG_TYPE_VALUE_DATA_TRANSFER_REQUEST_def
  CW_MSG_TYPE_VALUE_WTP_EVENT_REQUEST_def

lemma run_event_request:
  assumes "nothing_fails env" and "\<forall>e \<in> set es. event_ok e"
    and "length (stream event_type event_body es) < 65536"
    and "msg m = control_message seq CW_MSG_TYPE_VALUE_WTP_EVENT_REQUEST event_type event_body es"
  shows "ACEnterRun env i wtp m False = do {
    pm \<leftarrow> CWSaveWTPEventRequestMessage (event_values es) (WTPProtocolManager wtp);
    send_answer env (wtp\<lparr>currentTimer := Some (gCWNeighborDeadInterval env), WTPProtocolManager := pm\<rparr>)
      (CWAssembleWTPEventResponse env (pathMTU wtp) (ucast (ucast seq :: u8))) }"
proof -
  have odd: "CW_MSG_TYPE_VALUE_WTP_EVENT_REQUEST mod 2 = 1" by (simp add: message_types)
  have alloc: "env_alloc env = plenty" using assms(1) by (simp add: nothing_fails_def)
  show ?thesis
    unfolding run_receives [OF assms(4) odd assms(3)]
    using parse_event_request [OF assms(2), of "data_msgType m" "take 8 (msg m)" "[]"] assms(1,3)
    by (simp add: run_control_def message_types unat_of_nat16 alloc)
qed


definition sample_reboot :: WTPRebootStatisticsInfo where
  "sample_reboot = \<lparr>rs_rebootCount = 3, rs_ACInitiatedCount = 1, rs_linkFailurerCount = 0,
     rs_SWFailureCount = 1, rs_HWFailuireCount = 0, rs_otherFailureCount = 0, rs_unknownFailureCount = 1,
     rs_lastFailureType = 2\<rparr>"

definition sample_events :: "event_element list" where
  "sample_events =
     [Operational \<lparr>os_radioID = 3, os_TxQueueLevel = 5, os_wirelessLinkFramesPerSec = 300\<rparr>,
      Reboot sample_reboot,
      Radio \<lparr>rv_radioID = 3, rv_statistics = (statistics sample_radio)\<lparr>ra_lastFailureType := 1\<rparr>\<rparr>]"

definition received :: "u8 list \<Rightarrow> cw_msg" where
  "received bs = \<lparr>msg = bs, offset = length bs, data_msgType = None\<rparr>"

lemma received_sel [simp]: "msg (received bs) = bs" "data_msgType (received bs) = None"
  by (simp_all add: received_def)

lemma sample_env_quiet [simp]: "nothing_fails sample_env"
  by (simp add: nothing_fails_def sample_env_def)


text \<open>
  Radio statistics without operational statistics are read past the end of an array: when a WTP the AC
  knows radios of sends more radio statistics than operational statistics, \<open>CWSaveWTPEventRequestMessage\<close>
  takes the identifier of the radio from an entry of the operational statistics that does not exist.
\<close>

theorem radio_statistics_alone_overrun:
  assumes "nothing_fails env" and "\<forall>e \<in> set es. event_ok e"
    and "length (stream event_type event_body es) < 65536"
    and "msg m = control_message seq CW_MSG_TYPE_VALUE_WTP_EVENT_REQUEST event_type event_body es"
    and "length (operationals es) < length (radio_statistics es)"
    and "pm_radiosInfo (WTPProtocolManager wtp) \<noteq> []"
  shows "ACEnterRun env i wtp m False = None"
proof -
  have "save_radio_statistics (radio_statistics es) 0 (operationals es)
      (map (report_operational (operationals es)) (pm_radiosInfo (WTPProtocolManager wtp))) = None"
    by (rule save_radio_statistics_overrun) (use assms(5,6) in simp_all)
  then show ?thesis
    unfolding run_event_request [OF assms(1-4)]
    by (cases "last_reboot None es") (simp_all add: CWSaveWTPEventRequestMessage_def event_values_def
        no_events_def fold_save_operational)
qed

lemma radio_statistics_alone_overrun_witness:
  "ACEnterRun sample_env 0 sample_session (received (control_message 9
     CW_MSG_TYPE_VALUE_WTP_EVENT_REQUEST event_type event_body (drop 1 sample_events))) False = None"
  by (rule radio_statistics_alone_overrun [where es = "drop 1 sample_events"])
    (simp_all add: sample_events_def reboot_fits_def sample_reboot_def sample_session_def sample_radio_def)

subsection \<open>Change State Event Request\<close>

datatype state_element =
    Radio_state CWRadioOperationalInfoValues
  | Result u32

primrec state_type :: "state_element \<Rightarrow> u16" where
  "state_type (Radio_state v) = ucast CW_MSG_ELEMENT_RADIO_OPERAT_STATE_CW_TYPE"
| "state_type (Result c) = ucast CW_MSG_ELEMENT_RESULT_CODE_CW_TYPE"

primrec state_body :: "state_element \<Rightarrow> u8 list" where
  "state_body (Radio_state v) = byte_bytes (oi_ID v) @ byte_bytes (oi_state v) @ byte_bytes (oi_cause v)"
| "state_body (Result c) = be32 c"

primrec state_ok :: "state_element \<Rightarrow> bool" where
  "state_ok (Radio_state v) \<longleftrightarrow> oi_ID v < 256 \<and> oi_state v < 256 \<and> oi_cause v < 256"
| "state_ok (Result c) \<longleftrightarrow> True"

primrec count_state ::
  "state_element \<Rightarrow> CWProtocolChangeStateEventRequestValues \<Rightarrow> CWProtocolChangeStateEventRequestValues" where
  "count_state (Radio_state v) s = s\<lparr>cs_radiosCount := cs_radiosCount s + 1\<rparr>"
| "count_state (Result c) s = s\<lparr>cs_resultCode := c\<rparr>"

primrec fill_state ::
  "state_element \<Rightarrow> CWProtocolChangeStateEventRequestValues \<Rightarrow> CWProtocolChangeStateEventRequestValues" where
  "fill_state (Radio_state v) s = s\<lparr>cs_radios := cs_radios s @ [v]\<rparr>"
| "fill_state (Result c) s = s"

fun radio_states :: "state_element list \<Rightarrow> CWRadioOperationalInfoValues list" where
  "radio_states (Radio_state v # es) = v # radio_states es"
| "radio_states (Result c # es) = radio_states es"
| "radio_states [] = []"

fun last_result :: "u32 \<Rightarrow> state_element list \<Rightarrow> u32" where
  "last_result r (Result c # es) = last_result c es"
| "last_result r (Radio_state v # es) = last_result r es"
| "last_result r [] = r"

definition state_values :: "u32 \<Rightarrow> state_element list \<Rightarrow> CWProtocolChangeStateEventRequestValues" where
  "state_values garbage es = \<lparr>cs_radiosCount = length (radio_states es), cs_radios = radio_states es,
     cs_resultCode = last_result garbage es\<rparr>"

interpretation state_pass: strict_switch change_state_switch state_type state_body state_ok count_state
  "\<lambda>_ _. True" "{t. ucast t \<in> {CW_MSG_ELEMENT_RADIO_OPERAT_STATE_CW_TYPE, CW_MSG_ELEMENT_RESULT_CODE_CW_TYPE}}"
proof
  show "state_ok e \<Longrightarrow> change_state_switch (state_type e) (length (state_body e)) s
      (rbuf d pre (state_body e @ rest)) = Some (Inr (count_state e s, rbuf d (pre @ state_body e) rest))"
    for e s d pre rest
    using skip_element_rbuf [of "state_body e" "count_state e s" d pre rest]
    by (cases e) (simp_all add: change_state_switch_def element_types cw_wire CWParseResultCode_def)
  show "state_ok e \<Longrightarrow> length (state_body e) < 65536" for e by (cases e) simp_all
qed (auto simp: change_state_switch_def)

interpretation state_fill: element_switch radios_switch state_type state_body state_ok fill_state
  "\<lambda>es s. length (cs_radios s) + length (radio_states es) \<le> cs_radiosCount s"
proof
  show "state_ok e \<Longrightarrow> length (cs_radios s) + length (radio_states (e # es)) \<le> cs_radiosCount s \<Longrightarrow>
      radios_switch (state_type e) (length (state_body e)) s
      (rbuf d pre (state_body e @ rest)) = Some (Inr (fill_state e s, rbuf d (pre @ state_body e) rest))"
    for e es s d pre rest
    using skip_element_rbuf [of "state_body e" "fill_state e s" d pre rest]
    by (cases e) (simp_all add: radios_switch_def element_types cw_wire CWParseWTPRadioOperationalState_def
        byte_bytes_def)
  show "state_ok e \<Longrightarrow> length (cs_radios s) + length (radio_states (e # es)) \<le> cs_radiosCount s \<Longrightarrow>
      length (cs_radios (fill_state e s)) + length (radio_states es) \<le> cs_radiosCount (fill_state e s)"
    for e es s
    by (cases e) simp_all
qed (rule state_pass.short)

lemma fold_count_state:
  "fold count_state es s = s\<lparr>cs_radiosCount := cs_radiosCount s + length (radio_states es),
     cs_resultCode := last_result (cs_resultCode s) es\<rparr>"
proof (induction es arbitrary: s)
  case (Cons e es)
  then show ?case by (cases e) simp_all
qed simp

lemma fold_fill_state: "fold fill_state es s = s\<lparr>cs_radios := cs_radios s @ radio_states es\<rparr>"
proof (induction es arbitrary: s)
  case (Cons e es)
  then show ?case by (cases e) simp_all
qed simp

lemma parse_change_state:
  assumes "\<forall>e \<in> set es. state_ok e"
  shows "CWParseChangeStateEventRequestMessage2 plenty garbage
      (Some (rbuf d pre (stream state_type state_body es @ rest))) (length (stream state_type state_body es)) =
    Some (Inr (state_values garbage es, rbuf d (pre @ stream state_type state_body es) rest))"
proof -
  let ?start = "\<lparr>cs_radiosCount = 0, cs_radios = [], cs_resultCode = garbage\<rparr>"
  let ?s = "fold count_state es ?start"
  have "length (cs_radios ?s) + length (radio_states es) \<le> cs_radiosCount ?s" by (simp add: fold_count_state)
  from state_fill.loop_reads [OF assms this, where pre = pre and d = d and rest = rest, OF refl]
  have "element_loop radios_switch (int (length pre + length (stream state_type state_body es))) ?s
      (rbuf d pre (stream state_type state_body es @ rest)) =
    Some (Inr (state_values garbage es, rbuf d (pre @ stream state_type state_body es) rest))"
    by (simp add: fold_count_state fold_fill_state state_values_def)
  then show ?thesis
    using state_pass.parses [OF assms TrueI, of ?start d pre rest]
    by (simp add: CWParseChangeStateEventRequestMessage2_def rbuf_rewind)
qed

text \<open>Saving gives every radio the last state reported with its identifier, and holds a report good only if it is for the first radio.\<close>

definition report_state :: "CWRadioOperationalInfoValues list \<Rightarrow> CWWTPRadioInfoValues \<Rightarrow> CWWTPRadioInfoValues" where
  "report_state vs r =
     (case find (\<lambda>v. oi_ID v = radioID r) (rev vs) of
        None \<Rightarrow> r
      | Some v \<Rightarrow> r\<lparr>operationalState := oi_state v, operationalCause := oi_cause v\<rparr>)"

definition saved_states :: "state_element list \<Rightarrow> CWWTPProtocolManager \<Rightarrow> CWWTPProtocolManager" where
  "saved_states es pm = pm\<lparr>pm_radiosInfo := map (report_state (radio_states es)) (pm_radiosInfo pm)\<rparr>"

definition first_radio_reported :: "CWWTPRadioInfoValues list \<Rightarrow> CWRadioOperationalInfoValues list \<Rightarrow> bool" where
  "first_radio_reported rs vs \<longleftrightarrow> (\<forall>v \<in> set vs. rs = [] \<or> oi_ID v = radioID (hd rs))"

lemma save_radio_state_result:
  "save_radio_state v found ret rs = (ret \<and> (rs = [] \<or> found \<or> oi_ID v = radioID (hd rs)),
     map (\<lambda>r. if radioID r = oi_ID v
              then r\<lparr>operationalState := oi_state v, operationalCause := oi_cause v\<rparr> else r) rs)"
proof (induction rs arbitrary: found ret)
  case (Cons r rs)
  then show ?case by (auto simp: Let_def)
qed simp

lemma save_radio_states_result:
  "save_radio_states vs ret (map (report_state us) rs) =
     (ret \<and> first_radio_reported rs vs, map (report_state (us @ vs)) rs)"
proof (induction vs arbitrary: us ret)
  case Nil
  then show ?case by (simp add: first_radio_reported_def)
next
  case (Cons v vs)
  have [simp]: "radioID (report_state us r) = radioID r" for r
    by (simp add: report_state_def split: option.split)
  have step: "map (\<lambda>r. if radioID r = oi_ID v
        then r\<lparr>operationalState := oi_state v, operationalCause := oi_cause v\<rparr> else r) (map (report_state us) rs) =
      map (report_state (us @ [v])) rs"
    by (auto simp: report_state_def split: option.split)
  show ?case
    unfolding save_radio_states.simps save_radio_state_result step prod.case
    using Cons.IH [of ret "[]"] by (cases "rs = []") (simp_all add: Cons.IH first_radio_reported_def hd_map)
qed

lemma save_change_state:
  "CWSaveChangeStateEventRequestMessage (state_values garbage es) pm =
     (first_radio_reported (pm_radiosInfo pm) (radio_states es),
      saved_states es pm)"
proof -
  have [simp]: "report_state [] = id" by (auto simp: report_state_def)
  show ?thesis
    using save_radio_states_result [of "radio_states es" True "[]" "pm_radiosInfo pm"]
    by (simp add: CWSaveChangeStateEventRequestMessage_def state_values_def saved_states_def)
qed

text \<open>
  A Change State Event Request is answered only when all its reports are for the first radio. When
  nothing outside fails and the elements are in range, the states are saved (every radio gets the last
  report with its identifier) and the NeighborDead timer is armed; the Change State Event Response is sent
  exactly if the AC knows no radio of the WTP or every report carries the identifier of the first one.
  Otherwise \<open>ACEnterRun\<close> returns failure without an answer, although every report may name a known radio.
\<close>

theorem change_state_answered_for_first_radio:
  assumes "nothing_fails env" and "\<forall>e \<in> set es. state_ok e"
    and "length (stream state_type state_body es) < 65536"
    and "msg m = control_message seq CW_MSG_TYPE_VALUE_CHANGE_STATE_EVENT_REQUEST state_type state_body es"
  shows "if first_radio_reported (pm_radiosInfo (WTPProtocolManager wtp)) (radio_states es)
    then answers (ACEnterRun env i wtp m False)
           ((awaiting env wtp)\<lparr>WTPProtocolManager := saved_states es (WTPProtocolManager wtp)\<rparr>)
           (message_bytes seq CW_MSG_TYPE_VALUE_CHANGE_STATE_EVENT_RESPONSE [])
    else ACEnterRun env i wtp m False = Some (Returned (Inl CW_ERROR_NONE),
           wtp\<lparr>currentTimer := Some (gCWNeighborDeadInterval env),
               WTPProtocolManager := saved_states es (WTPProtocolManager wtp)\<rparr>, [])"
proof -
  have odd: "CW_MSG_TYPE_VALUE_CHANGE_STATE_EVENT_REQUEST mod 2 = 1" by (simp add: message_types)
  have alloc: "env_alloc env = plenty" using assms(1) by (simp add: nothing_fails_def)
  show ?thesis
    unfolding run_receives [OF assms(4) odd assms(3)]
    using parse_change_state [OF assms(2), of "env_garbage env" "data_msgType m" "take 8 (msg m)" "[]"] assms(1,3)
      empty_answer [OF assms(1), of "wtp\<lparr>currentTimer := Some (gCWNeighborDeadInterval env),
        WTPProtocolManager := saved_states es (WTPProtocolManager wtp)\<rparr>" "pathMTU wtp" "ucast (ucast seq :: u8)"
        CW_MSG_TYPE_VALUE_CHANGE_STATE_EVENT_RESPONSE "env_crypt env"]
    by (simp add: run_control_def message_types unat_of_nat16 alloc save_change_state
        CWAssembleChangeStateEventResponse_def awaiting_manager)
qed

definition two_radios :: CWWTPManager where
  "two_radios = sample_session\<lparr>WTPProtocolManager := (WTPProtocolManager sample_session)\<lparr>pm_radiosInfo :=
     [sample_radio, sample_radio\<lparr>radioID := 4\<rparr>]\<rparr>\<rparr>"

lemma change_state_answered_for_first_radio_witness:
  "answers (ACEnterRun sample_env 0 two_radios (received (control_message 9
       CW_MSG_TYPE_VALUE_CHANGE_STATE_EVENT_REQUEST state_type state_body
       [Radio_state \<lparr>oi_ID = 3, oi_state = 2, oi_cause = 0\<rparr>, Result 0])) False)
     ((awaiting sample_env two_radios)\<lparr>WTPProtocolManager :=
        saved_states [Radio_state \<lparr>oi_ID = 3, oi_state = 2, oi_cause = 0\<rparr>, Result 0]
          (WTPProtocolManager two_radios)\<rparr>)
     (message_bytes 9 CW_MSG_TYPE_VALUE_CHANGE_STATE_EVENT_RESPONSE []) \<and>
   (\<exists>wtp'. ACEnterRun sample_env 0 two_radios (received (control_message 9
       CW_MSG_TYPE_VALUE_CHANGE_STATE_EVENT_REQUEST state_type state_body
       [Radio_state \<lparr>oi_ID = 4, oi_state = 2, oi_cause = 0\<rparr>, Result 0])) False =
     Some (Returned (Inl CW_ERROR_NONE), wtp', []))"
  using change_state_answered_for_first_radio [of sample_env
      "[Radio_state \<lparr>oi_ID = 3, oi_state = 2, oi_cause = 0\<rparr>, Result 0]"
      "received (control_message 9 CW_MSG_TYPE_VALUE_CHANGE_STATE_EVENT_REQUEST state_type state_body
        [Radio_state \<lparr>oi_ID = 3, oi_state = 2, oi_cause = 0\<rparr>, Result 0])" 9 two_radios 0]
    change_state_answered_for_first_radio [of sample_env
      "[Radio_state \<lparr>oi_ID = 4, oi_state = 2, oi_cause = 0\<rparr>, Result 0]"
      "received (control_message 9 CW_MSG_TYPE_VALUE_CHANGE_STATE_EVENT_REQUEST state_type state_body
        [Radio_state \<lparr>oi_ID = 4, oi_state = 2, oi_cause = 0\<rparr>, Result 0])" 9 two_radios 0]
  by (simp add: two_radios_def sample_session_def first_radio_reported_def sample_radio_def)

subsection \<open>The other requests\<close>

lemma run_echo:
  assumes "nothing_fails env"
    and "msg m = control_message seq CW_MSG_TYPE_VALUE_ECHO_REQUEST event_type event_body []"
  shows "answers (ACEnterRun env i wtp m False) (awaiting env wtp)
    (message_bytes seq CW_MSG_TYPE_VALUE_ECHO_RESPONSE [])"
proof -
  have odd: "CW_MSG_TYPE_VALUE_ECHO_REQUEST mod 2 = 1" by (simp add: message_types)
  have alloc: "env_alloc env = plenty" using assms(1) by (simp add: nothing_fails_def)
  show ?thesis
    using run_receives [OF assms(2) odd] assms(1)
      empty_answer [OF assms(1), of "wtp\<lparr>currentTimer := Some (gCWNeighborDeadInterval env)\<rparr>"
        "pathMTU wtp" "ucast (ucast seq :: u8)" CW_MSG_TYPE_VALUE_ECHO_RESPONSE "env_crypt env"]
    by (simp add: run_control_def message_types alloc CWParseEchoRequestMessage_def parse_elements_def
        CWAssembleEchoResponse_def awaiting_def)
qed

lemma elem_msg_fits: "msg_fits (elem_msg t bs)"
  by (simp add: elem_msg_def)

lemma unat_ucast_u8: "v < 256 \<Longrightarrow> unat (ucast (v :: u32) :: u8) = unat v"
  by (simp add: unsigned_ucast_eq take_bit_nat_eq_self word_less_nat_alt)

text \<open>The elements of a Data Transfer Request.\<close>

definition transfer_body :: "CWProtocolWTPDataTransferRequestValues \<Rightarrow> u8 list" where
  "transfer_body v = byte_bytes (dt_data v) @ byte_bytes (dt_length v) @ the (dt_debug_info v)"

definition transfer_ok :: "CWProtocolWTPDataTransferRequestValues \<Rightarrow> bool" where
  "transfer_ok v \<longleftrightarrow> dt_data v < 256 \<and> dt_length v < 256 \<and>
     (\<exists>bs. dt_debug_info v = Some bs \<and> length bs = unat (dt_length v))"

interpretation transfer: strict_switch "data_transfer_switch plenty"
  "\<lambda>_. ucast CW_MSG_ELEMENT_DATA_TRANSFER_DATA_CW_TYPE" transfer_body transfer_ok "\<lambda>v _. Some v" "\<lambda>_ _. True"
  "{t. ucast t = CW_MSG_ELEMENT_DATA_TRANSFER_DATA_CW_TYPE}"
proof
  show "transfer_ok v \<Longrightarrow> data_transfer_switch plenty (ucast CW_MSG_ELEMENT_DATA_TRANSFER_DATA_CW_TYPE)
      (length (transfer_body v)) s (rbuf d pre (transfer_body v @ rest)) =
      Some (Inr (Some v, rbuf d (pre @ transfer_body v) rest))" for v s d pre rest
    by (auto simp: transfer_ok_def transfer_body_def data_transfer_switch_def element_types byte_bytes_def
        CWParseMsgElemDataTransferData_def cw_wire unat_ucast_u8)
  show "transfer_ok v \<Longrightarrow> length (transfer_body v) < 65536" for v
    by (auto simp: transfer_ok_def transfer_body_def word_less_nat_alt)
qed (auto simp: data_transfer_switch_def)

lemma run_transfer:
  assumes "nothing_fails env" and "\<forall>v \<in> set vs. transfer_ok v"
    and "length (stream (\<lambda>_. ucast CW_MSG_ELEMENT_DATA_TRANSFER_DATA_CW_TYPE) transfer_body vs) < 65536"
    and "msg m = control_message seq CW_MSG_TYPE_VALUE_DATA_TRANSFER_REQUEST
      (\<lambda>_. ucast CW_MSG_ELEMENT_DATA_TRANSFER_DATA_CW_TYPE) transfer_body vs"
  shows "answers (ACEnterRun env i wtp m False) (awaiting env wtp)
    (message_bytes seq CW_MSG_TYPE_VALUE_DATA_TRANSFER_RESPONSE [])"
proof -
  have odd: "CW_MSG_TYPE_VALUE_DATA_TRANSFER_REQUEST mod 2 = 1" by (simp add: message_types)
  have alloc: "env_alloc env = plenty" using assms(1) by (simp add: nothing_fails_def)
  show ?thesis
    unfolding run_receives [OF assms(4) odd assms(3)]
    using transfer.parses [OF assms(2) TrueI, of None "data_msgType m" "take 8 (msg m)" "[]"] assms(1,3)
      empty_answer [OF assms(1), of "wtp\<lparr>currentTimer := Some (gCWNeighborDeadInterval env)\<rparr>"
        "pathMTU wtp" "ucast (ucast seq :: u8)" CW_MSG_TYPE_VALUE_DATA_TRANSFER_RESPONSE "env_crypt env"]
    by (simp add: run_control_def message_types alloc CWParseWTPDataTransferRequestMessage_def unat_of_nat16
        CWAssembleWTPDataTransferResponse_def awaiting_def)
qed

definition handled_types :: "u32 set" where
  "handled_types = {CW_MSG_TYPE_VALUE_CONFIGURE_UPDATE_RESPONSE, CW_MSG_TYPE_VALUE_CHANGE_STATE_EVENT_REQUEST,
     CW_MSG_TYPE_VALUE_ECHO_REQUEST, CW_MSG_TYPE_VALUE_STATION_CONFIGURATION_RESPONSE,
     CW_MSG_TYPE_VALUE_CLEAR_CONFIGURATION_RESPONSE, CW_MSG_TYPE_VALUE_DATA_TRANSFER_REQUEST,
     CW_MSG_TYPE_VALUE_WTP_EVENT_REQUEST}"

definition unrecognized :: "cw_msg list" where
  "unrecognized = [elem_msg (ucast CW_MSG_ELEMENT_RESULT_CODE_CW_TYPE) (be32 CW_PROTOCOL_FAILURE_UNRECOGNIZED_REQ)]"

lemma run_unknown:
  assumes "nothing_fails env" and "type mod 2 = 1" and "type \<notin> handled_types"
    and "length (stream ty body es) < 65536" and "msg m = control_message seq type ty body es"
  shows "answers (ACEnterRun env i wtp m False) (awaiting env wtp) (message_bytes seq (type + 1) unrecognized)"
proof -
  have alloc: "env_alloc env = plenty" using assms(1) by (simp add: nothing_fails_def)
  have code: "CWAssembleMsgElemResultCode plenty c = Some (Inr (elem_msg (ucast CW_MSG_ELEMENT_RESULT_CODE_CW_TYPE) (be32 c)))"
    for c by (rule result_code.assemble_enc) simp
  have fits: "\<forall>m \<in> set unrecognized. msg_fits m" "length (message_bytes seq' t unrecognized) \<le> 65536" for seq' t
    by (simp_all add: unrecognized_def message_bytes_def Let_def elem_msg_fits)
  show ?thesis
    unfolding run_receives [OF assms(5,2,4)]
    using assms(1,3) send_answer_answers [OF assms(1) fits, of "wtp\<lparr>currentTimer := Some (gCWNeighborDeadInterval env)\<rparr>"
        "pathMTU wtp" "ucast (ucast seq :: u8)" "type + 1" "env_crypt env"]
    by (simp add: run_control_def handled_types_def alloc CWAssembleUnrecognizedMessageResponse_def code
        CWAssembleMessage_NULL unrecognized_def awaiting_def)
qed



end
