(* ===== verification/AC_Responses.thy ===== *)
theory AC_Responses
  imports AC_Requests
begin

text \<open>
  What the AC does in the Run state with responses to its own requests and with data messages
  (\<open>ACRunState.c\<close>): the response must match the request that waits, ends its retransmission, and what it
  carries is saved or handed to the application; a data frame makes the AC configure its station.
\<close>

subsection \<open>Which responses are taken\<close>

definition awaited :: "CWWTPManager \<Rightarrow> u32 \<Rightarrow> u32 \<Rightarrow> bool" where
  "awaited wtp type seq \<longleftrightarrow> responseType wtp = type \<and> responseSeqNum wtp = ucast (ucast seq :: u8)"

lemma run_receives_response:
  assumes "msg m = control_message seq type ty body es" and "type mod 2 \<noteq> 1"
    and "length (stream ty body es) < 65536"
  shows "ACEnterRun env i wtp m False =
    (if awaited wtp type seq
     then run_control env i False (wtp\<lparr>currentTimer := None\<rparr>)
       \<lparr>messageTypeValue = type, seqNum = ucast seq, msgElemsLen = of_nat (length (stream ty body es))\<rparr>
       (rbuf (data_msgType m) (take 8 (msg m)) (stream ty body es))
     else Some (Returned (Inl CW_ERROR_INVALID_FORMAT), wtp\<lparr>currentTimer := None\<rparr>, []))"
proof -
  let ?v = "\<lparr>messageTypeValue = type, seqNum = ucast seq, msgElemsLen = of_nat (length (stream ty body es))\<rparr>"
  have m: "m\<lparr>offset := 0\<rparr> = rbuf (data_msgType m) [] (control_bytes ?v @ stream ty body es)"
    using assms(1) by (simp add: rbuf_def control_message_eq)
  have "CWParseControlHeader (Some (m\<lparr>offset := 0\<rparr>)) = Some (Inr (?v\<lparr>msgElemsLen := 3 + msgElemsLen ?v\<rparr>,
      rbuf (data_msgType m) (take 8 (msg m)) (stream ty body es)))"
    unfolding m CWParseControlHeader_rbuf using assms(1) by (simp add: control_message_eq)
  then show ?thesis
    using assms(2)
    by (auto simp: ACEnterRun_def CWACParseGenericRunMessage_def awaited_def
        CWStopNeighborDeadTimer_def Let_def CW_CONTROL_HEADER_OFFSET_FOR_MSG_ELEMS_def)
qed

text \<open>The session after the request that waited is answered.\<close>

definition request_over :: "CWWTPManager \<Rightarrow> CWWTPManager" where
  "request_over wtp = wtp\<lparr>isRetransmitting := False, currentPacketTimer := None,
     responseType := UNUSED_MSG_TYPE, responseSeqNum := 0, messages := None\<rparr>"

text \<open>What a sent request leaves: its packets are gone.\<close>

definition request_sent :: "CWWTPManager \<Rightarrow> bool" where
  "request_sent wtp \<longleftrightarrow> isRetransmitting wtp \<and> messages wtp = None \<and> messagesCount wtp = 0"

lemma stop_sent_request: "request_sent wtp \<Longrightarrow> CWACStopRetransmission wtp = Some (request_over wtp)"
  by (simp add: request_sent_def CWACStopRetransmission_def request_over_def)

lemma request_over_keeps:
  "request_over (wtp\<lparr>currentTimer := t\<rparr>) = (request_over wtp)\<lparr>currentTimer := t\<rparr>"
  "WTPProtocolManager (request_over wtp) = WTPProtocolManager wtp"
  "qosValues (request_over wtp) = qosValues wtp"
  "applicationIndex (request_over wtp) = applicationIndex wtp"
  "interfaceCommandProgress (request_over wtp) = interfaceCommandProgress wtp"
  by (simp_all add: request_over_def)

interpretation result: strict_switch result_code_switch "\<lambda>_. ucast CW_MSG_ELEMENT_RESULT_CODE_CW_TYPE" be32
  "\<lambda>_. True" "\<lambda>c _. c" "\<lambda>_ _. True" "{t. ucast t = CW_MSG_ELEMENT_RESULT_CODE_CW_TYPE}"
  by unfold_locales (auto simp: result_code_switch_def element_types cw_wire)

subsection \<open>The elements of a Configuration Update Response\<close>

datatype update_element =
    Code u32
  | Uci u32 "u8 list"
  | Wum u32 "u8 list"

primrec update_type :: "update_element \<Rightarrow> u16" where
  "update_type (Code c) = ucast CW_MSG_ELEMENT_RESULT_CODE_CW_TYPE"
| "update_type (Uci c bs) = ucast CW_MSG_ELEMENT_RESULT_CODE_CW_TYPE_WITH_PAYLOAD"
| "update_type (Wum c bs) = ucast CW_MSG_ELEMENT_RESULT_CODE_CW_TYPE_WITH_PAYLOAD"

definition payload_bytes :: "u32 \<Rightarrow> u16 \<Rightarrow> u8 list \<Rightarrow> u8 list" where
  "payload_bytes c t bs = be32 c @ be16 (ucast CW_MSG_ELEMENT_VENDOR_SPEC_PAYLOAD_CW_TYPE) @ be16 t @
     be32 (of_nat (length bs)) @ bs"

primrec update_body :: "update_element \<Rightarrow> u8 list" where
  "update_body (Code c) = be32 c"
| "update_body (Uci c bs) = payload_bytes c CW_MSG_ELEMENT_VENDOR_SPEC_PAYLOAD_UCI bs"
| "update_body (Wum c bs) = payload_bytes c CW_MSG_ELEMENT_VENDOR_SPEC_PAYLOAD_WUM bs"

primrec update_ok :: "update_element \<Rightarrow> bool" where
  "update_ok (Code c) \<longleftrightarrow> True"
| "update_ok (Uci c bs) \<longleftrightarrow> length bs < 60000"
| "update_ok (Wum c bs) \<longleftrightarrow> bs \<noteq> [] \<and> length bs < 60000"

primrec read_update ::
  "update_element \<Rightarrow> u32 \<times> CWProtocolVendorSpecificValues option \<Rightarrow> u32 \<times> CWProtocolVendorSpecificValues option" where
  "read_update (Code c) s = (c, snd s)"
| "read_update (Uci c bs) s = (c, Some \<lparr>vendorPayloadType = CW_MSG_ELEMENT_VENDOR_SPEC_PAYLOAD_UCI,
     vs_payload = if bs = [] then None else Some bs\<rparr>)"
| "read_update (Wum c bs) s = (c, Some \<lparr>vendorPayloadType = CW_MSG_ELEMENT_VENDOR_SPEC_PAYLOAD_WUM,
     vs_payload = Some bs\<rparr>)"

lemma length_payload_bytes [simp]: "length (payload_bytes c t bs) = 12 + length bs"
  by (simp add: payload_bytes_def)

lemma small_word:
  assumes "n < 60000"
  shows "unat (of_nat n :: u32) = n" and "sint (of_nat n :: u32) = int n"
    and "(of_nat n :: u32) = 0 \<longleftrightarrow> n = 0"
proof -
  show u: "unat (of_nat n :: u32) = n" using assms by (simp add: unat_of_nat)
  have "signed_take_bit 31 (int n) = int n"
    by (rule signed_take_bit_int_eq_self) (use assms in simp_all)
  then show "sint (of_nat n :: u32) = int n" by (simp add: signed_of_nat)
  show "(of_nat n :: u32) = 0 \<longleftrightarrow> n = 0" using u by (auto dest: arg_cong [where f = unat])
qed

lemma retrieve_str_int_rbuf [cw_wire]:
  "length bs < 60000 \<Longrightarrow> retrieve_str_int plenty (of_nat (length bs)) (rbuf d pre (bs @ rest)) =
     Some (Some bs, rbuf d (pre @ bs) rest)"
  by (simp add: retrieve_str_int_def small_word RetrieveStr_rbuf)

lemmas payload_types =
  CW_MSG_ELEMENT_VENDOR_SPEC_PAYLOAD_CW_TYPE_def CW_MSG_ELEMENT_VENDOR_SPEC_PAYLOAD_UCI_def
  CW_MSG_ELEMENT_VENDOR_SPEC_PAYLOAD_WUM_def

interpretation update: strict_switch "update_response_switch plenty" update_type update_body update_ok
  read_update "\<lambda>_ _. True"
  "{t. ucast t \<in> {CW_MSG_ELEMENT_RESULT_CODE_CW_TYPE, CW_MSG_ELEMENT_RESULT_CODE_CW_TYPE_WITH_PAYLOAD}}"
proof
  show "update_ok e \<Longrightarrow> update_response_switch plenty (update_type e) (length (update_body e)) s
      (rbuf d pre (update_body e @ rest)) = Some (Inr (read_update e s, rbuf d (pre @ update_body e) rest))"
    for e s d pre rest
  proof (cases e)
    case (Uci c bs)
    then show "update_ok e \<Longrightarrow> ?thesis"
      by (cases "bs = []") (simp_all add: update_response_switch_def update_response_payload_def element_types
          payload_types payload_bytes_def cw_wire small_word)
  next
    case (Wum c bs)
    then show "update_ok e \<Longrightarrow> ?thesis"
      by (simp add: update_response_switch_def update_response_payload_def element_types
          payload_types payload_bytes_def cw_wire small_word)
  qed (simp add: update_response_switch_def element_types cw_wire)
  show "update_ok e \<Longrightarrow> length (update_body e) < 65536" for e by (cases e) simp_all
qed (auto simp: update_response_switch_def)

subsection \<open>Supervision by the NeighborDead timer\<close>

lemma packet_functions_keep_timer:
  "CWACSendFragments env wtp = Some (r, wtp', out) \<Longrightarrow> currentTimer wtp' = currentTimer wtp"
  "CWACResendAcknowledgedPacket env wtp = Some (r, wtp', out) \<Longrightarrow> currentTimer wtp' = currentTimer wtp"
  "CWACSendAcknowledgedPacket env wtp t q = Some (r, wtp', out) \<Longrightarrow> currentTimer wtp' = currentTimer wtp"
  "CWACStopRetransmission wtp = Some wtp' \<Longrightarrow> currentTimer wtp' = currentTimer wtp"
proof -
  show *: "CWACSendFragments env wtp = Some (r, wtp', out) \<Longrightarrow> currentTimer wtp' = currentTimer wtp"
    for wtp wtp' r out
    by (auto simp: CWACSendFragments_def bind_Some_iff split: option.splits if_split_asm)
  show **: "CWACResendAcknowledgedPacket env wtp = Some (r, wtp', out) \<Longrightarrow> currentTimer wtp' = currentTimer wtp"
    for wtp wtp' r out
    by (clarsimp simp: CWACResendAcknowledgedPacket_def bind_Some_iff)
      (case_tac a; auto split: if_split_asm dest!: *)
  show "CWACSendAcknowledgedPacket env wtp t q = Some (r, wtp', out) \<Longrightarrow> currentTimer wtp' = currentTimer wtp"
    by (auto simp: CWACSendAcknowledgedPacket_def dest!: **)
  show "CWACStopRetransmission wtp = Some wtp' \<Longrightarrow> currentTimer wtp' = currentTimer wtp"
    by (auto simp: CWACStopRetransmission_def split: if_split_asm)
qed

lemma send_request_keeps_timer:
  assumes "send_request env wtp assembled t = Some (r, wtp', out)"
  shows "currentTimer wtp' = currentTimer wtp"
proof -
  from assms obtain x where x: "assembled = Some x" by (auto simp: send_request_def bind_Some_iff)
  show ?thesis
  proof (cases x)
    case (Inr ps)
    let ?wtp = "wtp\<lparr>messages := Some ps, messagesCount := length ps\<rparr>"
    from assms x Inr obtain s w o' where
      s: "CWACSendAcknowledgedPacket env ?wtp t (env_seqNum env) = Some (s, w, o')"
      by (auto simp: send_request_def bind_Some_iff)
    with packet_functions_keep_timer(3) [OF s] assms x Inr show ?thesis
      by (cases s) (auto simp: send_request_def bind_Some_iff dest!: packet_functions_keep_timer(4))
  qed (use assms x in \<open>simp add: send_request_def\<close>)
qed

lemma run_data_keeps_timer:
  "run_data_frame env wtp m = Some (r, wtp', out) \<Longrightarrow> currentTimer wtp' = currentTimer wtp"
  "run_freq_stats env i wtp m = Some (r, wtp', out) \<Longrightarrow> currentTimer wtp' = currentTimer wtp"
  "run_stats env wtp m = Some (r, wtp', out) \<Longrightarrow> currentTimer wtp' = currentTimer wtp"
proof -
  show "run_data_frame env wtp m = Some (r, wtp', out) \<Longrightarrow> currentTimer wtp' = currentTimer wtp"
    by (auto simp: run_data_frame_def bind_Some_iff split: if_split_asm dest!: send_request_keeps_timer)
  show "run_freq_stats env i wtp m = Some (r, wtp', out) \<Longrightarrow> currentTimer wtp' = currentTimer wtp"
  proof -
    have any_size: "Option.bind e (\<lambda>n. if n < 0 \<or> \<not> env_alloc env (nat n) then Some (Returned (Inr ()), wtp, [])
        else if length (msg m) < nat n then None
        else if env_writen env k (f n) then Some (Returned (Inr ()), wtp, [To_application k (f n)])
        else Some (Returned (Inl CW_ERROR_NONE), wtp, [])) = Some (r, wtp', out) \<Longrightarrow> wtp' = wtp" for e f k
      by (cases e) (auto split: if_split_asm)
    show "run_freq_stats env i wtp m = Some (r, wtp', out) \<Longrightarrow> currentTimer wtp' = currentTimer wtp"
      unfolding run_freq_stats_def Let_def
      by (cases "length (msg m) < 4"; simp only: if_True if_False option.distinct; drule any_size; simp)
  qed
  show "run_stats env wtp m = Some (r, wtp', out) \<Longrightarrow> currentTimer wtp' = currentTimer wtp"
    by (auto simp: run_stats_def split: if_split_asm)
qed

lemma data_message_stops_timer:
  "ACEnterRun env i wtp m True = Some (r, wtp', out) \<Longrightarrow> currentTimer wtp' = None"
  by (auto simp: ACEnterRun_def run_data_def Let_def CWStopNeighborDeadTimer_def bind_Some_iff
      split: if_split_asm dest!: run_data_keeps_timer)

text \<open>
  A message that is not a valid control message ends the supervision of the WTP. \<open>ACEnterRun\<close> first
  cancels the NeighborDead timer; a response that no request waits for is ignored, and every data message
  is handled, without arming it again. So after such a message a WTP that falls silent is never given up,
  unless another control message arrives.
\<close>

theorem ignored_messages_end_supervision:
  assumes "msg m = control_message seq type ty body es" and "type mod 2 \<noteq> 1"
    and "length (stream ty body es) < 65536" and "\<not> awaited wtp type seq"
  shows "ACEnterRun env i wtp m False =
      Some (Returned (Inl CW_ERROR_INVALID_FORMAT), wtp\<lparr>currentTimer := None\<rparr>, []) \<and>
    (\<forall>env' m' r wtp' out. ACEnterRun env' i wtp m' True = Some (r, wtp', out) \<longrightarrow> currentTimer wtp' = None)"
  using run_receives_response [OF assms(1-3)] assms(4) data_message_stops_timer by auto

lemma ignored_messages_end_supervision_witness:
  "currentTimer sample_session = Some 70 \<and>
   ACEnterRun sample_env 0 sample_session (received (control_message 9
     CW_MSG_TYPE_VALUE_CLEAR_CONFIGURATION_RESPONSE event_type event_body [])) False =
     Some (Returned (Inl CW_ERROR_INVALID_FORMAT), sample_session\<lparr>currentTimer := None\<rparr>, [])"
  using ignored_messages_end_supervision [of "received (control_message 9
     CW_MSG_TYPE_VALUE_CLEAR_CONFIGURATION_RESPONSE event_type event_body [])" 9
     CW_MSG_TYPE_VALUE_CLEAR_CONFIGURATION_RESPONSE event_type event_body "[]" sample_session sample_env 0]
  by (simp add: message_types awaited_def sample_session_def)

subsection \<open>Responses\<close>

lemma run_result_code:
  assumes "nothing_fails env" and "request_sent wtp" and "awaited wtp type seq"
    and "type = CW_MSG_TYPE_VALUE_STATION_CONFIGURATION_RESPONSE \<or>
      type = CW_MSG_TYPE_VALUE_CLEAR_CONFIGURATION_RESPONSE"
    and "msg m = control_message seq type (\<lambda>_. ucast CW_MSG_ELEMENT_RESULT_CODE_CW_TYPE) be32 [code]"
  shows "ACEnterRun env i wtp m False =
    (let (wtp', out) = (if type = CW_MSG_TYPE_VALUE_CLEAR_CONFIGURATION_RESPONSE
                        then interface_command_done (request_over wtp) else (request_over wtp, []))
     in Some (Returned (Inr ()), awaiting env wtp', out))"
proof -
  have even: "type mod 2 \<noteq> 1" using assms(4) by (auto simp: message_types)
  have len: "length (stream (\<lambda>_. ucast CW_MSG_ELEMENT_RESULT_CODE_CW_TYPE) be32 [code]) < 65536" by simp
  have "request_sent (wtp\<lparr>currentTimer := None\<rparr>)" using assms(2) by (simp add: request_sent_def)
  note stop = stop_sent_request [OF this]
  have parse: "parse_elements result_code_switch 8 garbage (rbuf d pre
      (elem_bytes (ucast CW_MSG_ELEMENT_RESULT_CODE_CW_TYPE) (be32 code))) =
      Some (Inr (code, rbuf d (pre @ elem_bytes (ucast CW_MSG_ELEMENT_RESULT_CODE_CW_TYPE) (be32 code)) []))"
    for garbage d pre
    using result.parses [of "[code]" garbage d pre "[]"] by simp
  show ?thesis
    unfolding run_receives_response [OF assms(5) even len]
    using assms(1,3,4) parse stop
    by (auto simp: run_control_def message_types CWParseClearConfigurationResponseMessage_def
        CWParseStationConfigurationResponseMessage_def run_done_def awaiting_def interface_command_done_def
        request_over_keeps Let_def)
qed

text \<open>
  The AC configures the station whose frame arrives. When nothing outside fails, a data frame of at
  least 16 bytes makes \<open>ACEnterRun\<close> send one Station Configuration Request that carries the bytes 10 to 15
  of the frame as the address of the station of radio 0, record the response it waits for and start the
  retransmission timer; the Station Configuration Response with the same sequence number, whatever its
  result code, then ends the request and leaves the session waiting with its NeighborDead timer armed.
\<close>

theorem data_frame_configures_station:
  assumes "nothing_fails env" and "env_seqNum env < 256" and "data_msgType m = Some CW_DATA_MSG_FRAME_TYPE"
    and "16 \<le> length (msg m)"
  shows "\<exists>wtp' ps. ACEnterRun env i wtp m True = Some (Returned (Inr ()), wtp', map Sent ps) \<and>
    delivers ps (message_bytes (env_seqNum env) CW_MSG_TYPE_VALUE_STATION_CONFIGURATION_REQUEST
      [elem_msg (ucast CW_MSG_ELEMENT_ADD_STATION_CW_TYPE) ([0, 6] @ take 6 (drop 10 (msg m)))]) \<and>
    request_sent wtp' \<and> currentPacketTimer wtp' = Some (gCWRetransmitTimer env) \<and>
    (\<forall>code. ACEnterRun env i wtp' (received (control_message (env_seqNum env)
         CW_MSG_TYPE_VALUE_STATION_CONFIGURATION_RESPONSE (\<lambda>_. ucast CW_MSG_ELEMENT_RESULT_CODE_CW_TYPE)
         be32 [code])) False =
       Some (Returned (Inr ()), awaiting env (request_over wtp'), []))"
proof -
  let ?mac = "take 6 (drop 10 (msg m))" and ?q = "env_seqNum env"
  let ?e = "elem_msg (ucast CW_MSG_ELEMENT_ADD_STATION_CW_TYPE) ([0, 6] @ ?mac)"
  let ?type = CW_MSG_TYPE_VALUE_STATION_CONFIGURATION_REQUEST
  have alloc: "env_alloc env = plenty" and ID: "env_fragID env < 65536" and ok: "\<forall>p. env_send env p = None"
    and timers: "\<forall>n. env_timer env n"
    using assms(1) by (simp_all add: nothing_fails_def)
  have mac: "length ?mac = 6" using assms(4) by simp
  have elem: "CWAssembleMsgElemAddStation plenty 0 ?mac = Some (Inr ?e)"
    using ac_station.assemble_enc [of 0 ?mac "(0, ?mac)"] mac by (simp add: byte_bytes_def)
  have "\<forall>x \<in> set [?e]. msg_fits x" "length (message_bytes ?q ?type [?e]) \<le> 65536"
    using mac by (simp_all add: elem_msg_fits message_bytes_def Let_def)
  from message_delivered [OF this(1) ID this(2), of "pathMTU wtp" "env_crypt env"] obtain ms where
    built: "CWAssembleMessage plenty (env_fragID env) (pathMTU wtp) ?q ?type (Some [?e]) 1 None 0 (env_crypt env) =
      Some (Inr ms)" and fit: "\<forall>p \<in> set ms. msg_fits p"
    and delivered: "delivers (map contents ms) (message_bytes ?q ?type [?e])"
    by (auto simp: CWAssembleMessage_NULL)
  let ?w = "wtp\<lparr>currentTimer := None, messages := None, messagesCount := 0, retransmissionCount := 0,
     isRetransmitting := True, responseType := CW_MSG_TYPE_VALUE_STATION_CONFIGURATION_RESPONSE,
     responseSeqNum := ?q, currentPacketTimer := Some (gCWRetransmitTimer env)\<rparr>"
  have request: "CWAssembleStationConfigurationRequest env (pathMTU wtp) ?q ?mac = Some (Inr ms)"
    using elem built by (simp add: CWAssembleStationConfigurationRequest_def alloc)
  have packets: "send_packets (env_send env) ms = Some (None, map (\<lambda>m. Sent (contents m)) ms)"
    using send_packets_all [OF ok fit] .
  have "send_request env (wtp\<lparr>currentTimer := None\<rparr>)
      (CWAssembleStationConfigurationRequest env (pathMTU wtp) ?q ?mac)
      CW_MSG_TYPE_VALUE_STATION_CONFIGURATION_RESPONSE = Some (True, ?w, map (\<lambda>m. Sent (contents m)) ms)"
    unfolding request
    using packets timers by (simp add: send_request_def CWACSendAcknowledgedPacket_def
        CWACResendAcknowledgedPacket_def CWACSendFragments_def)
  then have run: "ACEnterRun env i wtp m True = Some (Returned (Inr ()), ?w, map Sent (map contents ms))"
    using assms(3,4)
    by (simp add: ACEnterRun_def CWStopNeighborDeadTimer_def run_data_def run_data_frame_def
        SOURCE_ADDR_START_def MAC_ADDR_LEN_def comp_def)
  have sent: "request_sent ?w" by (simp add: request_sent_def)
  have await: "awaited ?w CW_MSG_TYPE_VALUE_STATION_CONFIGURATION_RESPONSE ?q"
    using assms(2) by (simp add: awaited_def)
  have answer: "ACEnterRun env i ?w (received (control_message ?q
         CW_MSG_TYPE_VALUE_STATION_CONFIGURATION_RESPONSE (\<lambda>_. ucast CW_MSG_ELEMENT_RESULT_CODE_CW_TYPE)
         be32 [code])) False = Some (Returned (Inr ()), awaiting env (request_over ?w), [])" for code
    using run_result_code [OF assms(1) sent await disjI1 [OF refl] received_sel(1), of i code]
    by (simp add: message_types)
  show ?thesis using run delivered sent answer by (intro exI [of _ ?w] exI [of _ "map contents ms"]) simp
qed

definition sample_frame :: cw_msg where
  "sample_frame = \<lparr>msg = replicate 10 8 @ [2, 0, 0, 1, 2, 3] @ replicate 8 0, offset = 0,
     data_msgType = Some CW_DATA_MSG_FRAME_TYPE\<rparr>"

lemma data_frame_configures_station_witness:
  "\<exists>wtp' ps. ACEnterRun sample_env 0 sample_session sample_frame True = Some (Returned (Inr ()), wtp', map Sent ps) \<and>
    delivers ps (message_bytes 7 CW_MSG_TYPE_VALUE_STATION_CONFIGURATION_REQUEST
      [elem_msg (ucast CW_MSG_ELEMENT_ADD_STATION_CW_TYPE) [0, 6, 2, 0, 0, 1, 2, 3]])"
proof -
  have "nothing_fails sample_env" "env_seqNum sample_env < 256"
    "data_msgType sample_frame = Some CW_DATA_MSG_FRAME_TYPE" "16 \<le> length (msg sample_frame)"
    "take 6 (drop 10 (msg sample_frame)) = [2, 0, 0, 1, 2, 3]" "env_seqNum sample_env = 7"
    by (simp_all add: sample_frame_def) (simp_all add: sample_env_def)
  with data_frame_configures_station [of sample_env sample_frame 0 sample_session] show ?thesis by auto
qed

lemma run_update_response:
  assumes "nothing_fails env" and "request_sent wtp" and "update_ok e"
    and "awaited wtp CW_MSG_TYPE_VALUE_CONFIGURE_UPDATE_RESPONSE seq"
  shows "ACEnterRun env i wtp (received (control_message seq CW_MSG_TYPE_VALUE_CONFIGURE_UPDATE_RESPONSE
        update_type update_body [e])) False = do {
      (_, wtp', out) \<leftarrow> CWSaveConfigurationUpdateResponseMessage env i
        (fst (read_update e (env_garbage env, None))) (snd (read_update e (env_garbage env, None)))
        ((request_over wtp)\<lparr>currentTimer := Some (gCWNeighborDeadInterval env)\<rparr>);
      let (wtp', out') = interface_command_done wtp';
      run_done wtp' (out @ out') }"
proof -
  let ?bs = "stream update_type update_body [e]"
  have even: "CW_MSG_TYPE_VALUE_CONFIGURE_UPDATE_RESPONSE mod 2 \<noteq> 1" by (simp add: message_types)
  have alloc: "env_alloc env = plenty" using assms(1) by (simp add: nothing_fails_def)
  have "request_sent (wtp\<lparr>currentTimer := None\<rparr>)" using assms(2) by (simp add: request_sent_def)
  note stop = stop_sent_request [OF this]
  have len: "length ?bs < 65536" using assms(3) by (cases e) simp_all
  have parse: "CWParseConfigurationUpdateResponseMessage plenty (env_garbage env) (Some (rbuf d pre ?bs)) (length ?bs) =
      Some (Inr (read_update e (env_garbage env, None), rbuf d (pre @ ?bs) []))" for d pre
    using update.parses [of "[e]" "(env_garbage env, None)" d pre "[]"] assms(3)
    by (simp add: CWParseConfigurationUpdateResponseMessage_def)
  show ?thesis
    unfolding run_receives_response [OF received_sel(1) even len]
    using assms(1,4) stop parse unat_of_nat16 [OF len]
    by (simp add: run_control_def message_types alloc request_over_keeps split_beta del: stream_simps)
qed

text \<open>What an application gets of a Configuration Update Response, and what the session keeps.\<close>

definition update_payload :: "nat \<Rightarrow> u32 \<Rightarrow> u8 list \<Rightarrow> u8 list" where
  "update_payload i code bs = be32 (of_nat i) @ be32 code @ be32 (of_nat (length bs)) @ bs"

text \<open>
  C13: The response to a Configuration Update Request ends the request and reaches who asked for it. When
  nothing outside fails and the sent request waits for exactly this type and sequence number, the
  retransmission is over and the NeighborDead timer runs; a payload of the UCI server (text without a
  zero byte) is forwarded to the application that asked, behind the index of the WTP, the result code and
  its length; a result code alone, other than success, changes nothing else; and the thread that waits for
  the command is woken up.
\<close>

theorem update_response_ends_the_request:
  assumes "nothing_fails env" and "request_sent wtp" and "length bs < 60000" and "0 \<notin> set bs"
    and "env_writen env (applicationIndex wtp) (update_payload i code bs)"
    and "awaited wtp CW_MSG_TYPE_VALUE_CONFIGURE_UPDATE_RESPONSE seq" and "code' \<noteq> CW_PROTOCOL_SUCCESS"
  shows "ACEnterRun env i wtp (received (control_message seq CW_MSG_TYPE_VALUE_CONFIGURE_UPDATE_RESPONSE
        update_type update_body [Uci code bs])) False =
      (let (wtp', out) = interface_command_done (request_over wtp)
       in Some (Returned (Inr ()), awaiting env wtp',
            To_application (applicationIndex wtp) (update_payload i code bs) # out)) \<and>
    ACEnterRun env i wtp (received (control_message seq CW_MSG_TYPE_VALUE_CONFIGURE_UPDATE_RESPONSE
        update_type update_body [Code code'])) False =
      (let (wtp', out) = interface_command_done (request_over wtp)
       in Some (Returned (Inr ()), awaiting env wtp', out))"
proof -
  have alloc: "env_alloc env = plenty" using assms(1) by (simp add: nothing_fails_def)
  have whole: "takeWhile (\<lambda>b. b \<noteq> 0) bs = bs" using assms(4) by (auto simp: takeWhile_eq_all_conv)
  have "update_ok (Uci code bs)" "update_ok (Code code')" using assms(3) by simp_all
  note run = run_update_response [OF assms(1,2) this(1) assms(6)] run_update_response [OF assms(1,2) this(2) assms(6)]
  show ?thesis
    unfolding run using assms(5,7)
    by (cases "bs = []") (simp_all add: CWSaveConfigurationUpdateResponseMessage_def
        CWBindingSaveConfigurationUpdateResponse_def update_payload_size_def whole alloc update_payload_def
        request_over_keeps run_done_def awaiting_def interface_command_done_def Let_def)
qed

definition asking_session :: CWWTPManager where
  "asking_session = sample_session\<lparr>isRetransmitting := True, interfaceCommandProgress := True,
     responseType := CW_MSG_TYPE_VALUE_CONFIGURE_UPDATE_RESPONSE, responseSeqNum := 7, applicationIndex := 2\<rparr>"

lemma update_response_ends_the_request_witness:
  "ACEnterRun sample_env 5 asking_session (received (control_message 7
     CW_MSG_TYPE_VALUE_CONFIGURE_UPDATE_RESPONSE update_type update_body [Uci 0 [111, 107]])) False =
   (let (wtp', out) = interface_command_done (request_over asking_session)
    in Some (Returned (Inr ()), awaiting sample_env wtp',
         To_application 2 (be32 5 @ be32 0 @ be32 2 @ [111, 107]) # out)) \<and>
   snd (interface_command_done (request_over asking_session)) = [Signal_interfaceComplete]"
  using update_response_ends_the_request [of sample_env asking_session "[111, 107]" 5 0 7 1]
  by (simp add: asking_session_def sample_session_def request_sent_def awaited_def update_payload_def
      interface_command_done_def request_over_def)
    (simp add: sample_env_def CW_PROTOCOL_SUCCESS_def)

end
