(* ===== verification/Sino.thy ===== *)
theory Sino
  imports WTP_Elements "HOL-Library.Product_Lexorder"
begin

text \<open>
  The firmware announcement of the AC: \<open>sino_comm.c\<close>, which packs typed pieces of information behind a
  head into the buffer \<open>sino\<close>, \<open>sino_config\<close> of \<open>AC.c\<close>, which packs the settings of the firmware, the
  vendor element that carries them (\<open>CWVendorPayloadsAC.c\<close>) and its parser in the WTP (\<open>WTPProtocol.c\<close>).
  The head is the magic number, the number of elements and their length; a byte string of C ends before
  its first zero byte.
\<close>

subsection \<open>The buffer\<close>

definition SINOIX_MAX_SIZE :: nat where "SINOIX_MAX_SIZE = 2048"
definition SI_MAGIC :: u32 where "SI_MAGIC = 0x89abcdef"
definition sizeof_sino_head :: nat where "sizeof_sino_head = 8"
definition sizeof_sino_elem :: nat where "sizeof_sino_elem = 4"

definition SI_FI_VERSION :: u16 where "SI_FI_VERSION = 5"
definition SI_FI_MD5 :: u16 where "SI_FI_MD5 = 6"
definition SI_FI_LEN :: u16 where "SI_FI_LEN = 7"
definition SI_TFTP_ADDR :: u16 where "SI_TFTP_ADDR = 8"
definition SI_TFTP_PORT :: u16 where "SI_TFTP_PORT = 9"
definition SI_REPT_ADDR :: u16 where "SI_REPT_ADDR = 10"
definition SI_REPT_PORT :: u16 where "SI_REPT_PORT = 11"

text \<open>\<open>head\<close> always points to the buffer; \<open>offset\<close> and \<open>pos\<close> are 16 bits wide.\<close>

record sino_data =
  sino_buff :: "u8 list"
  sino_offset :: u16
  sino_pos :: u16

definition write_at :: "nat \<Rightarrow> u8 list \<Rightarrow> u8 list \<Rightarrow> u8 list" where
  "write_at i bs buf = take i buf @ bs @ drop (i + length bs) buf"

definition head_elems :: "u8 list \<Rightarrow> u16" where "head_elems buf = of_be16 (take 2 (drop 4 buf))"
definition head_len :: "u8 list \<Rightarrow> u16" where "head_len buf = of_be16 (take 2 (drop 6 buf))"

definition sino_data_init :: "sino_data \<Rightarrow> sino_data" where
  "sino_data_init s = s\<lparr>sino_buff := replicate SINOIX_MAX_SIZE 0, sino_offset := 0, sino_pos := - 1\<rparr>"

text \<open>The buffer after the head is written, and the size of the head; 0 when there is no room for it.\<close>

definition sino_assemble_head :: "u8 list \<Rightarrow> nat \<Rightarrow> nat \<times> u8 list" where
  "sino_assemble_head buf room =
     (if room < sizeof_sino_head then (0, buf)
      else (sizeof_sino_head, write_at 0 (be32 SI_MAGIC @ be16 0 @ be16 0) buf))"

definition sino_data_head :: "sino_data \<Rightarrow> sino_data" where
  "sino_data_head s =
     (case sino_assemble_head (sino_buff s) SINOIX_MAX_SIZE of
        (n, buf) \<Rightarrow> s\<lparr>sino_buff := buf, sino_offset := of_nat n\<rparr>)"

text \<open>At the place \<open>i\<close> of the buffer, where \<open>room\<close> bytes are free. \<open>type\<close> is an \<open>int\<close> cut to 16 bits.\<close>

definition sino_assemble_data :: "u8 list \<Rightarrow> nat \<Rightarrow> nat \<Rightarrow> u16 \<Rightarrow> u8 list \<Rightarrow> nat \<times> u8 list" where
  "sino_assemble_data buf i room type info =
     (if room < sizeof_sino_elem + length info then (0, buf)
      else (sizeof_sino_elem + length info,
            write_at i (be16 type @ be16 (of_nat (length info)) @ info) buf))"

text \<open>The result is the place of the new element, if it fitted.\<close>

definition sino_data_push :: "sino_data \<Rightarrow> u16 \<Rightarrow> u8 list \<Rightarrow> nat option \<times> sino_data" where
  "sino_data_push s type info =
     (case sino_assemble_data (sino_buff s) (unat (sino_offset s))
             (SINOIX_MAX_SIZE - unat (sino_offset s)) type info of
        (asslen, buf) \<Rightarrow>
          if asslen = 0 then (None, s)
          else
            (let offset = sino_offset s + of_nat asslen;
                 buf = write_at 6 (be16 (head_len buf + of_nat (length info) + of_nat sizeof_sino_elem)) buf;
                 buf = write_at 4 (be16 (head_elems buf + 1)) buf
             in (Some (unat offset - asslen), s\<lparr>sino_buff := buf, sino_offset := offset\<rparr>)))"

text \<open>The type and length of an element in the buffer, as the machine reads them: not converted.\<close>

definition sino_data_elem_push :: "bool \<Rightarrow> sino_data \<Rightarrow> u8 list \<Rightarrow> (nat option \<times> sino_data) option" where
  "sino_data_elem_push le s elem =
     (let type = htons le (of_be16 (take 2 elem)); len = unat (htons le (of_be16 (take 2 (drop 2 elem))))
      in if length elem < 4 + len then None
         else Some (sino_data_push s type (take len (drop 4 elem))))"

text \<open>Walking over the elements: nothing stops at the last one.\<close>

definition sino_data_elem_pop_init :: "sino_data \<Rightarrow> sino_data" where
  "sino_data_elem_pop_init s = s\<lparr>sino_pos := of_nat sizeof_sino_head\<rparr>"

definition sino_data_elem_pop :: "sino_data \<Rightarrow> (nat option \<times> sino_data) option" where
  "sino_data_elem_pop s =
     (if sino_pos s = 0 then Some (None, s)
      else
        (let now = unat (sino_pos s)
         in if now + 4 > length (sino_buff s) then None
            else Some (Some now, s\<lparr>sino_pos := sino_pos s + of_nat sizeof_sino_elem +
                   of_be16 (take 2 (drop (now + 2) (sino_buff s)))\<rparr>)))"

definition sino_data_elem_pop_first :: "sino_data \<Rightarrow> (nat option \<times> sino_data) option" where
  "sino_data_elem_pop_first s = sino_data_elem_pop (sino_data_elem_pop_init s)"

fun total_from :: "nat \<Rightarrow> nat \<Rightarrow> u8 list \<Rightarrow> nat option" where
  "total_from 0 data buf = Some 0"
| "total_from (Suc n) data buf =
     (if data + 4 > length buf then None
      else
        (let step = sizeof_sino_elem + unat (of_be16 (take 2 (drop (data + 2) buf)))
         in map_option ((+) step) (total_from n (data + step) buf)))"

definition sino_total_elem_len :: "u8 list \<Rightarrow> nat option" where
  "sino_total_elem_len buf = total_from (unat (head_elems buf)) sizeof_sino_head buf"

definition sino_fill_head_len :: "u8 list \<Rightarrow> (nat \<times> u8 list) option" where
  "sino_fill_head_len buf = do {
     n \<leftarrow> sino_total_elem_len buf;
     let buf = write_at 6 (be16 (of_nat n)) buf;
     Some (unat (head_len buf), buf) }"

definition sino_elem_size :: "u8 list \<Rightarrow> nat" where "sino_elem_size buf = unat (head_len buf)"

definition sino_packet_size :: "u8 list \<Rightarrow> nat" where
  "sino_packet_size buf = sizeof_sino_head + sino_elem_size buf"

subsection \<open>What the buffer stands for\<close>

text \<open>The buffer after the head and the elements \<open>es\<close>, each a type and its information.\<close>

type_synonym sino_info = "u16 \<times> u8 list"

definition info_bytes :: "sino_info list \<Rightarrow> u8 list" where
  "info_bytes es = concat (map (\<lambda>(t, i). elem_bytes t i) es)"

definition packet_bytes :: "sino_info list \<Rightarrow> u8 list" where
  "packet_bytes es = be32 SI_MAGIC @ be16 (of_nat (length es)) @ be16 (of_nat (length (info_bytes es))) @
     info_bytes es"

definition sino_holds :: "sino_data \<Rightarrow> sino_info list \<Rightarrow> bool" where
  "sino_holds s es \<longleftrightarrow> length (sino_buff s) = SINOIX_MAX_SIZE \<and>
     length (packet_bytes es) \<le> SINOIX_MAX_SIZE \<and>
     take (length (packet_bytes es)) (sino_buff s) = packet_bytes es \<and>
     unat (sino_offset s) = length (packet_bytes es)"

text \<open>The abstract push: the element goes to the end if the packet still fits.\<close>

definition push_info :: "sino_info list \<Rightarrow> sino_info \<Rightarrow> nat option \<times> sino_info list" where
  "push_info es e = (if length (packet_bytes (es @ [e])) \<le> SINOIX_MAX_SIZE
     then (Some (length (packet_bytes es)), es @ [e]) else (None, es))"

lemma info_bytes_simps [simp]:
  "info_bytes [] = []"
  "info_bytes (e # es) = elem_bytes (fst e) (snd e) @ info_bytes es"
  "info_bytes (es @ fs) = info_bytes es @ info_bytes fs"
  by (simp_all add: info_bytes_def split_beta)

lemma length_packet_bytes [simp]: "length (packet_bytes es) = 8 + length (info_bytes es)"
  by (simp add: packet_bytes_def)

lemma length_info_bytes: "4 * length es \<le> length (info_bytes es)"
  by (induction es) auto

lemma sino_buff_split:
  assumes "sino_holds s es"
  obtains rest where "sino_buff s = packet_bytes es @ rest"
    and "length rest = SINOIX_MAX_SIZE - (8 + length (info_bytes es))"
proof -
  from assms have "sino_buff s = packet_bytes es @ drop (length (packet_bytes es)) (sino_buff s)"
    by (metis append_take_drop_id sino_holds_def)
  moreover from assms have
    "length (drop (length (packet_bytes es)) (sino_buff s)) = SINOIX_MAX_SIZE - (8 + length (info_bytes es))"
    by (simp add: sino_holds_def)
  ultimately show thesis by (rule that)
qed

lemma head_fields [simp]:
  "head_elems (be32 m @ be16 n @ be16 l @ rest) = n"
  "head_len (be32 m @ be16 n @ be16 l @ rest) = l"
  by (simp_all add: head_elems_def head_len_def)

lemma write_head_fields:
  "write_at 6 (be16 l') (be32 m @ be16 n @ be16 l @ rest) = be32 m @ be16 n @ be16 l' @ rest"
  "write_at 4 (be16 n') (be32 m @ be16 n @ be16 l @ rest) = be32 m @ be16 n' @ be16 l @ rest"
  by (simp_all add: write_at_def)

lemma start_holds: "sino_holds (sino_data_head (sino_data_init s)) []"
  by (simp add: sino_holds_def sino_data_head_def sino_data_init_def sino_assemble_head_def write_at_def
      packet_bytes_def SINOIX_MAX_SIZE_def sizeof_sino_head_def)

lemma push_refines:
  assumes "sino_holds s es"
  shows "fst (sino_data_push s t i) = fst (push_info es (t, i)) \<and>
    sino_holds (snd (sino_data_push s t i)) (snd (push_info es (t, i)))"
proof -
  let ?e = "elem_bytes t i" and ?n = "8 + length (info_bytes es)"
  from assms have off: "unat (sino_offset s) = ?n" and fits: "?n \<le> 2048"
    by (simp_all add: sino_holds_def SINOIX_MAX_SIZE_def)
  from assms obtain rest where buf: "sino_buff s = packet_bytes es @ rest" and rest: "length rest = 2048 - ?n"
    by (rule sino_buff_split) (simp add: SINOIX_MAX_SIZE_def)
  show ?thesis
  proof (cases "length ?e \<le> 2048 - ?n")
    case False
    then have "sino_data_push s t i = (None, s)" "push_info es (t, i) = (None, es)"
      using fits by (simp_all add: sino_data_push_def sino_assemble_data_def off push_info_def
          SINOIX_MAX_SIZE_def sizeof_sino_elem_def)
    with assms show ?thesis by simp
  next
    case True
    then have i: "4 + length i \<le> 2048 - ?n" by simp
    have put: "write_at ?n (be16 t @ be16 (of_nat (length i)) @ i)
        (be32 SI_MAGIC @ be16 n @ be16 l @ info_bytes es @ rest) =
      be32 SI_MAGIC @ be16 n @ be16 l @ info_bytes es @ ?e @ drop (4 + length i) rest" for n l
      by (simp add: write_at_def elem_bytes_def)
    have pushed: "push_info es (t, i) = (Some ?n, es @ [(t, i)])"
      using i fits by (simp add: push_info_def SINOIX_MAX_SIZE_def)
    have "unat (sino_offset s + (4 + of_nat (length i))) = ?n + (4 + length i)"
    proof -
      have "of_nat (unat (sino_offset s)) = sino_offset s" by simp
      then have "sino_offset s = of_nat ?n" by (simp only: off)
      then have "sino_offset s + (4 + of_nat (length i)) = of_nat (?n + (4 + length i))" by simp
      moreover have "?n + (4 + length i) < 65536" using i fits by linarith
      ultimately show ?thesis by (simp only: unat_of_nat16)
    qed
    note offs = this
    have stored: "sino_assemble_data (sino_buff s) ?n (2048 - ?n) t i = (4 + length i,
        be32 SI_MAGIC @ be16 (of_nat (length es)) @ be16 (of_nat (length (info_bytes es))) @
        info_bytes es @ ?e @ drop (4 + length i) rest)"
      using i by (simp add: sino_assemble_data_def buf sizeof_sino_elem_def packet_bytes_def put)
    have fields: "of_nat (length (info_bytes es)) + of_nat (length i) + 4 =
        (of_nat (length (info_bytes (es @ [(t, i)]))) :: u16)"
      "of_nat (length es) + 1 = (of_nat (length (es @ [(t, i)])) :: u16)" by simp_all
    have "sino_data_push s t i = (Some ?n, s\<lparr>sino_buff := packet_bytes (es @ [(t, i)]) @ drop (4 + length i) rest,
        sino_offset := sino_offset s + (4 + of_nat (length i))\<rparr>)"
      unfolding sino_data_push_def off SINOIX_MAX_SIZE_def stored using offs
      by (simp add: Let_def head_fields write_head_fields sizeof_sino_elem_def fields packet_bytes_def
          del: length_append info_bytes_simps(3)) (simp only: info_bytes_simps append_assoc fst_conv snd_conv append_Nil2)
    then show ?thesis
      unfolding pushed using i fits rest offs
      by (simp add: sino_holds_def SINOIX_MAX_SIZE_def)
  qed
qed

text \<open>Counting the bytes of the elements one by one gives the length in the head, which stays as it is.\<close>

lemma total_from_infos:
  "\<forall>e \<in> set es. length (snd e) < 65536 \<Longrightarrow>
   total_from (length es) (length pre) (pre @ info_bytes es @ rest) = Some (length (info_bytes es))"
proof (induction es arbitrary: pre)
  case (Cons e es)
  have "total_from (length es) (length pre + (4 + length (snd e))) (pre @ elem_bytes (fst e) (snd e) @ info_bytes es @ rest) =
      Some (length (info_bytes es))"
    using Cons.IH [of "pre @ elem_bytes (fst e) (snd e)"] Cons.prems by simp
  moreover have "of_be16 (take 2 (drop (length pre + 2) (pre @ elem_bytes (fst e) (snd e) @ info_bytes es @ rest))) =
      of_nat (length (snd e))"
    by (simp add: elem_bytes_def)
  ultimately show ?case using Cons.prems by (simp add: Let_def sizeof_sino_elem_def unat_of_nat16)
qed simp

lemma info_lengths: "e \<in> set es \<Longrightarrow> length (snd e) \<le> length (info_bytes es)"
  by (induction es) auto

lemma fill_head_len_holds:
  assumes "sino_holds s es"
  shows "sino_total_elem_len (sino_buff s) = Some (length (info_bytes es)) \<and>
    sino_fill_head_len (sino_buff s) = Some (length (info_bytes es), sino_buff s)"
proof -
  obtain rest where buf: "sino_buff s = packet_bytes es @ rest" using assms by (rule sino_buff_split)
  from assms have small: "8 + length (info_bytes es) \<le> 2048" by (simp add: sino_holds_def SINOIX_MAX_SIZE_def)
  then have n: "length es < 65536" "length (info_bytes es) < 65536" using length_info_bytes [of es] by linarith+
  have each: "\<forall>e \<in> set es. length (snd e) < 65536"
    using info_lengths [of _ es] n(2) by (meson le_less_trans)
  have "sino_total_elem_len (sino_buff s) = Some (length (info_bytes es))"
    using total_from_infos [OF each, of "be32 SI_MAGIC @ be16 (of_nat (length es)) @ be16 (of_nat (length (info_bytes es)))" rest]
    by (simp add: sino_total_elem_len_def buf packet_bytes_def sizeof_sino_head_def unat_of_nat16 [OF n(1)])
  then show ?thesis
    by (simp add: sino_fill_head_len_def buf packet_bytes_def write_head_fields unat_of_nat16 [OF n(2)])
qed

text \<open>
  An element pushed again keeps its type on a big-endian machine only: on a little-endian one its fields, in
  network order already, are converted once more.
\<close>

lemma elem_push_swaps:
  "sino_data_elem_push le s (elem_bytes t []) = Some (sino_data_push s (htons le t) [])"
proof -
  have "htons le 0 = 0" by (simp add: htons_def be16_def)
  then show ?thesis by (simp add: sino_data_elem_push_def elem_bytes_def Let_def)
qed

subsection \<open>Numbers in text\<close>

text \<open>
  \<open>%d\<close> of \<open>snprintf\<close> for a number that is not negative, and of \<open>sscanf\<close>: the number and what follows it.
  A number that does not fit an \<open>int\<close> is left as it is.
\<close>

fun decimal :: "nat \<Rightarrow> u8 list" where
  "decimal n = (if n < 10 then [48 + of_nat n] else decimal (n div 10) @ [48 + of_nat (n mod 10)])"

declare decimal.simps [simp del]

definition is_digit :: "u8 \<Rightarrow> bool" where "is_digit c \<longleftrightarrow> 48 \<le> c \<and> c \<le> 57"
definition is_space :: "u8 \<Rightarrow> bool" where "is_space c \<longleftrightarrow> c = 32 \<or> 9 \<le> c \<and> c \<le> 13"

definition number :: "u8 list \<Rightarrow> int" where
  "number ds = foldl (\<lambda>n d. 10 * n + (uint d - 48)) 0 ds"

definition scan_int :: "u8 list \<Rightarrow> (int \<times> u8 list) option" where
  "scan_int str =
     (let str = dropWhile is_space str;
          rest = (if str \<noteq> [] \<and> (hd str = 45 \<or> hd str = 43) then tl str else str);
          ds = takeWhile is_digit rest
      in if ds = [] then None
         else Some (if str \<noteq> [] \<and> hd str = 45 then - number ds else number ds, drop (length ds) rest))"

text \<open>\<open>atoi\<close> and \<open>atoll\<close>.\<close>

definition atoi :: "u8 list \<Rightarrow> int" where
  "atoi str = (case scan_int str of None \<Rightarrow> 0 | Some (n, _) \<Rightarrow> n)"

subsection \<open>The settings of the firmware on the AC\<close>

text \<open>What \<open>read_conf\<close> leaves in the global variables.\<close>

record sino_settings =
  firmware_version :: "u8 list"
  firmware_len :: "u8 list"
  firmware_md5 :: "u8 list"
  tftp_locat :: "u8 list"
  tftp_addr :: "u8 list"
  tftp_port :: int
  rept_locat :: "u8 list"
  rept_addr :: "u8 list"
  rept_port :: int

datatype image_file = Image_missing | Image_irregular | Image_regular

text \<open>\<open>sscanf(locat, "%[^:]:%d", addr, &port)\<close>; no result when the address is longer than its array.\<close>

definition scan_locat :: "u8 list \<Rightarrow> u8 list \<times> int \<Rightarrow> (u8 list \<times> int) option" where
  "scan_locat locat ap =
     (let a = takeWhile (\<lambda>c. c \<noteq> 58) locat
      in if a = [] then Some ap
         else if length a \<ge> 1000 then None
         else Some (a, case drop (length a) locat of
                         [] \<Rightarrow> snd ap
                       | c # rest \<Rightarrow> (case scan_int rest of None \<Rightarrow> snd ap | Some (n, _) \<Rightarrow> n)))"

definition push_text :: "u16 \<Rightarrow> u8 list \<Rightarrow> sino_data \<Rightarrow> sino_data" where
  "push_text type str s = (if str = [] then s else snd (sino_data_push s type str))"

text \<open>The port as text, cut to the array of six characters.\<close>

definition push_port :: "u16 \<Rightarrow> int \<Rightarrow> sino_data \<Rightarrow> sino_data" where
  "push_port type port s =
     (if port > 0 then snd (sino_data_push s type (take 5 (decimal (nat port)))) else s)"

text \<open>
  The buffer, and whether the lock is still held at the end: the return for an irregular file leaves it
  locked. \<open>conf\<close> tells whether \<open>read_conf\<close> succeeds.
\<close>

definition sino_config :: "image_file \<Rightarrow> bool \<Rightarrow> sino_settings \<Rightarrow> sino_data \<Rightarrow> (sino_data \<times> bool) option" where
  "sino_config file conf c s =
     (let s = sino_data_head (sino_data_init s)
      in case file of
           Image_missing \<Rightarrow> Some (s, False)
         | Image_irregular \<Rightarrow> Some (s, True)
         | Image_regular \<Rightarrow>
             if \<not> conf then Some (s, False)
             else do {
               let s = push_text SI_FI_VERSION (firmware_version c) s;
               let s = push_text SI_FI_LEN (firmware_len c) s;
               let s = (if length (firmware_md5 c) = 32 \<or> length (firmware_md5 c) = 64
                        then push_text SI_FI_MD5 (firmware_md5 c) s else s);
               (taddr, tport) \<leftarrow> scan_locat (tftp_locat c) (tftp_addr c, tftp_port c);
               let s = push_text SI_TFTP_ADDR taddr s;
               let s = push_port SI_TFTP_PORT tport s;
               (raddr, rport) \<leftarrow> scan_locat (rept_locat c) (rept_addr c, rept_port c);
               let s = push_text SI_REPT_ADDR raddr s;
               let s = push_port SI_REPT_PORT rport s;
               Some (s, False)
             })"

text \<open>The element of the Configure Response. A lock that is held is waited for without end.\<close>

definition CWAssembleMsgSinoixVendorPayload ::
  "(nat \<Rightarrow> bool) \<Rightarrow> bool \<Rightarrow> sino_data \<Rightarrow> (CWErrorCode + cw_msg) option" where
  "CWAssembleMsgSinoixVendorPayload alloc locked sino =
     (if locked then None
      else with_message alloc (sino_packet_size (sino_buff sino)) (\<lambda>m. do {
        m \<leftarrow> CWProtocolStoreRawBytes m (sino_buff sino) (sino_packet_size (sino_buff sino));
        CWAssembleMsgElem alloc (Some m) CW_MSG_ELEMENT_VENDOR_SPEC_PAYLOAD_CW_TYPE }))"

subsection \<open>The parser of the WTP\<close>

definition maxver :: "int \<Rightarrow> int \<Rightarrow> int \<Rightarrow> int \<Rightarrow> int \<Rightarrow> int \<Rightarrow> bool" where
  "maxver a1 a2 a3 b1 b2 b3 =
     (if a1 > b1 then True
      else if a1 < b1 then False
      else if a2 > b2 then True
      else if a2 < b2 then False
      else if a3 > b3 then True
      else if a3 < b3 then False
      else False)"

text \<open>The variables the parser fills in; \<open>None\<close> is a part of the version that no one assigned.\<close>

record sino_values =
  sv_version :: "u8 list"
  sv_numbers :: "int option \<times> int option \<times> int option"
  sv_md5 :: "u8 list"
  sv_blen :: "u8 list"
  sv_flen :: int
  sv_addr :: "u8 list"
  sv_tftp_port :: int
  sv_rept_addr :: "u8 list"
  sv_rept_port :: int

text \<open>\<open>sscanf(version, "%d.%d.%d", &v1, &v2, &v3)\<close>.\<close>

definition scan_dot_int :: "u8 list \<Rightarrow> (int \<times> u8 list) option" where
  "scan_dot_int str = (case str of [] \<Rightarrow> None | c # rest \<Rightarrow> if c = 46 then scan_int rest else None)"

definition scan_version ::
  "u8 list \<Rightarrow> int option \<times> int option \<times> int option \<Rightarrow> int option \<times> int option \<times> int option" where
  "scan_version str old =
     (case scan_int str of
        None \<Rightarrow> old
      | Some (a, rest) \<Rightarrow>
          (case scan_dot_int rest of
             None \<Rightarrow> (Some a, snd old)
           | Some (b, rest) \<Rightarrow>
               (case scan_dot_int rest of
                  None \<Rightarrow> (Some a, Some b, snd (snd old))
                | Some (c, _) \<Rightarrow> (Some a, Some b, Some c))))"

text \<open>
  \<open>SINO_STRNCPY\<close> into an array of \<open>k\<close> bytes: \<open>strncpy\<close> writes \<open>dlen\<close> bytes, and the text is then
  printed up to its first zero byte, which must be in the array.
\<close>

definition copy_text :: "nat \<Rightarrow> u8 list \<Rightarrow> nat \<Rightarrow> nat \<Rightarrow> u8 list option" where
  "copy_text k buf p dlen =
     (let str = takeWhile (\<lambda>b. b \<noteq> 0) (take dlen (drop p buf))
      in if p + dlen > length buf \<and> 0 \<notin> set (drop p buf) then None
         else if dlen > k \<or> length str \<ge> k then None
         else Some str)"

text \<open>\<open>SINO_CHECK\<close> compares with the size of \<open>version\<close>, whatever the array that is filled.\<close>

definition SINO_TEXT_MAX :: nat where "SINO_TEXT_MAX = 64"

definition sino_element ::
  "u16 \<Rightarrow> nat \<Rightarrow> u8 list \<Rightarrow> nat \<Rightarrow> sino_values \<Rightarrow> (bool \<times> sino_values) option" where
  "sino_element type dlen buf p v =
     (let checked = (\<lambda>k store. if dlen > SINO_TEXT_MAX then Some (False, v)
                             else map_option (\<lambda>str. (True, store str)) (copy_text k buf p dlen))
      in if type = SI_FI_VERSION then
           checked 65 (\<lambda>str. v\<lparr>sv_version := str, sv_numbers := scan_version str (sv_numbers v)\<rparr>)
         else if type = SI_FI_MD5 then checked 65 (\<lambda>str. v\<lparr>sv_md5 := str\<rparr>)
         else if type = SI_FI_LEN then checked 11 (\<lambda>str. v\<lparr>sv_blen := str, sv_flen := atoi str\<rparr>)
         else if type = SI_TFTP_ADDR then checked 1000 (\<lambda>str. v\<lparr>sv_addr := str\<rparr>)
         else if type = SI_TFTP_PORT then checked 6 (\<lambda>str. v\<lparr>sv_tftp_port := atoi str\<rparr>)
         else if type = SI_REPT_ADDR then checked 1000 (\<lambda>str. v\<lparr>sv_rept_addr := str\<rparr>)
         else if type = SI_REPT_PORT then checked 6 (\<lambda>str. v\<lparr>sv_rept_port := atoi str\<rparr>)
         else Some (False, v))"

text \<open>The loop over the announced number of elements; a refused element is printed as text.\<close>

fun sino_elements ::
  "nat \<Rightarrow> u8 list \<Rightarrow> nat \<Rightarrow> bool \<Rightarrow> sino_values \<Rightarrow> (bool \<times> sino_values) option" where
  "sino_elements 0 buf data check v = Some (check, v)"
| "sino_elements (Suc n) buf data check v =
     (if data + 4 > length buf then None
      else
        (let type = of_be16 (take 2 (drop data buf));
             dlen = unat (of_be16 (take 2 (drop (data + 2) buf)))
         in do {
              (check, v) \<leftarrow> sino_element type dlen buf (data + 4) v;
              if \<not> check then (if 0 \<in> set (drop (data + 4) buf) then Some (False, v) else None)
              else sino_elements n buf (data + sizeof_sino_elem + dlen) True v
            }))"

text \<open>What the WTP does with the announcement: nothing, or with these values an upgrade or none.\<close>

datatype announcement = Ignored | Upgrade sino_values | No_upgrade sino_values

text \<open>
  \<open>junk\<close> is what the array \<open>buff\<close> held; \<open>maxv\<close> is the newest version on the WTP. A part of the version
  that was not assigned is not compared.
\<close>

definition CWParseVendorPayloadSinoix ::
  "u8 list \<Rightarrow> int \<times> int \<times> int \<Rightarrow> sino_values \<Rightarrow> cw_msg option \<Rightarrow> nat \<Rightarrow> (announcement \<times> cw_msg option) option" where
  "CWParseVendorPayloadSinoix junk maxv v msgPtr len =
     (case msgPtr of
        None \<Rightarrow> Some (Ignored, None)
      | Some m \<Rightarrow>
          if len > SINOIX_MAX_SIZE then Some (Ignored, Some m)
          else do {
            (bs, m) \<leftarrow> get len m;
            let buf = bs @ drop len junk;
            if of_be32 (take 4 buf) \<noteq> SI_MAGIC then Some (Ignored, Some m)
            else do {
              (check, v) \<leftarrow> sino_elements (unat (head_elems buf)) buf sizeof_sino_head False v;
              if \<not> check then Some (Ignored, Some m)
              else
                (case sv_numbers v of
                   (Some a, Some b, Some c) \<Rightarrow>
                     Some (if maxver a b c (fst maxv) (fst (snd maxv)) (snd (snd maxv))
                           then Upgrade v else No_upgrade v, Some m)
                 | _ \<Rightarrow> None)
            }
          })"

subsection \<open>Reading an announcement\<close>

lemma digit_byte:
  assumes "n < 10"
  shows "is_digit (48 + of_nat n)" and "uint (48 + of_nat n :: u8) = 48 + int n"
proof -
  have n: "unat (48 + of_nat n :: u8) = 48 + n" using assms by (simp add: unat_word_ariths unat_of_nat8)
  then show "uint (48 + of_nat n :: u8) = 48 + int n" by (metis of_nat_add of_nat_numeral uint_nat)
  from n assms show "is_digit (48 + of_nat n)" by (simp add: is_digit_def word_le_nat_alt)
qed

lemma decimal_digits: "decimal n \<noteq> [] \<and> (\<forall>d \<in> set (decimal n). is_digit d)"
proof (induction n rule: decimal.induct)
  case (1 n)
  then show ?case using digit_byte(1) [of n] digit_byte(1) [of "n mod 10"]
    by (subst (1 2) decimal.simps) auto
qed

lemma number_decimal: "number (decimal n) = int n"
proof (induction n rule: decimal.induct)
  case (1 n)
  show ?case
  proof (cases "n < 10")
    case True
    then show ?thesis using digit_byte(2) [of n] by (subst decimal.simps) (simp add: number_def)
  next
    case False
    have "number (decimal n) = 10 * number (decimal (n div 10)) + int (n mod 10)"
      using False digit_byte(2) [of "n mod 10"] by (subst decimal.simps) (simp add: number_def)
    also have "\<dots> = int n" using 1 [OF False] by (simp add: zdiv_int zmod_int)
    finally show ?thesis .
  qed
qed

lemma digit_not_space: "is_digit c \<Longrightarrow> \<not> is_space c \<and> c \<noteq> 45 \<and> c \<noteq> 43 \<and> c \<noteq> 0 \<and> c \<noteq> 46"
  by (auto simp: is_digit_def is_space_def word_le_nat_alt)

lemma scan_decimal:
  assumes "rest = [] \<or> \<not> is_digit (hd rest)"
  shows "scan_int (decimal n @ rest) = Some (int n, rest)"
proof -
  obtain c cs where c: "decimal n = c # cs" using decimal_digits [of n] by (cases "decimal n") auto
  then have "is_digit c" using decimal_digits [of n] by auto
  note plain = digit_not_space [OF this]
  have "takeWhile is_digit (decimal n @ rest) = decimal n"
    using decimal_digits [of n] assms by (subst takeWhile_append2) (auto simp: takeWhile_eq_Nil_iff)
  then show ?thesis
    using plain c number_decimal [of n] by (simp add: scan_int_def)
qed

definition text_limit :: "u16 \<Rightarrow> nat" where
  "text_limit t = (if t \<in> {SI_FI_VERSION, SI_FI_MD5, SI_TFTP_ADDR, SI_REPT_ADDR} then 64
     else if t = SI_FI_LEN then 10 else if t \<in> {SI_TFTP_PORT, SI_REPT_PORT} then 5 else 0)"

definition info_ok :: "sino_info \<Rightarrow> bool" where
  "info_ok e \<longleftrightarrow> SI_FI_VERSION \<le> fst e \<and> fst e \<le> SI_REPT_PORT \<and> length (snd e) \<le> text_limit (fst e) \<and>
     0 \<notin> set (snd e)"

definition take_info :: "sino_info \<Rightarrow> sino_values \<Rightarrow> sino_values" where
  "take_info e v =
     (if fst e = SI_FI_VERSION then v\<lparr>sv_version := snd e, sv_numbers := scan_version (snd e) (sv_numbers v)\<rparr>
      else if fst e = SI_FI_MD5 then v\<lparr>sv_md5 := snd e\<rparr>
      else if fst e = SI_FI_LEN then v\<lparr>sv_blen := snd e, sv_flen := atoi (snd e)\<rparr>
      else if fst e = SI_TFTP_ADDR then v\<lparr>sv_addr := snd e\<rparr>
      else if fst e = SI_TFTP_PORT then v\<lparr>sv_tftp_port := atoi (snd e)\<rparr>
      else if fst e = SI_REPT_ADDR then v\<lparr>sv_rept_addr := snd e\<rparr>
      else v\<lparr>sv_rept_port := atoi (snd e)\<rparr>)"

lemmas sino_types = SI_FI_VERSION_def SI_FI_MD5_def SI_FI_LEN_def SI_TFTP_ADDR_def SI_TFTP_PORT_def
  SI_REPT_ADDR_def SI_REPT_PORT_def

lemma copy_text_at:
  assumes "0 \<notin> set i" and "length i < k"
  shows "copy_text k (pre @ i @ rest) (length pre) (length i) = Some i"
proof -
  have i: "takeWhile (\<lambda>b. b \<noteq> 0) i = i" using assms(1) by (auto simp: takeWhile_eq_all_conv)
  show ?thesis using assms(2) by (simp add: copy_text_def Let_def i)
qed

lemma type_cases:
  assumes "SI_FI_VERSION \<le> t" and "t \<le> SI_REPT_PORT"
  obtains "t = SI_FI_VERSION" | "t = SI_FI_MD5" | "t = SI_FI_LEN" | "t = SI_TFTP_ADDR"
    | "t = SI_TFTP_PORT" | "t = SI_REPT_ADDR" | "t = SI_REPT_PORT"
proof -
  have t: "t = of_nat (unat t)" by simp
  have "5 \<le> unat t" "unat t \<le> 11" using assms by (simp_all add: sino_types word_le_nat_alt)
  then consider "unat t = 5" | "unat t = 6" | "unat t = 7" | "unat t = 8" | "unat t = 9" | "unat t = 10" | "unat t = 11"
    by linarith
  then show thesis by cases (use t that in \<open>simp_all add: sino_types\<close>)
qed

lemma sino_element_reads:
  assumes "info_ok (t, i)"
  shows "sino_element t (length i) (pre @ i @ rest) (length pre) v = Some (True, take_info (t, i) v)"
proof -
  from assms have "SI_FI_VERSION \<le> t" "t \<le> SI_REPT_PORT" and i: "0 \<notin> set i" "length i \<le> text_limit t"
    by (simp_all add: info_ok_def)
  from this(1,2) show ?thesis
    by (cases rule: type_cases) (use i in \<open>simp_all add: sino_element_def take_info_def text_limit_def sino_types
      SINO_TEXT_MAX_def copy_text_at\<close>)
qed

lemma elements_read:
  "\<forall>e \<in> set es. info_ok e \<Longrightarrow>
   sino_elements (length es) (pre @ info_bytes es @ rest) (length pre) c v =
     Some (c \<or> es \<noteq> [], fold take_info es v)"
proof (induction es arbitrary: pre c v)
  case (Cons e es)
  obtain t i where e: "e = (t, i)" by (cases e)
  with Cons.prems have ok: "info_ok (t, i)" by simp
  then have "length i \<le> 64" by (auto simp: info_ok_def text_limit_def split: if_split_asm)
  then have len: "unat (of_nat (length i) :: u16) = length i" by (simp add: unat_of_nat16)
  have "sino_element t (length i) (pre @ elem_bytes t i @ info_bytes es @ rest) (length pre + 4) v =
      Some (True, take_info (t, i) v)"
    using sino_element_reads [OF ok, of "pre @ be16 t @ be16 (of_nat (length i))" "info_bytes es @ rest" v]
    by (simp add: elem_bytes_def)
  moreover have "sino_elements (length es) (pre @ elem_bytes t i @ info_bytes es @ rest)
      (length pre + 4 + length i) True (take_info (t, i) v) =
      Some (True \<or> es \<noteq> [], fold take_info es (take_info (t, i) v))"
    using Cons.IH [of "pre @ elem_bytes t i" True "take_info (t, i) v"] Cons.prems by (simp add: add.assoc)
  moreover have "of_be16 (take 2 (drop (length pre) (pre @ elem_bytes t i @ info_bytes es @ rest))) = t"
    "of_be16 (take 2 (drop (length pre + 2) (pre @ elem_bytes t i @ info_bytes es @ rest))) = of_nat (length i)"
    by (simp_all add: elem_bytes_def)
  ultimately show ?case by (simp add: e len Let_def sizeof_sino_elem_def)
qed simp

subsection \<open>From the settings of the AC to the WTP\<close>

fun push_all :: "sino_info list \<Rightarrow> sino_data \<Rightarrow> sino_data" where
  "push_all [] s = s"
| "push_all (e # es) s = push_all es (snd (sino_data_push s (fst e) (snd e)))"

lemma push_all_holds:
  "sino_holds s es \<Longrightarrow> length (packet_bytes (es @ fs)) \<le> SINOIX_MAX_SIZE \<Longrightarrow> sino_holds (push_all fs s) (es @ fs)"
proof (induction fs arbitrary: s es)
  case (Cons f fs)
  have "snd (push_info es f) = es @ [f]" using Cons.prems(2) by (simp add: push_info_def)
  then have "sino_holds (snd (sino_data_push s (fst f) (snd f))) (es @ [f])"
    using push_refines [OF Cons.prems(1), of "fst f" "snd f"] by simp
  from Cons.IH [OF this] Cons.prems(2) show ?case by simp
qed simp

lemma packet_size_holds: "sino_holds s es \<Longrightarrow> sino_packet_size (sino_buff s) = length (packet_bytes es)"
proof -
  assume s: "sino_holds s es"
  then obtain rest where buf: "sino_buff s = packet_bytes es @ rest" by (rule sino_buff_split)
  from s have "length (info_bytes es) < 65536" by (simp add: sino_holds_def SINOIX_MAX_SIZE_def)
  then show ?thesis
    by (simp add: buf packet_bytes_def sino_packet_size_def sino_elem_size_def sizeof_sino_head_def unat_of_nat16)
qed

lemma payload_assembled:
  assumes "sino_holds s es"
  shows "CWAssembleMsgSinoixVendorPayload plenty False s =
    Some (Inr (elem_msg (ucast CW_MSG_ELEMENT_VENDOR_SPEC_PAYLOAD_CW_TYPE) (packet_bytes es)))"
proof -
  obtain rest where buf: "sino_buff s = packet_bytes es @ rest" using assms by (rule sino_buff_split)
  show ?thesis
    using packet_size_holds [OF assms]
    by (simp add: CWAssembleMsgSinoixVendorPayload_def buf cw_wire del: length_packet_bytes)
qed

lemma payload_read:
  assumes "length (packet_bytes es) \<le> SINOIX_MAX_SIZE" and "\<forall>e \<in> set es. info_ok e" and "es \<noteq> []"
    and "sv_numbers (fold take_info es v) = (Some a, Some b, Some c)"
  shows "CWParseVendorPayloadSinoix junk maxv v (Some (rbuf d pre (packet_bytes es @ rest))) (length (packet_bytes es)) =
    Some ((if maxver a b c (fst maxv) (fst (snd maxv)) (snd (snd maxv)) then Upgrade else No_upgrade)
            (fold take_info es v), Some (rbuf d (pre @ packet_bytes es) rest))"
proof -
  let ?h = "be32 SI_MAGIC @ be16 (of_nat (length es)) @ be16 (of_nat (length (info_bytes es)))"
  let ?junk = "drop (length (packet_bytes es)) junk"
  have P: "packet_bytes es = ?h @ info_bytes es" by (simp add: packet_bytes_def)
  have "length es < 65536" using assms(1) length_info_bytes [of es] by (simp add: SINOIX_MAX_SIZE_def)
  then have n: "unat (of_nat (length es) :: u16) = length es" by (rule unat_of_nat16)
  have "sino_elements (length es) (packet_bytes es @ ?junk) 8 False v = Some (True, fold take_info es v)"
    using elements_read [OF assms(2), of ?h ?junk False v] assms(3) by (simp add: P)
  moreover have "head_elems (packet_bytes es @ ?junk) = of_nat (length es)"
    "of_be32 (take 4 (packet_bytes es @ ?junk)) = SI_MAGIC" by (simp_all add: P)
  moreover have "get (length (packet_bytes es)) (rbuf d pre (packet_bytes es @ rest)) =
      Some (packet_bytes es, rbuf d (pre @ packet_bytes es) rest)" by (rule get_rbuf) simp
  ultimately show ?thesis
    using assms(1,4) n
    by (simp add: CWParseVendorPayloadSinoix_def sizeof_sino_head_def Let_def del: length_packet_bytes)
qed

text \<open>Settings a firmware file can have: a version, a length and a hash, the two servers with their ports.\<close>

record firmware =
  fw_version :: "nat \<times> nat \<times> nat"
  fw_len :: nat
  fw_md5 :: "u8 list"
  fw_tftp :: "u8 list \<times> nat"
  fw_rept :: "u8 list \<times> nat"

definition version_text :: "nat \<times> nat \<times> nat \<Rightarrow> u8 list" where
  "version_text v = decimal (fst v) @ 46 # decimal (fst (snd v)) @ 46 # decimal (snd (snd v))"

definition location_text :: "u8 list \<times> nat \<Rightarrow> u8 list" where
  "location_text l = fst l @ 58 # decimal (snd l)"

definition location_ok :: "u8 list \<times> nat \<Rightarrow> bool" where
  "location_ok l \<longleftrightarrow> fst l \<noteq> [] \<and> length (fst l) \<le> 64 \<and> 0 \<notin> set (fst l) \<and> 58 \<notin> set (fst l) \<and>
     0 < snd l \<and> length (decimal (snd l)) \<le> 5"

definition firmware_ok :: "firmware \<Rightarrow> bool" where
  "firmware_ok f \<longleftrightarrow> length (version_text (fw_version f)) \<le> 64 \<and> length (decimal (fw_len f)) \<le> 10 \<and>
     (length (fw_md5 f) = 32 \<or> length (fw_md5 f) = 64) \<and> 0 \<notin> set (fw_md5 f) \<and>
     location_ok (fw_tftp f) \<and> location_ok (fw_rept f)"

text \<open>The lines of the file, over the variables as they were.\<close>

definition settings_of :: "firmware \<Rightarrow> sino_settings \<Rightarrow> sino_settings" where
  "settings_of f c = c\<lparr>firmware_version := version_text (fw_version f), firmware_len := decimal (fw_len f),
     firmware_md5 := fw_md5 f, tftp_locat := location_text (fw_tftp f), rept_locat := location_text (fw_rept f)\<rparr>"

definition infos_of :: "firmware \<Rightarrow> sino_info list" where
  "infos_of f = [(SI_FI_VERSION, version_text (fw_version f)), (SI_FI_LEN, decimal (fw_len f)),
     (SI_FI_MD5, fw_md5 f), (SI_TFTP_ADDR, fst (fw_tftp f)), (SI_TFTP_PORT, decimal (snd (fw_tftp f))),
     (SI_REPT_ADDR, fst (fw_rept f)), (SI_REPT_PORT, decimal (snd (fw_rept f)))]"

definition values_of :: "firmware \<Rightarrow> sino_values" where
  "values_of f = \<lparr>sv_version = version_text (fw_version f),
     sv_numbers = (Some (int (fst (fw_version f))), Some (int (fst (snd (fw_version f)))),
                   Some (int (snd (snd (fw_version f))))),
     sv_md5 = fw_md5 f, sv_blen = decimal (fw_len f), sv_flen = int (fw_len f),
     sv_addr = fst (fw_tftp f), sv_tftp_port = int (snd (fw_tftp f)),
     sv_rept_addr = fst (fw_rept f), sv_rept_port = int (snd (fw_rept f))\<rparr>"

lemma scan_location:
  "location_ok l \<Longrightarrow> scan_locat (location_text l) ap = Some (fst l, int (snd l))"
proof -
  assume l: "location_ok l"
  then have "takeWhile (\<lambda>c. c \<noteq> 58) (location_text l) = fst l"
    unfolding location_text_def by (subst takeWhile_append2) (auto simp: location_ok_def)
  with l scan_decimal [of "[]" "snd l"] show ?thesis
    by (simp add: scan_locat_def location_ok_def) (simp add: location_text_def)
qed

lemma scan_dots:
  "scan_dot_int (46 # decimal b @ 46 # rest) = Some (int b, 46 # rest)"
  "scan_dot_int (46 # decimal c) = Some (int c, [])"
  using scan_decimal [of "46 # rest" b] scan_decimal [of "[]" c]
  by (simp_all add: scan_dot_int_def is_digit_def)

lemma scan_version_text:
  "scan_version (version_text v) old = (Some (int (fst v)), Some (int (fst (snd v))), Some (int (snd (snd v))))"
  using scan_decimal [of "46 # decimal (fst (snd v)) @ 46 # decimal (snd (snd v))" "fst v"]
  by (simp add: scan_version_def version_text_def scan_dots is_digit_def)

lemma atoi_decimal [simp]: "atoi (decimal n) = int n"
  using scan_decimal [of "[]" n] by (simp add: atoi_def)

lemma decimal_no_zero [simp]: "0 \<notin> set (decimal n)" "decimal n \<noteq> []"
  using decimal_digits [of n] digit_not_space by auto

lemma infos_ok: "firmware_ok f \<Longrightarrow> \<forall>e \<in> set (infos_of f). info_ok e"
  by (auto simp: infos_of_def info_ok_def firmware_ok_def location_ok_def text_limit_def sino_types version_text_def)

lemma infos_fit: "firmware_ok f \<Longrightarrow> length (packet_bytes (infos_of f)) \<le> 400"
  by (auto simp: infos_of_def firmware_ok_def location_ok_def)

lemma infos_taken: "fold take_info (infos_of f) v = values_of f"
  by (simp add: infos_of_def take_info_def sino_types values_of_def scan_version_text)

lemma config_holds:
  assumes "firmware_ok f"
  shows "\<exists>s'. sino_config Image_regular True (settings_of f c) s = Some (s', False) \<and> sino_holds s' (infos_of f)"
proof -
  have servers: "location_ok (fw_tftp f)" "location_ok (fw_rept f)" using assms by (simp_all add: firmware_ok_def)
  then have ports: "take 5 (decimal (snd (fw_tftp f))) = decimal (snd (fw_tftp f))"
    "take 5 (decimal (snd (fw_rept f))) = decimal (snd (fw_rept f))" by (simp_all add: location_ok_def)
  have "sino_config Image_regular True (settings_of f c) s =
      Some (push_all (infos_of f) (sino_data_head (sino_data_init s)), False)"
    using assms servers ports
    by (auto simp: sino_config_def settings_of_def scan_location [OF servers(1)] scan_location [OF servers(2)]
        firmware_ok_def Let_def push_text_def push_port_def infos_of_def version_text_def location_ok_def)
  then show ?thesis
    using push_all_holds [OF start_holds, of "infos_of f"] infos_fit [OF assms] by (simp add: SINOIX_MAX_SIZE_def)
qed

text \<open>
  C14: The buffer of the firmware announcement implements a list of typed texts. When it holds the elements
  \<open>es\<close> (the head counts them and their bytes, the bytes follow in order), \<open>sino_data_push\<close> appends the new
  element and returns its place exactly if the whole packet still fits into 2048 bytes, and otherwise returns
  nothing and changes nothing; the counters of the head stay right, and the packet size announced is the
  number of bytes held.
\<close>

theorem sino_push_appends:
  assumes "sino_holds s es"
  shows "fst (sino_data_push s t i) = fst (push_info es (t, i)) \<and>
    sino_holds (snd (sino_data_push s t i)) (snd (push_info es (t, i))) \<and>
    sino_packet_size (sino_buff (snd (sino_data_push s t i))) = length (packet_bytes (snd (push_info es (t, i))))"
  using push_refines [OF assms, of t i] packet_size_holds by blast

lemma sino_push_appends_witness:
  "sino_holds (snd (sino_data_push (sino_data_head (sino_data_init \<lparr>sino_buff = [], sino_offset = 3, sino_pos = 0\<rparr>))
     SI_FI_LEN [52, 50])) [(SI_FI_LEN, [52, 50])]"
  using sino_push_appends [OF start_holds, of \<open>\<lparr>sino_buff = [], sino_offset = 3, sino_pos = 0\<rparr>\<close> SI_FI_LEN "[52, 50]"]
  by (simp add: push_info_def SINOIX_MAX_SIZE_def)


definition sample_firmware :: firmware where
  "sample_firmware = \<lparr>fw_version = (1, 2, 10), fw_len = 4096, fw_md5 = replicate 32 97,
     fw_tftp = ([49, 46, 50], 69), fw_rept = ([119], 12345)\<rparr>"

lemma decimal_digit: "n < 10 \<Longrightarrow> decimal n = [48 + of_nat n]"
  by (subst decimal.simps) simp

lemma decimal_step: "\<not> n < 10 \<Longrightarrow> decimal n = decimal (n div 10) @ [48 + of_nat (n mod 10)]"
  by (subst decimal.simps) simp

lemma sample_firmware_ok: "firmware_ok sample_firmware"
  by (simp add: firmware_ok_def sample_firmware_def location_ok_def version_text_def decimal_step decimal_digit)


text \<open>
  The WTP checks every text against the size of the version, whatever array it fills. A length of 12 to
  64 characters or a port of 7 to 64 characters passes the check and is copied past the end of its array of
  11 or 6 bytes; the address of a server longer than 64 characters, for which the array has 1000 bytes, makes
  the whole announcement ignored.
\<close>

theorem sino_text_check_uses_one_limit:
  assumes "0 \<notin> set i" and "length i < 1000"
  shows "(t = SI_FI_LEN \<and> 12 \<le> length i \<and> length i \<le> 64 \<or>
     t \<in> {SI_TFTP_PORT, SI_REPT_PORT} \<and> 7 \<le> length i \<and> length i \<le> 64 \<longrightarrow>
     CWParseVendorPayloadSinoix junk maxv v (Some (rbuf d pre (packet_bytes [(t, i)] @ rest)))
       (length (packet_bytes [(t, i)])) = None) \<and>
    (t \<in> {SI_TFTP_ADDR, SI_REPT_ADDR} \<and> 64 < length i \<and> 0 \<in> set (drop (length (packet_bytes [(t, i)])) junk) \<longrightarrow>
     CWParseVendorPayloadSinoix junk maxv v (Some (rbuf d pre (packet_bytes [(t, i)] @ rest)))
       (length (packet_bytes [(t, i)])) =
     Some (Ignored, Some (rbuf d (pre @ packet_bytes [(t, i)]) rest)))"
proof -
  define p where "p = packet_bytes [(t, i)]"
  define j where "j = drop (length p) junk"
  have P: "p = be32 SI_MAGIC @ be16 1 @ be16 (of_nat (4 + length i)) @ be16 t @ be16 (of_nat (length i)) @ i"
    by (simp add: p_def packet_bytes_def elem_bytes_def)
  then have plen: "length p = 12 + length i" by simp
  have len: "unat (of_nat (length i) :: u16) = length i" using assms(2) by (simp add: unat_of_nat16)
  have got: "get (length p) (rbuf d pre (p @ rest)) = Some (p, rbuf d (pre @ p) rest)" by (rule get_rbuf) simp
  have head: "head_elems (p @ j) = 1" "of_be32 (take 4 (p @ j)) = SI_MAGIC" "drop 12 (p @ j) = i @ j"
    "of_be16 (take 2 (drop 8 (p @ j))) = t" "of_be16 (take 2 (drop 10 (p @ j))) = of_nat (length i)"
    unfolding P by (simp_all add: head_elems_def)
  have fields: "of_be16 (take 2 (drop 8 p)) = t" "of_be16 (take 2 (drop 10 p)) = of_nat (length i)" "drop 12 p = i"
    unfolding P by simp_all
  have copied: "copy_text k (p @ j) 12 (length i) = None" if "k < length i" for k
    using that head(3) plen by (simp add: copy_text_def)
  have one: "sino_elements 1 (p @ j) 8 False v = do {
      (check, v) \<leftarrow> sino_element t (length i) (p @ j) 12 v;
      if \<not> check then (if 0 \<in> set (i @ j) then Some (False, v) else None) else Some (True, v) }"
    using plen by (cases "sino_element t (length i) (p @ j) 12 v") (auto simp: fields len Let_def)
  have run: "CWParseVendorPayloadSinoix junk maxv v (Some (rbuf d pre (p @ rest))) (length p) = do {
      (check, v) \<leftarrow> sino_elements 1 (p @ j) 8 False v;
      if \<not> check then Some (Ignored, Some (rbuf d (pre @ p) rest))
      else (case sv_numbers v of
              (Some a, Some b, Some c) \<Rightarrow>
                Some (if maxver a b c (fst maxv) (fst (snd maxv)) (snd (snd maxv))
                      then Upgrade v else No_upgrade v, Some (rbuf d (pre @ p) rest))
            | _ \<Rightarrow> None) }"
    using got assms(2) head(1,2) plen j_def
    by (simp add: CWParseVendorPayloadSinoix_def SINOIX_MAX_SIZE_def sizeof_sino_head_def Let_def
        del: sino_elements.simps)
  show ?thesis
    unfolding p_def [symmetric] j_def [symmetric] run one using copied
    by (auto simp: sino_element_def SINO_TEXT_MAX_def sino_types)
qed

lemma sino_text_check_uses_one_limit_witness:
  "CWParseVendorPayloadSinoix [] (0, 0, 0) (values_of sample_firmware)
     (Some (rbuf None [] (packet_bytes [(SI_FI_LEN, replicate 12 49)]))) 24 = None \<and>
   CWParseVendorPayloadSinoix (replicate 2048 0) (0, 0, 0) (values_of sample_firmware)
     (Some (rbuf None [] (packet_bytes [(SI_TFTP_ADDR, replicate 65 97)]))) 77 =
     Some (Ignored, Some (rbuf None (packet_bytes [(SI_TFTP_ADDR, replicate 65 97)]) []))"
  using sino_text_check_uses_one_limit [of "replicate 12 49" SI_FI_LEN "[]" "(0, 0, 0)" "values_of sample_firmware" None "[]" "[]"]
    sino_text_check_uses_one_limit [of "replicate 65 97" SI_TFTP_ADDR "replicate 2048 0" "(0, 0, 0)"
      "values_of sample_firmware" None "[]" "[]"]
  by simp

end
