(* ===== verification/Join.thy ===== *)
theory Join
  imports AC_Responses
begin

text \<open>
  The Join state on both sides: \<open>ACJoinState.c\<close>, which parses the Join Request of a WTP, keeps what it says and
  answers, and of \<open>WTPJoinState.c\<close> the messages: the request the WTP assembles, the response it parses and what it keeps
  of it. The state function of the WTP, which sets up its socket and waits for the response, is in \<open>WTP_States\<close>.

  A structure on the stack starts unassigned: a field that holds a pointer, or a structure of pointers, is
  \<open>None\<close> until the parser assigns it, and reading it before is no result. \<open>le\<close> is the byte order of the host, \<open>locked\<close> whether a
  mutex could be taken, \<open>ac\<close> the settings of the AC.
\<close>

subsection \<open>Messages parsed from their control header on\<close>

text \<open>The header, the test of the type, and the length of the elements; the sequence number is an \<open>int\<close>.\<close>

definition open_message :: "u32 \<Rightarrow> cw_msg \<Rightarrow> (CWErrorCode + (u32 \<times> nat) \<times> cw_msg) option" where
  "open_message msgType m = do {
     r \<leftarrow> CWParseControlHeader (Some (m\<lparr>offset := 0\<rparr>));
     Some (case r of
             Inl e \<Rightarrow> Inl e
           | Inr (controlVal, m) \<Rightarrow>
               if messageTypeValue controlVal \<noteq> msgType then Inl CW_ERROR_INVALID_FORMAT
               else Inr ((ucast (seqNum controlVal),
                          unat (msgElemsLen controlVal - CW_CONTROL_HEADER_OFFSET_FOR_MSG_ELEMS)), m))
   }"

text \<open>The loop over the elements, which must end at the end of the message.\<close>

definition elements_to_end ::
  "(u16 \<Rightarrow> nat \<Rightarrow> 's \<Rightarrow> cw_msg \<Rightarrow> (CWErrorCode + 's \<times> cw_msg) option) \<Rightarrow> nat \<Rightarrow> nat \<Rightarrow> 's \<Rightarrow> cw_msg \<Rightarrow>
     (CWErrorCode + 's \<times> cw_msg) option" where
  "elements_to_end handle elemsLen len s m = do {
     r \<leftarrow> element_loop handle (int (offset m) + int elemsLen) s m;
     Some (case r of
             Inl e \<Rightarrow> Inl e
           | Inr (s, m') \<Rightarrow> if offset m' \<noteq> len then Inl CW_ERROR_INVALID_FORMAT else Inr (s, m'))
   }"

subsection \<open>The Join Request at the AC\<close>

record CWProtocolJoinRequestValues =
  jr_location :: "u8 list option option"
  jr_WTPBoardData :: "CWVendorInfoValues list option"
  jr_sessionID :: u32
  jr_WTPDescriptor :: "CWWTPDescriptor option"
  jr_addr :: sockaddr_in
  jr_name :: "u8 list option option"
  jr_frameTunnelMode :: u32
  jr_MACType :: u32

definition join_switch ::
  "(nat \<Rightarrow> bool) \<Rightarrow> bool \<Rightarrow> u16 \<Rightarrow> nat \<Rightarrow> CWProtocolJoinRequestValues \<Rightarrow> cw_msg \<Rightarrow>
     (CWErrorCode + CWProtocolJoinRequestValues \<times> cw_msg) option" where
  "join_switch alloc le elemType elemLen v m =
     (if ucast elemType = CW_MSG_ELEMENT_LOCATION_DATA_CW_TYPE then
        parse_into (CWParseLocationData alloc (Some m) elemLen) (\<lambda>s. v\<lparr>jr_location := Some s\<rparr>)
      else if ucast elemType = CW_MSG_ELEMENT_WTP_BOARD_DATA_CW_TYPE then
        parse_into (CWParseWTPBoardData alloc le (Some m) elemLen) (\<lambda>b. v\<lparr>jr_WTPBoardData := Some b\<rparr>)
      else if ucast elemType = CW_MSG_ELEMENT_SESSION_ID_CW_TYPE then
        parse_into (CWParseSessionID (Some m) elemLen) (\<lambda>i. v\<lparr>jr_sessionID := i\<rparr>)
      else if ucast elemType = CW_MSG_ELEMENT_WTP_DESCRIPTOR_CW_TYPE then
        parse_into (CWParseWTPDescriptor alloc le (Some m) elemLen) (\<lambda>d. v\<lparr>jr_WTPDescriptor := Some d\<rparr>)
      else if ucast elemType = CW_MSG_ELEMENT_WTP_IPV4_ADDRESS_CW_TYPE then
        parse_into (CWParseWTPIPv4Address le (Some m) elemLen) (\<lambda>a. v\<lparr>jr_addr := a\<rparr>)
      else if ucast elemType = CW_MSG_ELEMENT_WTP_NAME_CW_TYPE then
        parse_into (CWParseWTPName alloc (Some m) elemLen) (\<lambda>s. v\<lparr>jr_name := Some s\<rparr>)
      else if ucast elemType = CW_MSG_ELEMENT_WTP_FRAME_TUNNEL_MODE_CW_TYPE then
        parse_into (CWParseWTPFrameTunnelMode (Some m) elemLen) (\<lambda>t. v\<lparr>jr_frameTunnelMode := t\<rparr>)
      else if ucast elemType = CW_MSG_ELEMENT_WTP_MAC_TYPE_CW_TYPE then
        parse_into (CWParseWTPMACType (Some m) elemLen) (\<lambda>t. v\<lparr>jr_MACType := t\<rparr>)
      else Some (Inl CW_ERROR_INVALID_FORMAT))"

text \<open>\<open>junk\<close> is what the structure on the stack happens to hold.\<close>

definition CWParseJoinRequestMessage ::
  "(nat \<Rightarrow> bool) \<Rightarrow> bool \<Rightarrow> CWProtocolJoinRequestValues \<Rightarrow> cw_msg \<Rightarrow> nat \<Rightarrow>
     (CWErrorCode + u32 \<times> CWProtocolJoinRequestValues) option" where
  "CWParseJoinRequestMessage alloc le junk m len = do {
     r \<leftarrow> open_message CW_MSG_TYPE_VALUE_JOIN_REQUEST m;
     (case r of
        Inl e \<Rightarrow> Some (Inl e)
      | Inr ((seqValue, elemsLen), m) \<Rightarrow> do {
          r \<leftarrow> elements_to_end (join_switch alloc le) elemsLen len junk m;
          Some (map_sum id (\<lambda>(v, _). (seqValue, v)) r)
        })
   }"

definition unassigned_join :: "u32 \<Rightarrow> CWProtocolJoinRequestValues" where
  "unassigned_join garbage = \<lparr>jr_location = None, jr_WTPBoardData = None, jr_sessionID = garbage,
     jr_WTPDescriptor = None, jr_addr = \<lparr>s_addr = garbage, sin_family = unat garbage, sin_port = ucast garbage\<rparr>,
     jr_name = None, jr_frameTunnelMode = garbage, jr_MACType = garbage\<rparr>"

definition ENABLED :: u32 where "ENABLED = 1"
definition DISABLED :: u32 where "DISABLED = 2"
definition AD_NORMAL :: u32 where "AD_NORMAL = 1"
definition OP_NORMAL :: u32 where "OP_NORMAL = 0"

definition sizeof_CWWTPRadioInfoValues :: nat where "sizeof_CWWTPRadioInfoValues = 80"

definition new_radio :: "CWWTPRadioInfoValues \<Rightarrow> nat \<Rightarrow> CWWTPRadioInfoValues" where
  "new_radio junk i = junk\<lparr>radioID := of_nat i, adminState := ENABLED, adminCause := AD_NORMAL,
     operationalState := DISABLED, operationalCause := OP_NORMAL, TxQueueLevel := 0,
     wirelessLinkFramesPerSec := 0\<rparr>"

text \<open>The result, and the manager as far as it was changed.\<close>

definition CWSaveJoinRequestMessage ::
  "run_env \<Rightarrow> CWProtocolJoinRequestValues \<Rightarrow> CWWTPProtocolManager \<Rightarrow>
     ((CWErrorCode + unit) \<times> CWWTPProtocolManager) option" where
  "CWSaveJoinRequestMessage env v pm = do {
     location \<leftarrow> jr_location v;
     if location = None then Some (Inl CW_ERROR_WRONG_ARG, pm)
     else do {
       let pm = pm\<lparr>pm_locationData := location\<rparr>;
       name \<leftarrow> jr_name v;
       if name = None then Some (Inl CW_ERROR_WRONG_ARG, pm)
       else do {
         board \<leftarrow> jr_WTPBoardData v;
         descriptor \<leftarrow> jr_WTPDescriptor v;
         let count = unat (wd_radiosInUse descriptor);
         let pm = pm\<lparr>pm_name := name, pm_WTPBoardData := board, pm_sessionID := jr_sessionID v,
                     pm_ipv4Address := jr_addr v, pm_descriptor := descriptor, pm_radioCount := count,
                     pm_radiosInfo := []\<rparr>;
         if \<not> env_alloc env (sizeof_CWWTPRadioInfoValues * count) then Some (Inl CW_ERROR_OUT_OF_MEMORY, pm)
         else Some (Inr (), pm\<lparr>pm_radiosInfo := map (new_radio (env_radio env)) [0..<count]\<rparr>)
       } }
   }"

subsection \<open>The Join Response\<close>

record CWMsgElemData =
  med_type :: u32
  med_value :: u32

definition sizeof_CWMsgElemData :: nat where "sizeof_CWMsgElemData = 8"

definition join_response_element ::
  "(nat \<Rightarrow> bool) \<Rightarrow> bool \<Rightarrow> CWMsgElemData \<Rightarrow> (CWErrorCode + cw_msg) option" where
  "join_response_element alloc le d =
     (if med_type d = CW_MSG_ELEMENT_AC_IPV4_LIST_CW_TYPE then CWAssembleMsgElemACIPv4List alloc le
      else if med_type d = CW_MSG_ELEMENT_AC_IPV6_LIST_CW_TYPE then CWAssembleMsgElemACIPv6List alloc
      else if med_type d = CW_MSG_ELEMENT_RESULT_CODE_CW_TYPE then CWAssembleMsgElemResultCode alloc (med_value d)
      else Some (Inl CW_ERROR_INVALID_FORMAT))"

text \<open>An element of \<open>CWAssembleMsgElemCWControlIPv4Addresses\<close> that was left as it was has no bytes.\<close>

definition control_addresses ::
  "(CWErrorCode + cw_msg option) option \<Rightarrow> (CWErrorCode + cw_msg) option" where
  "control_addresses r = map_option (map_sum id (\<lambda>m. case m of None \<Rightarrow> wbuf 0 [] | Some m \<Rightarrow> m)) r"

definition CWAssembleJoinResponse ::
  "run_env \<Rightarrow> bool \<Rightarrow> bool \<Rightarrow> AC_globals \<Rightarrow> int \<Rightarrow> u32 \<Rightarrow> CWMsgElemData list \<Rightarrow>
     (CWErrorCode + cw_msg list) option" where
  "CWAssembleJoinResponse env le locked ac PMTU seqValue msgElemList =
     (let alloc = env_alloc env; n = length msgElemList + 3 in
      if msgElemList = [] then Some (Inl CW_ERROR_WRONG_ARG)
      else if \<not> alloc (sizeof_CWProtocolMessage * n) then Some (Inl CW_ERROR_OUT_OF_MEMORY)
      else do {
        r \<leftarrow> assemble_each (\<lambda>r. r)
               ([CWAssembleMsgElemACDescriptor alloc le locked ac, AC_CWAssembleMsgElemACName alloc ac,
                 control_addresses (CWAssembleMsgElemCWControlIPv4Addresses alloc le ac)] @
                map (join_response_element alloc le) msgElemList);
        (case r of
           Inl e \<Rightarrow> Some (Inl e)
         | Inr msgElems \<Rightarrow>
             CWAssembleMessage alloc (env_fragID env) PMTU seqValue CW_MSG_TYPE_VALUE_JOIN_RESPONSE
               (Some msgElems) n None 0 (env_crypt env))
      })"

text \<open>
  A failure to save the request only changes the result code: the session goes on to the Configure state
  all the same.
\<close>

definition ACEnterJoin ::
  "run_env \<Rightarrow> bool \<Rightarrow> bool \<Rightarrow> AC_globals \<Rightarrow> CWWTPManager \<Rightarrow> cw_msg option \<Rightarrow> run_outcome option" where
  "ACEnterJoin env le locked ac wtp msgPtr =
     (case msgPtr of
        None \<Rightarrow> Some (Returned (Inl CW_ERROR_WRONG_ARG), wtp, [])
      | Some m \<Rightarrow> do {
          r \<leftarrow> CWParseJoinRequestMessage (env_alloc env) le (unassigned_join (env_garbage env)) m (offset m);
          (case r of
             Inl e \<Rightarrow> Some (Returned (Inl e), wtp, [])
           | Inr (seqValue, joinRequest) \<Rightarrow> do {
               (saved, pm) \<leftarrow> CWSaveJoinRequestMessage env joinRequest (WTPProtocolManager wtp);
               let wtp = wtp\<lparr>currentTimer := None, WTPProtocolManager := pm\<rparr>;
               let resultCodeValue = (case saved of Inr _ \<Rightarrow> CW_PROTOCOL_SUCCESS
                                                  | Inl _ \<Rightarrow> CW_PROTOCOL_FAILURE_RES_DEPLETION);
               if \<not> env_alloc env sizeof_CWMsgElemData then Some (Returned (Inl CW_ERROR_OUT_OF_MEMORY), wtp, [])
               else do {
                 let msgElemList = snd (CWAddElementToList (env_alloc env) []
                       (Some \<lparr>med_type = CW_MSG_ELEMENT_RESULT_CODE_CW_TYPE, med_value = resultCodeValue\<rparr>));
                 r \<leftarrow> CWAssembleJoinResponse env le locked ac (pathMTU wtp) seqValue msgElemList;
                 (case r of
                    Inl e \<Rightarrow> Some (Returned (Inl e), wtp, [])
                  | Inr ps \<Rightarrow> do {
                      (r, wtp, out) \<leftarrow> CWACSendFragments env
                        (wtp\<lparr>messages := Some ps, messagesCount := length ps\<rparr>);
                      (case r of
                         Inl e \<Rightarrow> Some (Returned (Inl e), wtp, out)
                       | Inr _ \<Rightarrow> Some (Returned (Inr ()), wtp\<lparr>currentState := CW_ENTER_CONFIGURE\<rparr>, out))
                    })
               }
             })
        })"

subsection \<open>The Join Request of the WTP\<close>

definition CWAssembleJoinRequest ::
  "(nat \<Rightarrow> bool) \<Rightarrow> bool \<Rightarrow> nat \<Rightarrow> u8 list \<Rightarrow> WTP_globals \<Rightarrow> u32 \<Rightarrow> u32 \<Rightarrow> int \<Rightarrow> u32 \<Rightarrow> u32 \<Rightarrow>
     (CWErrorCode + cw_msg list) option" where
  "CWAssembleJoinRequest alloc le longsz junk g sessionID fragID PMTU seqValue crypt =
     (if \<not> alloc (sizeof_CWProtocolMessage * 8) then Some (Inl CW_ERROR_OUT_OF_MEMORY)
      else do {
        r \<leftarrow> assemble_each (\<lambda>r. r)
               [CWAssembleMsgElemLocationData alloc g, CWAssembleMsgElemWTPBoardData alloc le longsz junk,
                CWAssembleMsgElemWTPDescriptor alloc le longsz junk g, CWAssembleMsgElemWTPIPv4Address alloc le g,
                CWAssembleMsgElemWTPName alloc g, CWAssembleMsgElemSessionID alloc sessionID,
                CWAssembleMsgElemWTPFrameTunnelMode alloc, CWAssembleMsgElemWTPMACType alloc];
        (case r of
           Inl e \<Rightarrow> Some (Inl e)
         | Inr msgElems \<Rightarrow>
             CWAssembleMessage alloc fragID PMTU seqValue CW_MSG_TYPE_VALUE_JOIN_REQUEST
               (Some msgElems) 8 None 0 crypt)
      })"

subsection \<open>The Join Response at the WTP\<close>

record CWProtocolJoinResponseValues =
  jp_descriptor :: "ac_descriptor option"
  jp_name :: "u8 list option option"
  jp_IPv4Count :: nat
  jp_IPv4Addresses :: "CWProtocolIPv4NetworkInterface list"
  jp_IPv6Count :: nat
  jp_IPv6Addresses :: "CWProtocolIPv6NetworkInterface list"
  jp_ACIPv4List :: "u32 list"
  jp_ACIPv6List :: "u8 list list"
  jp_code :: u32

text \<open>Every turn of the loop empties the two lists before it looks at the element.\<close>

definition join_response_switch ::
  "(nat \<Rightarrow> bool) \<Rightarrow> bool \<Rightarrow> u16 \<Rightarrow> nat \<Rightarrow> CWProtocolJoinResponseValues \<Rightarrow> cw_msg \<Rightarrow>
     (CWErrorCode + CWProtocolJoinResponseValues \<times> cw_msg) option" where
  "join_response_switch alloc le elemType elemLen v m =
     (let v = v\<lparr>jp_ACIPv4List := [], jp_ACIPv6List := []\<rparr> in
      if ucast elemType = CW_MSG_ELEMENT_AC_DESCRIPTOR_CW_TYPE then
        parse_into (CWParseACDescriptor alloc le (Some m) elemLen) (\<lambda>d. v\<lparr>jp_descriptor := Some d\<rparr>)
      else if ucast elemType = CW_MSG_ELEMENT_AC_IPV4_LIST_CW_TYPE then
        parse_into (CWParseACIPv4List alloc (Some m) elemLen) (\<lambda>l. v\<lparr>jp_ACIPv4List := l\<rparr>)
      else if ucast elemType = CW_MSG_ELEMENT_AC_IPV6_LIST_CW_TYPE then
        parse_into (CWParseACIPv6List alloc (Some m) elemLen) (\<lambda>l. v\<lparr>jp_ACIPv6List := l\<rparr>)
      else if ucast elemType = CW_MSG_ELEMENT_RESULT_CODE_CW_TYPE then
        parse_into (CWParseResultCode (Some m) elemLen) (\<lambda>c. v\<lparr>jp_code := c\<rparr>)
      else if ucast elemType = CW_MSG_ELEMENT_AC_NAME_CW_TYPE then
        parse_into (CWParseACName alloc (Some m) elemLen) (\<lambda>s. v\<lparr>jp_name := Some s\<rparr>)
      else if ucast elemType = CW_MSG_ELEMENT_CW_CONTROL_IPV4_ADDRESS_CW_TYPE then
        skip_element elemLen (v\<lparr>jp_IPv4Count := jp_IPv4Count v + 1\<rparr>) m
      else if ucast elemType = CW_MSG_ELEMENT_CW_CONTROL_IPV6_ADDRESS_CW_TYPE then
        skip_element elemLen (v\<lparr>jp_IPv6Count := jp_IPv6Count v + 1\<rparr>) m
      else Some (Inl CW_ERROR_INVALID_FORMAT))"

text \<open>The second pass writes into arrays of the sizes counted by the first.\<close>

definition addresses_switch ::
  "(nat \<Rightarrow> bool) \<Rightarrow> bool \<Rightarrow> u16 \<Rightarrow> nat \<Rightarrow> CWProtocolJoinResponseValues \<Rightarrow> cw_msg \<Rightarrow>
     (CWErrorCode + CWProtocolJoinResponseValues \<times> cw_msg) option" where
  "addresses_switch alloc le elemType elemLen v m =
     (if ucast elemType = CW_MSG_ELEMENT_CW_CONTROL_IPV4_ADDRESS_CW_TYPE then
        (if jp_IPv4Count v \<le> length (jp_IPv4Addresses v) then None
         else parse_into (CWParseCWControlIPv4Addresses le (Some m) elemLen)
                (\<lambda>a. v\<lparr>jp_IPv4Addresses := jp_IPv4Addresses v @ [a]\<rparr>))
      else if ucast elemType = CW_MSG_ELEMENT_CW_CONTROL_IPV6_ADDRESS_CW_TYPE then
        (if jp_IPv6Count v \<le> length (jp_IPv6Addresses v) then None
         else parse_into (CWParseCWControlIPv6Addresses alloc le (Some m) elemLen)
                (\<lambda>a. v\<lparr>jp_IPv6Addresses := jp_IPv6Addresses v @ [a]\<rparr>))
      else skip_element elemLen v m)"

definition sizeof_CWProtocolIPv4NetworkInterface :: nat where
  "sizeof_CWProtocolIPv4NetworkInterface = 20"
definition sizeof_CWProtocolIPv6NetworkInterface :: nat where
  "sizeof_CWProtocolIPv6NetworkInterface = 32"

definition unassigned_join_response :: "u32 \<Rightarrow> CWProtocolJoinResponseValues" where
  "unassigned_join_response garbage = \<lparr>jp_descriptor = None, jp_name = None, jp_IPv4Count = 0,
     jp_IPv4Addresses = [], jp_IPv6Count = 0, jp_IPv6Addresses = [], jp_ACIPv4List = [], jp_ACIPv6List = [],
     jp_code = garbage\<rparr>"

definition CWParseJoinResponseMessage ::
  "(nat \<Rightarrow> bool) \<Rightarrow> bool \<Rightarrow> CWProtocolJoinResponseValues \<Rightarrow> cw_msg \<Rightarrow> nat \<Rightarrow> u32 \<Rightarrow>
     (CWErrorCode + CWProtocolJoinResponseValues) option" where
  "CWParseJoinResponseMessage alloc le junk m len seqValue = do {
     r \<leftarrow> open_message CW_MSG_TYPE_VALUE_JOIN_RESPONSE m;
     (case r of
        Inl e \<Rightarrow> Some (Inl e)
      | Inr ((n, elemsLen), m) \<Rightarrow>
          if n \<noteq> seqValue then Some (Inl CW_ERROR_INVALID_FORMAT)
          else do {
            r \<leftarrow> elements_to_end (join_response_switch alloc le) elemsLen len
                   (junk\<lparr>jp_IPv4Count := 0, jp_IPv6Count := 0\<rparr>) m;
            (case r of
               Inl e \<Rightarrow> Some (Inl e)
             | Inr (v, m') \<Rightarrow>
                 if \<not> alloc (sizeof_CWProtocolIPv4NetworkInterface * jp_IPv4Count v) \<or>
                    0 < jp_IPv6Count v \<and> \<not> alloc (sizeof_CWProtocolIPv6NetworkInterface * jp_IPv6Count v)
                 then Some (Inl CW_ERROR_OUT_OF_MEMORY)
                 else do {
                   r \<leftarrow> element_loop (addresses_switch alloc le) (int (offset m) + int elemsLen)
                          (v\<lparr>jp_IPv4Addresses := [], jp_IPv6Addresses := []\<rparr>) (m'\<lparr>offset := offset m\<rparr>);
                   Some (map_sum id fst r)
                 })
          })
   }"

text \<open>The fields of \<open>*gACInfoPtr\<close> the response sets; \<open>DTLSPolicy\<close> of the descriptor stays.\<close>

record CWACInfoValues =
  aci_descriptor :: ac_descriptor
  aci_ACIPv4List :: "u32 list"
  aci_ACIPv6List :: "u8 list list"

definition CWSaveJoinResponseMessage ::
  "CWACInfoValues option \<Rightarrow> CWProtocolJoinResponseValues \<Rightarrow>
     ((CWErrorCode + unit) \<times> CWACInfoValues option) option" where
  "CWSaveJoinResponseMessage gACInfoPtr v =
     (if jp_code v = CW_PROTOCOL_SUCCESS \<or> jp_code v = CW_PROTOCOL_SUCCESS_NAT then
        (case gACInfoPtr of
           None \<Rightarrow> Some (Inl CW_ERROR_NEED_RESOURCE, None)
         | Some ac \<Rightarrow> do {
             d \<leftarrow> jp_descriptor v;
             name \<leftarrow> jp_name v;
             let ac = ac\<lparr>aci_descriptor := d\<lparr>ad_DTLSPolicy := ad_DTLSPolicy (aci_descriptor ac)\<rparr>\<rparr>;
             let ac = (if jp_ACIPv4List v \<noteq> [] then ac\<lparr>aci_ACIPv4List := jp_ACIPv4List v\<rparr> else ac);
             let ac = (if jp_ACIPv6List v \<noteq> [] then ac\<lparr>aci_ACIPv6List := jp_ACIPv6List v\<rparr> else ac);
             Some (Inr (), Some ac)
           })
      else Some (Inl CW_ERROR_NONE, gACInfoPtr))"

subsection \<open>What the parsers find\<close>

lemma open_received:
  assumes "msg m = control_message seq type ty body es" and "length (stream ty body es) < 65536"
  shows "open_message type m = Some (Inr ((ucast (ucast seq :: u8), length (stream ty body es)),
    rbuf (data_msgType m) (take 8 (msg m)) (stream ty body es)))"
proof -
  let ?v = "\<lparr>messageTypeValue = type, seqNum = ucast seq, msgElemsLen = of_nat (length (stream ty body es))\<rparr>"
  have m: "m\<lparr>offset := 0\<rparr> = rbuf (data_msgType m) [] (control_bytes ?v @ stream ty body es)"
    using assms(1) by (simp add: rbuf_def control_message_eq)
  have "CWParseControlHeader (Some (m\<lparr>offset := 0\<rparr>)) = Some (Inr (?v\<lparr>msgElemsLen := 3 + msgElemsLen ?v\<rparr>,
      rbuf (data_msgType m) (take 8 (msg m)) (stream ty body es)))"
    unfolding m CWParseControlHeader_rbuf using assms(1) by (simp add: control_message_eq)
  then show ?thesis
    using assms(2) by (simp add: open_message_def CW_CONTROL_HEADER_OFFSET_FOR_MSG_ELEMS_def unat_of_nat16)
qed

lemma length_control_message: "length (control_message seq type ty body es) = 8 + length (stream ty body es)"
  by (simp add: control_message_eq)

context element_switch
begin

lemma reads_to_end:
  assumes "\<forall>e \<in> set es. ok e" "room es s" "len = length pre + length (stream ty body es)"
  shows "elements_to_end handle (length (stream ty body es)) len s (rbuf d pre (stream ty body es)) =
    Some (Inr (fold effect es s, rbuf d (pre @ stream ty body es) []))"
  using loop_reads [OF assms(1,2), of "int len" pre d "[]"] assms(3) by (simp add: elements_to_end_def)

end

datatype join_element = Location | Board | Descriptor | Address | Name | Session u32 | Tunnel | MAC

primrec join_type :: "join_element \<Rightarrow> u16" where
  "join_type Location = ucast CW_MSG_ELEMENT_LOCATION_DATA_CW_TYPE"
| "join_type Board = ucast CW_MSG_ELEMENT_WTP_BOARD_DATA_CW_TYPE"
| "join_type Descriptor = ucast CW_MSG_ELEMENT_WTP_DESCRIPTOR_CW_TYPE"
| "join_type Address = ucast CW_MSG_ELEMENT_WTP_IPV4_ADDRESS_CW_TYPE"
| "join_type Name = ucast CW_MSG_ELEMENT_WTP_NAME_CW_TYPE"
| "join_type (Session _) = ucast CW_MSG_ELEMENT_SESSION_ID_CW_TYPE"
| "join_type Tunnel = ucast CW_MSG_ELEMENT_WTP_FRAME_TUNNEL_MODE_CW_TYPE"
| "join_type MAC = ucast CW_MSG_ELEMENT_WTP_MAC_TYPE_CW_TYPE"

text \<open>What a WTP says of itself.\<close>

definition wtp_descriptor_of :: "bool \<Rightarrow> nat \<Rightarrow> u8 list \<Rightarrow> WTP_globals \<Rightarrow> CWWTPDescriptor" where
  "wtp_descriptor_of le longsz junk g =
     \<lparr>wd_maxRadios = 1, wd_radiosInUse = of_nat (length (gRadiosInfo g)), wd_encCapabilities = 2569,
      wd_vendorInfos = descriptor_infos le longsz junk\<rparr>"

definition wtp_address :: "bool \<Rightarrow> WTP_globals \<Rightarrow> sockaddr_in" where
  "wtp_address le g = \<lparr>s_addr = sock_ipv4 g, sin_family = AF_INET, sin_port = htons le CW_CONTROL_PORT\<rparr>"

primrec join_body :: "bool \<Rightarrow> nat \<Rightarrow> u8 list \<Rightarrow> WTP_globals \<Rightarrow> join_element \<Rightarrow> u8 list" where
  "join_body le longsz junk g Location = gWTPLocation g"
| "join_body le longsz junk g Board = be32 23456 @ infos_bytes le (Some 23456) (board_infos le longsz junk)"
| "join_body le longsz junk g Descriptor =
     (let v = wtp_descriptor_of le longsz junk g in byte_bytes (wd_maxRadios v) @ byte_bytes (wd_radiosInUse v) @
        half_bytes (wd_encCapabilities v) @ infos_bytes le None (wd_vendorInfos v))"
| "join_body le longsz junk g Address = be32 (htonl le (sock_ipv4 g))"
| "join_body le longsz junk g Name = gWTPName g"
| "join_body le longsz junk g (Session i) = be32 i"
| "join_body le longsz junk g Tunnel = byte_bytes CWWTPGetFrameTunnelMode"
| "join_body le longsz junk g MAC = byte_bytes CWWTPGetMACType"

primrec join_effect ::
  "bool \<Rightarrow> nat \<Rightarrow> u8 list \<Rightarrow> WTP_globals \<Rightarrow> join_element \<Rightarrow> CWProtocolJoinRequestValues \<Rightarrow> CWProtocolJoinRequestValues"
where
  "join_effect le longsz junk g Location v = v\<lparr>jr_location := Some (Some (gWTPLocation g))\<rparr>"
| "join_effect le longsz junk g Board v = v\<lparr>jr_WTPBoardData := Some (board_infos le longsz junk)\<rparr>"
| "join_effect le longsz junk g Descriptor v = v\<lparr>jr_WTPDescriptor := Some (wtp_descriptor_of le longsz junk g)\<rparr>"
| "join_effect le longsz junk g Address v = v\<lparr>jr_addr := wtp_address le g\<rparr>"
| "join_effect le longsz junk g Name v = v\<lparr>jr_name := Some (Some (gWTPName g))\<rparr>"
| "join_effect le longsz junk g (Session i) v = v\<lparr>jr_sessionID := i\<rparr>"
| "join_effect le longsz junk g Tunnel v = v\<lparr>jr_frameTunnelMode := CWWTPGetFrameTunnelMode\<rparr>"
| "join_effect le longsz junk g MAC v = v\<lparr>jr_MACType := CWWTPGetMACType\<rparr>"

definition wtp_ok :: "nat \<Rightarrow> u8 list \<Rightarrow> WTP_globals \<Rightarrow> bool" where
  "wtp_ok longsz junk g \<longleftrightarrow> longsz_ok longsz junk \<and> length (gRadiosInfo g) < 256 \<and>
     length (gWTPName g) < 65536 \<and> length (gWTPLocation g) < 65536"

lemmas join_types =
  CW_MSG_ELEMENT_LOCATION_DATA_CW_TYPE_def CW_MSG_ELEMENT_WTP_BOARD_DATA_CW_TYPE_def
  CW_MSG_ELEMENT_WTP_DESCRIPTOR_CW_TYPE_def CW_MSG_ELEMENT_WTP_IPV4_ADDRESS_CW_TYPE_def
  CW_MSG_ELEMENT_WTP_NAME_CW_TYPE_def CW_MSG_ELEMENT_SESSION_ID_CW_TYPE_def
  CW_MSG_ELEMENT_WTP_FRAME_TUNNEL_MODE_CW_TYPE_def CW_MSG_ELEMENT_WTP_MAC_TYPE_CW_TYPE_def

interpretation join_pass: strict_switch "join_switch plenty le" join_type "join_body le longsz junk g"
  "\<lambda>_. wtp_ok longsz junk g" "join_effect le longsz junk g" "\<lambda>_ _. True"
  "{t. ucast t \<in> {CW_MSG_ELEMENT_LOCATION_DATA_CW_TYPE, CW_MSG_ELEMENT_WTP_BOARD_DATA_CW_TYPE,
     CW_MSG_ELEMENT_SESSION_ID_CW_TYPE, CW_MSG_ELEMENT_WTP_DESCRIPTOR_CW_TYPE,
     CW_MSG_ELEMENT_WTP_IPV4_ADDRESS_CW_TYPE, CW_MSG_ELEMENT_WTP_NAME_CW_TYPE,
     CW_MSG_ELEMENT_WTP_FRAME_TUNNEL_MODE_CW_TYPE, CW_MSG_ELEMENT_WTP_MAC_TYPE_CW_TYPE}}"
  for le longsz junk g
proof
  fix e s d pre rest
  assume ok: "wtp_ok longsz junk g"
  have d: "wtp_descriptor_of le longsz junk g = \<lparr>wd_maxRadios = 1, wd_radiosInUse = of_nat (length (gRadiosInfo g)),
      wd_encCapabilities = 2569, wd_vendorInfos = descriptor_infos le longsz junk\<rparr> \<and>
      longsz_ok longsz junk \<and> length (gRadiosInfo g) < 256"
    using ok by (simp add: wtp_descriptor_of_def wtp_ok_def)
  show "join_switch plenty le (join_type e) (length (join_body le longsz junk g e)) s
      (rbuf d pre (join_body le longsz junk g e @ rest)) =
    Some (Inr (join_effect le longsz junk g e s, rbuf d (pre @ join_body le longsz junk g e) rest))"
    using ok wtp_location.parse_enc [of "Some (gWTPLocation g)" g d pre rest]
      wtp_name.parse_enc [of "Some (gWTPName g)" g d pre rest]
      wtp_board.parse_enc [of "board_infos le longsz junk" le longsz junk d pre rest]
      wtp_descriptor.parse_enc [OF d, of d pre rest]
      wtp_ipv4.parse_enc [OF refl, of le d pre g rest]
      wtp_tunnel.parse_enc [OF refl, of d pre rest] wtp_mactype.parse_enc [OF refl, of d pre rest]
    by (cases e) (simp_all add: join_switch_def join_types wtp_ok_def Let_def wtp_address_def
        CWParseSessionID_def cw_wire)
next
  fix e
  assume ok: "wtp_ok longsz junk g"
  show "length (join_body le longsz junk g e) < 65536"
    using ok infos_lengths [of longsz junk le]
    by (cases e) (auto simp: wtp_ok_def longsz_ok_def wtp_descriptor_of_def Let_def)
qed (auto simp: join_switch_def)

datatype response_element = AC_Descriptor | AC_Name | Interface net_interface | Result u32

primrec response_type :: "response_element \<Rightarrow> u16" where
  "response_type AC_Descriptor = ucast CW_MSG_ELEMENT_AC_DESCRIPTOR_CW_TYPE"
| "response_type AC_Name = ucast CW_MSG_ELEMENT_AC_NAME_CW_TYPE"
| "response_type (Interface _) = ucast CW_MSG_ELEMENT_CW_CONTROL_IPV4_ADDRESS_CW_TYPE"
| "response_type (Result _) = ucast CW_MSG_ELEMENT_RESULT_CODE_CW_TYPE"

primrec response_body :: "bool \<Rightarrow> bool \<Rightarrow> AC_globals \<Rightarrow> response_element \<Rightarrow> u8 list" where
  "response_body le locked ac AC_Descriptor =
     (let v = ac_descriptor_of le locked ac in ac_head v @ infos_bytes le None (ad_vendorInfos v))"
| "response_body le locked ac AC_Name = gACName ac"
| "response_body le locked ac (Interface i) = if4_bytes le (if4_value le ac i)"
| "response_body le locked ac (Result c) = be32 c"

primrec response_ok :: "AC_globals \<Rightarrow> response_element \<Rightarrow> bool" where
  "response_ok ac AC_Descriptor = ac_fits ac"
| "response_ok ac AC_Name = (length (gACName ac) < 65536)"
| "response_ok ac (Interface i) = (ni_WTPCount i < 65536)"
| "response_ok ac (Result c) = True"

primrec response_value ::
  "bool \<Rightarrow> bool \<Rightarrow> AC_globals \<Rightarrow> response_element \<Rightarrow> CWProtocolJoinResponseValues \<Rightarrow> CWProtocolJoinResponseValues"
where
  "response_value le locked ac AC_Descriptor v = v\<lparr>jp_descriptor := Some (ac_descriptor_of le locked ac)\<rparr>"
| "response_value le locked ac AC_Name v = v\<lparr>jp_name := Some (Some (gACName ac))\<rparr>"
| "response_value le locked ac (Interface i) v = v\<lparr>jp_IPv4Count := jp_IPv4Count v + 1\<rparr>"
| "response_value le locked ac (Result c) v = v\<lparr>jp_code := c\<rparr>"

definition response_effect ::
  "bool \<Rightarrow> bool \<Rightarrow> AC_globals \<Rightarrow> response_element \<Rightarrow> CWProtocolJoinResponseValues \<Rightarrow> CWProtocolJoinResponseValues"
where
  "response_effect le locked ac e v = response_value le locked ac e (v\<lparr>jp_ACIPv4List := [], jp_ACIPv6List := []\<rparr>)"

fun response_fill ::
  "bool \<Rightarrow> AC_globals \<Rightarrow> response_element \<Rightarrow> CWProtocolJoinResponseValues \<Rightarrow> CWProtocolJoinResponseValues" where
  "response_fill le ac (Interface i) v = v\<lparr>jp_IPv4Addresses := jp_IPv4Addresses v @ [if4_value le ac i]\<rparr>"
| "response_fill le ac _ v = v"

fun interfaces_of :: "response_element list \<Rightarrow> net_interface list" where
  "interfaces_of (Interface i # es) = i # interfaces_of es"
| "interfaces_of (_ # es) = interfaces_of es"
| "interfaces_of [] = []"

lemmas response_types =
  CW_MSG_ELEMENT_AC_DESCRIPTOR_CW_TYPE_def CW_MSG_ELEMENT_AC_IPV4_LIST_CW_TYPE_def
  CW_MSG_ELEMENT_AC_IPV6_LIST_CW_TYPE_def CW_MSG_ELEMENT_RESULT_CODE_CW_TYPE_def
  CW_MSG_ELEMENT_AC_NAME_CW_TYPE_def CW_MSG_ELEMENT_CW_CONTROL_IPV4_ADDRESS_CW_TYPE_def
  CW_MSG_ELEMENT_CW_CONTROL_IPV6_ADDRESS_CW_TYPE_def

interpretation response_pass: strict_switch "join_response_switch plenty le" response_type
  "response_body le locked ac" "response_ok ac" "response_effect le locked ac" "\<lambda>_ _. True"
  "{t. ucast t \<in> {CW_MSG_ELEMENT_AC_DESCRIPTOR_CW_TYPE, CW_MSG_ELEMENT_AC_IPV4_LIST_CW_TYPE,
     CW_MSG_ELEMENT_AC_IPV6_LIST_CW_TYPE, CW_MSG_ELEMENT_RESULT_CODE_CW_TYPE, CW_MSG_ELEMENT_AC_NAME_CW_TYPE,
     CW_MSG_ELEMENT_CW_CONTROL_IPV4_ADDRESS_CW_TYPE, CW_MSG_ELEMENT_CW_CONTROL_IPV6_ADDRESS_CW_TYPE}}"
  for le locked ac
proof
  show "response_ok ac e \<Longrightarrow> join_response_switch plenty le (response_type e)
      (length (response_body le locked ac e)) s (rbuf d pre (response_body le locked ac e @ rest)) =
    Some (Inr (response_effect le locked ac e s, rbuf d (pre @ response_body le locked ac e) rest))"
    for e s d pre rest
    using ac_descriptor_elem.parse_enc [of _ le locked ac d pre rest] ac_name.parse_enc [of _ ac d pre rest]
      skip_element_rbuf [of "response_body le locked ac e" _ d pre rest]
    by (cases e) (simp_all add: join_response_switch_def response_types Let_def response_effect_def
        CWParseResultCode_def cw_wire)
  show "response_ok ac e \<Longrightarrow> length (response_body le locked ac e) < 65536" for e
    using ac_infos_facts(4) [of le le ac]
    by (cases e) (auto simp: Let_def ac_descriptor_of_def if4_bytes_def)
qed (auto simp: join_response_switch_def Let_def)

definition response_room :: "response_element list \<Rightarrow> CWProtocolJoinResponseValues \<Rightarrow> bool" where
  "response_room es v \<longleftrightarrow> length (jp_IPv4Addresses v) + length (interfaces_of es) \<le> jp_IPv4Count v"

interpretation response_fill: element_switch "addresses_switch plenty le" response_type
  "response_body le locked ac" "response_ok ac" "response_fill le ac" response_room
  for le locked ac
proof
  show "response_ok ac e \<Longrightarrow> response_room (e # es) s \<Longrightarrow> addresses_switch plenty le (response_type e)
      (length (response_body le locked ac e)) s (rbuf d pre (response_body le locked ac e @ rest)) =
    Some (Inr (response_fill le ac e s, rbuf d (pre @ response_body le locked ac e) rest))"
    for e es s d pre rest
    using ac_control4.parse_enc [of _ le ac _ d pre rest]
      skip_element_rbuf [of "response_body le locked ac e" _ d pre rest]
    by (cases e) (simp_all add: addresses_switch_def response_types response_room_def)
  show "response_ok ac e \<Longrightarrow> response_room (e # es) s \<Longrightarrow> response_room es (response_fill le ac e s)" for e es s
    by (cases e) (auto simp: response_room_def)
qed (rule response_pass.short)

lemma fold_response_fill:
  "fold (response_fill le ac) es v =
     v\<lparr>jp_IPv4Addresses := jp_IPv4Addresses v @ map (if4_value le ac) (interfaces_of es)\<rparr>"
proof (induction es arbitrary: v)
  case (Cons e es)
  then show ?case by (cases e) simp_all
qed simp

lemma fold_response_interfaces:
  "fold (response_effect le locked ac) (map Interface is) v = (if is = [] then v else
     v\<lparr>jp_ACIPv4List := [], jp_ACIPv6List := [], jp_IPv4Count := jp_IPv4Count v + length is\<rparr>)"
  by (induction "is" arbitrary: v) (auto simp: response_effect_def)

lemma interfaces_of_simps [simp]:
  "interfaces_of (map Interface is) = is" "interfaces_of (es @ fs) = interfaces_of es @ interfaces_of fs"
  subgoal by (induction "is") auto
  subgoal by (induction es rule: interfaces_of.induct) auto
  done

text \<open>The response of the AC.\<close>

definition join_response :: "AC_globals \<Rightarrow> u32 \<Rightarrow> response_element list" where
  "join_response ac code = [AC_Descriptor, AC_Name] @ map Interface (gInterfaces ac) @ [Result code]"

definition response_values ::
  "bool \<Rightarrow> bool \<Rightarrow> AC_globals \<Rightarrow> u32 \<Rightarrow> CWProtocolJoinResponseValues \<Rightarrow> CWProtocolJoinResponseValues" where
  "response_values le locked ac code junk = junk\<lparr>jp_descriptor := Some (ac_descriptor_of le locked ac),
     jp_name := Some (Some (gACName ac)), jp_IPv4Count := length (gInterfaces ac),
     jp_IPv4Addresses := map (if4_value le ac) (gInterfaces ac), jp_IPv6Count := 0, jp_IPv6Addresses := [],
     jp_ACIPv4List := [], jp_ACIPv6List := [], jp_code := code\<rparr>"

definition ac_ok :: "AC_globals \<Rightarrow> bool" where
  "ac_ok ac \<longleftrightarrow> ac_fits ac \<and> length (gACName ac) < 65536 \<and> gInterfaces ac \<noteq> [] \<and>
     (\<forall>i \<in> set (gInterfaces ac). ni_WTPCount i < 65536)"

lemma parse_join_response:
  assumes ac: "ac_ok ac" and len: "length (stream response_type (response_body le locked ac) (join_response ac code)) < 65536"
    and m: "msg m = control_message seq CW_MSG_TYPE_VALUE_JOIN_RESPONSE response_type (response_body le locked ac)
        (join_response ac code)" and seq: "ucast (ucast seq :: u8) = seq"
  shows "CWParseJoinResponseMessage plenty le junk m (length (msg m)) seq =
    Some (Inr (response_values le locked ac code junk))"
proof -
  let ?s = "stream response_type (response_body le locked ac) (join_response ac code)"
  let ?pre = "take 8 (msg m)"
  let ?v = "fold (response_effect le locked ac) (join_response ac code) (junk\<lparr>jp_IPv4Count := 0, jp_IPv6Count := 0\<rparr>)"
  have ok: "\<forall>e \<in> set (join_response ac code). response_ok ac e"
    using ac by (auto simp: join_response_def ac_ok_def)
  have total: "length (msg m) = length ?pre + length ?s" by (simp add: m length_control_message)
  have v: "?v = (response_values le locked ac code junk)\<lparr>jp_IPv4Addresses := jp_IPv4Addresses junk,
      jp_IPv6Addresses := jp_IPv6Addresses junk\<rparr>"
    using ac by (simp add: join_response_def response_effect_def fold_response_interfaces response_values_def ac_ok_def)
  have "response_room (join_response ac code) (?v\<lparr>jp_IPv4Addresses := [], jp_IPv6Addresses := []\<rparr>)"
    unfolding v by (simp add: response_room_def join_response_def response_values_def)
  from response_fill.loop_reads [OF ok this, where d = "data_msgType m" and pre = ?pre and rest = "[]", OF refl]
  have "element_loop (addresses_switch plenty le) (int (length ?pre + length ?s))
      (?v\<lparr>jp_IPv4Addresses := [], jp_IPv6Addresses := []\<rparr>) (rbuf (data_msgType m) ?pre ?s) =
    Some (Inr (response_values le locked ac code junk, rbuf (data_msgType m) (?pre @ ?s) []))"
    unfolding v by (simp add: fold_response_fill) (simp add: join_response_def response_values_def)
  with response_pass.reads_to_end [OF ok TrueI total, of "junk\<lparr>jp_IPv4Count := 0, jp_IPv6Count := 0\<rparr>" "data_msgType m"]
  show ?thesis
    by (simp add: CWParseJoinResponseMessage_def open_received [OF m len] seq rbuf_rewind)
qed

subsection \<open>The exchange\<close>

definition join_request :: "u32 \<Rightarrow> join_element list" where
  "join_request sessionID = [Location, Board, Descriptor, Address, Name, Session sessionID, Tunnel, MAC]"

lemma assemble_join_request:
  assumes "wtp_ok longsz junk g"
  shows "CWAssembleJoinRequest plenty le longsz junk g sessionID fragID PMTU seq crypt =
    CWAssembleMessage plenty fragID PMTU seq CW_MSG_TYPE_VALUE_JOIN_REQUEST
      (Some (map (\<lambda>e. elem_msg (join_type e) (join_body le longsz junk g e)) (join_request sessionID)))
      (length (join_request sessionID)) (Some []) 0 crypt"
proof -
  have d: "wtp_descriptor_of le longsz junk g = \<lparr>wd_maxRadios = 1, wd_radiosInUse = of_nat (length (gRadiosInfo g)),
      wd_encCapabilities = 2569, wd_vendorInfos = descriptor_infos le longsz junk\<rparr> \<and>
      longsz_ok longsz junk \<and> length (gRadiosInfo g) < 256"
    using assms by (simp add: wtp_descriptor_of_def wtp_ok_def)
  have n: "length (join_request sessionID) = 8" by (simp add: join_request_def)
  show ?thesis
    unfolding n
    using assms wtp_location.assemble_enc [of "Some (gWTPLocation g)" g]
      wtp_name.assemble_enc [of "Some (gWTPName g)" g]
      wtp_board.assemble_enc [of "board_infos le longsz junk" le longsz junk]
      wtp_descriptor.assemble_enc [OF d] wtp_ipv4.assemble_enc [OF refl, of le g]
      wtp_session.assemble_enc [of sessionID]
      wtp_tunnel.assemble_enc [OF refl] wtp_mactype.assemble_enc [OF refl]
    by (simp add: CWAssembleJoinRequest_def join_request_def wtp_ok_def Let_def CWAssembleMessage_NULL
        wtp_address_def)
qed

text \<open>What the AC keeps of the WTP.\<close>

definition joined :: "bool \<Rightarrow> nat \<Rightarrow> u8 list \<Rightarrow> WTP_globals \<Rightarrow> u32 \<Rightarrow> CWWTPRadioInfoValues \<Rightarrow>
    CWWTPProtocolManager \<Rightarrow> CWWTPProtocolManager" where
  "joined le longsz junk g sessionID blank pm = pm\<lparr>pm_locationData := Some (gWTPLocation g),
     pm_name := Some (gWTPName g), pm_WTPBoardData := board_infos le longsz junk, pm_sessionID := sessionID,
     pm_ipv4Address := wtp_address le g, pm_descriptor := wtp_descriptor_of le longsz junk g,
     pm_radioCount := length (gRadiosInfo g),
     pm_radiosInfo := map (new_radio blank) [0..<length (gRadiosInfo g)]\<rparr>"

lemma parse_join_request:
  assumes ok: "wtp_ok longsz junk g"
    and len: "length (stream join_type (join_body le longsz junk g) (join_request sessionID)) < 65536"
    and m: "msg m = control_message seq CW_MSG_TYPE_VALUE_JOIN_REQUEST join_type (join_body le longsz junk g)
        (join_request sessionID)"
  shows "\<exists>v. CWParseJoinRequestMessage plenty le blank m (length (msg m)) = Some (Inr (ucast (ucast seq :: u8), v)) \<and>
    (\<forall>env pm. env_alloc env = plenty \<longrightarrow> CWSaveJoinRequestMessage env v pm =
       Some (Inr (), joined le longsz junk g sessionID (env_radio env) pm))"
proof -
  let ?s = "stream join_type (join_body le longsz junk g) (join_request sessionID)"
  have all: "\<forall>e \<in> set (join_request sessionID). wtp_ok longsz junk g" using ok by simp
  have total: "length (msg m) = length (take 8 (msg m)) + length ?s" by (simp add: m length_control_message)
  have "CWParseJoinRequestMessage plenty le blank m (length (msg m)) =
      Some (Inr (ucast (ucast seq :: u8), fold (join_effect le longsz junk g) (join_request sessionID) blank))"
    using join_pass.reads_to_end [OF all TrueI total, of blank "data_msgType m"]
    by (simp add: CWParseJoinRequestMessage_def open_received [OF m len])
  moreover have "unat (of_nat (length (gRadiosInfo g)) :: u32) = length (gRadiosInfo g)"
    using ok by (simp add: wtp_ok_def unat_of_nat)
  ultimately show ?thesis
    by (auto simp: join_request_def CWSaveJoinRequestMessage_def joined_def wtp_descriptor_of_def Let_def)
qed

lemma assemble_join_response:
  assumes "ac_ok ac" and "env_alloc env = plenty"
  shows "\<exists>es. (\<forall>m \<in> set es. msg_fits m) \<and>
    CWAssembleJoinResponse env le locked ac PMTU seq
        [\<lparr>med_type = CW_MSG_ELEMENT_RESULT_CODE_CW_TYPE, med_value = code\<rparr>] =
      CWAssembleMessage plenty (env_fragID env) PMTU seq CW_MSG_TYPE_VALUE_JOIN_RESPONSE (Some es) (length es)
        (Some []) 0 (env_crypt env) \<and>
    message_bytes seq CW_MSG_TYPE_VALUE_JOIN_RESPONSE es =
      control_message seq CW_MSG_TYPE_VALUE_JOIN_RESPONSE response_type (response_body le locked ac)
        (join_response ac code)"
proof -
  let ?t = "ucast CW_MSG_ELEMENT_CW_CONTROL_IPV4_ADDRESS_CW_TYPE :: u16"
  let ?b = "concat (map (\<lambda>i. elem_bytes ?t (if4_bytes le (if4_value le ac i))) (gInterfaces ac))"
  let ?es = "[elem_msg (ucast CW_MSG_ELEMENT_AC_DESCRIPTOR_CW_TYPE) (response_body le locked ac AC_Descriptor),
    elem_msg (ucast CW_MSG_ELEMENT_AC_NAME_CW_TYPE) (gACName ac), wbuf (length ?b) ?b,
    elem_msg (ucast CW_MSG_ELEMENT_RESULT_CODE_CW_TYPE) (be32 code)]"
  have "\<forall>i \<in> set (gInterfaces ac). control_ipv4_element plenty le ac i =
      Some (Inr (elem_msg ?t (if4_bytes le (if4_value le ac i)))) \<and> length (if4_bytes le (if4_value le ac i)) = 6"
    using assms(1) ac_control4.assemble_enc [of _ le ac] by (auto simp: if4_bytes_def ac_ok_def)
  from store_interfaces_all [OF this] assms(1) have
    "control_addresses (CWAssembleMsgElemCWControlIPv4Addresses plenty le ac) = Some (Inr (wbuf (length ?b) ?b))"
    by (simp add: CWAssembleMsgElemCWControlIPv4Addresses_def CWACGetInterfacesCount_def control_addresses_def
        ac_ok_def Let_def)
  moreover have "CWAssembleMsgElemACDescriptor plenty le locked ac = Some (Inr (?es ! 0))"
    using ac_descriptor_elem.assemble_enc [of _ le locked ac] assms(1) by (simp add: ac_ok_def Let_def)
  moreover have "AC_CWAssembleMsgElemACName plenty ac = Some (Inr (?es ! 1))"
    using ac_name.assemble_enc [of _ ac] assms(1) by (simp add: ac_ok_def)
  moreover have "CWAssembleMsgElemResultCode plenty code = Some (Inr (?es ! 3))"
    using result_code.assemble_enc by simp
  moreover have n: "length ?es = 4" by simp
  ultimately have "CWAssembleJoinResponse env le locked ac PMTU seq
        [\<lparr>med_type = CW_MSG_ELEMENT_RESULT_CODE_CW_TYPE, med_value = code\<rparr>] =
      CWAssembleMessage plenty (env_fragID env) PMTU seq CW_MSG_TYPE_VALUE_JOIN_RESPONSE (Some ?es) (length ?es)
        (Some []) 0 (env_crypt env)"
    unfolding n by (simp add: CWAssembleJoinResponse_def assms(2) join_response_element_def response_types
        CWAssembleMessage_NULL Let_def)
  moreover have "\<forall>m \<in> set ?es. msg_fits m" by (simp add: msg_fits_def)
  moreover have "message_bytes seq CW_MSG_TYPE_VALUE_JOIN_RESPONSE ?es =
      control_message seq CW_MSG_TYPE_VALUE_JOIN_RESPONSE response_type (response_body le locked ac)
        (join_response ac code)"
    by (simp add: control_message_def message_bytes_def join_response_def comp_def Let_def)
  ultimately show ?thesis by blast
qed

lemma send_fragments_all:
  assumes "nothing_fails env" "\<forall>p \<in> set ps. msg_fits p"
  shows "CWACSendFragments env (wtp\<lparr>messages := Some ps, messagesCount := length ps\<rparr>) =
    Some (Inr (), wtp\<lparr>messages := None, messagesCount := 0\<rparr>, map (\<lambda>m. Sent (contents m)) ps)"
  using assms by (simp add: CWACSendFragments_def send_packets_all nothing_fails_def)

text \<open>What the AC does with a Join Request that arrived whole.\<close>

lemma join_request_answered:
  assumes "wtp_ok longsz junk g" and "ac_ok ac" and env: "nothing_fails env" and seq: "seq < 256"
    and req: "length (stream join_type (join_body le longsz junk g) (join_request sessionID)) < 65528"
    and resp: "length (stream response_type (response_body le locked ac) (join_response ac CW_PROTOCOL_SUCCESS)) < 65528"
    and m: "msg m = control_message seq CW_MSG_TYPE_VALUE_JOIN_REQUEST join_type (join_body le longsz junk g) (join_request sessionID)"
      "offset m = length (msg m)"
  shows "answers (ACEnterJoin env le locked ac wtp (Some m))
    (wtp\<lparr>currentTimer := None, messages := None, messagesCount := 0, currentState := CW_ENTER_CONFIGURE,
         WTPProtocolManager := joined le longsz junk g sessionID (env_radio env) (WTPProtocolManager wtp)\<rparr>)
    (control_message seq CW_MSG_TYPE_VALUE_JOIN_RESPONSE response_type (response_body le locked ac)
       (join_response ac CW_PROTOCOL_SUCCESS))"
proof -
  let ?B' = "control_message seq CW_MSG_TYPE_VALUE_JOIN_RESPONSE response_type (response_body le locked ac)
    (join_response ac CW_PROTOCOL_SUCCESS)"
  have s8: "ucast (ucast seq :: u8) = seq" using seq by simp
  have alloc: "env_alloc env = plenty" and ID: "env_fragID env < 65536" using env by (simp_all add: nothing_fails_def)
  from parse_join_request [OF assms(1) _ m(1), of "unassigned_join (env_garbage env)"] req obtain v where
    v: "CWParseJoinRequestMessage plenty le (unassigned_join (env_garbage env)) m (length (msg m)) = Some (Inr (seq, v))"
      "CWSaveJoinRequestMessage env v (WTPProtocolManager wtp) =
       Some (Inr (), joined le longsz junk g sessionID (env_radio env) (WTPProtocolManager wtp))"
    using s8 alloc by fastforce
  from assemble_join_response [OF assms(2) alloc, of le locked "pathMTU wtp" seq CW_PROTOCOL_SUCCESS] obtain es where
    es: "\<forall>m \<in> set es. msg_fits m"
      "CWAssembleJoinResponse env le locked ac (pathMTU wtp) seq
         [\<lparr>med_type = CW_MSG_ELEMENT_RESULT_CODE_CW_TYPE, med_value = CW_PROTOCOL_SUCCESS\<rparr>] =
       CWAssembleMessage plenty (env_fragID env) (pathMTU wtp) seq CW_MSG_TYPE_VALUE_JOIN_RESPONSE (Some es)
         (length es) (Some []) 0 (env_crypt env)"
      "message_bytes seq CW_MSG_TYPE_VALUE_JOIN_RESPONSE es = ?B'"
    by blast
  from message_delivered [OF es(1) ID, of seq CW_MSG_TYPE_VALUE_JOIN_RESPONSE "pathMTU wtp" "env_crypt env"] resp
  obtain qs where qs: "CWAssembleMessage plenty (env_fragID env) (pathMTU wtp) seq CW_MSG_TYPE_VALUE_JOIN_RESPONSE
        (Some es) (length es) (Some []) 0 (env_crypt env) = Some (Inr qs)"
      "\<forall>p \<in> set qs. msg_fits p" "delivers (map contents qs) ?B'"
    by (auto simp: es(3) length_control_message)
  let ?w = "wtp\<lparr>currentTimer := None, WTPProtocolManager := joined le longsz junk g sessionID (env_radio env)
    (WTPProtocolManager wtp)\<rparr>"
  from v es(2) qs(1) m send_fragments_all [OF env qs(2), of ?w]
  have "ACEnterJoin env le locked ac wtp (Some m) = Some (Returned (Inr ()),
      ?w\<lparr>messages := None, messagesCount := 0, currentState := CW_ENTER_CONFIGURE\<rparr>,
      map Sent (map contents qs))"
    by (simp add: ACEnterJoin_def alloc CWAddElementToList_def comp_def)
  with qs(3) show ?thesis unfolding answers_def by (intro exI [of _ "map contents qs"]) simp
qed

text \<open>
  C20: The Join exchange works end to end. The WTP assembles a Join Request the AC receives whole; the AC keeps
  location, name, board data, descriptor, address and session identifier as the WTP holds them, with as many enabled
  radios as it has, stops the timer, answers and goes on to the Configure state; the WTP accepts the answer
  and keeps the descriptor of the AC, except for the DTLS policy. Nothing else of the session changes.
\<close>

theorem join_exchange:
  assumes "wtp_ok longsz junk g" and "ac_ok ac" and env: "nothing_fails env" and "fragID < 65536" and seq: "seq < 256"
    and req: "length (stream join_type (join_body le longsz junk g) (join_request sessionID)) < 65528"
    and resp: "length (stream response_type (response_body le locked ac) (join_response ac CW_PROTOCOL_SUCCESS)) < 65528"
  shows "\<exists>ps B. CWAssembleJoinRequest plenty le longsz junk g sessionID fragID PMTU seq crypt = Some (Inr ps) \<and>
    delivers (map contents ps) B \<and>
    (\<exists>B'. (\<forall>m. msg m = B \<and> offset m = length B \<longrightarrow>
        answers (ACEnterJoin env le locked ac wtp (Some m))
          (wtp\<lparr>currentTimer := None, messages := None, messagesCount := 0, currentState := CW_ENTER_CONFIGURE,
               WTPProtocolManager := joined le longsz junk g sessionID (env_radio env) (WTPProtocolManager wtp)\<rparr>) B') \<and>
      (\<forall>m. msg m = B' \<longrightarrow>
        CWParseJoinResponseMessage plenty le blank m (length B') seq =
          Some (Inr (response_values le locked ac CW_PROTOCOL_SUCCESS blank)))) \<and>
    CWSaveJoinResponseMessage (Some known) (response_values le locked ac CW_PROTOCOL_SUCCESS blank) =
      Some (Inr (), Some (known\<lparr>aci_descriptor := (ac_descriptor_of le locked ac)\<lparr>
        ad_DTLSPolicy := ad_DTLSPolicy (aci_descriptor known)\<rparr>\<rparr>))"
proof -
  let ?q = "map (\<lambda>e. elem_msg (join_type e) (join_body le longsz junk g e)) (join_request sessionID)"
  let ?B = "control_message seq CW_MSG_TYPE_VALUE_JOIN_REQUEST join_type (join_body le longsz junk g) (join_request sessionID)"
  let ?B' = "control_message seq CW_MSG_TYPE_VALUE_JOIN_RESPONSE response_type (response_body le locked ac)
    (join_response ac CW_PROTOCOL_SUCCESS)"
  have s8: "ucast (ucast seq :: u8) = seq" using seq by simp
  have "\<forall>m \<in> set ?q. msg_fits m" by (auto simp: msg_fits_def)
  from message_delivered [OF this assms(4), of seq CW_MSG_TYPE_VALUE_JOIN_REQUEST PMTU crypt] req
  obtain ps where ps: "CWAssembleJoinRequest plenty le longsz junk g sessionID fragID PMTU seq crypt = Some (Inr ps)"
      "delivers (map contents ps) ?B"
    by (auto simp: assemble_join_request [OF assms(1)] control_message_def [symmetric] length_control_message)
  have "answers (ACEnterJoin env le locked ac wtp (Some m))
      (wtp\<lparr>currentTimer := None, messages := None, messagesCount := 0, currentState := CW_ENTER_CONFIGURE,
           WTPProtocolManager := joined le longsz junk g sessionID (env_radio env) (WTPProtocolManager wtp)\<rparr>) ?B'"
    if "msg m = ?B" "offset m = length ?B" for m
    using join_request_answered [OF assms(1,2) env seq req resp, of m] that by simp
  moreover have "CWParseJoinResponseMessage plenty le blank m (length ?B') seq =
      Some (Inr (response_values le locked ac CW_PROTOCOL_SUCCESS blank))" if "msg m = ?B'" for m
    using parse_join_response [OF assms(2) _ that s8, of blank] resp that by simp
  moreover have "CWSaveJoinResponseMessage (Some known) (response_values le locked ac CW_PROTOCOL_SUCCESS blank) =
      Some (Inr (), Some (known\<lparr>aci_descriptor := (ac_descriptor_of le locked ac)\<lparr>
        ad_DTLSPolicy := ad_DTLSPolicy (aci_descriptor known)\<rparr>\<rparr>))"
    by (simp add: CWSaveJoinResponseMessage_def response_values_def)
  ultimately show ?thesis using ps by blast
qed

lemma join_exchange_witness:
  "\<exists>ps B B'. CWAssembleJoinRequest plenty True 4 [] sample_wtp 77 3 1400 7 0 = Some (Inr ps) \<and>
    delivers (map contents ps) B \<and>
    answers (ACEnterJoin sample_env True True sample_ac sample_session (Some (received B)))
      (sample_session\<lparr>currentTimer := None, messages := None, messagesCount := 0, currentState := CW_ENTER_CONFIGURE,
         WTPProtocolManager := joined True 4 [] sample_wtp 77 sample_radio (WTPProtocolManager sample_session)\<rparr>) B'"
proof -
  have wtp: "wtp_ok 4 [] sample_wtp" by (simp add: wtp_ok_def longsz_ok_def sample_wtp_def)
  have ac: "ac_ok sample_ac" by (simp add: ac_ok_def ac_fits_def sample_ac_def)
  have env: "nothing_fails sample_env" by (simp add: nothing_fails_def sample_env_def)
  have r: "length (stream join_type (join_body True 4 [] sample_wtp) (join_request 77)) < 65528"
    using infos_lengths [of 4 "[]" True]
    by (simp add: join_request_def sample_wtp_def longsz_ok_def wtp_descriptor_of_def Let_def)
  have s: "length (stream response_type (response_body True True sample_ac) (join_response sample_ac CW_PROTOCOL_SUCCESS)) < 65528"
    using ac_infos_facts(4) [of True True sample_ac]
    by (simp add: join_response_def ac_descriptor_of_def Let_def if4_bytes_def)
      (simp add: sample_ac_def if4_bytes_def)
  have [simp]: "env_radio sample_env = sample_radio" by (simp add: sample_env_def)
  from join_exchange [OF wtp ac env _ _ r s, where fragID = 3 and seq = 7 and PMTU = 1400 and crypt = 0
      and wtp = sample_session and blank = "unassigned_join_response 0"
      and known = "\<lparr>aci_descriptor = ac_descriptor_of True True sample_ac, aci_ACIPv4List = [], aci_ACIPv6List = []\<rparr>"]
  obtain ps B B' where "CWAssembleJoinRequest plenty True 4 [] sample_wtp 77 3 1400 7 0 = Some (Inr ps)"
    "delivers (map contents ps) B" and
    "\<forall>m. msg m = B \<and> offset m = length B \<longrightarrow> answers (ACEnterJoin sample_env True True sample_ac sample_session (Some m))
      (sample_session\<lparr>currentTimer := None, messages := None, messagesCount := 0, currentState := CW_ENTER_CONFIGURE,
         WTPProtocolManager := joined True 4 [] sample_wtp 77 sample_radio (WTPProtocolManager sample_session)\<rparr>) B'"
    by auto
  moreover have "msg (received B) = B \<and> offset (received B) = length B" by (simp add: received_def)
  ultimately show ?thesis by blast
qed

end
