(* ===== verification/Binding.thy ===== *)
theory Binding
  imports Join
begin

text \<open>
  The message elements of the 802.11 binding, QoS and OFDM (\<open>ACBinding.c\<close>, \<open>WTPBinding.c\<close>), and the
  Configuration Update Request that carries them or an order to the WTP (\<open>ACRunState.c\<close>, \<open>ACProtocol.c\<close>,
  \<open>CWVendorPayloadsAC.c\<close>).

  \<open>gDefaultQosValues\<close> is the array of the settings. A session whose \<open>qosValues\<close> points to it shares it, so what the
  AC merges into it is part of the result. The drivers of the WTP are a parameter: whether the queue accepted a
  value.
\<close>

definition BINDING_MIN_ELEM_TYPE :: u32 where "BINDING_MIN_ELEM_TYPE = 1024"
definition BINDING_MAX_ELEM_TYPE :: u32 where "BINDING_MAX_ELEM_TYPE = 2047"
definition BINDING_MSG_ELEMENT_TYPE_OFDM_CONTROL :: u32 where "BINDING_MSG_ELEMENT_TYPE_OFDM_CONTROL = 1033"
definition BINDING_MSG_ELEMENT_TYPE_WTP_QOS :: u32 where "BINDING_MSG_ELEMENT_TYPE_WTP_QOS = 1045"
definition BINDING_MSG_ELEMENT_TYPE_OFDM_CONTROL_LENGTH :: nat where
  "BINDING_MSG_ELEMENT_TYPE_OFDM_CONTROL_LENGTH = 8"
definition UNUSED_QOS_VALUE :: u32 where "UNUSED_QOS_VALUE = 255"
definition UNUSED_OFDM_VALUE :: u32 where "UNUSED_OFDM_VALUE = 255"

lemmas binding_types = BINDING_MIN_ELEM_TYPE_def BINDING_MAX_ELEM_TYPE_def
  BINDING_MSG_ELEMENT_TYPE_OFDM_CONTROL_def BINDING_MSG_ELEMENT_TYPE_WTP_QOS_def

definition CWBindingCheckType :: "u32 \<Rightarrow> bool" where
  "CWBindingCheckType elemType \<longleftrightarrow> BINDING_MIN_ELEM_TYPE \<le> elemType \<and> elemType \<le> BINDING_MAX_ELEM_TYPE"

subsection \<open>The values the AC keeps\<close>

definition default_qos :: "WTPQosValues \<Rightarrow> WTPQosValues" where
  "default_qos q = \<lparr>queueDepth = 0, cwMin = cwMin q, cwMax = cwMax q, AIFS = AIFS q, dot1PTag = 0, DSCPTag = 0\<rparr>"

definition sizeof_bindingValues :: nat where "sizeof_bindingValues = 8"
definition sizeof_WTPQosValues :: nat where "sizeof_WTPQosValues = 16"

text \<open>When the array cannot be allocated, the manager keeps a structure with a null array.\<close>

definition CWACInitBinding ::
  "(nat \<Rightarrow> bool) \<Rightarrow> WTPQosValues list \<Rightarrow> CWWTPProtocolManager \<Rightarrow> ((CWErrorCode + unit) \<times> CWWTPProtocolManager) option"
where
  "CWACInitBinding alloc gDefaultQosValues pm =
     (if \<not> alloc sizeof_bindingValues then Some (Inl CW_ERROR_OUT_OF_MEMORY, pm)
      else if \<not> alloc (sizeof_WTPQosValues * NUM_QOS_PROFILES)
      then Some (Inl CW_ERROR_OUT_OF_MEMORY, pm\<lparr>pm_bindingQos := []\<rparr>)
      else if length gDefaultQosValues < NUM_QOS_PROFILES then None
      else Some (Inr (), pm\<lparr>pm_bindingQos := map default_qos (take NUM_QOS_PROFILES gDefaultQosValues)\<rparr>))"

definition merge_qos :: "WTPQosValues \<Rightarrow> WTPQosValues \<Rightarrow> WTPQosValues" where
  "merge_qos q b = q\<lparr>cwMin := if cwMin q = UNUSED_QOS_VALUE then cwMin b else cwMin q,
                     cwMax := if cwMax q = UNUSED_QOS_VALUE then cwMax b else cwMax q,
                     AIFS := if ucast (AIFS q) = UNUSED_QOS_VALUE then AIFS b else AIFS q\<rparr>"

text \<open>The array merged into, and the array behind \<open>bindingValuesPtr\<close>.\<close>

definition CWMergeQosValues :: "WTPQosValues list \<Rightarrow> WTPQosValues list \<Rightarrow> WTPQosValues list option" where
  "CWMergeQosValues qs known =
     (if length qs < NUM_QOS_PROFILES \<or> length known < NUM_QOS_PROFILES then None
      else Some (map2 merge_qos (take NUM_QOS_PROFILES qs) known @ drop NUM_QOS_PROFILES qs))"

text \<open>
  \<open>bindingValuesPtr\<close> is read as \<open>OFDMControlValues\<close>, which the object there is not and which is larger: a
  value that is to be replaced gets no meaning.
\<close>

definition CWMergeOFDMValues :: "OFDMControlValues option \<Rightarrow> OFDMControlValues option" where
  "CWMergeOFDMValues v = do {
     v \<leftarrow> v;
     if currentChan v = UNUSED_OFDM_VALUE \<or> ucast (BandSupport v) = UNUSED_OFDM_VALUE \<or>
        TIThreshold v = UNUSED_OFDM_VALUE
     then None else Some v
   }"

subsection \<open>The elements\<close>

definition CWAssembleWTPOFDM ::
  "(nat \<Rightarrow> bool) \<Rightarrow> u32 \<Rightarrow> OFDMControlValues option \<Rightarrow> (OFDMControlValues option \<times> (CWErrorCode + cw_msg)) option" where
  "CWAssembleWTPOFDM alloc radio vp = do {
     v \<leftarrow> CWMergeOFDMValues vp;
     r \<leftarrow> with_message alloc BINDING_MSG_ELEMENT_TYPE_OFDM_CONTROL_LENGTH (\<lambda>m. do {
       m \<leftarrow> CWProtocolStore8 m (ucast radio);
       m \<leftarrow> CWProtocolStore32 m (currentChan v);
       m \<leftarrow> CWProtocolStore8 m (BandSupport v);
       m \<leftarrow> CWProtocolStore32 m (TIThreshold v);
       CWAssembleMsgElem alloc (Some m) BINDING_MSG_ELEMENT_TYPE_OFDM_CONTROL });
     Some (Some v, r)
   }"

fun store_qos :: "WTPQosValues list \<Rightarrow> cw_msg \<Rightarrow> cw_msg option" where
  "store_qos [] m = Some m"
| "store_qos (q # qs) m = do {
     m \<leftarrow> CWProtocolStore8 m (queueDepth q);
     m \<leftarrow> CWProtocolStore16 m (ucast (cwMin q));
     m \<leftarrow> CWProtocolStore16 m (ucast (cwMax q));
     m \<leftarrow> CWProtocolStore8 m (AIFS q);
     m \<leftarrow> CWProtocolStore8 m (dot1PTag q);
     m \<leftarrow> CWProtocolStore8 m (DSCPTag q);
     store_qos qs m }"

text \<open>The array of the session (null, or shared with the settings) as it is after the merge, and the element.\<close>

definition CWAssembleWTPQoS ::
  "(nat \<Rightarrow> bool) \<Rightarrow> WTPQosValues list \<Rightarrow> u32 \<Rightarrow> u8 \<Rightarrow> WTPQosValues list option \<Rightarrow>
     (WTPQosValues list option \<times> (CWErrorCode + cw_msg)) option" where
  "CWAssembleWTPQoS alloc known radio tagPackets qp = do {
     qs \<leftarrow> qp;
     qs \<leftarrow> CWMergeQosValues qs known;
     r \<leftarrow> with_message alloc 34 (\<lambda>m. do {
       m \<leftarrow> CWProtocolStore8 m (ucast radio);
       m \<leftarrow> CWProtocolStore8 m tagPackets;
       m \<leftarrow> store_qos (take NUM_QOS_PROFILES qs) m;
       CWAssembleMsgElem alloc (Some m) BINDING_MSG_ELEMENT_TYPE_WTP_QOS });
     Some (Some qs, r)
   }"

text \<open>
  One element per radio. \<open>*msgElems[++k]\<close> is the array of the caller for \<open>k = 0\<close> only: for the second
  radio it is whatever lies behind the caller's pointer.
\<close>

definition binding_elements ::
  "(u32 \<Rightarrow> 'q \<Rightarrow> ('q \<times> (CWErrorCode + cw_msg)) option) \<Rightarrow> CWWTPRadioInfoValues list \<Rightarrow> nat \<Rightarrow> 'q \<Rightarrow>
     ('q \<times> (CWErrorCode + cw_msg list)) option" where
  "binding_elements assemble radios radioCount q =
     (if radioCount = 0 then Some (q, Inr [])
      else
        (case radios of
           [] \<Rightarrow> None
         | r # _ \<Rightarrow> do {
             (q, res) \<leftarrow> assemble (radioID r) q;
             (case res of
                Inl e \<Rightarrow> Some (q, Inl e)
              | Inr m \<Rightarrow> if radioCount > 1 then None else Some (q, Inr [m]))
           }))"

text \<open>\<open>qosValues\<close> points to the settings while the elements are assembled, and still does when that fails.\<close>

definition CWBindingAssembleConfigureResponse ::
  "(nat \<Rightarrow> bool) \<Rightarrow> WTPQosValues list \<Rightarrow> CWWTPManager \<Rightarrow>
     (WTPQosValues list \<times> CWWTPManager \<times> (CWErrorCode + cw_msg list)) option" where
  "CWBindingAssembleConfigureResponse alloc gDefaultQosValues wtp =
     (let pm = WTPProtocolManager wtp in
      if \<not> alloc (sizeof_CWProtocolMessage * pm_radioCount pm)
      then Some (gDefaultQosValues, wtp, Inl CW_ERROR_OUT_OF_MEMORY)
      else do {
        (qp, r) \<leftarrow> binding_elements (\<lambda>radio. CWAssembleWTPQoS alloc (pm_bindingQos pm) radio 0)
                    (pm_radiosInfo pm) (pm_radioCount pm) (Some gDefaultQosValues);
        qs \<leftarrow> qp;
        (case r of
           Inl e \<Rightarrow> Some (qs, wtp\<lparr>qosValues := Some qs\<rparr>, Inl e)
         | Inr ms \<Rightarrow> Some (qs, wtp\<lparr>qosValues := None\<rparr>, Inr ms))
      })"

definition CWBindingAssembleConfigurationUpdateRequest ::
  "(nat \<Rightarrow> bool) \<Rightarrow> CWWTPManager \<Rightarrow> u32 \<Rightarrow> (CWWTPManager \<times> (CWErrorCode + cw_msg list)) option" where
  "CWBindingAssembleConfigurationUpdateRequest alloc wtp BindingMsgElement =
     (let pm = WTPProtocolManager wtp in
      if \<not> alloc (sizeof_CWProtocolMessage * pm_radioCount pm) then Some (wtp, Inl CW_ERROR_OUT_OF_MEMORY)
      else if BindingMsgElement = BINDING_MSG_ELEMENT_TYPE_WTP_QOS then do {
        (qp, r) \<leftarrow> binding_elements (\<lambda>radio. CWAssembleWTPQoS alloc (pm_bindingQos pm) radio 0)
                    (pm_radiosInfo pm) (pm_radioCount pm) (qosValues wtp);
        Some (wtp\<lparr>qosValues := qp\<rparr>, r) }
      else if BindingMsgElement = BINDING_MSG_ELEMENT_TYPE_OFDM_CONTROL then do {
        (vp, r) \<leftarrow> binding_elements (CWAssembleWTPOFDM alloc) (pm_radiosInfo pm) (pm_radioCount pm) (ofdmValues wtp);
        Some (wtp\<lparr>ofdmValues := vp\<rparr>, r) }
      else Some (wtp, Inl CW_ERROR_NONE))"

subsection \<open>Orders to the WTP\<close>

definition CWAssembleWTPVendorPayloadUCI ::
  "(nat \<Rightarrow> bool) \<Rightarrow> vendor_order option \<Rightarrow> (CWErrorCode + cw_msg) option" where
  "CWAssembleWTPVendorPayloadUCI alloc valuesPtr = do {
     order \<leftarrow> valuesPtr;
     (case order of
        Wum_order _ \<Rightarrow> Some (Inl CW_ERROR_NONE)
      | Uci_order uci \<Rightarrow>
          (let args = (case uci_commandArgs uci of None \<Rightarrow> [] | Some bs \<Rightarrow> bs)
           in with_message alloc (7 + length args) (\<lambda>m. do {
                m \<leftarrow> CWProtocolStore16 m CW_MSG_ELEMENT_VENDOR_SPEC_PAYLOAD_UCI;
                m \<leftarrow> CWProtocolStore8 m (uci_command uci);
                m \<leftarrow> CWProtocolStore32 m (of_nat (length args));
                m \<leftarrow> CWProtocolStoreStr m args;
                CWAssembleMsgElem alloc (Some m) CW_MSG_ELEMENT_VENDOR_SPEC_PAYLOAD_CW_TYPE })))
   }"

definition WTP_VERSION_REQUEST :: u8 where "WTP_VERSION_REQUEST = 1"
definition WTP_UPDATE_REQUEST :: u8 where "WTP_UPDATE_REQUEST = 3"
definition WTP_CUP_FRAGMENT :: u8 where "WTP_CUP_FRAGMENT = 5"
definition WTP_COMMIT_UPDATE :: u8 where "WTP_COMMIT_UPDATE = 7"
definition WTP_CANCEL_UPDATE_REQUEST :: u8 where "WTP_CANCEL_UPDATE_REQUEST = 9"

definition wum_size :: "CWVendorWumValues \<Rightarrow> nat option" where
  "wum_size w =
     (if wum_type w \<in> {WTP_VERSION_REQUEST, WTP_COMMIT_UPDATE, WTP_CANCEL_UPDATE_REQUEST} then Some 3
      else if wum_type w = WTP_UPDATE_REQUEST then Some 10
      else if wum_type w = WTP_CUP_FRAGMENT then Some (11 + unat (wum_cup_fragment_size w))
      else None)"

text \<open>A fragment of the update is freed once it is stored, so the order can be assembled once only.\<close>

definition CWAssembleWTPVendorPayloadWUM ::
  "(nat \<Rightarrow> bool) \<Rightarrow> vendor_order option \<Rightarrow> (vendor_order option \<times> (CWErrorCode + cw_msg)) option" where
  "CWAssembleWTPVendorPayloadWUM alloc valuesPtr = do {
     order \<leftarrow> valuesPtr;
     (case order of
        Uci_order _ \<Rightarrow> Some (valuesPtr, Inl CW_ERROR_NONE)
      | Wum_order w \<Rightarrow>
          (case wum_size w of
             None \<Rightarrow> Some (valuesPtr, Inl CW_ERROR_NONE)
           | Some n \<Rightarrow>
               do {
                 r \<leftarrow> with_message alloc n (\<lambda>m. do {
                   m \<leftarrow> CWProtocolStore16 m CW_MSG_ELEMENT_VENDOR_SPEC_PAYLOAD_WUM;
                   m \<leftarrow> CWProtocolStore8 m (wum_type w);
                   m \<leftarrow> (if wum_type w = WTP_UPDATE_REQUEST then do {
                           m \<leftarrow> CWProtocolStore8 m (wum_major_v w);
                           m \<leftarrow> CWProtocolStore8 m (wum_minor_v w);
                           m \<leftarrow> CWProtocolStore8 m (wum_revision_v w);
                           CWProtocolStore32 m (wum_pack_size w) }
                         else if wum_type w = WTP_CUP_FRAGMENT then do {
                           m \<leftarrow> CWProtocolStore32 m (wum_seq_num w);
                           m \<leftarrow> CWProtocolStore32 m (wum_cup_fragment_size w);
                           cup \<leftarrow> wum_cup w;
                           CWProtocolStoreRawBytes m cup (unat (wum_cup_fragment_size w)) }
                         else Some m);
                   CWAssembleMsgElem alloc (Some m) CW_MSG_ELEMENT_VENDOR_SPEC_PAYLOAD_CW_TYPE });
                 Some (if alloc n \<and> wum_type w = WTP_CUP_FRAGMENT
                       then Some (Wum_order (w\<lparr>wum_cup := None\<rparr>)) else valuesPtr, r)
               }))
   }"

definition CWProtocolAssembleConfigurationUpdateRequest ::
  "(nat \<Rightarrow> bool) \<Rightarrow> vendor_order option \<Rightarrow> u16 \<Rightarrow> (vendor_order option \<times> (CWErrorCode + cw_msg list)) option" where
  "CWProtocolAssembleConfigurationUpdateRequest alloc order MsgElementType =
     (if \<not> alloc sizeof_CWProtocolMessage then Some (order, Inl CW_ERROR_OUT_OF_MEMORY)
      else if MsgElementType = CW_MSG_ELEMENT_VENDOR_SPEC_PAYLOAD_UCI then do {
        r \<leftarrow> CWAssembleWTPVendorPayloadUCI alloc order;
        Some (order, map_sum id (\<lambda>m. [m]) r) }
      else if MsgElementType = CW_MSG_ELEMENT_VENDOR_SPEC_PAYLOAD_WUM then do {
        (order, r) \<leftarrow> CWAssembleWTPVendorPayloadWUM alloc order;
        Some (order, map_sum id (\<lambda>m. [m]) r) }
      else Some (order, Inl CW_ERROR_NONE))"

definition CONFIG_UPDATE_REQ_QOS_ELEMENT_TYPE :: nat where "CONFIG_UPDATE_REQ_QOS_ELEMENT_TYPE = 0"
definition CONFIG_UPDATE_REQ_OFDM_ELEMENT_TYPE :: nat where "CONFIG_UPDATE_REQ_OFDM_ELEMENT_TYPE = 1"
definition CONFIG_UPDATE_REQ_VENDOR_UCI_ELEMENT_TYPE :: nat where "CONFIG_UPDATE_REQ_VENDOR_UCI_ELEMENT_TYPE = 2"
definition CONFIG_UPDATE_REQ_VENDOR_WUM_ELEMENT_TYPE :: nat where "CONFIG_UPDATE_REQ_VENDOR_WUM_ELEMENT_TYPE = 3"

lemmas update_elements = CONFIG_UPDATE_REQ_QOS_ELEMENT_TYPE_def CONFIG_UPDATE_REQ_OFDM_ELEMENT_TYPE_def
  CONFIG_UPDATE_REQ_VENDOR_UCI_ELEMENT_TYPE_def CONFIG_UPDATE_REQ_VENDOR_WUM_ELEMENT_TYPE_def

text \<open>The session, and the elements of the protocol and of the binding, or the error of the caller's step.\<close>

definition update_request_elements ::
  "(nat \<Rightarrow> bool) \<Rightarrow> CWWTPManager \<Rightarrow> nat \<Rightarrow> (CWWTPManager \<times> (CWErrorCode + cw_msg list \<times> cw_msg list)) option" where
  "update_request_elements alloc wtp msgElement =
     (if msgElement = CONFIG_UPDATE_REQ_QOS_ELEMENT_TYPE then do {
        (wtp, r) \<leftarrow> CWBindingAssembleConfigurationUpdateRequest alloc wtp BINDING_MSG_ELEMENT_TYPE_WTP_QOS;
        Some (wtp, map_sum id (Pair []) r) }
      else if msgElement = CONFIG_UPDATE_REQ_OFDM_ELEMENT_TYPE then do {
        (wtp, r) \<leftarrow> CWBindingAssembleConfigurationUpdateRequest alloc wtp BINDING_MSG_ELEMENT_TYPE_OFDM_CONTROL;
        Some (wtp, map_sum id (Pair []) r) }
      else if msgElement = CONFIG_UPDATE_REQ_VENDOR_UCI_ELEMENT_TYPE then do {
        (order, r) \<leftarrow> CWProtocolAssembleConfigurationUpdateRequest alloc (vendorValues wtp)
                       CW_MSG_ELEMENT_VENDOR_SPEC_PAYLOAD_UCI;
        Some (wtp\<lparr>vendorValues := order\<rparr>, map_sum id (\<lambda>ms. (ms, [])) r) }
      else if msgElement = CONFIG_UPDATE_REQ_VENDOR_WUM_ELEMENT_TYPE then do {
        (order, r) \<leftarrow> CWProtocolAssembleConfigurationUpdateRequest alloc (vendorValues wtp)
                       CW_MSG_ELEMENT_VENDOR_SPEC_PAYLOAD_WUM;
        Some (wtp\<lparr>vendorValues := order\<rparr>, map_sum id (\<lambda>ms. (ms, [])) r) }
      else Some (wtp, Inr ([], [])))"

definition CWAssembleConfigurationUpdateRequest ::
  "run_env \<Rightarrow> CWWTPManager \<Rightarrow> u32 \<Rightarrow> nat \<Rightarrow> (CWWTPManager \<times> (CWErrorCode + unit)) option" where
  "CWAssembleConfigurationUpdateRequest env wtp seqValue msgElement = do {
     (wtp, r) \<leftarrow> update_request_elements (env_alloc env) wtp msgElement;
     (case r of
        Inl e \<Rightarrow> Some (wtp, Inl e)
      | Inr (msgElems, msgElemsBinding) \<Rightarrow> do {
          r \<leftarrow> CWAssembleMessage (env_alloc env) (env_fragID env) (pathMTU wtp) seqValue
                 CW_MSG_TYPE_VALUE_CONFIGURE_UPDATE_REQUEST (Some msgElems) (length msgElems)
                 (Some msgElemsBinding) (length msgElemsBinding) (env_crypt env);
          (case r of
             Inl e \<Rightarrow> Some (wtp, Inl e)
           | Inr ps \<Rightarrow> Some (wtp\<lparr>messages := Some ps, messagesCount := length ps\<rparr>, Inr ()))
        })
   }"

subsection \<open>The WTP\<close>

definition VOICE_QUEUE_INDEX :: nat where "VOICE_QUEUE_INDEX = 0"
definition VIDEO_QUEUE_INDEX :: nat where "VIDEO_QUEUE_INDEX = 1"
definition BACKGROUND_QUEUE_INDEX :: nat where "BACKGROUND_QUEUE_INDEX = 3"

definition CWTranslateQueueIndex :: "nat \<Rightarrow> nat" where
  "CWTranslateQueueIndex j =
     (if j = VOICE_QUEUE_INDEX then 3 else if j = VIDEO_QUEUE_INDEX then 2
      else if j = BACKGROUND_QUEUE_INDEX then 1 else 0)"

record RadioQosValues =
  rq_radioID :: u8
  rq_qosValues :: "WTPQosValues list"

fun retrieve_qos :: "nat \<Rightarrow> cw_msg \<Rightarrow> (WTPQosValues list \<times> cw_msg) option" where
  "retrieve_qos 0 m = Some ([], m)"
| "retrieve_qos (Suc n) m = do {
     (depth, m) \<leftarrow> CWProtocolRetrieve8 m;
     (lo, m) \<leftarrow> CWProtocolRetrieve16 m;
     (hi, m) \<leftarrow> CWProtocolRetrieve16 m;
     (aifs, m) \<leftarrow> CWProtocolRetrieve8 m;
     (tag, m) \<leftarrow> CWProtocolRetrieve8 m;
     (dscp, m) \<leftarrow> CWProtocolRetrieve8 m;
     (qs, m) \<leftarrow> retrieve_qos n m;
     Some (\<lparr>queueDepth = depth, cwMin = ucast lo, cwMax = ucast hi, AIFS = aifs, dot1PTag = tag, DSCPTag = dscp\<rparr> # qs, m)
   }"

definition CWParseWTPQoS ::
  "cw_msg option \<Rightarrow> nat \<Rightarrow> (CWErrorCode + (RadioQosValues \<times> u8) \<times> cw_msg) option" where
  "CWParseWTPQoS = CWParseMessageElement (\<lambda>m. do {
     (radio, m) \<leftarrow> CWProtocolRetrieve8 m;
     (tagPackets, m) \<leftarrow> CWProtocolRetrieve8 m;
     (qs, m) \<leftarrow> retrieve_qos NUM_QOS_PROFILES m;
     Some (Inr ((\<lparr>rq_radioID = radio, rq_qosValues = qs\<rparr>, tagPackets), m)) })"

definition CWParseWTPOFDM ::
  "cw_msg option \<Rightarrow> nat \<Rightarrow> (CWErrorCode + (u8 \<times> OFDMControlValues) \<times> cw_msg) option" where
  "CWParseWTPOFDM = CWParseMessageElement (\<lambda>m. do {
     (radio, m) \<leftarrow> CWProtocolRetrieve8 m;
     (chan, m) \<leftarrow> CWProtocolRetrieve32 m;
     (band, m) \<leftarrow> CWProtocolRetrieve8 m;
     (thr, m) \<leftarrow> CWProtocolRetrieve32 m;
     Some (Inr ((radio, \<lparr>currentChan = chan, BandSupport = band, TIThreshold = thr\<rparr>), m)) })"

text \<open>A radio as the binding sees it: its identifier and the values its driver was last given.\<close>

record binding_radio =
  br_radioID :: u32
  br_qosValues :: "WTPQosValues list"

record qos_driver =
  driver_socket :: bool
  set_cwmin :: "nat \<Rightarrow> u32 \<Rightarrow> bool"
  set_cwmax :: "nat \<Rightarrow> u32 \<Rightarrow> bool"
  set_aifs :: "nat \<Rightarrow> u8 \<Rightarrow> bool"

text \<open>One queue: a value that differs is given to the driver, and kept if the driver takes it.\<close>

definition set_queue :: "qos_driver \<Rightarrow> nat \<Rightarrow> WTPQosValues \<Rightarrow> WTPQosValues \<times> u32 \<Rightarrow> WTPQosValues \<times> u32" where
  "set_queue drv j v = (\<lambda>(aux, code).
     (let q = CWTranslateQueueIndex j;
          (aux, code) = (if cwMin aux = cwMin v then (aux, code)
                         else if set_cwmin drv q (cwMin v) then (aux\<lparr>cwMin := cwMin v\<rparr>, code)
                         else (aux, CW_PROTOCOL_FAILURE));
          (aux, code) = (if cwMax aux = cwMax v then (aux, code)
                         else if set_cwmax drv q (cwMax v) then (aux\<lparr>cwMax := cwMax v\<rparr>, code)
                         else (aux, CW_PROTOCOL_FAILURE))
      in if AIFS aux = AIFS v then (aux, code)
         else if set_aifs drv q (AIFS v) then (aux\<lparr>AIFS := AIFS v\<rparr>, code)
         else (aux, CW_PROTOCOL_FAILURE)))"

text \<open>The queues from \<open>j\<close> on; both arrays must have them.\<close>

fun set_queues ::
  "qos_driver \<Rightarrow> nat \<Rightarrow> nat \<Rightarrow> WTPQosValues list \<Rightarrow> WTPQosValues list \<Rightarrow> u32 \<Rightarrow> (WTPQosValues list \<times> u32) option" where
  "set_queues drv 0 j vs auxs code = Some (auxs, code)"
| "set_queues drv (Suc n) j (v # vs) (aux # auxs) code =
     (let (aux, code) = set_queue drv j v (aux, code)
      in map_option (map_prod ((#) aux) id) (set_queues drv n (Suc j) vs auxs code))"
| "set_queues drv (Suc n) j _ _ code = None"

text \<open>The first radio with the identifier.\<close>

fun set_radio ::
  "qos_driver \<Rightarrow> RadioQosValues \<Rightarrow> binding_radio list \<Rightarrow> u32 \<Rightarrow> (binding_radio list \<times> u32) option" where
  "set_radio drv v [] code = Some ([], code)"
| "set_radio drv v (r # rs) code =
     (if ucast (rq_radioID v) = br_radioID r then do {
        (qs, code) \<leftarrow> set_queues drv NUM_QOS_PROFILES 0 (rq_qosValues v) (br_qosValues r) code;
        Some (r\<lparr>br_qosValues := qs\<rparr> # rs, code) }
      else map_option (map_prod ((#) r) id) (set_radio drv v rs code))"

fun set_radios ::
  "qos_driver \<Rightarrow> RadioQosValues list \<Rightarrow> binding_radio list \<Rightarrow> u32 \<Rightarrow> (binding_radio list \<times> u32) option" where
  "set_radios drv [] radios code = Some (radios, code)"
| "set_radios drv (v # vs) radios code = do {
     (radios, code) \<leftarrow> set_radio drv v radios code;
     set_radios drv vs radios code }"

text \<open>The result code is left as it was when there is nothing to set.\<close>

definition CWBindingSetQosValues ::
  "qos_driver \<Rightarrow> RadioQosValues list \<Rightarrow> binding_radio list \<Rightarrow> u32 \<Rightarrow> ((CWErrorCode + u32) \<times> binding_radio list) option"
where
  "CWBindingSetQosValues drv vs radios resultCode =
     (if vs = [] then Some (Inr resultCode, radios)
      else if \<not> driver_socket drv then Some (Inl CW_ERROR_GENERAL, radios)
      else do {
        (radios, code) \<leftarrow> set_radios drv vs radios CW_PROTOCOL_SUCCESS;
        Some (Inr code, radios) })"

definition CWBindingSaveConfigureResponse ::
  "qos_driver \<Rightarrow> RadioQosValues list \<Rightarrow> binding_radio list \<Rightarrow> ((CWErrorCode + u32) \<times> binding_radio list) option" where
  "CWBindingSaveConfigureResponse drv vs radios = CWBindingSetQosValues drv vs radios CW_PROTOCOL_SUCCESS"

subsection \<open>The binding elements of the Configure Response\<close>

text \<open>
  The parsers are given the elements of the whole message, at the start of a buffer of their own. An
  element of the binding that is not known, or one that does not parse, makes them free the pointer of the caller,
  which \<open>malloc\<close> never returned: no result.
\<close>

definition no_result_on_error :: "(CWErrorCode + 'a) option \<Rightarrow> (CWErrorCode + 'a) option" where
  "no_result_on_error r = (case r of Some (Inl e) \<Rightarrow> None | _ \<Rightarrow> r)"

definition binding_count_switch ::
  "u16 \<Rightarrow> nat \<Rightarrow> nat \<Rightarrow> cw_msg \<Rightarrow> (CWErrorCode + nat \<times> cw_msg) option" where
  "binding_count_switch elemType elemLen qosCount m =
     (if ucast elemType = BINDING_MSG_ELEMENT_TYPE_WTP_QOS then skip_element elemLen (qosCount + 1) m
      else if CWBindingCheckType (ucast elemType) then None
      else skip_element elemLen qosCount m)"

definition binding_fill_switch ::
  "nat \<Rightarrow> u16 \<Rightarrow> nat \<Rightarrow> RadioQosValues list \<Rightarrow> cw_msg \<Rightarrow> (CWErrorCode + RadioQosValues list \<times> cw_msg) option" where
  "binding_fill_switch qosCount elemType elemLen vs m =
     (if ucast elemType = BINDING_MSG_ELEMENT_TYPE_WTP_QOS then
        (if length vs \<ge> qosCount then None
         else no_result_on_error (parse_into (CWParseWTPQoS (Some m) elemLen) (\<lambda>(v, _). vs @ [v])))
      else skip_element elemLen vs m)"

definition sizeof_binding_request :: nat where "sizeof_binding_request = 16"
definition sizeof_RadioQosValues :: nat where "sizeof_RadioQosValues = 68"

definition CWBindingParseConfigureResponse ::
  "(nat \<Rightarrow> bool) \<Rightarrow> cw_msg \<Rightarrow> nat \<Rightarrow> (CWErrorCode + RadioQosValues list) option" where
  "CWBindingParseConfigureResponse alloc m len =
     (if \<not> alloc sizeof_binding_request then Some (Inl CW_ERROR_OUT_OF_MEMORY)
      else do {
        r \<leftarrow> elements_to_end binding_count_switch len len 0 (m\<lparr>offset := 0\<rparr>);
        (case r of
           Inl e \<Rightarrow> Some (Inl e)
         | Inr (qosCount, _) \<Rightarrow>
             if \<not> alloc (sizeof_RadioQosValues * qosCount) then Some (Inl CW_ERROR_OUT_OF_MEMORY)
             else do {
               r \<leftarrow> element_loop (binding_fill_switch qosCount) (int len) [] (m\<lparr>offset := 0\<rparr>);
               Some (map_sum id fst r)
             })
      })"

subsection \<open>The binding elements of the Configuration Update Request\<close>

datatype binding_update = Qos_update "RadioQosValues list" | Ofdm_update u8 OFDMControlValues

text \<open>The first pass keeps the type of the last element, which decides what is allocated.\<close>

definition update_count_switch ::
  "u16 \<Rightarrow> nat \<Rightarrow> u16 \<times> nat \<Rightarrow> cw_msg \<Rightarrow> (CWErrorCode + (u16 \<times> nat) \<times> cw_msg) option" where
  "update_count_switch elemType elemLen s m =
     (let qosCount = snd s in
      if ucast elemType = BINDING_MSG_ELEMENT_TYPE_WTP_QOS then skip_element elemLen (elemType, qosCount + 1) m
      else if ucast elemType = BINDING_MSG_ELEMENT_TYPE_OFDM_CONTROL then skip_element elemLen (elemType, qosCount) m
      else if CWBindingCheckType (ucast elemType) then None
      else skip_element elemLen (elemType, qosCount) m)"

text \<open>The object of the other kind was never allocated.\<close>

definition update_fill_switch ::
  "u32 \<Rightarrow> nat \<Rightarrow> u16 \<Rightarrow> nat \<Rightarrow> RadioQosValues list \<times> (u8 \<times> OFDMControlValues) option \<Rightarrow> cw_msg \<Rightarrow>
     (CWErrorCode + (RadioQosValues list \<times> (u8 \<times> OFDMControlValues) option) \<times> cw_msg) option" where
  "update_fill_switch kind qosCount elemType elemLen s m =
     (case s of (vs, ofdm) \<Rightarrow>
        if ucast elemType = BINDING_MSG_ELEMENT_TYPE_WTP_QOS then
          (if kind \<noteq> BINDING_MSG_ELEMENT_TYPE_WTP_QOS \<or> length vs \<ge> qosCount then None
           else no_result_on_error (parse_into (CWParseWTPQoS (Some m) elemLen) (\<lambda>(v, _). (vs @ [v], ofdm))))
        else if ucast elemType = BINDING_MSG_ELEMENT_TYPE_OFDM_CONTROL then
          (if kind \<noteq> BINDING_MSG_ELEMENT_TYPE_OFDM_CONTROL then None
           else no_result_on_error (parse_into (CWParseWTPOFDM (Some m) elemLen) (\<lambda>v. (vs, Some v))))
        else skip_element elemLen (vs, ofdm) m)"

definition sizeof_OFDMControlValues :: nat where "sizeof_OFDMControlValues = 12"

text \<open>\<open>old\<close> is what the pointer of the caller held: it stays when the last element is not of the binding.\<close>

definition CWBindingParseConfigurationUpdateRequest ::
  "(nat \<Rightarrow> bool) \<Rightarrow> cw_msg \<Rightarrow> nat \<Rightarrow> binding_update option \<Rightarrow> (CWErrorCode + binding_update option) option" where
  "CWBindingParseConfigurationUpdateRequest alloc m len old = do {
     r \<leftarrow> elements_to_end update_count_switch len len (0, 0) (m\<lparr>offset := 0\<rparr>);
     (case r of
        Inl e \<Rightarrow> Some (Inl e)
      | Inr ((GlobalElemType, qosCount), _) \<Rightarrow>
          (let kind = ucast GlobalElemType in
           if kind = BINDING_MSG_ELEMENT_TYPE_WTP_QOS \<and>
              \<not> (alloc sizeof_binding_request \<and> alloc (sizeof_RadioQosValues * qosCount)) \<or>
              kind = BINDING_MSG_ELEMENT_TYPE_OFDM_CONTROL \<and>
              \<not> (alloc sizeof_binding_request \<and> alloc sizeof_OFDMControlValues)
           then Some (Inl CW_ERROR_OUT_OF_MEMORY)
           else do {
             r \<leftarrow> element_loop (update_fill_switch kind qosCount) (int len) ([], None) (m\<lparr>offset := 0\<rparr>);
             (case r of
                Inl e \<Rightarrow> Some (Inl e)
              | Inr ((vs, ofdm), _) \<Rightarrow>
                  if kind = BINDING_MSG_ELEMENT_TYPE_WTP_QOS then Some (Inr (Some (Qos_update vs)))
                  else if kind = BINDING_MSG_ELEMENT_TYPE_OFDM_CONTROL
                  then map_option (\<lambda>(radio, v). Inr (Some (Ofdm_update radio v))) ofdm
                  else Some (Inr old))
           }))
   }"

text \<open>The values are sent to the frequency server; \<open>reached\<close> is the error of the socket, if any.\<close>

definition CWManageOFDMValues ::
  "CWErrorCode option \<Rightarrow> OFDMControlValues \<Rightarrow> (CWErrorCode + u32) \<times> OFDMControlValues list" where
  "CWManageOFDMValues reached v =
     (case reached of Some e \<Rightarrow> (Inl e, []) | None \<Rightarrow> (Inr CW_PROTOCOL_SUCCESS, [v]))"

text \<open>A structure of one kind taken for the other has no meaning.\<close>

definition CWBindingSaveConfigurationUpdateRequest ::
  "qos_driver \<Rightarrow> CWErrorCode option \<Rightarrow> binding_update option \<Rightarrow> u32 \<Rightarrow> binding_radio list \<Rightarrow>
     ((CWErrorCode + u32) \<times> binding_radio list \<times> OFDMControlValues list) option" where
  "CWBindingSaveConfigurationUpdateRequest drv reached up updateRequestType radios =
     (case up of
        None \<Rightarrow> Some (Inl CW_ERROR_WRONG_ARG, radios, [])
      | Some u \<Rightarrow>
          if updateRequestType = BINDING_MSG_ELEMENT_TYPE_WTP_QOS then
            (case u of
               Qos_update vs \<Rightarrow> do {
                 (r, radios) \<leftarrow> CWBindingSetQosValues drv vs radios CW_PROTOCOL_SUCCESS;
                 Some (r, radios, []) }
             | Ofdm_update _ _ \<Rightarrow> None)
          else if updateRequestType = BINDING_MSG_ELEMENT_TYPE_OFDM_CONTROL then
            (case u of
               Ofdm_update _ v \<Rightarrow> (case CWManageOFDMValues reached v of (r, out) \<Rightarrow> Some (r, radios, out))
             | Qos_update _ \<Rightarrow> None)
          else Some (Inr CW_PROTOCOL_SUCCESS, radios, []))"

subsection \<open>What the elements carry\<close>

definition qos_bytes :: "WTPQosValues \<Rightarrow> u8 list" where
  "qos_bytes q = queueDepth q # half_bytes (cwMin q) @ half_bytes (cwMax q) @ [AIFS q, dot1PTag q, DSCPTag q]"

definition qos_body :: "RadioQosValues \<times> u8 \<Rightarrow> u8 list" where
  "qos_body v = rq_radioID (fst v) # snd v # concat (map qos_bytes (rq_qosValues (fst v)))"

definition qos_fits :: "WTPQosValues \<Rightarrow> bool" where
  "qos_fits q \<longleftrightarrow> cwMin q < 65536 \<and> cwMax q < 65536"

definition radio_fits :: "RadioQosValues \<times> u8 \<Rightarrow> bool" where
  "radio_fits v \<longleftrightarrow> length (rq_qosValues (fst v)) = NUM_QOS_PROFILES \<and> (\<forall>q \<in> set (rq_qosValues (fst v)). qos_fits q)"

lemma length_qos_bytes [simp, cw_len]: "length (qos_bytes q) = 8"
  by (simp add: qos_bytes_def half_bytes_def)

lemma length_qos_bodies [simp]: "length (concat (map qos_bytes qs)) = 8 * length qs"
  by (induction qs) simp_all

lemma store_qos_wbuf [cw_wire]:
  "length bs + 8 * length qs \<le> n \<Longrightarrow>
   store_qos qs (wbuf n bs) = Some (wbuf n (bs @ concat (map qos_bytes qs)))"
  by (induction qs arbitrary: bs) (simp_all add: cw_wire qos_bytes_def half_bytes_def)

lemma retrieve_qos_rbuf [cw_wire]:
  "\<forall>q \<in> set qs. qos_fits q \<Longrightarrow>
   retrieve_qos (length qs) (rbuf d pre (concat (map qos_bytes qs) @ rest)) =
     Some (qs, rbuf d (pre @ concat (map qos_bytes qs)) rest)"
proof (induction qs arbitrary: pre)
  case (Cons q qs)
  then show ?case by (simp add: qos_bytes_def half_bytes_def qos_fits_def cw_wire)
qed simp

lemma CWParseWTPQoS_rbuf:
  assumes "radio_fits v"
  shows "CWParseWTPQoS (Some (rbuf d pre (qos_body v @ rest))) (length (qos_body v)) =
    Some (Inr (v, rbuf d (pre @ qos_body v) rest))"
proof -
  obtain r t qs where v: "v = (\<lparr>rq_radioID = r, rq_qosValues = qs\<rparr>, t)" by (cases v) (metis RadioQosValues.cases)
  show ?thesis
    using assms retrieve_qos_rbuf [of qs d "pre @ [r, t]" rest]
    by (simp add: v CWParseWTPQoS_def qos_body_def radio_fits_def cw_wire)
qed

datatype binding_element = Qos "RadioQosValues \<times> u8" | Other u16 "u8 list"

primrec binding_type :: "binding_element \<Rightarrow> u16" where
  "binding_type (Qos v) = ucast BINDING_MSG_ELEMENT_TYPE_WTP_QOS"
| "binding_type (Other t bs) = t"

primrec binding_body :: "binding_element \<Rightarrow> u8 list" where
  "binding_body (Qos v) = qos_body v"
| "binding_body (Other t bs) = bs"

primrec binding_ok :: "binding_element \<Rightarrow> bool" where
  "binding_ok (Qos v) = radio_fits v"
| "binding_ok (Other t bs) = (\<not> CWBindingCheckType (ucast t) \<and> length bs < 65536)"

fun qos_of :: "binding_element list \<Rightarrow> RadioQosValues list" where
  "qos_of (Qos v # es) = fst v # qos_of es"
| "qos_of (Other t bs # es) = qos_of es"
| "qos_of [] = []"

definition binding_room :: "nat \<Rightarrow> binding_element list \<Rightarrow> RadioQosValues list \<Rightarrow> bool" where
  "binding_room qosCount es vs \<longleftrightarrow> length vs + length (qos_of es) \<le> qosCount"

lemma length_binding_body: "binding_ok e \<Longrightarrow> length (binding_body e) < 65536"
  by (cases e) (auto simp: radio_fits_def qos_body_def NUM_QOS_PROFILES_def)

lemma binding_type_Qos [simp]: "ucast (ucast BINDING_MSG_ELEMENT_TYPE_WTP_QOS :: u16) = BINDING_MSG_ELEMENT_TYPE_WTP_QOS"
  by (simp add: binding_types)

lemma other_not_qos: "binding_ok (Other t bs) \<Longrightarrow> ucast t \<noteq> BINDING_MSG_ELEMENT_TYPE_WTP_QOS"
  by (auto simp: CWBindingCheckType_def binding_types)

interpretation binding_count: element_switch binding_count_switch binding_type binding_body binding_ok
  "\<lambda>e n. n + length (qos_of [e])" "\<lambda>_ _. True"
proof
  show "binding_ok e \<Longrightarrow> binding_count_switch (binding_type e) (length (binding_body e)) s
      (rbuf d pre (binding_body e @ rest)) =
    Some (Inr (s + length (qos_of [e]), rbuf d (pre @ binding_body e) rest))" for e s d pre rest
    using skip_element_rbuf [of "binding_body e" _ d pre rest] other_not_qos
    by (cases e) (auto simp: binding_count_switch_def)
qed (auto simp: length_binding_body)

interpretation binding_fill: element_switch "binding_fill_switch qosCount" binding_type binding_body binding_ok
  "\<lambda>e vs. vs @ qos_of [e]" "binding_room qosCount" for qosCount
proof
  show "binding_ok e \<Longrightarrow> binding_room qosCount (e # es) s \<Longrightarrow>
    binding_fill_switch qosCount (binding_type e) (length (binding_body e)) s
      (rbuf d pre (binding_body e @ rest)) =
    Some (Inr (s @ qos_of [e], rbuf d (pre @ binding_body e) rest))" for e es s d pre rest
    using skip_element_rbuf [of "binding_body e" _ d pre rest] other_not_qos
    by (cases e) (auto simp: binding_fill_switch_def binding_room_def CWParseWTPQoS_rbuf no_result_on_error_def)
  show "binding_ok e \<Longrightarrow> binding_room qosCount (e # es) s \<Longrightarrow> binding_room qosCount es (s @ qos_of [e])" for e es s
    by (cases e) (auto simp: binding_room_def)
qed (rule length_binding_body)

lemma fold_binding:
  "fold (\<lambda>e n. n + length (qos_of [e])) es n = n + length (qos_of es)"
  "fold (\<lambda>e vs. vs @ qos_of [e]) es vs = vs @ qos_of es"
  subgoal by (induction es arbitrary: n rule: qos_of.induct) simp_all
  subgoal by (induction es arbitrary: vs rule: qos_of.induct) simp_all
  done

lemma parse_binding_response:
  assumes ok: "\<forall>e \<in> set es. binding_ok e" and m: "msg m = stream binding_type binding_body es"
  shows "CWBindingParseConfigureResponse plenty m (length (msg m)) = Some (Inr (qos_of es))"
proof -
  have start: "m\<lparr>offset := 0\<rparr> = rbuf (data_msgType m) [] (stream binding_type binding_body es)"
    by (simp add: rbuf_def m)
  have "binding_room (length (qos_of es)) es []" by (simp add: binding_room_def)
  then show ?thesis
    unfolding CWBindingParseConfigureResponse_def start
    using binding_count.reads_to_end [OF ok, where s = 0 and len = "length (msg m)" and pre = "[]" and d = "data_msgType m"]
      binding_fill.loop_reads [OF ok, where s = "[]" and stop = "int (length (msg m))" and pre = "[]"
        and d = "data_msgType m" and rest = "[]" and qosCount = "length (qos_of es)"]
    by (simp add: m fold_binding)
qed

lemma CWAssembleWTPQoS_eq:
  assumes "CWMergeQosValues qs known = Some qs'"
  shows "CWAssembleWTPQoS plenty known radio tag (Some qs) = Some (Some qs', Inr (elem_msg
    (ucast BINDING_MSG_ELEMENT_TYPE_WTP_QOS)
    (qos_body (\<lparr>rq_radioID = ucast radio, rq_qosValues = take NUM_QOS_PROFILES qs'\<rparr>, tag))))"
proof -
  have "length (take NUM_QOS_PROFILES qs') = 4"
    using assms by (auto simp: CWMergeQosValues_def NUM_QOS_PROFILES_def split: if_splits)
  then show ?thesis
    using assms by (simp add: CWAssembleWTPQoS_def cw_wire qos_body_def)
qed

text \<open>The values a driver that takes everything was given.\<close>

definition applied :: "WTPQosValues \<Rightarrow> WTPQosValues \<Rightarrow> WTPQosValues" where
  "applied aux v = aux\<lparr>cwMin := cwMin v, cwMax := cwMax v, AIFS := AIFS v\<rparr>"

definition takes_all :: "qos_driver \<Rightarrow> bool" where
  "takes_all drv \<longleftrightarrow> driver_socket drv \<and> (\<forall>q v. set_cwmin drv q v \<and> set_cwmax drv q v) \<and> (\<forall>q v. set_aifs drv q v)"

lemma set_queue_taken: "takes_all drv \<Longrightarrow> set_queue drv j v (aux, code) = (applied aux v, code)"
  by (simp add: set_queue_def takes_all_def applied_def Let_def)

lemma set_queues_taken:
  "takes_all drv \<Longrightarrow> n \<le> length vs \<Longrightarrow> n \<le> length auxs \<Longrightarrow>
   set_queues drv n j vs auxs code = Some (map2 applied (take n auxs) vs @ drop n auxs, code)"
proof (induction n arbitrary: j vs auxs)
  case (Suc n)
  then show ?case
    by (cases vs; cases auxs) (auto simp: set_queue_taken Let_def)
qed simp

subsection \<open>Properties\<close>


definition sample_qos :: "u32 \<Rightarrow> WTPQosValues" where
  "sample_qos n = \<lparr>queueDepth = 0, cwMin = n, cwMax = 2 * n, AIFS = 3, dot1PTag = 0, DSCPTag = 0\<rparr>"

definition sample_binding_session :: CWWTPManager where
  "sample_binding_session = sample_session\<lparr>WTPProtocolManager := (WTPProtocolManager sample_session)
     \<lparr>pm_bindingQos := map sample_qos [2, 3, 4, 5]\<rparr>\<rparr>"


text \<open>
  Assembling the binding's elements leaves its memory. For a WTP with two radios or more the Configure
  Response and a request with QoS values access what lies behind a pointer variable, and the element that
  sets OFDM values is stored in a block that is two bytes too small, however many radios there are.
\<close>

theorem binding_elements_out_of_bounds:
  assumes "length qs = 4" and "length (pm_bindingQos (WTPProtocolManager wtp)) = 4"
    and "n = pm_radioCount (WTPProtocolManager wtp)" and "n \<ge> 1"
  shows "(n \<ge> 2 \<longrightarrow> CWBindingAssembleConfigureResponse plenty qs wtp = None \<and>
        CWBindingAssembleConfigurationUpdateRequest plenty (wtp\<lparr>qosValues := Some qs\<rparr>)
          BINDING_MSG_ELEMENT_TYPE_WTP_QOS = None) \<and>
    CWBindingAssembleConfigurationUpdateRequest plenty wtp BINDING_MSG_ELEMENT_TYPE_OFDM_CONTROL = None"
proof -
  obtain qs' where "CWMergeQosValues qs (pm_bindingQos (WTPProtocolManager wtp)) = Some qs'"
    using assms(1,2) by (auto simp: CWMergeQosValues_def NUM_QOS_PROFILES_def)
  note qos = CWAssembleWTPQoS_eq [OF this]
  have ofdm: "CWAssembleWTPOFDM plenty radio vp = None" for radio vp
    by (cases "CWMergeOFDMValues vp") (simp_all add: CWAssembleWTPOFDM_def cw_wire
        BINDING_MSG_ELEMENT_TYPE_OFDM_CONTROL_LENGTH_def CWProtocolStore32_def)
  show ?thesis
    using assms(3,4) qos
    by (auto simp: CWBindingAssembleConfigureResponse_def CWBindingAssembleConfigurationUpdateRequest_def
        binding_elements_def ofdm binding_types Let_def split: list.splits)
qed

lemma binding_elements_out_of_bounds_witness:
  "CWBindingAssembleConfigurationUpdateRequest plenty (sample_binding_session\<lparr>ofdmValues :=
     Some \<lparr>currentChan = 6, BandSupport = 1, TIThreshold = 5\<rparr>\<rparr>) BINDING_MSG_ELEMENT_TYPE_OFDM_CONTROL = None"
  using binding_elements_out_of_bounds [where qs = "map sample_qos [0, 0, 0, 0]" and n = 1 and
      wtp = "sample_binding_session\<lparr>ofdmValues := Some \<lparr>currentChan = 6, BandSupport = 1, TIThreshold = 5\<rparr>\<rparr>"]
  by (simp add: sample_binding_session_def sample_session_def)

end
