(* ===== verification/Configure.thy ===== *)
theory Configure
  imports Sino Binding
begin

text \<open>
  The Configure and Data Check states on both sides: \<open>ACConfigureState.c\<close> and \<open>ACDataCheckState.c\<close>, which parse the
  request of the WTP, keep what it says and answer, and the messages of \<open>WTPConfigureState.c\<close> and
  \<open>WTPDataCheckState.c\<close>. The state functions of the WTP, which wait for the response, are in \<open>WTP_States\<close>.

  \<open>sino\<close> is the buffer with the firmware announcement, \<open>sino_locked\<close> whether its mutex is held for ever,
  \<open>defaults\<close> the QoS values of the settings. As in the Join state a field that holds a pointer is \<open>None\<close> until the
  parser assigns it.
\<close>

subsection \<open>The Configure Request at the AC\<close>

record CWProtocolConfigureRequestValues =
  cq_ACName :: "u8 list option option"
  cq_ACinWTPCount :: nat
  cq_ACinWTP :: "CWACNameWithIndexValues list"
  cq_radioAdminInfoCount :: nat
  cq_radioAdminInfo :: "CWRadioAdminInfoValues list"
  cq_StatisticsTimer :: u32
  cq_WTPRebootStatistics :: "WTPRebootStatisticsInfo option"

definition configure_switch ::
  "(nat \<Rightarrow> bool) \<Rightarrow> u16 \<Rightarrow> nat \<Rightarrow> CWProtocolConfigureRequestValues \<Rightarrow> cw_msg \<Rightarrow>
     (CWErrorCode + CWProtocolConfigureRequestValues \<times> cw_msg) option" where
  "configure_switch alloc elemType elemLen v m =
     (if ucast elemType = CW_MSG_ELEMENT_AC_NAME_CW_TYPE then
        parse_into (CWParseACName alloc (Some m) elemLen) (\<lambda>s. v\<lparr>cq_ACName := Some s\<rparr>)
      else if ucast elemType = CW_MSG_ELEMENT_AC_NAME_INDEX_CW_TYPE then
        skip_element elemLen (v\<lparr>cq_ACinWTPCount := cq_ACinWTPCount v + 1\<rparr>) m
      else if ucast elemType = CW_MSG_ELEMENT_RADIO_ADMIN_STATE_CW_TYPE then
        skip_element elemLen (v\<lparr>cq_radioAdminInfoCount := cq_radioAdminInfoCount v + 1\<rparr>) m
      else if ucast elemType = CW_MSG_ELEMENT_STATISTICS_TIMER_CW_TYPE then
        parse_into (CWParseWTPStatisticsTimer (Some m) elemLen) (\<lambda>t. v\<lparr>cq_StatisticsTimer := t\<rparr>)
      else if ucast elemType = CW_MSG_ELEMENT_WTP_REBOOT_STATISTICS_CW_TYPE then
        (if \<not> alloc sizeof_WTPRebootStatisticsInfo then Some (Inl CW_ERROR_OUT_OF_MEMORY)
         else parse_into (CWParseWTPRebootStatistics (Some m) elemLen) (\<lambda>s. v\<lparr>cq_WTPRebootStatistics := Some s\<rparr>))
      else Some (Inl CW_ERROR_INVALID_FORMAT))"

text \<open>The second pass; \<open>blank\<close> is what \<open>malloc\<close> left in an entry of the radios.\<close>

definition names_switch ::
  "(nat \<Rightarrow> bool) \<Rightarrow> CWRadioAdminInfoValues \<Rightarrow> u16 \<Rightarrow> nat \<Rightarrow> CWProtocolConfigureRequestValues \<Rightarrow> cw_msg \<Rightarrow>
     (CWErrorCode + CWProtocolConfigureRequestValues \<times> cw_msg) option" where
  "names_switch alloc blank elemType elemLen v m =
     (if ucast elemType = CW_MSG_ELEMENT_AC_NAME_INDEX_CW_TYPE then
        (if cq_ACinWTPCount v \<le> length (cq_ACinWTP v) then None
         else parse_into (CWParseACNameWithIndex alloc (Some m) elemLen)
                (\<lambda>n. v\<lparr>cq_ACinWTP := cq_ACinWTP v @ [n]\<rparr>))
      else if ucast elemType = CW_MSG_ELEMENT_RADIO_ADMIN_STATE_CW_TYPE then
        (if cq_radioAdminInfoCount v \<le> length (cq_radioAdminInfo v) then None
         else parse_into (CWParseWTPRadioAdminState blank (Some m) elemLen)
                (\<lambda>a. v\<lparr>cq_radioAdminInfo := cq_radioAdminInfo v @ [a]\<rparr>))
      else skip_element elemLen v m)"

definition sizeof_CWACNameWithIndexValues :: nat where "sizeof_CWACNameWithIndexValues = 16"

definition unassigned_configure :: "u32 \<Rightarrow> CWProtocolConfigureRequestValues" where
  "unassigned_configure garbage = \<lparr>cq_ACName = None, cq_ACinWTPCount = 0, cq_ACinWTP = [],
     cq_radioAdminInfoCount = 0, cq_radioAdminInfo = [], cq_StatisticsTimer = garbage, cq_WTPRebootStatistics = None\<rparr>"

definition CWParseConfigureRequestMessage ::
  "(nat \<Rightarrow> bool) \<Rightarrow> u32 \<Rightarrow> CWRadioAdminInfoValues \<Rightarrow> cw_msg \<Rightarrow> nat \<Rightarrow>
     (CWErrorCode + u32 \<times> CWProtocolConfigureRequestValues) option" where
  "CWParseConfigureRequestMessage alloc garbage blank m len = do {
     r \<leftarrow> open_message CW_MSG_TYPE_VALUE_CONFIGURE_REQUEST m;
     (case r of
        Inl e \<Rightarrow> Some (Inl e)
      | Inr ((seqValue, elemsLen), m) \<Rightarrow> do {
          r \<leftarrow> elements_to_end (configure_switch alloc) elemsLen len (unassigned_configure garbage) m;
          (case r of
             Inl e \<Rightarrow> Some (Inl e)
           | Inr (v, m') \<Rightarrow>
               if \<not> alloc (sizeof_CWACNameWithIndexValues * cq_ACinWTPCount v) \<or>
                  \<not> alloc (sizeof_radio_values * cq_radioAdminInfoCount v)
               then Some (Inl CW_ERROR_OUT_OF_MEMORY)
               else do {
                 r \<leftarrow> element_loop (names_switch alloc blank) (int (offset m) + int elemsLen) v (m'\<lparr>offset := offset m\<rparr>);
                 Some (map_sum id (\<lambda>(v, _). (seqValue, v)) r)
               })
        })
   }"

definition CWSaveConfigureRequestMessage ::
  "CWProtocolConfigureRequestValues \<Rightarrow> CWWTPProtocolManager \<Rightarrow> CWWTPProtocolManager option" where
  "CWSaveConfigureRequestMessage v pm = do {
     name \<leftarrow> cq_ACName v;
     reboot \<leftarrow> cq_WTPRebootStatistics v;
     Some (pm\<lparr>pm_ACName := name, pm_ACNameIndex := cq_ACinWTP v, pm_radioAdminInfo := cq_radioAdminInfo v,
              pm_StatisticsTimer := cq_StatisticsTimer v, pm_WTPRebootStatistics := Some reboot\<rparr>)
   }"

subsection \<open>The Configure Response of the AC\<close>

text \<open>When the binding's elements fail, the eighth of seven elements is freed: no result.\<close>

definition CWAssembleConfigureResponse ::
  "run_env \<Rightarrow> bool \<Rightarrow> AC_globals \<Rightarrow> bool \<Rightarrow> sino_data \<Rightarrow> WTPQosValues list \<Rightarrow> CWWTPManager \<Rightarrow> u32 \<Rightarrow>
     (WTPQosValues list \<times> CWWTPManager \<times> (CWErrorCode + unit)) option" where
  "CWAssembleConfigureResponse env le ac sino_locked sino defaults wtp seqValue =
     (let alloc = env_alloc env in
      if \<not> alloc (sizeof_CWProtocolMessage * 7) then Some (defaults, wtp, Inl CW_ERROR_OUT_OF_MEMORY)
      else do {
        r \<leftarrow> assemble_each (\<lambda>r. r)
               [CWAssembleMsgElemACIPv4List alloc le, CWAssembleMsgElemACIPv6List alloc,
                CWAssembleMsgElemCWTimer alloc ac, CWAssembleMsgElemDecryptErrorReportPeriod alloc ac,
                CWAssembleMsgElemIdleTimeout alloc ac, CWAssembleMsgElemWTPFallback alloc,
                CWAssembleMsgSinoixVendorPayload alloc sino_locked sino];
        (case r of
           Inl e \<Rightarrow> Some (defaults, wtp, Inl e)
         | Inr msgElems \<Rightarrow> do {
             (defaults, wtp, r) \<leftarrow> CWBindingAssembleConfigureResponse alloc defaults wtp;
             (case r of
                Inl e \<Rightarrow> None
              | Inr msgElemsBinding \<Rightarrow> do {
                  r \<leftarrow> CWAssembleMessage alloc (env_fragID env) (pathMTU wtp) seqValue
                         CW_MSG_TYPE_VALUE_CONFIGURE_RESPONSE (Some msgElems) 7 (Some msgElemsBinding)
                         (length msgElemsBinding) (env_crypt env);
                  (case r of
                     Inl e \<Rightarrow> Some (defaults, wtp, Inl e)
                   | Inr ps \<Rightarrow> Some (defaults, wtp\<lparr>messages := Some ps, messagesCount := length ps\<rparr>, Inr ()))
                })
           })
      })"

definition ACEnterConfigure ::
  "run_env \<Rightarrow> bool \<Rightarrow> AC_globals \<Rightarrow> bool \<Rightarrow> sino_data \<Rightarrow> CWRadioAdminInfoValues \<Rightarrow> WTPQosValues list \<Rightarrow>
     CWWTPManager \<Rightarrow> cw_msg \<Rightarrow> (WTPQosValues list \<times> run_outcome) option" where
  "ACEnterConfigure env le ac sino_locked sino blank defaults wtp m = do {
     r \<leftarrow> CWParseConfigureRequestMessage (env_alloc env) (env_garbage env) blank m (offset m);
     (case r of
        Inl e \<Rightarrow> Some (defaults, Returned (Inl e), wtp, [])
      | Inr (seqValue, configureRequest) \<Rightarrow> do {
          pm \<leftarrow> CWSaveConfigureRequestMessage configureRequest (WTPProtocolManager wtp);
          (defaults, wtp, r) \<leftarrow> CWAssembleConfigureResponse env le ac sino_locked sino defaults
                                 (wtp\<lparr>WTPProtocolManager := pm\<rparr>) seqValue;
          (case r of
             Inl e \<Rightarrow> Some (defaults, Returned (Inl e), wtp, [])
           | Inr _ \<Rightarrow> do {
               (r, wtp, out) \<leftarrow> CWACSendFragments env wtp;
               (case r of
                  Inl e \<Rightarrow> Some (defaults, Returned (Inl e), wtp, out)
                | Inr _ \<Rightarrow>
                    if env_timer env (gCWChangeStatePendingTimer env)
                    then Some (defaults, Returned (Inr ()),
                      wtp\<lparr>currentTimer := Some (gCWChangeStatePendingTimer env),
                          currentState := CW_ENTER_DATA_CHECK\<rparr>, out)
                    else do {
                      (wtp, out') \<leftarrow> CWCloseThread (wtp\<lparr>currentTimer := None\<rparr>);
                      Some (defaults, Closed, wtp, out @ out')
                    })
             })
        })
   }"

subsection \<open>The Change State Event of the Data Check at the AC\<close>

definition CWParseChangeStateEventRequestMessage ::
  "(nat \<Rightarrow> bool) \<Rightarrow> u32 \<Rightarrow> cw_msg \<Rightarrow> nat \<Rightarrow>
     (CWErrorCode + u32 \<times> CWProtocolChangeStateEventRequestValues) option" where
  "CWParseChangeStateEventRequestMessage alloc garbage m len = do {
     r \<leftarrow> open_message CW_MSG_TYPE_VALUE_CHANGE_STATE_EVENT_REQUEST m;
     (case r of
        Inl e \<Rightarrow> Some (Inl e)
      | Inr ((seqValue, elemsLen), m) \<Rightarrow> do {
          r \<leftarrow> elements_to_end change_state_switch elemsLen len
                 \<lparr>cs_radiosCount = 0, cs_radios = [], cs_resultCode = garbage\<rparr> m;
          (case r of
             Inl e \<Rightarrow> Some (Inl e)
           | Inr (v, m') \<Rightarrow>
               if \<not> alloc (sizeof_radio_values * cs_radiosCount v) then Some (Inl CW_ERROR_OUT_OF_MEMORY)
               else do {
                 r \<leftarrow> element_loop radios_switch (int (offset m) + int elemsLen) v (m'\<lparr>offset := offset m\<rparr>);
                 Some (map_sum id (\<lambda>(v, _). (seqValue, v)) r)
               })
        })
   }"

text \<open>The timer of the Configure state is stopped first, whatever the message is.\<close>

definition ACEnterDataCheck :: "run_env \<Rightarrow> CWWTPManager \<Rightarrow> cw_msg \<Rightarrow> run_outcome option" where
  "ACEnterDataCheck env wtp m =
     (let wtp = wtp\<lparr>currentTimer := None\<rparr> in
      if \<not> env_alloc env sizeof_CWProtocolChangeStateEventRequestValues
      then Some (Returned (Inl CW_ERROR_OUT_OF_MEMORY), wtp, [])
      else do {
        r \<leftarrow> CWParseChangeStateEventRequestMessage (env_alloc env) (env_garbage env) m (offset m);
        (case r of
           Inl e \<Rightarrow> Some (Returned (Inl e), wtp, [])
         | Inr (seqValue, changeStateEvent) \<Rightarrow>
             (case CWSaveChangeStateEventRequestMessage changeStateEvent (WTPProtocolManager wtp) of
                (saved, pm) \<Rightarrow>
                  (let wtp = wtp\<lparr>WTPProtocolManager := pm\<rparr> in
                   if \<not> saved then Some (Returned (Inl CW_ERROR_NONE), wtp, [])
                   else do {
                     r \<leftarrow> CWAssembleChangeStateEventResponse env (pathMTU wtp) seqValue;
                     (case r of
                        Inl e \<Rightarrow> Some (Returned (Inl e), wtp, [])
                      | Inr ps \<Rightarrow> do {
                          (r, wtp, out) \<leftarrow> CWACSendFragments env (wtp\<lparr>messages := Some ps, messagesCount := length ps\<rparr>);
                          (case r of
                             Inl e \<Rightarrow> Some (Returned (Inl e), wtp, out)
                           | Inr _ \<Rightarrow>
                               if env_timer env (gCWNeighborDeadInterval env)
                               then Some (Returned (Inr ()),
                                 wtp\<lparr>currentTimer := Some (gCWNeighborDeadInterval env),
                                     currentState := CW_ENTER_RUN, subState := CW_WAITING_REQUEST\<rparr>, out)
                               else do {
                                 (wtp, out') \<leftarrow> CWCloseThread wtp;
                                 Some (Closed, wtp, out @ out')
                               })
                        })
                   })))
      })"

subsection \<open>The Configure Request of the WTP\<close>

definition CWAssembleConfigureRequest ::
  "(nat \<Rightarrow> bool) \<Rightarrow> WTP_globals \<Rightarrow> u32 \<Rightarrow> int \<Rightarrow> u32 \<Rightarrow> u32 \<Rightarrow> (CWErrorCode + cw_msg list) option" where
  "CWAssembleConfigureRequest alloc g fragID PMTU seqValue crypt =
     (if \<not> alloc (sizeof_CWProtocolMessage * 5) then Some (Inl CW_ERROR_OUT_OF_MEMORY)
      else do {
        r \<leftarrow> assemble_each (\<lambda>r. r)
               [CWAssembleMsgElemACName alloc g, CWAssembleMsgElemACNameWithIndex alloc,
                CWAssembleMsgElemRadioAdminState alloc g, CWAssembleMsgElemStatisticsTimer alloc g,
                CWAssembleMsgElemWTPRebootStatistics alloc g];
        (case r of
           Inl e \<Rightarrow> Some (Inl e)
         | Inr msgElems \<Rightarrow>
             CWAssembleMessage alloc fragID PMTU seqValue CW_MSG_TYPE_VALUE_CONFIGURE_REQUEST
               (Some msgElems) 5 None 0 crypt)
      })"

subsection \<open>The Configure Response at the WTP\<close>

text \<open>
  \<open>cp_sino_count\<close> is the static variable \<open>sino_count\<close>: how often the announcement of firmware will still be
  parsed. An announcement that is not parsed is not skipped either. What a failed parse leaves in the variable is
  not recorded: the program ends then.
\<close>

record CWProtocolConfigureResponseValues =
  cp_ACIPv4List :: "u32 list"
  cp_ACIPv6List :: "u8 list list"
  cp_discoveryTimer :: u32
  cp_echoRequestTimer :: u32
  cp_radioOperationalInfoCount :: nat
  cp_radioOperationalInfo :: "CWRadioOperationalInfoValues list"
  cp_radiosCount :: nat
  cp_radios :: "WTPDecryptErrorReportValues list"
  cp_idleTimeout :: u32
  cp_fallback :: u32
  cp_bindingFound :: bool
  cp_bindingValues :: "RadioQosValues list option"
  cp_sino_count :: int
  cp_announced :: announcement

text \<open>What the parser of the announcement depends on: its buffer, the newest version on the WTP, its variables.\<close>

record sino_env =
  se_junk :: "u8 list"
  se_maxv :: "int \<times> int \<times> int"
  se_values :: sino_values

definition configure_response_switch ::
  "(nat \<Rightarrow> bool) \<Rightarrow> sino_env \<Rightarrow> u16 \<Rightarrow> nat \<Rightarrow> CWProtocolConfigureResponseValues \<Rightarrow> cw_msg \<Rightarrow>
     (CWErrorCode + CWProtocolConfigureResponseValues \<times> cw_msg) option" where
  "configure_response_switch alloc se elemType elemLen v m =
     (if CWBindingCheckType (ucast elemType) then skip_element elemLen (v\<lparr>cp_bindingFound := True\<rparr>) m
      else if ucast elemType = CW_MSG_ELEMENT_AC_IPV4_LIST_CW_TYPE then
        parse_into (CWParseACIPv4List alloc (Some m) elemLen) (\<lambda>l. v\<lparr>cp_ACIPv4List := l\<rparr>)
      else if ucast elemType = CW_MSG_ELEMENT_AC_IPV6_LIST_CW_TYPE then
        parse_into (CWParseACIPv6List alloc (Some m) elemLen) (\<lambda>l. v\<lparr>cp_ACIPv6List := l\<rparr>)
      else if ucast elemType = CW_MSG_ELEMENT_CW_TIMERS_CW_TYPE then
        parse_into (CWParseCWTimers (Some m) elemLen)
          (\<lambda>(d, e). v\<lparr>cp_discoveryTimer := d, cp_echoRequestTimer := e\<rparr>)
      else if ucast elemType = CW_MSG_ELEMENT_RADIO_OPERAT_STATE_CW_TYPE then
        skip_element elemLen (v\<lparr>cp_radioOperationalInfoCount := cp_radioOperationalInfoCount v + 1\<rparr>) m
      else if ucast elemType = CW_MSG_ELEMENT_CW_DECRYPT_ER_REPORT_PERIOD_CW_TYPE then
        skip_element elemLen (v\<lparr>cp_radiosCount := cp_radiosCount v + 1\<rparr>) m
      else if ucast elemType = CW_MSG_ELEMENT_IDLE_TIMEOUT_CW_TYPE then
        parse_into (CWParseIdleTimeout (Some m) elemLen) (\<lambda>t. v\<lparr>cp_idleTimeout := t\<rparr>)
      else if ucast elemType = CW_MSG_ELEMENT_WTP_FALLBACK_CW_TYPE then
        parse_into (CWParseWTPFallback (Some m) elemLen) (\<lambda>f. v\<lparr>cp_fallback := f\<rparr>)
      else if ucast elemType = CW_MSG_ELEMENT_VENDOR_SPEC_PAYLOAD_CW_TYPE then
        (if cp_sino_count v > 0 then do {
           (announced, m) \<leftarrow> CWParseVendorPayloadSinoix (se_junk se) (se_maxv se) (se_values se) (Some m) elemLen;
           m \<leftarrow> m;
           Some (Inr (v\<lparr>cp_sino_count := cp_sino_count v - 1, cp_announced := announced\<rparr>, m)) }
         else Some (Inr (v, m)))
      else Some (Inl CW_ERROR_INVALID_FORMAT))"

definition configure_fill_switch ::
  "u16 \<Rightarrow> nat \<Rightarrow> CWProtocolConfigureResponseValues \<Rightarrow> cw_msg \<Rightarrow>
     (CWErrorCode + CWProtocolConfigureResponseValues \<times> cw_msg) option" where
  "configure_fill_switch elemType elemLen v m =
     (if ucast elemType = CW_MSG_ELEMENT_RADIO_OPERAT_STATE_CW_TYPE then
        (if cp_radioOperationalInfoCount v \<le> length (cp_radioOperationalInfo v) then None
         else parse_into (CWParseWTPRadioOperationalState (Some m) elemLen)
                (\<lambda>s. v\<lparr>cp_radioOperationalInfo := cp_radioOperationalInfo v @ [s]\<rparr>))
      else if ucast elemType = CW_MSG_ELEMENT_CW_DECRYPT_ER_REPORT_PERIOD_CW_TYPE then
        (if cp_radiosCount v \<le> length (cp_radios v) then None
         else parse_into (CWParseDecryptErrorReportPeriod (Some m) elemLen)
                (\<lambda>p. v\<lparr>cp_radios := cp_radios v @ [p]\<rparr>))
      else skip_element elemLen v m)"

definition sizeof_WTPDecryptErrorReportValues :: nat where "sizeof_WTPDecryptErrorReportValues = 4"

definition start_response :: "int \<Rightarrow> CWProtocolConfigureResponseValues \<Rightarrow> CWProtocolConfigureResponseValues" where
  "start_response sino_count junk = junk\<lparr>cp_echoRequestTimer := 0, cp_radioOperationalInfoCount := 0,
     cp_radioOperationalInfo := [], cp_radiosCount := 0, cp_radios := [], cp_bindingFound := False,
     cp_bindingValues := None, cp_ACIPv4List := [], cp_ACIPv6List := [], cp_sino_count := sino_count,
     cp_announced := Ignored\<rparr>"

text \<open>The binding's parser is given the elements alone.\<close>

definition CWParseConfigureResponseMessage ::
  "(nat \<Rightarrow> bool) \<Rightarrow> sino_env \<Rightarrow> int \<Rightarrow> CWProtocolConfigureResponseValues \<Rightarrow> cw_msg \<Rightarrow> nat \<Rightarrow> u32 \<Rightarrow>
     (CWErrorCode + CWProtocolConfigureResponseValues) option" where
  "CWParseConfigureResponseMessage alloc se sino_count junk m len seqValue = do {
     r \<leftarrow> open_message CW_MSG_TYPE_VALUE_CONFIGURE_RESPONSE m;
     (case r of
        Inl e \<Rightarrow> Some (Inl e)
      | Inr ((n, elemsLen), m) \<Rightarrow>
          if n \<noteq> seqValue then Some (Inl CW_ERROR_INVALID_FORMAT)
          else do {
            r \<leftarrow> elements_to_end (configure_response_switch alloc se) elemsLen len (start_response sino_count junk) m;
            (case r of
               Inl e \<Rightarrow> Some (Inl e)
             | Inr (v, m') \<Rightarrow>
                 if \<not> alloc (sizeof_radio_values * cp_radioOperationalInfoCount v) \<or>
                    \<not> alloc (sizeof_WTPDecryptErrorReportValues * cp_radiosCount v)
                 then Some (Inl CW_ERROR_OUT_OF_MEMORY)
                 else do {
                   r \<leftarrow> element_loop configure_fill_switch (int (offset m) + int elemsLen) v (m'\<lparr>offset := offset m\<rparr>);
                   (case r of
                      Inl e \<Rightarrow> Some (Inl e)
                    | Inr (v, m') \<Rightarrow>
                        if \<not> cp_bindingFound v then Some (Inr v)
                        else do {
                          r \<leftarrow> CWBindingParseConfigureResponse alloc (m'\<lparr>msg := drop (offset m) (msg m')\<rparr>)
                                 (len - offset m);
                          Some (map_sum id (\<lambda>b. v\<lparr>cp_bindingValues := Some b\<rparr>) r)
                        })
                 })
          })
   }"

text \<open>
  What the WTP keeps: the lists of \<open>*gACInfoPtr\<close>, the radios of the binding and \<open>gEchoInterval\<close>. The result
  code of the binding is dropped.
\<close>

definition CWSaveConfigureResponseMessage ::
  "qos_driver \<Rightarrow> CWProtocolConfigureResponseValues \<Rightarrow> CWACInfoValues option \<Rightarrow> binding_radio list \<Rightarrow> u32 \<Rightarrow>
     ((CWErrorCode + unit) \<times> CWACInfoValues option \<times> binding_radio list \<times> u32) option" where
  "CWSaveConfigureResponseMessage drv v gACInfoPtr radios gEchoInterval =
     (case gACInfoPtr of
        None \<Rightarrow> Some (Inl CW_ERROR_NEED_RESOURCE, None, radios, gEchoInterval)
      | Some ac \<Rightarrow> do {
          let ac = (if cp_ACIPv4List v \<noteq> [] then ac\<lparr>aci_ACIPv4List := cp_ACIPv4List v\<rparr> else ac);
          let ac = (if cp_ACIPv6List v \<noteq> [] then ac\<lparr>aci_ACIPv6List := cp_ACIPv6List v\<rparr> else ac);
          (r, radios) \<leftarrow> (case cp_bindingValues v of
                            None \<Rightarrow> Some (Inr CW_PROTOCOL_SUCCESS, radios)
                          | Some b \<Rightarrow> CWBindingSaveConfigureResponse drv b radios);
          (case r of
             Inl e \<Rightarrow> Some (Inl e, Some ac, radios, gEchoInterval)
           | Inr _ \<Rightarrow> Some (Inr (), Some ac, radios,
               if sint (cp_echoRequestTimer v) > 0 then cp_echoRequestTimer v else gEchoInterval))
        })"

subsection \<open>The Change State Event of the WTP\<close>

definition CWAssembleChangeStateEventRequest ::
  "(nat \<Rightarrow> bool) \<Rightarrow> WTP_globals \<Rightarrow> u32 \<Rightarrow> int \<Rightarrow> u32 \<Rightarrow> u32 \<Rightarrow> (CWErrorCode + cw_msg list) option" where
  "CWAssembleChangeStateEventRequest alloc g fragID PMTU seqValue crypt =
     (if \<not> alloc (sizeof_CWProtocolMessage * 2) then Some (Inl CW_ERROR_OUT_OF_MEMORY)
      else do {
        r \<leftarrow> assemble_each (\<lambda>r. r)
               [CWAssembleMsgElemRadioOperationalState alloc g (- 1), CWAssembleMsgElemResultCode alloc CW_PROTOCOL_SUCCESS];
        (case r of
           Inl e \<Rightarrow> Some (Inl e)
         | Inr msgElems \<Rightarrow>
             CWAssembleMessage alloc fragID PMTU seqValue CW_MSG_TYPE_VALUE_CHANGE_STATE_EVENT_REQUEST
               (Some msgElems) 2 None 0 crypt)
      })"

definition CWParseChangeStateEventResponseMessage ::
  "cw_msg \<Rightarrow> u32 \<Rightarrow> (CWErrorCode + unit) option" where
  "CWParseChangeStateEventResponseMessage m seqValue = do {
     r \<leftarrow> open_message CW_MSG_TYPE_VALUE_CHANGE_STATE_EVENT_RESPONSE m;
     Some (case r of
             Inl e \<Rightarrow> Inl e
           | Inr ((n, elemsLen), _) \<Rightarrow>
               if n \<noteq> seqValue \<or> elemsLen \<noteq> 0 then Inl CW_ERROR_INVALID_FORMAT else Inr ())
   }"

subsection \<open>What the AC finds in a Configure Request\<close>

datatype configure_element =
    AC_name "u8 list" | AC_indexed u8 "u8 list" | Admin_state u8 u8 | Statistics_timer u32
  | Reboot_statistics WTPRebootStatisticsInfo

primrec configure_type :: "configure_element \<Rightarrow> u16" where
  "configure_type (AC_name n) = ucast CW_MSG_ELEMENT_AC_NAME_CW_TYPE"
| "configure_type (AC_indexed i n) = ucast CW_MSG_ELEMENT_AC_NAME_INDEX_CW_TYPE"
| "configure_type (Admin_state i s) = ucast CW_MSG_ELEMENT_RADIO_ADMIN_STATE_CW_TYPE"
| "configure_type (Statistics_timer t) = ucast CW_MSG_ELEMENT_STATISTICS_TIMER_CW_TYPE"
| "configure_type (Reboot_statistics r) = ucast CW_MSG_ELEMENT_WTP_REBOOT_STATISTICS_CW_TYPE"

primrec configure_body :: "configure_element \<Rightarrow> u8 list" where
  "configure_body (AC_name n) = n"
| "configure_body (AC_indexed i n) = i # n"
| "configure_body (Admin_state i s) = [i, s]"
| "configure_body (Statistics_timer t) = half_bytes t"
| "configure_body (Reboot_statistics r) = reboot_bytes r"

primrec configure_ok :: "configure_element \<Rightarrow> bool" where
  "configure_ok (AC_name n) \<longleftrightarrow> length n < 65536"
| "configure_ok (AC_indexed i n) \<longleftrightarrow> length n < 65535"
| "configure_ok (Admin_state i s) \<longleftrightarrow> True"
| "configure_ok (Statistics_timer t) \<longleftrightarrow> t < 65536"
| "configure_ok (Reboot_statistics r) \<longleftrightarrow> reboot_fits r"

primrec count_configure ::
  "configure_element \<Rightarrow> CWProtocolConfigureRequestValues \<Rightarrow> CWProtocolConfigureRequestValues" where
  "count_configure (AC_name n) v = v\<lparr>cq_ACName := Some (Some n)\<rparr>"
| "count_configure (AC_indexed i n) v = v\<lparr>cq_ACinWTPCount := cq_ACinWTPCount v + 1\<rparr>"
| "count_configure (Admin_state i s) v = v\<lparr>cq_radioAdminInfoCount := cq_radioAdminInfoCount v + 1\<rparr>"
| "count_configure (Statistics_timer t) v = v\<lparr>cq_StatisticsTimer := t\<rparr>"
| "count_configure (Reboot_statistics r) v = v\<lparr>cq_WTPRebootStatistics := Some r\<rparr>"

fun names_in :: "configure_element list \<Rightarrow> CWACNameWithIndexValues list" where
  "names_in (AC_indexed i n # es) = \<lparr>acn_index = ucast i, acn_ACName = Some n\<rparr> # names_in es"
| "names_in (_ # es) = names_in es"
| "names_in [] = []"

fun admins_in :: "CWRadioAdminInfoValues \<Rightarrow> configure_element list \<Rightarrow> CWRadioAdminInfoValues list" where
  "admins_in blank (Admin_state i s # es) = blank\<lparr>ai_ID := ucast i, ai_state := ucast s\<rparr> # admins_in blank es"
| "admins_in blank (_ # es) = admins_in blank es"
| "admins_in blank [] = []"

primrec is_admin :: "configure_element \<Rightarrow> bool" where
  "is_admin (AC_name n) \<longleftrightarrow> False"
| "is_admin (AC_indexed i n) \<longleftrightarrow> False"
| "is_admin (Admin_state i s) \<longleftrightarrow> True"
| "is_admin (Statistics_timer t) \<longleftrightarrow> False"
| "is_admin (Reboot_statistics r) \<longleftrightarrow> False"

definition fill_configure ::
  "CWRadioAdminInfoValues \<Rightarrow> configure_element \<Rightarrow> CWProtocolConfigureRequestValues \<Rightarrow> CWProtocolConfigureRequestValues"
where
  "fill_configure blank e v = v\<lparr>cq_ACinWTP := cq_ACinWTP v @ names_in [e],
     cq_radioAdminInfo := cq_radioAdminInfo v @ admins_in blank [e]\<rparr>"

definition configure_room :: "configure_element list \<Rightarrow> CWProtocolConfigureRequestValues \<Rightarrow> bool" where
  "configure_room es v \<longleftrightarrow> length (cq_ACinWTP v) + length (names_in es) \<le> cq_ACinWTPCount v \<and>
     length (cq_radioAdminInfo v) + length (filter is_admin es) \<le> cq_radioAdminInfoCount v"

lemmas configure_types =
  CW_MSG_ELEMENT_AC_NAME_CW_TYPE_def CW_MSG_ELEMENT_AC_NAME_INDEX_CW_TYPE_def
  CW_MSG_ELEMENT_RADIO_ADMIN_STATE_CW_TYPE_def CW_MSG_ELEMENT_STATISTICS_TIMER_CW_TYPE_def
  CW_MSG_ELEMENT_WTP_REBOOT_STATISTICS_CW_TYPE_def

lemma length_configure_body: "configure_ok e \<Longrightarrow> length (configure_body e) < 65536"
  by (cases e) simp_all

lemma parse_names [cw_wire]:
  "CWParseACNameWithIndex plenty (Some (rbuf d pre (i # n @ rest))) (Suc (length n)) =
     Some (Inr (\<lparr>acn_index = ucast i, acn_ACName = Some n\<rparr>, rbuf d (pre @ i # n) rest))"
  "CWParseWTPRadioAdminState blank (Some (rbuf d pre (i # s # rest))) (Suc (Suc 0)) =
     Some (Inr (blank\<lparr>ai_ID := ucast i, ai_state := ucast s\<rparr>, rbuf d (pre @ [i, s]) rest))"
  "CWParseACName plenty (Some (rbuf d pre (n @ rest))) (length n) = Some (Inr (Some n, rbuf d (pre @ n) rest))"
  "t < 65536 \<Longrightarrow> CWParseWTPStatisticsTimer (Some (rbuf d pre (half_bytes t @ rest))) 2 =
     Some (Inr (t, rbuf d (pre @ half_bytes t) rest))"
  by (simp_all add: CWParseACNameWithIndex_def CWParseWTPRadioAdminState_def CWParseACName_def
      CWParseWTPStatisticsTimer_def half_bytes_def cw_wire)

context element_switch begin

lemma loop_continues:
  "\<forall>e \<in> set es. ok e \<Longrightarrow> room es s \<Longrightarrow> int (length pre + length (stream ty body es)) \<le> stop \<Longrightarrow>
   element_loop handle stop s (rbuf d pre (stream ty body es @ rest)) =
   element_loop handle stop (fold effect es s) (rbuf d (pre @ stream ty body es) rest)"
proof (induction es arbitrary: s pre)
  case (Cons e es)
  have "element_loop handle stop (effect e s)
      (rbuf d (pre @ elem_bytes (ty e) (body e)) (stream ty body es @ rest)) =
      element_loop handle stop (fold effect es (effect e s))
        (rbuf d ((pre @ elem_bytes (ty e) (body e)) @ stream ty body es) rest)"
    using Cons.prems room_step by (intro Cons.IH) auto
  then show ?case
    using Cons.prems handled [of e es s d "pre @ be16 (ty e) @ be16 (of_nat (length (body e)))"
        "stream ty body es @ rest"] short [of e]
    by (simp add: element_loop_step) (simp add: elem_bytes_def)
qed simp

end

interpretation configure_pass: strict_switch "configure_switch plenty" configure_type configure_body configure_ok
  count_configure "\<lambda>_ _. True"
  "{t. ucast t \<in> {CW_MSG_ELEMENT_AC_NAME_CW_TYPE, CW_MSG_ELEMENT_AC_NAME_INDEX_CW_TYPE,
     CW_MSG_ELEMENT_RADIO_ADMIN_STATE_CW_TYPE, CW_MSG_ELEMENT_STATISTICS_TIMER_CW_TYPE,
     CW_MSG_ELEMENT_WTP_REBOOT_STATISTICS_CW_TYPE}}"
proof
  show "configure_ok e \<Longrightarrow> configure_switch plenty (configure_type e) (length (configure_body e)) s
      (rbuf d pre (configure_body e @ rest)) =
    Some (Inr (count_configure e s, rbuf d (pre @ configure_body e) rest))" for e s d pre rest
    using skip_element_rbuf [of "configure_body e" "count_configure e s" d pre rest]
    by (cases e) (simp_all add: configure_switch_def configure_types cw_wire)
qed (auto simp: configure_switch_def length_configure_body)

interpretation configure_fill: element_switch "names_switch plenty blank" configure_type configure_body configure_ok
  "fill_configure blank" configure_room for blank
proof
  show "configure_ok e \<Longrightarrow> configure_room (e # es) s \<Longrightarrow> names_switch plenty blank (configure_type e)
      (length (configure_body e)) s (rbuf d pre (configure_body e @ rest)) =
    Some (Inr (fill_configure blank e s, rbuf d (pre @ configure_body e) rest))" for e es s d pre rest
    using skip_element_rbuf [of "configure_body e" s d pre rest]
    by (cases e) (simp_all add: names_switch_def configure_types configure_room_def fill_configure_def cw_wire)
  show "configure_ok e \<Longrightarrow> configure_room (e # es) s \<Longrightarrow> configure_room es (fill_configure blank e s)" for e es s
    by (cases e) (auto simp: configure_room_def fill_configure_def)
qed (rule length_configure_body)

lemma names_in_append [simp]:
  "names_in (es @ fs) = names_in es @ names_in fs" "admins_in blank (es @ fs) = admins_in blank es @ admins_in blank fs"
  subgoal by (induction es rule: names_in.induct) simp_all
  subgoal by (induction blank es rule: admins_in.induct) simp_all
  done

lemma fold_fill_configure:
  "fold (fill_configure blank) es v = v\<lparr>cq_ACinWTP := cq_ACinWTP v @ names_in es,
     cq_radioAdminInfo := cq_radioAdminInfo v @ admins_in blank es\<rparr>"
proof (induction es arbitrary: v)
  case (Cons e es)
  have "names_in (e # es) = names_in [e] @ names_in es" "admins_in blank (e # es) = admins_in blank [e] @ admins_in blank es"
    by (cases e; simp)+
  with Cons show ?case by (simp add: fill_configure_def)
qed simp

text \<open>The request of a WTP.\<close>

abbreviation admin_element :: "CWWTPRadioInfoValues \<Rightarrow> configure_element" where
  "admin_element r \<equiv> Admin_state (ucast (radioID r)) (ucast (adminState r))"

definition configure_request :: "WTP_globals \<Rightarrow> configure_element list" where
  "configure_request g = [AC_name (gACInfo_name g), AC_indexed 0 (c_string ''ACPrimary''),
     AC_indexed 1 (c_string ''ACSecondary'')] @ map admin_element (gRadiosInfo g) @
     [Statistics_timer (gWTPStatisticsTimer g), Reboot_statistics (gWTPRebootStatistics g)]"

definition wtp_fits :: "WTP_globals \<Rightarrow> bool" where
  "wtp_fits g \<longleftrightarrow> length (gACInfo_name g) < 65536 \<and> gWTPStatisticsTimer g < 65536 \<and>
     reboot_fits (gWTPRebootStatistics g)"

lemma admin_states_simps [simp]:
  "fold count_configure (map (\<lambda>r. Admin_state (i r) (st r)) rs) v =
     v\<lparr>cq_radioAdminInfoCount := cq_radioAdminInfoCount v + length rs\<rparr>"
  "names_in (map (\<lambda>r. Admin_state (i r) (st r)) rs) = []"
  "admins_in blank (map (\<lambda>r. Admin_state (i r) (st r)) rs) =
     map (\<lambda>r. blank\<lparr>ai_ID := ucast (i r), ai_state := ucast (st r)\<rparr>) rs"
  by (induction rs arbitrary: v) simp_all

lemma assemble_configure_request:
  assumes "wtp_fits g"
  shows "\<exists>es. (\<forall>m \<in> set es. msg_fits m) \<and>
    CWAssembleConfigureRequest plenty g fragID PMTU seq crypt =
      CWAssembleMessage plenty fragID PMTU seq CW_MSG_TYPE_VALUE_CONFIGURE_REQUEST (Some es) (length es) (Some []) 0 crypt \<and>
    message_bytes seq CW_MSG_TYPE_VALUE_CONFIGURE_REQUEST es =
      control_message seq CW_MSG_TYPE_VALUE_CONFIGURE_REQUEST configure_type configure_body (configure_request g)"
proof -
  let ?t = "ucast CW_MSG_ELEMENT_AC_NAME_INDEX_CW_TYPE :: u16" and ?r = "ucast CW_MSG_ELEMENT_RADIO_ADMIN_STATE_CW_TYPE :: u16"
  let ?b = "elem_bytes ?t (0 # c_string ''ACPrimary'') @ elem_bytes ?t (1 # c_string ''ACSecondary'')"
  let ?a = "concat (map (\<lambda>r. elem_bytes ?r [ucast (radioID r), ucast (adminState r)]) (gRadiosInfo g))"
  let ?es = "[elem_msg (ucast CW_MSG_ELEMENT_AC_NAME_CW_TYPE) (gACInfo_name g), wbuf (length ?b) ?b, wbuf (length ?a) ?a,
    elem_msg (ucast CW_MSG_ELEMENT_STATISTICS_TIMER_CW_TYPE) (half_bytes (gWTPStatisticsTimer g)),
    elem_msg (ucast CW_MSG_ELEMENT_WTP_REBOOT_STATISTICS_CW_TYPE) (reboot_bytes (gWTPRebootStatistics g))]"
  have "CWAssembleMsgElemACName plenty g = Some (Inr (?es ! 0))"
    using wtp_acname.assemble_enc [of "Some (gACInfo_name g)" g] assms by (simp add: wtp_fits_def)
  moreover have "CWAssembleMsgElemACNameWithIndex plenty = Some (Inr (?es ! 1))"
  proof -
    have "\<forall>v \<in> set [\<lparr>acn_index = 0, acn_ACName = Some (c_string ''ACPrimary'')\<rparr>,
        \<lparr>acn_index = 1, acn_ACName = Some (c_string ''ACSecondary'')\<rparr>].
      do { name \<leftarrow> acn_ACName v;
           with_message plenty (1 + length name) (\<lambda>m. do {
             m \<leftarrow> CWProtocolStore8 m (ucast (acn_index v));
             m \<leftarrow> CWProtocolStoreStr m name;
             CWAssembleMsgElem plenty (Some m) CW_MSG_ELEMENT_AC_NAME_INDEX_CW_TYPE }) } =
        Some (Inr (elem_msg ?t (ucast (acn_index v) # the (acn_ACName v))))"
      by (simp add: cw_wire c_string_def)
    from assemble_array_all [of plenty, OF TrueI this] show ?thesis
      by (simp add: CWAssembleMsgElemACNameWithIndex_def CWWTPGetACNameWithIndex_def Let_def)
  qed
  moreover have "CWAssembleMsgElemRadioAdminState plenty g = Some (Inr (?es ! 2))"
  proof -
    have "\<forall>v \<in> set (map (\<lambda>r. \<lparr>ai_ID = radioID r, ai_state = adminState r, ai_cause = adminCause r\<rparr>) (gRadiosInfo g)).
      assemble_admin_state plenty v = Some (Inr (elem_msg ?r [ucast (ai_ID v), ucast (ai_state v)]))"
      by (auto simp: assemble_admin_state_def cw_wire)
    from assemble_array_all [of plenty, OF TrueI this] show ?thesis
      by (simp add: CWAssembleMsgElemRadioAdminState_def CWGetWTPRadiosAdminState_def Let_def comp_def)
  qed
  moreover have "CWAssembleMsgElemStatisticsTimer plenty g = Some (Inr (?es ! 3))"
    using wtp_stattimer.assemble_enc [of _ g] assms by (simp add: wtp_fits_def)
  moreover have "CWAssembleMsgElemWTPRebootStatistics plenty g = Some (Inr (?es ! 4))"
    using wtp_reboot.assemble_enc [of _ g] assms by (simp add: wtp_fits_def)
  moreover have n: "length ?es = 5" by simp
  ultimately have "CWAssembleConfigureRequest plenty g fragID PMTU seq crypt =
      CWAssembleMessage plenty fragID PMTU seq CW_MSG_TYPE_VALUE_CONFIGURE_REQUEST (Some ?es) (length ?es) (Some []) 0 crypt"
    unfolding n by (simp add: CWAssembleConfigureRequest_def CWAssembleMessage_NULL)
  moreover have "\<forall>m \<in> set ?es. msg_fits m" by (simp add: msg_fits_def)
  moreover have "message_bytes seq CW_MSG_TYPE_VALUE_CONFIGURE_REQUEST ?es =
      control_message seq CW_MSG_TYPE_VALUE_CONFIGURE_REQUEST configure_type configure_body (configure_request g)"
    by (simp add: control_message_def message_bytes_def configure_request_def comp_def Let_def)
  ultimately show ?thesis by blast
qed

text \<open>What the AC keeps of the request.\<close>

definition configured :: "WTP_globals \<Rightarrow> CWRadioAdminInfoValues \<Rightarrow> CWWTPProtocolManager \<Rightarrow> CWWTPProtocolManager" where
  "configured g blank pm = pm\<lparr>pm_ACName := Some (gACInfo_name g),
     pm_ACNameIndex := [\<lparr>acn_index = 0, acn_ACName = Some (c_string ''ACPrimary'')\<rparr>,
       \<lparr>acn_index = 1, acn_ACName = Some (c_string ''ACSecondary'')\<rparr>],
     pm_radioAdminInfo := map (\<lambda>r. blank\<lparr>ai_ID := ucast (ucast (radioID r) :: u8),
       ai_state := ucast (ucast (adminState r) :: u8)\<rparr>) (gRadiosInfo g),
     pm_StatisticsTimer := gWTPStatisticsTimer g, pm_WTPRebootStatistics := Some (gWTPRebootStatistics g)\<rparr>"

lemma parse_configure_request:
  assumes g: "wtp_fits g" and len: "length (stream configure_type configure_body (configure_request g)) < 65536"
    and m: "msg m = control_message seq CW_MSG_TYPE_VALUE_CONFIGURE_REQUEST configure_type configure_body
        (configure_request g)"
  shows "\<exists>v. CWParseConfigureRequestMessage plenty garbage blank m (length (msg m)) =
      Some (Inr (ucast (ucast seq :: u8), v)) \<and>
    (\<forall>pm. CWSaveConfigureRequestMessage v pm = Some (configured g blank pm))"
proof -
  let ?s = "stream configure_type configure_body (configure_request g)"
  let ?pre = "take 8 (msg m)"
  let ?v = "fold count_configure (configure_request g) (unassigned_configure garbage)"
  let ?w = "fold (fill_configure blank) (configure_request g) ?v"
  have ok: "\<forall>e \<in> set (configure_request g). configure_ok e"
    using g by (auto simp: configure_request_def wtp_fits_def c_string_def)
  have total: "length (msg m) = length ?pre + length ?s" by (simp add: m length_control_message)
  have "configure_room (configure_request g) ?v"
    by (simp add: configure_room_def configure_request_def unassigned_configure_def comp_def)
  from configure_fill.loop_reads [OF ok this, where d = "data_msgType m" and pre = ?pre and rest = "[]", OF refl]
    configure_pass.reads_to_end [OF ok TrueI total, of "unassigned_configure garbage" "data_msgType m"]
  have "CWParseConfigureRequestMessage plenty garbage blank m (length (msg m)) = Some (Inr (ucast (ucast seq :: u8), ?w))"
    by (simp add: CWParseConfigureRequestMessage_def open_received [OF m len] rbuf_rewind)
  then show ?thesis
    by (auto simp: CWSaveConfigureRequestMessage_def configured_def fold_fill_configure)
      (simp add: configure_request_def unassigned_configure_def)
qed

subsection \<open>What the WTP finds in a Configure Response\<close>

datatype configure_reply =
    IPv4_list | IPv6_list | Timers | Period CWRadioAdminInfoValues | Idle | Fallback | Announcement firmware
  | Radio_qos "RadioQosValues \<times> u8"

primrec reply_type :: "configure_reply \<Rightarrow> u16" where
  "reply_type IPv4_list = ucast CW_MSG_ELEMENT_AC_IPV4_LIST_CW_TYPE"
| "reply_type IPv6_list = ucast CW_MSG_ELEMENT_AC_IPV6_LIST_CW_TYPE"
| "reply_type Timers = ucast CW_MSG_ELEMENT_CW_TIMERS_CW_TYPE"
| "reply_type (Period r) = ucast CW_MSG_ELEMENT_CW_DECRYPT_ER_REPORT_PERIOD_CW_TYPE"
| "reply_type Idle = ucast CW_MSG_ELEMENT_IDLE_TIMEOUT_CW_TYPE"
| "reply_type Fallback = ucast CW_MSG_ELEMENT_WTP_FALLBACK_CW_TYPE"
| "reply_type (Announcement f) = ucast CW_MSG_ELEMENT_VENDOR_SPEC_PAYLOAD_CW_TYPE"
| "reply_type (Radio_qos v) = ucast BINDING_MSG_ELEMENT_TYPE_WTP_QOS"

definition ac_ipv4 :: "bool \<Rightarrow> u32 list" where "ac_ipv4 le = projr (CWACGetACIPv4List plenty le)"

definition ac_ipv6 :: "u8 list list" where "ac_ipv6 = projr (CWACGetACIPv6List plenty)"

primrec reply_body :: "bool \<Rightarrow> AC_globals \<Rightarrow> configure_reply \<Rightarrow> u8 list" where
  "reply_body le ac IPv4_list = concat (map be32 (ac_ipv4 le))"
| "reply_body le ac IPv6_list = concat ac_ipv6"
| "reply_body le ac Timers = byte_bytes (gDiscoveryTimer ac) @ byte_bytes (gEchoRequestTimer ac)"
| "reply_body le ac (Period r) = byte_bytes (ai_ID r) @ half_bytes 15"
| "reply_body le ac Idle = be32 (gIdleTimeout ac)"
| "reply_body le ac Fallback = byte_bytes 0"
| "reply_body le ac (Announcement f) = packet_bytes (infos_of f)"
| "reply_body le ac (Radio_qos v) = qos_body v"

primrec reply_ok :: "AC_globals \<Rightarrow> configure_reply \<Rightarrow> bool" where
  "reply_ok ac IPv4_list \<longleftrightarrow> True"
| "reply_ok ac IPv6_list \<longleftrightarrow> True"
| "reply_ok ac Timers \<longleftrightarrow> gDiscoveryTimer ac < 256 \<and> gEchoRequestTimer ac < 256"
| "reply_ok ac (Period r) \<longleftrightarrow> ai_ID r < 256"
| "reply_ok ac Idle \<longleftrightarrow> True"
| "reply_ok ac Fallback \<longleftrightarrow> True"
| "reply_ok ac (Announcement f) \<longleftrightarrow> firmware_ok f"
| "reply_ok ac (Radio_qos v) \<longleftrightarrow> radio_fits v"

text \<open>What the WTP makes of an announcement.\<close>

definition heard :: "sino_env \<Rightarrow> firmware \<Rightarrow> announcement" where
  "heard se f = (if se_maxv se < (int (fst (fw_version f)), int (fst (snd (fw_version f))), int (snd (snd (fw_version f))))
     then Upgrade else No_upgrade) (values_of f)"

primrec reply_effect ::
  "bool \<Rightarrow> AC_globals \<Rightarrow> sino_env \<Rightarrow> configure_reply \<Rightarrow> CWProtocolConfigureResponseValues \<Rightarrow>
     CWProtocolConfigureResponseValues" where
  "reply_effect le ac se IPv4_list v = v\<lparr>cp_ACIPv4List := ac_ipv4 le\<rparr>"
| "reply_effect le ac se IPv6_list v = v\<lparr>cp_ACIPv6List := ac_ipv6\<rparr>"
| "reply_effect le ac se Timers v = v\<lparr>cp_discoveryTimer := gDiscoveryTimer ac, cp_echoRequestTimer := gEchoRequestTimer ac\<rparr>"
| "reply_effect le ac se (Period r) v = v\<lparr>cp_radiosCount := cp_radiosCount v + 1\<rparr>"
| "reply_effect le ac se Idle v = v\<lparr>cp_idleTimeout := gIdleTimeout ac\<rparr>"
| "reply_effect le ac se Fallback v = v\<lparr>cp_fallback := 0\<rparr>"
| "reply_effect le ac se (Announcement f) v = v\<lparr>cp_sino_count := cp_sino_count v - 1, cp_announced := heard se f\<rparr>"
| "reply_effect le ac se (Radio_qos q) v = v\<lparr>cp_bindingFound := True\<rparr>"

fun announcements :: "configure_reply list \<Rightarrow> int" where
  "announcements (Announcement f # es) = 1 + announcements es"
| "announcements (_ # es) = announcements es"
| "announcements [] = 0"

fun periods :: "configure_reply list \<Rightarrow> WTPDecryptErrorReportValues list" where
  "periods (Period r # es) = \<lparr>dp_radioID = ai_ID r, dp_reportInterval = 15\<rparr> # periods es"
| "periods (_ # es) = periods es"
| "periods [] = []"

lemma announcements_nonneg: "0 \<le> announcements es"
  by (induction es rule: announcements.induct) auto

definition reply_fill :: "configure_reply \<Rightarrow> CWProtocolConfigureResponseValues \<Rightarrow> CWProtocolConfigureResponseValues" where
  "reply_fill e v = v\<lparr>cp_radios := cp_radios v @ periods [e]\<rparr>"

definition reply_room :: "configure_reply list \<Rightarrow> CWProtocolConfigureResponseValues \<Rightarrow> bool" where
  "reply_room es v \<longleftrightarrow> length (cp_radios v) + length (periods es) \<le> cp_radiosCount v"

lemmas reply_types =
  CW_MSG_ELEMENT_AC_IPV4_LIST_CW_TYPE_def CW_MSG_ELEMENT_AC_IPV6_LIST_CW_TYPE_def CW_MSG_ELEMENT_CW_TIMERS_CW_TYPE_def
  CW_MSG_ELEMENT_RADIO_OPERAT_STATE_CW_TYPE_def CW_MSG_ELEMENT_CW_DECRYPT_ER_REPORT_PERIOD_CW_TYPE_def
  CW_MSG_ELEMENT_IDLE_TIMEOUT_CW_TYPE_def CW_MSG_ELEMENT_WTP_FALLBACK_CW_TYPE_def
  CW_MSG_ELEMENT_VENDOR_SPEC_PAYLOAD_CW_TYPE_def

lemma binding_check_reply [simp]:
  "CWBindingCheckType (ucast (reply_type e)) \<longleftrightarrow> (case e of Radio_qos v \<Rightarrow> True | _ \<Rightarrow> False)"
  by (cases e) (simp_all add: CWBindingCheckType_def reply_types binding_types)

lemma length_reply_body: "reply_ok ac e \<Longrightarrow> length (reply_body le ac e) < 65536"
  using infos_fit length_binding_body [of "Qos v" for v]
  by (cases e) (force simp: ac_ipv4_def ac_ipv6_def CWACGetACIPv4List_def CWACGetACIPv6List_def
      simp del: length_packet_bytes)+

lemma announcement_read:
  assumes "firmware_ok f"
  shows "CWParseVendorPayloadSinoix (se_junk se) (se_maxv se) (se_values se)
      (Some (rbuf d pre (packet_bytes (infos_of f) @ rest))) (length (packet_bytes (infos_of f))) =
    Some (heard se f, Some (rbuf d (pre @ packet_bytes (infos_of f)) rest))"
proof -
  have small: "length (packet_bytes (infos_of f)) \<le> SINOIX_MAX_SIZE"
    using infos_fit [OF assms] by (simp add: SINOIX_MAX_SIZE_def del: length_packet_bytes)
  show ?thesis
    using payload_read [OF small infos_ok [OF assms], of "se_values se" "int (fst (fw_version f))"
        "int (fst (snd (fw_version f)))" "int (snd (snd (fw_version f)))" "se_junk se" "se_maxv se" d pre rest]
    by (simp add: infos_taken) (auto simp: heard_def values_of_def infos_of_def maxver_def less_prod_def)
qed

interpretation reply_pass: element_switch "configure_response_switch plenty se" reply_type "reply_body le ac"
  "reply_ok ac" "reply_effect le ac se" "\<lambda>es v. announcements es \<le> cp_sino_count v" for se le ac
proof
  show "reply_ok ac e \<Longrightarrow> announcements (e # es) \<le> cp_sino_count s \<Longrightarrow> configure_response_switch plenty se (reply_type e)
      (length (reply_body le ac e)) s (rbuf d pre (reply_body le ac e @ rest)) =
    Some (Inr (reply_effect le ac se e s, rbuf d (pre @ reply_body le ac e) rest))" for e es s d pre rest
  proof (cases e)
    case IPv4_list
    then show ?thesis
      using ac_ipv4_list.parse_enc [of "ac_ipv4 le" le d pre rest]
      by (simp add: configure_response_switch_def reply_types CWBindingCheckType_def binding_types ac_ipv4_def
          CWACGetACIPv4List_def)
  next
    case IPv6_list
    then show ?thesis
      using ac_ipv6_list.parse_enc [of ac_ipv6 d pre rest]
      by (simp add: configure_response_switch_def reply_types CWBindingCheckType_def binding_types ac_ipv6_def
          CWACGetACIPv6List_def)
  next
    case Timers
    then show "reply_ok ac e \<Longrightarrow> ?thesis"
      using ac_timers.parse_enc [where v = "(gDiscoveryTimer ac, gEchoRequestTimer ac)" and d = d and pre = pre and rest = rest]
      by (simp add: configure_response_switch_def reply_types CWBindingCheckType_def binding_types)
  next
    case (Period r)
    then show ?thesis
      using skip_element_rbuf [of "reply_body le ac e" "reply_effect le ac se e s" d pre rest]
      by (simp add: configure_response_switch_def reply_types CWBindingCheckType_def binding_types)
  next
    case Idle
    then show ?thesis
      using ac_idle.parse_enc [of "gIdleTimeout ac" ac d pre rest]
      by (simp add: configure_response_switch_def reply_types CWBindingCheckType_def binding_types)
  next
    case Fallback
    then show ?thesis
      using ac_fallback.parse_enc [of 0 d pre rest]
      by (simp add: configure_response_switch_def reply_types CWBindingCheckType_def binding_types)
  next
    case (Announcement f)
    then show "reply_ok ac e \<Longrightarrow> announcements (e # es) \<le> cp_sino_count s \<Longrightarrow> ?thesis"
      using announcement_read [of f se d pre rest] announcements_nonneg [of es]
      by (simp add: configure_response_switch_def reply_types CWBindingCheckType_def binding_types
          del: length_packet_bytes)
  next
    case (Radio_qos v)
    then show ?thesis
      using skip_element_rbuf [of "reply_body le ac e" "reply_effect le ac se e s" d pre rest]
      by (simp add: configure_response_switch_def binding_types CWBindingCheckType_def)
  qed
  show "reply_ok ac e \<Longrightarrow> announcements (e # es) \<le> cp_sino_count s \<Longrightarrow>
    announcements es \<le> cp_sino_count (reply_effect le ac se e s)" for e es s
    by (cases e) auto
qed (rule length_reply_body)

interpretation reply_fill: element_switch configure_fill_switch reply_type "reply_body le ac"
  "reply_ok ac" reply_fill reply_room for le ac
proof
  show "reply_ok ac e \<Longrightarrow> reply_room (e # es) s \<Longrightarrow> configure_fill_switch (reply_type e)
      (length (reply_body le ac e)) s (rbuf d pre (reply_body le ac e @ rest)) =
    Some (Inr (reply_fill e s, rbuf d (pre @ reply_body le ac e) rest))" for e es s d pre rest
  proof (cases e)
    case (Period r)
    then show "reply_ok ac e \<Longrightarrow> reply_room (e # es) s \<Longrightarrow> ?thesis"
      using ac_decrypt_period.parse_enc [of "\<lparr>dp_radioID = ai_ID r, dp_reportInterval = 15\<rparr>" r d pre rest]
      by (simp add: configure_fill_switch_def reply_types reply_fill_def reply_room_def)
  qed (use skip_element_rbuf [of "reply_body le ac e" s d pre rest] in
      \<open>simp_all add: configure_fill_switch_def reply_types binding_types reply_fill_def del: length_packet_bytes\<close>)
  show "reply_ok ac e \<Longrightarrow> reply_room (e # es) s \<Longrightarrow> reply_room es (reply_fill e s)" for e es s
    by (cases e) (auto simp: reply_room_def reply_fill_def)
qed (rule length_reply_body)

lemma fold_reply_fill: "fold reply_fill es v = v\<lparr>cp_radios := cp_radios v @ periods es\<rparr>"
proof (induction es arbitrary: v)
  case (Cons e es)
  have "periods (e # es) = periods [e] @ periods es" by (cases e) simp_all
  with Cons show ?case by (simp add: reply_fill_def)
qed simp

lemma periods_simps [simp]:
  "periods (map Period rs @ es) = map (\<lambda>r. \<lparr>dp_radioID = ai_ID r, dp_reportInterval = 15\<rparr>) rs @ periods es"
  "announcements (map Period rs @ es) = announcements es"
  "fold (reply_effect le ac se) (map Period rs) v = v\<lparr>cp_radiosCount := cp_radiosCount v + length rs\<rparr>"
  by (induction rs arbitrary: v) simp_all

text \<open>The elements as the binding's parser sees them.\<close>

fun as_binding :: "bool \<Rightarrow> AC_globals \<Rightarrow> configure_reply \<Rightarrow> binding_element" where
  "as_binding le ac (Radio_qos v) = Qos v"
| "as_binding le ac e = Other (reply_type e) (reply_body le ac e)"

lemma as_binding_same:
  "binding_type (as_binding le ac e) = reply_type e" "binding_body (as_binding le ac e) = reply_body le ac e"
  "reply_ok ac e \<Longrightarrow> binding_ok (as_binding le ac e)"
  using binding_check_reply [of e] length_reply_body [of ac e le] by (cases e; simp)+

lemma stream_as_binding:
  "stream binding_type binding_body (map (as_binding le ac) es) = stream reply_type (reply_body le ac) es"
  by (simp add: stream_def as_binding_same comp_def)

definition configure_response :: "AC_globals \<Rightarrow> firmware \<Rightarrow> RadioQosValues \<times> u8 \<Rightarrow> configure_reply list" where
  "configure_response ac f q = [IPv4_list, IPv6_list, Timers] @ map Period (ac_radioAdminInfo ac) @
     [Idle, Fallback, Announcement f, Radio_qos q]"

definition timers_ok :: "AC_globals \<Rightarrow> bool" where
  "timers_ok ac \<longleftrightarrow> gDiscoveryTimer ac < 256 \<and> gEchoRequestTimer ac < 256 \<and>
     (\<forall>r \<in> set (ac_radioAdminInfo ac). ai_ID r < 256)"

text \<open>What the WTP has read.\<close>

definition response_read ::
  "bool \<Rightarrow> AC_globals \<Rightarrow> sino_env \<Rightarrow> firmware \<Rightarrow> RadioQosValues \<Rightarrow> int \<Rightarrow> CWProtocolConfigureResponseValues" where
  "response_read le ac se f q sino_count = \<lparr>cp_ACIPv4List = ac_ipv4 le, cp_ACIPv6List = ac_ipv6,
     cp_discoveryTimer = gDiscoveryTimer ac, cp_echoRequestTimer = gEchoRequestTimer ac,
     cp_radioOperationalInfoCount = 0, cp_radioOperationalInfo = [],
     cp_radiosCount = length (ac_radioAdminInfo ac),
     cp_radios = map (\<lambda>r. \<lparr>dp_radioID = ai_ID r, dp_reportInterval = 15\<rparr>) (ac_radioAdminInfo ac),
     cp_idleTimeout = gIdleTimeout ac, cp_fallback = 0, cp_bindingFound = True, cp_bindingValues = Some [q],
     cp_sino_count = sino_count - 1, cp_announced = heard se f\<rparr>"

lemma qos_of_others: "qos_of (map (as_binding le ac) (map Period rs) @ es) = qos_of es"
  by (induction rs) simp_all

lemma configure_response_passes:
  assumes "open_message CW_MSG_TYPE_VALUE_CONFIGURE_RESPONSE m = Some (Inr ((seq, length s), rbuf d p s))"
    and "len = length p + length s"
    and "elements_to_end (configure_response_switch plenty se) (length s) len (start_response sino_count junk)
        (rbuf d p s) = Some (Inr (v, rbuf d (p @ s) []))"
    and "element_loop configure_fill_switch (int (length p + length s)) v (rbuf d p s) = Some (Inr (w, rbuf d (p @ s) []))"
    and "cp_bindingFound w"
    and "CWBindingParseConfigureResponse plenty ((rbuf d (p @ s) [])\<lparr>msg := s\<rparr>) (length s) = Some (Inr b)"
  shows "CWParseConfigureResponseMessage plenty se sino_count junk m len seq =
    Some (Inr (w\<lparr>cp_bindingValues := Some b\<rparr>))"
proof -
  have "drop (length p) (msg (rbuf d (p @ s) [])) = s" by (simp add: rbuf_def)
  with assms show ?thesis by (simp add: CWParseConfigureResponseMessage_def rbuf_rewind)
qed

lemma configure_response_fails:
  assumes "open_message CW_MSG_TYPE_VALUE_CONFIGURE_RESPONSE m = Some (Inr ((seq, length s), rbuf d p s))"
    and "len = length p + length s"
    and "element_loop (configure_response_switch plenty se) (int len) (start_response sino_count junk)
        (rbuf d p s) = Some (Inl e)"
  shows "CWParseConfigureResponseMessage plenty se sino_count junk m len seq = Some (Inl e)"
  using assms by (simp add: CWParseConfigureResponseMessage_def elements_to_end_def)

lemma parse_configure_response:
  assumes ac: "timers_ok ac" and f: "firmware_ok f" and q: "radio_fits q" and count: "1 \<le> sino_count"
    and len: "length (stream reply_type (reply_body le ac) (configure_response ac f q)) < 65536"
    and m: "msg m = control_message seq CW_MSG_TYPE_VALUE_CONFIGURE_RESPONSE reply_type (reply_body le ac)
        (configure_response ac f q)" and seq: "ucast (ucast seq :: u8) = seq"
  shows "CWParseConfigureResponseMessage plenty se sino_count junk m (length (msg m)) seq =
    Some (Inr (response_read le ac se f (fst q) sino_count))"
proof -
  let ?es = "configure_response ac f q"
  let ?s = "stream reply_type (reply_body le ac) ?es"
  let ?pre = "take 8 (msg m)"
  let ?v = "fold (reply_effect le ac se) ?es (start_response sino_count junk)"
  have ok: "\<forall>e \<in> set ?es. reply_ok ac e"
    using ac f q by (auto simp: configure_response_def timers_ok_def)
  have total: "length (msg m) = length ?pre + length ?s" by (simp add: m length_control_message)
  have pre: "length ?pre = 8" by (simp add: m length_control_message)
  have room: "announcements ?es \<le> cp_sino_count (start_response sino_count junk)"
    using count by (simp add: configure_response_def start_response_def)
  have v: "?v = (response_read le ac se f (fst q) sino_count)\<lparr>cp_radios := [], cp_bindingValues := None\<rparr>"
    by (simp add: configure_response_def start_response_def response_read_def)
  have w: "fold reply_fill ?es ?v = (response_read le ac se f (fst q) sino_count)\<lparr>cp_bindingValues := None\<rparr>"
    by (simp add: v fold_reply_fill) (simp add: configure_response_def response_read_def)
  have "reply_room ?es ?v" by (simp add: v reply_room_def) (simp add: configure_response_def response_read_def)
  from reply_fill.loop_reads [OF ok this, where d = "data_msgType m" and pre = ?pre and rest = "[]" and le = le, OF refl]
  have fill: "element_loop configure_fill_switch (int (length ?pre + length ?s)) ?v (rbuf (data_msgType m) ?pre ?s) =
      Some (Inr (fold reply_fill ?es ?v, rbuf (data_msgType m) (?pre @ ?s) []))" by simp
  have "CWBindingParseConfigureResponse plenty ((rbuf (data_msgType m) (?pre @ ?s) [])\<lparr>msg := ?s\<rparr>) (length ?s) =
      Some (Inr (qos_of (map (as_binding le ac) ?es)))"
    using parse_binding_response [of "map (as_binding le ac) ?es" "(rbuf (data_msgType m) (?pre @ ?s) [])\<lparr>msg := ?s\<rparr>"] ok
    by (auto simp: stream_as_binding as_binding_same)
  then have bind_q: "CWBindingParseConfigureResponse plenty ((rbuf (data_msgType m) (?pre @ ?s) [])\<lparr>msg := ?s\<rparr>) (length ?s) =
      Some (Inr [fst q])"
    using qos_of_others [of le ac "ac_radioAdminInfo ac"] by (simp add: configure_response_def)
  have open': "open_message CW_MSG_TYPE_VALUE_CONFIGURE_RESPONSE m =
      Some (Inr ((seq, length ?s), rbuf (data_msgType m) ?pre ?s))" by (simp only: open_received [OF m len] seq)
  have found: "cp_bindingFound (fold reply_fill ?es ?v)" unfolding w by (simp add: response_read_def)
  show ?thesis
    unfolding configure_response_passes [OF open' total reply_pass.reads_to_end [OF ok room total] fill found bind_q] w
    by (simp add: response_read_def)
qed

lemma joined_message_delivered:
  assumes "\<forall>m \<in> set (es @ bs). msg_fits m" and "fragID < 65536" and "length (message_bytes seq type (es @ bs)) \<le> 65536"
  shows "\<exists>ps. CWAssembleMessage plenty fragID PMTU seq type (Some es) (length es) (Some bs) (length bs) crypt =
            Some (Inr ps) \<and> (\<forall>p \<in> set ps. msg_fits p) \<and>
          delivers (map contents ps) (message_bytes seq type (es @ bs))"
  using message_delivered [OF assms, of PMTU crypt] CWAssembleMessage_eq [of plenty es bs fragID seq type PMTU crypt]
    CWAssembleMessage_eq [of plenty "es @ bs" "[]" fragID seq type PMTU crypt] assms
  by simp

text \<open>The seven elements of the AC.\<close>

definition reply_elements :: "bool \<Rightarrow> AC_globals \<Rightarrow> firmware \<Rightarrow> cw_msg list" where
  "reply_elements le ac f = (let part = (\<lambda>e. elem_msg (reply_type e) (reply_body le ac e));
       periods = stream reply_type (reply_body le ac) (map Period (ac_radioAdminInfo ac))
     in [part IPv4_list, part IPv6_list, part Timers, wbuf (length periods) periods, part Idle, part Fallback,
         part (Announcement f)])"

lemma reply_elements_assembled:
  assumes ac: "timers_ok ac" and f: "sino_holds sino (infos_of f)"
  shows "assemble_each (\<lambda>r. r)
      [CWAssembleMsgElemACIPv4List plenty le, CWAssembleMsgElemACIPv6List plenty, CWAssembleMsgElemCWTimer plenty ac,
       CWAssembleMsgElemDecryptErrorReportPeriod plenty ac, CWAssembleMsgElemIdleTimeout plenty ac,
       CWAssembleMsgElemWTPFallback plenty, CWAssembleMsgSinoixVendorPayload plenty False sino] =
    Some (Inr (reply_elements le ac f))"
proof -
  let ?part = "\<lambda>e. elem_msg (reply_type e) (reply_body le ac e)"
  have "CWAssembleMsgElemACIPv4List plenty le = Some (Inr (?part IPv4_list))"
    using ac_ipv4_list.assemble_enc [of "ac_ipv4 le" le] by (simp add: ac_ipv4_def CWACGetACIPv4List_def)
  moreover have "CWAssembleMsgElemACIPv6List plenty = Some (Inr (?part IPv6_list))"
    using ac_ipv6_list.assemble_enc [of ac_ipv6] by (simp add: ac_ipv6_def CWACGetACIPv6List_def)
  moreover have "CWAssembleMsgElemCWTimer plenty ac = Some (Inr (?part Timers))"
    using ac_timers.assemble_enc [where v = "(gDiscoveryTimer ac, gEchoRequestTimer ac)"] ac by (simp add: timers_ok_def)
  moreover have "CWAssembleMsgElemDecryptErrorReportPeriod plenty ac = Some (Inr (reply_elements le ac f ! 3))"
  proof -
    have "\<forall>r \<in> set (ac_radioAdminInfo ac). decrypt_period_element plenty r =
        Some (Inr (elem_msg (ucast CW_MSG_ELEMENT_CW_DECRYPT_ER_REPORT_PERIOD_CW_TYPE) (reply_body le ac (Period r))))"
      by (simp add: decrypt_period_element_def half_bytes_def byte_bytes_def cw_wire)
    from assemble_array_all [of plenty, OF TrueI this] show ?thesis
      by (simp add: CWAssembleMsgElemDecryptErrorReportPeriod_def reply_elements_def stream_def comp_def Let_def)
  qed
  moreover have "CWAssembleMsgElemIdleTimeout plenty ac = Some (Inr (?part Idle))"
    using ac_idle.assemble_enc [of "gIdleTimeout ac" ac] by simp
  moreover have "CWAssembleMsgElemWTPFallback plenty = Some (Inr (?part Fallback))"
    using ac_fallback.assemble_enc [of 0] by simp
  moreover have "CWAssembleMsgSinoixVendorPayload plenty False sino = Some (Inr (?part (Announcement f)))"
    using payload_assembled [OF f] by simp
  ultimately show ?thesis by (simp add: reply_elements_def Let_def)
qed

lemma reply_elements_fit: "m \<in> set (reply_elements le ac f) \<Longrightarrow> msg_fits m"
  by (auto simp: reply_elements_def Let_def msg_fits_def)

lemma reply_message:
  "message_bytes seq CW_MSG_TYPE_VALUE_CONFIGURE_RESPONSE
     (reply_elements le ac f @ [elem_msg (ucast BINDING_MSG_ELEMENT_TYPE_WTP_QOS) (qos_body q)]) =
   control_message seq CW_MSG_TYPE_VALUE_CONFIGURE_RESPONSE reply_type (reply_body le ac) (configure_response ac f q)"
proof -
  have "concat (map contents (map (\<lambda>e. elem_msg (reply_type e) (reply_body le ac e)) (map Period rs))) =
      stream reply_type (reply_body le ac) (map Period rs)" for rs by (simp add: stream_def comp_def)
  then show ?thesis
    by (simp add: control_message_def message_bytes_def configure_response_def reply_elements_def Let_def
        del: map_map length_packet_bytes)
qed

text \<open>The QoS values for the one radio of a session, merged with what the AC keeps.\<close>

definition one_radio :: "WTPQosValues list \<Rightarrow> WTPQosValues list \<Rightarrow> CWWTPRadioInfoValues \<Rightarrow> CWWTPManager \<Rightarrow> bool" where
  "one_radio merged defaults r wtp \<longleftrightarrow> (let pm = WTPProtocolManager wtp in
     pm_radioCount pm = 1 \<and> pm_radiosInfo pm = [r] \<and> length defaults = 4 \<and> length (pm_bindingQos pm) = 4 \<and>
     merged = map2 merge_qos defaults (pm_bindingQos pm) \<and> (\<forall>q \<in> set merged. qos_fits q))"

abbreviation radio_qos :: "CWWTPRadioInfoValues \<Rightarrow> WTPQosValues list \<Rightarrow> RadioQosValues" where
  "radio_qos r qs \<equiv> \<lparr>rq_radioID = ucast (radioID r), rq_qosValues = qs\<rparr>"

lemma one_radio_assembled:
  assumes "one_radio merged defaults r wtp"
  shows "CWBindingAssembleConfigureResponse plenty defaults wtp = Some (merged, wtp\<lparr>qosValues := None\<rparr>,
      Inr [elem_msg (ucast BINDING_MSG_ELEMENT_TYPE_WTP_QOS) (qos_body (radio_qos r merged, 0))])"
    and "radio_fits (radio_qos r merged, 0)" and "length merged = 4"
proof -
  have n: "length merged = 4" using assms by (simp add: one_radio_def Let_def)
  have "CWMergeQosValues defaults (pm_bindingQos (WTPProtocolManager wtp)) = Some merged"
    using assms by (simp add: CWMergeQosValues_def NUM_QOS_PROFILES_def one_radio_def Let_def)
  from CWAssembleWTPQoS_eq [OF this, of "radioID r" 0] assms n
  show "CWBindingAssembleConfigureResponse plenty defaults wtp = Some (merged, wtp\<lparr>qosValues := None\<rparr>,
      Inr [elem_msg (ucast BINDING_MSG_ELEMENT_TYPE_WTP_QOS) (qos_body (radio_qos r merged, 0))])"
    by (simp add: CWBindingAssembleConfigureResponse_def binding_elements_def NUM_QOS_PROFILES_def one_radio_def Let_def)
  show "radio_fits (radio_qos r merged, 0)"
    using assms n by (simp add: radio_fits_def NUM_QOS_PROFILES_def one_radio_def Let_def)
qed (use assms in \<open>simp add: one_radio_def Let_def\<close>)

lemma configure_response_assembled:
  assumes "timers_ok ac" and "sino_holds sino (infos_of f)" and one: "one_radio merged defaults r wtp"
    and env: "nothing_fails env"
    and len: "length (stream reply_type (reply_body le ac) (configure_response ac f (radio_qos r merged, 0))) < 65528"
  shows "\<exists>qs. CWAssembleConfigureResponse env le ac False sino defaults wtp seq =
      Some (merged, wtp\<lparr>qosValues := None, messages := Some qs, messagesCount := length qs\<rparr>, Inr ()) \<and>
    (\<forall>p \<in> set qs. msg_fits p) \<and>
    delivers (map contents qs) (control_message seq CW_MSG_TYPE_VALUE_CONFIGURE_RESPONSE reply_type (reply_body le ac)
      (configure_response ac f (radio_qos r merged, 0)))"
proof -
  let ?b = "[elem_msg (ucast BINDING_MSG_ELEMENT_TYPE_WTP_QOS) (qos_body (radio_qos r merged, 0))]"
  have fits: "\<forall>m \<in> set (reply_elements le ac f @ ?b). msg_fits m"
    by (auto intro: reply_elements_fit simp: elem_msg_fits)
  have env': "env_alloc env = plenty" "env_fragID env < 65536" using env by (simp_all add: nothing_fails_def)
  have n: "length (reply_elements le ac f) = 7" by (simp add: reply_elements_def Let_def)
  from joined_message_delivered [OF fits env'(2), of seq CW_MSG_TYPE_VALUE_CONFIGURE_RESPONSE "pathMTU wtp" "env_crypt env"] len
  obtain qs where qs: "CWAssembleMessage plenty (env_fragID env) (pathMTU wtp) seq CW_MSG_TYPE_VALUE_CONFIGURE_RESPONSE
        (Some (reply_elements le ac f)) 7 (Some ?b) (length ?b) (env_crypt env) = Some (Inr qs)"
      "\<forall>p \<in> set qs. msg_fits p" "delivers (map contents qs) (control_message seq CW_MSG_TYPE_VALUE_CONFIGURE_RESPONSE
        reply_type (reply_body le ac) (configure_response ac f (radio_qos r merged, 0)))"
    by (auto simp: reply_message length_control_message n)
  have "CWAssembleConfigureResponse env le ac False sino defaults wtp seq =
      Some (merged, wtp\<lparr>qosValues := None, messages := Some qs, messagesCount := length qs\<rparr>, Inr ())"
    using qs(1) by (simp add: CWAssembleConfigureResponse_def env'(1) reply_elements_assembled [OF assms(1,2)]
        one_radio_assembled(1) [OF one] Let_def del: assemble_each.simps)
  with qs(2,3) show ?thesis by blast
qed

lemma one_radio_saved:
  assumes "one_radio merged defaults r wtp" and "takes_all drv" and "br_radioID radio = ucast (ucast (radioID r) :: u8)"
    and "length (br_qosValues radio) = 4"
  shows "CWBindingSetQosValues drv [radio_qos r merged] [radio] code =
    Some (Inr CW_PROTOCOL_SUCCESS, [radio\<lparr>br_qosValues := map2 applied (br_qosValues radio) merged\<rparr>])"
  using one_radio_assembled(3) [OF assms(1)] assms(2-4)
    set_queues_taken [OF assms(2), of 4 merged "br_qosValues radio" 0 CW_PROTOCOL_SUCCESS]
  by (simp add: CWBindingSetQosValues_def NUM_QOS_PROFILES_def takes_all_def)

lemma echo_interval:
  "gEchoRequestTimer ac < 256 \<Longrightarrow> 0 < sint (gEchoRequestTimer ac) \<longleftrightarrow> gEchoRequestTimer ac \<noteq> 0"
proof -
  assume "gEchoRequestTimer ac < 256"
  then have "uint (gEchoRequestTimer ac) < 256" by (simp add: word_less_def)
  moreover have "- 2147483648 \<le> uint (gEchoRequestTimer ac)" by (rule order_trans [of _ 0]) simp_all
  ultimately have "sint (gEchoRequestTimer ac) = uint (gEchoRequestTimer ac)"
    by (simp add: sint_uint signed_take_bit_int_eq_self_iff)
  then show ?thesis by (simp add: word_less_def word_gt_0 [symmetric] uint_0_iff less_le)
qed

subsection \<open>Properties\<close>


definition sample_configured_session :: CWWTPManager where
  "sample_configured_session = sample_binding_session\<lparr>currentState := CW_ENTER_CONFIGURE\<rparr>"

definition sample_sino_env :: sino_env where
  "sample_sino_env = \<lparr>se_junk = [], se_maxv = (1, 2, 9), se_values = values_of sample_firmware\<rparr>"

lemma sample_configure_facts:
  "one_radio [sample_qos 7, sample_qos 8, sample_qos 9, sample_qos 11] (map sample_qos [7, 8, 9, 11]) sample_radio
     sample_configured_session"
  "wtp_fits sample_wtp" "timers_ok sample_ac"
  "length (stream configure_type configure_body (configure_request sample_wtp)) < 65528"
  "length (stream reply_type (reply_body le sample_ac) (configure_response sample_ac sample_firmware
     (radio_qos sample_radio [sample_qos 7, sample_qos 8, sample_qos 9, sample_qos 11], 0))) < 65528"
proof -
  show "one_radio [sample_qos 7, sample_qos 8, sample_qos 9, sample_qos 11] (map sample_qos [7, 8, 9, 11]) sample_radio
     sample_configured_session"
    by (simp add: one_radio_def sample_configured_session_def sample_binding_session_def sample_session_def
        merge_qos_def sample_qos_def UNUSED_QOS_VALUE_def qos_fits_def Let_def)
  show "wtp_fits sample_wtp" by (simp add: wtp_fits_def sample_wtp_def reboot_fits_def)
  show "timers_ok sample_ac" by (simp add: timers_ok_def sample_ac_def)
  show "length (stream configure_type configure_body (configure_request sample_wtp)) < 65528"
    by (simp add: configure_request_def sample_wtp_def reboot_bytes_def c_string_def)
  show "length (stream reply_type (reply_body le sample_ac) (configure_response sample_ac sample_firmware
     (radio_qos sample_radio [sample_qos 7, sample_qos 8, sample_qos 9, sample_qos 11], 0))) < 65528"
    using infos_fit [OF sample_firmware_ok]
    by (simp add: configure_response_def sample_ac_def ac_ipv4_def ac_ipv6_def CWACGetACIPv4List_def
        CWACGetACIPv6List_def qos_body_def del: length_packet_bytes)
qed


lemma announcement_start: "\<exists>b. packet_bytes es = be16 0x89AB @ be16 0xCDEF @ b"
  by (simp add: packet_bytes_def be32_def be16_def SI_MAGIC_def)

lemma announcement_not_skipped:
  assumes "cp_sino_count v \<le> 0" and "a @ rest = be16 0x89AB @ be16 n @ b" and "length a < 65536"
    and "int (length p) + 4 < stop"
  shows "element_loop (configure_response_switch alloc se) stop v
      (rbuf d p (elem_bytes (reply_type (Announcement f)) a @ rest)) = Some (Inl CW_ERROR_INVALID_FORMAT)"
proof -
  let ?t = "reply_type (Announcement f)"
  let ?p = "p @ be16 ?t @ be16 (of_nat (length a))"
  have "configure_response_switch alloc se ?t (length a) v m = Some (Inr (v, m))" for m
    using assms(1) by (simp add: configure_response_switch_def reply_types CWBindingCheckType_def binding_types)
  then have "element_loop (configure_response_switch alloc se) stop v (rbuf d p (elem_bytes ?t a @ rest)) =
      element_loop (configure_response_switch alloc se) stop v (rbuf d ?p (a @ rest))"
    using assms(3,4) by (subst element_loop_step) simp_all
  also have "\<dots> = Some (Inl CW_ERROR_INVALID_FORMAT)"
  proof -
    have "configure_response_switch alloc se 0x89AB k v m = Some (Inl CW_ERROR_INVALID_FORMAT)" for k m
      by (simp add: configure_response_switch_def reply_types CWBindingCheckType_def binding_types)
    then show ?thesis
      using assms(4) unfolding assms(2) by (subst element_loop.simps) (simp add: CWParseFormatMsgElem_rbuf)
  qed
  finally show ?thesis .
qed

text \<open>
  A WTP accepts one Configure Response in its life. The static counter of announcements is spent by the first,
  and the announcement in a second one is neither parsed nor skipped: the loop reads the bytes of the firmware
  packet as an element, whose type is no type of the protocol, and the response is refused as having an invalid format.
\<close>

theorem second_configure_response_refused:
  assumes "timers_ok ac" and "firmware_ok f" and "radio_fits q" and "ucast (ucast seq :: u8) = seq"
    and "length (stream reply_type (reply_body le ac) (configure_response ac f q)) < 65536"
    and "msg m = control_message seq CW_MSG_TYPE_VALUE_CONFIGURE_RESPONSE reply_type (reply_body le ac)
        (configure_response ac f q)"
  shows "CWParseConfigureResponseMessage plenty se 0 junk m (length (msg m)) seq = Some (Inl CW_ERROR_INVALID_FORMAT)"
proof -
  let ?es = "[IPv4_list, IPv6_list, Timers] @ map Period (ac_radioAdminInfo ac) @ [Idle, Fallback]"
  let ?a = "packet_bytes (infos_of f)" and ?t = "reply_type (Announcement f)"
  let ?s = "stream reply_type (reply_body le ac) (configure_response ac f q)"
  let ?rest = "elem_bytes (reply_type (Radio_qos q)) (qos_body q)"
  let ?pre = "take 8 (msg m)"
  let ?p = "?pre @ stream reply_type (reply_body le ac) ?es"
  let ?v = "fold (reply_effect le ac se) ?es (start_response 0 junk)"
  have s: "?s = stream reply_type (reply_body le ac) ?es @ elem_bytes ?t ?a @ ?rest"
    by (simp add: configure_response_def)
  have ok: "\<forall>e \<in> set ?es. reply_ok ac e" using assms(1) by (auto simp: timers_ok_def)
  have total: "length (msg m) = length ?pre + length ?s" by (simp add: assms(6) length_control_message)
  have room: "announcements ?es \<le> cp_sino_count (start_response 0 junk)" by (simp add: start_response_def)
  have zero: "cp_sino_count ?v = 0" by (simp add: start_response_def)
  have a: "length ?a < 65536" using length_reply_body [of ac "Announcement f" le] assms(2) by simp
  obtain b where magic: "?a @ ?rest = be16 0x89AB @ be16 0xCDEF @ b"
    using announcement_start [of "infos_of f"] by force
  have inside: "int (length ?p) + 4 < int (length (msg m))" unfolding total s by simp
  have "element_loop (configure_response_switch plenty se) (int (length (msg m))) (start_response 0 junk)
      (rbuf (data_msgType m) ?pre ?s) = 
    element_loop (configure_response_switch plenty se) (int (length (msg m))) ?v
      (rbuf (data_msgType m) ?p (elem_bytes ?t ?a @ ?rest))"
    unfolding s by (rule reply_pass.loop_continues [OF ok room]) (use inside in simp)
  also have "\<dots> = Some (Inl CW_ERROR_INVALID_FORMAT)"
    by (rule announcement_not_skipped [OF eq_refl [OF zero] magic a inside])
  finally have loop: "element_loop (configure_response_switch plenty se) (int (length (msg m))) (start_response 0 junk)
      (rbuf (data_msgType m) ?pre ?s) = Some (Inl CW_ERROR_INVALID_FORMAT)" .
  have "open_message CW_MSG_TYPE_VALUE_CONFIGURE_RESPONSE m =
      Some (Inr ((seq, length ?s), rbuf (data_msgType m) ?pre ?s))" by (simp only: open_received [OF assms(6,5)] assms(4))
  from configure_response_fails [OF this total loop] show ?thesis .
qed

lemma second_configure_response_refused_witness:
  "\<forall>junk. \<exists>B. CWParseConfigureResponseMessage plenty sample_sino_env 0 junk (received B) (length B) 7 =
     Some (Inl CW_ERROR_INVALID_FORMAT)"
proof (rule allI, goal_cases)
  case (1 junk)
  let ?q = "(radio_qos sample_radio [sample_qos 7, sample_qos 8, sample_qos 9, sample_qos 11], 0)"
  have seq: "ucast (ucast (7 :: u32) :: u8) = (7 :: u32)" by simp
  from second_configure_response_refused [OF sample_configure_facts(3) sample_firmware_ok
      one_radio_assembled(2) [OF sample_configure_facts(1)] seq, of True
      "received (control_message 7 CW_MSG_TYPE_VALUE_CONFIGURE_RESPONSE reply_type (reply_body True sample_ac)
        (configure_response sample_ac sample_firmware ?q))" sample_sino_env junk]
    sample_configure_facts(5) [of True]
  show ?case by fastforce
qed

end
