(* ===== verification/Discovery.thy ===== *)
theory Discovery
  imports Join
begin

text \<open>
  The Discovery state: the messages of \<open>ACDiscoveryState.c\<close> and \<open>WTPDiscoveryState.c\<close>, and how the WTP finds an AC:
  its rounds of requests, the responses it reads in between, the choice of an AC and of one of its addresses. The
  answer of the AC's main loop to a Discovery Request is part of the main loop.

  A datagram is the buffer it was received into, of which the first \<open>len\<close> bytes are its own. What the WTP
  knows of an AC is kept in the record of the Join Response, whose fields the same parsers fill. How long the WTP
  waits is not modelled: each round is given the datagrams that arrive in its interval.
\<close>

subsection \<open>The start of a datagram\<close>

definition open_datagram ::
  "(nat \<Rightarrow> bool) \<Rightarrow> u32 \<Rightarrow> u8 list \<Rightarrow> (CWErrorCode + (u32 \<times> nat) \<times> cw_msg) option" where
  "open_datagram alloc msgType buf = do {
     r \<leftarrow> CWParseTransportHeader alloc (Some \<lparr>msg = buf, offset = 0, data_msgType = None\<rparr>);
     (case r of
        Inl e \<Rightarrow> Some (Inl e)
      | Inr (_, m) \<Rightarrow> do {
          r \<leftarrow> CWParseControlHeader (Some m);
          Some (case r of
                  Inl e \<Rightarrow> Inl e
                | Inr (controlVal, m) \<Rightarrow>
                    if messageTypeValue controlVal \<noteq> msgType then Inl CW_ERROR_INVALID_FORMAT
                    else Inr ((ucast (seqNum controlVal),
                               unat (msgElemsLen controlVal - CW_CONTROL_HEADER_OFFSET_FOR_MSG_ELEMS)), m))
        })
   }"

subsection \<open>The Discovery Request at the AC\<close>

text \<open>A field that holds a pointer is \<open>None\<close> until the parser assigns it.\<close>

record CWDiscoveryRequestValues =
  dr_type :: u32
  dr_WTPBoardData :: "CWVendorInfoValues list option"
  dr_WTPDescriptor :: "CWWTPDescriptor option"
  dr_frameTunnelMode :: u32
  dr_MACType :: u32

definition discovery_switch ::
  "(nat \<Rightarrow> bool) \<Rightarrow> bool \<Rightarrow> u16 \<Rightarrow> nat \<Rightarrow> CWDiscoveryRequestValues \<Rightarrow> cw_msg \<Rightarrow>
     (CWErrorCode + CWDiscoveryRequestValues \<times> cw_msg) option" where
  "discovery_switch alloc le elemType elemLen v m =
     (if ucast elemType = CW_MSG_ELEMENT_DISCOVERY_TYPE_CW_TYPE then
        parse_into (CWParseDiscoveryType (Some m) elemLen) (\<lambda>t. v\<lparr>dr_type := t\<rparr>)
      else if ucast elemType = CW_MSG_ELEMENT_WTP_BOARD_DATA_CW_TYPE then
        parse_into (CWParseWTPBoardData alloc le (Some m) elemLen) (\<lambda>b. v\<lparr>dr_WTPBoardData := Some b\<rparr>)
      else if ucast elemType = CW_MSG_ELEMENT_WTP_DESCRIPTOR_CW_TYPE then
        parse_into (CWParseWTPDescriptor alloc le (Some m) elemLen) (\<lambda>d. v\<lparr>dr_WTPDescriptor := Some d\<rparr>)
      else if ucast elemType = CW_MSG_ELEMENT_WTP_FRAME_TUNNEL_MODE_CW_TYPE then
        parse_into (CWParseWTPFrameTunnelMode (Some m) elemLen) (\<lambda>t. v\<lparr>dr_frameTunnelMode := t\<rparr>)
      else if ucast elemType = CW_MSG_ELEMENT_WTP_MAC_TYPE_CW_TYPE then
        parse_into (CWParseWTPMACType (Some m) elemLen) (\<lambda>t. v\<lparr>dr_MACType := t\<rparr>)
      else Some (Inl CW_ERROR_INVALID_FORMAT))"

definition unassigned_discovery :: "u32 \<Rightarrow> CWDiscoveryRequestValues" where
  "unassigned_discovery garbage = \<lparr>dr_type = garbage, dr_WTPBoardData = None, dr_WTPDescriptor = None,
     dr_frameTunnelMode = garbage, dr_MACType = garbage\<rparr>"

definition CWParseDiscoveryRequestMessage ::
  "(nat \<Rightarrow> bool) \<Rightarrow> bool \<Rightarrow> CWDiscoveryRequestValues \<Rightarrow> u8 list \<Rightarrow> nat \<Rightarrow>
     (CWErrorCode + u32 \<times> CWDiscoveryRequestValues) option" where
  "CWParseDiscoveryRequestMessage alloc le junk buf len = do {
     r \<leftarrow> open_datagram alloc CW_MSG_TYPE_VALUE_DISCOVERY_REQUEST buf;
     (case r of
        Inl e \<Rightarrow> Some (Inl e)
      | Inr ((seqValue, elemsLen), m) \<Rightarrow> do {
          r \<leftarrow> elements_to_end (discovery_switch alloc le) elemsLen len junk m;
          Some (map_sum id (\<lambda>(v, _). (seqValue, v)) r)
        })
   }"

text \<open>Both arrays are walked and freed, whether they were assigned or not.\<close>

definition CWDestroyDiscoveryRequestValues :: "CWDiscoveryRequestValues \<Rightarrow> unit option" where
  "CWDestroyDiscoveryRequestValues v = do {
     _ \<leftarrow> dr_WTPDescriptor v;
     _ \<leftarrow> dr_WTPBoardData v;
     Some () }"

subsection \<open>The Discovery Response of the AC\<close>

text \<open>With IPv6 the array has a fourth element, which nobody assembles.\<close>

definition CWACSupportIPv6 :: "AC_globals \<Rightarrow> bool" where "CWACSupportIPv6 ac \<longleftrightarrow> \<not> prefer_IPv4 ac"

definition CWAssembleDiscoveryResponse ::
  "(nat \<Rightarrow> bool) \<Rightarrow> bool \<Rightarrow> bool \<Rightarrow> AC_globals \<Rightarrow> u32 \<Rightarrow> u32 \<Rightarrow> (CWErrorCode + cw_msg list) option" where
  "CWAssembleDiscoveryResponse alloc le locked ac fragID seqValue =
     (let msgElemCount = 3 + (if CWACSupportIPv6 ac then 1 else 0) in
      if \<not> alloc (sizeof_CWProtocolMessage * msgElemCount) then Some (Inl CW_ERROR_OUT_OF_MEMORY)
      else do {
        r \<leftarrow> assemble_each (\<lambda>r. r)
               [CWAssembleMsgElemACDescriptor alloc le locked ac, AC_CWAssembleMsgElemACName alloc ac,
                control_addresses (CWAssembleMsgElemCWControlIPv4Addresses alloc le ac)];
        (case r of
           Inl e \<Rightarrow> Some (Inl e)
         | Inr msgElems \<Rightarrow>
             CWAssembleMessage alloc fragID 0 seqValue CW_MSG_TYPE_VALUE_DISCOVERY_RESPONSE
               (Some (msgElems @ (if CWACSupportIPv6 ac then [wbuf 0 []] else []))) msgElemCount None 0 CW_PACKET_PLAIN)
      })"

subsection \<open>The Discovery Request of the WTP\<close>

definition CWAssembleDiscoveryRequest ::
  "(nat \<Rightarrow> bool) \<Rightarrow> bool \<Rightarrow> nat \<Rightarrow> u8 list \<Rightarrow> WTP_globals \<Rightarrow> u32 \<Rightarrow> u32 \<Rightarrow> (CWErrorCode + cw_msg list) option" where
  "CWAssembleDiscoveryRequest alloc le longsz junk g fragID seqValue =
     (if \<not> alloc (sizeof_CWProtocolMessage * 5) then Some (Inl CW_ERROR_OUT_OF_MEMORY)
      else do {
        r \<leftarrow> assemble_each (\<lambda>r. r)
               [CWAssembleMsgElemDiscoveryType alloc, CWAssembleMsgElemWTPBoardData alloc le longsz junk,
                CWAssembleMsgElemWTPDescriptor alloc le longsz junk g, CWAssembleMsgElemWTPFrameTunnelMode alloc,
                CWAssembleMsgElemWTPMACType alloc];
        (case r of
           Inl e \<Rightarrow> Some (Inl e)
         | Inr msgElems \<Rightarrow>
             CWAssembleMessage alloc fragID 0 seqValue CW_MSG_TYPE_VALUE_DISCOVERY_REQUEST
               (Some msgElems) 5 None 0 CW_PACKET_PLAIN)
      })"

subsection \<open>The Discovery Response at the WTP\<close>

definition discovery_response_switch ::
  "(nat \<Rightarrow> bool) \<Rightarrow> bool \<Rightarrow> u16 \<Rightarrow> nat \<Rightarrow> CWProtocolJoinResponseValues \<Rightarrow> cw_msg \<Rightarrow>
     (CWErrorCode + CWProtocolJoinResponseValues \<times> cw_msg) option" where
  "discovery_response_switch alloc le elemType elemLen v m =
     (if ucast elemType = CW_MSG_ELEMENT_AC_DESCRIPTOR_CW_TYPE then
        parse_into (CWParseACDescriptor alloc le (Some m) elemLen) (\<lambda>d. v\<lparr>jp_descriptor := Some d\<rparr>)
      else if ucast elemType = CW_MSG_ELEMENT_AC_NAME_CW_TYPE then
        parse_into (CWParseACName alloc (Some m) elemLen) (\<lambda>s. v\<lparr>jp_name := Some s\<rparr>)
      else if ucast elemType = CW_MSG_ELEMENT_CW_CONTROL_IPV4_ADDRESS_CW_TYPE then
        skip_element elemLen (v\<lparr>jp_IPv4Count := jp_IPv4Count v + 1\<rparr>) m
      else if ucast elemType = CW_MSG_ELEMENT_CW_CONTROL_IPV6_ADDRESS_CW_TYPE then
        skip_element elemLen (v\<lparr>jp_IPv6Count := jp_IPv6Count v + 1\<rparr>) m
      else Some (Inl CW_ERROR_INVALID_FORMAT))"

definition CWParseDiscoveryResponseMessage ::
  "(nat \<Rightarrow> bool) \<Rightarrow> bool \<Rightarrow> CWProtocolJoinResponseValues \<Rightarrow> u8 list \<Rightarrow> nat \<Rightarrow>
     (CWErrorCode + u32 \<times> CWProtocolJoinResponseValues) option" where
  "CWParseDiscoveryResponseMessage alloc le junk buf len = do {
     r \<leftarrow> open_datagram alloc CW_MSG_TYPE_VALUE_DISCOVERY_RESPONSE buf;
     (case r of
        Inl e \<Rightarrow> Some (Inl e)
      | Inr ((seqValue, elemsLen), m) \<Rightarrow> do {
          r \<leftarrow> elements_to_end (discovery_response_switch alloc le) elemsLen len
                 (junk\<lparr>jp_IPv4Count := 0, jp_IPv6Count := 0\<rparr>) m;
          (case r of
             Inl e \<Rightarrow> Some (Inl e)
           | Inr (v, m') \<Rightarrow>
               if \<not> alloc (sizeof_CWProtocolIPv4NetworkInterface * jp_IPv4Count v) \<or>
                  0 < jp_IPv6Count v \<and> \<not> alloc (sizeof_CWProtocolIPv6NetworkInterface * jp_IPv6Count v)
               then Some (Inl CW_ERROR_OUT_OF_MEMORY)
               else do {
                 r \<leftarrow> element_loop (addresses_switch alloc le) (int (offset m) + int elemsLen)
                        (v\<lparr>jp_IPv4Addresses := [], jp_IPv6Addresses := []\<rparr>) (m'\<lparr>offset := offset m\<rparr>);
                 Some (map_sum id (\<lambda>(v, _). (seqValue, v)) r)
               })
        })
   }"

subsection \<open>The addresses of an AC\<close>

text \<open>\<open>IPV6\<close> is defined nowhere: of other families than IPv4 only the family is copied, and no two are equal.\<close>

definition sock_cpy_addr_port :: "CWNetworkLev4Address \<Rightarrow> CWNetworkLev4Address \<Rightarrow> CWNetworkLev4Address" where
  "sock_cpy_addr_port a1 a2 = (if sa_family a2 = AF_INET then a2 else a1\<lparr>sa_family := sa_family a2\<rparr>)"

text \<open>A \<open>sockaddr_in\<close> and a \<open>sockaddr_in6\<close> seen as a generic address.\<close>

definition of_sockaddr_in :: "bool \<Rightarrow> sockaddr_in \<Rightarrow> CWNetworkLev4Address" where
  "of_sockaddr_in le a = \<lparr>sa_family = sin_family a, sa_addr = int_mem le (s_addr a), sa_port = sin_port a\<rparr>"

definition of_sockaddr_in6 :: "sockaddr_in6 \<Rightarrow> CWNetworkLev4Address" where
  "of_sockaddr_in6 a = \<lparr>sa_family = sin6_family a, sa_addr = s6_addr a, sa_port = sin6_port a\<rparr>"

text \<open>
  A whole interface, given to a comparison of addresses: the family is the first half word of the count of
  WTPs, and where the address would be are the family and the port.
\<close>

definition half_mem :: "bool \<Rightarrow> u16 \<Rightarrow> u8 list" where
  "half_mem le v = (if le then rev (be16 v) else be16 v)"

definition misread_interface :: "bool \<Rightarrow> CWProtocolIPv4NetworkInterface \<Rightarrow> CWNetworkLev4Address" where
  "misread_interface le i =
     \<lparr>sa_family = (if le then unat (i4_WTPCount i) mod 65536 else unat (i4_WTPCount i) div 65536),
      sa_addr = half_mem le (of_nat (sin_family (i4_addr i))) @ half_mem le (sin_port (i4_addr i)),
      sa_port = 0\<rparr>"

definition same_address :: "CWNetworkLev4Address \<Rightarrow> CWNetworkLev4Address \<Rightarrow> bool" where
  "same_address a b \<longleftrightarrow> sa_family a = sa_family b \<and> sa_family a = AF_INET \<and> sa_addr a = sa_addr b"

definition same_port :: "CWNetworkLev4Address \<Rightarrow> CWNetworkLev4Address \<Rightarrow> bool" where
  "same_port a b \<longleftrightarrow> sa_family a = sa_family b \<and> sa_family a = AF_INET \<and> sa_port a = sa_port b"

text \<open>
  An AC: what its response said, the address preferred, the sender of the response. \<open>smallest\<close> and
  \<open>preferred\<close> are the variables of the loops, which start at the second address.
\<close>

record known_AC =
  ac_info :: CWProtocolJoinResponseValues
  preferredAddress :: CWNetworkLev4Address
  incomingAddress :: CWNetworkLev4Address

fun pick_IPv4 ::
  "bool \<Rightarrow> CWNetworkLev4Address \<Rightarrow> CWProtocolIPv4NetworkInterface list \<Rightarrow> u32 \<Rightarrow> CWNetworkLev4Address \<Rightarrow> bool \<Rightarrow>
     CWNetworkLev4Address \<times> bool" where
  "pick_IPv4 le incoming [] smallest preferred found = (preferred, found)"
| "pick_IPv4 le incoming (i # is) smallest preferred found =
     (let found = (found \<or> same_address (misread_interface le i) incoming) in
      if sint (i4_WTPCount i) < sint smallest
      then pick_IPv4 le incoming is (i4_WTPCount i) (sock_cpy_addr_port preferred (of_sockaddr_in le (i4_addr i))) found
      else pick_IPv4 le incoming is smallest preferred found)"

fun pick_IPv6 ::
  "CWProtocolIPv6NetworkInterface list \<Rightarrow> u32 \<Rightarrow> CWNetworkLev4Address \<Rightarrow> CWNetworkLev4Address" where
  "pick_IPv6 [] smallest preferred = preferred"
| "pick_IPv6 (i # is) smallest preferred =
     (if sint (i6_WTPCount i) < sint smallest
      then pick_IPv6 is (i6_WTPCount i) (sock_cpy_addr_port preferred (of_sockaddr_in6 (i6_addr i)))
      else pick_IPv6 is smallest preferred)"

definition AF_UNSPEC :: nat where "AF_UNSPEC = 0"

definition CWWTPPickACInterface :: "bool \<Rightarrow> bool \<Rightarrow> known_AC \<Rightarrow> known_AC" where
  "CWWTPPickACInterface le prefer_IPv6 ac =
     (let preferred = (preferredAddress ac)\<lparr>sa_family := AF_UNSPEC\<rparr>;
          pick4 = (case jp_IPv4Addresses (ac_info ac) of
              [] \<Rightarrow> preferred
            | i # is \<Rightarrow>
                (case pick_IPv4 le (incomingAddress ac) is (i4_WTPCount i)
                        (sock_cpy_addr_port preferred (of_sockaddr_in le (i4_addr i))) False of
                   (preferred, found) \<Rightarrow>
                     if found then preferred else sock_cpy_addr_port preferred (incomingAddress ac)))
      in ac\<lparr>preferredAddress :=
           (if prefer_IPv6 then
              (case jp_IPv6Addresses (ac_info ac) of
                 [] \<Rightarrow> pick4
               | i # is \<Rightarrow> pick_IPv6 is (i6_WTPCount i) (sock_cpy_addr_port preferred (of_sockaddr_in6 (i6_addr i))))
            else pick4)\<rparr>)"

subsection \<open>Finding an AC\<close>

record CWACDescriptor =
  ad_received :: bool
  ad_seqNum :: u32

record discovery_state =
  gCWDiscoveryCount :: nat
  gCWACList :: "CWACDescriptor list"
  gACInfoPtr :: "known_AC option"
  next_seqNum :: u32

text \<open>
  What a read of the socket gives. \<open>blank\<close> is what \<open>malloc\<close> left in the structure for an AC: its addresses are
  not assigned by the parser. A datagram is the buffer and how much of it was read.
\<close>

datatype arrival = Datagram "u8 list" nat CWNetworkLev4Address | Read_failed

record wtp_env =
  we_alloc :: "nat \<Rightarrow> bool"
  we_le :: bool
  we_longsz :: nat
  we_junk :: "u8 list"
  we_fragID :: u32
  we_blank :: known_AC
  we_prefer_IPv6 :: bool
  we_socket :: bool

definition sizeof_CWACInfoValues :: nat where "sizeof_CWACInfoValues = 368"

definition CWWTPEvaluateAC :: "known_AC \<Rightarrow> discovery_state \<Rightarrow> discovery_state" where
  "CWWTPEvaluateAC ac s = (case gACInfoPtr s of None \<Rightarrow> s\<lparr>gACInfoPtr := Some ac\<rparr> | Some _ \<Rightarrow> s)"

fun mark_received :: "u32 \<Rightarrow> CWACDescriptor list \<Rightarrow> bool \<times> CWACDescriptor list" where
  "mark_received n [] = (False, [])"
| "mark_received n (a # as) =
     (if ad_seqNum a = n then (True, a\<lparr>ad_received := True\<rparr> # as)
      else (case mark_received n as of (b, as) \<Rightarrow> (b, a # as)))"

definition CWReceiveDiscoveryResponse :: "wtp_env \<Rightarrow> arrival \<Rightarrow> discovery_state \<Rightarrow> (bool \<times> discovery_state) option" where
  "CWReceiveDiscoveryResponse env arrived s =
     (case arrived of
        Read_failed \<Rightarrow> Some (False, s)
      | Datagram buf len sender \<Rightarrow>
          if \<not> we_alloc env sizeof_CWACInfoValues then Some (False, s)
          else do {
            r \<leftarrow> CWParseDiscoveryResponseMessage (we_alloc env) (we_le env) (ac_info (we_blank env)) buf len;
            (case r of
               Inl e \<Rightarrow> Some (False, s)
             | Inr (seqValue, v) \<Rightarrow>
                 (let ac = (we_blank env)\<lparr>ac_info := v,
                        incomingAddress := sock_cpy_addr_port (incomingAddress (we_blank env)) sender\<rparr>;
                      s = CWWTPEvaluateAC ac s
                  in case mark_received seqValue (gCWACList s) of
                       (found, acs) \<Rightarrow> Some (found, s\<lparr>gCWACList := acs\<rparr>)))
          })"

text \<open>The result is that of the last datagram.\<close>

fun read_responses :: "wtp_env \<Rightarrow> arrival list \<Rightarrow> bool \<Rightarrow> discovery_state \<Rightarrow> (bool \<times> discovery_state) option" where
  "read_responses env [] result s = Some (result, s)"
| "read_responses env (a # as) result s = do {
     (result, s) \<leftarrow> CWReceiveDiscoveryResponse env a s;
     read_responses env as result s }"

definition CWReadResponses :: "wtp_env \<Rightarrow> arrival list \<Rightarrow> discovery_state \<Rightarrow> (bool \<times> discovery_state) option" where
  "CWReadResponses env arrivals s = read_responses env arrivals False s"

text \<open>The next state, or the end of the process by \<open>exit\<close>.\<close>

datatype discovery_result = Enter CWStateTransition | Exited

text \<open>
  One pass over the list of ACs. Every request borrows \<open>gACInfoPtr\<close> for the address to send to: afterwards it is
  \<open>NULL\<close>, whatever it pointed to. The requests are recorded.
\<close>

fun send_requests ::
  "wtp_env \<Rightarrow> WTP_globals \<Rightarrow> CWACDescriptor list \<Rightarrow> u32 \<Rightarrow>
     (discovery_result + CWACDescriptor list \<times> u32 \<times> u8 list list) option" where
  "send_requests env g [] n = Some (Inr ([], n, []))"
| "send_requests env g (a # as) n =
     (if ad_received a then do {
        r \<leftarrow> send_requests env g as n;
        Some (map_sum id (\<lambda>(as, n, out). (a # as, n, out)) r) }
      else
        (case CWGetSeqNum n of
           (seqValue, n) \<Rightarrow> do {
             r \<leftarrow> CWAssembleDiscoveryRequest (we_alloc env) (we_le env) (we_longsz env) (we_junk env) g (we_fragID env)
                    seqValue;
             (case r of
                Inl e \<Rightarrow> Some (Inl Exited)
              | Inr [] \<Rightarrow> None
              | Inr (m # _) \<Rightarrow>
                  if \<not> we_alloc env sizeof_CWACInfoValues then Some (Inl (Enter CW_QUIT))
                  else do {
                    r \<leftarrow> send_requests env g as n;
                    Some (map_sum id (\<lambda>(as, n, out). (a\<lparr>ad_seqNum := seqValue\<rparr> # as, n, contents m # out)) r)
                  })
           }))"

definition gCWMaxDiscoveries :: nat where "gCWMaxDiscoveries = 10"

text \<open>The loop; \<open>arrivals n\<close> is what arrives after the pass in which the count becomes \<open>n\<close>.\<close>

partial_function (option) discovery_loop ::
  "wtp_env \<Rightarrow> WTP_globals \<Rightarrow> (nat \<Rightarrow> arrival list) \<Rightarrow> discovery_state \<Rightarrow>
     (discovery_result \<times> discovery_state \<times> u8 list list) option" where
  "discovery_loop env g arrivals s =
     (if gCWDiscoveryCount s = gCWMaxDiscoveries then Some (Enter CW_ENTER_SULKING, s, [])
      else do {
        r \<leftarrow> send_requests env g (gCWACList s) (next_seqNum s);
        (case r of
           Inl t \<Rightarrow> Some (t, s, [])
         | Inr (acs, n, out) \<Rightarrow>
             (let s = s\<lparr>gCWACList := acs, next_seqNum := n,
                        gACInfoPtr := (if out = [] then gACInfoPtr s else None)\<rparr>
              in if out = [] \<and> gACInfoPtr s \<noteq> None then Some (Enter CW_ENTER_JOIN, s, [])
                 else do {
                   let s = s\<lparr>gCWDiscoveryCount := gCWDiscoveryCount s + 1\<rparr>;
                   (result, s) \<leftarrow> CWReadResponses env (arrivals (gCWDiscoveryCount s)) s;
                   if result \<and> gACInfoPtr s \<noteq> None then Some (Enter CW_ENTER_JOIN, s, out)
                   else do {
                     (t, s, out') \<leftarrow> discovery_loop env g arrivals s;
                     Some (t, s, out @ out')
                   }
                 }))
      })"

definition CWWTPEnterDiscovery ::
  "wtp_env \<Rightarrow> WTP_globals \<Rightarrow> (nat \<Rightarrow> arrival list) \<Rightarrow> discovery_state \<Rightarrow>
     (discovery_result \<times> discovery_state \<times> u8 list list) option" where
  "CWWTPEnterDiscovery env g arrivals s =
     (let s = s\<lparr>gCWDiscoveryCount := 0\<rparr> in
      if \<not> we_socket env then Some (Enter CW_QUIT, s, [])
      else do {
        (t, s, out) \<leftarrow> discovery_loop env g arrivals
           (s\<lparr>gCWACList := map (\<lambda>a. a\<lparr>ad_received := False\<rparr>) (gCWACList s)\<rparr>);
        Some (if t = Enter CW_ENTER_JOIN
              then (t, s\<lparr>gACInfoPtr := map_option (CWWTPPickACInterface (we_le env) (we_prefer_IPv6 env)) (gACInfoPtr s)\<rparr>,
                    out)
              else (t, s, out))
      })"

subsection \<open>What the parsers find\<close>

text \<open>A datagram that carries one control message, with what the buffer held behind it.\<close>

definition datagram :: "u8 list \<Rightarrow> u8 list" where
  "datagram B = header_bytes (plain_values CW_PACKET_PLAIN None) @ B"

lemma length_datagram [simp]: "length (datagram B) = 8 + length B"
  by (simp add: datagram_def header_size_def)

lemma datagram_sent:
  assumes "\<forall>m \<in> set es. msg_fits m" and "fragID < 65536" and "length (message_bytes seq type es) \<le> 65536"
  shows "CWAssembleMessage plenty fragID 0 seq type (Some es) (length es) None 0 CW_PACKET_PLAIN =
    Some (Inr [wbuf (length (datagram (message_bytes seq type es))) (datagram (message_bytes seq type es))])"
  using CWAssembleMessage_eq [of plenty es "[]" fragID seq type 0 CW_PACKET_PLAIN] assms
  by (simp add: CWAssembleMessage_NULL packets_of_def fragments_num_def aligned_pmtu_def gMaxDTLSHeaderSize_def
      gMaxCAPWAPHeaderSize_def wbufs_def datagram_def)

lemma open_any_datagram:
  assumes "length (stream ty body es) < 65536"
  shows "open_datagram alloc expected (datagram (control_message seq type ty body es) @ tail) =
    Some (if type \<noteq> expected then Inl CW_ERROR_INVALID_FORMAT
      else Inr ((ucast (ucast seq :: u8), length (stream ty body es)),
        rbuf None (take 16 (datagram (control_message seq type ty body es))) (stream ty body es @ tail)))"
proof -
  let ?h = "header_bytes (plain_values CW_PACKET_PLAIN None)"
  let ?v = "\<lparr>messageTypeValue = type, seqNum = ucast seq, msgElemsLen = of_nat (length (stream ty body es))\<rparr>"
  have start: "\<lparr>msg = datagram (control_message seq type ty body es) @ tail, offset = 0, data_msgType = None\<rparr> =
      rbuf None [] (?h @ control_bytes ?v @ stream ty body es @ tail)"
    by (simp add: rbuf_def datagram_def control_message_eq)
  have "CWParseControlHeader (Some (rbuf None ?h (control_bytes ?v @ stream ty body es @ tail))) =
      Some (Inr (?v\<lparr>msgElemsLen := 3 + msgElemsLen ?v\<rparr>,
        rbuf None (take 16 (datagram (control_message seq type ty body es))) (stream ty body es @ tail)))"
    unfolding CWParseControlHeader_rbuf by (simp add: datagram_def control_message_eq header_size_def)
  then show ?thesis
    unfolding open_datagram_def start
    using assms CWParseTransportHeader_plain [of "plain_values CW_PACKET_PLAIN None" alloc None "[]"
        "control_bytes ?v @ stream ty body es @ tail"]
    by (simp add: CW_CONTROL_HEADER_OFFSET_FOR_MSG_ELEMS_def unat_of_nat16)
qed

lemmas open_sent_datagram = open_any_datagram [where expected = type and type = type for type, simplified]

context element_switch begin

lemma reads_to_end_of:
  assumes "\<forall>e \<in> set es. ok e" "room es s" "len = length pre + length (stream ty body es)"
  shows "elements_to_end handle (length (stream ty body es)) len s (rbuf d pre (stream ty body es @ rest)) =
    Some (Inr (fold effect es s, rbuf d (pre @ stream ty body es) rest))"
  using loop_reads [OF assms(1,2), of "int len" pre d rest] assms(3) by (simp add: elements_to_end_def)

end

datatype discovery_element = Kind | Own_board | Own_descriptor | Own_tunnel | Own_MAC

primrec discovery_type :: "discovery_element \<Rightarrow> u16" where
  "discovery_type Kind = ucast CW_MSG_ELEMENT_DISCOVERY_TYPE_CW_TYPE"
| "discovery_type Own_board = join_type Board"
| "discovery_type Own_descriptor = join_type Descriptor"
| "discovery_type Own_tunnel = join_type Tunnel"
| "discovery_type Own_MAC = join_type MAC"

primrec discovery_body :: "bool \<Rightarrow> nat \<Rightarrow> u8 list \<Rightarrow> WTP_globals \<Rightarrow> discovery_element \<Rightarrow> u8 list" where
  "discovery_body le longsz junk g Kind = byte_bytes CWWTPGetDiscoveryType"
| "discovery_body le longsz junk g Own_board = join_body le longsz junk g Board"
| "discovery_body le longsz junk g Own_descriptor = join_body le longsz junk g Descriptor"
| "discovery_body le longsz junk g Own_tunnel = join_body le longsz junk g Tunnel"
| "discovery_body le longsz junk g Own_MAC = join_body le longsz junk g MAC"

primrec discovery_effect ::
  "bool \<Rightarrow> nat \<Rightarrow> u8 list \<Rightarrow> WTP_globals \<Rightarrow> discovery_element \<Rightarrow> CWDiscoveryRequestValues \<Rightarrow> CWDiscoveryRequestValues"
where
  "discovery_effect le longsz junk g Kind v = v\<lparr>dr_type := CWWTPGetDiscoveryType\<rparr>"
| "discovery_effect le longsz junk g Own_board v = v\<lparr>dr_WTPBoardData := Some (board_infos le longsz junk)\<rparr>"
| "discovery_effect le longsz junk g Own_descriptor v = v\<lparr>dr_WTPDescriptor := Some (wtp_descriptor_of le longsz junk g)\<rparr>"
| "discovery_effect le longsz junk g Own_tunnel v = v\<lparr>dr_frameTunnelMode := CWWTPGetFrameTunnelMode\<rparr>"
| "discovery_effect le longsz junk g Own_MAC v = v\<lparr>dr_MACType := CWWTPGetMACType\<rparr>"

lemma wtp_descriptor_fits:
  "wtp_ok longsz junk g \<Longrightarrow> wtp_descriptor_of le longsz junk g = \<lparr>wd_maxRadios = 1,
      wd_radiosInUse = of_nat (length (gRadiosInfo g)), wd_encCapabilities = 2569,
      wd_vendorInfos = descriptor_infos le longsz junk\<rparr> \<and> longsz_ok longsz junk \<and> length (gRadiosInfo g) < 256"
  by (simp add: wtp_descriptor_of_def wtp_ok_def)

lemma discovery_body_short: "wtp_ok longsz junk g \<Longrightarrow> length (discovery_body le longsz junk g e) < 65536"
  using join_pass.short [of longsz junk g] by (cases e) (simp_all del: join_body.simps)

interpretation discovery_pass: strict_switch "discovery_switch plenty le" discovery_type
  "discovery_body le longsz junk g" "\<lambda>_. wtp_ok longsz junk g" "discovery_effect le longsz junk g" "\<lambda>_ _. True"
  "{t. ucast t \<in> {CW_MSG_ELEMENT_DISCOVERY_TYPE_CW_TYPE, CW_MSG_ELEMENT_WTP_BOARD_DATA_CW_TYPE,
     CW_MSG_ELEMENT_WTP_DESCRIPTOR_CW_TYPE, CW_MSG_ELEMENT_WTP_FRAME_TUNNEL_MODE_CW_TYPE,
     CW_MSG_ELEMENT_WTP_MAC_TYPE_CW_TYPE}}"
  for le longsz junk g
proof
  show "discovery_switch plenty le (discovery_type e) (length (discovery_body le longsz junk g e)) s
      (rbuf d pre (discovery_body le longsz junk g e @ rest)) =
    Some (Inr (discovery_effect le longsz junk g e s, rbuf d (pre @ discovery_body le longsz junk g e) rest))"
    if "wtp_ok longsz junk g" for e s d pre rest
    using that wtp_discovery.parse_enc [OF refl, of d pre rest]
      wtp_board.parse_enc [of "board_infos le longsz junk" le longsz junk d pre rest]
      wtp_descriptor.parse_enc [OF wtp_descriptor_fits [OF that], where d = d and pre = pre and rest = rest]
      wtp_tunnel.parse_enc [OF refl, of d pre rest] wtp_mactype.parse_enc [OF refl, of d pre rest]
    by (cases e) (simp_all add: discovery_switch_def join_types CW_MSG_ELEMENT_DISCOVERY_TYPE_CW_TYPE_def wtp_ok_def
        Let_def cw_wire)
qed (auto simp: discovery_switch_def discovery_body_short)

definition discovery_request :: "discovery_element list" where
  "discovery_request = [Kind, Own_board, Own_descriptor, Own_tunnel, Own_MAC]"

definition request_datagram :: "bool \<Rightarrow> nat \<Rightarrow> u8 list \<Rightarrow> WTP_globals \<Rightarrow> u32 \<Rightarrow> u8 list" where
  "request_datagram le longsz junk g seq = datagram (control_message seq CW_MSG_TYPE_VALUE_DISCOVERY_REQUEST
     discovery_type (discovery_body le longsz junk g) discovery_request)"

lemma discovery_request_short:
  assumes "wtp_ok longsz junk g"
  shows "length (stream discovery_type (discovery_body le longsz junk g) discovery_request) < 65528"
  using assms infos_lengths [of longsz junk le]
  by (simp add: discovery_request_def wtp_ok_def longsz_ok_def wtp_descriptor_of_def Let_def)

lemma assemble_discovery_request:
  assumes ok: "wtp_ok longsz junk g" and "fragID < 65536"
  shows "CWAssembleDiscoveryRequest plenty le longsz junk g fragID seq =
    Some (Inr [wbuf (length (request_datagram le longsz junk g seq)) (request_datagram le longsz junk g seq)])"
proof -
  let ?es = "map (\<lambda>e. elem_msg (discovery_type e) (discovery_body le longsz junk g e)) discovery_request"
  have n: "length ?es = 5" by (simp add: discovery_request_def)
  have "CWAssembleDiscoveryRequest plenty le longsz junk g fragID seq =
      CWAssembleMessage plenty fragID 0 seq CW_MSG_TYPE_VALUE_DISCOVERY_REQUEST (Some ?es) (length ?es) None 0
        CW_PACKET_PLAIN"
    unfolding n
    using assms wtp_discovery.assemble_enc [OF refl] wtp_board.assemble_enc [of "board_infos le longsz junk" le longsz junk]
      wtp_descriptor.assemble_enc [OF wtp_descriptor_fits [OF ok], of le]
      wtp_tunnel.assemble_enc [OF refl] wtp_mactype.assemble_enc [OF refl]
    by (simp add: CWAssembleDiscoveryRequest_def discovery_request_def wtp_ok_def Let_def)
  also have "\<dots> = Some (Inr [wbuf (length (request_datagram le longsz junk g seq)) (request_datagram le longsz junk g seq)])"
    using datagram_sent [of ?es fragID seq CW_MSG_TYPE_VALUE_DISCOVERY_REQUEST] assms discovery_request_short [OF ok, of le]
    by (simp add: elem_msg_fits control_message_def [symmetric] length_control_message request_datagram_def)
  finally show ?thesis .
qed

lemma parse_discovery_request:
  assumes "wtp_ok longsz junk g"
  shows "CWParseDiscoveryRequestMessage plenty le junk0 (request_datagram le longsz junk g seq @ tail)
      (length (request_datagram le longsz junk g seq)) =
    Some (Inr (ucast (ucast seq :: u8), \<lparr>dr_type = CWWTPGetDiscoveryType,
      dr_WTPBoardData = Some (board_infos le longsz junk), dr_WTPDescriptor = Some (wtp_descriptor_of le longsz junk g),
      dr_frameTunnelMode = CWWTPGetFrameTunnelMode, dr_MACType = CWWTPGetMACType\<rparr>))"
proof -
  let ?s = "stream discovery_type (discovery_body le longsz junk g) discovery_request"
  let ?pre = "take 16 (request_datagram le longsz junk g seq)"
  have short: "length ?s < 65536" using discovery_request_short [OF assms, of le] by simp
  have all: "\<forall>e \<in> set discovery_request. wtp_ok longsz junk g" using assms by simp
  have total: "length (request_datagram le longsz junk g seq) = length ?pre + length ?s"
    by (simp add: request_datagram_def length_control_message)
  from discovery_pass.reads_to_end_of [OF all TrueI total, of junk0 None tail] show ?thesis
    unfolding CWParseDiscoveryRequestMessage_def
    by (simp add: request_datagram_def open_sent_datagram [OF short]) (simp add: discovery_request_def)
qed

interpretation discovery_response_pass: strict_switch "discovery_response_switch plenty le" response_type
  "response_body le locked ac" "\<lambda>e. response_ok ac e \<and> (\<forall>c. e \<noteq> Result c)" "response_value le locked ac" "\<lambda>_ _. True"
  "{t. ucast t \<in> {CW_MSG_ELEMENT_AC_DESCRIPTOR_CW_TYPE, CW_MSG_ELEMENT_AC_NAME_CW_TYPE,
     CW_MSG_ELEMENT_CW_CONTROL_IPV4_ADDRESS_CW_TYPE, CW_MSG_ELEMENT_CW_CONTROL_IPV6_ADDRESS_CW_TYPE}}"
  for le locked ac
proof
  show "response_ok ac e \<and> (\<forall>c. e \<noteq> Result c) \<Longrightarrow> discovery_response_switch plenty le (response_type e)
      (length (response_body le locked ac e)) s (rbuf d pre (response_body le locked ac e @ rest)) =
    Some (Inr (response_value le locked ac e s, rbuf d (pre @ response_body le locked ac e) rest))"
    for e s d pre rest
    using ac_descriptor_elem.parse_enc [of _ le locked ac d pre rest] ac_name.parse_enc [of _ ac d pre rest]
      skip_element_rbuf [of "response_body le locked ac e" _ d pre rest]
    by (cases e) (simp_all add: discovery_response_switch_def response_types Let_def cw_wire)
qed (use response_pass.short in \<open>auto simp: discovery_response_switch_def\<close>)

definition discovery_response :: "AC_globals \<Rightarrow> response_element list" where
  "discovery_response ac = [AC_Descriptor, AC_Name] @ map Interface (gInterfaces ac)"

definition response_datagram :: "bool \<Rightarrow> bool \<Rightarrow> AC_globals \<Rightarrow> u32 \<Rightarrow> u8 list" where
  "response_datagram le locked ac seq = datagram (control_message seq CW_MSG_TYPE_VALUE_DISCOVERY_RESPONSE
     response_type (response_body le locked ac) (discovery_response ac))"

text \<open>What a WTP reads in the response; the rest is as \<open>malloc\<close> left it.\<close>

definition discovered :: "bool \<Rightarrow> bool \<Rightarrow> AC_globals \<Rightarrow> CWProtocolJoinResponseValues \<Rightarrow> CWProtocolJoinResponseValues" where
  "discovered le locked ac v = v\<lparr>jp_descriptor := Some (ac_descriptor_of le locked ac),
     jp_name := Some (Some (gACName ac)), jp_IPv4Count := length (gInterfaces ac),
     jp_IPv4Addresses := map (if4_value le ac) (gInterfaces ac), jp_IPv6Count := 0, jp_IPv6Addresses := []\<rparr>"

lemma fold_response_values:
  "fold (response_value le locked ac) (map Interface is) v = v\<lparr>jp_IPv4Count := jp_IPv4Count v + length is\<rparr>"
  by (induction "is" arbitrary: v) simp_all

definition discovery_fits :: "bool \<Rightarrow> bool \<Rightarrow> AC_globals \<Rightarrow> bool" where
  "discovery_fits le locked ac \<longleftrightarrow> ac_ok ac \<and>
     length (stream response_type (response_body le locked ac) (discovery_response ac)) < 65528"

lemma response_passes:
  assumes "open_datagram plenty CW_MSG_TYPE_VALUE_DISCOVERY_RESPONSE buf = Some (Inr ((n, length s), rbuf d p (s @ tail)))"
    and "len = length p + length s"
    and "elements_to_end (discovery_response_switch plenty le) (length s) len (junk\<lparr>jp_IPv4Count := 0, jp_IPv6Count := 0\<rparr>)
        (rbuf d p (s @ tail)) = Some (Inr (v, rbuf d (p @ s) tail))"
    and "element_loop (addresses_switch plenty le) (int (length p + length s)) (v\<lparr>jp_IPv4Addresses := [], jp_IPv6Addresses := []\<rparr>)
        (rbuf d p (s @ tail)) = Some (Inr (w, m))"
  shows "CWParseDiscoveryResponseMessage plenty le junk buf len = Some (Inr (n, w))"
  using assms by (simp add: CWParseDiscoveryResponseMessage_def rbuf_rewind)

lemma parse_discovery_response:
  assumes "discovery_fits le locked ac"
  shows "CWParseDiscoveryResponseMessage plenty le junk (response_datagram le locked ac seq @ tail)
      (length (response_datagram le locked ac seq)) =
    Some (Inr (ucast (ucast seq :: u8), discovered le locked ac junk))"
proof -
  let ?es = "discovery_response ac"
  let ?s = "stream response_type (response_body le locked ac) ?es"
  let ?pre = "take 16 (response_datagram le locked ac seq)"
  let ?v = "fold (response_value le locked ac) ?es (junk\<lparr>jp_IPv4Count := 0, jp_IPv6Count := 0\<rparr>)"
  let ?w = "?v\<lparr>jp_IPv4Addresses := [], jp_IPv6Addresses := []\<rparr>"
  have short: "length ?s < 65536" using assms by (simp add: discovery_fits_def)
  have ok: "\<forall>e \<in> set ?es. response_ok ac e \<and> (\<forall>c. e \<noteq> Result c)"
    using assms by (auto simp: discovery_response_def discovery_fits_def ac_ok_def)
  then have ok': "\<forall>e \<in> set ?es. response_ok ac e" by simp
  have total: "length (response_datagram le locked ac seq) = length ?pre + length ?s"
    by (simp add: response_datagram_def length_control_message)
  have v: "?v = junk\<lparr>jp_descriptor := Some (ac_descriptor_of le locked ac), jp_name := Some (Some (gACName ac)),
      jp_IPv4Count := length (gInterfaces ac), jp_IPv6Count := 0\<rparr>"
    by (simp add: discovery_response_def fold_response_values)
  have room: "response_room ?es ?w" unfolding v by (simp add: response_room_def discovery_response_def)
  have w: "fold (response_fill le ac) ?es ?w = discovered le locked ac junk"
    unfolding v fold_response_fill by (simp add: discovered_def discovery_response_def)
  have opened: "open_datagram plenty CW_MSG_TYPE_VALUE_DISCOVERY_RESPONSE (response_datagram le locked ac seq @ tail) =
      Some (Inr ((ucast (ucast seq :: u8), length ?s), rbuf None ?pre (?s @ tail)))"
    unfolding response_datagram_def by (rule open_sent_datagram [OF short])
  from response_fill.loop_reads [OF ok' room refl, where le = le and locked = locked and pre = ?pre and d = None and rest = tail]
  show ?thesis
    unfolding w by (rule response_passes [OF opened total discovery_response_pass.reads_to_end_of [OF ok TrueI total]])
qed

lemma ac_elements_assembled:
  assumes "ac_ok ac"
  shows "\<exists>es. length es = 3 \<and> (\<forall>m \<in> set es. msg_fits m) \<and>
    assemble_each (\<lambda>r. r) [CWAssembleMsgElemACDescriptor plenty le locked ac, AC_CWAssembleMsgElemACName plenty ac,
      control_addresses (CWAssembleMsgElemCWControlIPv4Addresses plenty le ac)] = Some (Inr es) \<and>
    concat (map contents es) = stream response_type (response_body le locked ac) (discovery_response ac)"
proof -
  let ?t = "ucast CW_MSG_ELEMENT_CW_CONTROL_IPV4_ADDRESS_CW_TYPE :: u16"
  let ?b = "concat (map (\<lambda>i. elem_bytes ?t (if4_bytes le (if4_value le ac i))) (gInterfaces ac))"
  let ?es = "[elem_msg (response_type AC_Descriptor) (response_body le locked ac AC_Descriptor),
    elem_msg (response_type AC_Name) (gACName ac), wbuf (length ?b) ?b]"
  have "\<forall>i \<in> set (gInterfaces ac). control_ipv4_element plenty le ac i =
      Some (Inr (elem_msg ?t (if4_bytes le (if4_value le ac i)))) \<and> length (if4_bytes le (if4_value le ac i)) = 6"
    using assms ac_control4.assemble_enc [of _ le ac] by (auto simp: if4_bytes_def ac_ok_def)
  from store_interfaces_all [OF this] assms have
    "control_addresses (CWAssembleMsgElemCWControlIPv4Addresses plenty le ac) = Some (Inr (?es ! 2))"
    by (simp add: CWAssembleMsgElemCWControlIPv4Addresses_def CWACGetInterfacesCount_def control_addresses_def
        ac_ok_def Let_def)
  moreover have "CWAssembleMsgElemACDescriptor plenty le locked ac = Some (Inr (?es ! 0))"
    using ac_descriptor_elem.assemble_enc [of _ le locked ac] assms by (simp add: ac_ok_def Let_def)
  moreover have "AC_CWAssembleMsgElemACName plenty ac = Some (Inr (?es ! 1))"
    using ac_name.assemble_enc [of _ ac] assms by (simp add: ac_ok_def)
  ultimately show ?thesis
    by (intro exI [of _ ?es]) (simp add: msg_fits_def discovery_response_def stream_def comp_def Let_def)
qed

lemma assemble_discovery_response:
  assumes "discovery_fits le locked ac" and "fragID < 65536"
  shows "CWAssembleDiscoveryResponse plenty le locked ac fragID seq =
    Some (Inr [wbuf (length (response_datagram le locked ac seq)) (response_datagram le locked ac seq)])"
proof -
  obtain es where es: "length es = 3" "\<forall>m \<in> set es. msg_fits m"
    "assemble_each (\<lambda>r. r) [CWAssembleMsgElemACDescriptor plenty le locked ac, AC_CWAssembleMsgElemACName plenty ac,
      control_addresses (CWAssembleMsgElemCWControlIPv4Addresses plenty le ac)] = Some (Inr es)"
    "concat (map contents es) = stream response_type (response_body le locked ac) (discovery_response ac)"
    using assms(1) ac_elements_assembled [of ac le locked] by (auto simp: discovery_fits_def)
  let ?all = "es @ (if CWACSupportIPv6 ac then [wbuf 0 []] else [])"
  have n: "length ?all = 3 + (if CWACSupportIPv6 ac then 1 else 0)" using es(1) by simp
  have bytes: "message_bytes seq CW_MSG_TYPE_VALUE_DISCOVERY_RESPONSE ?all =
      control_message seq CW_MSG_TYPE_VALUE_DISCOVERY_RESPONSE response_type (response_body le locked ac)
        (discovery_response ac)"
    using es(4) by (simp add: control_message_def message_bytes_def stream_def comp_def Let_def)
  have fits: "\<forall>m \<in> set ?all. msg_fits m" using es(2) by (auto simp: msg_fits_def)
  have "CWAssembleDiscoveryResponse plenty le locked ac fragID seq =
      CWAssembleMessage plenty fragID 0 seq CW_MSG_TYPE_VALUE_DISCOVERY_RESPONSE (Some ?all) (length ?all) None 0
        CW_PACKET_PLAIN"
    unfolding n CWAssembleDiscoveryResponse_def by (simp add: es(3) Let_def del: assemble_each.simps)
  also have "\<dots> = Some (Inr [wbuf (length (response_datagram le locked ac seq)) (response_datagram le locked ac seq)])"
    using datagram_sent [OF fits assms(2), of seq CW_MSG_TYPE_VALUE_DISCOVERY_RESPONSE] assms(1)
    unfolding bytes by (simp add: length_control_message discovery_fits_def response_datagram_def)
  finally show ?thesis .
qed

subsection \<open>The rounds of a WTP\<close>

definition ready :: "wtp_env \<Rightarrow> WTP_globals \<Rightarrow> bool" where
  "ready env g \<longleftrightarrow> we_alloc env = plenty \<and> we_socket env \<and> wtp_ok (we_longsz env) (we_junk env) g \<and>
     we_fragID env < 65536"

text \<open>A datagram that leads the parser out of the buffer has no result.\<close>

definition readable :: "wtp_env \<Rightarrow> arrival \<Rightarrow> bool" where
  "readable env a \<longleftrightarrow> (case a of Read_failed \<Rightarrow> True | Datagram buf len sender \<Rightarrow>
     CWParseDiscoveryResponseMessage (we_alloc env) (we_le env) (ac_info (we_blank env)) buf len \<noteq> None)"

lemma send_requests_ready:
  assumes "ready env g"
  shows "\<exists>acs' n' out. send_requests env g acs n = Some (Inr (acs', n', out)) \<and> length acs' = length acs \<and>
    map ad_received acs' = map ad_received acs \<and> length out \<le> length acs \<and>
    (out = [] \<longleftrightarrow> (\<forall>a \<in> set acs. ad_received a))"
proof (induction acs arbitrary: n)
  case (Cons a acs)
  obtain seq n' where n: "CWGetSeqNum n = (seq, n')" by fastforce
  obtain acs1 n1 out1 where 1: "send_requests env g acs n = Some (Inr (acs1, n1, out1))" "length acs1 = length acs"
      "map ad_received acs1 = map ad_received acs" "length out1 \<le> length acs"
      "out1 = [] \<longleftrightarrow> (\<forall>a \<in> set acs. ad_received a)" using Cons.IH [of n] by blast
  obtain acs2 n2 out2 where 2: "send_requests env g acs n' = Some (Inr (acs2, n2, out2))" "length acs2 = length acs"
      "map ad_received acs2 = map ad_received acs" "length out2 \<le> length acs" using Cons.IH [of n'] by blast
  show ?case
  proof (cases "ad_received a")
    case True
    with 1 show ?thesis by simp
  next
    case False
    with 2 assms show ?thesis
      by (simp add: n ready_def assemble_discovery_request)
  qed
qed simp

lemma mark_received_length: "length (snd (mark_received n acs)) = length acs"
  by (induction acs) (auto split: prod.splits)

lemma receive_readable:
  assumes "readable env a"
  shows "\<exists>b s'. CWReceiveDiscoveryResponse env a s = Some (b, s') \<and> gCWDiscoveryCount s' = gCWDiscoveryCount s \<and>
    length (gCWACList s') = length (gCWACList s) \<and> next_seqNum s' = next_seqNum s"
proof (cases a)
  case (Datagram buf len sender)
  have "length acs = length (gCWACList s)" if "mark_received n (gCWACList s) = (b, acs)" for n b acs
    using mark_received_length [of n "gCWACList s"] that by simp
  with Datagram assms show ?thesis
    by (fastforce simp: CWReceiveDiscoveryResponse_def readable_def CWWTPEvaluateAC_def Let_def
        split: sum.splits option.splits prod.splits)
qed (auto simp: CWReceiveDiscoveryResponse_def)

lemma read_responses_readable:
  "\<forall>a \<in> set as. readable env a \<Longrightarrow> \<exists>b' s'. read_responses env as b s = Some (b', s') \<and>
     gCWDiscoveryCount s' = gCWDiscoveryCount s \<and> length (gCWACList s') = length (gCWACList s)"
proof (induction as arbitrary: b s)
  case (Cons a as)
  then obtain b1 s1 where 1: "CWReceiveDiscoveryResponse env a s = Some (b1, s1)"
    "gCWDiscoveryCount s1 = gCWDiscoveryCount s" "length (gCWACList s1) = length (gCWACList s)"
    using receive_readable [of env a s] by auto
  obtain b2 s2 where "read_responses env as b1 s1 = Some (b2, s2)"
    "gCWDiscoveryCount s2 = gCWDiscoveryCount s1" "length (gCWACList s2) = length (gCWACList s1)"
    using Cons.IH [of b1 s1] Cons.prems by auto
  with 1 show ?case by simp
qed simp

lemma discovery_loop_ends:
  assumes "ready env g" and "\<forall>n. \<forall>a \<in> set (arrivals n). readable env a"
  shows "gCWDiscoveryCount s + k = gCWMaxDiscoveries \<Longrightarrow> \<exists>t s' out. discovery_loop env g arrivals s = Some (t, s', out) \<and>
    (t = Enter CW_ENTER_JOIN \<and> gACInfoPtr s' \<noteq> None \<or> t = Enter CW_ENTER_SULKING \<and> gCWDiscoveryCount s' = gCWMaxDiscoveries) \<and>
    length out \<le> k * length (gCWACList s)"
proof (induction k arbitrary: s)
  case 0
  then show ?case by (subst discovery_loop.simps) simp
next
  case (Suc k)
  then have count: "gCWDiscoveryCount s \<noteq> gCWMaxDiscoveries" by simp
  obtain acs n out where sent: "send_requests env g (gCWACList s) (next_seqNum s) = Some (Inr (acs, n, out))"
    "length acs = length (gCWACList s)" "length out \<le> length (gCWACList s)"
    using send_requests_ready [OF assms(1)] by blast
  let ?s = "s\<lparr>gCWACList := acs, next_seqNum := n, gACInfoPtr := (if out = [] then gACInfoPtr s else None)\<rparr>"
  let ?t = "?s\<lparr>gCWDiscoveryCount := gCWDiscoveryCount s + 1\<rparr>"
  obtain b u where read: "CWReadResponses env (arrivals (gCWDiscoveryCount s + 1)) ?t = Some (b, u)"
    "gCWDiscoveryCount u = gCWDiscoveryCount s + 1" "length (gCWACList u) = length acs"
    using read_responses_readable [of "arrivals (gCWDiscoveryCount s + 1)" env False ?t] assms(2)
    by (auto simp: CWReadResponses_def)
  have "gCWDiscoveryCount u + k = gCWMaxDiscoveries" using Suc.prems read(2) by simp
  from Suc.IH [OF this] obtain t v out' where rest: "discovery_loop env g arrivals u = Some (t, v, out')"
    "t = Enter CW_ENTER_JOIN \<and> gACInfoPtr v \<noteq> None \<or> t = Enter CW_ENTER_SULKING \<and> gCWDiscoveryCount v = gCWMaxDiscoveries"
    "length out' \<le> k * length (gCWACList u)" by blast
  have bound: "length out + length out' \<le> Suc k * length (gCWACList s)" using sent(2,3) read(3) rest(3) by simp
  have few: "length out \<le> Suc k * length (gCWACList s)" using sent(3) by simp
  show ?case
  proof (cases "out = [] \<and> gACInfoPtr ?s \<noteq> None")
    case True
    then show ?thesis using count sent(1) by (subst discovery_loop.simps) (auto simp: Let_def)
  next
    case False
    show ?thesis
    proof (cases "b \<and> gACInfoPtr u \<noteq> None")
      case True
      with False sent(1) read(1) count few show ?thesis
        by (subst discovery_loop.simps) (auto simp: Let_def)
    next
      case not_found: False
      with False sent(1) read(1) count rest(1,2) bound show ?thesis
        by (subst discovery_loop.simps) (auto simp: Let_def)
    qed
  qed
qed

subsection \<open>Properties\<close>

text \<open>
  C23: The messages of the Discovery state arrive as they were sent. The AC reads in the request of a WTP its kind,
  board data, descriptor, tunnel mode and MAC type; the WTP reads in the response of the AC the descriptor, the
  name and every address with its load; both find the sequence number, and neither looks at the bytes a buffer
  holds behind the datagram.
\<close>

theorem discovery_exchange:
  assumes "wtp_ok longsz junk g" and "discovery_fits le locked ac" and "fragID < 65536" and "seq < 256"
  shows "\<exists>p q. CWAssembleDiscoveryRequest plenty le longsz junk g fragID seq = Some (Inr [p]) \<and>
    (\<forall>unset tail. CWParseDiscoveryRequestMessage plenty le unset (contents p @ tail) (length (contents p)) =
      Some (Inr (seq, \<lparr>dr_type = CWWTPGetDiscoveryType, dr_WTPBoardData = Some (board_infos le longsz junk),
        dr_WTPDescriptor = Some (wtp_descriptor_of le longsz junk g), dr_frameTunnelMode = CWWTPGetFrameTunnelMode,
        dr_MACType = CWWTPGetMACType\<rparr>))) \<and>
    CWAssembleDiscoveryResponse plenty le locked ac fragID seq = Some (Inr [q]) \<and>
    (\<forall>unset tail. CWParseDiscoveryResponseMessage plenty le unset (contents q @ tail) (length (contents q)) =
      Some (Inr (seq, discovered le locked ac unset)))"
proof -
  let ?P = "request_datagram le longsz junk g seq" and ?Q = "response_datagram le locked ac seq"
  have seq: "ucast (ucast seq :: u8) = seq" using assms(4) by simp
  have "contents (wbuf (length ?P) ?P) = ?P" "contents (wbuf (length ?Q) ?Q) = ?Q" by simp_all
  then show ?thesis
    using assemble_discovery_request [OF assms(1,3), of le seq] parse_discovery_request [OF assms(1), of le _ seq]
      assemble_discovery_response [OF assms(2,3), of seq] parse_discovery_response [OF assms(2), of _ seq]
    unfolding seq by metis
qed

definition sample_wtp_env :: wtp_env where
  "sample_wtp_env = \<lparr>we_alloc = plenty, we_le = True, we_longsz = 4, we_junk = [], we_fragID = 3,
     we_blank = \<lparr>ac_info = unassigned_join_response 0,
       preferredAddress = \<lparr>sa_family = 0, sa_addr = [], sa_port = 0\<rparr>,
       incomingAddress = \<lparr>sa_family = 0, sa_addr = [], sa_port = 0\<rparr>\<rparr>,
     we_prefer_IPv6 = False, we_socket = True\<rparr>"

lemma sample_wtp_ready: "wtp_ok 4 [] sample_wtp" "ready sample_wtp_env sample_wtp"
  by (simp_all add: wtp_ok_def longsz_ok_def sample_wtp_def sample_wtp_env_def ready_def)

definition one_interface :: AC_globals where
  "one_interface = sample_ac\<lparr>gInterfaces := take 1 (gInterfaces sample_ac)\<rparr>"

lemma one_interface_fits: "discovery_fits True True one_interface"
  using ac_infos_facts(4) [of True True one_interface]
  by (simp add: discovery_fits_def ac_ok_def ac_fits_def discovery_response_def ac_descriptor_of_def Let_def
      if4_bytes_def) (simp add: one_interface_def sample_ac_def if4_bytes_def)

lemma discovery_exchange_witness:
  "\<exists>p q. CWAssembleDiscoveryRequest plenty True 4 [] sample_wtp 3 9 = Some (Inr [p]) \<and>
    CWAssembleDiscoveryResponse plenty True True one_interface 3 9 = Some (Inr [q]) \<and>
    CWParseDiscoveryResponseMessage plenty True (unassigned_join_response 0) (contents q @ [1, 2]) (length (contents q)) =
      Some (Inr (9, discovered True True one_interface (unassigned_join_response 0)))"
  using discovery_exchange [OF sample_wtp_ready(1) one_interface_fits, where fragID = 3 and seq = 9] by fastforce

definition sample_search :: "nat \<Rightarrow> discovery_state" where
  "sample_search k = \<lparr>gCWDiscoveryCount = 0, gCWACList = replicate k \<lparr>ad_received = True, ad_seqNum = 0\<rparr>,
     gACInfoPtr = None, next_seqNum = 5\<rparr>"

lemma sample_search_facts:
  "gCWACList (sample_search 1) = [\<lparr>ad_received = True, ad_seqNum = 0\<rparr>]"
  "gCWACList (sample_search 2) = [\<lparr>ad_received = True, ad_seqNum = 0\<rparr>, \<lparr>ad_received = True, ad_seqNum = 0\<rparr>]"
  "CWGetSeqNum (next_seqNum (sample_search k)) = (5, 6)"
proof -
  show "gCWACList (sample_search 2) = [\<lparr>ad_received = True, ad_seqNum = 0\<rparr>, \<lparr>ad_received = True, ad_seqNum = 0\<rparr>]"
    by (simp add: sample_search_def numeral_2_eq_2)
qed (simp_all add: sample_search_def CWGetSeqNum_def CW_MAX_SEQ_NUM_def)

definition whole :: "u8 list \<Rightarrow> u8 \<Rightarrow> arrival" where
  "whole buf n = Datagram buf (length buf) \<lparr>sa_family = AF_INET, sa_addr = [192, 0, 2, n], sa_port = 5246\<rparr>"

definition only_first :: "arrival list \<Rightarrow> nat \<Rightarrow> arrival list" where
  "only_first as n = (if n = 1 then as else [])"

lemma only_first_facts: "only_first as 1 = as" "\<forall>k > 1. only_first as k = []"
  by (simp_all add: only_first_def)



lemma discovery_round:
  assumes "gCWDiscoveryCount s \<noteq> gCWMaxDiscoveries" and "out \<noteq> []"
    and "send_requests env g (gCWACList s) (next_seqNum s) = Some (Inr (acs, n, out))"
    and "CWReadResponses env (arrivals (gCWDiscoveryCount s + 1)) (s\<lparr>gCWACList := acs, next_seqNum := n,
        gACInfoPtr := None, gCWDiscoveryCount := gCWDiscoveryCount s + 1\<rparr>) = Some (b, u)"
  shows "discovery_loop env g arrivals s =
    (if b \<and> gACInfoPtr u \<noteq> None then Some (Enter CW_ENTER_JOIN, u, out)
     else do { (t, s, out') \<leftarrow> discovery_loop env g arrivals u; Some (t, s, out @ out') })"
  using assms by (subst discovery_loop.simps) (simp add: Let_def)

lemma silent_rounds:
  assumes "ready env g"
  shows "gCWDiscoveryCount s + k = gCWMaxDiscoveries \<Longrightarrow> \<exists>a \<in> set (gCWACList s). \<not> ad_received a \<Longrightarrow>
    \<forall>n > gCWDiscoveryCount s. arrivals n = [] \<Longrightarrow> k = 0 \<longrightarrow> gACInfoPtr s = None \<Longrightarrow>
    \<exists>s' out. discovery_loop env g arrivals s = Some (Enter CW_ENTER_SULKING, s', out) \<and> gACInfoPtr s' = None"
proof (induction k arbitrary: s)
  case 0
  then show ?case by (subst discovery_loop.simps) simp
next
  case (Suc k)
  then have count: "gCWDiscoveryCount s \<noteq> gCWMaxDiscoveries" by simp
  obtain acs n out where sent: "send_requests env g (gCWACList s) (next_seqNum s) = Some (Inr (acs, n, out))"
    "map ad_received acs = map ad_received (gCWACList s)" "out \<noteq> []"
    using send_requests_ready [OF assms, of "gCWACList s" "next_seqNum s"] Suc.prems(2) by blast
  let ?s = "s\<lparr>gCWACList := acs, next_seqNum := n, gACInfoPtr := None, gCWDiscoveryCount := gCWDiscoveryCount s + 1\<rparr>"
  have "False \<in> ad_received ` set acs"
    using Suc.prems(2) sent(2) by (metis (full_types) image_eqI image_set)
  then have "\<exists>a \<in> set acs. \<not> ad_received a" by force
  then obtain s' out' where "discovery_loop env g arrivals ?s = Some (Enter CW_ENTER_SULKING, s', out')" "gACInfoPtr s' = None"
    using Suc.IH [of ?s] Suc.prems(1,3) by auto
  moreover have read: "CWReadResponses env (arrivals (gCWDiscoveryCount s + 1)) ?s = Some (False, ?s)"
    using Suc.prems(3) by (simp add: CWReadResponses_def)
  ultimately show ?case using discovery_round [where s = s and env = env and arrivals = arrivals, OF count sent(3,1) read] by simp
qed

lemma first_request:
  assumes "ready env g" and "gCWACList s = [a]" and "CWGetSeqNum (next_seqNum s) = (n, n')"
  shows "\<exists>p. send_requests env g (map (\<lambda>a. a\<lparr>ad_received := False\<rparr>) (gCWACList s)) (next_seqNum s) =
    Some (Inr ([a\<lparr>ad_received := False, ad_seqNum := n\<rparr>], n', [p]))"
  using assms by (simp add: ready_def assemble_discovery_request)

text \<open>
  The WTP joins whoever answers first, with whatever number. A datagram is taken as the AC's description before
  its sequence number is looked at, and the number only decides whether the round succeeds: if a response with any
  number at all arrives before the answer of the AC, the WTP goes on to join with what the first one says,
  and the address it prefers is the sender of the first.
\<close>

theorem first_datagram_wins:
  assumes "ready env g" and "gCWACList s = [a]" and "CWGetSeqNum (next_seqNum s) = (n, n')"
    and arrived: "arrivals 1 = [Datagram buf len sender, Datagram buf' len' sender']"
    and first: "CWParseDiscoveryResponseMessage plenty (we_le env) (ac_info (we_blank env)) buf len = Some (Inr (any_number, v))"
    and "CWParseDiscoveryResponseMessage plenty (we_le env) (ac_info (we_blank env)) buf' len' = Some (Inr (n, v'))"
    and "jp_IPv4Addresses v = [i]" and "\<not> we_prefer_IPv6 env" and "sa_family sender = AF_INET"
  shows "\<exists>s' out ac. CWWTPEnterDiscovery env g arrivals s = Some (Enter CW_ENTER_JOIN, s', out) \<and>
    gACInfoPtr s' = Some ac \<and> ac_info ac = v \<and> preferredAddress ac = sender"
proof -
  have alloc: "we_alloc env = plenty" "we_socket env" using assms(1) by (simp_all add: ready_def)
  obtain p where "send_requests env g (map (\<lambda>a. a\<lparr>ad_received := False\<rparr>) (gCWACList s)) (next_seqNum s) =
      Some (Inr ([a\<lparr>ad_received := False, ad_seqNum := n\<rparr>], n', [p]))"
    using first_request [OF assms(1-3)] by blast
  with assms(2) have sent: "send_requests env g [a\<lparr>ad_received := False\<rparr>] (next_seqNum s) =
      Some (Inr ([a\<lparr>ad_received := False, ad_seqNum := n\<rparr>], n', [p]))" by simp
  let ?ac = "(we_blank env)\<lparr>ac_info := v, incomingAddress := sock_cpy_addr_port (incomingAddress (we_blank env)) sender\<rparr>"
  let ?s = "s\<lparr>gCWDiscoveryCount := 0, gCWACList := [a\<lparr>ad_received := False\<rparr>]\<rparr>"
  have read: "CWReadResponses env (arrivals (gCWDiscoveryCount ?s + 1)) (?s\<lparr>
      gCWACList := [a\<lparr>ad_received := False, ad_seqNum := n\<rparr>], next_seqNum := n', gACInfoPtr := None,
      gCWDiscoveryCount := gCWDiscoveryCount ?s + 1\<rparr>) =
    Some (True, s\<lparr>gCWDiscoveryCount := 1, gCWACList := [a\<lparr>ad_received := True, ad_seqNum := n\<rparr>],
        next_seqNum := n', gACInfoPtr := Some ?ac\<rparr>)"
    using arrived by (cases "any_number = n") (simp_all add: alloc first assms(6) CWReadResponses_def CWReceiveDiscoveryResponse_def
        CWWTPEvaluateAC_def Let_def)
  have "discovery_loop env g arrivals ?s =
      Some (Enter CW_ENTER_JOIN, s\<lparr>gCWDiscoveryCount := 1, gCWACList := [a\<lparr>ad_received := True, ad_seqNum := n\<rparr>],
        next_seqNum := n', gACInfoPtr := Some ?ac\<rparr>, [p])"
    using discovery_round [where s = ?s and env = env and arrivals = arrivals and out = "[p]" and g = g, OF _ _ _ read] sent
    by (simp add: gCWMaxDiscoveries_def)
  then show ?thesis
    using assms(7-9) by (simp add: CWWTPEnterDiscovery_def assms(2) alloc CWWTPPickACInterface_def
        sock_cpy_addr_port_def Let_def)
qed

lemma sample_answer:
  "CWParseDiscoveryResponseMessage plenty (we_le sample_wtp_env) (ac_info (we_blank sample_wtp_env))
     (response_datagram True True one_interface seq) (length (response_datagram True True one_interface seq)) =
   Some (Inr (ucast (ucast seq :: u8), discovered True True one_interface (unassigned_join_response 0)))"
  using parse_discovery_response [OF one_interface_fits, of "unassigned_join_response 0" seq "[]"]
  by (simp add: sample_wtp_env_def)

lemma first_datagram_wins_witness:
  "\<exists>s' out ac. CWWTPEnterDiscovery sample_wtp_env sample_wtp
      (only_first [whole (response_datagram True True one_interface 200) 66, whole (response_datagram True True one_interface 5) 1])
      (sample_search 1) = Some (Enter CW_ENTER_JOIN, s', out) \<and>
    gACInfoPtr s' = Some ac \<and> sa_addr (preferredAddress ac) = [192, 0, 2, 66]"
proof -
  have one: "jp_IPv4Addresses (discovered True True one_interface (unassigned_join_response 0)) =
      [if4_value True one_interface (hd (gInterfaces one_interface))]"
    by (simp add: discovered_def one_interface_def sample_ac_def)
  have answers: "ucast (ucast (5 :: u32) :: u8) = (5 :: u32)" by simp
  have v4: "\<not> we_prefer_IPv6 sample_wtp_env" by (simp add: sample_wtp_env_def)
  from first_datagram_wins [where arrivals = "only_first [whole (response_datagram True True one_interface 200) 66,
        whole (response_datagram True True one_interface 5) 1]", unfolded whole_def, OF sample_wtp_ready(2) sample_search_facts(1,3)
      only_first_facts(1) [of "[whole (response_datagram True True one_interface 200) 66,
        whole (response_datagram True True one_interface 5) 1]", unfolded whole_def]
      sample_answer [of 200] sample_answer [of 5, unfolded answers] one v4]
  show ?thesis by (fastforce simp: whole_def)
qed

text \<open>
  An AC that answered can be forgotten. With two ACs of which only the first is there, a datagram that is no
  response, read after the valid answer in the same interval, makes the round fail; the next request, to the AC
  that did not answer, resets the pointer to the AC that did, which is never asked again: the WTP goes to the
  Sulking state without an AC.
\<close>

theorem valid_response_forgotten:
  assumes "ready env g" and "gCWACList s = [a, b]" and "CWGetSeqNum (next_seqNum s) = (n, n')"
    and arrived: "arrivals 1 = [Datagram buf len sender, Datagram garbage len' sender']"
    and answer: "CWParseDiscoveryResponseMessage plenty (we_le env) (ac_info (we_blank env)) buf len = Some (Inr (n, v))"
    and none: "CWParseDiscoveryResponseMessage plenty (we_le env) (ac_info (we_blank env)) garbage len' = Some (Inl e)"
    and silent: "\<forall>k > 1. arrivals k = []"
  shows "\<exists>s' out. CWWTPEnterDiscovery env g arrivals s = Some (Enter CW_ENTER_SULKING, s', out) \<and> gACInfoPtr s' = None"
proof -
  have alloc: "we_alloc env = plenty" "we_socket env" using assms(1) by (simp_all add: ready_def)
  obtain m n'' where m: "CWGetSeqNum n' = (m, n'')" by fastforce
  let ?a = "a\<lparr>ad_received := False, ad_seqNum := n\<rparr>" and ?b = "b\<lparr>ad_received := False, ad_seqNum := m\<rparr>"
  obtain p q where sent: "send_requests env g [a\<lparr>ad_received := False\<rparr>, b\<lparr>ad_received := False\<rparr>] (next_seqNum s) =
      Some (Inr ([?a, ?b], n'', [p, q]))"
    using assms(1,3) m by (simp add: ready_def assemble_discovery_request)
  let ?ac = "(we_blank env)\<lparr>ac_info := v, incomingAddress := sock_cpy_addr_port (incomingAddress (we_blank env)) sender\<rparr>"
  let ?s = "s\<lparr>gCWDiscoveryCount := 1, gCWACList := [?a\<lparr>ad_received := True\<rparr>, ?b], next_seqNum := n'',
    gACInfoPtr := Some ?ac\<rparr>"
  have "gCWDiscoveryCount ?s + 9 = gCWMaxDiscoveries" by (simp add: gCWMaxDiscoveries_def)
  from silent_rounds [OF assms(1) this, of arrivals] silent obtain s' out where
    rest: "discovery_loop env g arrivals ?s = Some (Enter CW_ENTER_SULKING, s', out)" "gACInfoPtr s' = None" by auto
  let ?r = "s\<lparr>gCWDiscoveryCount := 0, gCWACList := [a\<lparr>ad_received := False\<rparr>, b\<lparr>ad_received := False\<rparr>]\<rparr>"
  have read: "CWReadResponses env (arrivals (gCWDiscoveryCount ?r + 1)) (?r\<lparr>gCWACList := [?a, ?b], next_seqNum := n'',
      gACInfoPtr := None, gCWDiscoveryCount := gCWDiscoveryCount ?r + 1\<rparr>) = Some (False, ?s)"
    using arrived by (simp add: alloc answer none CWReadResponses_def CWReceiveDiscoveryResponse_def
        CWWTPEvaluateAC_def Let_def)
  have "discovery_loop env g arrivals ?r = Some (Enter CW_ENTER_SULKING, s', [p, q] @ out)"
    using discovery_round [where s = ?r and env = env and arrivals = arrivals and out = "[p, q]" and g = g, OF _ _ _ read]
      sent rest(1)
    by (simp add: gCWMaxDiscoveries_def del: send_requests.simps)
  with rest(2) show ?thesis by (simp add: CWWTPEnterDiscovery_def assms(2) alloc Let_def)
qed

lemma valid_response_forgotten_witness:
  "\<exists>s' out. CWWTPEnterDiscovery sample_wtp_env sample_wtp
      (only_first [whole (response_datagram True True one_interface 5) 1, whole (request_datagram True 4 [] sample_wtp 5) 66])
      (sample_search 2) = Some (Enter CW_ENTER_SULKING, s', out) \<and> gACInfoPtr s' = None"
proof -
  have none: "CWParseDiscoveryResponseMessage plenty (we_le sample_wtp_env) (ac_info (we_blank sample_wtp_env))
     (request_datagram True 4 [] sample_wtp 5) (length (request_datagram True 4 [] sample_wtp 5)) =
   Some (Inl CW_ERROR_INVALID_FORMAT)"
    using discovery_request_short [OF sample_wtp_ready(1), of True]
      open_any_datagram [of discovery_type "discovery_body True 4 [] sample_wtp" discovery_request plenty
        CW_MSG_TYPE_VALUE_DISCOVERY_RESPONSE 5 CW_MSG_TYPE_VALUE_DISCOVERY_REQUEST "[]"]
    by (simp add: CWParseDiscoveryResponseMessage_def request_datagram_def CW_MSG_TYPE_VALUE_DISCOVERY_RESPONSE_def
        CW_MSG_TYPE_VALUE_DISCOVERY_REQUEST_def)
  have answers: "ucast (ucast (5 :: u32) :: u8) = (5 :: u32)" by simp
  from valid_response_forgotten [where arrivals = "only_first [whole (response_datagram True True one_interface 5) 1,
        whole (request_datagram True 4 [] sample_wtp 5) 66]", unfolded whole_def, OF sample_wtp_ready(2) sample_search_facts(2,3)
      only_first_facts(1) [of "[whole (response_datagram True True one_interface 5) 1,
        whole (request_datagram True 4 [] sample_wtp 5) 66]", unfolded whole_def]
      sample_answer [of 5, unfolded answers] none]
  show ?thesis using only_first_facts(2) by (simp add: whole_def)
qed

end
