(* ===== verification/Common.thy ===== *)
theory Common
  imports Wire
begin

text \<open>
  What both programs have around their protocol: how an error that was not handled further down is taken
  (\<open>CWErrorHandling.c\<close>), and the size of a receive buffer.
\<close>

datatype handled = Handled bool | Thread_exits | Process_exits

text \<open>\<open>None\<close>: no error was ever raised in the thread. The code is not cleared.\<close>

definition CWErrorHandleLast :: "CWErrorCode option \<Rightarrow> handled" where
  "CWErrorHandleLast code =
     (case code of
        None \<Rightarrow> Process_exits
      | Some e \<Rightarrow>
          if e = CW_ERROR_SUCCESS \<or> e = CW_ERROR_NONE then Handled True
          else if e = CW_ERROR_OUT_OF_MEMORY then Thread_exits
          else Handled False)"

definition CWErrorGetLastErrorCode :: "CWErrorCode option \<Rightarrow> CWErrorCode" where
  "CWErrorGetLastErrorCode code = (case code of None \<Rightarrow> CW_ERROR_GENERAL | Some e \<Rightarrow> e)"

definition CW_BUFFER_SIZE :: nat where "CW_BUFFER_SIZE = 65536"

end
