(* ===== verification/AC_Loop.thy ===== *)
theory AC_Loop
  imports AC_Responses Configure Discovery Common
begin

text \<open>
  The main loop of the AC (\<open>ACMainLoop.c\<close>): the thread that
  receives datagrams and finds or opens the session of their sender, and the thread of each session, which waits
  for a packet, an order of an application or a request to close, and hands a message to the handler of the state.

  Threads interleave in whole steps, the events of \<open>ac_perform\<close>: a datagram arrives, a created thread begins, a
  session thread goes round its loop once, a timer expires, a signal is delivered, an application gives an order.
  A step answers \<open>None\<close> where the program has no defined behaviour and \<open>Exits\<close> where the whole process ends.
  Signals are pending for a thread that blocks them; a thread starts with both blocked, as the main thread has them.

  An error that is not raised, \<open>CW_ERROR_NONE\<close> in the models of the handlers, leaves the code of an earlier error of
  the thread: that code, or that there is none, is \<open>ae_lastError\<close>. The model builds with or without DTLS
  (\<open>ae_dtls\<close>); the Makefile of the repository builds without. What DTLS does with the list of packets is the
  argument \<open>ae_handshake\<close> and \<open>ae_decrypt\<close>.
\<close>

subsection \<open>State\<close>

definition CW_MAX_WTP :: nat where "CW_MAX_WTP = 20000"

definition NO_CMD :: nat where "NO_CMD = 0"
definition QOS_CMD :: nat where "QOS_CMD = 1"
definition CLEAR_CONFIG_MSG_CMD :: nat where "CLEAR_CONFIG_MSG_CMD = 2"
definition OFDM_CONTROL_CMD :: nat where "OFDM_CONTROL_CMD = 3"
definition UCI_CONTROL_CMD :: nat where "UCI_CONTROL_CMD = 4"
definition WTP_UPDATE_CMD :: nat where "WTP_UPDATE_CMD = 5"

definition sizeof_CWPrivateSafeList :: nat where "sizeof_CWPrivateSafeList = 40"
definition sizeof_CWPrivateSafeElement :: nat where "sizeof_CWPrivateSafeElement = 32"
definition sizeof_CWACThreadArg :: nat where "sizeof_CWACThreadArg = 12"

text \<open>
  The thread of a session that has begun and is not closed. One that ended in \<open>CWExitThread\<close> after an error has
  \<open>exited\<close>: nobody closed its session.
\<close>

record session_thread =
  soft_blocked :: bool
  critical_blocked :: bool
  soft_pending :: bool
  critical_pending :: bool
  exited :: bool

text \<open>
  An entry of \<open>gWTPs\<close>: the fields the handlers know, whether \<open>session\<close> is a DTLS session or null, the receive
  buffer, which keeps the bytes of earlier packets, and the thread.
\<close>

record wtp_entry =
  manager :: CWWTPManager
  session :: bool
  buf :: "u8 list"
  thread :: "session_thread option"

record CWACThreadArg =
  arg_index :: nat
  arg_sock :: nat
  arg_interfaceIndex :: nat

text \<open>\<open>created\<close> are the threads that were created and have not run; \<open>listening\<close> is whether the main thread lives.\<close>

record ac_process =
  globals :: AC_globals
  gWTPs :: "wtp_entry list"
  gDefaultQosValues :: "WTPQosValues list"
  created :: "CWACThreadArg list"
  listening :: bool

record ac_env =
  ae_run :: run_env
  ae_le :: bool
  ae_locked :: bool
  ae_lastError :: "CWErrorCode option"
  ae_thread :: bool
  ae_specific :: bool
  ae_reply :: bool
  ae_dtls :: bool
  ae_handshake :: "u8 list list \<Rightarrow> (CWErrorCode + int) \<times> u8 list list"
  ae_decrypt :: "u8 list list \<Rightarrow> (CWErrorCode + u8 list) \<times> u8 list list"
  ae_sino :: sino_data
  ae_sino_locked :: bool
  ae_blank :: CWRadioAdminInfoValues
  gCWWaitJoin :: nat
  gCWForceMTU :: int

datatype 'a process_result = Exits | Runs 'a

type_synonym ac_result = "(ac_process \<times> action list) process_result option"

definition last_error :: "ac_env \<Rightarrow> CWErrorCode \<Rightarrow> CWErrorCode option" where
  "last_error env e = (if e = CW_ERROR_NONE then ae_lastError env else Some e)"

definition set_entry :: "nat \<Rightarrow> wtp_entry \<Rightarrow> ac_process \<Rightarrow> ac_process" where
  "set_entry i e s = s\<lparr>gWTPs := (gWTPs s)[i := e]\<rparr>"

definition set_thread :: "nat \<Rightarrow> session_thread option \<Rightarrow> ac_process \<Rightarrow> ac_process" where
  "set_thread i t s = set_entry i ((gWTPs s ! i)\<lparr>thread := t\<rparr>) s"

definition set_manager :: "nat \<Rightarrow> CWWTPManager \<Rightarrow> ac_process \<Rightarrow> ac_process" where
  "set_manager i w s = set_entry i ((gWTPs s ! i)\<lparr>manager := w\<rparr>) s"

subsection \<open>A datagram arrives\<close>

primrec first_index :: "('a \<Rightarrow> bool) \<Rightarrow> 'a list \<Rightarrow> nat" where
  "first_index P [] = 0"
| "first_index P (x # xs) = (if P x then 0 else Suc (first_index P xs))"

definition serves :: "CWNetworkLev4Address \<Rightarrow> nat \<Rightarrow> CWWTPManager \<Rightarrow> bool" where
  "serves addr sock w \<longleftrightarrow>
     isNotFree w \<and> same_address addr (wtp_peer w) \<and> same_port addr (wtp_peer w) \<and> wtp_socket w = sock"

definition CWWTPByAddress :: "CWNetworkLev4Address option \<Rightarrow> nat \<Rightarrow> wtp_entry list \<Rightarrow> nat option" where
  "CWWTPByAddress addressPtr sock wtps =
     (case addressPtr of
        None \<Rightarrow> None
      | Some addr \<Rightarrow>
          let i = first_index (\<lambda>e. serves addr sock (manager e)) wtps
          in if i < length wtps then Some i else None)"

text \<open>A copy of the packet goes to the end of the list; when memory is short it is lost.\<close>

definition enqueue_packet :: "(nat \<Rightarrow> bool) \<Rightarrow> u8 list \<Rightarrow> nat \<Rightarrow> CWWTPManager \<Rightarrow> CWWTPManager option" where
  "enqueue_packet alloc bs readBytes w =
     (if \<not> alloc readBytes then Some w
      else if readBytes > length bs then None
      else if \<not> alloc sizeof_CWPrivateSafeElement then Some w
      else Some (w\<lparr>packetReceiveList := packetReceiveList w @ [take readBytes bs]\<rparr>))"

text \<open>The main thread after an error it does not recover from.\<close>

definition main_fails :: "ac_env \<Rightarrow> CWErrorCode \<Rightarrow> ac_process \<Rightarrow> ac_result \<Rightarrow> ac_result" where
  "main_fails env e s rest =
     (case CWErrorHandleLast (last_error env e) of
        Handled True \<Rightarrow> None
      | Handled False \<Rightarrow> rest
      | Thread_exits \<Rightarrow> Some (Runs (s\<lparr>listening := False\<rparr>, []))
      | Process_exits \<Rightarrow> Some Exits)"

definition answer_discovery :: "ac_env \<Rightarrow> u32 \<Rightarrow> CWDiscoveryRequestValues \<Rightarrow> ac_process \<Rightarrow> ac_result" where
  "answer_discovery env seqValue values s = do {
     _ \<leftarrow> CWDestroyDiscoveryRequestValues values;
     r \<leftarrow> CWAssembleDiscoveryResponse (env_alloc (ae_run env)) (ae_le env) (ae_locked env) (globals s)
            (env_fragID (ae_run env)) seqValue;
     (case r of
        Inl e \<Rightarrow> main_fails env e s (Some Exits)
      | Inr [] \<Rightarrow> None
      | Inr (m # _) \<Rightarrow>
          if \<not> msg_fits m then None
          else if \<not> ae_reply env then Some Exits
          else Some (Runs (s, [Sent (contents m)])))
   }"

text \<open>
  The first free slot is taken; the loop that looks for it ends behind the array when there is none. Without memory for
  the argument of the thread the slot stays taken. A thread that cannot be created makes the code free the
  address of the field that holds the list.
\<close>

definition open_session ::
  "ac_env \<Rightarrow> nat \<Rightarrow> u8 list \<Rightarrow> nat \<Rightarrow> int \<Rightarrow> CWNetworkLev4Address \<Rightarrow> ac_process \<Rightarrow> ac_result" where
  "open_session env sock bs readBytes incomingInterfaceIndex addr s =
     (let alloc = env_alloc (ae_run env);
          i = first_index (\<lambda>e. \<not> isNotFree (manager e)) (gWTPs s)
      in if i \<ge> length (gWTPs s) then None
         else
           (let w = (manager (gWTPs s ! i))\<lparr>wtp_peer := addr, isNotFree := True, isRequestClose := False\<rparr>
            in if \<not> alloc sizeof_CWPrivateSafeList
               then main_fails env CW_ERROR_NONE (set_manager i w s)
                      (Some (Runs (set_manager i (w\<lparr>isNotFree := False\<rparr>) s, [])))
               else
                 (let w = w\<lparr>packetReceiveList := []\<rparr>
                  in if \<not> alloc sizeof_CWACThreadArg then Some (Runs (set_manager i w s, []))
                     else if \<not> ae_thread env then None
                     else do {
                       w \<leftarrow> enqueue_packet alloc bs readBytes w;
                       Some (Runs ((set_manager i w s)\<lparr>created := created s @
                         [\<lparr>arg_index = i, arg_sock = sock,
                           arg_interfaceIndex = (if incomingInterfaceIndex < 0 then 0 else nat incomingInterfaceIndex)\<rparr>]\<rparr>, []))
                     })))"

definition CWACManageIncomingPacket ::
  "ac_env \<Rightarrow> nat \<Rightarrow> u8 list \<Rightarrow> nat \<Rightarrow> int \<Rightarrow> CWNetworkLev4Address \<Rightarrow> ac_process \<Rightarrow> ac_result" where
  "CWACManageIncomingPacket env sock bs readBytes incomingInterfaceIndex addr s =
     (case CWWTPByAddress (Some addr) sock (gWTPs s) of
        Some i \<Rightarrow> do {
          w \<leftarrow> enqueue_packet (env_alloc (ae_run env)) bs readBytes (manager (gWTPs s ! i));
          Some (Runs (set_manager i w s, []))
        }
      | None \<Rightarrow>
          if \<not> ae_locked env then Some Exits
          else if sint (gActiveWTPs (globals s)) \<ge> sint (gMaxWTPs (globals s)) then Some (Runs (s, []))
          else do {
            r \<leftarrow> CWParseDiscoveryRequestMessage (env_alloc (ae_run env)) (ae_le env)
                   (unassigned_discovery (env_garbage (ae_run env))) bs readBytes;
            (case r of
               Inr (seqValue, values) \<Rightarrow> answer_discovery env seqValue values s
             | Inl e \<Rightarrow> main_fails env e s
                          (open_session env sock bs readBytes incomingInterfaceIndex addr s))
          })"

subsection \<open>A session begins and ends\<close>

definition CWResetWTPProtocolManager :: "CWWTPProtocolManager \<Rightarrow> CWWTPProtocolManager" where
  "CWResetWTPProtocolManager pm =
     pm\<lparr>pm_locationData := None, pm_name := None, pm_sessionID := 0,
        pm_descriptor := (pm_descriptor pm)\<lparr>wd_maxRadios := 0, wd_radiosInUse := 0, wd_encCapabilities := 0,
                                           wd_vendorInfos := []\<rparr>,
        pm_radioCount := 0, pm_radiosInfo := [], pm_ACName := None, pm_ACNameIndex := [], pm_radioAdminInfo := [],
        pm_StatisticsTimer := 0, pm_WTPBoardData := [], pm_WTPRebootStatistics := None\<rparr>"

text \<open>One session more, or less, on interface \<open>k\<close>: \<open>n\<close> is 1 or -1.\<close>

definition count_session :: "u32 \<Rightarrow> nat \<Rightarrow> AC_globals \<Rightarrow> AC_globals option" where
  "count_session n k g =
     (if k \<ge> length (gInterfaces g) then None
      else Some (g\<lparr>gActiveWTPs := gActiveWTPs g + n,
                   gInterfaces := (gInterfaces g)[k := (gInterfaces g ! k)\<lparr>ni_WTPCount := ni_WTPCount (gInterfaces g ! k) + n\<rparr>]\<rparr>))"

text \<open>
  What \<open>CWCloseThread\<close> does outside the manager, which is \<open>w\<close> afterwards: the counters go down, the DTLS session is
  freed, the thread ends.
\<close>

definition leave_session :: "nat \<Rightarrow> CWWTPManager \<Rightarrow> action list \<Rightarrow> ac_process \<Rightarrow> ac_result" where
  "leave_session i w out s = do {
     g \<leftarrow> count_session (- 1) (interfaceIndex w) (globals s);
     Some (Runs (set_entry i ((gWTPs s ! i)\<lparr>manager := w, session := False, thread := None\<rparr>) (s\<lparr>globals := g\<rparr>), out))
   }"

definition close_session :: "ac_env \<Rightarrow> nat \<Rightarrow> CWWTPManager \<Rightarrow> ac_process \<Rightarrow> ac_result" where
  "close_session env i w s =
     (if \<not> ae_locked env then Some Exits
      else do {
        (w, out) \<leftarrow> CWCloseThread w;
        leave_session i w out s
      })"

text \<open>A session thread after a function failed: \<open>rest\<close> when the error does not end the thread or the process.\<close>

definition session_fails :: "ac_env \<Rightarrow> CWErrorCode option \<Rightarrow> nat \<Rightarrow> ac_process \<Rightarrow> (bool \<Rightarrow> ac_result) \<Rightarrow> ac_result" where
  "session_fails env code i s rest =
     (case CWErrorHandleLast code of
        Handled b \<Rightarrow> rest b
      | Thread_exits \<Rightarrow>
          Some (Runs (set_thread i (map_option (\<lambda>t. t\<lparr>exited := True\<rparr>) (thread (gWTPs s ! i))) s, []))
      | Process_exits \<Rightarrow> Some Exits)"

definition begun_thread :: session_thread where
  "begun_thread = \<lparr>soft_blocked = True, critical_blocked = True, soft_pending = False, critical_pending = False,
     exited = False\<rparr>"

definition session_begins :: "CWWTPManager \<Rightarrow> CWACThreadArg \<Rightarrow> CWWTPProtocolManager \<Rightarrow> CWWTPManager" where
  "session_begins w arg pm =
     w\<lparr>interfaceIndex := arg_interfaceIndex arg, wtp_socket := arg_sock arg, fragmentsList := [],
       currentState := CW_ENTER_JOIN, subState := CW_DTLS_HANDSHAKE_IN_PROGRESS,
       interfaceCommandProgress := False, interfaceCommand := NO_CMD, qosValues := None,
       messages := None, messagesCount := 0, isRetransmitting := False, retransmissionCount := 0,
       WTPProtocolManager := CWResetWTPProtocolManager pm\<rparr>"

definition session_waits :: "ac_env \<Rightarrow> CWWTPManager \<Rightarrow> CWWTPManager" where
  "session_waits env w =
     (let w = w\<lparr>subState := CW_WAITING_REQUEST\<rparr>
      in if gCWForceMTU env > 0 then w\<lparr>pathMTU := gCWForceMTU env\<rparr> else w)"

text \<open>
  The WaitJoin timer and the DTLS session; \<open>lastError\<close> is the last error of the thread when the timer is requested, which
  raises none of its own.
\<close>

definition start_timer_and_dtls ::
  "ac_env \<Rightarrow> CWErrorCode option \<Rightarrow> nat \<Rightarrow> CWWTPManager \<Rightarrow> ac_process \<Rightarrow> ac_result" where
  "start_timer_and_dtls env lastError i w s =
     (if \<not> env_timer (ae_run env) (gCWWaitJoin env)
      then session_fails env lastError i (set_manager i (w\<lparr>currentTimer := None\<rparr>) s)
             (\<lambda>_. close_session env i (w\<lparr>currentTimer := None\<rparr>) s)
      else
        (let w = w\<lparr>currentTimer := Some (gCWWaitJoin env)\<rparr>
         in if \<not> ae_dtls env then Some (Runs (set_manager i (session_waits env w) s, []))
            else
              (case ae_handshake env (packetReceiveList w) of
                 (Inr mtu, ps) \<Rightarrow>
                   Some (Runs (set_entry i ((gWTPs s ! i)\<lparr>manager :=
                     session_waits env (w\<lparr>packetReceiveList := ps, pathMTU := mtu\<rparr>), session := True\<rparr>) s, []))
               | (Inl c, ps) \<Rightarrow>
                   session_fails env (last_error env c) i (set_manager i (w\<lparr>packetReceiveList := ps\<rparr>) s)
                     (\<lambda>handled. if handled then None
                        else close_session env i (w\<lparr>packetReceiveList := ps, currentTimer := None\<rparr>) s))))"

text \<open>The code before the loop of \<open>CWManageWTP\<close>. What became of the binding values is not asked.\<close>

definition CWManageWTP_begin :: "ac_env \<Rightarrow> CWACThreadArg \<Rightarrow> ac_process \<Rightarrow> ac_result" where
  "CWManageWTP_begin env arg s =
     (let i = arg_index arg; e = gWTPs s ! i; w = manager e
      in if \<not> ae_specific env then close_session env i w s
         else if \<not> ae_locked env then Some Exits
         else do {
           g \<leftarrow> count_session 1 (arg_interfaceIndex arg) (globals s);
           (bound, pm) \<leftarrow> CWACInitBinding (env_alloc (ae_run env)) (gDefaultQosValues s) (WTPProtocolManager w);
           let w = session_begins w arg pm;
           start_timer_and_dtls env (case bound of Inl c \<Rightarrow> Some c | Inr _ \<Rightarrow> None) i w
             (set_entry i (e\<lparr>manager := w, thread := Some begun_thread\<rparr>) (s\<lparr>globals := g\<rparr>))
         })"

subsection \<open>The loop of a session\<close>

definition block_signals :: "session_thread \<Rightarrow> session_thread" where
  "block_signals t = t\<lparr>soft_blocked := True, critical_blocked := True\<rparr>"

definition unblock_soft :: "session_thread \<Rightarrow> session_thread" where
  "unblock_soft t = t\<lparr>soft_blocked := False\<rparr>"

definition unblock_signals :: "session_thread \<Rightarrow> session_thread" where
  "unblock_signals t = t\<lparr>soft_blocked := False, critical_blocked := False\<rparr>"

definition mask_thread :: "(session_thread \<Rightarrow> session_thread) \<Rightarrow> nat \<Rightarrow> ac_process \<Rightarrow> ac_process" where
  "mask_thread f i s = set_thread i (map_option f (thread (gWTPs s ! i))) s"

text \<open>
  The next packet as the loop puts it into the buffer, or the error of DTLS, which leaves the session in its loop. The
  first byte is read whatever the size; a null session given to \<open>SSL_read\<close> has no meaning.
\<close>

definition receive_packet ::
  "ac_env \<Rightarrow> wtp_entry \<Rightarrow> ((CWErrorCode + u8 list) \<times> u8 list list) option" where
  "receive_packet env e =
     (case packetReceiveList (manager e) of
        [] \<Rightarrow> None
      | p # ps \<Rightarrow>
          if p = [] then None
          else if p ! 0 AND 0x0f = ucast CW_PACKET_CRYPT
          then (if \<not> session e then None else Some (ae_decrypt env (p # ps)))
          else if length p > CW_BUFFER_SIZE then None
          else Some (Inr p, ps))"

definition dispatch ::
  "ac_env \<Rightarrow> nat \<Rightarrow> CWWTPManager \<Rightarrow> cw_msg \<Rightarrow> bool \<Rightarrow> ac_process \<Rightarrow> (WTPQosValues list \<times> run_outcome) option" where
  "dispatch env i w m dataFlag s =
     (let pairs = map_option (Pair (gDefaultQosValues s)) in
      case currentState w of
        CW_ENTER_JOIN \<Rightarrow>
          pairs (ACEnterJoin (ae_run env) (ae_le env) (ae_locked env) (globals s) w (Some m))
      | CW_ENTER_CONFIGURE \<Rightarrow>
          ACEnterConfigure (ae_run env) (ae_le env) (globals s) (ae_sino_locked env) (ae_sino env) (ae_blank env)
            (gDefaultQosValues s) w m
      | CW_ENTER_DATA_CHECK \<Rightarrow> pairs (ACEnterDataCheck (ae_run env) w m)
      | CW_ENTER_RUN \<Rightarrow> pairs (ACEnterRun (ae_run env) i w m dataFlag)
      | _ \<Rightarrow> Some (gDefaultQosValues s, Returned (Inr ()), w, []))"

definition after_actions :: "action list \<Rightarrow> ac_result \<Rightarrow> ac_result" where
  "after_actions out r =
     map_option (\<lambda>r. case r of Exits \<Rightarrow> Exits | Runs (s, out') \<Rightarrow> Runs (s, out @ out')) r"

text \<open>A message of another state is logged and ignored; any other failure ends the session.\<close>

definition after_message :: "ac_env \<Rightarrow> nat \<Rightarrow> run_outcome \<Rightarrow> ac_process \<Rightarrow> ac_result" where
  "after_message env i result s =
     (case result of
        (Closed, w, out) \<Rightarrow> leave_session i w out s
      | (Returned r, w, out) \<Rightarrow>
          (let s = set_manager i w s; goes_on = Some (Runs (mask_thread unblock_signals i s, out)) in
           case r of
             Inr _ \<Rightarrow> goes_on
           | Inl e \<Rightarrow>
               (let code = last_error env e in
                if CWErrorGetLastErrorCode code = CW_ERROR_INVALID_FORMAT then goes_on
                else after_actions out (session_fails env code i s (\<lambda>_. close_session env i w s)))))"

definition turn_packet :: "ac_env \<Rightarrow> nat \<Rightarrow> ac_process \<Rightarrow> ac_result" where
  "turn_packet env i s =
     (let e = gWTPs s ! i; w = manager e in do {
        (received, ps) \<leftarrow> receive_packet env e;
        (case received of
           Inl c \<Rightarrow>
             (let s = set_manager i (w\<lparr>packetReceiveList := ps\<rparr>) s in
              session_fails env (last_error env c) i s
                (\<lambda>handled. if handled then None else Some (Runs (mask_thread unblock_soft i s, []))))
         | Inr p \<Rightarrow> do {
             let bs = p @ drop (length p) (buf e);
             (r, frags) \<leftarrow> CWProtocolParseFragment (env_alloc (ae_run env)) bs (int (length p)) (fragmentsList w);
             let w = w\<lparr>packetReceiveList := ps, fragmentsList := frags\<rparr>;
             let s = set_entry i (e\<lparr>manager := w, buf := bs\<rparr>) s;
             (case r of
                Inl c \<Rightarrow>
                  (let code = last_error env c; goes_on = Some (Runs (mask_thread unblock_soft i s, [])) in
                   if CWErrorGetLastErrorCode code = CW_ERROR_NEED_RESOURCE then goes_on
                   else session_fails env code i s (\<lambda>_. goes_on))
              | Inr (m, dataFlag) \<Rightarrow> do {
                  (defaults, result) \<leftarrow> dispatch env i w m dataFlag s;
                  after_message env i result (s\<lparr>gDefaultQosValues := defaults\<rparr>)
                })
           })
      })"

text \<open>What an order of an application makes the AC send, and the response it then waits for.\<close>

definition assemble_order :: "run_env \<Rightarrow> CWWTPManager \<Rightarrow> (CWWTPManager \<times> (CWErrorCode + u32)) option" where
  "assemble_order env w =
     (let update = (\<lambda>element. do {
            (w, r) \<leftarrow> CWAssembleConfigurationUpdateRequest env w (env_seqNum env) element;
            Some (w, map_sum id (\<lambda>_. CW_MSG_TYPE_VALUE_CONFIGURE_UPDATE_RESPONSE) r) });
          cmd = interfaceCommand w
      in if cmd = QOS_CMD then update CONFIG_UPDATE_REQ_QOS_ELEMENT_TYPE
         else if cmd = CLEAR_CONFIG_MSG_CMD then do {
           r \<leftarrow> CWAssembleClearConfigurationRequest env (pathMTU w) (env_seqNum env);
           Some (case r of
                   Inl e \<Rightarrow> (w, Inl e)
                 | Inr ps \<Rightarrow> (w\<lparr>messages := Some ps, messagesCount := length ps\<rparr>,
                              Inr CW_MSG_TYPE_VALUE_CLEAR_CONFIGURATION_RESPONSE)) }
         else if cmd = OFDM_CONTROL_CMD then update CONFIG_UPDATE_REQ_OFDM_ELEMENT_TYPE
         else if cmd = UCI_CONTROL_CMD then update CONFIG_UPDATE_REQ_VENDOR_UCI_ELEMENT_TYPE
         else if cmd = WTP_UPDATE_CMD then update CONFIG_UPDATE_REQ_VENDOR_WUM_ELEMENT_TYPE
         else Some (w, Inl CW_ERROR_NONE))"

definition turn_command :: "run_env \<Rightarrow> CWWTPManager \<Rightarrow> (CWWTPManager \<times> action list) option" where
  "turn_command env w = do {
     (w, r) \<leftarrow> assemble_order env w;
     (sent, w, out) \<leftarrow>
       (case r of
          Inl e \<Rightarrow> Some (False, w, [])
        | Inr response \<Rightarrow> do {
            (r, w, out) \<leftarrow> CWACSendAcknowledgedPacket env w response (env_seqNum env);
            (case r of
               Inr _ \<Rightarrow> Some (True, w, out)
             | Inl e \<Rightarrow> do { w \<leftarrow> CWACStopRetransmission w; Some (False, w, out) })
          });
     let w = w\<lparr>interfaceCommand := NO_CMD\<rparr>;
     Some (if sent then (w\<lparr>interfaceCommandProgress := True\<rparr>, out)
           else (w\<lparr>interfaceResult := 0\<rparr>, out @ [Signal_interfaceComplete]))
   }"

text \<open>One turn; a session with nothing to do goes on waiting.\<close>

definition CWManageWTP_turn :: "ac_env \<Rightarrow> nat \<Rightarrow> ac_process \<Rightarrow> ac_result" where
  "CWManageWTP_turn env i s =
     (let w = manager (gWTPs s ! i) in
      if \<not> isRequestClose w \<and> packetReceiveList w = [] \<and> interfaceCommand w = NO_CMD then Some (Runs (s, []))
      else if isRequestClose w then close_session env i w s
      else if packetReceiveList w \<noteq> [] then turn_packet env i (mask_thread block_signals i s)
      else do {
        (w, out) \<leftarrow> turn_command (ae_run env) w;
        Some (Runs (mask_thread unblock_signals i (set_manager i w s), out))
      })"

subsection \<open>Orders of applications\<close>

text \<open>\<open>ACInterface.c\<close> leaves the order in the entry and wakes the session, then waits until it is carried out.\<close>

definition CWOFDMSetValues :: "nat \<Rightarrow> OFDMControlValues \<Rightarrow> CWWTPManager \<Rightarrow> CWWTPManager" where
  "CWOFDMSetValues socketIndex v w =
     w\<lparr>ofdmValues := Some v, interfaceCommand := OFDM_CONTROL_CMD, applicationIndex := socketIndex\<rparr>"

definition CWVendorSetValues :: "nat \<Rightarrow> vendor_order \<Rightarrow> CWWTPManager \<Rightarrow> CWWTPManager" where
  "CWVendorSetValues socketIndex v w =
     w\<lparr>vendorValues := Some v, interfaceCommand := UCI_CONTROL_CMD, applicationIndex := socketIndex\<rparr>"

definition CWWumSetValues :: "nat \<Rightarrow> vendor_order \<Rightarrow> CWWTPManager \<Rightarrow> CWWTPManager" where
  "CWWumSetValues socketIndex v w =
     w\<lparr>vendorValues := Some v, interfaceCommand := WTP_UPDATE_CMD, applicationIndex := socketIndex\<rparr>"

datatype application_order = Ofdm OFDMControlValues | Vendor vendor_order | Update vendor_order

primrec give_order :: "application_order \<Rightarrow> nat \<Rightarrow> CWWTPManager \<Rightarrow> CWWTPManager" where
  "give_order (Ofdm v) k w = CWOFDMSetValues k v w"
| "give_order (Vendor v) k w = CWVendorSetValues k v w"
| "give_order (Update v) k w = CWWumSetValues k v w"

subsection \<open>Steps of the process\<close>

datatype ac_event =
    Packet ac_env nat "u8 list" nat int CWNetworkLev4Address
  | Begins ac_env
  | Turn ac_env nat
  | Critical_expires nat
  | Soft_expires nat
  | Critical_delivered nat
  | Soft_delivered ac_env nat
  | Order nat nat application_order

text \<open>A thread that can run: it has begun and neither closed its session nor exited.\<close>

definition runnable :: "nat \<Rightarrow> ac_process \<Rightarrow> bool" where
  "runnable i s \<longleftrightarrow> i < length (gWTPs s) \<and> (case thread (gWTPs s ! i) of None \<Rightarrow> False | Some t \<Rightarrow> \<not> exited t)"

definition critical_delivered :: "nat \<Rightarrow> ac_process \<Rightarrow> ac_result" where
  "critical_delivered i s =
     (let (w, out) = CWCriticalTimerExpiredHandler (manager (gWTPs s ! i))
      in Some (Runs (mask_thread (\<lambda>t. t\<lparr>critical_pending := False\<rparr>) i (set_manager i w s), out)))"

definition soft_delivered :: "ac_env \<Rightarrow> nat \<Rightarrow> ac_process \<Rightarrow> ac_result" where
  "soft_delivered env i s = do {
     (r, w, out) \<leftarrow> CWSoftTimerExpiredHandler (ae_run env) (manager (gWTPs s ! i));
     (case r of
        Closed \<Rightarrow> leave_session i w out s
      | Returned _ \<Rightarrow> Some (Runs (mask_thread (\<lambda>t. t\<lparr>soft_pending := False\<rparr>) i (set_manager i w s), out)))
   }"

definition is_pending :: "(session_thread \<Rightarrow> bool) \<Rightarrow> (session_thread \<Rightarrow> bool) \<Rightarrow> nat \<Rightarrow> ac_process \<Rightarrow> bool" where
  "is_pending pending blocked i s \<longleftrightarrow>
     (case thread (gWTPs s ! i) of None \<Rightarrow> False | Some t \<Rightarrow> pending t \<and> \<not> blocked t)"

text \<open>Whether an event can happen, and what it does.\<close>

primrec possible :: "ac_event \<Rightarrow> ac_process \<Rightarrow> bool" where
  "possible (Packet env sock bs n k addr) s \<longleftrightarrow> listening s"
| "possible (Begins env) s \<longleftrightarrow> created s \<noteq> []"
| "possible (Turn env i) s \<longleftrightarrow> runnable i s"
| "possible (Critical_expires i) s \<longleftrightarrow> runnable i s"
| "possible (Soft_expires i) s \<longleftrightarrow> runnable i s"
| "possible (Critical_delivered i) s \<longleftrightarrow> runnable i s \<and> is_pending critical_pending critical_blocked i s"
| "possible (Soft_delivered env i) s \<longleftrightarrow> runnable i s \<and> is_pending soft_pending soft_blocked i s"
| "possible (Order i k v) s \<longleftrightarrow> i < length (gWTPs s) \<and> isNotFree (manager (gWTPs s ! i))"

primrec ac_perform :: "ac_event \<Rightarrow> ac_process \<Rightarrow> ac_result" where
  "ac_perform (Packet env sock bs n k addr) s = CWACManageIncomingPacket env sock bs n k addr s"
| "ac_perform (Begins env) s = CWManageWTP_begin env (hd (created s)) (s\<lparr>created := tl (created s)\<rparr>)"
| "ac_perform (Turn env i) s = CWManageWTP_turn env i s"
| "ac_perform (Critical_expires i) s = Some (Runs (mask_thread (\<lambda>t. t\<lparr>critical_pending := True\<rparr>) i s, []))"
| "ac_perform (Soft_expires i) s = Some (Runs (mask_thread (\<lambda>t. t\<lparr>soft_pending := True\<rparr>) i s, []))"
| "ac_perform (Critical_delivered i) s = critical_delivered i s"
| "ac_perform (Soft_delivered env i) s = soft_delivered env i s"
| "ac_perform (Order i k v) s = Some (Runs (set_manager i (give_order v k (manager (gWTPs s ! i))) s, [Signal_interfaceWait]))"

inductive ac_runs :: "ac_process \<Rightarrow> ac_event list \<Rightarrow> action list \<Rightarrow> ac_process \<Rightarrow> bool" where
  ac_start: "ac_runs s [] [] s"
| ac_step: "ac_runs s es out t \<Longrightarrow> possible e t \<Longrightarrow> ac_perform e t = Some (Runs (u, out')) \<Longrightarrow>
     ac_runs s (es @ [e]) (out @ out') u"

text \<open>The process when the main loop is entered: no session, no WTP counted.\<close>

definition unused_entry :: "wtp_entry \<Rightarrow> bool" where
  "unused_entry e \<longleftrightarrow> \<not> isNotFree (manager e) \<and> thread e = None \<and> \<not> session e"

definition main_loop_entered :: "ac_process \<Rightarrow> bool" where
  "main_loop_entered s \<longleftrightarrow>
     length (gWTPs s) = CW_MAX_WTP \<and> list_all unused_entry (gWTPs s) \<and> created s = [] \<and> listening s \<and>
     gActiveWTPs (globals s) = 0 \<and> list_all (\<lambda>n. ni_WTPCount n = 0) (gInterfaces (globals s))"

end
