(* ===== verification/AC_Process.thy ===== *)
theory AC_Process
  imports AC_Loop
begin

text \<open>
  What holds of the AC as a whole (\<open>AC_Loop\<close>): the counters of sessions agree with the table of WTPs in every
  interleaving, a Discovery Request leaves no trace, a Join Request makes a session; and what single packets do
  to it: free pointers that were never set, use a DTLS session that is not there, stop the supervision of a session.
\<close>

subsection \<open>What the handlers leave alone\<close>

lemma pred_option_bind: "pred_option Q (Option.bind x f) = pred_option (\<lambda>y. pred_option Q (f y)) x"
  by (cases x) auto

lemma pred_option_bindI: "(\<And>y. x = Some y \<Longrightarrow> pred_option Q (f y)) \<Longrightarrow> pred_option Q (Option.bind x f)"
  by (cases x) auto

lemma pred_option_Some: "pred_option Q x \<Longrightarrow> x = Some y \<Longrightarrow> Q y"
  by simp

text \<open>The seat of a session: its interface, and that its slot is taken. A thread that ended has given the slot up.\<close>

definition seat :: "CWWTPManager \<Rightarrow> nat \<times> bool" where "seat w = (interfaceIndex w, isNotFree w)"

definition stays :: "CWWTPManager \<Rightarrow> run_outcome option \<Rightarrow> bool" where
  "stays w = pred_option (\<lambda>(r, w', out). if r = Closed then interfaceIndex w' = interfaceIndex w else seat w' = seat w)"

lemma seat_simps [simp]:
  "seat (w\<lparr>currentTimer := a\<rparr>) = seat w"
  "seat (w\<lparr>messages := b\<rparr>) = seat w"
  "seat (w\<lparr>messagesCount := c\<rparr>) = seat w"
  "seat (w\<lparr>currentState := d\<rparr>) = seat w"
  "seat (w\<lparr>subState := e\<rparr>) = seat w"
  "seat (w\<lparr>WTPProtocolManager := f\<rparr>) = seat w"
  "seat (w\<lparr>qosValues := g\<rparr>) = seat w"
  "seat (w\<lparr>ofdmValues := h\<rparr>) = seat w"
  "seat (w\<lparr>vendorValues := i\<rparr>) = seat w"
  "seat (w\<lparr>interfaceResult := j\<rparr>) = seat w"
  "seat (w\<lparr>interfaceCommandProgress := k\<rparr>) = seat w"
  "seat (w\<lparr>interfaceCommand := l\<rparr>) = seat w"
  "seat (w\<lparr>isRequestClose := m\<rparr>) = seat w"
  "seat (w\<lparr>retransmissionCount := n\<rparr>) = seat w"
  "seat (w\<lparr>isRetransmitting := p\<rparr>) = seat w"
  "seat (w\<lparr>responseType := q\<rparr>) = seat w"
  "seat (w\<lparr>responseSeqNum := r\<rparr>) = seat w"
  "seat (w\<lparr>currentPacketTimer := s\<rparr>) = seat w"
  "seat (w\<lparr>packetReceiveList := t\<rparr>) = seat w"
  "seat (w\<lparr>fragmentsList := u\<rparr>) = seat w"
  "seat (w\<lparr>applicationIndex := v\<rparr>) = seat w"
  "seat (w\<lparr>pathMTU := x\<rparr>) = seat w"
  by (simp_all add: seat_def)

lemma seat_fields: "seat w' = seat w \<Longrightarrow> interfaceIndex w' = interfaceIndex w"
  "seat w' = seat w \<Longrightarrow> isNotFree w' = isNotFree w"
  by (simp_all add: seat_def)

lemma send_keeps_seat:
  "CWACSendFragments env w = Some (r, w', out) \<Longrightarrow> seat w' = seat w"
  "CWACResendAcknowledgedPacket env w = Some (r, w', out) \<Longrightarrow> seat w' = seat w"
  "CWACSendAcknowledgedPacket env w t q = Some (r, w', out) \<Longrightarrow> seat w' = seat w"
  "CWACStopRetransmission w = Some w' \<Longrightarrow> seat w' = seat w"
proof -
  show *: "CWACSendFragments env w = Some (r, w', out) \<Longrightarrow> seat w' = seat w" for w r w' out
    by (auto simp: CWACSendFragments_def bind_Some_iff split: option.splits if_split_asm)
  have **: "pred_option (\<lambda>(r, w', out). seat w' = seat w) (CWACResendAcknowledgedPacket env w)" for w
    by (auto simp: CWACResendAcknowledgedPacket_def intro!: pred_option_bindI split: sum.split dest: *)
  show "CWACResendAcknowledgedPacket env w = Some (r, w', out) \<Longrightarrow> seat w' = seat w"
    by (drule pred_option_Some [OF **]) simp
  show "CWACSendAcknowledgedPacket env w t q = Some (r, w', out) \<Longrightarrow> seat w' = seat w"
    by (auto simp: CWACSendAcknowledgedPacket_def dest!: pred_option_Some [OF **])
  show "CWACStopRetransmission w = Some w' \<Longrightarrow> seat w' = seat w"
    by (auto simp: CWACStopRetransmission_def split: if_split_asm)
qed

lemma interface_command_done_seat [simp]: "interface_command_done w = (w', out) \<Longrightarrow> seat w' = seat w"
  by (auto simp: interface_command_done_def split: if_split_asm)

lemma CWCloseThread_interface:
  "CWCloseThread w = Some (w', out) \<Longrightarrow> interfaceIndex w' = interfaceIndex w"
  by (auto simp: CWCloseThread_def interface_command_done_def bind_Some_iff
      dest!: send_keeps_seat(4) seat_fields(1) split: if_split_asm)

lemma configuration_keeps_seat:
  "CWBindingAssembleConfigureResponse alloc d w = Some (d', w', a) \<Longrightarrow> seat w' = seat w"
  "CWBindingAssembleConfigurationUpdateRequest alloc w k = Some (w', b) \<Longrightarrow> seat w' = seat w"
  "CWAssembleConfigurationUpdateRequest env w q n = Some (w', c) \<Longrightarrow> seat w' = seat w"
  "CWSaveConfigurationUpdateResponseMessage env i result v w = Some (saved, w', out) \<Longrightarrow> seat w' = seat w"
proof -
  show "CWBindingAssembleConfigureResponse alloc d w = Some (d', w', a) \<Longrightarrow> seat w' = seat w"
    by (auto simp: CWBindingAssembleConfigureResponse_def Let_def bind_Some_iff split: if_split_asm) (case_tac b; auto)
  show *: "CWBindingAssembleConfigurationUpdateRequest alloc w k = Some (w', b) \<Longrightarrow> seat w' = seat w" for alloc w k w' b
    by (auto simp: CWBindingAssembleConfigurationUpdateRequest_def Let_def bind_Some_iff split: if_split_asm)
  have "update_request_elements alloc w n = Some (w', r) \<Longrightarrow> seat w' = seat w" for alloc w n w' r
    by (auto simp: update_request_elements_def bind_Some_iff split: if_split_asm dest: *)
  then have "pred_option (\<lambda>(w', r). seat w' = seat w) (CWAssembleConfigurationUpdateRequest env w q n)"
    by (auto simp: CWAssembleConfigurationUpdateRequest_def intro!: pred_option_bindI split: sum.split)
  then show "CWAssembleConfigurationUpdateRequest env w q n = Some (w', c) \<Longrightarrow> seat w' = seat w"
    by (auto dest: pred_option_Some)
  have "CWBindingSaveConfigurationUpdateResponse result w = Some (saved, w') \<Longrightarrow> seat w' = seat w" for saved w'
    by (auto simp: CWBindingSaveConfigurationUpdateResponse_def bind_Some_iff split: if_split_asm option.splits)
  then show "CWSaveConfigurationUpdateResponseMessage env i result v w = Some (saved, w', out) \<Longrightarrow> seat w' = seat w"
    by (auto simp: CWSaveConfigurationUpdateResponseMessage_def Let_def bind_Some_iff
        split: option.splits if_split_asm)
qed

text \<open>\<open>stays\<close> follows the shape of a handler.\<close>

lemma stays_bind [intro!]: "(\<And>y. x = Some y \<Longrightarrow> stays w (f y)) \<Longrightarrow> stays w (Option.bind x f)"
  by (cases x) (auto simp: stays_def)

lemma stays_Some [simp]:
  "stays w None"
  "stays w (Some (Closed, w', out)) \<longleftrightarrow> interfaceIndex w' = interfaceIndex w"
  "stays w (Some (Returned r, w', out)) \<longleftrightarrow> seat w' = seat w"
  by (simp_all add: stays_def)

lemma stays_done [simp]: "stays w (run_done w' out) \<longleftrightarrow> seat w' = seat w"
  by (simp add: run_done_def)

lemma stays_answer [intro!]: "seat w' = seat w \<Longrightarrow> stays w (send_answer env w' a)"
  by (auto simp: send_answer_def split: sum.split option.split)

lemma stays_parsed [intro!]:
  "seat w' = seat w \<Longrightarrow> (\<And>v. stays w (f v)) \<Longrightarrow> stays w (on_parsed p w' f)"
  by (auto simp: on_parsed_def split: sum.split)

lemma stays_timer [intro!]:
  assumes "seat w' = seat w" and "\<And>w'. seat w' = seat w \<Longrightarrow> stays w (rest w')"
  shows "stays w (after_timer env b w' rest)"
  using assms by (auto simp: after_timer_def CWRestartNeighborDeadTimer_def CWStartNeighborDeadTimer_def
      CWStopNeighborDeadTimer_def dest!: CWCloseThread_interface seat_fields(1))

lemma stays_if: "(c \<Longrightarrow> stays w x) \<Longrightarrow> (\<not> c \<Longrightarrow> stays w y) \<Longrightarrow> stays w (if c then x else y)"
  by simp

lemma stays_pair: "(\<And>a b. v = (a, b) \<Longrightarrow> stays w (f a b)) \<Longrightarrow> stays w (case v of (a, b) \<Rightarrow> f a b)"
  by (cases v) simp

lemma stays_let: "stays w (f x) \<Longrightarrow> stays w (Let x f)"
  by simp

lemmas stays_rules = stays_if stays_pair stays_bind stays_let stays_parsed stays_timer stays_answer

lemma stays_data:
  assumes "seat w' = seat w"
  shows "stays w (run_data env i w' m)"
proof -
  have request: "pred_option (\<lambda>(b, w'', out). seat w'' = seat w') (send_request env w' a t)" for a t
    by (auto simp: send_request_def intro!: pred_option_bindI split: sum.split dest!: send_keeps_seat)
  have "stays w (run_data_frame env w' m)"
    unfolding run_data_frame_def by (intro stays_rules) (auto simp: assms dest!: pred_option_Some [OF request])
  moreover have "stays w (run_freq_stats env i w' m)"
    unfolding run_freq_stats_def by (intro stays_rules) (simp_all add: assms)
  moreover have "stays w (run_stats env w' m)"
    unfolding run_stats_def by (intro stays_rules) (simp_all add: assms)
  ultimately show ?thesis
    unfolding run_data_def by (intro stays_rules) (simp_all add: assms)
qed

lemma stays_run: "stays w (ACEnterRun env i w m dataFlag)"
proof -
  have "stays w (run_control env i b w' v m)" if "seat w' = seat w" for b w' v m
    unfolding run_control_def Let_def
    by (intro stays_rules that)
      (auto simp: that dest: send_keeps_seat(4) configuration_keeps_seat(4) interface_command_done_seat)
  then show ?thesis
    by (auto simp: ACEnterRun_def Let_def CWStopNeighborDeadTimer_def stays_data split: sum.split)
qed

lemma stays_join: "stays w (ACEnterJoin env le locked ac w m)"
  by (auto simp: ACEnterJoin_def Let_def split: option.split sum.split dest!: send_keeps_seat)

lemma stays_configure:
  "pred_option (\<lambda>(d', result). stays w (Some result)) (ACEnterConfigure env le ac sl sino blank d w m)"
proof -
  have reply: "pred_option (\<lambda>(d', w', r). seat w' = seat w) (CWAssembleConfigureResponse env le ac sl sino d w q)" for d w q
    by (auto simp: CWAssembleConfigureResponse_def Let_def intro!: pred_option_bindI split: sum.split
        dest!: configuration_keeps_seat(1))
  show ?thesis
    by (auto simp: ACEnterConfigure_def intro!: pred_option_bindI split: sum.split
        dest!: pred_option_Some [OF reply] send_keeps_seat CWCloseThread_interface simp: seat_def)
qed

lemma stays_data_check: "stays w (ACEnterDataCheck env w m)"
  by (auto simp: ACEnterDataCheck_def Let_def split: sum.split prod.split
      dest!: send_keeps_seat CWCloseThread_interface simp: seat_def)

lemma stays_dispatch: "pred_option (\<lambda>(d', result). stays w (Some result)) (dispatch env i w m dataFlag s)"
proof -
  have lift: "stays w x \<Longrightarrow> pred_option (\<lambda>(d', result). stays w (Some result)) (map_option (Pair d) x)" for d x
    by (cases x) simp_all
  have other: "stays w (Some (Returned (Inr ()), w, []))" by simp
  show ?thesis
    unfolding dispatch_def Let_def
    by (cases "currentState w") (simp_all add: lift stays_join stays_run stays_data_check stays_configure)
qed

lemma soft_keeps_seat:
  "CWSoftTimerExpiredHandler env w = Some (r, w', out) \<Longrightarrow>
     (if r = Closed then interfaceIndex w' = interfaceIndex w else seat w' = seat w)"
proof -
  have "pred_option (\<lambda>(r, w', out). if r = Closed then interfaceIndex w' = interfaceIndex w else seat w' = seat w)
     (CWSoftTimerExpiredHandler env w)"
    by (auto simp: CWSoftTimerExpiredHandler_def Let_def seat_def intro!: pred_option_bindI split: sum.split
        dest!: send_keeps_seat CWCloseThread_interface)
  then show "CWSoftTimerExpiredHandler env w = Some (r, w', out) \<Longrightarrow> ?thesis" by (auto dest: pred_option_Some)
qed

lemma command_keeps_seat: "turn_command env w = Some (w', out) \<Longrightarrow> seat w' = seat w"
proof -
  have order: "pred_option (\<lambda>(w', r). seat w' = seat w) (assemble_order env w)"
    unfolding assemble_order_def Let_def
    by (auto intro!: pred_option_bindI split: sum.split dest!: configuration_keeps_seat(3))
  have sent: "pred_option (\<lambda>(sent, w', out). seat w' = seat w)
      (case r of
         Inl e \<Rightarrow> Some (False, w, [])
       | Inr response \<Rightarrow> do {
           (r, w, out) \<leftarrow> CWACSendAcknowledgedPacket env w response (env_seqNum env);
           (case r of
              Inr _ \<Rightarrow> Some (True, w, out)
            | Inl e \<Rightarrow> do { w \<leftarrow> CWACStopRetransmission w; Some (False, w, out) })
         })" for r :: "CWErrorCode + u32" and w
    by (auto intro!: pred_option_bindI split: sum.split dest!: send_keeps_seat)
  have "pred_option (\<lambda>(w', out). seat w' = seat w) (turn_command env w)"
    unfolding turn_command_def Let_def
    by (rule pred_option_bindI, drule pred_option_Some [OF order], clarify, rule pred_option_bindI,
        drule pred_option_Some [OF sent]) auto
  then show "turn_command env w = Some (w', out) \<Longrightarrow> ?thesis" by (auto dest: pred_option_Some)
qed

lemma enqueue_keeps_seat: "enqueue_packet alloc bs n w = Some w' \<Longrightarrow> seat w' = seat w"
  by (auto simp: enqueue_packet_def split: if_split_asm)

lemma order_keeps_seat: "seat (give_order v k w) = seat w"
  by (cases v) (simp_all add: CWOFDMSetValues_def CWVendorSetValues_def CWWumSetValues_def)

lemma session_waits_seat [simp]: "seat (session_waits env w) = seat w"
  by (simp add: session_waits_def Let_def)

subsection \<open>Every session is counted\<close>

definition session_on :: "nat \<Rightarrow> wtp_entry \<Rightarrow> bool" where
  "session_on k e \<longleftrightarrow> thread e \<noteq> None \<and> interfaceIndex (manager e) = k"

definition tally :: "('a \<Rightarrow> bool) \<Rightarrow> 'a list \<Rightarrow> u32" where
  "tally P xs = of_nat (length (filter P xs))"

definition sessions_counted :: "ac_process \<Rightarrow> bool" where
  "sessions_counted s \<longleftrightarrow>
     gActiveWTPs (globals s) = tally (\<lambda>e. thread e \<noteq> None) (gWTPs s) \<and>
     (\<forall>k < length (gInterfaces (globals s)). ni_WTPCount (gInterfaces (globals s) ! k) = tally (session_on k) (gWTPs s))"

definition slots_consistent :: "ac_process \<Rightarrow> bool" where
  "slots_consistent s \<longleftrightarrow>
     length (gWTPs s) = CW_MAX_WTP \<and> (\<forall>e \<in> set (gWTPs s). thread e \<noteq> None \<longrightarrow> isNotFree (manager e)) \<and>
     (\<forall>arg \<in> set (created s). arg_index arg < CW_MAX_WTP \<and> isNotFree (manager (gWTPs s ! arg_index arg)) \<and>
        thread (gWTPs s ! arg_index arg) = None) \<and>
     distinct (map arg_index (created s))"

lemma tally_Cons [simp]: "tally P [] = 0" "tally P (x # xs) = (if P x then 1 else 0) + tally P xs"
  by (simp_all add: tally_def)

lemma tally_update:
  "i < length xs \<Longrightarrow> tally P (xs[i := y]) = tally P xs + (if P y then 1 else 0) - (if P (xs ! i) then 1 else 0)"
  by (induction xs arbitrary: i) (auto split: nat.split)

definition well_counted :: "ac_process \<Rightarrow> bool" where
  "well_counted s \<longleftrightarrow> sessions_counted s \<and> slots_consistent s"

text \<open>A slot changes, and neither begins nor ends a session.\<close>

lemma entry_well_counted:
  assumes s: "well_counted s" and i: "i < length (gWTPs s)"
    and "thread e = None \<longleftrightarrow> thread (gWTPs s ! i) = None"
    and "thread e \<noteq> None \<Longrightarrow> seat (manager e) = seat (manager (gWTPs s ! i))"
    and "thread e = None \<Longrightarrow> isNotFree (manager (gWTPs s ! i)) \<Longrightarrow> isNotFree (manager e)"
  shows "well_counted (set_entry i e s)"
proof -
  have "thread e \<noteq> None \<Longrightarrow> isNotFree (manager e)"
    using assms nth_mem [OF i] by (auto simp: well_counted_def slots_consistent_def seat_def)
  then have "slots_consistent (set_entry i e s)"
    using assms unfolding well_counted_def slots_consistent_def set_entry_def
    by (auto simp: nth_list_update dest!: set_update_subset_insert [THEN subsetD])
  moreover have "sessions_counted (set_entry i e s)"
    using assms by (auto simp: well_counted_def sessions_counted_def set_entry_def tally_update session_on_def seat_def)
  ultimately show ?thesis by (simp add: well_counted_def)
qed

lemma manager_well_counted:
  "well_counted s \<Longrightarrow> i < length (gWTPs s) \<Longrightarrow> seat w = seat (manager (gWTPs s ! i)) \<Longrightarrow> well_counted (set_manager i w s)"
  unfolding set_manager_def by (rule entry_well_counted) (auto simp: seat_def)

lemma mask_well_counted:
  "well_counted s \<Longrightarrow> i < length (gWTPs s) \<Longrightarrow> well_counted (mask_thread f i s)"
  unfolding mask_thread_def set_thread_def by (rule entry_well_counted) auto

text \<open>A session begins, or ends.\<close>

lemma begins_well_counted:
  assumes s: "well_counted s" and i: "i < length (gWTPs s)" and "thread (gWTPs s ! i) = None"
    and "thread e \<noteq> None" and "isNotFree (manager e)" and "i \<notin> arg_index ` set (created s)"
    and "count_session 1 (interfaceIndex (manager e)) (globals s) = Some g"
  shows "well_counted (set_entry i e (s\<lparr>globals := g\<rparr>))"
proof -
  have "slots_consistent (set_entry i e (s\<lparr>globals := g\<rparr>))"
    using assms unfolding well_counted_def slots_consistent_def set_entry_def
    by (auto simp: nth_list_update dest!: set_update_subset_insert [THEN subsetD])
  moreover have "sessions_counted (set_entry i e (s\<lparr>globals := g\<rparr>))"
    using assms by (auto simp: well_counted_def sessions_counted_def set_entry_def tally_update session_on_def
        count_session_def nth_list_update split: if_split_asm)
  ultimately show ?thesis by (simp add: well_counted_def)
qed

lemma ends_well_counted:
  assumes s: "well_counted s" and i: "i < length (gWTPs s)" and "thread (gWTPs s ! i) \<noteq> None" and "thread e = None"
    and "count_session (- 1) (interfaceIndex (manager (gWTPs s ! i))) (globals s) = Some g"
  shows "well_counted (set_entry i e (s\<lparr>globals := g\<rparr>))"
proof -
  have "slots_consistent (set_entry i e (s\<lparr>globals := g\<rparr>))"
    using assms unfolding well_counted_def slots_consistent_def set_entry_def
    by (auto simp: nth_list_update dest!: set_update_subset_insert [THEN subsetD])
  moreover have "sessions_counted (set_entry i e (s\<lparr>globals := g\<rparr>))"
    using assms by (auto simp: well_counted_def sessions_counted_def set_entry_def tally_update session_on_def
        count_session_def nth_list_update split: if_split_asm)
  ultimately show ?thesis by (simp add: well_counted_def)
qed

text \<open>\<open>leads\<close> follows the shape of a step.\<close>

definition leads :: "(ac_process \<Rightarrow> bool) \<Rightarrow> ac_result \<Rightarrow> bool" where
  "leads Q r \<longleftrightarrow> (\<forall>s out. r = Some (Runs (s, out)) \<longrightarrow> Q s)"

lemma leads_simps [simp]:
  "leads Q None" "leads Q (Some Exits)" "leads Q (Some (Runs (s, out))) \<longleftrightarrow> Q s"
  by (simp_all add: leads_def)

lemma leads_bind [intro!]: "(\<And>y. x = Some y \<Longrightarrow> leads Q (f y)) \<Longrightarrow> leads Q (Option.bind x f)"
  by (cases x) auto

lemma leads_after [simp]: "leads Q (after_actions out r) \<longleftrightarrow> leads Q r"
  by (cases r) (auto simp: after_actions_def leads_def split: process_result.splits)

text \<open>A session that runs: its slot is in the array and its thread has begun.\<close>

definition on_stage :: "nat \<Rightarrow> ac_process \<Rightarrow> bool" where
  "on_stage i s \<longleftrightarrow> well_counted s \<and> i < length (gWTPs s) \<and> thread (gWTPs s ! i) \<noteq> None"

lemma on_stage_entry:
  "on_stage i s \<Longrightarrow> seat (manager e) = seat (manager (gWTPs s ! i)) \<Longrightarrow> thread e \<noteq> None \<Longrightarrow> on_stage i (set_entry i e s)"
  unfolding on_stage_def by (intro conjI entry_well_counted) (auto simp: set_entry_def)

lemma on_stage_manager:
  "on_stage i s \<Longrightarrow> seat w = seat (manager (gWTPs s ! i)) \<Longrightarrow> on_stage i (set_manager i w s)"
  unfolding set_manager_def by (rule on_stage_entry) (auto simp: on_stage_def)

lemma on_stage_mask: "on_stage i s \<Longrightarrow> on_stage i (mask_thread f i s)"
  unfolding mask_thread_def set_thread_def by (rule on_stage_entry) (auto simp: on_stage_def)

lemma on_stage_defaults: "on_stage i s \<Longrightarrow> on_stage i (s\<lparr>gDefaultQosValues := d\<rparr>)"
  by (simp add: on_stage_def well_counted_def sessions_counted_def slots_consistent_def)

lemma stage_entry:
  "on_stage i s \<Longrightarrow> gWTPs (set_entry i e s) ! i = e"
  "on_stage i s \<Longrightarrow> manager (gWTPs (set_manager i w s) ! i) = w"
  "on_stage i s \<Longrightarrow> manager (gWTPs (mask_thread f i s) ! i) = manager (gWTPs s ! i)"
  by (simp_all add: on_stage_def set_entry_def set_manager_def mask_thread_def set_thread_def)

lemma on_stage_counted: "on_stage i s \<Longrightarrow> well_counted s"
  by (simp add: on_stage_def)

lemma leave_counted:
  "on_stage i s \<Longrightarrow> interfaceIndex w = interfaceIndex (manager (gWTPs s ! i)) \<Longrightarrow>
     leads well_counted (leave_session i w out s)"
  unfolding leave_session_def by (auto simp: on_stage_def intro!: ends_well_counted)

lemma close_counted:
  assumes "on_stage i s" and "interfaceIndex w = interfaceIndex (manager (gWTPs s ! i))"
  shows "leads well_counted (close_session env i w s)"
  using assms unfolding close_session_def
  by (auto dest!: CWCloseThread_interface intro: leave_counted)

lemma fails_counted:
  assumes "on_stage i s" and "\<And>b. leads well_counted (rest b)"
  shows "leads well_counted (session_fails env code i s rest)"
  using assms on_stage_counted [OF on_stage_mask [OF assms(1), of "\<lambda>t. t\<lparr>exited := True\<rparr>"]]
  by (auto simp: session_fails_def mask_thread_def split: handled.split)

lemma after_message_counted:
  assumes "on_stage i s" and "seat w = seat (manager (gWTPs s ! i))" and "stays w (Some result)"
  shows "leads well_counted (after_message env i result s)"
proof -
  obtain r w' out where r: "result = (r, w', out)" by (cases result)
  show ?thesis
  proof (cases r)
    case Closed
    then show ?thesis using assms r by (auto simp: after_message_def seat_def intro!: leave_counted)
  next
    case (Returned x)
    then have "seat w' = seat (manager (gWTPs s ! i))" using assms r by simp
    then have on: "on_stage i (set_manager i w' s)" and w': "manager (gWTPs (set_manager i w' s) ! i) = w'"
      using assms(1) by (simp_all add: on_stage_manager stage_entry)
    show ?thesis
      using Returned r w' on_stage_counted [OF on_stage_mask [OF on]] close_counted [OF on]
      by (auto simp: after_message_def Let_def split: sum.split intro!: fails_counted on)
  qed
qed

lemma turn_packet_counted:
  assumes on: "on_stage i s"
  shows "leads well_counted (turn_packet env i s)"
proof -
  have masked: "well_counted (mask_thread f i t)" if "on_stage i t" for f t
    by (rule on_stage_counted) (rule on_stage_mask [OF that])
  have kept: "on_stage i (set_manager i ((manager (gWTPs s ! i))\<lparr>packetReceiveList := ps\<rparr>) s)" for ps
    using on by (simp add: on_stage_manager)
  have stored: "on_stage i (set_entry i ((gWTPs s ! i)\<lparr>manager := (manager (gWTPs s ! i))\<lparr>packetReceiveList := ps,
      fragmentsList := fs\<rparr>, buf := bs\<rparr>) s)" for ps fs bs
    using on by (intro on_stage_entry) (auto simp: on_stage_def)
  have handled: "leads well_counted (after_message env i result
      (set_entry i ((gWTPs s ! i)\<lparr>manager := (manager (gWTPs s ! i))\<lparr>packetReceiveList := ps, fragmentsList := fs\<rparr>,
         buf := bs\<rparr>) s\<lparr>gDefaultQosValues := d\<rparr>))"
    if "stays ((manager (gWTPs s ! i))\<lparr>packetReceiveList := ps, fragmentsList := fs\<rparr>) (Some result)" for ps fs bs d result
    by (rule after_message_counted [OF on_stage_defaults [OF stored] _ that]) (simp add: stage_entry [OF on])
  show ?thesis
    unfolding turn_packet_def Let_def
    by (auto split: sum.split intro!: fails_counted kept stored masked handled
        dest!: pred_option_Some [OF stays_dispatch])
qed

lemma turn_counted:
  assumes on: "on_stage i s"
  shows "leads well_counted (CWManageWTP_turn env i s)"
proof -
  have "well_counted (mask_thread f i (set_manager i w s))" if "seat w = seat (manager (gWTPs s ! i))" for f w
    by (rule on_stage_counted [OF on_stage_mask [OF on_stage_manager [OF on that]]])
  then show ?thesis
    unfolding CWManageWTP_turn_def Let_def
    by (auto simp: on_stage_counted [OF on] dest!: command_keeps_seat
        intro!: close_counted on turn_packet_counted on_stage_mask)
qed

lemma start_counted:
  assumes on: "on_stage i s" and w: "seat w = seat (manager (gWTPs s ! i))"
  shows "leads well_counted (start_timer_and_dtls env code i w s)"
proof -
  have kept: "on_stage i (set_manager i w' s)" "on_stage i (set_entry i ((gWTPs s ! i)\<lparr>manager := w', session := True\<rparr>) s)"
    if "seat w' = seat w" for w'
    using that w on_stage_def [of i s] on by (auto intro!: on_stage_manager on_stage_entry)
  have closed: "leads well_counted (close_session env i w' s)" if "seat w' = seat w" for w'
    using that w by (intro close_counted [OF on]) (simp add: seat_def)
  show ?thesis
    unfolding start_timer_and_dtls_def Let_def
    by (auto split: prod.split sum.split intro!: fails_counted closed kept [THEN on_stage_counted] kept)
qed

lemma begin_counted:
  assumes s: "well_counted s" and c: "created s \<noteq> []" and "ae_specific env"
  shows "leads well_counted (CWManageWTP_begin env (hd (created s)) (s\<lparr>created := tl (created s)\<rparr>))"
proof -
  define arg where "arg = hd (created s)"
  define i where "i = arg_index arg"
  define t where "t = s\<lparr>created := tl (created s)\<rparr>"
  have same: "created s = arg # created t" "gWTPs t = gWTPs s" "globals t = globals s" "gDefaultQosValues t = gDefaultQosValues s"
    using c by (simp_all add: arg_def t_def)
  have t: "well_counted t" and i: "i < length (gWTPs t)" "thread (gWTPs t ! i) = None" "isNotFree (manager (gWTPs t ! i))"
    and new: "i \<notin> arg_index ` set (created t)"
    using s same by (auto simp: i_def well_counted_def slots_consistent_def sessions_counted_def)
  define w where "w pm = session_begins (manager (gWTPs t ! i)) arg pm" for pm
  have "interfaceIndex (w pm) = arg_interfaceIndex arg" "isNotFree (w pm)" for pm
    using i(3) by (simp_all add: w_def session_begins_def)
  then have on: "on_stage i (set_entry i ((gWTPs t ! i)\<lparr>manager := w pm, thread := Some begun_thread\<rparr>) (t\<lparr>globals := g\<rparr>))"
    if "count_session 1 (arg_interfaceIndex arg) (globals t) = Some g" for g pm
    using that i(1) unfolding on_stage_def
    by (intro conjI begins_well_counted [OF t i(1,2)]) (simp_all add: new set_entry_def)
  show ?thesis
    unfolding arg_def [symmetric] t_def [symmetric] CWManageWTP_begin_def Let_def i_def [symmetric] w_def [symmetric]
    using assms(3) by (auto intro!: start_counted on) (simp add: set_entry_def i(1))
qed

lemma first_index_less: "first_index P xs < length xs \<Longrightarrow> P (xs ! first_index P xs)"
  by (induction xs) (auto split: if_split_asm)

lemma created_well_counted:
  assumes s: "well_counted s" and i: "i < length (gWTPs s)" and free: "\<not> isNotFree (manager (gWTPs s ! i))"
  shows "well_counted (set_manager i w s)"
    and "isNotFree w \<Longrightarrow> arg_index arg = i \<Longrightarrow>
      well_counted ((set_manager i w s)\<lparr>created := created s @ [arg]\<rparr>)"
proof -
  have "thread (gWTPs s ! i) = None" and "i \<notin> arg_index ` set (created s)"
    using s i free nth_mem [OF i] by (auto simp: well_counted_def slots_consistent_def)
  moreover from this show "well_counted (set_manager i w s)"
    using s i free unfolding set_manager_def by (intro entry_well_counted) auto
  ultimately show "isNotFree w \<Longrightarrow> arg_index arg = i \<Longrightarrow>
      well_counted ((set_manager i w s)\<lparr>created := created s @ [arg]\<rparr>)"
    using i by (auto simp: well_counted_def slots_consistent_def sessions_counted_def set_manager_def set_entry_def)
qed

lemma open_counted:
  assumes "well_counted s"
  shows "leads well_counted (open_session env sock bs n k addr s)"
proof -
  define i where "i = first_index (\<lambda>e. \<not> isNotFree (manager e)) (gWTPs s)"
  have "leads well_counted (open_session env sock bs n k addr s)" if i_len: "i < length (gWTPs s)"
  proof -
    have free: "\<not> isNotFree (manager (gWTPs s ! i))"
      using first_index_less [of _ "gWTPs s"] that unfolding i_def by blast
    note taken = created_well_counted [OF assms i_len free]
    have fails: "leads well_counted (main_fails env c t r)" if "leads well_counted r" "well_counted (t\<lparr>listening := False\<rparr>)" for c t r
      using that by (auto simp: main_fails_def split: handled.split bool.split)
    have "well_counted ((set_manager i w s)\<lparr>listening := False\<rparr>)" for w
      using taken(1) [of w] by (simp add: well_counted_def slots_consistent_def sessions_counted_def)
    then show ?thesis
      unfolding open_session_def Let_def i_def [symmetric]
      using i_len by (auto intro!: taken fails dest!: enqueue_keeps_seat seat_fields(2))
  qed
  then show ?thesis unfolding open_session_def Let_def i_def [symmetric] by auto
qed

lemma deaf_well_counted: "well_counted s \<Longrightarrow> well_counted (s\<lparr>listening := False\<rparr>)"
  by (simp add: well_counted_def slots_consistent_def sessions_counted_def)

lemma main_fails_counted:
  "well_counted s \<Longrightarrow> leads well_counted r \<Longrightarrow> leads well_counted (main_fails env c s r)"
  by (auto simp: main_fails_def deaf_well_counted split: handled.split bool.split)

lemma packet_counted:
  assumes s: "well_counted s"
  shows "leads well_counted (CWACManageIncomingPacket env sock bs n k addr s)"
proof -
  have "leads well_counted (answer_discovery env q v s)" for q v
    using s by (auto simp: answer_discovery_def split: sum.split list.split intro!: main_fails_counted)
  moreover have "well_counted (set_manager i w s)"
    if "CWWTPByAddress (Some addr) sock (gWTPs s) = Some i" and "seat w = seat (manager (gWTPs s ! i))" for i w
    using that s by (auto simp: CWWTPByAddress_def Let_def split: if_split_asm intro!: manager_well_counted)
  ultimately show ?thesis
    using s by (auto simp: CWACManageIncomingPacket_def split: option.split sum.split
        intro!: main_fails_counted open_counted dest!: enqueue_keeps_seat)
qed

lemma runnable_on_stage: "well_counted s \<Longrightarrow> runnable i s \<Longrightarrow> on_stage i s"
  by (auto simp: runnable_def on_stage_def split: option.splits)

lemma step_counted:
  assumes s: "well_counted s" and "possible e s" and "\<And>env. e = Begins env \<Longrightarrow> ae_specific env"
  shows "leads well_counted (ac_perform e s)"
proof -
  have masked: "well_counted (mask_thread f i s)" if "runnable i s" for f i
    by (rule on_stage_counted [OF on_stage_mask [OF runnable_on_stage [OF s that]]])
  have both: "well_counted (mask_thread f i (set_manager i w s))"
    if "runnable i s" and "seat w = seat (manager (gWTPs s ! i))" for f i w
    by (rule on_stage_counted [OF on_stage_mask [OF on_stage_manager [OF runnable_on_stage [OF s that(1)] that(2)]]])
  show ?thesis
  proof (cases e)
    case (Soft_delivered env i)
    then show ?thesis
      using assms by (auto simp: soft_delivered_def split: thread_result.split dest!: soft_keeps_seat
          intro!: both leave_counted runnable_on_stage)
  next
    case (Order i k v)
    then show ?thesis using assms by (auto intro!: manager_well_counted simp: order_keeps_seat)
  qed (use assms in \<open>auto simp: packet_counted begin_counted turn_counted runnable_on_stage masked critical_delivered_def
      CWCriticalTimerExpiredHandler_def intro!: both\<close>)
qed

lemma tally_none: "\<forall>x \<in> set xs. \<not> P x \<Longrightarrow> tally P xs = 0"
  by (simp add: tally_def filter_False)

lemma main_loop_counted: "main_loop_entered s \<Longrightarrow> well_counted s"
  by (auto simp: main_loop_entered_def well_counted_def sessions_counted_def slots_consistent_def list_all_iff
      unused_entry_def session_on_def tally_none)

lemma runs_counted:
  "ac_runs s es out t \<Longrightarrow> well_counted s \<Longrightarrow> (\<forall>env. Begins env \<in> set es \<longrightarrow> ae_specific env) \<Longrightarrow> well_counted t"
proof (induction rule: ac_runs.induct)
  case (ac_step s es out t e u out')
  then show ?case using step_counted [of t e] by (auto simp: leads_def)
qed

subsection \<open>The first packets of a WTP\<close>

lemma parse_datagram:
  "CWProtocolParseFragment plenty (datagram B @ rest) (int (length (datagram B))) frags =
     Some (Inr (wbuf (length B) B, False), frags)"
proof -
  let ?v = "plain_values CW_PACKET_PLAIN None"
  have "CWParseTransportHeader plenty (Some \<lparr>msg = header_bytes ?v @ B @ rest, offset = 0, data_msgType = None\<rparr>) =
      Some (Inr ((sent_values ?v, False), rbuf None (header_bytes ?v) (B @ rest)))"
    using CWParseTransportHeader_plain [of ?v plenty None "[]" "B @ rest"] by (simp add: rbuf_def)
  moreover have "isFragment (sent_values ?v) = 0" by (simp add: sent_values_def plain_values_def)
  ultimately show ?thesis
    by (simp add: CWProtocolParseFragment_def datagram_def CW_CREATE_PROTOCOL_MESSAGE_int_def cw_wire)
qed

lemma plain_header_bytes: "header_bytes (plain_values CW_PACKET_PLAIN None) = [0, 16, 3, 0, 0, 0, 0, 0]"
  by code_simp

lemma plain_packet: "datagram B \<noteq> []" "datagram B ! 0 AND 0x0f \<noteq> ucast CW_PACKET_CRYPT"
  by (simp_all add: datagram_def plain_header_bytes CW_PACKET_CRYPT_def)

text \<open>A sender the AC does not know, in an AC that has room, and nothing of the AC failing.\<close>

definition unknown_sender :: "ac_env \<Rightarrow> nat \<Rightarrow> CWNetworkLev4Address \<Rightarrow> ac_process \<Rightarrow> bool" where
  "unknown_sender env sock addr s \<longleftrightarrow>
     listening s \<and> ae_locked env \<and> CWWTPByAddress (Some addr) sock (gWTPs s) = None \<and>
     sint (gActiveWTPs (globals s)) < sint (gMaxWTPs (globals s))"

definition session_opened :: "nat \<Rightarrow> CWNetworkLev4Address \<Rightarrow> u8 list \<Rightarrow> ac_process \<Rightarrow> CWWTPManager" where
  "session_opened i addr p s =
     (manager (gWTPs s ! i))\<lparr>wtp_peer := addr, isNotFree := True, isRequestClose := False, packetReceiveList := [p]\<rparr>"

definition thread_arg :: "nat \<Rightarrow> nat \<Rightarrow> int \<Rightarrow> CWACThreadArg" where
  "thread_arg i sock k =
     \<lparr>arg_index = i, arg_sock = sock, arg_interfaceIndex = (if k < 0 then 0 else nat k)\<rparr>"

lemma packet_opens_session:
  assumes u: "unknown_sender env sock addr s" and alloc: "env_alloc (ae_run env) = plenty" "ae_thread env"
    and parsed: "CWParseDiscoveryRequestMessage plenty (ae_le env) (unassigned_discovery (env_garbage (ae_run env))) bs n =
      Some (Inl CW_ERROR_INVALID_FORMAT)" and n: "n \<le> length bs"
    and i: "i = first_index (\<lambda>e. \<not> isNotFree (manager e)) (gWTPs s)" "i < length (gWTPs s)"
  shows "CWACManageIncomingPacket env sock bs n k addr s =
    Some (Runs ((set_manager i (session_opened i addr (take n bs) s) s)\<lparr>created := created s @ [thread_arg i sock k]\<rparr>, []))"
proof -
  have "main_fails env CW_ERROR_INVALID_FORMAT s r = r" for r
    by (simp add: main_fails_def last_error_def CWErrorHandleLast_def)
  then show ?thesis
    using assms by (simp add: CWACManageIncomingPacket_def unknown_sender_def open_session_def
        enqueue_packet_def session_opened_def thread_arg_def Let_def not_le)
qed

text \<open>An AC built without DTLS whose thread starts: locks, timer and memory are there.\<close>

definition starts :: "ac_env \<Rightarrow> bool" where
  "starts env \<longleftrightarrow> ae_specific env \<and> ae_locked env \<and> \<not> ae_dtls env \<and> env_alloc (ae_run env) = plenty \<and>
     env_timer (ae_run env) (gCWWaitJoin env)"

definition bound_manager :: "WTPQosValues list \<Rightarrow> CWWTPProtocolManager \<Rightarrow> CWWTPProtocolManager" where
  "bound_manager defaults pm = pm\<lparr>pm_bindingQos := map default_qos (take NUM_QOS_PROFILES defaults)\<rparr>"

definition session_begun :: "ac_env \<Rightarrow> CWACThreadArg \<Rightarrow> WTPQosValues list \<Rightarrow> CWWTPManager \<Rightarrow> CWWTPManager" where
  "session_begun env arg defaults w =
     session_waits env ((session_begins w arg (bound_manager defaults (WTPProtocolManager w)))
       \<lparr>currentTimer := Some (gCWWaitJoin env)\<rparr>)"

lemma set_entry_twice [simp]: "set_entry i e (set_entry i e' s) = set_entry i e s"
  by (simp add: set_entry_def)

lemma entry_fields_commute: "(e :: wtp_entry)\<lparr>thread := t, manager := w\<rparr> = e\<lparr>manager := w, thread := t\<rparr>"
  by (cases e) simp

lemma begin_without_dtls:
  assumes "starts env" and "NUM_QOS_PROFILES \<le> length (gDefaultQosValues s)"
    and "count_session 1 (arg_interfaceIndex arg) (globals s) = Some g" and "arg_index arg < length (gWTPs s)"
  shows "CWManageWTP_begin env arg s =
    Some (Runs (set_entry (arg_index arg) ((gWTPs s ! arg_index arg)\<lparr>manager :=
      session_begun env arg (gDefaultQosValues s) (manager (gWTPs s ! arg_index arg)), thread := Some begun_thread\<rparr>)
      (s\<lparr>globals := g\<rparr>), []))"
proof -
  have "CWACInitBinding plenty (gDefaultQosValues s) pm = Some (Inr (), bound_manager (gDefaultQosValues s) pm)" for pm
    using assms(2) by (simp add: CWACInitBinding_def bound_manager_def)
  then show ?thesis
    using assms by (simp add: CWManageWTP_begin_def starts_def start_timer_and_dtls_def session_begun_def Let_def set_manager_def)
      (simp add: set_entry_def entry_fields_commute)
qed

lemma session_begun_sel:
  "currentState (session_begun env arg d w) = CW_ENTER_JOIN"
  "packetReceiveList (session_begun env arg d w) = packetReceiveList w"
  "isRequestClose (session_begun env arg d w) = isRequestClose w"
  "isNotFree (session_begun env arg d w) = isNotFree w"
  "fragmentsList (session_begun env arg d w) = []"
  by (simp_all add: session_begun_def session_waits_def session_begins_def Let_def)

text \<open>A turn whose packet is a whole message that the handler accepts.\<close>

lemma mask_thread_entry:
  "i < length (gWTPs s) \<Longrightarrow> mask_thread f i (set_entry i e s) = set_entry i (e\<lparr>thread := map_option f (thread e)\<rparr>) s"
  by (simp add: mask_thread_def set_thread_def) (simp add: set_entry_def)

lemma set_manager_entry:
  "i < length (gWTPs s) \<Longrightarrow> set_manager i w (set_entry i e s) = set_entry i (e\<lparr>manager := w\<rparr>) s"
  by (simp add: set_manager_def) (simp add: set_entry_def)

lemma set_entry_defaults:
  "(set_entry i e s)\<lparr>gDefaultQosValues := d\<rparr> = set_entry i e (s\<lparr>gDefaultQosValues := d\<rparr>)"
  by (simp add: set_entry_def)

lemma turn_datagram:
  assumes e: "i < length (gWTPs s)" "gWTPs s ! i = e" and w: "manager e = w" "\<not> isRequestClose w"
    and p: "packetReceiveList w = datagram B # ps" "length (datagram B) \<le> CW_BUFFER_SIZE"
    and alloc: "env_alloc (ae_run env) = plenty"
    and handled: "\<And>t. globals t = globals s \<Longrightarrow> gDefaultQosValues t = gDefaultQosValues s \<Longrightarrow>
      dispatch env i (w\<lparr>packetReceiveList := ps\<rparr>) (wbuf (length B) B) False t = Some (d, Returned (Inr ()), w', out)"
  shows "CWManageWTP_turn env i s = Some (Runs (set_entry i (e\<lparr>buf := datagram B @ drop (length (datagram B)) (buf e),
      manager := w', thread := map_option (\<lambda>t. unblock_signals (block_signals t)) (thread e)\<rparr>)
      (s\<lparr>gDefaultQosValues := d\<rparr>), out))"
proof -
  define t where "t = mask_thread block_signals i s"
  define e' where "e' = e\<lparr>thread := map_option block_signals (thread e)\<rparr>"
  have t: "t = set_entry i e' s" and t_i: "gWTPs t ! i = e'" "i < length (gWTPs t)"
    using e by (simp_all add: t_def e'_def mask_thread_def set_thread_def) (simp_all add: set_entry_def)
  have same: "globals t = globals s" "gDefaultQosValues t = gDefaultQosValues s" by (simp_all add: t set_entry_def)
  have same_w: "w\<lparr>fragmentsList := fragmentsList w\<rparr> = w" by simp
  define b where "b = datagram B @ drop (length (datagram B)) (buf e)"
  define u where "u = set_entry i (e'\<lparr>manager := w\<lparr>packetReceiveList := ps\<rparr>, buf := b\<rparr>) t"
  have e'_sel: "manager e' = w" "buf e' = buf e" by (simp_all add: e'_def w)
  have "receive_packet env e' = Some (Inr (datagram B), ps)"
    using p plain_packet [of B] by (simp add: receive_packet_def e'_sel)
  moreover have "dispatch env i (w\<lparr>packetReceiveList := ps\<rparr>) (wbuf (length B) B) False u = Some (d, Returned (Inr ()), w', out)"
    by (rule handled) (simp_all add: u_def set_entry_def same)
  ultimately have "turn_packet env i t = after_message env i (Returned (Inr ()), w', out) (u\<lparr>gDefaultQosValues := d\<rparr>)"
    by (simp add: turn_packet_def t_i e'_sel alloc b_def [symmetric] parse_datagram [of B "drop (length (datagram B)) (buf e)", folded b_def]
        Let_def u_def del: length_datagram)
  also have "u\<lparr>gDefaultQosValues := d\<rparr> = set_entry i (e'\<lparr>manager := w\<lparr>packetReceiveList := ps\<rparr>, buf := b\<rparr>) (s\<lparr>gDefaultQosValues := d\<rparr>)"
    by (simp add: u_def t set_entry_defaults)
  finally show ?thesis
    using w p e by (simp add: CWManageWTP_turn_def t_def [symmetric] after_message_def set_manager_entry mask_thread_entry
        b_def e'_def option.map_comp comp_def del: length_datagram)
qed

subsection \<open>Properties\<close>

text \<open>
  C26: The counters of the AC are right at every moment: however packets, threads, timers, signals and orders interleave
  from the start of the main loop, \<open>gActiveWTPs\<close> is the number of sessions whose thread has begun and that are
  not closed, and \<open>WTPCount\<close> of an interface the number of those on it (as 32-bit numbers); the slot of such a session
  is taken, so no other WTP can get it. This is so as long as no thread fails to set its thread-specific value.
\<close>

theorem sessions_are_counted:
  assumes "main_loop_entered s" and "ac_runs s es out t" and "\<forall>env. Begins env \<in> set es \<longrightarrow> ae_specific env"
  shows "sessions_counted t \<and> slots_consistent t"
  using runs_counted [OF assms(2) main_loop_counted [OF assms(1)] assms(3)] by (simp add: well_counted_def)

lemma ac_runs_one: "possible e s \<Longrightarrow> ac_perform e s = Some (Runs (t, out)) \<Longrightarrow> ac_runs s [e] out t"
  using ac_step [OF ac_start, of e s t out] by simp

text \<open>
  A Discovery Request leaves no trace: when one arrives from an unknown sender, the AC answers with the Discovery
  Response of the same sequence number, and its state, the table of WTPs included, is as before.
\<close>

theorem discovery_leaves_no_session:
  assumes "unknown_sender env sock addr s" and "env_alloc (ae_run env) = plenty" "ae_reply env"
    and "wtp_ok longsz junk g" and "discovery_fits (ae_le env) True (globals s)" and "env_fragID (ae_run env) < 65536"
    and "seq < 256"
  shows "ac_runs s [Packet env sock (request_datagram (ae_le env) longsz junk g seq @ tail)
      (length (request_datagram (ae_le env) longsz junk g seq)) k addr]
    [Sent (response_datagram (ae_le env) True (globals s) seq)] s"
proof (rule ac_runs_one)
  have seq: "ucast (ucast seq :: u8) = seq" using assms(7) by simp
  show "ac_perform (Packet env sock (request_datagram (ae_le env) longsz junk g seq @ tail)
      (length (request_datagram (ae_le env) longsz junk g seq)) k addr) s =
    Some (Runs (s, [Sent (response_datagram (ae_le env) True (globals s) seq)]))"
    using assms(1,2,3) parse_discovery_request [OF assms(4), of "ae_le env"] assemble_discovery_response [OF assms(5,6)]
    by (simp add: CWACManageIncomingPacket_def unknown_sender_def not_le answer_discovery_def seq
        CWDestroyDiscoveryRequestValues_def)
qed (use assms(1) in \<open>simp add: unknown_sender_def\<close>)

text \<open>
  A Discovery Request without elements breaks the AC: the values of the request are destroyed whether the
  parser assigned them or not, so from any unknown sender such a packet makes it walk and free pointers
  that were never set.
\<close>

theorem empty_discovery_request_frees_junk:
  assumes "unknown_sender env sock addr s" and "env_alloc (ae_run env) = plenty"
  shows "ac_perform (Packet env sock (datagram (control_message seq CW_MSG_TYPE_VALUE_DISCOVERY_REQUEST ty body []) @ tail)
    16 k addr) s = None"
proof -
  let ?d = "datagram (control_message seq CW_MSG_TYPE_VALUE_DISCOVERY_REQUEST ty body [])"
  have "open_datagram plenty CW_MSG_TYPE_VALUE_DISCOVERY_REQUEST (?d @ tail) =
      Some (Inr ((ucast (ucast seq :: u8), 0), rbuf None ?d tail))"
    using open_any_datagram [of ty body "[]" plenty CW_MSG_TYPE_VALUE_DISCOVERY_REQUEST seq] by (simp add: length_control_message)
  then have "CWParseDiscoveryRequestMessage plenty le v (?d @ tail) 16 = Some (Inr (ucast (ucast seq :: u8), v))" for le v
    by (simp add: CWParseDiscoveryRequestMessage_def elements_to_end_def element_loop_stops length_control_message)
  then show ?thesis
    using assms by (simp add: CWACManageIncomingPacket_def unknown_sender_def not_le answer_discovery_def
        CWDestroyDiscoveryRequestValues_def unassigned_discovery_def)
qed

definition free_slot :: "nat \<Rightarrow> ac_process \<Rightarrow> bool" where
  "free_slot i s \<longleftrightarrow> i = first_index (\<lambda>e. \<not> isNotFree (manager e)) (gWTPs s) \<and> i < length (gWTPs s)"

text \<open>The first datagram of an unknown sender, and the thread it creates, take the AC to this state.\<close>

definition new_session ::
  "ac_env \<Rightarrow> nat \<Rightarrow> nat \<Rightarrow> int \<Rightarrow> CWNetworkLev4Address \<Rightarrow> u8 list \<Rightarrow> AC_globals \<Rightarrow> ac_process \<Rightarrow> ac_process" where
  "new_session env i sock k addr p g s =
     set_entry i ((gWTPs s ! i)\<lparr>manager :=
       session_begun env (thread_arg i sock k) (gDefaultQosValues s) (session_opened i addr p s), thread := Some begun_thread\<rparr>)
       (s\<lparr>globals := g\<rparr>)"

lemma session_starts:
  assumes u: "unknown_sender env sock addr s" and st: "starts env" "ae_thread env"
    and parsed: "CWParseDiscoveryRequestMessage plenty (ae_le env) (unassigned_discovery (env_garbage (ae_run env))) bs n =
      Some (Inl CW_ERROR_INVALID_FORMAT)" and n: "n \<le> length bs"
    and i: "free_slot i s" and c: "created s = []" and q: "NUM_QOS_PROFILES \<le> length (gDefaultQosValues s)"
    and g: "count_session 1 (if k < 0 then 0 else nat k) (globals s) = Some g"
  shows "ac_runs s [Packet env sock bs n k addr, Begins env] [] (new_session env i sock k addr (take n bs) g s)"
proof -
  let ?t = "(set_manager i (session_opened i addr (take n bs) s) s)\<lparr>created := [thread_arg i sock k]\<rparr>"
  have alloc: "env_alloc (ae_run env) = plenty" using st by (simp add: starts_def)
  have "ac_perform (Packet env sock bs n k addr) s = Some (Runs (?t, []))"
    using packet_opens_session [OF u alloc st(2) parsed n, of i k] i c by (simp add: free_slot_def)
  moreover have "possible (Packet env sock bs n k addr) s" using u by (simp add: unknown_sender_def)
  ultimately have one: "ac_runs s [Packet env sock bs n k addr] [] ?t" by (rule ac_runs_one [rotated])
  define t where "t = ?t\<lparr>created := []\<rparr>"
  have len: "i < length (gWTPs s)" using i by (simp add: free_slot_def)
  have t: "t = set_entry i ((gWTPs s ! i)\<lparr>manager := session_opened i addr (take n bs) s\<rparr>) s"
    using c by (simp add: t_def set_manager_def set_entry_def)
  have "globals t = globals s" "gDefaultQosValues t = gDefaultQosValues s" "length (gWTPs t) = length (gWTPs s)"
    "gWTPs t ! i = (gWTPs s ! i)\<lparr>manager := session_opened i addr (take n bs) s\<rparr>"
    using len by (simp_all add: t) (simp_all add: set_entry_def)
  moreover have "arg_interfaceIndex (thread_arg i sock k) = (if k < 0 then 0 else nat k)" "arg_index (thread_arg i sock k) = i"
    by (simp_all add: thread_arg_def)
  ultimately have "CWManageWTP_begin env (thread_arg i sock k) t = Some (Runs (new_session env i sock k addr (take n bs) g s, []))"
    using begin_without_dtls [OF st(1), of t "thread_arg i sock k" g] q g len
    by (simp add: new_session_def) (simp add: t set_entry_def)
  then have "ac_perform (Begins env) ?t = Some (Runs (new_session env i sock k addr (take n bs) g s, []))"
    by (simp add: t_def)
  from ac_step [OF one _ this] show ?thesis by simp
qed

text \<open>
  C27: A WTP joins through the main loop: its Join Request, a datagram of its own from a sender the AC does not know,
  takes the first free slot; the thread made for it begins, counts the session and hands the message to the Join
  state, whose response the AC sends. Then the session is in the Configure state with what the request says of the WTP,
  its thread is open to both timers, and no other session was touched.
\<close>

theorem wtp_joins:
  assumes u: "unknown_sender env sock addr s" and st: "starts env" "ae_thread env" and env: "nothing_fails (ae_run env)"
    and i: "free_slot i s" and c: "created s = []" and q: "NUM_QOS_PROFILES \<le> length (gDefaultQosValues s)"
    and g: "count_session 1 (if k < 0 then 0 else nat k) (globals s) = Some ac" and ac: "ac_ok ac"
    and wtp: "wtp_ok longsz junk wg" and seq: "seq < 256" and "fragID < 65536"
    and req: "length (stream join_type (join_body (ae_le env) longsz junk wg) (join_request sessionID)) < 65520"
    and resp: "length (stream response_type (response_body (ae_le env) True ac) (join_response ac CW_PROTOCOL_SUCCESS)) < 65528"
  shows "\<exists>p out t. CWAssembleJoinRequest plenty (ae_le env) longsz junk wg sessionID fragID 0 seq CW_PACKET_PLAIN = Some (Inr [p]) \<and>
    ac_runs s [Packet env sock (contents p @ tail) (length (contents p)) k addr, Begins env, Turn env i] (map Sent out) t \<and>
    delivers out (control_message seq CW_MSG_TYPE_VALUE_JOIN_RESPONSE response_type (response_body (ae_le env) True ac)
      (join_response ac CW_PROTOCOL_SUCCESS)) \<and>
    globals t = ac \<and> currentState (manager (gWTPs t ! i)) = CW_ENTER_CONFIGURE \<and>
    WTPProtocolManager (manager (gWTPs t ! i)) = joined (ae_le env) longsz junk wg sessionID (env_radio (ae_run env))
      (CWResetWTPProtocolManager (bound_manager (gDefaultQosValues s) (WTPProtocolManager (manager (gWTPs s ! i))))) \<and>
    thread (gWTPs t ! i) = Some (unblock_signals begun_thread) \<and> gWTPs t = (gWTPs s)[i := gWTPs t ! i]"
proof -
  let ?es = "map (\<lambda>e. elem_msg (join_type e) (join_body (ae_le env) longsz junk wg e)) (join_request sessionID)"
  define B where "B = control_message seq CW_MSG_TYPE_VALUE_JOIN_REQUEST join_type (join_body (ae_le env) longsz junk wg)
    (join_request sessionID)"
  define p where "p = wbuf (length (datagram B)) (datagram B)"
  have len: "length B < 65528" using req by (simp add: B_def length_control_message)
  have "\<forall>m \<in> set ?es. msg_fits m" by (auto simp: msg_fits_def)
  from datagram_sent [OF this assms(12), of seq CW_MSG_TYPE_VALUE_JOIN_REQUEST] len
  have p: "CWAssembleJoinRequest plenty (ae_le env) longsz junk wg sessionID fragID 0 seq CW_PACKET_PLAIN = Some (Inr [p])"
    by (simp add: assemble_join_request [OF wtp] control_message_def [symmetric] B_def [symmetric] p_def CWAssembleMessage_NULL)
  have "CWParseDiscoveryRequestMessage plenty (ae_le env) v (datagram B @ tail) n = Some (Inl CW_ERROR_INVALID_FORMAT)" for v n
    unfolding CWParseDiscoveryRequestMessage_def B_def
    using req by (subst open_any_datagram) (simp_all add: CW_MSG_TYPE_VALUE_JOIN_REQUEST_def CW_MSG_TYPE_VALUE_DISCOVERY_REQUEST_def)
  from session_starts [OF u st this, where k = k and i = i and g = ac and n = "length (datagram B)"] i c q g
  have two: "ac_runs s [Packet env sock (datagram B @ tail) (length (datagram B)) k addr, Begins env] []
      (new_session env i sock k addr (datagram B) ac s)" (is "ac_runs s _ _ ?t")
    by simp
  define w where "w = session_begun env (thread_arg i sock k) (gDefaultQosValues s) (session_opened i addr (datagram B) s)"
  define e where "e = (gWTPs s ! i)\<lparr>manager := w, thread := Some begun_thread\<rparr>"
  have t: "i < length (gWTPs ?t)" "gWTPs ?t ! i = e" "globals ?t = ac" "manager e = w" "thread e = Some begun_thread"
    using i by (simp_all add: new_session_def e_def w_def free_slot_def) (simp_all add: set_entry_def)
  have w: "\<not> isRequestClose w" "packetReceiveList w = [datagram B]" "currentState w = CW_ENTER_JOIN"
    "WTPProtocolManager w = CWResetWTPProtocolManager (bound_manager (gDefaultQosValues s) (WTPProtocolManager (manager (gWTPs s ! i))))"
    by (simp_all add: w_def session_begun_sel session_opened_def)
      (simp add: session_begun_def session_waits_def session_begins_def Let_def)
  have alloc: "env_alloc (ae_run env) = plenty" and locked: "ae_locked env" using st by (simp_all add: starts_def)
  from join_request_answered [OF wtp ac env seq _ resp, where m = "wbuf (length B) B" and sessionID = sessionID and
      wtp = "w\<lparr>packetReceiveList := []\<rparr>"] req
  obtain w' out where w': "ACEnterJoin (ae_run env) (ae_le env) True ac (w\<lparr>packetReceiveList := []\<rparr>) (Some (wbuf (length B) B)) =
      Some (Returned (Inr ()), w', map Sent out)" "currentState w' = CW_ENTER_CONFIGURE"
      "WTPProtocolManager w' = joined (ae_le env) longsz junk wg sessionID (env_radio (ae_run env)) (WTPProtocolManager w)"
    and out: "delivers out (control_message seq CW_MSG_TYPE_VALUE_JOIN_RESPONSE response_type (response_body (ae_le env) True ac)
      (join_response ac CW_PROTOCOL_SUCCESS))"
    by (auto simp: answers_def B_def [symmetric])
  have "CWManageWTP_turn env i ?t = Some (Runs (set_entry i (e\<lparr>buf := datagram B @ drop (length (datagram B)) (buf e),
      manager := w', thread := map_option (\<lambda>t. unblock_signals (block_signals t)) (thread e)\<rparr>)
      (?t\<lparr>gDefaultQosValues := gDefaultQosValues ?t\<rparr>), map Sent out))" (is "_ = Some (Runs (?u, _))")
    by (rule turn_datagram [OF t(1,2,4) w(1,2) _ alloc])
      (use len w w' t(3) locked in \<open>simp_all add: dispatch_def CW_BUFFER_SIZE_def\<close>)
  then have "ac_perform (Turn env i) ?t = Some (Runs (?u, map Sent out))" by simp
  moreover have "possible (Turn env i) ?t" using t by (simp add: runnable_def begun_thread_def)
  ultimately have "ac_runs s [Packet env sock (contents p @ tail) (length (contents p)) k addr, Begins env, Turn env i] (map Sent out) ?u"
    using ac_step [OF two] by (simp add: p_def)
  moreover have "globals ?u = ac" "gWTPs ?u ! i = e\<lparr>buf := datagram B @ drop (length (datagram B)) (buf e), manager := w',
      thread := map_option (\<lambda>t. unblock_signals (block_signals t)) (thread e)\<rparr>"
    using t(1,3) by (simp_all add: set_entry_def)
  moreover have "gWTPs ?u = (gWTPs s)[i := gWTPs ?u ! i]"
    using t(1) by (simp add: new_session_def set_entry_def)
  moreover have "unblock_signals (block_signals begun_thread) = unblock_signals begun_thread"
    by (simp add: unblock_signals_def block_signals_def)
  ultimately show ?thesis using p out w'(2,3) w(4) t(5) by (intro exI [of _ p] exI [of _ out] exI [of _ ?u]) simp
qed

text \<open>
  Built without DTLS, as the Makefile does, the AC does not survive a datagram that says it is encrypted: the session
  made for its sender begins, and its first turn gives the null DTLS session to the library. Any sender can do this
  with one packet that is not a Discovery Request.
\<close>

theorem encrypted_packet_without_dtls:
  assumes "unknown_sender env sock addr s" and "starts env" "ae_thread env"
    and "CWParseDiscoveryRequestMessage plenty (ae_le env) (unassigned_discovery (env_garbage (ae_run env))) bs n =
      Some (Inl CW_ERROR_INVALID_FORMAT)" and n: "0 < n" "n \<le> length bs" and crypt: "bs ! 0 AND 0x0f = ucast CW_PACKET_CRYPT"
    and i: "free_slot i s" and "created s = []" and "NUM_QOS_PROFILES \<le> length (gDefaultQosValues s)"
    and "count_session 1 (if k < 0 then 0 else nat k) (globals s) = Some g" and null: "\<not> session (gWTPs s ! i)"
  shows "\<exists>t. ac_runs s [Packet env sock bs n k addr, Begins env] [] t \<and> possible (Turn env i) t \<and>
    ac_perform (Turn env i) t = None"
proof -
  let ?t = "new_session env i sock k addr (take n bs) g s"
  define w where "w = session_begun env (thread_arg i sock k) (gDefaultQosValues s) (session_opened i addr (take n bs) s)"
  define e where "e = (gWTPs s ! i)\<lparr>manager := w, thread := Some (block_signals begun_thread)\<rparr>"
  have w: "\<not> isRequestClose w" "packetReceiveList w = [take n bs]"
    by (simp_all add: w_def session_begun_sel session_opened_def)
  have t: "possible (Turn env i) ?t" "manager (gWTPs ?t ! i) = w" "mask_thread block_signals i ?t = set_entry i e (s\<lparr>globals := g\<rparr>)"
    using i by (simp_all add: new_session_def runnable_def free_slot_def begun_thread_def e_def w_def mask_thread_entry)
      (simp_all add: set_entry_def)
  have "gWTPs (set_entry i e (s\<lparr>globals := g\<rparr>)) ! i = e" using i by (simp add: set_entry_def free_slot_def)
  moreover have "receive_packet env e = None"
    using n crypt null w(2) by (auto simp: receive_packet_def e_def)
  ultimately have "ac_perform (Turn env i) ?t = None"
    using w t(2,3) by (simp add: CWManageWTP_turn_def turn_packet_def)
  with session_starts [OF assms(1-4) n(2) i assms(9-11)] t(1) show ?thesis by blast
qed

text \<open>What a session does by itself: turns, timers and their signals, but no packet and no order.\<close>

primrec own_event :: "nat \<Rightarrow> ac_event \<Rightarrow> bool" where
  "own_event i (Packet env sock bs n k addr) \<longleftrightarrow> False"
| "own_event i (Begins env) \<longleftrightarrow> False"
| "own_event i (Turn env j) \<longleftrightarrow> j = i"
| "own_event i (Critical_expires j) \<longleftrightarrow> j = i"
| "own_event i (Soft_expires j) \<longleftrightarrow> j = i"
| "own_event i (Critical_delivered j) \<longleftrightarrow> j = i"
| "own_event i (Soft_delivered env j) \<longleftrightarrow> j = i"
| "own_event i (Order j k v) \<longleftrightarrow> False"

definition idle :: "CWWTPManager \<Rightarrow> bool" where
  "idle w \<longleftrightarrow> isNotFree w \<and> \<not> isRequestClose w \<and> interfaceCommand w = NO_CMD \<and>
     (\<not> isRetransmitting w \<or> messages w = None)"

definition deaf :: "nat \<Rightarrow> CWWTPManager \<Rightarrow> ac_process \<Rightarrow> bool" where
  "deaf i w s \<longleftrightarrow> i < length (gWTPs s) \<and> manager (gWTPs s ! i) = w \<and>
     (\<exists>t. thread (gWTPs s ! i) = Some t \<and> critical_blocked t \<and> \<not> exited t)"

lemma deaf_mask:
  assumes "deaf i w s" and "\<And>t. critical_blocked (f t) = critical_blocked t" "\<And>t. exited (f t) = exited t"
  shows "deaf i w (mask_thread f i s)" "globals (mask_thread f i s) = globals s"
proof -
  have "mask_thread f i s = set_entry i ((gWTPs s ! i)\<lparr>thread := map_option f (thread (gWTPs s ! i))\<rparr>) s"
    by (simp add: mask_thread_def set_thread_def)
  then show "deaf i w (mask_thread f i s)" "globals (mask_thread f i s) = globals s"
    using assms by (auto simp: deaf_def set_entry_def)
qed

lemma set_same_manager: "set_manager i (manager (gWTPs s ! i)) s = s"
  by (simp add: set_manager_def set_entry_def)

lemma deaf_step:
  assumes w: "idle w" "packetReceiveList w = []" and s: "deaf i w s"
    and e: "own_event i e" "possible e s" "ac_perform e s = Some (Runs (t, out))"
  shows "deaf i w t \<and> globals t = globals s \<and> out = []"
proof (cases e)
  case (Turn env j)
  then show ?thesis using assms by (auto simp: CWManageWTP_turn_def deaf_def idle_def)
next
  case (Soft_delivered env j)
  have "manager (gWTPs s ! i) = w" using s by (simp add: deaf_def)
  moreover have "CWSoftTimerExpiredHandler (ae_run env) w = Some (Returned (), w, [])"
    using w(1) by (auto simp: CWSoftTimerExpiredHandler_def idle_def)
  ultimately have "soft_delivered env i s = Some (Runs (mask_thread (\<lambda>t. t\<lparr>soft_pending := False\<rparr>) i s, []))"
    using set_same_manager [of i s] by (simp add: soft_delivered_def)
  then show ?thesis using Soft_delivered e deaf_mask [OF s] by auto
next
  case (Critical_delivered j)
  then show ?thesis using e s by (auto simp: deaf_def is_pending_def)
qed (use e deaf_mask [OF s] in auto)

lemma deaf_runs:
  assumes "ac_runs s es out t" "idle w" "packetReceiveList w = []" "deaf i w s" "list_all (own_event i) es"
  shows "deaf i w t \<and> globals t = globals s \<and> out = []"
  using assms
proof (induction rule: ac_runs.induct)
  case (ac_step s es out t e u out')
  then show ?case using deaf_step [of w i t e u out'] by auto
qed simp


definition quiet_ac :: AC_globals where
  "quiet_ac = sample_ac\<lparr>gActiveWTPs := 0, gInterfaces := [(hd (gInterfaces sample_ac))\<lparr>ni_WTPCount := 0\<rparr>]\<rparr>"

definition free_entry :: wtp_entry where
  "free_entry = \<lparr>manager = sample_session\<lparr>isNotFree := False\<rparr>, session = False, buf = replicate CW_BUFFER_SIZE 0, thread = None\<rparr>"

definition sample_process :: ac_process where
  "sample_process = \<lparr>globals = quiet_ac, gWTPs = replicate CW_MAX_WTP free_entry,
     gDefaultQosValues = map sample_qos [7, 8, 9, 11], created = [], listening = True\<rparr>"

definition sample_ac_env :: ac_env where
  "sample_ac_env = \<lparr>ae_run = sample_env, ae_le = True, ae_locked = True, ae_lastError = None, ae_thread = True,
     ae_specific = True, ae_reply = True, ae_dtls = False, ae_handshake = (\<lambda>ps. (Inl CW_ERROR_GENERAL, ps)),
     ae_decrypt = (\<lambda>ps. (Inl CW_ERROR_RECEIVING, ps)), ae_sino = \<lparr>sino_buff = [], sino_offset = 0, sino_pos = 0\<rparr>,
     ae_sino_locked = False, ae_blank = \<lparr>ai_ID = 0, ai_state = 0, ai_cause = 0\<rparr>, gCWWaitJoin = 60, gCWForceMTU = 0\<rparr>"

definition sample_peer :: CWNetworkLev4Address where
  "sample_peer = \<lparr>sa_family = AF_INET, sa_addr = [192, 0, 2, 9], sa_port = 5246\<rparr>"

lemma sample_ac_env_sel [simp]:
  "ae_run sample_ac_env = sample_env" "ae_le sample_ac_env" "ae_thread sample_ac_env" "ae_specific sample_ac_env"
  "ae_reply sample_ac_env" "env_alloc sample_env = plenty" "env_fragID sample_env = 3" "env_radio sample_env = sample_radio"
  by (simp_all add: sample_ac_env_def sample_env_def)

lemma first_index_replicate: "first_index P (replicate n x) = (if P x then 0 else n)"
  by (induction n) auto

lemma sample_process_facts:
  "main_loop_entered sample_process" "unknown_sender sample_ac_env 5 sample_peer sample_process"
  "free_slot 0 sample_process" "starts sample_ac_env" "created sample_process = []"
  "NUM_QOS_PROFILES \<le> length (gDefaultQosValues sample_process)"
  "\<not> session (gWTPs sample_process ! 0)" "nothing_fails (ae_run sample_ac_env)"
  by (simp_all add: sample_process_def main_loop_entered_def unknown_sender_def free_slot_def starts_def sample_ac_env_def
      CWWTPByAddress_def first_index_replicate serves_def free_entry_def sample_env_def nothing_fails_def list_all_iff
      unused_entry_def quiet_ac_def sample_ac_def Let_def NUM_QOS_PROFILES_def CW_MAX_WTP_def)

definition busy_ac :: AC_globals where
  "busy_ac = quiet_ac\<lparr>gActiveWTPs := 1, gInterfaces := [(hd (gInterfaces quiet_ac))\<lparr>ni_WTPCount := 1\<rparr>]\<rparr>"

lemma sample_counted: "count_session 1 (if (0 :: int) < 0 then 0 else nat 0) (globals sample_process) = Some busy_ac"
  by (simp add: count_session_def sample_process_def busy_ac_def quiet_ac_def)

lemma busy_fits: "ac_ok busy_ac" "discovery_fits True True quiet_ac"
  "length (stream response_type (response_body True True busy_ac) (join_response busy_ac CW_PROTOCOL_SUCCESS)) < 65528"
  using ac_infos_facts(4) [of True True quiet_ac] ac_infos_facts(4) [of True True busy_ac]
  by (simp_all add: discovery_fits_def ac_ok_def ac_fits_def discovery_response_def ac_descriptor_of_def Let_def
      if4_bytes_def join_response_def) (simp_all add: busy_ac_def quiet_ac_def sample_ac_def if4_bytes_def)

definition crypt_probe :: "u8 list" where
  "crypt_probe = header_bytes (plain_values CW_PACKET_CRYPT None) @ replicate 8 0"

lemma crypt_probe_facts:
  "CWParseDiscoveryRequestMessage plenty le v crypt_probe n = Some (Inl CW_ERROR_INVALID_FORMAT)"
  "length crypt_probe = 16" "crypt_probe ! 0 AND 0x0f = ucast CW_PACKET_CRYPT"
proof -
  have "open_datagram plenty CW_MSG_TYPE_VALUE_DISCOVERY_REQUEST crypt_probe = Some (Inl CW_ERROR_INVALID_FORMAT)"
    by code_simp
  then show "CWParseDiscoveryRequestMessage plenty le v crypt_probe n = Some (Inl CW_ERROR_INVALID_FORMAT)"
    by (simp add: CWParseDiscoveryRequestMessage_def)
  show "length crypt_probe = 16" "crypt_probe ! 0 AND 0x0f = ucast CW_PACKET_CRYPT" by code_simp+
qed

lemma sample_begins:
  "ac_runs sample_process [Packet sample_ac_env 5 crypt_probe 16 0 sample_peer, Begins sample_ac_env] []
     (new_session sample_ac_env 0 5 0 sample_peer crypt_probe busy_ac sample_process)"
  using session_starts [OF sample_process_facts(2,4) _ _ _ sample_process_facts(3,5,6) sample_counted, of crypt_probe 16]
    crypt_probe_facts by simp

lemma sessions_are_counted_witness:
  "\<exists>t. ac_runs sample_process [Packet sample_ac_env 5 crypt_probe 16 0 sample_peer, Begins sample_ac_env] [] t \<and>
     sessions_counted t \<and> slots_consistent t \<and> gActiveWTPs (globals t) = 1"
proof -
  have "gActiveWTPs (globals (new_session sample_ac_env 0 5 0 sample_peer crypt_probe busy_ac sample_process)) = 1"
    by (simp add: new_session_def set_entry_def busy_ac_def)
  moreover have "\<forall>env. Begins env \<in> set [Packet sample_ac_env 5 crypt_probe 16 0 sample_peer, Begins sample_ac_env] \<longrightarrow>
      ae_specific env"
    by simp
  ultimately show ?thesis
    using sessions_are_counted [OF sample_process_facts(1) sample_begins] sample_begins by blast
qed

lemma discovery_leaves_no_session_witness:
  "ac_runs sample_process [Packet sample_ac_env 5 (request_datagram True 4 [] sample_wtp 9 @ [0])
       (length (request_datagram True 4 [] sample_wtp 9)) (- 1) sample_peer]
     [Sent (response_datagram True True quiet_ac 9)] sample_process"
proof -
  have "globals sample_process = quiet_ac" by (simp add: sample_process_def)
  with discovery_leaves_no_session [OF sample_process_facts(2) _ _ sample_wtp_ready(1), of 9 "[0]" "- 1"] busy_fits(2)
  show ?thesis by simp
qed

lemma empty_discovery_request_frees_junk_witness:
  "ac_perform (Packet sample_ac_env 5 (datagram (control_message 9 CW_MSG_TYPE_VALUE_DISCOVERY_REQUEST
       (\<lambda>_ :: nat. 0) (\<lambda>_. []) []) @ [7, 7]) 16 0 sample_peer) sample_process = None"
  by (rule empty_discovery_request_frees_junk [OF sample_process_facts(2)]) simp

lemma encrypted_packet_without_dtls_witness:
  "\<exists>t. ac_runs sample_process [Packet sample_ac_env 5 crypt_probe 16 0 sample_peer, Begins sample_ac_env] [] t \<and>
     possible (Turn sample_ac_env 0) t \<and> ac_perform (Turn sample_ac_env 0) t = None"
  by (rule encrypted_packet_without_dtls [OF sample_process_facts(2,4) _ _ _ _ _ sample_process_facts(3,5,6) sample_counted
        sample_process_facts(7)]) (use crypt_probe_facts in simp_all)

lemma wtp_joins_witness:
  "\<exists>p out t. CWAssembleJoinRequest plenty True 4 [] sample_wtp 77 3 0 9 CW_PACKET_PLAIN = Some (Inr [p]) \<and>
     ac_runs sample_process [Packet sample_ac_env 5 (contents p @ [1, 2]) (length (contents p)) 0 sample_peer,
       Begins sample_ac_env, Turn sample_ac_env 0] (map Sent out) t \<and>
     currentState (manager (gWTPs t ! 0)) = CW_ENTER_CONFIGURE"
proof -
  have req: "length (stream join_type (join_body True 4 [] sample_wtp) (join_request 77)) < 65520"
    using infos_lengths [of 4 "[]" True]
    by (simp add: join_request_def sample_wtp_def longsz_ok_def wtp_descriptor_of_def Let_def)
  have n: "(9 :: u32) < 256" "(3 :: u32) < 65536" by simp_all
  from wtp_joins [OF sample_process_facts(2,4) _ sample_process_facts(8,3,5,6) sample_counted busy_fits(1) sample_wtp_ready(1) n,
      where sessionID = 77 and tail = "[1, 2]"] req busy_fits(3)
  show ?thesis by fastforce
qed

text \<open>A fragment of eight bytes that is not the last of its message.\<close>

definition first_fragment :: "u8 list" where
  "first_fragment = header_bytes ((plain_values CW_PACKET_PLAIN None)\<lparr>isFragment := 1, fragmentID := 4\<rparr>) @ replicate 8 1"

definition fragment_waiting :: ac_process where
  "fragment_waiting = sample_process\<lparr>gWTPs := [free_entry\<lparr>manager := sample_session\<lparr>packetReceiveList := [first_fragment]\<rparr>,
     buf := [], thread := Some begun_thread\<rparr>]\<rparr>"

lemma first_fragment_facts:
  "\<exists>frags. CWProtocolParseFragment plenty first_fragment 16 [] = Some (Inl CW_ERROR_NEED_RESOURCE, frags)"
  "length first_fragment = 16" "first_fragment ! 0 AND 0x0f \<noteq> ucast CW_PACKET_CRYPT"
proof -
  have "map_option fst (CWProtocolParseFragment plenty first_fragment 16 []) = Some (Inl CW_ERROR_NEED_RESOURCE)"
    by code_simp
  then show "\<exists>frags. CWProtocolParseFragment plenty first_fragment 16 [] = Some (Inl CW_ERROR_NEED_RESOURCE, frags)"
    by auto
  show "length first_fragment = 16" "first_fragment ! 0 AND 0x0f \<noteq> ucast CW_PACKET_CRYPT" by code_simp+
qed


end
