(* ===== verification/Chains.thy ===== *)
theory Chains
  imports Prelude
begin

text \<open>
  Doubly linked cells in a heap: the structure under the list of packets (\<open>CWSafeList.c\<close>) and under the
  queue of timers (\<open>timerlib.c\<close>). A pointer is an address or \<open>NULL\<close> (\<open>None\<close>), the heap a map from addresses
  to cells; reading or writing through \<open>NULL\<close> or through the address of a freed cell is \<open>None\<close>.

  The locale \<open>links\<close> holds what a client needs of its cells, the two link fields and their updates, and
  proves once what taking a cell out and putting one in do to the sequence of addresses.
\<close>

subsection \<open>Reading and writing through a pointer\<close>

type_synonym pointer = "nat option"

definition deref :: "(nat \<rightharpoonup> 'c) \<Rightarrow> pointer \<Rightarrow> 'c option" where
  "deref h p = (case p of None \<Rightarrow> None | Some a \<Rightarrow> h a)"

definition assign :: "(nat \<rightharpoonup> 'c) \<Rightarrow> pointer \<Rightarrow> ('c \<Rightarrow> 'c) \<Rightarrow> (nat \<rightharpoonup> 'c) option" where
  "assign h p f = do { a \<leftarrow> p; c \<leftarrow> h a; Some (h(a \<mapsto> f c)) }"

lemma deref_simps [simp]: "deref h None = None" "deref h (Some a) = h a"
  by (simp_all add: deref_def)

lemma assign_simps [simp]:
  "assign h None f = None"
  "assign h (Some a) f = (case h a of None \<Rightarrow> None | Some c \<Rightarrow> Some (h(a \<mapsto> f c)))"
  by (simp_all add: assign_def split: option.splits)

subsection \<open>Segments\<close>

text \<open>
  The cells at the addresses \<open>as\<close>, linked in this order: \<open>f\<close> points to the first, \<open>l\<close> to the last,
  \<open>p\<close> is the \<open>prev\<close> of the first and \<open>e\<close> the \<open>next\<close> of the last.
\<close>

primrec segment ::
  "('c \<Rightarrow> pointer) \<Rightarrow> ('c \<Rightarrow> pointer) \<Rightarrow> (nat \<rightharpoonup> 'c) \<Rightarrow> pointer \<Rightarrow> pointer \<Rightarrow> nat list \<Rightarrow> pointer \<Rightarrow> pointer \<Rightarrow> bool"
where
  "segment pv nx h p f [] l e = (f = e \<and> l = p)"
| "segment pv nx h p f (a # as) l e =
     (f = Some a \<and> (\<exists>c. h a = Some c \<and> pv c = p \<and> segment pv nx h (Some a) (nx c) as l e))"

definition chain ::
  "('c \<Rightarrow> pointer) \<Rightarrow> ('c \<Rightarrow> pointer) \<Rightarrow> (nat \<rightharpoonup> 'c) \<Rightarrow> pointer \<Rightarrow> pointer \<Rightarrow> nat list \<Rightarrow> bool" where
  "chain pv nx h f l as = (distinct as \<and> segment pv nx h None f as l None)"

lemma segment_append:
  "segment pv nx h p f (as @ bs) l e = (\<exists>m n. segment pv nx h p f as m n \<and> segment pv nx h m n bs l e)"
  by (induction as arbitrary: p f) auto

lemma segment_frame [simp]:
  "a \<notin> set as \<Longrightarrow> segment pv nx (h(a := x)) p f as l e = segment pv nx h p f as l e"
  by (induction as arbitrary: p f) auto

lemma segment_mapped: "segment pv nx h p f as l e \<Longrightarrow> set as \<subseteq> dom h"
  by (induction as arbitrary: p f) auto

definition first_of :: "nat list \<Rightarrow> pointer" where
  "first_of as = (case as of [] \<Rightarrow> None | a # _ \<Rightarrow> Some a)"

definition last_of :: "nat list \<Rightarrow> pointer" where
  "last_of as = (if as = [] then None else Some (last as))"

lemma ends_simps [simp]:
  "first_of [] = None" "first_of (a # as) = Some a" "last_of [] = None" "last_of [a] = Some a"
  "last_of (a # b # as) = last_of (b # as)" "last_of (as @ b # bs) = last_of (b # bs)"
  by (simp_all add: first_of_def last_of_def)

lemma ends_None [simp]: "first_of as = None \<longleftrightarrow> as = []" "last_of as = None \<longleftrightarrow> as = []"
  by (simp_all add: first_of_def last_of_def split: list.splits)

lemma chain_Nil [simp]: "chain pv nx h f l [] = (f = None \<and> l = None)"
  by (simp add: chain_def)

lemma segment_ends:
  assumes "segment pv nx h p f as l e"
  shows "f = (if as = [] then e else first_of as)" "l = (if as = [] then p else last_of as)"
  using assms by (cases as; simp) (use assms in \<open>cases as rule: rev_cases; auto simp: segment_append\<close>)

lemma chain_ends: "chain pv nx h f l as \<Longrightarrow> f = first_of as \<and> l = last_of as"
  by (cases "as = []") (auto simp: chain_def dest: segment_ends)

lemma chain_append:
  "chain pv nx h f l (as @ bs) \<longleftrightarrow> distinct (as @ bs) \<and>
     segment pv nx h None f as (last_of as) (first_of bs) \<and>
     segment pv nx h (last_of as) (first_of bs) bs l None"
proof -
  have "m = last_of as" if "segment pv nx h None f as m n" for m n
    using segment_ends(2) [OF that] by (simp split: if_split_asm)
  moreover have "n = first_of bs" if "segment pv nx h m n bs l None" for m n
    using segment_ends(1) [OF that] by (simp split: if_split_asm)
  ultimately show ?thesis unfolding chain_def segment_append by blast
qed

text \<open>
  The cells of the chain hold the values \<open>xs\<close>, in this order, and the heap holds no other cell; \<open>ct\<close> is what a
  cell holds beside its links.
\<close>

definition stands_for ::
  "('c \<Rightarrow> pointer) \<Rightarrow> ('c \<Rightarrow> pointer) \<Rightarrow> ('c \<Rightarrow> 'd) \<Rightarrow> (nat \<rightharpoonup> 'c) \<Rightarrow> pointer \<Rightarrow> pointer \<Rightarrow> nat list \<Rightarrow> 'd list \<Rightarrow> bool"
where
  "stands_for pv nx ct h f l as xs =
     (chain pv nx h f l as \<and> dom h = set as \<and> map (\<lambda>a. map_option ct (h a)) as = map Some xs)"

lemma content_frame [simp]:
  "a \<notin> set as \<Longrightarrow> map (\<lambda>b. map_option ct (if b = a then v else h b)) as = map (\<lambda>b. map_option ct (h b)) as"
  by (rule map_cong) auto

lemma stands_for_length: "stands_for pv nx ct h f l as xs \<Longrightarrow> length as = length xs"
  by (auto simp: stands_for_def dest: arg_cong [where f = length])

lemma stands_for_Nil [simp]:
  "stands_for pv nx ct h f l as [] \<longleftrightarrow> as = [] \<and> f = None \<and> l = None \<and> h = Map.empty"
  by (auto simp: stands_for_def)

lemma stands_for_append:
  assumes "stands_for pv nx ct h f l as (xs @ ys)"
  obtains us vs where "as = us @ vs" "length us = length xs" "length vs = length ys"
    "map (\<lambda>a. map_option ct (h a)) us = map Some xs" "map (\<lambda>a. map_option ct (h a)) vs = map Some ys"
proof -
  from assms have "map (\<lambda>a. map_option ct (h a)) as = map Some xs @ map Some ys" by (simp add: stands_for_def)
  then obtain us vs where as: "as = us @ vs" "map Some xs = map (\<lambda>a. map_option ct (h a)) us"
      "map Some ys = map (\<lambda>a. map_option ct (h a)) vs"
    by (auto simp: map_eq_append_conv)
  with as(2,3) [THEN map_eq_imp_length_eq] show ?thesis by (intro that) simp_all
qed

lemma stands_for_at:
  assumes "stands_for pv nx ct h f l as (xs @ x # ys)"
  obtains us a vs c where "as = us @ a # vs" "length us = length xs" "h a = Some c" "ct c = x"
    "pv c = last_of us" "nx c = first_of vs"
  using assms
proof (rule stands_for_append)
  fix us vs assume as: "as = us @ vs" "length us = length xs" "length vs = length (x # ys)"
    "map (\<lambda>a. map_option ct (h a)) vs = map Some (x # ys)"
  then obtain a ws where vs: "vs = a # ws" by (cases vs) auto
  moreover from assms have "chain pv nx h f l (us @ vs)" by (simp add: stands_for_def as(1))
  ultimately obtain c where "h a = Some c" "ct c = x" "pv c = last_of us" "nx c = first_of ws"
    using as(4) by (cases ws) (auto simp: chain_append)
  with as vs show ?thesis by (intro that [of us a ws c]) simp_all
qed

lemma stands_for_cell:
  assumes "stands_for pv nx ct h f l (us @ a # vs) (xs @ x # ys)" "length us = length xs"
  shows "\<exists>c. h a = Some c \<and> ct c = x \<and> pv c = last_of us \<and> nx c = first_of vs"
  using assms(1) by (rule stands_for_at) (use assms(2) in \<open>auto simp: append_eq_append_conv\<close>)

lemma stands_for_change:
  assumes "stands_for pv nx ct h f l (us @ a # vs) (xs @ x # ys)" "length us = length xs"
    and "h a = Some c" "pv c' = pv c" "nx c' = nx c"
  shows "stands_for pv nx ct (h(a \<mapsto> c')) f l (us @ a # vs) (xs @ ct c' # ys)"
  using assms by (auto simp: stands_for_def chain_def segment_append)

subsection \<open>Cells with two links\<close>

locale links =
  fixes pv nx :: "'c \<Rightarrow> pointer" and set_pv set_nx :: "pointer \<Rightarrow> 'c \<Rightarrow> 'c" and ct :: "'c \<Rightarrow> 'd"
  assumes pv_set_pv: "pv (set_pv q c) = q" and nx_set_pv: "nx (set_pv q c) = nx c"
    and pv_set_nx: "pv (set_nx q c) = pv c" and nx_set_nx: "nx (set_nx q c) = q"
    and ct_set_pv: "ct (set_pv q c) = ct c" and ct_set_nx: "ct (set_nx q c) = ct c"
begin

lemmas laws = pv_set_pv nx_set_pv pv_set_nx nx_set_nx ct_set_pv ct_set_nx

text \<open>The two neighbours of a cell after it left, or after it came between them.\<close>

definition left_of :: "pointer \<Rightarrow> pointer \<Rightarrow> (nat \<rightharpoonup> 'c) \<Rightarrow> (nat \<rightharpoonup> 'c)" where
  "left_of m q h = (case m of None \<Rightarrow> h | Some b \<Rightarrow> h(b := map_option (set_nx q) (h b)))"

definition right_of :: "pointer \<Rightarrow> pointer \<Rightarrow> (nat \<rightharpoonup> 'c) \<Rightarrow> (nat \<rightharpoonup> 'c)" where
  "right_of n q h = (case n of None \<Rightarrow> h | Some b \<Rightarrow> h(b := map_option (set_pv q) (h b)))"

lemma content_neighbours [simp]:
  "map_option ct (left_of m q h b) = map_option ct (h b)"
  "map_option ct (right_of m q h b) = map_option ct (h b)"
  by (auto simp: left_of_def right_of_def option.map_comp comp_def laws split: option.splits)

lemma dom_neighbours [simp]: "dom (left_of m q h) = dom h" "dom (right_of m q h) = dom h"
  by (auto simp: left_of_def right_of_def dom_def split: option.splits)

lemma ends_cases [case_names first middle]:
  assumes "segment pv nx h None f as m n"
  obtains "as = []" "m = None" "f = n"
    | us b c where "as = us @ [b]" "m = Some b" "h b = Some c" "nx c = n"
        "segment pv nx h None f us (pv c) (Some b)"
  using assms by (cases as rule: rev_cases) (auto simp: segment_append)

lemma starts_cases [case_names last middle]:
  assumes "segment pv nx h m n bs l None"
  obtains "bs = []" "n = None" "l = m"
    | b c vs where "bs = b # vs" "n = Some b" "h b = Some c" "pv c = m"
        "segment pv nx h (Some b) (nx c) vs l None"
  using assms by (cases bs) auto

lemma relink_frame:
  assumes "segment pv nx h None f as m x" "segment pv nx h y n bs l None" "distinct (as @ bs)"
  shows "segment pv nx (left_of m q (right_of n r h)) None (if as = [] then q else f) as m q"
    and "segment pv nx (left_of m q (right_of n r h)) r n bs (if bs = [] then r else l) None"
proof -
  from assms(1) show "segment pv nx (left_of m q (right_of n r h)) None (if as = [] then q else f) as m q"
  proof (cases rule: ends_cases)
    case (middle us b c)
    with assms(2,3) show ?thesis
      by (cases bs) (auto simp: left_of_def right_of_def segment_append laws split: option.splits)
  qed auto
  from assms(2) show "segment pv nx (left_of m q (right_of n r h)) r n bs (if bs = [] then r else l) None"
  proof (cases rule: starts_cases)
    case (middle b c vs)
    with assms(1,3) show ?thesis
      by (cases as rule: rev_cases) (auto simp: left_of_def right_of_def segment_append laws)
  qed auto
qed

text \<open>Taking the cell \<open>a\<close> out.\<close>

lemma unlink:
  assumes "stands_for pv nx ct h f l (us @ a # vs) (xs @ x # ys)" "length us = length xs" "h a = Some c"
  shows "stands_for pv nx ct ((left_of (pv c) (nx c) (right_of (nx c) (pv c) h))(a := None))
     (if us = [] then nx c else f) (if vs = [] then pv c else l) (us @ vs) (xs @ ys)"
proof -
  let ?h = "left_of (pv c) (nx c) (right_of (nx c) (pv c) h)"
  from assms have seg: "segment pv nx h None f us (pv c) (Some a)" "segment pv nx h (Some a) (nx c) vs l None"
    and fresh: "a \<notin> set us" "a \<notin> set vs" and d: "distinct (us @ vs)"
    by (auto simp: stands_for_def chain_def segment_append)
  from relink_frame [OF seg d, of "nx c" "pv c"] fresh d
  have "chain pv nx (?h(a := None)) (if us = [] then nx c else f) (if vs = [] then pv c else l) (us @ vs)"
    unfolding chain_def segment_append by (intro conjI d exI) simp_all
  moreover have "map (\<lambda>b. map_option ct ((?h(a := None)) b)) (us @ vs) = map Some (xs @ ys)"
    using assms fresh by (auto simp: stands_for_def)
  ultimately show ?thesis using assms(1) fresh by (auto simp: stands_for_def)
qed

text \<open>Putting a new cell between two others.\<close>

lemma link:
  assumes "stands_for pv nx ct h f l (us @ vs) (xs @ ys)" "length us = length xs"
    and "h a = None" "pv c = last_of us" "nx c = first_of vs"
  shows "stands_for pv nx ct ((left_of (pv c) (Some a) (right_of (nx c) (Some a) h))(a \<mapsto> c))
     (if us = [] then Some a else f) (if vs = [] then Some a else l) (us @ a # vs) (xs @ ct c # ys)"
proof -
  let ?h = "left_of (pv c) (Some a) (right_of (nx c) (Some a) h)"
  from assms have seg: "segment pv nx h None f us (pv c) (nx c)" "segment pv nx h (pv c) (nx c) vs l None"
    and fresh: "a \<notin> set us" "a \<notin> set vs" and d: "distinct (us @ vs)"
    by (auto simp: stands_for_def chain_append)
  from fresh d relink_frame [OF seg d, of "Some a" "Some a"]
  have "chain pv nx (?h(a \<mapsto> c)) (if us = [] then Some a else f) (if vs = [] then Some a else l) (us @ a # vs)"
    by (auto simp: chain_def segment_append)
  moreover have "map (\<lambda>b. map_option ct ((?h(a \<mapsto> c)) b)) (us @ a # vs) = map Some (xs @ ct c # ys)"
    using assms fresh by (auto simp: stands_for_def)
  ultimately show ?thesis using assms(1) by (auto simp: stands_for_def)
qed

end

end
