(* ===== verification/Safe_List.thy ===== *)
theory Safe_List
  imports Chains
begin

text \<open>
  The list of received packets, \<open>CWSafeList.c\<close>: a deque of data pointers as doubly linked elements in a
  heap. A list is its header and the elements in the heap; \<open>None\<close> for the header is the null list. An
  element is allocated at the address \<open>new\<close>, or \<open>new\<close> is \<open>NULL\<close> and the allocation failed. What
  \<open>pthread\<close> answers to locking a mutex and waiting on a condition are the arguments \<open>lock\<close> and \<open>wait\<close>;
  the functions that add an element also return the condition they signal.
\<close>

subsection \<open>State\<close>

record CWPrivateSafeElement =
  pData :: pointer
  nSize :: u32
  pPrev :: pointer
  pNext :: pointer

record CWPrivateSafeList =
  pThreadMutex :: pointer
  pThreadCond :: pointer
  nCount :: u32
  pFirstElement :: pointer
  pLastElement :: pointer

type_synonym elements = "nat \<rightharpoonup> CWPrivateSafeElement"
type_synonym safe_list = "CWPrivateSafeList option"

subsection \<open>Operations\<close>

definition CWCreateSafeList :: "bool \<Rightarrow> safe_list" where
  "CWCreateSafeList allocated =
     (if \<not> allocated then None
      else Some \<lparr>pThreadMutex = None, pThreadCond = None, nCount = 0, pFirstElement = None, pLastElement = None\<rparr>)"

definition CWSetMutexSafeList :: "safe_list \<Rightarrow> pointer \<Rightarrow> safe_list" where
  "CWSetMutexSafeList L m = map_option (\<lambda>l. l\<lparr>pThreadMutex := m\<rparr>) L"

definition CWSetConditionSafeList :: "safe_list \<Rightarrow> pointer \<Rightarrow> safe_list" where
  "CWSetConditionSafeList L c = map_option (\<lambda>l. l\<lparr>pThreadCond := c\<rparr>) L"

definition CWLockSafeList :: "(nat \<Rightarrow> bool) \<Rightarrow> safe_list \<Rightarrow> bool" where
  "CWLockSafeList lock L =
     (case L of None \<Rightarrow> False | Some l \<Rightarrow> (case pThreadMutex l of None \<Rightarrow> False | Some m \<Rightarrow> lock m))"

definition CWWaitElementFromSafeList :: "(nat \<Rightarrow> nat \<Rightarrow> bool) \<Rightarrow> safe_list \<Rightarrow> bool" where
  "CWWaitElementFromSafeList wait L =
     (case L of
        None \<Rightarrow> False
      | Some l \<Rightarrow> (case (pThreadMutex l, pThreadCond l) of (Some m, Some c) \<Rightarrow> wait c m | _ \<Rightarrow> False))"

definition CWSignalElementSafeList :: "safe_list \<Rightarrow> bool \<times> nat list" where
  "CWSignalElementSafeList L =
     (case L of
        None \<Rightarrow> (False, [])
      | Some l \<Rightarrow> (case pThreadCond l of None \<Rightarrow> (False, []) | Some c \<Rightarrow> (True, [c])))"

definition CWGetCountElementFromSafeList :: "safe_list \<Rightarrow> u32" where
  "CWGetCountElementFromSafeList L = (case L of None \<Rightarrow> 0 | Some l \<Rightarrow> nCount l)"

definition CWAddElementToSafeListHead ::
  "pointer \<Rightarrow> safe_list \<Rightarrow> elements \<Rightarrow> pointer \<Rightarrow> u32 \<Rightarrow> (bool \<times> safe_list \<times> elements \<times> nat list) option" where
  "CWAddElementToSafeListHead new L h data n =
     (case (L, data, new) of
        (Some l, Some d, Some a) \<Rightarrow> do {
          let h = h(a \<mapsto> \<lparr>pData = Some d, nSize = n, pPrev = None, pNext = pFirstElement l\<rparr>);
          h \<leftarrow> (if pFirstElement l \<noteq> None then assign h (pFirstElement l) (pPrev_update (\<lambda>_. Some a))
               else Some h);
          let l = l\<lparr>pFirstElement := Some a\<rparr>;
          let l = (if pLastElement l = None then l\<lparr>pLastElement := Some a\<rparr> else l);
          let l = l\<lparr>nCount := nCount l + 1\<rparr>;
          Some (True, Some l, h, snd (CWSignalElementSafeList (Some l)))
        }
      | _ \<Rightarrow> Some (False, L, h, []))"

text \<open>The data and the size of the element (\<open>pSize\<close>), or \<open>NULL\<close>.\<close>

definition CWGetHeadElementFromSafeList ::
  "safe_list \<Rightarrow> elements \<Rightarrow> (pointer \<times> u32 option) option" where
  "CWGetHeadElementFromSafeList L h =
     (case L of
        None \<Rightarrow> Some (None, None)
      | Some l \<Rightarrow>
          if pFirstElement l = None then Some (None, None)
          else do { e \<leftarrow> deref h (pFirstElement l); Some (pData e, Some (nSize e)) })"

definition CWRemoveHeadElementFromSafeList ::
  "safe_list \<Rightarrow> elements \<Rightarrow> ((pointer \<times> u32 option) \<times> safe_list \<times> elements) option" where
  "CWRemoveHeadElementFromSafeList L h =
     (case L of
        None \<Rightarrow> Some ((None, None), L, h)
      | Some l \<Rightarrow>
          (case pFirstElement l of
             None \<Rightarrow> Some ((None, None), L, h)
           | Some a \<Rightarrow> do {
               e \<leftarrow> h a;
               let l = l\<lparr>pFirstElement := pNext e\<rparr>;
               (l, h) \<leftarrow> (if pFirstElement l = None then Some (l\<lparr>pLastElement := None\<rparr>, h)
                         else do {
                           h \<leftarrow> assign h (pFirstElement l) (pPrev_update (\<lambda>_. None));
                           Some (l, h) });
               Some ((pData e, Some (nSize e)), Some (l\<lparr>nCount := nCount l - 1\<rparr>), h(a := None))
             }))"

definition CWAddElementToSafeListTail ::
  "pointer \<Rightarrow> safe_list \<Rightarrow> elements \<Rightarrow> pointer \<Rightarrow> u32 \<Rightarrow> (bool \<times> safe_list \<times> elements \<times> nat list) option" where
  "CWAddElementToSafeListTail new L h data n =
     (case (L, data, new) of
        (Some l, Some d, Some a) \<Rightarrow> do {
          let h = h(a \<mapsto> \<lparr>pData = Some d, nSize = n, pPrev = pLastElement l, pNext = None\<rparr>);
          h \<leftarrow> (if pLastElement l \<noteq> None then assign h (pLastElement l) (pNext_update (\<lambda>_. Some a))
               else Some h);
          let l = l\<lparr>pLastElement := Some a\<rparr>;
          let l = (if pFirstElement l = None then l\<lparr>pFirstElement := Some a\<rparr> else l);
          let l = l\<lparr>nCount := nCount l + 1\<rparr>;
          Some (True, Some l, h, snd (CWSignalElementSafeList (Some l)))
        }
      | _ \<Rightarrow> Some (False, L, h, []))"

definition CWRemoveTailElementFromSafeList ::
  "safe_list \<Rightarrow> elements \<Rightarrow> ((pointer \<times> u32 option) \<times> safe_list \<times> elements) option" where
  "CWRemoveTailElementFromSafeList L h =
     (case L of
        None \<Rightarrow> Some ((None, None), L, h)
      | Some l \<Rightarrow>
          (case pLastElement l of
             None \<Rightarrow> Some ((None, None), L, h)
           | Some a \<Rightarrow> do {
               e \<leftarrow> h a;
               let l = l\<lparr>pLastElement := pPrev e\<rparr>;
               (l, h) \<leftarrow> (if pLastElement l = None then Some (l\<lparr>pFirstElement := None\<rparr>, h)
                         else do {
                           h \<leftarrow> assign h (pLastElement l) (pNext_update (\<lambda>_. None));
                           Some (l, h) });
               Some ((pData e, Some (nSize e)), Some (l\<lparr>nCount := nCount l - 1\<rparr>), h(a := None))
             }))"

text \<open>
  The loop of \<open>CWCleanSafeList\<close>; \<open>deleted\<close> are the data pointers that went to \<open>deleteFunc\<close>. A loop
  that never finds the list empty is the value \<open>None\<close>.
\<close>

partial_function (option) clean_loop ::
  "bool \<Rightarrow> safe_list \<Rightarrow> elements \<Rightarrow> nat list \<Rightarrow> (nat list \<times> safe_list \<times> elements) option" where
  "clean_loop with_delete L h deleted = do {
     (r, L, h) \<leftarrow> CWRemoveHeadElementFromSafeList L h;
     (case fst r of
        None \<Rightarrow> Some (deleted, L, h)
      | Some d \<Rightarrow> clean_loop with_delete L h (if with_delete then deleted @ [d] else deleted))
   }"

definition CWCleanSafeList ::
  "bool \<Rightarrow> safe_list \<Rightarrow> elements \<Rightarrow> (nat list \<times> safe_list \<times> elements) option" where
  "CWCleanSafeList with_delete L h = clean_loop with_delete L h []"

subsection \<open>The deque\<close>

definition payload :: "CWPrivateSafeElement \<Rightarrow> pointer \<times> u32" where
  "payload e = (pData e, nSize e)"

interpretation elem: links pPrev pNext "\<lambda>q e. e\<lparr>pPrev := q\<rparr>" "\<lambda>q e. e\<lparr>pNext := q\<rparr>" payload
  by unfold_locales (simp_all add: payload_def)

text \<open>The list stands for the sequence \<open>xs\<close> of data pointers with their sizes; nothing else is allocated.\<close>

definition is_deque :: "safe_list \<Rightarrow> elements \<Rightarrow> (nat \<times> u32) list \<Rightarrow> bool" where
  "is_deque L h xs =
     (\<exists>l as. L = Some l \<and> nCount l = of_nat (length xs) \<and>
        stands_for pPrev pNext payload h (pFirstElement l) (pLastElement l) as (map (map_prod Some (\<lambda>n. n)) xs))"

lemma is_deque_cases:
  assumes "is_deque L h xs"
  obtains l as where "L = Some l" "nCount l = of_nat (length xs)"
      "stands_for pPrev pNext payload h (pFirstElement l) (pLastElement l) as (map (map_prod Some (\<lambda>n. n)) xs)"
      "pFirstElement l = first_of as" "pLastElement l = last_of as" "length as = length xs" "dom h = set as"
proof -
  from assms obtain l as where l: "L = Some l" "nCount l = of_nat (length xs)"
    and s: "stands_for pPrev pNext payload h (pFirstElement l) (pLastElement l) as (map (map_prod Some (\<lambda>n. n)) xs)"
    by (auto simp: is_deque_def)
  with stands_for_length [OF s] show ?thesis
    by (intro that [of l as]) (auto simp: stands_for_def dest: chain_ends)
qed

lemma is_deque_finite: "is_deque L h xs \<Longrightarrow> finite (dom h)"
  by (auto elim!: is_deque_cases)

lemma is_deque_created: "is_deque (CWCreateSafeList True) Map.empty []"
  by (auto simp: is_deque_def CWCreateSafeList_def)

lemma is_deque_count: "is_deque L h xs \<Longrightarrow> CWGetCountElementFromSafeList L = of_nat (length xs)"
  by (auto simp: is_deque_def CWGetCountElementFromSafeList_def)

lemmas relinking = elem.left_of_def elem.right_of_def Let_def fun_upd_twist

lemma add_head:
  assumes "is_deque L h xs" "h a = None"
  shows "\<exists>L' h' out. CWAddElementToSafeListHead (Some a) L h (Some d) n = Some (True, L', h', out) \<and>
    is_deque L' h' ((d, n) # xs)"
  using assms(1)
proof (cases rule: is_deque_cases)
  case (1 l as)
  let ?e = "\<lparr>pData = Some d, nSize = n, pPrev = None, pNext = pFirstElement l\<rparr>"
  from 1 assms(2) have linked: "stands_for pPrev pNext payload
     ((elem.left_of None (Some a) (elem.right_of (pFirstElement l) (Some a) h))(a \<mapsto> ?e))
     (Some a) (if as = [] then Some a else pLastElement l) (a # as) (map (map_prod Some (\<lambda>n. n)) ((d, n) # xs))"
    using elem.link [of h _ _ "[]" as "[]" _ a ?e] by (auto simp: payload_def)
  moreover have "a \<notin> set as" using 1(7) assms(2) by auto
  with 1 have "\<exists>out l'. CWAddElementToSafeListHead (Some a) L h (Some d) n =
      Some (True, Some l', (elem.left_of None (Some a) (elem.right_of (pFirstElement l) (Some a) h))(a \<mapsto> ?e), out) \<and>
      pFirstElement l' = Some a \<and> pLastElement l' = (if as = [] then Some a else pLastElement l) \<and>
      nCount l' = nCount l + 1"
    by (cases as) (auto simp: CWAddElementToSafeListHead_def relinking dom_def split: option.splits)
  ultimately show ?thesis using 1(2) by (force simp: is_deque_def)
qed

lemma add_tail:
  assumes "is_deque L h xs" "h a = None"
  shows "\<exists>L' h' out. CWAddElementToSafeListTail (Some a) L h (Some d) n = Some (True, L', h', out) \<and>
    is_deque L' h' (xs @ [(d, n)])"
  using assms(1)
proof (cases rule: is_deque_cases)
  case (1 l as)
  let ?e = "\<lparr>pData = Some d, nSize = n, pPrev = pLastElement l, pNext = None\<rparr>"
  from 1 assms(2) have linked: "stands_for pPrev pNext payload
     ((elem.left_of (pLastElement l) (Some a) (elem.right_of None (Some a) h))(a \<mapsto> ?e))
     (if as = [] then Some a else pFirstElement l) (Some a) (as @ [a])
     (map (map_prod Some (\<lambda>n. n)) (xs @ [(d, n)]))"
    using elem.link [of h _ _ as "[]" _ "[]" a ?e] by (auto simp: payload_def)
  moreover have "a \<notin> set as" using 1(7) assms(2) by auto
  with 1 have "\<exists>out l'. CWAddElementToSafeListTail (Some a) L h (Some d) n =
      Some (True, Some l', (elem.left_of (pLastElement l) (Some a) (elem.right_of None (Some a) h))(a \<mapsto> ?e), out) \<and>
      pFirstElement l' = (if as = [] then Some a else pFirstElement l) \<and> pLastElement l' = Some a \<and>
      nCount l' = nCount l + 1"
    by (cases as rule: rev_cases) (auto simp: CWAddElementToSafeListTail_def relinking dom_def split: option.splits)
  ultimately show ?thesis using 1(2) by (force simp: is_deque_def)
qed

lemma remove_head:
  assumes "is_deque L h ((d, n) # xs)"
  shows "\<exists>L' h'. CWRemoveHeadElementFromSafeList L h = Some ((Some d, Some n), L', h') \<and> is_deque L' h' xs"
  using assms
proof (cases rule: is_deque_cases)
  case (1 l as)
  from 1(3) have s: "stands_for pPrev pNext payload h (pFirstElement l) (pLastElement l) as
      ([] @ (Some d, n) # map (map_prod Some (\<lambda>n. n)) xs)" by simp
  then obtain a vs e where as: "as = a # vs" and e: "h a = Some e" "payload e = (Some d, n)"
      "pPrev e = None" "pNext e = first_of vs"
    by (rule stands_for_at) auto
  have "stands_for pPrev pNext payload ((elem.left_of None (pNext e) (elem.right_of (pNext e) None h))(a := None))
     (pNext e) (if vs = [] then None else pLastElement l) vs (map (map_prod Some (\<lambda>n. n)) xs)"
    using elem.unlink [of h "pFirstElement l" "pLastElement l" "[]" a vs "[]" "(Some d, n)"
        "map (map_prod Some (\<lambda>n. n)) xs" e] s as e by (cases "vs = []") simp_all
  moreover have "\<exists>l'. CWRemoveHeadElementFromSafeList L h = Some ((Some d, Some n), Some l',
        (elem.left_of None (pNext e) (elem.right_of (pNext e) None h))(a := None)) \<and>
      pFirstElement l' = pNext e \<and> pLastElement l' = (if vs = [] then None else pLastElement l) \<and>
      nCount l' = nCount l - 1"
    using 1 as e
    by (cases vs) (auto simp: CWRemoveHeadElementFromSafeList_def relinking payload_def dom_def split: option.splits)
  ultimately show ?thesis using 1(2) by (force simp: is_deque_def)
qed

lemma remove_tail:
  assumes "is_deque L h (xs @ [(d, n)])"
  shows "\<exists>L' h'. CWRemoveTailElementFromSafeList L h = Some ((Some d, Some n), L', h') \<and> is_deque L' h' xs"
  using assms
proof (cases rule: is_deque_cases)
  case (1 l as)
  from 1(3) have s: "stands_for pPrev pNext payload h (pFirstElement l) (pLastElement l) as
      (map (map_prod Some (\<lambda>n. n)) xs @ (Some d, n) # [])" by simp
  then obtain a us e where as: "as = us @ [a]" "length us = length xs" and e: "h a = Some e" "payload e = (Some d, n)"
      "pPrev e = last_of us" "pNext e = None"
    using 1(6) by (elim stands_for_at) (auto simp: append_eq_append_conv)
  from elem.unlink [OF s [unfolded as]] as(2) e
  have "stands_for pPrev pNext payload ((elem.left_of (pPrev e) None (elem.right_of None (pPrev e) h))(a := None))
     (if us = [] then None else pFirstElement l) (pPrev e) us (map (map_prod Some (\<lambda>n. n)) xs)"
    by auto
  moreover have "\<exists>l'. CWRemoveTailElementFromSafeList L h = Some ((Some d, Some n), Some l',
        (elem.left_of (pPrev e) None (elem.right_of None (pPrev e) h))(a := None)) \<and>
      pFirstElement l' = (if us = [] then None else pFirstElement l) \<and> pLastElement l' = pPrev e \<and>
      nCount l' = nCount l - 1"
    using 1 as e
    by (cases us rule: rev_cases)
      (auto simp: CWRemoveTailElementFromSafeList_def relinking payload_def dom_def split: option.splits)
  ultimately show ?thesis using 1(2) by (force simp: is_deque_def)
qed

lemma remove_empty:
  assumes "is_deque L h []"
  shows "CWRemoveHeadElementFromSafeList L h = Some ((None, None), L, h)"
    and "CWRemoveTailElementFromSafeList L h = Some ((None, None), L, h)"
  using assms by (auto simp: CWRemoveHeadElementFromSafeList_def CWRemoveTailElementFromSafeList_def
      elim!: is_deque_cases)

lemma get_head:
  assumes "is_deque L h xs"
  shows "CWGetHeadElementFromSafeList L h =
    Some (case xs of [] \<Rightarrow> (None, None) | (d, n) # _ \<Rightarrow> (Some d, Some n))"
  using assms
proof (cases rule: is_deque_cases)
  case (1 l as)
  then show ?thesis
    by (cases as; cases xs)
      (auto simp: CWGetHeadElementFromSafeList_def payload_def stands_for_def split: prod.splits)
qed

lemma clean_loop_empties:
  assumes "is_deque L h xs"
  shows "\<exists>L' h'. clean_loop w L h ds = Some (if w then ds @ map fst xs else ds, L', h') \<and> is_deque L' h' []"
  using assms
proof (induction xs arbitrary: L h ds)
  case Nil
  then show ?case by (simp add: clean_loop.simps remove_empty)
next
  case (Cons x xs)
  obtain d n where x: "x = (d, n)" by fastforce
  with Cons.prems obtain L' h' where "CWRemoveHeadElementFromSafeList L h = Some ((Some d, Some n), L', h')"
    "is_deque L' h' xs" using remove_head by blast
  with Cons.IH [of L' h' "if w then ds @ [d] else ds"] show ?case
    by (auto simp: clean_loop.simps [of w L h] x)
qed

subsection \<open>Sequences of operations\<close>

datatype deque_op =
    Add_head nat u32
  | Add_tail nat u32
  | Get_head
  | Remove_head
  | Remove_tail
  | Count
  | Clean

datatype reply = Added bool | Element pointer "u32 option" | Number u32 | Deleted "nat list"

definition perform ::
  "(elements \<Rightarrow> nat) \<Rightarrow> deque_op \<Rightarrow> safe_list \<times> elements \<Rightarrow> (reply \<times> safe_list \<times> elements) option" where
  "perform malloc op = (\<lambda>(L, h).
     (case op of
        Add_head d n \<Rightarrow> do {
          (ok, L, h, out) \<leftarrow> CWAddElementToSafeListHead (Some (malloc h)) L h (Some d) n;
          Some (Added ok, L, h) }
      | Add_tail d n \<Rightarrow> do {
          (ok, L, h, out) \<leftarrow> CWAddElementToSafeListTail (Some (malloc h)) L h (Some d) n;
          Some (Added ok, L, h) }
      | Get_head \<Rightarrow> do { (d, n) \<leftarrow> CWGetHeadElementFromSafeList L h; Some (Element d n, L, h) }
      | Remove_head \<Rightarrow> do {
          ((d, n), L, h) \<leftarrow> CWRemoveHeadElementFromSafeList L h; Some (Element d n, L, h) }
      | Remove_tail \<Rightarrow> do {
          ((d, n), L, h) \<leftarrow> CWRemoveTailElementFromSafeList L h; Some (Element d n, L, h) }
      | Count \<Rightarrow> Some (Number (CWGetCountElementFromSafeList L), L, h)
      | Clean \<Rightarrow> do { (ds, L, h) \<leftarrow> CWCleanSafeList True L h; Some (Deleted ds, L, h) }))"

fun perform_all ::
  "(elements \<Rightarrow> nat) \<Rightarrow> deque_op list \<Rightarrow> safe_list \<times> elements \<Rightarrow> (reply list \<times> safe_list \<times> elements) option"
where
  "perform_all malloc [] s = Some ([], s)"
| "perform_all malloc (op # ops) s = do {
     (r, s) \<leftarrow> perform malloc op s;
     (rs, s) \<leftarrow> perform_all malloc ops s;
     Some (r # rs, s) }"

text \<open>The same on a plain sequence.\<close>

fun deque :: "deque_op \<Rightarrow> (nat \<times> u32) list \<Rightarrow> reply \<times> (nat \<times> u32) list" where
  "deque (Add_head d n) xs = (Added True, (d, n) # xs)"
| "deque (Add_tail d n) xs = (Added True, xs @ [(d, n)])"
| "deque Get_head xs = (case xs of [] \<Rightarrow> Element None None | (d, n) # _ \<Rightarrow> Element (Some d) (Some n), xs)"
| "deque Remove_head xs =
     (case xs of [] \<Rightarrow> (Element None None, []) | (d, n) # xs \<Rightarrow> (Element (Some d) (Some n), xs))"
| "deque Remove_tail xs =
     (if xs = [] then (Element None None, [])
      else (Element (Some (fst (last xs))) (Some (snd (last xs))), butlast xs))"
| "deque Count xs = (Number (of_nat (length xs)), xs)"
| "deque Clean xs = (Deleted (map fst xs), [])"

fun deque_all :: "deque_op list \<Rightarrow> (nat \<times> u32) list \<Rightarrow> reply list \<times> (nat \<times> u32) list" where
  "deque_all [] xs = ([], xs)"
| "deque_all (op # ops) xs =
     (let (r, xs) = deque op xs; (rs, xs) = deque_all ops xs in (r # rs, xs))"

lemma perform_deque:
  assumes "is_deque L h xs" and malloc: "\<forall>h. finite (dom h) \<longrightarrow> h (malloc h) = None"
  shows "\<exists>L' h'. perform malloc op (L, h) = Some (fst (deque op xs), L', h') \<and> is_deque L' h' (snd (deque op xs))"
proof (cases op)
  case (Add_head d n)
  with add_head [OF assms(1) malloc [rule_format, OF is_deque_finite [OF assms(1)]], of d n] show ?thesis
    by (auto simp: perform_def)
next
  case (Add_tail d n)
  with add_tail [OF assms(1) malloc [rule_format, OF is_deque_finite [OF assms(1)]], of d n] show ?thesis
    by (auto simp: perform_def)
next
  case Remove_head
  with assms(1) remove_empty remove_head show ?thesis
    by (cases xs) (force simp: perform_def)+
next
  case Remove_tail
  with assms(1) remove_empty remove_tail show ?thesis
    by (cases xs rule: rev_cases) (force simp: perform_def)+
next
  case Clean
  with clean_loop_empties [OF assms(1), of True "[]"] show ?thesis
    by (auto simp: perform_def CWCleanSafeList_def)
qed (use assms(1) in \<open>auto simp: perform_def get_head is_deque_count split: list.splits\<close>)

lemma perform_all_deque:
  assumes "is_deque L h xs" and malloc: "\<forall>h. finite (dom h) \<longrightarrow> h (malloc h) = None"
  shows "\<exists>L' h'. perform_all malloc ops (L, h) = Some (fst (deque_all ops xs), L', h') \<and>
    is_deque L' h' (snd (deque_all ops xs))"
  using assms(1)
proof (induction ops arbitrary: L h xs)
  case (Cons op ops)
  from perform_deque [OF Cons.prems malloc] obtain L' h' where
    p: "perform malloc op (L, h) = Some (fst (deque op xs), L', h')" "is_deque L' h' (snd (deque op xs))"
    by blast
  with Cons.IH [OF p(2)] show ?case by (auto simp: split_beta Let_def)
qed simp

subsection \<open>Properties\<close>

text \<open>
  C16: The linked list of packets is a deque: from an empty list any sequence of additions and removals at
  both ends, counts and clearings never follows a bad pointer, always returns (clearing included, which hands every
  element to the function that frees it, in order), answers each operation the way a plain
  sequence does, and leaves allocated exactly the elements still in the list.
\<close>

theorem safe_list_is_a_deque:
  assumes "\<forall>h. finite (dom h) \<longrightarrow> h (malloc h) = None"
  shows "\<exists>l h as. perform_all malloc ops (CWCreateSafeList True, Map.empty) =
      Some (fst (deque_all ops []), Some l, h) \<and>
    chain pPrev pNext h (pFirstElement l) (pLastElement l) as \<and> dom h = set as \<and>
    map (\<lambda>a. map_option payload (h a)) as = map (\<lambda>(d, n). Some (Some d, n)) (snd (deque_all ops []))"
  using perform_all_deque [OF is_deque_created assms, of ops]
  by (auto simp: is_deque_def stands_for_def map_prod_def comp_def split_def)

definition lowest_free :: "elements \<Rightarrow> nat" where
  "lowest_free h = (LEAST a. h a = None)"

lemma lowest_free:
  assumes "finite (dom h)"
  shows "h (lowest_free h) = None"
proof -
  obtain a where "h a = None" using ex_new_if_finite [OF infinite_UNIV_nat assms] by auto
  then show ?thesis unfolding lowest_free_def by (rule LeastI)
qed

lemma safe_list_is_a_deque_witness:
  "\<exists>l h. perform_all lowest_free [Add_tail 1 10, Add_head 2 20, Remove_tail, Count, Remove_head, Remove_head]
     (CWCreateSafeList True, Map.empty) =
   Some ([Added True, Added True, Element (Some 1) (Some 10), Number 1, Element (Some 2) (Some 20),
          Element None None], Some l, h)"
  using safe_list_is_a_deque [of lowest_free
      "[Add_tail 1 10, Add_head 2 20, Remove_tail, Count, Remove_head, Remove_head]"]
  by (auto simp: lowest_free)

end
