(* ===== verification/WTP_Vendor.thy ===== *)
theory WTP_Vendor
  imports Binding "HOL-Library.Signed_Division" "HOL-Library.Product_Lexorder"
begin

text \<open>
  The vendor payloads at the WTP (\<open>CWVendorPayloadsWTP.c\<close>): commands of UCI, which are handed to a server on the
  same host, and the messages of the update manager, which store an update package in a file and start the
  agent that installs it. The parsers, the state machine of the update and the exchange with the server are here, and the
  payload of the response (\<open>CWProtocol.c\<close>). The messages they travel in are those of the Run state.

  The environment says which calls of the operating system succeed. A file is its bytes, or none; what the
  stream keeps in its buffer is not told apart from what is on the disk. In C the version with the size of the package and the
  fields of a fragment share their memory; an order uses one of the two groups only, so they are separate fields here.
\<close>

subsection \<open>Parsing a payload\<close>

text \<open>The type of the payload is the constructor.\<close>

record wtp_uci = CWVendorUciValues +
  uci_response :: "u8 list option"

datatype vendor_payload = Uci_payload wtp_uci | Wum_payload CWVendorWumValues

definition sizeof_CWVendorUciValues :: nat where "sizeof_CWVendorUciValues = 24"
definition sizeof_CWVendorWumValues :: nat where "sizeof_CWVendorWumValues = 24"

text \<open>The block for a string of \<open>n\<close> bytes, \<open>n\<close> an \<open>int\<close>; \<open>malloc\<close> refuses a negative size.\<close>

definition string_block :: "(nat \<Rightarrow> bool) \<Rightarrow> u32 \<Rightarrow> bool" where
  "string_block alloc n = (if 0 \<le> sint n then alloc (nat (sint n) + 1) else sint n = - 1 \<and> alloc 0)"

text \<open>The arguments are allocated twice: the first block is lost.\<close>

definition CWParseUCIPayload :: "(nat \<Rightarrow> bool) \<Rightarrow> cw_msg \<Rightarrow> (CWErrorCode + wtp_uci \<times> cw_msg) option" where
  "CWParseUCIPayload alloc m =
     (if \<not> alloc sizeof_CWVendorUciValues then Some (Inl CW_ERROR_OUT_OF_MEMORY)
      else do {
        (command, m) \<leftarrow> CWProtocolRetrieve8 m;
        (argsLen, m) \<leftarrow> CWProtocolRetrieve32 m;
        if argsLen = 0 then Some (Inr (\<lparr>uci_command = command, uci_commandArgs = None, uci_response = None\<rparr>, m))
        else if \<not> string_block alloc argsLen then Some (Inl CW_ERROR_OUT_OF_MEMORY)
        else do {
          (args, m) \<leftarrow> retrieve_str_int alloc argsLen m;
          Some (Inr (\<lparr>uci_command = command, uci_commandArgs = args, uci_response = None\<rparr>, m))
        }
      })"

definition retrieve_raw_int :: "(nat \<Rightarrow> bool) \<Rightarrow> u32 \<Rightarrow> cw_msg \<Rightarrow> (u8 list option \<times> cw_msg) option" where
  "retrieve_raw_int alloc n m =
     (if 0 \<le> sint n then CWProtocolRetrieveRawBytes alloc (nat (sint n)) m else Some (None, m))"

text \<open>\<open>junk\<close> is what the new object holds.\<close>

definition CWParseWUMPayload ::
  "(nat \<Rightarrow> bool) \<Rightarrow> CWVendorWumValues \<Rightarrow> cw_msg \<Rightarrow> (CWErrorCode + CWVendorWumValues \<times> cw_msg) option" where
  "CWParseWUMPayload alloc junk m =
     (if \<not> alloc sizeof_CWVendorWumValues then Some (Inl CW_ERROR_OUT_OF_MEMORY)
      else do {
        (type, m) \<leftarrow> CWProtocolRetrieve8 m;
        let w = junk\<lparr>wum_type := type\<rparr>;
        if type = WTP_UPDATE_REQUEST then do {
          (major, m) \<leftarrow> CWProtocolRetrieve8 m;
          (minor, m) \<leftarrow> CWProtocolRetrieve8 m;
          (revision, m) \<leftarrow> CWProtocolRetrieve8 m;
          (pack_size, m) \<leftarrow> CWProtocolRetrieve32 m;
          Some (Inr (w\<lparr>wum_major_v := major, wum_minor_v := minor, wum_revision_v := revision,
                       wum_pack_size := pack_size\<rparr>, m)) }
        else if type = WTP_CUP_FRAGMENT then do {
          (seq_num, m) \<leftarrow> CWProtocolRetrieve32 m;
          (cup_size, m) \<leftarrow> CWProtocolRetrieve32 m;
          (cup, m) \<leftarrow> retrieve_raw_int alloc cup_size m;
          Some (Inr (w\<lparr>wum_seq_num := seq_num, wum_cup_fragment_size := cup_size, wum_cup := cup\<rparr>, m)) }
        else Some (Inr (w, m))
      })"

text \<open>
  After a parser failed the cleanup goes through a pointer it never assigned. An unknown payload fails without an error.
  The length of the element is not used.
\<close>

definition CWParseVendorPayload ::
  "(nat \<Rightarrow> bool) \<Rightarrow> CWVendorWumValues \<Rightarrow> cw_msg \<Rightarrow> (CWErrorCode + vendor_payload \<times> cw_msg) option" where
  "CWParseVendorPayload alloc junk m = do {
     (kind, m) \<leftarrow> CWProtocolRetrieve16 m;
     if kind = CW_MSG_ELEMENT_VENDOR_SPEC_PAYLOAD_UCI then do {
       r \<leftarrow> CWParseUCIPayload alloc m;
       (case r of Inl e \<Rightarrow> None | Inr (u, m) \<Rightarrow> Some (Inr (Uci_payload u, m))) }
     else if kind = CW_MSG_ELEMENT_VENDOR_SPEC_PAYLOAD_WUM then do {
       r \<leftarrow> CWParseWUMPayload alloc junk m;
       (case r of Inl e \<Rightarrow> None | Inr (w, m) \<Rightarrow> Some (Inr (Wum_payload w, m))) }
     else Some (Inl CW_ERROR_NONE)
   }"

subsection \<open>The state of an update\<close>

definition WUM_STATE_WAIT :: u8 where "WUM_STATE_WAIT = 0"
definition WUM_STATE_BUSY :: u8 where "WUM_STATE_BUSY = 1"
definition WUM_STATE_READY :: u8 where "WUM_STATE_READY = 2"

definition CUP_FRAGMENT_SIZE :: nat where "CUP_FRAGMENT_SIZE = 4000"

text \<open>
  \<open>cupTmp\<close> is whether the pointer to the stream is not null, \<open>cup_file\<close> the file \<open>CUP_TMP_FILE\<close>, \<open>exit_on_commit\<close> the
  global \<open>WTPExitOnUpdateCommit\<close>.
\<close>

record WUMState =
  wum_state :: u8
  cupTmp :: bool
  cupSize :: u32
  total_fragments :: u32
  received_fragments :: u32
  cup_file :: "u8 list option"
  exit_on_commit :: bool

definition wumState :: WUMState where
  "wumState = \<lparr>wum_state = WUM_STATE_WAIT, cupTmp = False, cupSize = 0, total_fragments = 0,
     received_fragments = 0, cup_file = None, exit_on_commit = False\<rparr>"

text \<open>
  \<open>fs_free\<close> is the number of free bytes, if \<open>statvfs\<close> succeeds; \<open>fs_write n\<close> how many of \<open>n\<close> bytes \<open>fwrite\<close> writes.
\<close>

record wum_env =
  fs_open :: bool
  fs_seek :: bool
  fs_write :: "nat \<Rightarrow> nat"
  fs_remove :: bool
  fs_free :: "64 word option"
  can_fork :: bool

text \<open>\<open>size\<close> is an \<open>int\<close>; the division of C cuts towards 0.\<close>

definition fragments_of :: "u32 \<Rightarrow> u32" where
  "fragments_of n =
     of_int (sint n sdiv int CUP_FRAGMENT_SIZE + (if sint n smod int CUP_FRAGMENT_SIZE > 0 then 1 else 0))"

definition WUMPrepareForUpdate :: "wum_env \<Rightarrow> u32 \<Rightarrow> WUMState \<Rightarrow> bool \<times> WUMState" where
  "WUMPrepareForUpdate env n s =
     (if wum_state s \<noteq> WUM_STATE_WAIT then (False, s)
      else if \<not> fs_open env then (False, s\<lparr>cupTmp := False\<rparr>)
      else (True, s\<lparr>cupTmp := True, cup_file := Some [], cupSize := n, total_fragments := fragments_of n,
                    received_fragments := 0, wum_state := WUM_STATE_BUSY\<rparr>))"

text \<open>Bytes written at a position; a gap is filled with zeros.\<close>

definition write_at :: "nat \<Rightarrow> u8 list \<Rightarrow> u8 list \<Rightarrow> u8 list" where
  "write_at k bs file =
     (if bs = [] then file
      else take k (file @ replicate (k - length file) 0) @ bs @ drop (k + length bs) file)"

text \<open>
  The sequence number is compared unsigned and multiplied in 32 bits. A negative size makes \<open>fwrite\<close> read all memory.
\<close>

definition WUMStoreFragment ::
  "wum_env \<Rightarrow> CWVendorWumValues \<Rightarrow> WUMState \<Rightarrow> (bool \<times> CWVendorWumValues \<times> WUMState) option" where
  "WUMStoreFragment env w s =
     (if wum_state s \<noteq> WUM_STATE_BUSY then Some (False, w, s)
      else if wum_seq_num w > total_fragments s then Some (False, w, s)
      else
        (let pos = wum_seq_num w * of_nat CUP_FRAGMENT_SIZE; toWrite = wum_cup_fragment_size w
         in if \<not> cupTmp s then None
            else if sint pos < 0 \<or> \<not> fs_seek env then Some (False, w, s)
            else if sint toWrite < 0 then None
            else do {
              bs \<leftarrow> (if toWrite = 0 then Some [] else wum_cup w);
              if length bs < unat toWrite then None
              else
                (let n = min (fs_write env (unat toWrite)) (unat toWrite);
                     s = s\<lparr>cup_file := map_option (write_at (unat pos) (take n bs)) (cup_file s)\<rparr>
                 in if n \<noteq> unat toWrite then Some (False, w, s)
                    else Some (True, w\<lparr>wum_cup := None\<rparr>, s\<lparr>received_fragments := received_fragments s + 1\<rparr>))
            }))"

definition WUMIsComplete :: "WUMState \<Rightarrow> bool" where
  "WUMIsComplete s =
     (if wum_state s \<noteq> WUM_STATE_BUSY then False
      else if sint (total_fragments s) > sint (received_fragments s) then False else True)"

definition WUMCloseFile :: "WUMState \<Rightarrow> WUMState option" where
  "WUMCloseFile s = (if cupTmp s then Some (s\<lparr>cupTmp := False, wum_state := WUM_STATE_READY\<rparr>) else None)"

definition remove_cup :: "wum_env \<Rightarrow> WUMState \<Rightarrow> WUMState" where
  "remove_cup env s = (if fs_remove env then s\<lparr>cup_file := None\<rparr> else s)"

definition WUMCancel :: "wum_env \<Rightarrow> WUMState \<Rightarrow> WUMState" where
  "WUMCancel env s = remove_cup env (s\<lparr>wum_state := WUM_STATE_WAIT, cupTmp := False\<rparr>)"

definition WTP_VERSION_MAJOR :: u8 where "WTP_VERSION_MAJOR = 0"
definition WTP_VERSION_MINOR :: u8 where "WTP_VERSION_MINOR = 93"
definition WTP_VERSION_REVISION :: u8 where "WTP_VERSION_REVISION = 2"

definition CWWTPCheckVersion :: "CWVendorWumValues \<Rightarrow> bool" where
  "CWWTPCheckVersion w =
     (if wum_major_v w > WTP_VERSION_MAJOR then True
      else if wum_major_v w = WTP_VERSION_MAJOR then
        (if wum_minor_v w > WTP_VERSION_MINOR then True
         else if wum_minor_v w = WTP_VERSION_MINOR then wum_revision_v w > WTP_VERSION_REVISION
         else False)
      else False)"

text \<open>The \<open>int\<close> is converted to \<open>unsigned long\<close>.\<close>

definition check_free_space :: "wum_env \<Rightarrow> u32 \<Rightarrow> bool" where
  "check_free_space env n = (case fs_free env of None \<Rightarrow> False | Some free \<Rightarrow> free > scast n)"

text \<open>The agent runs if the process forks, in whatever state the update is.\<close>

definition StartWUA :: "wum_env \<Rightarrow> bool" where
  "StartWUA env = can_fork env"

definition WTP_UPDATE_RESPONSE :: u8 where "WTP_UPDATE_RESPONSE = 4"
definition WTP_CUP_ACK :: u8 where "WTP_CUP_ACK = 6"
definition WTP_CANCEL_UPDATE_RESPONSE :: u8 where "WTP_CANCEL_UPDATE_RESPONSE = 10"

lemmas wum_types = WTP_VERSION_REQUEST_def WTP_VERSION_RESPONSE_def WTP_UPDATE_REQUEST_def WTP_UPDATE_RESPONSE_def
  WTP_CUP_FRAGMENT_def WTP_CUP_ACK_def WTP_COMMIT_UPDATE_def WTP_COMMIT_ACK_def WTP_CANCEL_UPDATE_REQUEST_def
  WTP_CANCEL_UPDATE_RESPONSE_def
lemmas wum_states = WUM_STATE_WAIT_def WUM_STATE_BUSY_def WUM_STATE_READY_def

datatype wum_result = Answer u32 CWVendorWumValues bool

text \<open>The result code, the payload as it is answered, and whether the agent was started.\<close>

definition CWWTPSaveWUMValues ::
  "wum_env \<Rightarrow> CWVendorWumValues \<Rightarrow> WUMState \<Rightarrow> (wum_result \<times> WUMState) option" where
  "CWWTPSaveWUMValues env w s =
     (if wum_type w = WTP_VERSION_REQUEST then
        Some (Answer CW_PROTOCOL_SUCCESS (w\<lparr>wum_type := WTP_VERSION_RESPONSE, wum_major_v := WTP_VERSION_MAJOR,
                wum_minor_v := WTP_VERSION_MINOR, wum_revision_v := WTP_VERSION_REVISION\<rparr>) False, s)
      else if wum_type w = WTP_UPDATE_REQUEST then
        (let w = w\<lparr>wum_type := WTP_UPDATE_RESPONSE\<rparr>
         in if \<not> CWWTPCheckVersion w then Some (Answer CW_PROTOCOL_FAILURE w False, s)
            else if \<not> check_free_space env (wum_pack_size w) then Some (Answer CW_PROTOCOL_FAILURE w False, s)
            else
              (case WUMPrepareForUpdate env (wum_pack_size w) s of
                 (ok, s) \<Rightarrow> Some (Answer (if ok then CW_PROTOCOL_SUCCESS else CW_PROTOCOL_FAILURE) w False, s)))
      else if wum_type w = WTP_CUP_FRAGMENT then do {
        (ok, w, s) \<leftarrow> WUMStoreFragment env (w\<lparr>wum_type := WTP_CUP_ACK\<rparr>) s;
        s \<leftarrow> (if WUMIsComplete s then WUMCloseFile s else Some s);
        Some (Answer (if ok then CW_PROTOCOL_SUCCESS else CW_PROTOCOL_FAILURE) w False, s) }
      else if wum_type w = WTP_COMMIT_UPDATE then
        Some (Answer (if wum_state s \<noteq> WUM_STATE_READY then CW_PROTOCOL_FAILURE else CW_PROTOCOL_SUCCESS)
                (w\<lparr>wum_type := WTP_COMMIT_ACK\<rparr>) (StartWUA env), s\<lparr>exit_on_commit := True\<rparr>)
      else if wum_type w = WTP_CANCEL_UPDATE_REQUEST then do {
        s \<leftarrow> (if wum_state s = WUM_STATE_BUSY then do { s \<leftarrow> WUMCloseFile s; Some (remove_cup env s) }
             else if wum_state s = WUM_STATE_READY then Some (remove_cup env s)
             else Some s);
        Some (Answer CW_PROTOCOL_SUCCESS (w\<lparr>wum_type := WTP_CANCEL_UPDATE_RESPONSE\<rparr>) False,
              s\<lparr>wum_state := WUM_STATE_WAIT\<rparr>) }
      else Some (Answer CW_PROTOCOL_SUCCESS w False, s))"

subsection \<open>The exchange with the UCI server\<close>

text \<open>
  \<open>us_answers\<close> are the datagrams the server will send, in order, a receive that fails being \<open>None\<close>; when there are
  none left \<open>recvfrom\<close> waits for ever. \<open>us_sent\<close> is what it was sent, \<open>us_junk\<close> the bytes of a new block.
\<close>

record uci_env =
  us_socket :: bool
  us_accepts :: "nat \<Rightarrow> bool"
  us_alloc :: "nat \<Rightarrow> bool"
  us_garbage :: u32
  us_junk :: "nat \<Rightarrow> u8"

record uci_link =
  us_sent :: "u8 list list"
  us_answers :: "u8 list option list"

type_synonym 'a uci_step = "uci_link \<Rightarrow> ((CWErrorCode + 'a) \<times> uci_link) option"

definition uci_sendto :: "uci_env \<Rightarrow> u8 list \<Rightarrow> 'a uci_step \<Rightarrow> 'a uci_step" where
  "uci_sendto env bs k s =
     (if us_accepts env (length (us_sent s)) then k (s\<lparr>us_sent := us_sent s @ [bs]\<rparr>)
      else Some (Inl CW_ERROR_GENERAL, s))"

text \<open>A shorter datagram leaves the other bytes of the buffer \<open>old\<close> as they were.\<close>

definition uci_recvfrom :: "u8 list \<Rightarrow> (u8 list \<Rightarrow> 'a uci_step) \<Rightarrow> 'a uci_step" where
  "uci_recvfrom old k s =
     (case us_answers s of
        [] \<Rightarrow> None
      | None # as \<Rightarrow> Some (Inl CW_ERROR_GENERAL, s\<lparr>us_answers := as\<rparr>)
      | Some bs # as \<Rightarrow>
          (let got = take (length old) bs in k (got @ drop (length got) old) (s\<lparr>us_answers := as\<rparr>)))"

text \<open>Send, and wait for a word that is not 0.\<close>

definition uci_ask :: "uci_env \<Rightarrow> u8 list \<Rightarrow> u8 list \<Rightarrow> (u8 list \<Rightarrow> 'a uci_step) \<Rightarrow> 'a uci_step" where
  "uci_ask env bs response k =
     uci_sendto env bs (uci_recvfrom response (\<lambda>response s.
       if of_be32 response = 0 then Some (Inl CW_ERROR_GENERAL, s) else k response s))"

definition uci_text :: "u8 list option \<Rightarrow> u8 list" where
  "uci_text str = (case str of None \<Rightarrow> [] | Some bs \<Rightarrow> takeWhile (\<lambda>b. b \<noteq> 0) bs)"

text \<open>The answer of the server: its result, and then the text.\<close>

definition uci_result :: "uci_env \<Rightarrow> wtp_uci \<Rightarrow> (u32 \<times> wtp_uci) uci_step" where
  "uci_result env u =
     uci_recvfrom (be32 (us_garbage env)) (\<lambda>responseCode. uci_sendto env (be32 1) (\<lambda>s.
       if of_be32 responseCode \<noteq> 0 then Some (Inr (CW_PROTOCOL_FAILURE, u), s)
       else
         uci_recvfrom (be32 (us_garbage env)) (\<lambda>responseSize. uci_sendto env (be32 1) (\<lambda>s.
           let n = sint (of_be32 responseSize) in
           if n \<le> 0 then Some (Inr (CW_PROTOCOL_SUCCESS, u\<lparr>uci_response := None\<rparr>), s)
           else if \<not> us_alloc env (nat n) then Some (Inl CW_ERROR_GENERAL, s)
           else
             uci_recvfrom (map (us_junk env) [0..<nat n]) (\<lambda>response. uci_sendto env (be32 1) (\<lambda>s.
               if \<not> us_alloc env (nat n + 1) then Some (Inl CW_ERROR_OUT_OF_MEMORY, s)
               else Some (Inr (CW_PROTOCOL_SUCCESS, u\<lparr>uci_response := Some response\<rparr>), s))) s)) s))"

definition CWWTPSaveUCIValues :: "uci_env \<Rightarrow> wtp_uci \<Rightarrow> (u32 \<times> wtp_uci) uci_step" where
  "CWWTPSaveUCIValues env u s =
     (if \<not> us_socket env then Some (Inl CW_ERROR_GENERAL, s)
      else
        (let args = uci_text (uci_commandArgs u)
         in if \<not> us_alloc env (length args + 5) then Some (Inl CW_ERROR_GENERAL, s)
            else
              uci_ask env [uci_command u] (be32 0) (\<lambda>response.
                uci_ask env (be32 (of_nat (length args))) response (\<lambda>response.
                  if args = [] then uci_result env u
                  else uci_ask env args response (\<lambda>_. uci_result env u))) s))"

subsection \<open>The payload of the response\<close>

definition CWAssembleVendorMsgElemResultCodeWithPayload ::
  "(nat \<Rightarrow> bool) \<Rightarrow> u32 \<Rightarrow> vendor_payload \<Rightarrow> (CWErrorCode + cw_msg) option" where
  "CWAssembleVendorMsgElemResultCodeWithPayload alloc code payload =
     (let payloadSize = (case payload of
            Uci_payload u \<Rightarrow> length (uci_text (uci_response u))
          | Wum_payload w \<Rightarrow> if wum_type w = WTP_VERSION_RESPONSE then 4 else 1)
      in with_message alloc (12 + payloadSize) (\<lambda>m. do {
           m \<leftarrow> CWProtocolStore32 m code;
           m \<leftarrow> CWProtocolStore16 m (ucast CW_MSG_ELEMENT_VENDOR_SPEC_PAYLOAD_CW_TYPE);
           m \<leftarrow> CWProtocolStore16 m (case payload of
                  Uci_payload _ \<Rightarrow> CW_MSG_ELEMENT_VENDOR_SPEC_PAYLOAD_UCI
                | Wum_payload _ \<Rightarrow> CW_MSG_ELEMENT_VENDOR_SPEC_PAYLOAD_WUM);
           m \<leftarrow> CWProtocolStore32 m (of_nat payloadSize);
           m \<leftarrow> (case payload of
                  Uci_payload u \<Rightarrow> CWProtocolStoreStr m (uci_text (uci_response u))
                | Wum_payload w \<Rightarrow> do {
                    m \<leftarrow> CWProtocolStore8 m (wum_type w);
                    if wum_type w = WTP_VERSION_RESPONSE then do {
                      m \<leftarrow> CWProtocolStore8 m (wum_major_v w);
                      m \<leftarrow> CWProtocolStore8 m (wum_minor_v w);
                      CWProtocolStore8 m (wum_revision_v w) }
                    else Some m });
           CWAssembleMsgElem alloc (Some m) CW_MSG_ELEMENT_RESULT_CODE_CW_TYPE_WITH_PAYLOAD }))"


subsection \<open>An update package is put together\<close>

lemma length_write_at [simp]:
  "length (write_at k bs file) = (if bs = [] then length file else max (length file) (k + length bs))"
  by (auto simp: write_at_def)

lemma nth_write_at:
  assumes "i < length (write_at k bs file)"
  shows "write_at k bs file ! i =
    (if k \<le> i \<and> i < k + length bs then bs ! (i - k) else if i < length file then file ! i else 0)"
  using assms by (auto simp: write_at_def nth_append nth_Cons' min_def split: if_splits)

definition chunk :: "u8 list \<Rightarrow> nat \<Rightarrow> u8 list" where
  "chunk pack k = take CUP_FRAGMENT_SIZE (drop (CUP_FRAGMENT_SIZE * k) pack)"

definition chunks :: "u8 list \<Rightarrow> nat" where
  "chunks pack = (length pack + CUP_FRAGMENT_SIZE - 1) div CUP_FRAGMENT_SIZE"

lemma chunk_at:
  assumes "k < chunks pack"
  shows "CUP_FRAGMENT_SIZE * k < length pack"
proof -
  have "Suc k * CUP_FRAGMENT_SIZE \<le> length pack + CUP_FRAGMENT_SIZE - 1"
    using assms unfolding chunks_def by (metis Suc_leI div_times_less_eq_dividend le_trans mult_le_mono1)
  then show ?thesis by (simp add: CUP_FRAGMENT_SIZE_def)
qed

lemma length_chunk: "length (chunk pack k) = min CUP_FRAGMENT_SIZE (length pack - CUP_FRAGMENT_SIZE * k)"
  by (simp add: chunk_def min.commute)

lemma chunk_index:
  "i < length pack \<Longrightarrow> i div CUP_FRAGMENT_SIZE < chunks pack"
  by (auto simp: chunks_def CUP_FRAGMENT_SIZE_def div_less_iff_less_mult)

lemma in_chunk:
  assumes "i < length pack" and "CUP_FRAGMENT_SIZE * k \<le> i" and "i < CUP_FRAGMENT_SIZE * k + CUP_FRAGMENT_SIZE"
  shows "chunk pack k ! (i - CUP_FRAGMENT_SIZE * k) = pack ! i"
  using assms by (simp add: chunk_def)

text \<open>The parts \<open>ks\<close> of the pack are in the file.\<close>

definition holds_parts :: "u8 list \<Rightarrow> nat set \<Rightarrow> u8 list \<Rightarrow> bool" where
  "holds_parts pack ks file \<longleftrightarrow> length file \<le> length pack \<and>
     (\<forall>i < length pack. i div CUP_FRAGMENT_SIZE \<in> ks \<longrightarrow> i < length file \<and> file ! i = pack ! i)"

lemma holds_parts_write:
  assumes "holds_parts pack ks file" and "k < chunks pack"
  shows "holds_parts pack (insert k ks) (write_at (CUP_FRAGMENT_SIZE * k) (chunk pack k) file)"
proof -
  let ?f = "write_at (CUP_FRAGMENT_SIZE * k) (chunk pack k) file"
  have "CUP_FRAGMENT_SIZE * k < length pack" using chunk_at [OF assms(2)] .
  then have len: "length ?f = max (length file) (min (CUP_FRAGMENT_SIZE * k + CUP_FRAGMENT_SIZE) (length pack))"
    and ends: "CUP_FRAGMENT_SIZE * k + length (chunk pack k) =
      min (CUP_FRAGMENT_SIZE * k + CUP_FRAGMENT_SIZE) (length pack)"
    by (auto simp: length_chunk CUP_FRAGMENT_SIZE_def chunk_def)
  show ?thesis
    unfolding holds_parts_def
  proof (intro conjI allI impI)
    show "length ?f \<le> length pack" using len assms(1) by (auto simp: holds_parts_def)
  next
    fix i assume i: "i < length pack" and part: "i div CUP_FRAGMENT_SIZE \<in> insert k ks"
    have inside: "CUP_FRAGMENT_SIZE * k \<le> i \<and> i < CUP_FRAGMENT_SIZE * k + CUP_FRAGMENT_SIZE \<longleftrightarrow> i div CUP_FRAGMENT_SIZE = k"
      by (auto simp: CUP_FRAGMENT_SIZE_def)
    have old: "i < length file \<and> file ! i = pack ! i" if "i div CUP_FRAGMENT_SIZE \<noteq> k"
      using assms(1) i part that by (auto simp: holds_parts_def)
    show "i < length ?f" using old inside i len by (cases "i div CUP_FRAGMENT_SIZE = k") auto
    then show "?f ! i = pack ! i"
      using nth_write_at [of i] inside ends i old in_chunk [of i pack k]
      by (cases "i div CUP_FRAGMENT_SIZE = k") auto
  qed
qed

lemma holds_all_parts:
  "holds_parts pack {..<chunks pack} file \<Longrightarrow> file = pack"
  using chunk_index [of _ pack] by (intro nth_equalityI) (auto simp: holds_parts_def intro: le_antisym leI)


lemma int_word:
  assumes "n < 2 ^ 31"
  shows "unat (of_nat n :: u32) = n" and "sint (of_nat n :: u32) = int n" and "(of_nat n :: u32) = 0 \<longleftrightarrow> n = 0"
proof -
  show u: "unat (of_nat n :: u32) = n" using assms by (simp add: unat_of_nat)
  have "signed_take_bit 31 (int n) = int n"
    by (rule signed_take_bit_int_eq_self) (use assms in simp_all)
  then show "sint (of_nat n :: u32) = int n" by (simp add: signed_of_nat)
  show "(of_nat n :: u32) = 0 \<longleftrightarrow> n = 0" using u by (auto dest: arg_cong [where f = unat])
qed

lemma fragments_of_chunks:
  assumes "length pack < 2 ^ 31"
  shows "fragments_of (of_nat (length pack)) = of_nat (chunks pack)"
proof -
  have s: "int n sdiv 4000 = int (n div 4000)" "int n smod 4000 = int (n mod 4000)" for n
    by (simp_all add: signed_divide_int_def signed_modulo_int_def zdiv_int zmod_int sgn_if
        minus_div_mult_eq_mod [symmetric])
  have up: "(n + 3999) div 4000 = n div 4000 + (if 0 < n mod 4000 then 1 else 0)" for n :: nat
  proof -
    have "(n + 3999) div 4000 = (4000 * (n div 4000) + (n mod 4000 + 3999)) div 4000"
      by (simp only: add.assoc [symmetric] mult_div_mod_eq)
    also have "\<dots> = n div 4000 + (n mod 4000 + 3999) div 4000" by (rule div_mult_self4) simp
    also have "(n mod 4000 + 3999) div 4000 = (if 0 < n mod 4000 then 1 else 0)"
      using mod_less_divisor [of 4000 n] by (auto intro!: div_nat_eqI simp del: mod_less_divisor)
    finally show ?thesis .
  qed
  then show ?thesis
    unfolding fragments_of_def int_word(2) [OF assms] CUP_FRAGMENT_SIZE_def chunks_def
    using up [of "length pack"] by (simp add: s add.commute [of 3999])
qed

definition all_written :: "wum_env \<Rightarrow> bool" where
  "all_written env \<longleftrightarrow> fs_open env \<and> fs_seek env \<and> (\<forall>n. n \<le> fs_write env n)"

definition cup_part :: "CWVendorWumValues \<Rightarrow> u8 list \<Rightarrow> nat \<Rightarrow> CWVendorWumValues" where
  "cup_part w pack k = w\<lparr>wum_type := WTP_CUP_FRAGMENT, wum_seq_num := of_nat k,
     wum_cup_fragment_size := of_nat (length (chunk pack k)), wum_cup := Some (chunk pack k)\<rparr>"

definition updating :: "u8 list \<Rightarrow> nat set \<Rightarrow> WUMState \<Rightarrow> bool" where
  "updating pack ks s \<longleftrightarrow> wum_state s = WUM_STATE_BUSY \<and> cupTmp s \<and> ks \<subseteq> {..<chunks pack} \<and>
     total_fragments s = of_nat (chunks pack) \<and> received_fragments s = of_nat (card ks) \<and>
     (\<exists>file. cup_file s = Some file \<and> holds_parts pack ks file)"

definition updated :: "u8 list \<Rightarrow> WUMState \<Rightarrow> bool" where
  "updated pack s \<longleftrightarrow> wum_state s = WUM_STATE_READY \<and> \<not> cupTmp s \<and> cup_file s = Some pack"

lemma chunks_le: "chunks pack \<le> length pack"
  by (cases "length pack") (auto simp: chunks_def CUP_FRAGMENT_SIZE_def less_Suc_eq_le)

lemma part_stored:
  assumes "updating pack ks s" and "k < chunks pack" and "k \<notin> ks" and "length pack < 2 ^ 31" and "all_written env"
  shows "\<exists>s'. CWWTPSaveWUMValues env (cup_part w pack k) s =
      Some (Answer CW_PROTOCOL_SUCCESS ((cup_part w pack k)\<lparr>wum_type := WTP_CUP_ACK, wum_cup := None\<rparr>) False, s') \<and>
    exit_on_commit s' = exit_on_commit s \<and>
    (if insert k ks = {..<chunks pack} then updated pack s' else updating pack (insert k ks) s')"
proof -
  let ?at = "CUP_FRAGMENT_SIZE * k" and ?bs = "chunk pack k" and ?ks = "insert k ks"
  have at: "?at < length pack" using chunk_at [OF assms(2)] .
  have "(of_nat k :: u32) * of_nat CUP_FRAGMENT_SIZE = of_nat ?at" by (simp add: mult.commute)
  then have pos: "unat ((of_nat k :: u32) * of_nat CUP_FRAGMENT_SIZE) = ?at"
      "sint ((of_nat k :: u32) * of_nat CUP_FRAGMENT_SIZE) = int ?at"
    using int_word [of ?at] at assms(4) by (auto simp del: of_nat_mult)
  have n: "length ?bs < 2 ^ 31" using assms(4) by (simp add: length_chunk)
  note size = int_word [OF n]
  have "chunks pack < 2 ^ 31" using chunks_le [of pack] assms(4) by linarith
  note total = int_word [OF this]
  have nk: "unat (of_nat k :: u32) = k" using assms(2) \<open>chunks pack < 2 ^ 31\<close> by (intro int_word(1)) simp
  have seq: "\<not> (of_nat k :: u32) > of_nat (chunks pack)"
    unfolding word_less_nat_alt using nk total(1) assms(2) by simp
  from assms(1) obtain old where s: "wum_state s = WUM_STATE_BUSY" "cupTmp s" "total_fragments s = of_nat (chunks pack)"
      "received_fragments s = of_nat (card ks)" "cup_file s = Some old" "holds_parts pack ks old"
    and sub: "ks \<subseteq> {..<chunks pack}"
    by (auto simp: updating_def)
  have ks: "finite ks" using sub finite_subset by blast
  let ?new = "write_at ?at ?bs old"
  let ?s = "s\<lparr>cup_file := Some ?new, received_fragments := of_nat (card ?ks)\<rparr>"
  have parts: "holds_parts pack ?ks ?new" using holds_parts_write [OF s(6) assms(2)] .
  have store: "WUMStoreFragment env ((cup_part w pack k)\<lparr>wum_type := WTP_CUP_ACK\<rparr>) s =
      Some (True, (cup_part w pack k)\<lparr>wum_type := WTP_CUP_ACK, wum_cup := None\<rparr>, ?s)"
    using s seq pos size assms(3,5) ks
    by (simp add: WUMStoreFragment_def cup_part_def all_written_def Let_def card_insert_if min_absorb2 add.commute not_less)
  have sub': "?ks \<subseteq> {..<chunks pack}" using sub assms(2) by simp
  have card: "card ?ks \<le> chunks pack" using card_mono [OF finite_lessThan sub'] by (metis card_lessThan)
  have card_eq: "card ?ks = chunks pack \<longleftrightarrow> ?ks = {..<chunks pack}"
    using card_subset_eq [OF finite_lessThan sub'] by (metis card_lessThan)
  have "card ?ks < 2 ^ 31" using card \<open>chunks pack < 2 ^ 31\<close> by linarith
  note received = int_word [OF this]
  show ?thesis
  proof (cases "?ks = {..<chunks pack}")
    case True
    then have "WUMIsComplete ?s" using s total received card_eq by (simp add: WUMIsComplete_def)
    moreover have "?new = pack" using holds_all_parts parts True by simp
    ultimately show ?thesis
      using store s True
      by (simp add: CWWTPSaveWUMValues_def cup_part_def wum_types WUMCloseFile_def updated_def)
  next
    case False
    then have "\<not> WUMIsComplete ?s" using s total received card card_eq by (simp add: WUMIsComplete_def)
    moreover have "updating pack ?ks ?s" using s sub assms(2) parts by (simp add: updating_def)
    ultimately show ?thesis
      using store False by (simp add: CWWTPSaveWUMValues_def cup_part_def wum_types)
  qed
qed

end
