(* ===== verification/WTP_Run.thy ===== *)
theory WTP_Run
  imports WTP_Vendor Common
begin

text \<open>
  The Run state of the WTP (\<open>WTPRunState.c\<close>, \<open>WTPRunStateCheck.c\<close>) with the boxes of the requests that wait for a
  response (\<open>WTPRetransmission.c\<close>), and how the WTP receives a message and sends one that must be
  acknowledged (\<open>WTP.c\<close>), in the build without DTLS that the Makefile makes.

  A step is a turn of the loop of \<open>CWWTPEnterRun\<close>, a timer that expires, or an event request. \<open>None\<close> is a step without
  defined behaviour, or one that waits for ever. The integers to which the timers of the boxes point are
  cells: a cell that was freed has no value. The timer of the Join state, which clears \<open>gSuccessfulHandshake\<close>, is one of the timers. \<open>wr_lastError\<close> is the code of the last error of the thread before the step.
\<close>

subsection \<open>State\<close>

definition MAX_PENDING_REQUEST_MSGS :: nat where "MAX_PENDING_REQUEST_MSGS = 15"
definition UNUSED_MSG_TYPE :: u8 where "UNUSED_MSG_TYPE = 0"

datatype timer_handler = HeartBeat | NeighborDead | Retransmit nat | WaitJoin

record armed_timer =
  at_sec :: u32
  at_handler :: timer_handler

text \<open>The handler of a box is always the same one; \<open>pr_timer_arg\<close> is the cell it is given.\<close>

record CWPendingRequestMessage =
  pr_msgType :: u8
  pr_seqNum :: u8
  pr_timer_sec :: u32
  pr_timer_arg :: "nat option"
  pr_timer :: u32
  pr_retransmission :: u32
  pr_msgElems :: "cw_msg list option"
  pr_fragmentsNum :: nat

record wtp_state =
  wtp_globals :: WTP_globals
  pending :: "CWPendingRequestMessage list"
  cells :: "nat \<rightharpoonup> u32"
  timers :: "u32 \<rightharpoonup> armed_timer"
  gCWHeartBeatTimerID :: u32
  gCWNeighborDeadTimerID :: u32
  gNeighborDeadTimerSet :: bool
  gEchoInterval :: u32
  update :: WUMState
  radios :: "binding_radio list"
  seq_next :: u32
  gPacketReceiveList :: "u8 list list"
  gFrameList :: "(cw_msg \<times> CWBindingTransportHeaderValues) option list"
  gSuccessfulHandshake :: bool

text \<open>
  \<open>wr_timer\<close> is the identifier of a new timer, -1 when there is none, and \<open>wr_cell\<close> a new cell; \<open>wr_load\<close> and \<open>wr_init\<close> are
  \<open>CWWTPLoadConfiguration\<close> and \<open>CWWTPInitConfiguration\<close>; \<open>wr_junk\<close> and \<open>wr_garbage\<close> are what memory held.
\<close>

record wtp_run_env =
  wr_alloc :: "nat \<Rightarrow> bool"
  wr_le :: bool
  wr_send :: "u8 list \<Rightarrow> CWErrorCode option"
  wr_timer :: "(u32 \<rightharpoonup> armed_timer) \<Rightarrow> u32"
  wr_cell :: "(nat \<rightharpoonup> u32) \<Rightarrow> nat"
  wr_lastError :: "CWErrorCode option"
  wr_junk :: CWVendorWumValues
  wr_garbage :: u32
  wr_fragID :: u32
  wr_crypt :: u32
  wr_driver :: qos_driver
  wr_reached :: "CWErrorCode option"
  wr_files :: wum_env
  wr_uci :: uci_env
  wr_uci_answers :: "u8 list option list"
  wr_load :: "WTP_globals \<Rightarrow> CWErrorCode option \<times> WTP_globals"
  wr_init :: "WTP_globals \<Rightarrow> CWErrorCode option \<times> WTP_globals"
  gWTPPathMTU :: int
  wr_NeighborDeadInterval :: u32
  wr_RetransmitTimer :: u32
  wr_MaxRetransmit :: u32

datatype wtp_action =
    To_ac "u8 list"
  | To_uci "u8 list"
  | To_frequency_server OFDMControlValues
  | Agent_started

text \<open>\<open>Ends\<close>: the thread, or the whole process, exits.\<close>

datatype 'a outcome = Done 'a | Ends

type_synonym 'a wtp_step = "('a outcome \<times> wtp_state \<times> wtp_action list) option"

definition raised :: "wtp_run_env \<Rightarrow> CWErrorCode \<Rightarrow> CWErrorCode option" where
  "raised env e = (if e = CW_ERROR_NONE then wr_lastError env else Some e)"

text \<open>\<open>CWErr\<close> of a call that failed: whether the error is taken for a success, unless it ends the thread.\<close>

definition CWErr :: "wtp_run_env \<Rightarrow> CWErrorCode \<Rightarrow> bool outcome" where
  "CWErr env e = (case CWErrorHandleLast (raised env e) of Handled b \<Rightarrow> Done b | _ \<Rightarrow> Ends)"

fun transmit :: "(u8 list \<Rightarrow> CWErrorCode option) \<Rightarrow> cw_msg list \<Rightarrow> ((CWErrorCode + unit) \<times> wtp_action list) option" where
  "transmit send [] = Some (Inr (), [])"
| "transmit send (m # ms) =
     (if \<not> msg_fits m then None
      else
        (case send (contents m) of
           Some e \<Rightarrow> Some (Inl e, [])
         | None \<Rightarrow> do {
             (r, out) \<leftarrow> transmit send ms;
             Some (r, To_ac (contents m) # out)
           }))"

subsection \<open>Timers\<close>

definition add_timer :: "wtp_run_env \<Rightarrow> u32 \<Rightarrow> timer_handler \<Rightarrow> wtp_state \<Rightarrow> u32 \<times> wtp_state" where
  "add_timer env sec handler s =
     (let i = wr_timer env (timers s)
      in (i, if i = - 1 then s else s\<lparr>timers := (timers s)(i \<mapsto> \<lparr>at_sec = sec, at_handler = handler\<rparr>)\<rparr>))"

definition rem_timer :: "u32 \<Rightarrow> wtp_state \<Rightarrow> wtp_state" where
  "rem_timer i s = s\<lparr>timers := (timers s)(i := None)\<rparr>"

definition CWStartHeartbeatTimer :: "wtp_run_env \<Rightarrow> wtp_state \<Rightarrow> bool \<times> wtp_state" where
  "CWStartHeartbeatTimer env s =
     (case add_timer env (gEchoInterval s) HeartBeat s of (i, s) \<Rightarrow> (i \<noteq> - 1, s\<lparr>gCWHeartBeatTimerID := i\<rparr>))"

definition CWStopHeartbeatTimer :: "wtp_state \<Rightarrow> wtp_state" where
  "CWStopHeartbeatTimer s = rem_timer (gCWHeartBeatTimerID s) s"

definition CWStartNeighborDeadTimer :: "wtp_run_env \<Rightarrow> wtp_state \<Rightarrow> bool \<times> wtp_state" where
  "CWStartNeighborDeadTimer env s =
     (case add_timer env (wr_NeighborDeadInterval env) NeighborDead s of
        (i, s) \<Rightarrow> if i = - 1 then (False, s\<lparr>gCWNeighborDeadTimerID := i\<rparr>)
                  else (True, s\<lparr>gCWNeighborDeadTimerID := i, gNeighborDeadTimerSet := True\<rparr>))"

definition CWStopNeighborDeadTimer :: "wtp_state \<Rightarrow> wtp_state" where
  "CWStopNeighborDeadTimer s = (rem_timer (gCWNeighborDeadTimerID s) s)\<lparr>gNeighborDeadTimerSet := False\<rparr>"

definition CWResetTimers :: "wtp_run_env \<Rightarrow> wtp_state \<Rightarrow> bool \<times> wtp_state" where
  "CWResetTimers env s =
     (let s = (if gNeighborDeadTimerSet s then CWStopNeighborDeadTimer s else s)
      in CWStartHeartbeatTimer env (CWStopHeartbeatTimer s))"

subsection \<open>The pending requests\<close>

definition free_cell :: "nat option \<Rightarrow> wtp_state \<Rightarrow> wtp_state option" where
  "free_cell p s =
     (case p of
        None \<Rightarrow> Some s
      | Some c \<Rightarrow> if cells s c = None then None else Some (s\<lparr>cells := (cells s)(c := None)\<rparr>))"

definition set_box :: "nat \<Rightarrow> CWPendingRequestMessage \<Rightarrow> wtp_state \<Rightarrow> wtp_state" where
  "set_box k b s = s\<lparr>pending := (pending s)[k := b]\<rparr>"

text \<open>The packets are freed one by one, through an array that may be null.\<close>

definition CWResetPendingMsgBox :: "nat \<Rightarrow> wtp_state \<Rightarrow> wtp_state option" where
  "CWResetPendingMsgBox k s =
     (if k \<ge> length (pending s) then None
      else do {
        let b = pending s ! k;
        s \<leftarrow> free_cell (pr_timer_arg b) s;
        let s = rem_timer (pr_timer b) s;
        _ \<leftarrow> array_prefix (pr_fragmentsNum b) (pr_msgElems b);
        Some (set_box k (b\<lparr>pr_msgType := UNUSED_MSG_TYPE, pr_seqNum := 0, pr_retransmission := 0, pr_timer_sec := 0,
                           pr_timer_arg := None, pr_msgElems := None, pr_fragmentsNum := 0\<rparr>) s)
      })"

text \<open>The first free box, reset; \<open>n\<close> is how many the loop looks at.\<close>

fun first_box :: "(CWPendingRequestMessage \<Rightarrow> bool) \<Rightarrow> nat \<Rightarrow> CWPendingRequestMessage list \<Rightarrow> nat option option" where
  "first_box P 0 bs = Some None"
| "first_box P (Suc n) [] = None"
| "first_box P (Suc n) (b # bs) = (if P b then Some (Some 0) else map_option (map_option Suc) (first_box P n bs))"

definition CWFindFreePendingMsgBox :: "nat \<Rightarrow> wtp_state \<Rightarrow> (nat option \<times> wtp_state) option" where
  "CWFindFreePendingMsgBox n s = do {
     k \<leftarrow> first_box (\<lambda>b. pr_msgType b = UNUSED_MSG_TYPE) n (pending s);
     (case k of
        None \<Rightarrow> Some (None, s)
      | Some k \<Rightarrow> do { s \<leftarrow> CWResetPendingMsgBox k s; Some (Some k, s) })
   }"

text \<open>The result is false exactly when the box was filled and the identifier of the timer is not 0.\<close>

definition CWUpdatePendingMsgBox ::
  "wtp_run_env \<Rightarrow> nat \<Rightarrow> u32 \<Rightarrow> u32 \<Rightarrow> u32 \<Rightarrow> nat \<Rightarrow> u32 \<Rightarrow> cw_msg list \<Rightarrow> nat \<Rightarrow> wtp_state \<Rightarrow> (bool \<times> wtp_state) option" where
  "CWUpdatePendingMsgBox env k msgType seqValue sec arg retrans msgElems n s =
     (if k \<ge> length (pending s) then None
      else if pr_msgType (pending s ! k) \<noteq> UNUSED_MSG_TYPE then Some (True, s)
      else
        (case add_timer env sec (Retransmit arg) s of
           (i, s) \<Rightarrow> Some (i = 0, set_box k \<lparr>pr_msgType = ucast msgType, pr_seqNum = ucast seqValue, pr_timer_sec = sec,
                              pr_timer_arg = Some arg, pr_timer = i, pr_retransmission = retrans,
                              pr_msgElems = Some msgElems, pr_fragmentsNum = n\<rparr> s)))"

definition CWFindPendingRequestMsgsBox :: "nat \<Rightarrow> u32 \<Rightarrow> u32 \<Rightarrow> wtp_state \<Rightarrow> (nat option \<times> wtp_state) option" where
  "CWFindPendingRequestMsgsBox n msgType seqValue s = do {
     k \<leftarrow> first_box (\<lambda>b. ucast (pr_seqNum b) = seqValue \<and> ucast (pr_msgType b) = msgType) n (pending s);
     Some (k, case k of None \<Rightarrow> s | Some k \<Rightarrow> rem_timer (pr_timer (pending s ! k)) s)
   }"

text \<open>The box for a request that is sent, if there is one and all packets go out.\<close>

definition CWSendPendingRequestMessage ::
  "wtp_run_env \<Rightarrow> cw_msg list option \<Rightarrow> nat \<Rightarrow> wtp_state \<Rightarrow> (nat option \<times> wtp_state \<times> wtp_action list) option" where
  "CWSendPendingRequestMessage env msgs n s =
     (case msgs of
        None \<Rightarrow> Some (None, s, [])
      | Some ms \<Rightarrow> do {
          (k, s) \<leftarrow> CWFindFreePendingMsgBox MAX_PENDING_REQUEST_MSGS s;
          (case k of
             None \<Rightarrow> Some (None, s, [])
           | Some k \<Rightarrow> do {
               ms \<leftarrow> array_prefix n msgs;
               (r, out) \<leftarrow> transmit (wr_send env) ms;
               Some (case r of Inl _ \<Rightarrow> None | Inr _ \<Rightarrow> Some k, s, out)
             })
        })"

subsection \<open>Requests of the WTP\<close>

definition CWAssembleEchoRequest :: "wtp_run_env \<Rightarrow> u32 \<Rightarrow> (CWErrorCode + cw_msg list) option" where
  "CWAssembleEchoRequest env seqValue =
     assemble_empty (wr_alloc env) (wr_fragID env) (gWTPPathMTU env) seqValue CW_MSG_TYPE_VALUE_ECHO_REQUEST (wr_crypt env)"

text \<open>An element to send: its type, and the value of \<open>CWMsgElemData\<close>.\<close>

record CWMsgElemData =
  med_type :: u32
  med_value :: u32

text \<open>The elements of a list, which must not be empty, and the message of them.\<close>

definition assemble_listed ::
  "wtp_run_env \<Rightarrow> (CWMsgElemData \<Rightarrow> (CWErrorCode + cw_msg) option) \<Rightarrow> u32 \<Rightarrow> u32 \<Rightarrow> CWMsgElemData list \<Rightarrow>
     (CWErrorCode + cw_msg list) option" where
  "assemble_listed env element msgType seqValue msgElemList =
     (if msgElemList = [] then Some (Inl CW_ERROR_WRONG_ARG)
      else if \<not> wr_alloc env (sizeof_CWProtocolMessage * length msgElemList) then Some (Inl CW_ERROR_OUT_OF_MEMORY)
      else do {
        r \<leftarrow> assemble_each element msgElemList;
        (case r of
           Inl e \<Rightarrow> Some (Inl e)
         | Inr msgElems \<Rightarrow>
             CWAssembleMessage (wr_alloc env) (wr_fragID env) (gWTPPathMTU env) seqValue msgType
               (Some msgElems) (length msgElemList) None 0 (wr_crypt env))
      })"

definition CWAssembleWTPDataTransferRequest ::
  "wtp_run_env \<Rightarrow> u32 \<Rightarrow> CWMsgElemData list \<Rightarrow> (CWErrorCode + cw_msg list) option" where
  "CWAssembleWTPDataTransferRequest env = assemble_listed env (\<lambda>e.
     if med_type e = CW_MSG_ELEMENT_DATA_TRANSFER_DATA_CW_TYPE then
       CWAssembleMsgElemDataTransferData (wr_alloc env) (med_value e)
     else Some (Inl CW_ERROR_NONE)) CW_MSG_TYPE_VALUE_DATA_TRANSFER_REQUEST"

definition CWAssembleWTPEventRequest ::
  "wtp_run_env \<Rightarrow> WTP_globals \<Rightarrow> u32 \<Rightarrow> CWMsgElemData list \<Rightarrow> (CWErrorCode + cw_msg list) option" where
  "CWAssembleWTPEventRequest env g = (let alloc = wr_alloc env in assemble_listed env (\<lambda>e.
     let t = med_type e; v = sint (med_value e) in
     if t = CW_MSG_ELEMENT_CW_DECRYPT_ER_REPORT_CW_TYPE then CWAssembleMsgElemDecryptErrorReport alloc g v
     else if t = CW_MSG_ELEMENT_DUPLICATE_IPV4_ADDRESS_CW_TYPE then
       CWAssembleMsgElemDuplicateIPv4Address alloc (wr_le env) g
     else if t = CW_MSG_ELEMENT_DUPLICATE_IPV6_ADDRESS_CW_TYPE then CWAssembleMsgElemDuplicateIPv6Address alloc g
     else if t = CW_MSG_ELEMENT_WTP_OPERAT_STATISTICS_CW_TYPE then CWAssembleMsgElemWTPOperationalStatistics alloc g v
     else if t = CW_MSG_ELEMENT_WTP_RADIO_STATISTICS_CW_TYPE then CWAssembleMsgElemWTPRadioStatistics alloc g v
     else if t = CW_MSG_ELEMENT_WTP_REBOOT_STATISTICS_CW_TYPE then CWAssembleMsgElemWTPRebootStatistics alloc g
     else Some (Inl CW_ERROR_NONE)) CW_MSG_TYPE_VALUE_WTP_EVENT_REQUEST)"

text \<open>
  The handler of the heartbeat timer. When the request cannot be assembled the timer is not started again; when it cannot be
  sent it is.
\<close>

definition CWWTPHeartBeatTimerExpiredHandler :: "wtp_run_env \<Rightarrow> wtp_state \<Rightarrow> (wtp_state \<times> wtp_action list) option" where
  "CWWTPHeartBeatTimerExpiredHandler env s =
     (case (if gNeighborDeadTimerSet s then (True, s) else CWStartNeighborDeadTimer env s) of
        (False, s) \<Rightarrow> Some (CWStopNeighborDeadTimer (CWStopHeartbeatTimer s), [])
      | (True, s) \<Rightarrow>
          (case CWGetSeqNum (seq_next s) of
             (seqValue, n) \<Rightarrow> do {
               let s = s\<lparr>seq_next := n\<rparr>;
               r \<leftarrow> CWAssembleEchoRequest env seqValue;
               (case r of
                  Inl _ \<Rightarrow> Some (s, [])
                | Inr ms \<Rightarrow> do {
                    (_, out) \<leftarrow> transmit (wr_send env) ms;
                    Some (snd (CWStartHeartbeatTimer env s), out)
                  })
             }))"

definition CWConfirmRunStateToACWithEchoRequest :: "wtp_run_env \<Rightarrow> wtp_state \<Rightarrow> (wtp_state \<times> wtp_action list) option" where
  "CWConfirmRunStateToACWithEchoRequest env s =
     (case CWGetSeqNum (seq_next s) of
        (seqValue, n) \<Rightarrow> do {
          let s = s\<lparr>seq_next := n\<rparr>;
          r \<leftarrow> CWAssembleEchoRequest env seqValue;
          (case r of
             Inl _ \<Rightarrow> Some (s, [])
           | Inr ms \<Rightarrow> do { (_, out) \<leftarrow> transmit (wr_send env) ms; Some (s, out) })
        })"

definition CWWTPNeighborDeadTimerExpired :: "wtp_state \<Rightarrow> wtp_state" where
  "CWWTPNeighborDeadTimerExpired s = s"

text \<open>Nothing but this handler assigns the flag, which is true when the program starts. The socket is closed too.\<close>

definition CWWTPWaitJoinExpired :: "wtp_state \<Rightarrow> wtp_state" where
  "CWWTPWaitJoinExpired s = s\<lparr>gSuccessfulHandshake := False\<rparr>"

definition sizeof_CWMsgElemData :: nat where "sizeof_CWMsgElemData = 8"
definition sizeof_CWListElement :: nat where "sizeof_CWListElement = 16"

text \<open>A request that reports the decryption errors of the first radio. The result is whether it is under way.\<close>

definition CWWTPCheckForWTPEventRequest ::
  "wtp_run_env \<Rightarrow> wtp_state \<Rightarrow> ((CWErrorCode + unit) \<times> wtp_state \<times> wtp_action list) option" where
  "CWWTPCheckForWTPEventRequest env s =
     (case CWGetSeqNum (seq_next s) of
        (seqValue, n) \<Rightarrow>
          (let s = s\<lparr>seq_next := n\<rparr>; alloc = wr_alloc env; c = wr_cell env (cells s)
           in if \<not> alloc 4 then Some (Inl CW_ERROR_OUT_OF_MEMORY, s, [])
              else
                (let s = s\<lparr>cells := (cells s)(c \<mapsto> wr_garbage env)\<rparr>
                 in if \<not> alloc sizeof_CWListElement \<or> \<not> alloc sizeof_CWMsgElemData
                    then Some (Inl CW_ERROR_OUT_OF_MEMORY, s, [])
                    else do {
                      r \<leftarrow> CWAssembleWTPEventRequest env (wtp_globals s) seqValue
                             [\<lparr>med_type = CW_MSG_ELEMENT_CW_DECRYPT_ER_REPORT_CW_TYPE, med_value = 0\<rparr>];
                      (case r of
                         Inl e \<Rightarrow> Some (Inl e, s, [])
                       | Inr ms \<Rightarrow> do {
                           (k, s, out) \<leftarrow> CWSendPendingRequestMessage env (Some ms) (length ms) s;
                           (case k of
                              None \<Rightarrow> Some (Inl CW_ERROR_NONE, s\<lparr>cells := (cells s)(c \<mapsto> - 1)\<rparr>, out)
                            | Some k \<Rightarrow> do {
                                (_, s) \<leftarrow> CWUpdatePendingMsgBox env k CW_MSG_TYPE_VALUE_WTP_EVENT_RESPONSE seqValue
                                            (wr_RetransmitTimer env) c 0 ms (length ms)
                                            (s\<lparr>cells := (cells s)(c \<mapsto> of_nat k)\<rparr>);
                                Some (Inr (), s, out)
                              })
                         })
                    })))"

text \<open>
  The handler of a retransmission timer: the cell gives the index of the box. The cell is freed at the end, when the timer has
  been started again with it.
\<close>

definition CWWTPRetransmitTimerExpiredHandler ::
  "wtp_run_env \<Rightarrow> nat \<Rightarrow> wtp_state \<Rightarrow> (wtp_state \<times> wtp_action list) option" where
  "CWWTPRetransmitTimerExpiredHandler env c s = do {
     index \<leftarrow> cells s c;
     b \<leftarrow> array_get (pending s) (sint index);
     if pr_retransmission b = wr_MaxRetransmit env then Some (s, [])
     else do {
       ms \<leftarrow> array_prefix (pr_fragmentsNum b) (pr_msgElems b);
       (r, out) \<leftarrow> transmit (wr_send env) ms;
       (case r of
          Inl _ \<Rightarrow> do {
            s \<leftarrow> free_cell (Some c) (set_box (unat index) (b\<lparr>pr_msgElems := None\<rparr>) s);
            Some (s, out) }
        | Inr _ \<Rightarrow> do {
            arg \<leftarrow> pr_timer_arg b;
            let (i, s) = add_timer env (pr_timer_sec b) (Retransmit arg) s;
            s \<leftarrow> free_cell (Some c) (set_box (unat index)
                   (b\<lparr>pr_retransmission := pr_retransmission b + 1, pr_timer := i\<rparr>) s);
            Some (s, out) })
     }
   }"

text \<open>A timer expires: it is taken out of the queue and its handler runs.\<close>

definition timer_expires :: "wtp_run_env \<Rightarrow> u32 \<Rightarrow> wtp_state \<Rightarrow> (wtp_state \<times> wtp_action list) option" where
  "timer_expires env i s = do {
     t \<leftarrow> timers s i;
     let s = rem_timer i s;
     (case at_handler t of
        HeartBeat \<Rightarrow> CWWTPHeartBeatTimerExpiredHandler env s
      | NeighborDead \<Rightarrow> Some (CWWTPNeighborDeadTimerExpired s, [])
      | Retransmit c \<Rightarrow> CWWTPRetransmitTimerExpiredHandler env c s
      | WaitJoin \<Rightarrow> Some (CWWTPWaitJoinExpired s, []))
   }"


subsection \<open>Parsing the requests of the AC\<close>

text \<open>A parser is given the elements at the start of a buffer, and how many bytes they take, an \<open>int\<close>.\<close>

definition loop_to_end ::
  "(u16 \<Rightarrow> nat \<Rightarrow> 's \<Rightarrow> cw_msg \<Rightarrow> (CWErrorCode + 's \<times> cw_msg) option) \<Rightarrow> int \<Rightarrow> 's \<Rightarrow> cw_msg \<Rightarrow>
     (CWErrorCode + 's) option" where
  "loop_to_end handle len s m = do {
     r \<leftarrow> element_loop handle len s (m\<lparr>offset := 0\<rparr>);
     Some (case r of
             Inl e \<Rightarrow> Inl e
           | Inr (s, m) \<Rightarrow> if int (offset m) \<noteq> len then Inl CW_ERROR_INVALID_FORMAT else Inr s)
   }"

definition last_type_switch :: "u16 \<Rightarrow> nat \<Rightarrow> u16 \<Rightarrow> cw_msg \<Rightarrow> (CWErrorCode + u16 \<times> cw_msg) option" where
  "last_type_switch elemType elemLen s m = skip_element elemLen elemType m"

text \<open>\<open>made\<close>: the object the payload goes to was allocated, which it is when the last element is a vendor payload.\<close>

definition vendor_switch ::
  "(nat \<Rightarrow> bool) \<Rightarrow> CWVendorWumValues \<Rightarrow> bool \<Rightarrow> u16 \<Rightarrow> nat \<Rightarrow> vendor_payload option \<Rightarrow> cw_msg \<Rightarrow>
     (CWErrorCode + vendor_payload option \<times> cw_msg) option" where
  "vendor_switch alloc junk made elemType elemLen v m =
     (if ucast elemType = CW_MSG_ELEMENT_VENDOR_SPEC_PAYLOAD_CW_TYPE then
        (if made then parse_into (CWParseVendorPayload alloc junk m) Some else None)
      else skip_element elemLen v m)"

definition CWParseVendorMessage ::
  "(nat \<Rightarrow> bool) \<Rightarrow> CWVendorWumValues \<Rightarrow> cw_msg \<Rightarrow> int \<Rightarrow> (CWErrorCode + vendor_payload option) option" where
  "CWParseVendorMessage alloc junk m len = do {
     r \<leftarrow> loop_to_end last_type_switch len 0 m;
     (case r of
        Inl e \<Rightarrow> Some (Inl e)
      | Inr GlobalElemType \<Rightarrow>
          (let made = (ucast GlobalElemType = CW_MSG_ELEMENT_VENDOR_SPEC_PAYLOAD_CW_TYPE)
           in if made \<and> \<not> alloc sizeof_CWProtocolVendorSpecificValues then Some (Inl CW_ERROR_OUT_OF_MEMORY)
              else do {
                r \<leftarrow> element_loop (vendor_switch alloc junk made) len None (m\<lparr>offset := 0\<rparr>);
                Some (map_sum id fst r)
              }))
   }"

record CWProtocolConfigurationUpdateRequestValues =
  bindingValues :: "binding_update option"
  protocolValues :: "vendor_payload option"
  updateRequestType :: u32

text \<open>Whether there is a binding element, whether there is a vendor payload, and the type of the last element.\<close>

definition update_switch ::
  "u16 \<Rightarrow> nat \<Rightarrow> bool \<times> bool \<times> u16 \<Rightarrow> cw_msg \<Rightarrow> (CWErrorCode + (bool \<times> bool \<times> u16) \<times> cw_msg) option" where
  "update_switch elemType elemLen s m =
     (case s of (bind_found, vendor_found, _) \<Rightarrow>
        if CWBindingCheckType (ucast elemType) then skip_element elemLen (True, vendor_found, elemType) m
        else if ucast elemType = CW_MSG_ELEMENT_VENDOR_SPEC_PAYLOAD_CW_TYPE then
          skip_element elemLen (bind_found, True, elemType) m
        else Some (Inl CW_ERROR_INVALID_FORMAT))"

definition CWParseConfigurationUpdateRequest ::
  "wtp_run_env \<Rightarrow> cw_msg \<Rightarrow> int \<Rightarrow> (CWErrorCode + CWProtocolConfigurationUpdateRequestValues) option" where
  "CWParseConfigurationUpdateRequest env m len = do {
     r \<leftarrow> loop_to_end update_switch len (False, False, 0) m;
     (case r of
        Inl e \<Rightarrow> Some (Inl e)
      | Inr (bind_found, vendor_found, GlobalElementType) \<Rightarrow> do {
          let kind = (if bind_found \<or> vendor_found then ucast GlobalElementType else wr_garbage env);
          r \<leftarrow> (if vendor_found then CWParseVendorMessage (wr_alloc env) (wr_junk env) m len else Some (Inr None));
          (case r of
             Inl e \<Rightarrow> Some (Inl e)
           | Inr protocol \<Rightarrow> do {
               r \<leftarrow> (if bind_found then CWBindingParseConfigurationUpdateRequest (wr_alloc env) m (nat len) None
                    else Some (Inr None));
               Some (case r of
                       Inl e \<Rightarrow> Inl e
                     | Inr binding \<Rightarrow> Inr \<lparr>bindingValues = binding, protocolValues = protocol, updateRequestType = kind\<rparr>)
             })
        })
   }"

definition station_switch ::
  "(nat \<Rightarrow> bool) \<Rightarrow> u16 \<Rightarrow> nat \<Rightarrow> unit \<Rightarrow> cw_msg \<Rightarrow> (CWErrorCode + unit \<times> cw_msg) option" where
  "station_switch alloc elemType elemLen s m =
     (if ucast elemType = CW_MSG_ELEMENT_ADD_STATION_CW_TYPE then
        parse_into (CWParseAddStation alloc (Some m) elemLen) (\<lambda>_. ())
      else Some (Inl CW_ERROR_INVALID_FORMAT))"

definition CWParseStationConfigurationRequest :: "(nat \<Rightarrow> bool) \<Rightarrow> cw_msg \<Rightarrow> int \<Rightarrow> (CWErrorCode + unit) option" where
  "CWParseStationConfigurationRequest alloc m len = loop_to_end (station_switch alloc) len () m"

text \<open>A WTP Event Response has no elements.\<close>

definition CWParseWTPEventResponseMessage :: "cw_msg \<Rightarrow> u32 \<Rightarrow> (CWErrorCode + unit) option" where
  "CWParseWTPEventResponseMessage m seqValue = do {
     r \<leftarrow> CWParseControlHeader (Some (m\<lparr>offset := 0\<rparr>));
     Some (case r of
             Inl e \<Rightarrow> Inl e
           | Inr (controlVal, _) \<Rightarrow>
               if messageTypeValue controlVal \<noteq> CW_MSG_TYPE_VALUE_WTP_EVENT_RESPONSE \<or> ucast (seqNum controlVal) \<noteq> seqValue
                  \<or> msgElemsLen controlVal \<noteq> CW_CONTROL_HEADER_OFFSET_FOR_MSG_ELEMS
               then Inl CW_ERROR_INVALID_FORMAT else Inr ())
   }"

subsection \<open>Saving what the AC asks for\<close>

text \<open>The result code and the payload as it will be answered, or the error.\<close>

definition CWSaveVendorMessage ::
  "wtp_run_env \<Rightarrow> vendor_payload \<Rightarrow> wtp_state \<Rightarrow> ((CWErrorCode + u32 \<times> vendor_payload) \<times> wtp_state \<times> wtp_action list) option"
where
  "CWSaveVendorMessage env payload s =
     (case payload of
        Uci_payload u \<Rightarrow> do {
          (r, link) \<leftarrow> CWWTPSaveUCIValues (wr_uci env) u \<lparr>us_sent = [], us_answers = wr_uci_answers env\<rparr>;
          Some (map_sum id (map_prod id Uci_payload) r, s, map To_uci (us_sent link)) }
      | Wum_payload w \<Rightarrow> do {
          (r, wum) \<leftarrow> CWWTPSaveWUMValues (wr_files env) w (update s);
          (case r of
             Answer code w started \<Rightarrow>
               Some (Inr (code, Wum_payload w), s\<lparr>update := wum\<rparr>, if started then [Agent_started] else [])) })"

definition CW_TRUE :: u32 where "CW_TRUE = 1"

text \<open>The result code, first set to \<open>CW_TRUE\<close>, is that of the last part that has one.\<close>

definition CWSaveConfigurationUpdateRequest ::
  "wtp_run_env \<Rightarrow> CWProtocolConfigurationUpdateRequestValues \<Rightarrow> wtp_state \<Rightarrow>
     ((CWErrorCode + u32 \<times> vendor_payload option) \<times> wtp_state \<times> wtp_action list) option" where
  "CWSaveConfigurationUpdateRequest env v s = do {
     (r, s, out) \<leftarrow> (case bindingValues v of
        None \<Rightarrow> Some (Inr CW_TRUE, s, [])
      | Some b \<Rightarrow> do {
          (r, rs, ofdm) \<leftarrow> CWBindingSaveConfigurationUpdateRequest (wr_driver env) (wr_reached env) (Some b)
                             (updateRequestType v) (radios s);
          Some (r, s\<lparr>radios := rs\<rparr>, map To_frequency_server ofdm) });
     (case (r, protocolValues v) of
        (Inl e, _) \<Rightarrow> Some (Inl e, s, out)
      | (Inr code, None) \<Rightarrow> Some (Inr (code, None), s, out)
      | (Inr _, Some payload) \<Rightarrow> do {
          (r, s, out') \<leftarrow> CWSaveVendorMessage env payload s;
          Some (map_sum id (map_prod id Some) r, s, out @ out') })
   }"

text \<open>Both steps go through \<open>CWErr\<close>, and the second only after the first.\<close>

definition CWSaveClearConfigurationRequest :: "wtp_run_env \<Rightarrow> wtp_state \<Rightarrow> (CWErrorCode + u32) outcome \<times> wtp_state" where
  "CWSaveClearConfigurationRequest env s =
     (let step = (\<lambda>f s k. case f (wtp_globals s) of
            (e, g) \<Rightarrow>
              (let s = s\<lparr>wtp_globals := g\<rparr>
               in case e of
                    None \<Rightarrow> k s
                  | Some e \<Rightarrow>
                      (case CWErr env e of
                         Ends \<Rightarrow> (Ends, s)
                       | Done True \<Rightarrow> k s
                       | Done False \<Rightarrow> (Done (Inl e), s))))
      in step (wr_load env) s (\<lambda>s. step (wr_init env) s (\<lambda>s. (Done (Inr CW_TRUE), s))))"

subsection \<open>The responses\<close>

definition assemble_result ::
  "wtp_run_env \<Rightarrow> u32 \<Rightarrow> u32 \<Rightarrow> (CWErrorCode + cw_msg) option \<Rightarrow> (CWErrorCode + cw_msg list) option" where
  "assemble_result env msgType seqValue element =
     (if \<not> wr_alloc env sizeof_CWProtocolMessage then Some (Inl CW_ERROR_OUT_OF_MEMORY)
      else do {
        r \<leftarrow> element;
        (case r of
           Inl e \<Rightarrow> Some (Inl e)
         | Inr m \<Rightarrow> CWAssembleMessage (wr_alloc env) (wr_fragID env) (gWTPPathMTU env) seqValue msgType
                      (Some [m]) 1 None 0 (wr_crypt env))
      })"

definition CWAssembleConfigurationUpdateResponse ::
  "wtp_run_env \<Rightarrow> u32 \<Rightarrow> u32 \<Rightarrow> vendor_payload option \<Rightarrow> (CWErrorCode + cw_msg list) option" where
  "CWAssembleConfigurationUpdateResponse env seqValue resultCode payload =
     assemble_result env CW_MSG_TYPE_VALUE_CONFIGURE_UPDATE_RESPONSE seqValue
       (case payload of
          None \<Rightarrow> CWAssembleMsgElemResultCode (wr_alloc env) resultCode
        | Some v \<Rightarrow> CWAssembleVendorMsgElemResultCodeWithPayload (wr_alloc env) resultCode v)"

definition CWAssembleClearConfigurationResponse ::
  "wtp_run_env \<Rightarrow> u32 \<Rightarrow> u32 \<Rightarrow> (CWErrorCode + cw_msg list) option" where
  "CWAssembleClearConfigurationResponse env seqValue resultCode =
     assemble_result env CW_MSG_TYPE_VALUE_CLEAR_CONFIGURATION_RESPONSE seqValue
       (CWAssembleMsgElemResultCode (wr_alloc env) resultCode)"

definition CWAssembleStationConfigurationResponse ::
  "wtp_run_env \<Rightarrow> u32 \<Rightarrow> u32 \<Rightarrow> (CWErrorCode + cw_msg list) option" where
  "CWAssembleStationConfigurationResponse env seqValue resultCode =
     assemble_result env CW_MSG_TYPE_VALUE_STATION_CONFIGURATION_RESPONSE seqValue
       (CWAssembleMsgElemResultCode (wr_alloc env) resultCode)"


subsection \<open>A message in the Run state\<close>

type_synonym 'a handling = "((CWErrorCode + 'a) outcome \<times> wtp_state \<times> wtp_action list) option"

text \<open>The handlers first start the heartbeat again.\<close>

definition after_reset :: "wtp_run_env \<Rightarrow> wtp_state \<Rightarrow> (wtp_state \<Rightarrow> 'a handling) \<Rightarrow> 'a handling" where
  "after_reset env s k =
     (case CWResetTimers env s of (ok, s) \<Rightarrow> if ok then k s else Some (Done (Inl CW_ERROR_NONE), s, []))"

text \<open>The packets of a response are sent; then the program exits if an update was committed.\<close>

definition send_response ::
  "wtp_run_env \<Rightarrow> wtp_action list \<Rightarrow> (CWErrorCode + cw_msg list) option \<Rightarrow> wtp_state \<Rightarrow> unit handling" where
  "send_response env out response s = do {
     r \<leftarrow> response;
     (case r of
        Inl e \<Rightarrow> Some (Done (Inl e), s, out)
      | Inr ms \<Rightarrow> do {
          (r, out') \<leftarrow> transmit (wr_send env) ms;
          Some (case r of
                  Inl e \<Rightarrow> Done (Inl e)
                | Inr _ \<Rightarrow> if exit_on_commit (update s) then Ends else Done (Inr ()), s, out @ out')
        })
   }"

text \<open>
  The payload is looked at, once the response has been assembled, whether the request had one or not.
\<close>

definition manage_update_request :: "wtp_run_env \<Rightarrow> u32 \<Rightarrow> cw_msg \<Rightarrow> int \<Rightarrow> wtp_state \<Rightarrow> unit handling" where
  "manage_update_request env seqValue body len s = do {
     r \<leftarrow> CWParseConfigurationUpdateRequest env body len;
     (case r of
        Inl e \<Rightarrow> Some (Done (Inl e), s, [])
      | Inr v \<Rightarrow> do {
          (r, s, out) \<leftarrow> CWSaveConfigurationUpdateRequest env v s;
          (case r of
             Inl e \<Rightarrow> Some (Done (Inl e), s, out)
           | Inr (resultCode, payload) \<Rightarrow> do {
               r \<leftarrow> CWAssembleConfigurationUpdateResponse env seqValue resultCode payload;
               (case r of
                  Inl e \<Rightarrow> Some (Done (Inl e), s, out)
                | Inr ms \<Rightarrow> do {
                    _ \<leftarrow> payload;
                    send_response env out (Some (Inr ms)) s
                  })
             })
        })
   }"

definition manage_clear_request :: "wtp_run_env \<Rightarrow> u32 \<Rightarrow> wtp_state \<Rightarrow> unit handling" where
  "manage_clear_request env seqValue s =
     (case CWSaveClearConfigurationRequest env s of
        (Ends, s) \<Rightarrow> Some (Ends, s, [])
      | (Done (Inl e), s) \<Rightarrow> Some (Done (Inl e), s, [])
      | (Done (Inr resultCode), s) \<Rightarrow>
          send_response env [] (CWAssembleClearConfigurationResponse env seqValue resultCode) s)"

definition manage_station_request :: "wtp_run_env \<Rightarrow> u32 \<Rightarrow> cw_msg \<Rightarrow> int \<Rightarrow> wtp_state \<Rightarrow> unit handling" where
  "manage_station_request env seqValue body len s = do {
     r \<leftarrow> CWParseStationConfigurationRequest (wr_alloc env) body len;
     (case r of
        Inl e \<Rightarrow> Some (Done (Inl e), s, [])
      | Inr _ \<Rightarrow> send_response env [] (CWAssembleStationConfigurationResponse env seqValue CW_PROTOCOL_FAILURE) s)
   }"

text \<open>A request, or an Echo Response.\<close>

definition manage_request ::
  "wtp_run_env \<Rightarrow> u32 \<Rightarrow> u32 \<Rightarrow> cw_msg \<Rightarrow> int \<Rightarrow> wtp_state \<Rightarrow> unit handling" where
  "manage_request env type seqValue body len s = after_reset env s (\<lambda>s.
     if type = CW_MSG_TYPE_VALUE_CONFIGURE_UPDATE_REQUEST then manage_update_request env seqValue body len s
     else if type = CW_MSG_TYPE_VALUE_CLEAR_CONFIGURATION_REQUEST then manage_clear_request env seqValue s
     else if type = CW_MSG_TYPE_VALUE_STATION_CONFIGURATION_REQUEST then
       manage_station_request env seqValue body len s
     else if type = CW_MSG_TYPE_VALUE_ECHO_RESPONSE then Some (Done (Inr ()), s, [])
     else send_response env []
            (CWAssembleUnrecognizedMessageResponse (wr_alloc env) (wr_fragID env) (gWTPPathMTU env) seqValue (type + 1)
               (wr_crypt env)) s)"

text \<open>The response to the request of box \<open>k\<close>.\<close>

definition manage_response :: "wtp_run_env \<Rightarrow> u32 \<Rightarrow> nat \<Rightarrow> wtp_state \<Rightarrow> unit handling" where
  "manage_response env type k s = after_reset env s (\<lambda>s.
     if type = CW_MSG_TYPE_VALUE_CHANGE_STATE_EVENT_RESPONSE \<or> type = CW_MSG_TYPE_VALUE_WTP_EVENT_RESPONSE \<or>
        type = CW_MSG_TYPE_VALUE_DATA_TRANSFER_RESPONSE
     then do { s \<leftarrow> CWResetPendingMsgBox k s; Some (Done (Inr ()), s, []) }
     else Some (Done (Inl CW_ERROR_INVALID_FORMAT), s, []))"

definition CWWTPManageGenericRunMessage :: "wtp_run_env \<Rightarrow> cw_msg option \<Rightarrow> wtp_state \<Rightarrow> unit handling" where
  "CWWTPManageGenericRunMessage env msgPtr s =
     (case msgPtr of
        None \<Rightarrow> Some (Done (Inl CW_ERROR_WRONG_ARG), s, [])
      | Some m \<Rightarrow> do {
          r \<leftarrow> CWParseControlHeader (Some (m\<lparr>offset := 0\<rparr>));
          (case r of
             Inl e \<Rightarrow> Some (Done (Inl e), s, [])
           | Inr (controlVal, m) \<Rightarrow> do {
               let len = int (unat (msgElemsLen controlVal)) - int (unat CW_CONTROL_HEADER_OFFSET_FOR_MSG_ELEMS);
               let type = messageTypeValue controlVal;
               let seqValue = ucast (seqNum controlVal);
               (k, s) \<leftarrow> CWFindPendingRequestMsgsBox MAX_PENDING_REQUEST_MSGS type seqValue s;
               (case k of
                  None \<Rightarrow> manage_request env type seqValue (m\<lparr>msg := drop (offset m) (msg m), offset := 0\<rparr>) len s
                | Some k \<Rightarrow> manage_response env type k s)
             })
        })"

subsection \<open>Receiving\<close>

text \<open>The thread that receives packets keeps those it has memory for; the result is whether it goes on.\<close>

definition CWWTPReceiveDtlsPacket ::
  "wtp_run_env \<Rightarrow> CWErrorCode + u8 list \<Rightarrow> wtp_state \<Rightarrow> bool \<times> wtp_state" where
  "CWWTPReceiveDtlsPacket env read_bytes s =
     (case read_bytes of
        Inl e \<Rightarrow> (e = CW_ERROR_INTERRUPTED, s)
      | Inr bs \<Rightarrow>
          if \<not> wr_alloc env (length bs) then (False, s)
          else (True, if wr_alloc env 32 then s\<lparr>gPacketReceiveList := gPacketReceiveList s @ [bs]\<rparr> else s))"

text \<open>A message and the packets that are left; more packets are waited for until the message is complete.\<close>

fun receive_fragments ::
  "(nat \<Rightarrow> bool) \<Rightarrow> CWProtocolFragment list \<Rightarrow> u8 list list \<Rightarrow> ((CWErrorCode + cw_msg) \<times> u8 list list) option" where
  "receive_fragments alloc frags [] = None"
| "receive_fragments alloc frags (p # ps) =
     (if length p > CW_BUFFER_SIZE then None
      else do {
        (r, frags) \<leftarrow> CWProtocolParseFragment alloc (p @ replicate (CW_BUFFER_SIZE - length p) 0) (int (length p)) frags;
        (case r of
           Inr (m, _) \<Rightarrow> Some (Inr m, ps)
         | Inl e \<Rightarrow> if e = CW_ERROR_NEED_RESOURCE then receive_fragments alloc frags ps else Some (Inl e, ps))
      })"

definition CWReceiveMessage :: "(nat \<Rightarrow> bool) \<Rightarrow> u8 list list \<Rightarrow> ((CWErrorCode + cw_msg) \<times> u8 list list) option" where
  "CWReceiveMessage alloc ps = receive_fragments alloc [] ps"

subsection \<open>Frames of stations\<close>

text \<open>
  When a frame cannot be assembled the packets made so far are freed: there is an array of them only if it could be
  allocated.
\<close>

definition frame_array :: "wtp_run_env \<Rightarrow> cw_msg \<Rightarrow> CWBindingTransportHeaderValues \<Rightarrow> bool" where
  "frame_array env frame b =
     (let n = fragments_num (aligned_pmtu (gWTPPathMTU env - int gMaxCAPWAPHeaderSizeBinding)) (offset frame)
      in if n = 1 then (case CWAssembleTransportHeader (wr_alloc env) (Some (plain_values (wr_crypt env) (Some b))) of
                          Some (Inr _) \<Rightarrow> wr_alloc env sizeof_CWProtocolMessage | _ \<Rightarrow> False)
         else n = 0 \<or> wr_alloc env (sizeof_CWProtocolMessage * n))"

fun check_frames ::
  "wtp_run_env \<Rightarrow> (cw_msg \<times> CWBindingTransportHeaderValues) option list \<Rightarrow> wtp_action list option" where
  "check_frames env [] = Some []"
| "check_frames env (None # fs) = check_frames env fs"
| "check_frames env (Some (frame, b) # fs) = do {
     r \<leftarrow> CWAssembleDataMessage (wr_alloc env) (wr_garbage env) (wr_fragID env) (gWTPPathMTU env) (Some frame) (Some b)
            (wr_crypt env);
     (case r of
        Inl e \<Rightarrow> if frame_array env frame b then check_frames env fs else None
      | Inr ms \<Rightarrow> do {
          (_, out) \<leftarrow> transmit (wr_send env) ms;
          out' \<leftarrow> check_frames env fs;
          Some (out @ out')
        })
   }"

definition CWWTPCheckForBindingFrame :: "wtp_run_env \<Rightarrow> wtp_state \<Rightarrow> (wtp_state \<times> wtp_action list) option" where
  "CWWTPCheckForBindingFrame env s = do {
     out \<leftarrow> check_frames env (gFrameList s);
     Some (s\<lparr>gFrameList := []\<rparr>, out)
   }"

subsection \<open>The loop\<close>

datatype run_state = Stays | Resets

text \<open>Every box is reset, and the heartbeat started.\<close>

fun reset_boxes :: "nat \<Rightarrow> nat \<Rightarrow> wtp_state \<Rightarrow> wtp_state option" where
  "reset_boxes 0 k s = Some s"
| "reset_boxes (Suc n) k s = do { s \<leftarrow> CWResetPendingMsgBox k s; reset_boxes n (Suc k) s }"

definition CWWTPEnterRun_begin :: "wtp_run_env \<Rightarrow> wtp_state \<Rightarrow> run_state wtp_step" where
  "CWWTPEnterRun_begin env s = do {
     s \<leftarrow> reset_boxes MAX_PENDING_REQUEST_MSGS 0 s;
     (case CWStartHeartbeatTimer env s of
        (True, s) \<Rightarrow> Some (Done Stays, s, [])
      | (False, s) \<Rightarrow>
          (case CWErr env CW_ERROR_NONE of
             Ends \<Rightarrow> Some (Ends, s, [])
           | Done ok \<Rightarrow> Some (Done (if ok then Stays else Resets), s, [])))
   }"

text \<open>A packet is there: a message is received and handled.\<close>

definition run_message :: "wtp_run_env \<Rightarrow> wtp_state \<Rightarrow> run_state wtp_step" where
  "run_message env s = do {
     (r, ps) \<leftarrow> CWReceiveMessage (wr_alloc env) (gPacketReceiveList s);
     let s = s\<lparr>gPacketReceiveList := ps\<rparr>;
     (case r of
        Inl e \<Rightarrow> Some (Done Resets, s, [])
      | Inr m \<Rightarrow> do {
          (r, s, out) \<leftarrow> CWWTPManageGenericRunMessage env (Some m) s;
          (case r of
             Ends \<Rightarrow> Some (Ends, s, out)
           | Done (Inr _) \<Rightarrow> Some (Done Stays, s, out)
           | Done (Inl e) \<Rightarrow>
               (case CWErr env e of
                  Ends \<Rightarrow> Some (Ends, s, out)
                | Done ok \<Rightarrow>
                    Some (Done (if ok \<or> CWErrorGetLastErrorCode (raised env e) = CW_ERROR_INVALID_FORMAT
                                then Stays else Resets), s, out)))
        })
   }"

text \<open>
  One turn. When both lists are empty the thread waits, for 110 seconds at most; \<open>woken\<close> is how the wait ends: with what has
  arrived by then, or with an error.
\<close>

datatype wakeup = Arrived "u8 list list" "(cw_msg \<times> CWBindingTransportHeaderValues) option list" | Failed CWErrorCode

definition CWWTPEnterRun_turn :: "wtp_run_env \<Rightarrow> wakeup \<Rightarrow> wtp_state \<Rightarrow> run_state wtp_step" where
  "CWWTPEnterRun_turn env woken s =
     (let go = (\<lambda>s. do {
            let bind_frames = (gFrameList s \<noteq> []);
            (r, s, out) \<leftarrow> (if gPacketReceiveList s = [] then Some (Done Stays, s, []) else run_message env s);
            if r = Done Stays \<and> bind_frames then do {
              (s, out') \<leftarrow> CWWTPCheckForBindingFrame env s;
              Some (Done Stays, s, out @ out') }
            else Some (r, s, out) })
      in if gPacketReceiveList s \<noteq> [] \<or> gFrameList s \<noteq> [] then go s
         else
           (case woken of
              Arrived ps fs \<Rightarrow> go (s\<lparr>gPacketReceiveList := ps, gFrameList := fs\<rparr>)
            | Failed e \<Rightarrow>
                (case CWErr env e of
                   Ends \<Rightarrow> Some (Ends, s, [])
                 | Done True \<Rightarrow> go s
                 | Done False \<Rightarrow>
                     if e = CW_ERROR_TIME_EXPIRED then Some (Done Resets, CWStopHeartbeatTimer s, [])
                     else Some (Done Stays, s, []))))"

subsection \<open>A request that must be acknowledged\<close>

text \<open>
  What ends a wait of \<open>CWWTPSendAcknowledgedPacket\<close>: the time is over, or an error, or a message was received, in one packet or
  in fragments. The messages of the Join, Configure and Data Check states are sent in this way. Before it reads a message
  the code raises \<open>CW_ERROR_SUCCESS\<close>, and each fragment but the last raises \<open>CW_ERROR_NEED_RESOURCE\<close>: so this is the last
  error when the parser or the saving fails and raises none, and it is taken for theirs.
\<close>

datatype 'm waited = Time_over | Interrupted | Wait_failed CWErrorCode | Message bool 'm | Receive_failed CWErrorCode

definition after_reading :: "bool \<Rightarrow> CWErrorCode \<Rightarrow> CWErrorCode" where
  "after_reading in_fragments e =
     (if e \<noteq> CW_ERROR_NONE then e else if in_fragments then CW_ERROR_NEED_RESOURCE else CW_ERROR_SUCCESS)"

text \<open>
  \<open>count\<close> is \<open>gWTPRetransmissionCount\<close>; the packets were sent for this count already. \<open>acknowledge\<close> goes round the inner loop, and
  calls itself with the next transmission from the outer one. The result carries the packets sent, and the value saved.
\<close>

definition give_up :: "wtp_action list \<Rightarrow> ((CWErrorCode + 'v) \<times> wtp_action list) option" where
  "give_up out = Some (Inl CW_ERROR_NEED_RESOURCE, out)"

fun acknowledge ::
  "wtp_run_env \<Rightarrow> nat \<Rightarrow> cw_msg list \<Rightarrow> ('m \<Rightarrow> (CWErrorCode + 'v) option) \<Rightarrow> ('v \<Rightarrow> (CWErrorCode + 'r) option) \<Rightarrow>
     nat \<Rightarrow> 'm waited list \<Rightarrow> ((CWErrorCode + 'r) \<times> wtp_action list) option" where
  "acknowledge env limit ms parse save count [] = None"
| "acknowledge env limit ms parse save count (e # es) =
     (let retry =
        (if Suc count < limit then do {
           (r, out) \<leftarrow> transmit (wr_send env) ms;
           (case r of
              Inl err \<Rightarrow> Some (Inl err, out)
            | Inr _ \<Rightarrow> do {
                (r, out') \<leftarrow> acknowledge env limit ms parse save (Suc count) es;
                Some (r, out @ out') })
         }
         else give_up [])
      in case e of
           Time_over \<Rightarrow> retry
         | Interrupted \<Rightarrow> retry
         | Wait_failed err \<Rightarrow> Some (Inl err, [])
         | Receive_failed err \<Rightarrow> Some (Inl err, [])
         | Message in_fragments m \<Rightarrow> do {
             r \<leftarrow> parse m;
             (case r of
                Inl err \<Rightarrow> if err \<noteq> CW_ERROR_INVALID_FORMAT then Some (Inl (after_reading in_fragments err), []) else retry
              | Inr v \<Rightarrow> do {
                  r \<leftarrow> save v;
                  (case r of
                     Inr x \<Rightarrow> Some (Inr x, [])
                   | Inl err \<Rightarrow> if err \<noteq> CW_ERROR_INVALID_FORMAT then Some (Inl (after_reading in_fragments err), [])
                                else acknowledge env limit ms parse save count es)
                })
           })"

definition CWWTPSendAcknowledgedPacket ::
  "wtp_run_env \<Rightarrow> nat \<Rightarrow> (CWErrorCode + cw_msg list) option \<Rightarrow> ('m \<Rightarrow> (CWErrorCode + 'v) option) \<Rightarrow>
     ('v \<Rightarrow> (CWErrorCode + 'r) option) \<Rightarrow> 'm waited list \<Rightarrow> ((CWErrorCode + 'r) \<times> wtp_action list) option" where
  "CWWTPSendAcknowledgedPacket env limit request parse save es = do {
     r \<leftarrow> request;
     (case r of
        Inl e \<Rightarrow> Some (Inl e, [])
      | Inr ms \<Rightarrow>
          if limit = 0 then give_up []
          else do {
            (r, out) \<leftarrow> transmit (wr_send env) ms;
            (case r of
               Inl e \<Rightarrow> Some (Inl e, out)
             | Inr _ \<Rightarrow> do {
                 (r, out') \<leftarrow> acknowledge env limit ms parse save 0 es;
                 Some (r, out @ out') })
          })
   }"

end
