(* ===== verification/WTP_Exchange.thy ===== *)
theory WTP_Exchange
  imports WTP_Run
begin

text \<open>
  The Run state of the WTP together with the AC: a message the AC assembles reaches the handler of the WTP whatever
  its packets are, an order of the update manager is carried out and answered, and a package sent in parts is put together.
  Then the requests for which the answer of the WTP is wrong or missing, the retransmission timer, and how long the WTP
  tries to have a request acknowledged.
\<close>

subsection \<open>The packets of a message in the buffer of the WTP\<close>

text \<open>What follows a packet in the buffer makes no difference.\<close>

lemma parse_sent_padded:
  assumes "header_wf v" and "\<And>k. alloc k"
  shows "CWProtocolParseFragment alloc ((header_bytes v @ d) @ z) (int (length (header_bytes v @ d))) frags =
    CWProtocolParseFragment alloc (header_bytes v @ d) (int (length (header_bytes v @ d))) frags"
proof -
  obtain vs where parse: "\<And>rest. CWParseTransportHeader alloc
        (Some \<lparr>msg = header_bytes v @ rest, offset = 0, data_msgType = None\<rparr>) =
      Some (Inr ((vs, has_binding v), rbuf (header_kind v) (header_bytes v) rest))"
    using CWParseTransportHeader_sent [of v alloc] assms by blast
  have buf: "offset (rbuf (header_kind v) (header_bytes v) rest) = header_size v"
      "data_msgType (rbuf (header_kind v) (header_bytes v) rest) = header_kind v" for rest
    by (simp_all add: rbuf_def)
  have len: "int (header_size v + length d) - int (header_size v) = int (length d)" by simp
  have add: "add_fragment alloc (header_bytes v @ d @ z) (header_size v) (int (length d)) vs fs =
      add_fragment alloc (header_bytes v @ d) (header_size v) (int (length d)) vs fs" for fs
    by (simp add: add_fragment_def)
  have raw: "CWProtocolStoreRawBytes b (drop (header_size v) (header_bytes v @ d @ z)) (nat (int (length d))) =
      CWProtocolStoreRawBytes b (drop (header_size v) (header_bytes v @ d)) (nat (int (length d)))" for b
    by (simp add: CWProtocolStoreRawBytes_def)
  show ?thesis
    unfolding CWProtocolParseFragment_def append_assoc parse length_append length_header_bytes bind.bind_lunit
      sum.case prod.case buf Let_def len add raw ..
qed

lemma sent_packet:
  assumes "0 < P \<or> fragments_num P (length B) = 1" and "8 dvd P" and "B \<noteq> []" and "length B \<le> 65536"
    and "fragmentID tvf < 65536" and "header_wf tv" and "p \<in> set (packets_of tv tvf P B)"
  shows "\<exists>v d. p = header_bytes v @ d \<and> header_wf v \<and> length d \<le> length B"
proof (cases "fragments_num P (length B) = 1")
  case True
  then show ?thesis using assms by (auto simp: packets_of_def)
next
  case False
  let ?n = "fragments_num P (length B)"
  have plan: "fragment_plan tvf P ?n B" using fragment_plan_num [of P B tvf] assms False by simp
  obtain i where "i < ?n" "p = frag_packet tvf P ?n B i" using assms(7) False by (auto simp: packets_of_def Let_def)
  then show ?thesis
    using header_wf_frag [OF plan, of i]
    by (intro exI [of _ "frag_header tvf P ?n i"] exI [of _ "frag_chunk P ?n B i"])
      (auto simp: frag_packet_def frag_chunk_def)
qed

lemma receive_fragments_all:
  assumes "receive plenty (p # ps) frags = Some (replicate (length ps) (Inl CW_ERROR_NEED_RESOURCE) @ [Inr (m, b)], frags')"
    and "\<forall>q \<in> set (p # ps). \<exists>v d. q = header_bytes v @ d \<and> header_wf v \<and> length q \<le> CW_BUFFER_SIZE"
  shows "receive_fragments plenty frags ((p # ps) @ later) = Some (Inr m, later)"
  using assms
proof (induction ps arbitrary: p frags)
  case Nil
  then obtain v d where "p = header_bytes v @ d" "header_wf v" "length p \<le> CW_BUFFER_SIZE" by auto
  then show ?case
    using Nil parse_sent_padded [of v plenty d "replicate (CW_BUFFER_SIZE - length p) 0" frags]
    by (auto simp: bind_Some_iff not_less)
next
  case (Cons q ps)
  obtain v d where p: "p = header_bytes v @ d" "header_wf v" "length p \<le> CW_BUFFER_SIZE" using Cons.prems(2) by auto
  from Cons.prems(1) obtain fs where 1: "CWProtocolParseFragment plenty p (int (length p)) frags =
        Some (Inl CW_ERROR_NEED_RESOURCE, fs)"
    and 2: "receive plenty (q # ps) fs = Some (replicate (length ps) (Inl CW_ERROR_NEED_RESOURCE) @ [Inr (m, b)], frags')"
    by (auto simp: bind_Some_iff)
  have "receive_fragments plenty fs ((q # ps) @ later) = Some (Inr m, later)"
    using Cons.IH [OF 2] Cons.prems(2) by simp
  then show ?case
    using 1 p parse_sent_padded [of v plenty d "replicate (CW_BUFFER_SIZE - length p) 0" frags] by (simp add: not_less)
qed

lemma header_size_le: "header_size v \<le> 16"
  by (simp add: header_size_def split: option.split)

text \<open>Whatever the path MTU of the AC, the WTP receives what the AC assembled.\<close>

lemma message_received:
  assumes fits: "\<forall>m \<in> set es. msg_fits m" and ID: "fragID < 65536"
    and len: "length (message_bytes seq type es) \<le> 65520"
  shows "\<exists>ps m. CWAssembleMessage plenty fragID PMTU seq type (Some es) (length es) (Some []) 0 crypt =
            Some (Inr ps) \<and> ps \<noteq> [] \<and> CWReceiveMessage plenty (map contents ps @ later) = Some (Inr m, later) \<and>
          msg m = message_bytes seq type es"
proof -
  let ?B = "message_bytes seq type es" and ?tv = "plain_values crypt None"
  let ?ps = "packets_of ?tv (?tv\<lparr>fragmentID := fragID\<rparr>) (message_pmtu PMTU) ?B"
  have sent: "CWAssembleMessage plenty fragID PMTU seq type (Some es) (length es) (Some []) 0 crypt =
      Some (Inr (wbufs ?ps))"
    using CWAssembleMessage_eq [of plenty es "[]" fragID seq type PMTU crypt] assms by simp
  obtain ps where del: "delivers (map contents ps) ?B"
      "CWAssembleMessage plenty fragID PMTU seq type (Some es) (length es) (Some []) 0 crypt = Some (Inr ps)"
    using message_delivered [OF fits ID, of seq type PMTU crypt] len by auto
  moreover have contents: "map contents (wbufs ?ps) = ?ps" by (simp add: wbufs_def comp_def)
  ultimately have del: "delivers ?ps ?B" using sent by simp
  have B: "?B \<noteq> []" by (simp add: message_bytes_def Let_def control_bytes_def)
  have "0 < length ?ps" using packets_of_nonempty [OF B] .
  then obtain p qs where ps: "?ps = p # qs" by (cases ?ps) auto
  have "0 < message_pmtu PMTU \<or> fragments_num (message_pmtu PMTU) (length ?B) = 1" by (auto simp: fragments_num_def)
  note form = sent_packet [OF this aligned_pmtu_dvd B]
  have packet: "\<exists>v d. q = header_bytes v @ d \<and> header_wf v \<and> length q \<le> CW_BUFFER_SIZE" if q: "q \<in> set ?ps" for q
  proof -
    obtain v d where v: "q = header_bytes v @ d" "header_wf v" "length d \<le> length ?B"
      using form [OF _ _ _ q] len ID by auto
    then have "length q \<le> CW_BUFFER_SIZE"
      using len header_size_le [of v] by (simp add: CW_BUFFER_SIZE_def)
    then show ?thesis using v by blast
  qed
  from del obtain m where m: "receive plenty (p # qs) [] =
      Some (replicate (length qs) (Inl CW_ERROR_NEED_RESOURCE) @ [Inr (m, False)], [])" "msg m = ?B"
    by (auto simp: delivers_def ps)
  have "CWReceiveMessage plenty (?ps @ later) = Some (Inr m, later)"
    unfolding CWReceiveMessage_def ps by (rule receive_fragments_all [OF m(1)]) (use packet ps in auto)
  moreover have "wbufs ?ps \<noteq> []" by (simp add: ps wbufs_def)
  ultimately show ?thesis using sent m(2) contents by (intro exI [of _ "wbufs ?ps"] exI [of _ m]) simp
qed

subsection \<open>A message without a request that waits for it\<close>

definition wtp_ready :: "wtp_run_env \<Rightarrow> bool" where
  "wtp_ready env \<longleftrightarrow> wr_alloc env = plenty \<and> (\<forall>p. wr_send env p = None) \<and> (\<forall>t. wr_timer env t \<noteq> - 1) \<and>
     wr_fragID env < 65536"

definition boxes_idle :: "wtp_state \<Rightarrow> bool" where
  "boxes_idle s \<longleftrightarrow> length (pending s) = MAX_PENDING_REQUEST_MSGS \<and> (\<forall>b \<in> set (pending s). pr_msgType b = UNUSED_MSG_TYPE)"

lemma first_box_none:
  "n \<le> length bs \<Longrightarrow> \<forall>b \<in> set bs. \<not> P b \<Longrightarrow> first_box P n bs = Some None"
  by (induction P n bs rule: first_box.induct) auto

text \<open>The state once the heartbeat was started again.\<close>

definition reset_timers :: "wtp_run_env \<Rightarrow> wtp_state \<Rightarrow> wtp_state" where
  "reset_timers env s = snd (CWResetTimers env s)"

lemma reset_timers_sel [simp]:
  "update (reset_timers env s) = update s" "pending (reset_timers env s) = pending s"
  "gPacketReceiveList (reset_timers env s) = gPacketReceiveList s" "gFrameList (reset_timers env s) = gFrameList s"
  "wtp_globals (reset_timers env s) = wtp_globals s" "radios (reset_timers env s) = radios s"
  by (simp_all add: reset_timers_def CWResetTimers_def CWStartHeartbeatTimer_def add_timer_def rem_timer_def
      CWStopHeartbeatTimer_def CWStopNeighborDeadTimer_def Let_def)

lemma after_reset_ready: "wtp_ready env \<Longrightarrow> after_reset env s k = k (reset_timers env s)"
  by (simp add: after_reset_def reset_timers_def CWResetTimers_def CWStartHeartbeatTimer_def add_timer_def Let_def
      wtp_ready_def)

lemma run_opens:
  assumes "boxes_idle s" and "type \<noteq> 0" and "length (stream ty body es) < 65533"
    and "msg m = control_message seq type ty body es"
  shows "CWWTPManageGenericRunMessage env (Some m) s =
    manage_request env type (ucast (ucast seq :: u8)) (rbuf (data_msgType m) [] (stream ty body es))
      (int (length (stream ty body es))) s"
proof -
  let ?n = "length (stream ty body es)"
  let ?v = "\<lparr>messageTypeValue = type, seqNum = ucast seq, msgElemsLen = of_nat ?n\<rparr>"
  have m: "m\<lparr>offset := 0\<rparr> = rbuf (data_msgType m) [] (control_bytes ?v @ stream ty body es)"
    using assms(4) by (simp add: rbuf_def control_message_eq)
  have parse: "CWParseControlHeader (Some (m\<lparr>offset := 0\<rparr>)) = Some (Inr (?v\<lparr>msgElemsLen := 3 + msgElemsLen ?v\<rparr>,
      rbuf (data_msgType m) (control_bytes ?v) (stream ty body es)))"
    unfolding m CWParseControlHeader_rbuf by simp
  have "(3 :: u16) + of_nat ?n = of_nat (3 + ?n)" by simp
  then have len: "int (unat ((3 :: u16) + of_nat ?n)) - int (unat CW_CONTROL_HEADER_OFFSET_FOR_MSG_ELEMS) = int ?n"
    using assms(3) unat_of_nat16 [of "3 + ?n"] by (simp add: CW_CONTROL_HEADER_OFFSET_FOR_MSG_ELEMS_def)
  have none: "CWFindPendingRequestMsgsBox MAX_PENDING_REQUEST_MSGS type x s = Some (None, s)" for x
    using assms(1,2) by (simp add: CWFindPendingRequestMsgsBox_def boxes_idle_def first_box_none UNUSED_MSG_TYPE_def)
  have body: "(rbuf k pre rest)\<lparr>msg := rest, offset := 0\<rparr> = rbuf k [] rest" for k pre rest
    by (simp add: rbuf_def)
  show ?thesis
    using len none by (simp add: CWWTPManageGenericRunMessage_def parse rbuf_sel body)
qed

subsection \<open>An order of the update manager\<close>

definition wum_bytes :: "CWVendorWumValues \<Rightarrow> u8 list" where
  "wum_bytes w = be16 CW_MSG_ELEMENT_VENDOR_SPEC_PAYLOAD_WUM @ [wum_type w] @
     (if wum_type w = WTP_UPDATE_REQUEST then [wum_major_v w, wum_minor_v w, wum_revision_v w] @ be32 (wum_pack_size w)
      else if wum_type w = WTP_CUP_FRAGMENT then
        be32 (wum_seq_num w) @ be32 (wum_cup_fragment_size w) @ (case wum_cup w of None \<Rightarrow> [] | Some bs \<Rightarrow> bs)
      else [])"

definition wum_ok :: "CWVendorWumValues \<Rightarrow> bool" where
  "wum_ok w \<longleftrightarrow> wum_size w \<noteq> None \<and>
     (wum_type w = WTP_CUP_FRAGMENT \<longrightarrow>
       (\<exists>bs. wum_cup w = Some bs \<and> length bs \<le> CUP_FRAGMENT_SIZE \<and> wum_cup_fragment_size w = of_nat (length bs)))"

text \<open>The order as the WTP has it: what is not sent stays as it was in memory.\<close>

definition heard_wum :: "CWVendorWumValues \<Rightarrow> CWVendorWumValues \<Rightarrow> CWVendorWumValues" where
  "heard_wum junk w =
     (if wum_type w = WTP_UPDATE_REQUEST then
        junk\<lparr>wum_type := wum_type w, wum_major_v := wum_major_v w, wum_minor_v := wum_minor_v w,
             wum_revision_v := wum_revision_v w, wum_pack_size := wum_pack_size w\<rparr>
      else if wum_type w = WTP_CUP_FRAGMENT then
        junk\<lparr>wum_type := wum_type w, wum_seq_num := wum_seq_num w, wum_cup_fragment_size := wum_cup_fragment_size w,
             wum_cup := wum_cup w\<rparr>
      else junk\<lparr>wum_type := wum_type w\<rparr>)"

lemma wum_types_distinct:
  "WTP_CUP_FRAGMENT \<noteq> WTP_UPDATE_REQUEST" "WTP_UPDATE_REQUEST \<noteq> WTP_VERSION_REQUEST"
  "WTP_UPDATE_REQUEST \<noteq> WTP_COMMIT_UPDATE" "WTP_UPDATE_REQUEST \<noteq> WTP_CANCEL_UPDATE_REQUEST"
  "WTP_CUP_FRAGMENT \<noteq> WTP_VERSION_REQUEST" "WTP_CUP_FRAGMENT \<noteq> WTP_COMMIT_UPDATE"
  "WTP_CUP_FRAGMENT \<noteq> WTP_CANCEL_UPDATE_REQUEST"
  by (simp_all add: wum_types)

lemma unat_small: "n \<le> CUP_FRAGMENT_SIZE \<Longrightarrow> unat (of_nat n :: u32) = n"
  by (rule int_word) (simp add: CUP_FRAGMENT_SIZE_def)

lemma length_wum_bytes: "wum_ok w \<Longrightarrow> length (wum_bytes w) \<le> 11 + CUP_FRAGMENT_SIZE"
  by (auto simp: wum_bytes_def wum_ok_def)

lemma wum_order_assembled:
  assumes "wum_ok w"
  shows "\<exists>order. CWAssembleWTPVendorPayloadWUM plenty (Some (Wum_order w)) =
    Some (order, Inr (elem_msg (ucast CW_MSG_ELEMENT_VENDOR_SPEC_PAYLOAD_CW_TYPE) (wum_bytes w)))"
proof (cases "wum_type w = WTP_UPDATE_REQUEST \<or> wum_type w = WTP_CUP_FRAGMENT")
  case True
  then show ?thesis
    using assms
    by (auto simp: CWAssembleWTPVendorPayloadWUM_def wum_size_def wum_bytes_def wum_ok_def cw_wire wum_types_distinct
        wum_types_distinct [symmetric] unat_small)
next
  case False
  then show ?thesis
    using assms
    by (auto simp: CWAssembleWTPVendorPayloadWUM_def wum_size_def wum_bytes_def wum_ok_def cw_wire split: if_splits)
qed

lemma wum_order_parsed:
  assumes "wum_ok w"
  shows "CWParseVendorPayload plenty junk (rbuf d pre (wum_bytes w @ rest)) =
    Some (Inr (Wum_payload (heard_wum junk w), rbuf d (pre @ wum_bytes w) rest))"
proof -
  have raw: "retrieve_raw_int plenty (of_nat (length bs)) (rbuf d pre (bs @ rest)) =
      Some (Some bs, rbuf d (pre @ bs) rest)" if "length bs \<le> CUP_FRAGMENT_SIZE" for bs pre
    using int_word [of "length bs"] that by (simp add: retrieve_raw_int_def CUP_FRAGMENT_SIZE_def cw_wire)
  have "CW_MSG_ELEMENT_VENDOR_SPEC_PAYLOAD_WUM \<noteq> CW_MSG_ELEMENT_VENDOR_SPEC_PAYLOAD_UCI" by (simp add: payload_types)
  then show ?thesis
    using assms
    by (auto simp: CWParseVendorPayload_def CWParseWUMPayload_def wum_bytes_def wum_ok_def heard_wum_def cw_wire raw
        wum_types_distinct wum_types_distinct [symmetric])
qed

text \<open>A request with one vendor payload.\<close>

definition vendor_type :: u16 where "vendor_type = ucast CW_MSG_ELEMENT_VENDOR_SPEC_PAYLOAD_CW_TYPE"

lemma vendor_type_eq:
  "ucast vendor_type = CW_MSG_ELEMENT_VENDOR_SPEC_PAYLOAD_CW_TYPE" "\<not> CWBindingCheckType CW_MSG_ELEMENT_VENDOR_SPEC_PAYLOAD_CW_TYPE"
  by (simp_all add: vendor_type_def CW_MSG_ELEMENT_VENDOR_SPEC_PAYLOAD_CW_TYPE_def CWBindingCheckType_def
      BINDING_MIN_ELEM_TYPE_def)

lemma update_request_parsed:
  assumes "wum_ok w" and "wr_alloc env = plenty"
  shows "CWParseConfigurationUpdateRequest env (rbuf d [] (elem_bytes vendor_type (wum_bytes w)))
      (int (length (elem_bytes vendor_type (wum_bytes w)))) =
    Some (Inr \<lparr>bindingValues = None, protocolValues = Some (Wum_payload (heard_wum (wr_junk env) w)),
      updateRequestType = ucast vendor_type\<rparr>)"
proof -
  let ?bs = "wum_bytes w"
  have len: "length ?bs < 65536" using length_wum_bytes [OF assms(1)] by (simp add: CUP_FRAGMENT_SIZE_def)
  have start: "(rbuf d [] rest)\<lparr>offset := 0\<rparr> = rbuf d [] rest" for rest by (simp add: rbuf_def)
  have step: "element_loop h stop v (rbuf d [] (elem_bytes vendor_type ?bs)) = do {
      r \<leftarrow> h vendor_type (length ?bs) v (rbuf d (be16 vendor_type @ be16 (of_nat (length ?bs))) ?bs);
      (case r of Inl e \<Rightarrow> Some (Inl e) | Inr (s, m) \<Rightarrow> element_loop h stop s m) }" if "0 < stop" for h v stop
    using element_loop_step [of "[]" stop ?bs h v d vendor_type "[]"] len that by simp
  note parsed = wum_order_parsed [OF assms(1), of "wr_junk env" _ _ "[]", simplified]
  show ?thesis
    using parsed
    by (simp add: CWParseConfigurationUpdateRequest_def CWParseVendorMessage_def loop_to_end_def start step
        update_switch_def last_type_switch_def vendor_switch_def vendor_type_eq assms(2))
qed

lemma answer_assembled:
  "CWAssembleVendorMsgElemResultCodeWithPayload plenty code (Wum_payload w) =
    Some (Inr (elem_msg (ucast CW_MSG_ELEMENT_RESULT_CODE_CW_TYPE_WITH_PAYLOAD) (payload_bytes code
      CW_MSG_ELEMENT_VENDOR_SPEC_PAYLOAD_WUM (if wum_type w = WTP_VERSION_RESPONSE
        then [wum_type w, wum_major_v w, wum_minor_v w, wum_revision_v w] else [wum_type w]))))"
  by (simp add: CWAssembleVendorMsgElemResultCodeWithPayload_def cw_wire payload_bytes_def)

text \<open>What the WTP answers to an order: its type, after a question for the version also the version.\<close>

definition answer_bytes :: "CWVendorWumValues \<Rightarrow> u8 list" where
  "answer_bytes w = (if wum_type w = WTP_VERSION_RESPONSE
     then [wum_type w, wum_major_v w, wum_minor_v w, wum_revision_v w] else [wum_type w])"

definition answered :: "wtp_action list \<Rightarrow> u32 \<Rightarrow> u32 \<Rightarrow> u8 list \<Rightarrow> bool" where
  "answered out seq code bs \<longleftrightarrow> (\<exists>ps. out = map To_ac ps \<and> delivers ps
     (control_message seq CW_MSG_TYPE_VALUE_CONFIGURE_UPDATE_RESPONSE update_type update_body [Wum code bs]))"

lemma transmit_all:
  "wtp_ready env \<Longrightarrow> \<forall>m \<in> set ms. msg_fits m \<Longrightarrow>
   transmit (wr_send env) ms = Some (Inr (), map To_ac (map contents ms))"
  by (induction ms) (simp_all add: wtp_ready_def)

lemma one_element_sent:
  assumes "wtp_ready env" and "length bs < 60020"
  shows "\<exists>ms. assemble_result env type seq (Some (Inr (elem_msg t bs))) = Some (Inr ms) \<and>
    transmit (wr_send env) ms = Some (Inr (), map To_ac (map contents ms)) \<and>
    delivers (map contents ms) (message_bytes seq type [elem_msg t bs])"
proof -
  have "length (message_bytes seq type [elem_msg t bs]) \<le> 65536"
    using assms(2) by (simp add: message_bytes_def Let_def control_bytes_def)
  then obtain ms where "CWAssembleMessage plenty (wr_fragID env) (gWTPPathMTU env) seq type (Some [elem_msg t bs]) 1
        (Some []) 0 (wr_crypt env) = Some (Inr ms)" "\<forall>m \<in> set ms. msg_fits m"
      "delivers (map contents ms) (message_bytes seq type [elem_msg t bs])"
    using message_delivered [of "[elem_msg t bs]" "wr_fragID env" seq type "gWTPPathMTU env" "wr_crypt env"] assms(1)
    by (auto simp: wtp_ready_def elem_msg_fits)
  then show ?thesis
    using assms(1) transmit_all [OF assms(1), of ms]
    by (auto simp: assemble_result_def wtp_ready_def CWAssembleMessage_NULL)
qed

lemma wum_request_handled:
  assumes ready: "wtp_ready env" and "boxes_idle s" and "wum_ok w"
    and save: "CWWTPSaveWUMValues (wr_files env) (heard_wum (wr_junk env) w) (update s) = Some (Answer code w' started, u)"
    and "msg m = control_message seq CW_MSG_TYPE_VALUE_CONFIGURE_UPDATE_REQUEST (\<lambda>_. vendor_type) wum_bytes [w]"
  shows "\<exists>out. CWWTPManageGenericRunMessage env (Some m) s =
      Some (if exit_on_commit u then Ends else Done (Inr ()), (reset_timers env s)\<lparr>update := u\<rparr>,
            (if started then [Agent_started] else []) @ out) \<and>
    answered out (ucast (ucast seq :: u8)) code (answer_bytes w')"
proof -
  let ?e = "elem_bytes vendor_type (wum_bytes w)" and ?seq = "ucast (ucast seq :: u8)" and ?d = "data_msgType m"
  have alloc: "wr_alloc env = plenty" using ready by (simp add: wtp_ready_def)
  have type: "CW_MSG_TYPE_VALUE_CONFIGURE_UPDATE_REQUEST \<noteq> 0" by (simp add: CW_MSG_TYPE_VALUE_CONFIGURE_UPDATE_REQUEST_def)
  have "length (stream (\<lambda>_. vendor_type) wum_bytes [w]) < 65533"
    using length_wum_bytes [OF assms(3)] by (simp add: CUP_FRAGMENT_SIZE_def)
  note opens = run_opens [OF assms(2) type this assms(5)]
  let ?bs = "payload_bytes code CW_MSG_ELEMENT_VENDOR_SPEC_PAYLOAD_WUM (answer_bytes w')"
  let ?t = "ucast CW_MSG_ELEMENT_RESULT_CODE_CW_TYPE_WITH_PAYLOAD"
  have "length ?bs < 60020" by (simp add: answer_bytes_def)
  from one_element_sent [OF ready this, of CW_MSG_TYPE_VALUE_CONFIGURE_UPDATE_RESPONSE ?seq ?t]
  obtain ms where ms: "assemble_result env CW_MSG_TYPE_VALUE_CONFIGURE_UPDATE_RESPONSE ?seq
        (Some (Inr (elem_msg ?t ?bs))) = Some (Inr ms)"
      "transmit (wr_send env) ms = Some (Inr (), map To_ac (map contents ms))"
      "delivers (map contents ms) (message_bytes ?seq CW_MSG_TYPE_VALUE_CONFIGURE_UPDATE_RESPONSE [elem_msg ?t ?bs])"
    by auto
  have answer: "answered (map To_ac (map contents ms)) ?seq code (answer_bytes w')"
    unfolding answered_def control_message_def using ms(3) by (intro exI [of _ "map contents ms"]) simp
  have response: "CWAssembleConfigurationUpdateResponse env ?seq code (Some (Wum_payload w')) = Some (Inr ms)"
    using ms(1) by (simp add: CWAssembleConfigurationUpdateResponse_def alloc answer_assembled answer_bytes_def)
  show ?thesis
    unfolding opens manage_request_def after_reset_ready [OF ready]
    using save answer ms(2) response update_request_parsed [OF assms(3) alloc, of ?d]
    by (auto simp: manage_update_request_def CWSaveConfigurationUpdateRequest_def CWSaveVendorMessage_def
        send_response_def)
qed

subsection \<open>Orders of the AC\<close>

text \<open>An order of the update manager is assembled by the AC for a session, and its packets arrive at the WTP.\<close>

definition send_order ::
  "run_env \<Rightarrow> CWWTPManager \<Rightarrow> u32 \<times> CWVendorWumValues \<Rightarrow> wtp_run_env \<Rightarrow> wtp_state \<Rightarrow> run_state wtp_step" where
  "send_order env wtp order wenv s = do {
     (wtp, r) \<leftarrow> CWAssembleConfigurationUpdateRequest env (wtp\<lparr>vendorValues := Some (Wum_order (snd order))\<rparr>) (fst order)
                   CONFIG_UPDATE_REQ_VENDOR_WUM_ELEMENT_TYPE;
     (case r of
        Inl _ \<Rightarrow> None
      | Inr _ \<Rightarrow> do { ps \<leftarrow> messages wtp; CWWTPEnterRun_turn wenv (Arrived (map contents ps) []) s })
   }"

fun send_orders ::
  "run_env \<Rightarrow> CWWTPManager \<Rightarrow> (u32 \<times> CWVendorWumValues) list \<Rightarrow> wtp_run_env \<Rightarrow> wtp_state \<Rightarrow>
     (wtp_action list list \<times> wtp_state) option" where
  "send_orders env wtp [] wenv s = Some ([], s)"
| "send_orders env wtp (order # orders) wenv s = do {
     (r, s, out) \<leftarrow> send_order env wtp order wenv s;
     if r \<noteq> Done Stays then None
     else do { (outs, s) \<leftarrow> send_orders env wtp orders wenv s; Some (out # outs, s) } }"

definition resting :: "wtp_state \<Rightarrow> bool" where
  "resting s \<longleftrightarrow> gPacketReceiveList s = [] \<and> gFrameList s = [] \<and> boxes_idle s"

lemma resting_update [simp]: "resting ((reset_timers env s)\<lparr>update := u\<rparr>) = resting s"
  by (simp add: resting_def boxes_idle_def)

lemma turn_of_message:
  assumes "CWReceiveMessage (wr_alloc env) ps = Some (Inr m, [])" and "ps \<noteq> []" and "resting s"
    and "CWWTPManageGenericRunMessage env (Some m) s = Some (r, s', out)" and "\<forall>e. r \<noteq> Done (Inl e)"
  shows "CWWTPEnterRun_turn env (Arrived ps []) s = Some (case r of Ends \<Rightarrow> Ends | Done _ \<Rightarrow> Done Stays, s', out)"
proof -
  have "s\<lparr>gFrameList := [], gPacketReceiveList := []\<rparr> = s" using assms(3) by (simp add: resting_def)
  then have run: "run_message env (s\<lparr>gPacketReceiveList := ps, gFrameList := []\<rparr>) =
      Some (case r of Ends \<Rightarrow> Ends | Done _ \<Rightarrow> Done Stays, s', out)"
    using assms(1,4,5) by (cases r) (auto simp: run_message_def split: sum.split)
  show ?thesis using assms(2,3) run by (simp add: CWWTPEnterRun_turn_def resting_def)
qed

lemma order_carried_out:
  assumes "nothing_fails env" and ready: "wtp_ready wenv" and rest: "resting s" and w: "wum_ok w"
    and save: "CWWTPSaveWUMValues (wr_files wenv) (heard_wum (wr_junk wenv) w) (update s) = Some (Answer code w' started, u)"
  shows "\<exists>out. send_order env wtp (seq, w) wenv s =
      Some (if exit_on_commit u then Ends else Done Stays, (reset_timers wenv s)\<lparr>update := u\<rparr>,
            (if started then [Agent_started] else []) @ out) \<and>
    answered out (ucast (ucast seq :: u8)) code (answer_bytes w')"
proof -
  let ?type = CW_MSG_TYPE_VALUE_CONFIGURE_UPDATE_REQUEST
  obtain order where asm: "CWAssembleWTPVendorPayloadWUM plenty (Some (Wum_order w)) =
      Some (order, Inr (elem_msg vendor_type (wum_bytes w)))"
    using wum_order_assembled [OF w] by (auto simp: vendor_type_def)
  have "length (message_bytes seq ?type [elem_msg vendor_type (wum_bytes w)]) \<le> 65520"
    using length_wum_bytes [OF w] by (simp add: message_bytes_def Let_def control_bytes_def CUP_FRAGMENT_SIZE_def)
  then obtain ps m where ps: "CWAssembleMessage plenty (env_fragID env) (pathMTU wtp) seq ?type
        (Some [elem_msg vendor_type (wum_bytes w)]) 1 (Some []) 0 (env_crypt env) = Some (Inr ps)" "ps \<noteq> []"
      "CWReceiveMessage plenty (map contents ps) = Some (Inr m, [])"
      "msg m = message_bytes seq ?type [elem_msg vendor_type (wum_bytes w)]"
    using message_received [of "[elem_msg vendor_type (wum_bytes w)]" "env_fragID env" seq ?type "pathMTU wtp"
        "env_crypt env" "[]"] assms(1) by (auto simp: nothing_fails_def elem_msg_fits)
  have m: "msg m = control_message seq ?type (\<lambda>_. vendor_type) wum_bytes [w]" using ps(4) by (simp add: control_message_def)
  obtain out where out: "CWWTPManageGenericRunMessage wenv (Some m) s =
      Some (if exit_on_commit u then Ends else Done (Inr ()), (reset_timers wenv s)\<lparr>update := u\<rparr>,
            (if started then [Agent_started] else []) @ out)"
    "answered out (ucast (ucast seq :: u8)) code (answer_bytes w')"
    using wum_request_handled [OF ready _ w save m] rest by (auto simp: resting_def)
  have "wr_alloc wenv = plenty" "env_alloc env = plenty" using assms(1) ready by (simp_all add: nothing_fails_def wtp_ready_def)
  note turn = turn_of_message [OF _ _ rest out(1), of "map contents ps", unfolded this(1), OF ps(3)]
  show ?thesis
    using ps(1,2) turn out(2) asm \<open>env_alloc env = plenty\<close>
    by (intro exI [of _ out]) (simp add: send_order_def CWAssembleConfigurationUpdateRequest_def update_request_elements_def
        CWProtocolAssembleConfigurationUpdateRequest_def update_elements payload_types)
qed

text \<open>The parts of a package, from the moment the update was prepared.\<close>

lemma heard_part: "heard_wum junk (cup_part w pack k) = cup_part junk pack k"
  by (simp add: heard_wum_def cup_part_def wum_types_distinct)

lemma part_ok: "wum_ok (cup_part w pack k)"
  by (simp add: wum_ok_def wum_size_def cup_part_def wum_types_distinct length_chunk)

definition orders_answered :: "(u32 \<times> CWVendorWumValues) list \<Rightarrow> u8 \<Rightarrow> wtp_action list list \<Rightarrow> bool" where
  "orders_answered orders type outs \<longleftrightarrow>
     list_all2 (\<lambda>order out. answered out (ucast (ucast (fst order) :: u8)) CW_PROTOCOL_SUCCESS [type]) orders outs"

lemma parts_sent:
  assumes "nothing_fails env" and "wtp_ready wenv" and "all_written (wr_files wenv)" and "length pack < 2 ^ 31"
  shows "resting s \<Longrightarrow> \<not> exit_on_commit (update s) \<Longrightarrow> updating pack done (update s) \<Longrightarrow> done \<noteq> {..<chunks pack} \<Longrightarrow>
    distinct (map snd ks) \<Longrightarrow> set (map snd ks) \<inter> done = {} \<Longrightarrow> set (map snd ks) \<union> done = {..<chunks pack} \<Longrightarrow>
    \<exists>outs s'. send_orders env wtp (map (\<lambda>(n, k). (n, cup_part w pack k)) ks) wenv s = Some (outs, s') \<and>
      updated pack (update s') \<and> resting s' \<and> \<not> exit_on_commit (update s') \<and>
      orders_answered (map (\<lambda>(n, k). (n, cup_part w pack k)) ks) WTP_CUP_ACK outs"
proof (induction ks arbitrary: s "done")
  case (Cons nk ks)
  obtain n k where nk: "nk = (n, k)" by (cases nk)
  have k: "k < chunks pack" "k \<notin> done" using Cons.prems(6,7) by (auto simp: nk)
  let ?w = "(cup_part (wr_junk wenv) pack k)\<lparr>wum_type := WTP_CUP_ACK, wum_cup := None\<rparr>"
  from part_stored [OF Cons.prems(3) k assms(4,3), of "wr_junk wenv"] obtain u where
    save: "CWWTPSaveWUMValues (wr_files wenv) (heard_wum (wr_junk wenv) (cup_part w pack k)) (update s) =
      Some (Answer CW_PROTOCOL_SUCCESS ?w False, u)"
    and u: "exit_on_commit u = exit_on_commit (update s)"
      "if insert k done = {..<chunks pack} then updated pack u else updating pack (insert k done) u"
    by (auto simp: heard_part)
  let ?s = "(reset_timers wenv s)\<lparr>update := u\<rparr>"
  obtain out where out: "send_order env wtp (n, cup_part w pack k) wenv s = Some (Done Stays, ?s, out)"
      "answered out (ucast (ucast n :: u8)) CW_PROTOCOL_SUCCESS [WTP_CUP_ACK]"
    using order_carried_out [OF assms(1,2) Cons.prems(1) part_ok save, of wtp n] u(1) Cons.prems(2)
    by (auto simp: answer_bytes_def wum_types)
  show ?case
  proof (cases "ks = []")
    case True
    then have "insert k done = {..<chunks pack}" using Cons.prems(7) by (auto simp: nk)
    then show ?thesis
      using out u Cons.prems(1,2) True by (auto simp: nk orders_answered_def)
  next
    case False
    then obtain n' k' where "(n', k') \<in> set ks" by (cases ks) auto
    then have "k' \<in> set (map snd ks)" by force
    then have "k' \<in> {..<chunks pack}" "k' \<noteq> k" "k' \<notin> done"
      using Cons.prems(5-7) by (auto simp: nk)
    then have more: "insert k done \<noteq> {..<chunks pack}" by blast
    have "\<exists>outs s'. send_orders env wtp (map (\<lambda>(n, k). (n, cup_part w pack k)) ks) wenv ?s = Some (outs, s') \<and>
      updated pack (update s') \<and> resting s' \<and> \<not> exit_on_commit (update s') \<and>
      orders_answered (map (\<lambda>(n, k). (n, cup_part w pack k)) ks) WTP_CUP_ACK outs"
      using u more Cons.prems by (intro Cons.IH [of _ "insert k done"]) (auto simp: nk)
    then show ?thesis using out by (auto simp: nk orders_answered_def)
  qed
qed simp

lemma scast_size:
  assumes "n < 2 ^ 31"
  shows "unat (scast (of_nat n :: u32) :: 64 word) = n"
proof -
  have "(scast (of_nat n :: u32) :: 64 word) = of_nat n"
    using int_word(2) [OF assms] by (simp add: scast_eq)
  then show ?thesis using assms by (simp add: unat_of_nat)
qed

definition has_room :: "wum_env \<Rightarrow> nat \<Rightarrow> bool" where
  "has_room env n \<longleftrightarrow> (\<exists>free. fs_free env = Some free \<and> n < unat free)"

lemma check_version_cong:
  assumes "wum_major_v v = wum_major_v w" and "wum_minor_v v = wum_minor_v w" and "wum_revision_v v = wum_revision_v w"
  shows "CWWTPCheckVersion v = CWWTPCheckVersion w"
  unfolding CWWTPCheckVersion_def assms ..

lemma update_prepared:
  assumes "all_written env" and "has_room env (length pack)" and "length pack < 2 ^ 31"
    and "wum_state s = WUM_STATE_WAIT" and "wum_type w = WTP_UPDATE_REQUEST" and "CWWTPCheckVersion w"
    and "wum_pack_size w = of_nat (length pack)"
  shows "\<exists>s'. CWWTPSaveWUMValues env w s =
      Some (Answer CW_PROTOCOL_SUCCESS (w\<lparr>wum_type := WTP_UPDATE_RESPONSE\<rparr>) False, s') \<and>
    updating pack {} s' \<and> exit_on_commit s' = exit_on_commit s"
proof -
  have free: "check_free_space env (of_nat (length pack))"
    using assms(2) scast_size [OF assms(3)] by (auto simp: has_room_def check_free_space_def word_less_nat_alt)
  have newer: "CWWTPCheckVersion (w\<lparr>wum_type := WTP_UPDATE_RESPONSE\<rparr>)"
    using assms(6) check_version_cong [of "w\<lparr>wum_type := WTP_UPDATE_RESPONSE\<rparr>" w] by simp
  have parts: "holds_parts pack {} []" by (simp add: holds_parts_def)
  show ?thesis
    using free newer parts assms(1,4,5,7) fragments_of_chunks [OF assms(3)]
    by (simp add: CWWTPSaveWUMValues_def wum_types_distinct WUMPrepareForUpdate_def all_written_def updating_def)
qed

lemma update_committed:
  assumes "updated pack s" and "wum_type w = WTP_COMMIT_UPDATE"
  shows "CWWTPSaveWUMValues env w s =
    Some (Answer CW_PROTOCOL_SUCCESS (w\<lparr>wum_type := WTP_COMMIT_ACK\<rparr>) (can_fork env), s\<lparr>exit_on_commit := True\<rparr>)"
  using assms by (simp add: CWWTPSaveWUMValues_def wum_types updated_def StartWUA_def)

subsection \<open>Properties\<close>

text \<open>
  C5: A firmware package sent in parts is installed as it was. When nothing outside fails and the WTP waits for an update,
  the AC's order to update to a newer version, followed by the parts of the package in any order, each once, makes the
  WTP answer each order with success and leaves exactly the package in its file, ready; the order to commit is
  then answered, the agent is started and the program ends. Each order travels as the packets of a
  Configuration Update Request, whatever the path MTU, and the answers as packets that deliver the response under its number.
\<close>

theorem firmware_package_installed:
  assumes "nothing_fails env" and "wtp_ready wenv" and "all_written (wr_files wenv)"
    and "has_room (wr_files wenv) (length pack)" and "0 < length pack" and "length pack < 2 ^ 31"
    and "resting s" and "wum_state (update s) = WUM_STATE_WAIT" and "\<not> exit_on_commit (update s)"
    and "wum_type w = WTP_UPDATE_REQUEST" and "CWWTPCheckVersion w" and "wum_pack_size w = of_nat (length pack)"
    and "distinct (map snd parts)" and "set (map snd parts) = {..<chunks pack}"
    and "orders = map (\<lambda>(n, k). (n, cup_part w pack k)) parts" and "wum_type commit = WTP_COMMIT_UPDATE"
  shows "\<exists>out outs s' out' s''. send_orders env wtp ((n, w) # orders) wenv s = Some (out # outs, s') \<and>
      answered out (ucast (ucast n :: u8)) CW_PROTOCOL_SUCCESS [WTP_UPDATE_RESPONSE] \<and>
      orders_answered orders WTP_CUP_ACK outs \<and> updated pack (update s') \<and>
      send_order env wtp (n', commit) wenv s' =
        Some (Ends, s'', (if can_fork (wr_files wenv) then [Agent_started] else []) @ out') \<and>
      answered out' (ucast (ucast n' :: u8)) CW_PROTOCOL_SUCCESS [WTP_COMMIT_ACK]"
proof -
  have ok: "wum_ok w" "wum_ok commit" using assms(10,16) by (simp_all add: wum_ok_def wum_size_def wum_types)
  have heard: "wum_type (heard_wum junk w) = WTP_UPDATE_REQUEST" "CWWTPCheckVersion (heard_wum junk w)"
      "wum_pack_size (heard_wum junk w) = of_nat (length pack)" "wum_type (heard_wum junk commit) = WTP_COMMIT_UPDATE" for junk
    using assms(10-12,16) check_version_cong [of "heard_wum junk w" w] by (simp_all add: heard_wum_def wum_types)
  obtain u where u: "CWWTPSaveWUMValues (wr_files wenv) (heard_wum (wr_junk wenv) w) (update s) =
        Some (Answer CW_PROTOCOL_SUCCESS ((heard_wum (wr_junk wenv) w)\<lparr>wum_type := WTP_UPDATE_RESPONSE\<rparr>) False, u)"
      "updating pack {} u" "exit_on_commit u = exit_on_commit (update s)"
    using update_prepared [OF assms(3,4,6,8) heard(1-3)] by blast
  let ?s = "(reset_timers wenv s)\<lparr>update := u\<rparr>"
  obtain out where first: "send_order env wtp (n, w) wenv s = Some (Done Stays, ?s, out)"
      "answered out (ucast (ucast n :: u8)) CW_PROTOCOL_SUCCESS [WTP_UPDATE_RESPONSE]"
    using order_carried_out [OF assms(1,2,7) ok(1) u(1), of wtp n] u(3) assms(9)
    by (auto simp: answer_bytes_def wum_types)
  have "{} \<noteq> {..<chunks pack}" using chunk_index [OF assms(5)] by auto
  then obtain outs s' where sent: "send_orders env wtp orders wenv ?s = Some (outs, s')" "updated pack (update s')"
      "resting s'" "orders_answered orders WTP_CUP_ACK outs"
    using parts_sent [OF assms(1-3,6), of ?s "{}" parts wtp w] assms(7,9,13-15) u(2,3) by auto
  obtain out' where "send_order env wtp (n', commit) wenv s' = Some (Ends, (reset_timers wenv s')\<lparr>update :=
        (update s')\<lparr>exit_on_commit := True\<rparr>\<rparr>, (if can_fork (wr_files wenv) then [Agent_started] else []) @ out')"
      "answered out' (ucast (ucast n' :: u8)) CW_PROTOCOL_SUCCESS [WTP_COMMIT_ACK]"
    using order_carried_out [OF assms(1,2) sent(3) ok(2) update_committed [OF sent(2) heard(4)], of wtp n']
    by (auto simp: answer_bytes_def wum_types)
  then show ?thesis using first sent by auto
qed


definition sample_wum_env :: wum_env where
  "sample_wum_env = \<lparr>fs_open = True, fs_seek = True, fs_write = (\<lambda>n. n), fs_remove = True, fs_free = Some 100000,
     can_fork = True\<rparr>"

definition sample_wum :: CWVendorWumValues where
  "sample_wum = \<lparr>wum_type = WTP_UPDATE_REQUEST, wum_major_v = 1, wum_minor_v = 0, wum_revision_v = 0, wum_pack_size = 5000,
     wum_seq_num = 0, wum_cup_fragment_size = 0, wum_cup = None\<rparr>"

definition sample_run_env :: wtp_run_env where
  "sample_run_env = \<lparr>wr_alloc = plenty, wr_le = True, wr_send = (\<lambda>_. None), wr_timer = (\<lambda>_. 8), wr_cell = (\<lambda>_. 0),
     wr_lastError = None, wr_junk = sample_wum, wr_garbage = 99, wr_fragID = 3, wr_crypt = 0,
     wr_driver = \<lparr>driver_socket = True, set_cwmin = \<lambda>_ _. True, set_cwmax = \<lambda>_ _. True, set_aifs = \<lambda>_ _. True\<rparr>,
     wr_reached = None, wr_files = sample_wum_env,
     wr_uci = \<lparr>us_socket = True, us_accepts = \<lambda>_. True, us_alloc = plenty, us_garbage = 9, us_junk = \<lambda>_. 0\<rparr>,
     wr_uci_answers = [], wr_load = (\<lambda>g. (None, g)), wr_init = (\<lambda>g. (None, g)), gWTPPathMTU = 1400,
     wr_NeighborDeadInterval = 70, wr_RetransmitTimer = 3, wr_MaxRetransmit = 5\<rparr>"

definition unused_box :: CWPendingRequestMessage where
  "unused_box = \<lparr>pr_msgType = UNUSED_MSG_TYPE, pr_seqNum = 0, pr_timer_sec = 0, pr_timer_arg = None, pr_timer = 0,
     pr_retransmission = 0, pr_msgElems = None, pr_fragmentsNum = 0\<rparr>"

definition sample_running :: wtp_state where
  "sample_running = \<lparr>wtp_globals = sample_wtp, pending = replicate MAX_PENDING_REQUEST_MSGS unused_box,
     cells = (\<lambda>_. None), timers = (\<lambda>_. None), gCWHeartBeatTimerID = 0, gCWNeighborDeadTimerID = 0,
     gNeighborDeadTimerSet = False, gEchoInterval = 30, update = wumState, radios = [], seq_next = 5,
     gPacketReceiveList = [], gFrameList = [],
     gSuccessfulHandshake = True\<rparr>"

lemma sample_running_facts:
  "wtp_ready sample_run_env" "wr_files sample_run_env = sample_wum_env" "all_written sample_wum_env"
  "can_fork sample_wum_env" "resting sample_running" "update sample_running = wumState"
  "wum_state wumState = WUM_STATE_WAIT" "\<not> exit_on_commit wumState"
  by (simp_all add: wtp_ready_def sample_run_env_def sample_wum_env_def all_written_def resting_def boxes_idle_def
      sample_running_def unused_box_def wumState_def)

lemma firmware_package_installed_witness:
  "\<exists>out outs s' out' s''. send_orders sample_env sample_session
      [(7, sample_wum), (8, cup_part sample_wum (replicate 5000 9) 1), (9, cup_part sample_wum (replicate 5000 9) 0)]
      sample_run_env sample_running = Some (out # outs, s') \<and> updated (replicate 5000 9) (update s') \<and>
    send_order sample_env sample_session (10, sample_wum\<lparr>wum_type := WTP_COMMIT_UPDATE\<rparr>) sample_run_env s' =
      Some (Ends, s'', Agent_started # out')"
proof -
  have two: "chunks (replicate 5000 (9 :: u8)) = 2" "{..<2 :: nat} = {1, 0}" by (auto simp: chunks_def CUP_FRAGMENT_SIZE_def)
  have w: "wum_type sample_wum = WTP_UPDATE_REQUEST" "CWWTPCheckVersion sample_wum" "wum_pack_size sample_wum = 5000"
    by (simp_all add: sample_wum_def CWWTPCheckVersion_def WTP_VERSION_MAJOR_def)
  have "has_room sample_wum_env 5000" by (simp add: has_room_def sample_wum_env_def)
  then show ?thesis
    using firmware_package_installed [of sample_env sample_run_env "replicate 5000 9" sample_running sample_wum
        "[(8, 1), (9, 0)]" "[(8, cup_part sample_wum (replicate 5000 9) 1), (9, cup_part sample_wum (replicate 5000 9) 0)]"
        "sample_wum\<lparr>wum_type := WTP_COMMIT_UPDATE\<rparr>" sample_session 7 10]
    by (fastforce simp: sample_running_facts w two)
qed

end
