(* ===== verification/WTP_Retry.thy ===== *)
theory WTP_Retry
  imports WTP_Exchange
begin

text \<open>
  The two ways in which the WTP sends a request again: the timers of the boxes in the Run state, and the loop that waits for
  an acknowledgement in the states before.
\<close>

subsection \<open>A request that is sent again\<close>

lemma array_get_nat: "k < length xs \<Longrightarrow> k < 2 ^ 31 \<Longrightarrow> array_get xs (sint (of_nat k :: u32)) = Some (xs ! k)"
  using int_word(2) [of k] by (simp add: array_get_def)

text \<open>
  C40: A request that was sent again crashes the WTP. Once a request is put into a free box, with its index in a new cell, the first
  expiry of its timer sends its packets again and starts the timer anew, with the cell, which is then freed: the second
  expiry reads the freed cell, and so does the response, if it comes first, when it frees the cell once more.
\<close>

theorem retransmission_frees_its_argument:
  assumes "k < length (pending s)" and "k < 2 ^ 31" and "pr_msgType (pending s ! k) = UNUSED_MSG_TYPE"
    and "cells s c = Some (of_nat k)" and "\<forall>m \<in> set ms. msg_fits m" and "\<forall>p. wr_send env p = None"
    and "wr_MaxRetransmit env \<noteq> 0"
    and "i = wr_timer env (timers s)" and "i \<noteq> - 1" and "j = wr_timer env ((timers s)(i := None))" and "j \<noteq> - 1"
  shows "\<exists>s' s''. CWUpdatePendingMsgBox env k type seq sec c 0 ms (length ms) s = Some (i = 0, s') \<and>
      timer_expires env i s' = Some (s'', map To_ac (map contents ms)) \<and>
      timers s'' j = Some \<lparr>at_sec = sec, at_handler = Retransmit c\<rparr> \<and>
      timer_expires env j s'' = None \<and> CWResetPendingMsgBox k s'' = None"
proof -
  have sent: "transmit (wr_send env) ms = Some (Inr (), map To_ac (map contents ms))"
    using assms(5,6) by (induction ms) simp_all
  let ?b = "\<lparr>pr_msgType = ucast type, pr_seqNum = ucast seq, pr_timer_sec = sec, pr_timer_arg = Some c, pr_timer = i,
    pr_retransmission = 0, pr_msgElems = Some ms, pr_fragmentsNum = length ms\<rparr>"
  let ?s = "set_box k ?b (s\<lparr>timers := (timers s)(i \<mapsto> \<lparr>at_sec = sec, at_handler = Retransmit c\<rparr>)\<rparr>)"
  let ?s' = "(set_box k (?b\<lparr>pr_retransmission := 1, pr_timer := j\<rparr>)
    (?s\<lparr>timers := (timers s)(i := None, j \<mapsto> \<lparr>at_sec = sec, at_handler = Retransmit c\<rparr>)\<rparr>))\<lparr>cells := (cells s)(c := None)\<rparr>"
  have index: "sint (of_nat k :: u32) = int k" "unat (of_nat k :: u32) = k" using int_word [OF assms(2)] by simp_all
  have fill: "CWUpdatePendingMsgBox env k type seq sec c 0 ms (length ms) s = Some (i = 0, ?s)"
    using assms(1,3,8,9) by (simp add: CWUpdatePendingMsgBox_def add_timer_def Let_def)
  have box: "pending ?s ! k = ?b" using assms(1) by (simp add: set_box_def)
  have again: "timer_expires env i ?s = Some (?s', map To_ac (map contents ms))"
    using assms(1,4,7,10,11) index sent
    by (simp add: timer_expires_def rem_timer_def CWWTPRetransmitTimerExpiredHandler_def set_box_def array_get_def
        array_prefix_def free_cell_def add_timer_def Let_def)
  have "timer_expires env j ?s' = None"
    by (simp add: timer_expires_def rem_timer_def CWWTPRetransmitTimerExpiredHandler_def set_box_def)
  moreover have "CWResetPendingMsgBox k ?s' = None"
    using assms(1) by (simp add: CWResetPendingMsgBox_def set_box_def free_cell_def Let_def)
  ultimately show ?thesis using fill again by (intro exI [of _ ?s] exI [of _ ?s']) (simp add: set_box_def)
qed

lemma retransmission_frees_its_argument_witness:
  "\<exists>s' s''. CWUpdatePendingMsgBox sample_run_env 2 24 5 3 1 0 [] 0 (sample_running\<lparr>cells := [1 \<mapsto> 2]\<rparr>) = Some (False, s') \<and>
    timer_expires sample_run_env 8 s' = Some (s'', []) \<and> timer_expires sample_run_env 8 s'' = None \<and>
    CWResetPendingMsgBox 2 s'' = None"
proof -
  have env: "\<forall>p. wr_send sample_run_env p = None" "wr_MaxRetransmit sample_run_env \<noteq> 0" "wr_timer sample_run_env = (\<lambda>_. 8)"
    by (simp_all add: sample_run_env_def)
  have box: "2 < length (pending (sample_running\<lparr>cells := [1 \<mapsto> 2]\<rparr>))"
      "pr_msgType (pending (sample_running\<lparr>cells := [1 \<mapsto> 2]\<rparr>) ! 2) = UNUSED_MSG_TYPE"
    by (simp_all add: sample_running_def MAX_PENDING_REQUEST_MSGS_def unused_box_def)
  show ?thesis
    using retransmission_frees_its_argument [of 2 "sample_running\<lparr>cells := [1 \<mapsto> 2]\<rparr>" 1 "[]" sample_run_env 8 8 24 5 3] env box
    by auto
qed

subsection \<open>The wait for an acknowledgement\<close>

text \<open>A message that is parsed and then not accepted, which does not count as an attempt.\<close>

definition set_aside ::
  "('m \<Rightarrow> (CWErrorCode + 'v) option) \<Rightarrow> ('v \<Rightarrow> (CWErrorCode + 'r) option) \<Rightarrow> 'm waited \<Rightarrow> bool" where
  "set_aside parse save e \<longleftrightarrow>
     (\<exists>b m v. e = Message b m \<and> parse m = Some (Inr v) \<and> save v = Some (Inl CW_ERROR_INVALID_FORMAT))"

lemma transmit_defined:
  "\<forall>m \<in> set ms. msg_fits m \<Longrightarrow> \<exists>r out. transmit send ms = Some (r, out) \<and> length out \<le> length ms"
  by (induction ms) (auto split: option.split)

lemma acknowledge_ends:
  assumes "\<forall>m \<in> set ms. msg_fits m" and "\<forall>m. parse m \<noteq> None" and "\<forall>v. save v \<noteq> None"
  shows "\<forall>e \<in> set es. \<not> set_aside parse save e \<Longrightarrow> count < limit \<Longrightarrow> limit \<le> count + length es \<Longrightarrow>
    \<exists>r out. acknowledge env limit ms parse save count es = Some (r, out) \<and> length out \<le> (limit - Suc count) * length ms"
proof (induction es arbitrary: count)
  case (Cons e es)
  let ?retry = "if Suc count < limit then do {
           (r, out) \<leftarrow> transmit (wr_send env) ms;
           (case r of
              Inl err \<Rightarrow> Some (Inl err, out)
            | Inr _ \<Rightarrow> do {
                (r, out') \<leftarrow> acknowledge env limit ms parse save (Suc count) es;
                Some (r, out @ out') })
         }
         else give_up []"
  have retry: "\<exists>r out. ?retry = Some (r, out) \<and> length out \<le> (limit - Suc count) * length ms"
  proof (cases "Suc count < limit")
    case True
    obtain r out where sent: "transmit (wr_send env) ms = Some (r, out)" "length out \<le> length ms"
      using transmit_defined [OF assms(1)] by blast
    obtain r' out' where more: "acknowledge env limit ms parse save (Suc count) es = Some (r', out')"
        "length out' \<le> (limit - Suc (Suc count)) * length ms"
      using Cons.IH [of "Suc count"] Cons.prems True by auto
    have step: "limit - Suc count = Suc (limit - Suc (Suc count))" using True by simp
    show ?thesis using True sent more unfolding step by (cases r) auto
  qed (simp add: give_up_def)
  show ?case
  proof (cases e)
    case (Message b m)
    obtain p where p: "parse m = Some p" using assms(2) by auto
    show ?thesis
    proof (cases p)
      case (Inr v)
      obtain q where q: "save v = Some q" using assms(3) by auto
      have "q \<noteq> Inl CW_ERROR_INVALID_FORMAT" using Cons.prems(1) Message p Inr q by (auto simp: set_aside_def)
      then show ?thesis using Message p Inr q by (cases q) auto
    qed (use Message p retry in auto)
  qed (use retry in auto)
qed simp



end
