(* ===== verification/Timer_Lib.thy ===== *)
theory Timer_Lib
  imports Chains Wire
begin

text \<open>
  The timers of the AC and of the WTP, \<open>timerlib.c\<close>: a queue of timers in the order of their expiry, the
  functions that add and remove one, and the ticker thread, which arms the interval timer of the process
  for the first timer, waits for its signal and runs the handler.

  \<open>now\<close> is what \<open>gettimeofday\<close> returns, \<open>new\<close> the address of the block \<open>malloc\<close> returns or \<open>NULL\<close>; a
  handler is the number of a function. What a function does outside is a list of \<open>timer_action\<close>s. Times are unbounded
  integers. The mutex makes each function one step; the ticker is between its steps at the top of its loop, in \<open>sigwait\<close>
  or in a handler. Creating and cancelling the thread, and \<open>timer_print\<close>, are not modelled.
\<close>

subsection \<open>Times\<close>

record timeval =
  tv_sec :: int
  tv_usec :: int

definition MICRO_PER_SEC :: int where "MICRO_PER_SEC = 1000000"
definition MAX_USEC :: int where "MAX_USEC = 999999"
definition ALMOST_NOW :: int where "ALMOST_NOW = 1000"

definition TV_LESS_THAN :: "timeval \<Rightarrow> timeval \<Rightarrow> bool" where
  "TV_LESS_THAN t1 t2 =
     (tv_sec t1 < tv_sec t2 \<or> tv_sec t1 = tv_sec t2 \<and> tv_usec t1 < tv_usec t2)"

definition TV_MINUS :: "timeval \<Rightarrow> timeval \<Rightarrow> timeval" where
  "TV_MINUS t1 t2 =
     (if tv_usec t1 \<ge> tv_usec t2
      then \<lparr>tv_sec = tv_sec t1 - tv_sec t2, tv_usec = tv_usec t1 - tv_usec t2\<rparr>
      else \<lparr>tv_sec = tv_sec t1 - tv_sec t2 - 1, tv_usec = tv_usec t1 + (MAX_USEC - tv_usec t2)\<rparr>)"

lemma TV_LESS_THAN_trans:
  "\<not> TV_LESS_THAN b a \<Longrightarrow> \<not> TV_LESS_THAN c b \<Longrightarrow> \<not> TV_LESS_THAN c a"
  by (auto simp: TV_LESS_THAN_def)

lemma TV_LESS_THAN_asym: "TV_LESS_THAN a b \<Longrightarrow> \<not> TV_LESS_THAN b a"
  by (auto simp: TV_LESS_THAN_def)

subsection \<open>State\<close>

record timer =
  timeout :: timeval
  handler :: nat
  handler_arg :: pointer
  timer_id :: u32
  in_use :: bool
  cancelled :: bool
  timer_next :: pointer
  timer_prev :: pointer

record timerq =
  tq_first :: pointer
  tq_last :: pointer
  tq_cur_id :: u32
  tq_timers :: "nat \<rightharpoonup> timer"

datatype timer_action =
    Set_itimer timeval
  | Free_arg pointer
  | Wake_ticker

datatype ticker = Ready | In_sigwait | In_handler nat pointer

subsection \<open>The queue\<close>

definition timer_init :: timerq where
  "timer_init = \<lparr>tq_first = None, tq_last = None, tq_cur_id = 0, tq_timers = Map.empty\<rparr>"

definition timer_dequeue :: "pointer \<Rightarrow> timerq \<Rightarrow> timerq option" where
  "timer_dequeue p q =
     (case p of
        None \<Rightarrow> Some q
      | Some a \<Rightarrow> do {
          t \<leftarrow> tq_timers q a;
          q \<leftarrow> (if timer_prev t = None then Some (q\<lparr>tq_first := timer_next t\<rparr>)
               else do {
                 h \<leftarrow> assign (tq_timers q) (timer_prev t) (timer_next_update (\<lambda>_. timer_next t));
                 Some (q\<lparr>tq_timers := h\<rparr>) });
          q \<leftarrow> (if timer_next t = None then Some (q\<lparr>tq_last := timer_prev t\<rparr>)
               else do {
                 h \<leftarrow> assign (tq_timers q) (timer_next t) (timer_prev_update (\<lambda>_. timer_prev t));
                 Some (q\<lparr>tq_timers := h\<rparr>) });
          Some (q\<lparr>tq_timers := (tq_timers q)(a := None)\<rparr>)
        })"

text \<open>The interval \<open>setitimer\<close> is given.\<close>

definition timer_start :: "timeval \<Rightarrow> timeval \<Rightarrow> timeval" where
  "timer_start abs_now abs_to =
     (if TV_LESS_THAN abs_now abs_to then TV_MINUS abs_to abs_now
      else \<lparr>tv_sec = 0, tv_usec = ALMOST_NOW\<rparr>)"

text \<open>The loops that walk the queue; a walk in a circle is the value \<open>None\<close>.\<close>

partial_function (option) find_timer ::
  "(nat \<rightharpoonup> timer) \<Rightarrow> (timer \<Rightarrow> bool) \<Rightarrow> pointer \<Rightarrow> pointer option" where
  "find_timer h found p =
     (case p of
        None \<Rightarrow> Some None
      | Some a \<Rightarrow> do {
          t \<leftarrow> h a;
          if found t then Some p else find_timer h found (timer_next t) })"

definition find_later :: "(nat \<rightharpoonup> timer) \<Rightarrow> timeval \<Rightarrow> pointer \<Rightarrow> pointer option" where
  "find_later h new = find_timer h (\<lambda>t. TV_LESS_THAN new (timeout t))"

definition find_id :: "(nat \<rightharpoonup> timer) \<Rightarrow> u32 \<Rightarrow> pointer \<Rightarrow> pointer option" where
  "find_id h i = find_timer h (\<lambda>t. timer_id t = i)"

definition expiry :: "timeval \<Rightarrow> int \<Rightarrow> int \<Rightarrow> timeval" where
  "expiry now sec usec =
     \<lparr>tv_sec = tv_sec now + (sec + (tv_usec now + usec) div MICRO_PER_SEC),
      tv_usec = (tv_usec now + usec) mod MICRO_PER_SEC\<rparr>"

text \<open>\<open>hndlr = None\<close> is a null handler. The result is the identifier, or \<open>-1\<close>.\<close>

definition timer_add ::
  "timeval \<Rightarrow> pointer \<Rightarrow> int \<Rightarrow> int \<Rightarrow> nat option \<Rightarrow> pointer \<Rightarrow> timerq \<Rightarrow>
     (u32 \<times> timerq \<times> timer_action list) option" where
  "timer_add now new sec usec hndlr arg q =
     (case hndlr of
        None \<Rightarrow> Some (- 1, q, [])
      | Some run \<Rightarrow>
          if sec < 0 \<or> usec < 0 \<or> sec = 0 \<and> usec = 0 then Some (- 1, q, [])
          else
            (case new of
               None \<Rightarrow> Some (- 1, q, [])
             | Some a \<Rightarrow>
                 (let to = expiry now sec usec;
                      i = tq_cur_id q;
                      app = \<lparr>timeout = to, handler = run, handler_arg = arg, timer_id = i, in_use = False,
                             cancelled = False, timer_next = None, timer_prev = None\<rparr>;
                      q = q\<lparr>tq_cur_id := tq_cur_id q + 1\<rparr>;
                      h = tq_timers q
                  in if tq_first q = None
                  then Some (i, q\<lparr>tq_first := new, tq_last := new, tq_timers := h(a \<mapsto> app)\<rparr>, [Wake_ticker])
                  else do {
                    tmp \<leftarrow> find_later h to (tq_first q);
                    (case tmp of
                       None \<Rightarrow> do {
                         h \<leftarrow> assign (h(a \<mapsto> app\<lparr>timer_prev := tq_last q\<rparr>)) (tq_last q)
                                (timer_next_update (\<lambda>_. new));
                         Some (i, q\<lparr>tq_last := new, tq_timers := h\<rparr>, []) }
                     | Some b \<Rightarrow> do {
                         t \<leftarrow> h b;
                         (if timer_prev t = None then do {
                            h \<leftarrow> assign (h(a \<mapsto> app\<lparr>timer_next := tmp, in_use := True\<rparr>)) tmp
                                   (\<lambda>t. t\<lparr>timer_prev := new, in_use := False\<rparr>);
                            Some (i, q\<lparr>tq_first := new, tq_timers := h\<rparr>, [Set_itimer (timer_start now to)])
                          }
                          else do {
                            h \<leftarrow> assign (h(a \<mapsto> app\<lparr>timer_prev := timer_prev t, timer_next := tmp\<rparr>))
                                   (timer_prev t) (timer_next_update (\<lambda>_. new));
                            h \<leftarrow> assign h tmp (timer_prev_update (\<lambda>_. new));
                            Some (i, q\<lparr>tq_timers := h\<rparr>, [])
                          }) })
                  })))"

definition timer_rem :: "u32 \<Rightarrow> bool \<Rightarrow> timerq \<Rightarrow> (timerq \<times> timer_action list) option" where
  "timer_rem i with_free q = do {
     p \<leftarrow> find_id (tq_timers q) i (tq_first q);
     (case p of
        None \<Rightarrow> Some (q, [])
      | Some a \<Rightarrow> do {
          t \<leftarrow> tq_timers q a;
          let freed = (if with_free then [Free_arg (handler_arg t)] else []);
          (if in_use t
           then
             (let t = (if with_free then t\<lparr>handler_arg := None\<rparr> else t)
              in Some (q\<lparr>tq_timers := (tq_timers q)(a \<mapsto> t\<lparr>cancelled := True\<rparr>)\<rparr>, freed))
           else do { q \<leftarrow> timer_dequeue p q; Some (q, freed) })
        }) }"

text \<open>Freeing the queue from its end.\<close>

partial_function (option) timer_destroy :: "timerq \<Rightarrow> timerq option" where
  "timer_destroy q =
     (case tq_last q of
        None \<Rightarrow> Some q
      | Some a \<Rightarrow> do {
          t \<leftarrow> tq_timers q a;
          timer_destroy (q\<lparr>tq_last := timer_prev t, tq_timers := (tq_timers q)(a := None)\<rparr>) })"

subsection \<open>Timers that signal a thread\<close>

text \<open>
  \<open>CWThread.c\<close>: the argument of the timer is a block at the address \<open>arg\<close> with the thread and the signal
  to raise, or the allocation failed; \<open>CWHandleTimer\<close> sends the signal and frees the block.
\<close>

definition handle_timer :: nat where "handle_timer = 0"

definition CWTimerRequest ::
  "timeval \<Rightarrow> pointer \<Rightarrow> pointer \<Rightarrow> int \<Rightarrow> bool \<Rightarrow> timerq \<Rightarrow>
     ((CWErrorCode + u32) \<times> timerq \<times> timer_action list) option" where
  "CWTimerRequest now new arg sec pointers_given q =
     (if sec < 0 \<or> \<not> pointers_given then Some (Inl CW_ERROR_WRONG_ARG, q, [])
      else
        (case arg of
           None \<Rightarrow> Some (Inl CW_ERROR_NONE, q, [])
         | Some _ \<Rightarrow> do {
             (r, q, out) \<leftarrow> timer_add now new sec 0 (Some handle_timer) arg q;
             Some (if r = - 1 then Inl CW_ERROR_NONE else Inr r, q, out)
           }))"

definition CWTimerCancel :: "u32 \<Rightarrow> timerq \<Rightarrow> (bool \<times> timerq \<times> timer_action list) option" where
  "CWTimerCancel i q = do { (q, out) \<leftarrow> timer_rem i True q; Some (True, q, out) }"

subsection \<open>The ticker\<close>

text \<open>From the top of the loop to \<open>sigwait\<close>, when the queue is not empty.\<close>

definition ticker_arm :: "timeval \<Rightarrow> timerq \<Rightarrow> (timerq \<times> timer_action list) option" where
  "ticker_arm now q = do {
     t \<leftarrow> deref (tq_timers q) (tq_first q);
     h \<leftarrow> assign (tq_timers q) (tq_first q) (in_use_update (\<lambda>_. True));
     Some (q\<lparr>tq_timers := h\<rparr>, [Set_itimer (timer_start now (timeout t))])
   }"

text \<open>From the signal to the call of the handler, or to the next turn of the loop.\<close>

definition ticker_alarm :: "timerq \<Rightarrow> (timerq \<times> ticker) option" where
  "ticker_alarm q = do {
     t \<leftarrow> deref (tq_timers q) (tq_first q);
     q \<leftarrow> timer_dequeue (tq_first q) q;
     Some (q, if cancelled t then Ready else In_handler (handler t) (handler_arg t))
   }"

subsection \<open>The queue as a sequence\<close>

definition unlinked :: "timer \<Rightarrow> timer" where
  "unlinked t = t\<lparr>timer_next := None, timer_prev := None\<rparr>"

lemma unlinked_fields [simp]:
  "timeout (unlinked t) = timeout t" "handler (unlinked t) = handler t"
  "handler_arg (unlinked t) = handler_arg t" "timer_id (unlinked t) = timer_id t"
  "in_use (unlinked t) = in_use t" "cancelled (unlinked t) = cancelled t"
  by (simp_all add: unlinked_def)

lemma unlinked_updates [simp]:
  "unlinked (t\<lparr>in_use := b\<rparr>) = (unlinked t)\<lparr>in_use := b\<rparr>"
  "unlinked (t\<lparr>cancelled := b\<rparr>) = (unlinked t)\<lparr>cancelled := b\<rparr>"
  "unlinked (t\<lparr>handler_arg := p\<rparr>) = (unlinked t)\<lparr>handler_arg := p\<rparr>"
  by (cases t; simp add: unlinked_def)+

interpretation tm: links timer_prev timer_next "\<lambda>p. timer_prev_update (\<lambda>_. p)" "\<lambda>p. timer_next_update (\<lambda>_. p)" unlinked
  by unfold_locales (simp_all add: unlinked_def)

abbreviation queue_at :: "timerq \<Rightarrow> nat list \<Rightarrow> timer list \<Rightarrow> bool" where
  "queue_at q as ts \<equiv> stands_for timer_prev timer_next unlinked (tq_timers q) (tq_first q) (tq_last q) as ts"

definition queue_of :: "timerq \<Rightarrow> timer list \<Rightarrow> bool" where
  "queue_of q ts = (\<exists>as. queue_at q as ts)"

lemma queue_first: "queue_at q as ts \<Longrightarrow> tq_first q = first_of as \<and> tq_last q = last_of as"
  by (auto simp: stands_for_def dest: chain_ends)

lemma queue_empty:
  assumes "queue_of q ts"
  shows "tq_first q = None \<longleftrightarrow> ts = []"
proof -
  from assms obtain as where "queue_at q as ts" by (auto simp: queue_of_def)
  from queue_first [OF this] stands_for_length [OF this] show ?thesis by (cases ts) auto
qed

lemma find_timer_segment:
  assumes "segment pv timer_next h p f as l None" "map (\<lambda>a. map_option unlinked (h a)) as = map Some ts"
    and "\<And>t. found (unlinked t) = found t"
  shows "find_timer h found f = Some (first_of (drop (length (takeWhile (\<lambda>t. \<not> found t) ts)) as))"
  using assms(1,2)
proof (induction as arbitrary: p f ts)
  case (Cons a as)
  from Cons.prems obtain t us where "h a = Some t" "ts = unlinked t # us" "f = Some a"
    "segment pv timer_next h (Some a) (timer_next t) as l None"
    "map (\<lambda>a. map_option unlinked (h a)) as = map Some us"
    by (cases ts) auto
  with Cons.IH [OF this(4,5)] show ?case
    by (subst find_timer.simps) (simp add: assms(3))
qed (simp add: find_timer.simps)

lemma find_timer_queue:
  assumes "queue_at q as ts" "\<And>t. found (unlinked t) = found t"
  shows "find_timer (tq_timers q) found (tq_first q) =
    Some (first_of (drop (length (takeWhile (\<lambda>t. \<not> found t) ts)) as))"
  using assms by (intro find_timer_segment) (auto simp: stands_for_def chain_def)

lemma dequeue:
  assumes "queue_at q (us @ a # vs) (xs @ x # ys)" "length us = length xs"
  shows "\<exists>q'. timer_dequeue (Some a) q = Some q' \<and> queue_at q' (us @ vs) (xs @ ys) \<and> tq_cur_id q' = tq_cur_id q"
proof -
  let ?h = "tq_timers q"
  from stands_for_cell [OF assms] obtain t where
    t: "?h a = Some t" "timer_prev t = last_of us" "timer_next t = first_of vs" by auto
  from assms(1) have q: "\<forall>b\<in>set (us @ a # vs). \<exists>t. ?h b = Some t" "distinct (us @ a # vs)"
    by (auto simp: stands_for_def chain_def)
  have "timer_dequeue (Some a) q = Some (q\<lparr>
     tq_first := (if us = [] then timer_next t else tq_first q),
     tq_last := (if vs = [] then timer_prev t else tq_last q),
     tq_timers := (tm.left_of (timer_prev t) (timer_next t) (tm.right_of (timer_next t) (timer_prev t) ?h))(a := None)\<rparr>)"
    using q t
    by (cases us rule: rev_cases; cases vs)
      (auto simp: timer_dequeue_def tm.left_of_def tm.right_of_def fun_upd_twist split: option.splits)
  with tm.unlink [OF assms t(1)] show ?thesis by simp
qed

text \<open>Where a new timer goes: behind every timer that expires no later.\<close>

definition enqueue :: "timer \<Rightarrow> timer list \<Rightarrow> timer list" where
  "enqueue app ts =
     (let us = takeWhile (\<lambda>t. \<not> TV_LESS_THAN (timeout app) (timeout t)) ts;
          vs = dropWhile (\<lambda>t. \<not> TV_LESS_THAN (timeout app) (timeout t)) ts
      in case vs of
           [] \<Rightarrow> us @ [app]
         | t # ws \<Rightarrow> if us = [] then app\<lparr>in_use := True\<rparr> # t\<lparr>in_use := False\<rparr> # ws else us @ app # vs)"

definition new_timer :: "timeval \<Rightarrow> int \<Rightarrow> int \<Rightarrow> nat \<Rightarrow> pointer \<Rightarrow> u32 \<Rightarrow> timer" where
  "new_timer now sec usec run arg i =
     \<lparr>timeout = expiry now sec usec, handler = run, handler_arg = arg, timer_id = i, in_use = False,
      cancelled = False, timer_next = None, timer_prev = None\<rparr>"

definition cancel :: "u32 \<Rightarrow> bool \<Rightarrow> timer list \<Rightarrow> timer list" where
  "cancel i with_free ts =
     (let us = takeWhile (\<lambda>t. timer_id t \<noteq> i) ts; vs = dropWhile (\<lambda>t. timer_id t \<noteq> i) ts
      in case vs of
           [] \<Rightarrow> ts
         | t # ws \<Rightarrow>
             if in_use t
             then us @ t\<lparr>cancelled := True, handler_arg := (if with_free then None else handler_arg t)\<rparr> # ws
             else us @ ws)"

lemma queue_split:
  assumes "queue_at q as ts"
  obtains us vs where "as = us @ vs" "length us = length (takeWhile P ts)"
    "first_of (drop (length (takeWhile P ts)) as) = first_of vs" "vs = [] \<longleftrightarrow> dropWhile P ts = []"
proof -
  have "queue_at q as (takeWhile P ts @ dropWhile P ts)" using assms by simp
  then show ?thesis by (rule stands_for_append) (auto intro!: that)
qed

lemma add_at:
  assumes "queue_at q (us @ vs) (xs @ ys)" "length us = length xs" "tq_timers q a = None"
    and t: "timer_prev t = last_of us" "timer_next t = first_of vs" and i: "i = tq_cur_id q"
    and q': "q' = q\<lparr>tq_cur_id := i + 1, tq_first := (if us = [] then Some a else tq_first q),
      tq_last := (if vs = [] then Some a else tq_last q),
      tq_timers := (tm.left_of (last_of us) (Some a) (tm.right_of (first_of vs) (Some a) (tq_timers q)))(a \<mapsto> t)\<rparr>"
  shows "queue_at q' (us @ a # vs) (xs @ unlinked t # ys)"
  using tm.link [OF assms(1-3) t] t by (simp add: q')

lemma mapped_queue: "queue_at q as ts \<Longrightarrow> \<forall>b\<in>set as. \<exists>t. tq_timers q b = Some t"
  by (auto simp: stands_for_def)

lemma fresh_queue: "queue_at q as ts \<Longrightarrow> tq_timers q a = None \<Longrightarrow> a \<notin> set as"
  by (auto simp: stands_for_def)

lemma distinct_queue: "queue_at q as ts \<Longrightarrow> distinct as"
  by (auto simp: stands_for_def chain_def)

lemma add_queue:
  assumes q: "queue_of q ts" and a: "tq_timers q a = None"
    and "\<not> (sec < 0 \<or> usec < 0 \<or> sec = 0 \<and> usec = 0)"
  shows "\<exists>q' out. timer_add now (Some a) sec usec (Some run) arg q = Some (tq_cur_id q, q', out) \<and>
    queue_of q' (enqueue (new_timer now sec usec run arg (tq_cur_id q)) ts)"
proof -
  let ?app = "new_timer now sec usec run arg (tq_cur_id q)"
  let ?P = "\<lambda>t. \<not> TV_LESS_THAN (expiry now sec usec) (timeout t)"
  define xs ys where xs: "xs = takeWhile ?P ts" and ys: "ys = dropWhile ?P ts"
  have ts: "ts = xs @ ys" by (simp add: xs ys)
  from q obtain as where at: "queue_at q as ts" by (auto simp: queue_of_def)
  then obtain us vs where as: "as = us @ vs" "length us = length xs" "vs = [] \<longleftrightarrow> ys = []"
      "first_of (drop (length xs) as) = first_of vs"
    unfolding xs ys by (rule queue_split)
  from find_timer_queue [OF at, of "\<lambda>t. TV_LESS_THAN (expiry now sec usec) (timeout t)"] as(4)
  have find: "find_later (tq_timers q) (expiry now sec usec) (tq_first q) = Some (first_of vs)"
    by (simp add: find_later_def xs)
  note facts = assms(2,3) mapped_queue [OF at] fresh_queue [OF at a] distinct_queue [OF at] queue_first [OF at]
  have to: "timeout ?app = expiry now sec usec" by (simp add: new_timer_def)
  have en: "enqueue ?app ts = (case ys of [] \<Rightarrow> xs @ [?app]
      | t # ws \<Rightarrow> if xs = [] then ?app\<lparr>in_use := True\<rparr> # t\<lparr>in_use := False\<rparr> # ws else xs @ ?app # ys)"
    unfolding enqueue_def Let_def to xs [symmetric] ys [symmetric] ..
  let ?t = "?app\<lparr>timer_prev := last_of us, timer_next := first_of vs\<rparr>"
  define q' where "q' = q\<lparr>tq_cur_id := tq_cur_id q + 1, tq_first := (if us = [] then Some a else tq_first q),
      tq_last := (if vs = [] then Some a else tq_last q),
      tq_timers := (tm.left_of (last_of us) (Some a) (tm.right_of (first_of vs) (Some a) (tq_timers q)))(a \<mapsto> ?t)\<rparr>"
  have q': "queue_at q' (us @ a # vs) (xs @ ?app # ys)"
    using add_at [OF at [unfolded as(1) ts] as(2) a, of ?t _ q'] by (simp add: q'_def unlinked_def new_timer_def)
  have prev: "\<exists>t. tq_timers q b = Some t \<and> timer_prev t = last_of us" if "vs = b # ws" for b ws
  proof -
    from as(2,3) that obtain y zs where "ys = y # zs" by (cases ys) auto
    with at as(1) ts that have "queue_at q (us @ b # ws) (xs @ y # zs)" by simp
    from stands_for_cell [OF this as(2)] show ?thesis by auto
  qed
  show ?thesis
  proof (cases "us = [] \<and> vs \<noteq> []")
    case False
    then have "\<exists>out. timer_add now (Some a) sec usec (Some run) arg q = Some (tq_cur_id q, q', out)"
      using facts find as(1) prev
      by (cases q; cases us rule: rev_cases; cases vs)
        (auto simp: timer_add_def q'_def new_timer_def tm.left_of_def tm.right_of_def fun_upd_twist Let_def
          split: option.splits)
    with False q' as(2,3) en show ?thesis by (auto simp: queue_of_def split: list.splits)
  next
    case True
    then obtain b ws y zs where vs: "vs = b # ws" and us: "us = []" "xs = []" and y: "ys = y # zs"
      using as(2,3) by (cases vs; cases ys) auto
    with at as(1) ts have "queue_at q ([] @ b # ws) ([] @ y # zs)" by simp
    from stands_for_cell [OF this] obtain t where t: "tq_timers q b = Some t" "unlinked t = y"
        "timer_prev t = None" "timer_next t = first_of ws" by auto
    let ?t = "t\<lparr>in_use := False\<rparr>"
    let ?q = "q\<lparr>tq_timers := (tq_timers q)(b \<mapsto> ?t)\<rparr>"
    have at': "queue_at ?q ([] @ vs) ([] @ y\<lparr>in_use := False\<rparr> # zs)"
      using stands_for_change [of timer_prev timer_next unlinked "tq_timers q" _ _ "[]" b ws "[]" y zs t ?t] at t
      by (simp add: as(1) us vs ts y)
    let ?a = "?app\<lparr>in_use := True, timer_next := Some b\<rparr>"
    let ?q' = "?q\<lparr>tq_cur_id := tq_cur_id q + 1, tq_first := Some a,
      tq_timers := (tm.right_of (Some b) (Some a) (tq_timers ?q))(a \<mapsto> ?a)\<rparr>"
    have "a \<noteq> b" using a t(1) by auto
    have "length ([]::nat list) = length ([]::timer list)" "tq_timers ?q a = None" "timer_prev ?a = last_of []" "timer_next ?a = first_of vs"
      using a \<open>a \<noteq> b\<close> by (simp_all add: new_timer_def vs)
    from tm.link [OF at' this]
    have "queue_at ?q' ([] @ a # vs) ([] @ unlinked ?a # y\<lparr>in_use := False\<rparr> # zs)"
      by (simp add: vs new_timer_def tm.left_of_def fun_upd_def)
    moreover have "unlinked ?a = ?app\<lparr>in_use := True\<rparr>" by (simp add: unlinked_def new_timer_def)
    moreover have "\<exists>out. timer_add now (Some a) sec usec (Some run) arg q = Some (tq_cur_id q, ?q', out)"
    proof -
      have upd: "t\<lparr>timer_prev := p, in_use := u\<rparr> = t\<lparr>in_use := u, timer_prev := p\<rparr>" for p u by simp
      have "tq_first q = Some b" using queue_first [OF at] by (simp add: as(1) us vs)
      with find vs have "find_later (tq_timers q) (expiry now sec usec) (Some b) = Some (Some b)" by simp
      with \<open>tq_first q = Some b\<close> assms(2,3) t(1,3) \<open>a \<noteq> b\<close> show ?thesis
        unfolding timer_add_def by (simp add: new_timer_def tm.right_of_def fun_upd_twist Let_def upd) auto
    qed
    ultimately show ?thesis using en us y by (auto simp: queue_of_def)
  qed
qed

lemma rem_queue:
  assumes q: "queue_of q ts"
  shows "\<exists>q' out. timer_rem i f q = Some (q', out) \<and> queue_of q' (cancel i f ts)"
proof -
  let ?P = "\<lambda>t. timer_id t \<noteq> i"
  define xs ys where xs: "xs = takeWhile ?P ts" and ys: "ys = dropWhile ?P ts"
  have ts: "ts = xs @ ys" by (simp add: xs ys)
  from q obtain as where at: "queue_at q as ts" by (auto simp: queue_of_def)
  then obtain us vs where as: "as = us @ vs" "length us = length xs" "vs = [] \<longleftrightarrow> ys = []"
      "first_of (drop (length xs) as) = first_of vs"
    unfolding xs ys by (rule queue_split)
  from find_timer_queue [OF at, of "\<lambda>t. timer_id t = i"] as(4)
  have find: "find_id (tq_timers q) i (tq_first q) = Some (first_of vs)"
    by (simp add: find_id_def xs)
  have can: "cancel i f ts = (case ys of [] \<Rightarrow> ts | t # ws \<Rightarrow>
      if in_use t then xs @ t\<lparr>cancelled := True, handler_arg := (if f then None else handler_arg t)\<rparr> # ws
      else xs @ ws)"
    unfolding cancel_def Let_def xs [symmetric] ys [symmetric] ..
  show ?thesis
  proof (cases ys)
    case Nil
    with as(3) find can q show ?thesis by (simp add: timer_rem_def)
  next
    case (Cons y zs)
    with as(3) obtain b ws where vs: "vs = b # ws" by (cases vs) auto
    have at': "queue_at q (us @ b # ws) (xs @ y # zs)" using at as(1) vs ts Cons by simp
    from stands_for_cell [OF this as(2)] obtain t where
      t: "tq_timers q b = Some t" "unlinked t = y" by auto
    show ?thesis
    proof (cases "in_use t")
      case True
      let ?t = "(if f then t\<lparr>handler_arg := None\<rparr> else t)\<lparr>cancelled := True\<rparr>"
      from True find vs t(1)
      have "\<exists>out. timer_rem i f q = Some (q\<lparr>tq_timers := (tq_timers q)(b \<mapsto> ?t)\<rparr>, out)"
        by (simp add: timer_rem_def Let_def)
      moreover have "unlinked ?t = y\<lparr>cancelled := True, handler_arg := (if f then None else handler_arg y)\<rparr>"
        using t(2) by (cases y) auto
      with can Cons True t(2) have eq: "cancel i f ts = xs @ unlinked ?t # zs"
        by (auto simp del: unlinked_updates)
      have "queue_of (q\<lparr>tq_timers := (tq_timers q)(b \<mapsto> ?t)\<rparr>) (cancel i f ts)"
        unfolding eq queue_of_def using stands_for_change [OF at' as(2) t(1), of ?t]
        by (intro exI [of _ "us @ b # ws"]) simp
      ultimately show ?thesis by auto
    next
      case False
      from dequeue [OF at' as(2)] obtain q' where "timer_dequeue (Some b) q = Some q'"
        "queue_at q' (us @ ws) (xs @ zs)" by auto
      with False find vs t can Cons show ?thesis by (auto simp: timer_rem_def queue_of_def)
    qed
  qed
qed

lemma queue_head:
  assumes "queue_of q (y # zs)"
  obtains b ws t where "queue_at q ([] @ b # ws) ([] @ y # zs)" "tq_first q = Some b" "tq_timers q b = Some t"
    "unlinked t = y"
proof -
  from assms obtain as where at: "queue_at q as (y # zs)" by (auto simp: queue_of_def)
  then obtain b ws where as: "as = b # ws" by (cases as) (auto dest: stands_for_length)
  with at have at': "queue_at q ([] @ b # ws) ([] @ y # zs)" by simp
  with stands_for_cell [OF this] queue_first [OF at] as show ?thesis by (auto intro: that)
qed

lemma arm_queue:
  assumes "queue_of q (y # zs)"
  shows "\<exists>q'. ticker_arm now q = Some (q', [Set_itimer (timer_start now (timeout y))]) \<and>
    queue_of q' (y\<lparr>in_use := True\<rparr> # zs)"
  using assms
proof (rule queue_head)
  fix b ws t
  assume at: "queue_at q ([] @ b # ws) ([] @ y # zs)" and t: "tq_first q = Some b" "tq_timers q b = Some t"
    "unlinked t = y"
  have "length ([]::nat list) = length ([]::timer list)" by simp
  from stands_for_change [OF at this t(2), of "t\<lparr>in_use := True\<rparr>"] t show ?thesis
    by (auto simp: ticker_arm_def queue_of_def)
qed

lemma alarm_queue:
  assumes "queue_of q (y # zs)"
  shows "\<exists>q'. ticker_alarm q =
      Some (q', if cancelled y then Ready else In_handler (handler y) (handler_arg y)) \<and> queue_of q' zs"
  using assms
proof (rule queue_head)
  fix b ws t
  assume at: "queue_at q ([] @ b # ws) ([] @ y # zs)" and t: "tq_first q = Some b" "tq_timers q b = Some t"
    "unlinked t = y"
  from dequeue [OF at] t show ?thesis by (auto simp: ticker_alarm_def queue_of_def)
qed

lemma timer_destroy_frees_all:
  assumes "queue_of q ts"
  shows "\<exists>q'. timer_destroy q = Some q' \<and> tq_timers q' = Map.empty"
proof -
  have "\<exists>q'. timer_destroy q = Some q' \<and> tq_timers q' = Map.empty"
    if "segment timer_prev timer_next (tq_timers q) None f as (tq_last q) e" "distinct as"
      "dom (tq_timers q) = set as" for f as e
    using that
  proof (induction as arbitrary: q e rule: rev_induct)
    case Nil
    then show ?case by (simp add: timer_destroy.simps)
  next
    case (snoc a as)
    then obtain t where "tq_timers q a = Some t" "tq_last q = Some a"
      "segment timer_prev timer_next (tq_timers q) None f as (timer_prev t) (Some a)"
      by (auto simp: segment_append)
    moreover define q1 where "q1 = q\<lparr>tq_last := timer_prev t, tq_timers := (tq_timers q)(a := None)\<rparr>"
    ultimately have "segment timer_prev timer_next (tq_timers q1) None f as (tq_last q1) (Some a)"
      "dom (tq_timers q1) = set as" and "timer_destroy q = timer_destroy q1"
      using snoc.prems by (auto simp: timer_destroy.simps [of q])
    with snoc.IH snoc.prems(2) show ?case by simp
  qed
  with assms show ?thesis by (auto simp: queue_of_def stands_for_def chain_def)
qed

subsection \<open>The order of the queue\<close>

definition in_order :: "timer list \<Rightarrow> bool" where
  "in_order ts = sorted_wrt (\<lambda>s t. \<not> TV_LESS_THAN t s) (map timeout ts)"

definition timers_ok :: "timer list \<Rightarrow> ticker \<Rightarrow> bool" where
  "timers_ok ts k \<longleftrightarrow> in_order ts \<and> (\<forall>t\<in>set (tl ts). \<not> in_use t) \<and>
     (k = In_sigwait \<longrightarrow> ts \<noteq> [] \<and> in_use (hd ts))"

lemma enqueue_timeouts:
  "map timeout (enqueue app ts) =
     map timeout (takeWhile (\<lambda>t. \<not> TV_LESS_THAN (timeout app) (timeout t)) ts) @ timeout app #
     map timeout (dropWhile (\<lambda>t. \<not> TV_LESS_THAN (timeout app) (timeout t)) ts)"
  by (simp add: enqueue_def Let_def split: list.split)

lemma enqueue_in_order:
  assumes "in_order ts"
  shows "in_order (enqueue app ts)"
proof -
  let ?P = "\<lambda>t. \<not> TV_LESS_THAN (timeout app) (timeout t)"
  define xs ys where xs: "xs = takeWhile ?P ts" and ys: "ys = dropWhile ?P ts"
  have s: "in_order (xs @ ys)" using assms by (simp add: xs ys)
  have "\<not> TV_LESS_THAN (timeout t) (timeout app)" if "t \<in> set ys" for t
  proof -
    from that obtain y zs where y: "ys = y # zs" by (cases ys) auto
    then have "\<not> ?P y" unfolding ys by (metis dropWhile_eq_Cons_conv)
    with y that s show ?thesis
      by (auto simp: in_order_def sorted_wrt_append dest: TV_LESS_THAN_asym TV_LESS_THAN_trans)
  qed
  moreover have "?P t" if "t \<in> set xs" for t using that unfolding xs by (auto dest: set_takeWhileD)
  ultimately show ?thesis
    using s by (auto simp: in_order_def enqueue_timeouts xs [symmetric] ys [symmetric] sorted_wrt_append)
qed

lemma cancel_cases [case_names absent marked removed]:
  obtains "cancel i f ts = ts"
    | xs t zs p where "ts = xs @ t # zs" "in_use t"
        "cancel i f ts = xs @ t\<lparr>cancelled := True, handler_arg := p\<rparr> # zs"
    | xs t zs where "ts = xs @ t # zs" "\<not> in_use t" "cancel i f ts = xs @ zs"
proof (cases "dropWhile (\<lambda>t. timer_id t \<noteq> i) ts")
  case Nil
  then show ?thesis by (intro that(1)) (simp add: cancel_def Let_def del: dropWhile_eq_Nil_conv)
next
  case (Cons t zs)
  then have "ts = takeWhile (\<lambda>t. timer_id t \<noteq> i) ts @ t # zs" by (metis takeWhile_dropWhile_id)
  with Cons that(2,3) show ?thesis by (cases "in_use t") (simp_all add: cancel_def)
qed

lemma enqueue_ok:
  assumes "timers_ok ts k" "\<not> in_use app"
  shows "timers_ok (enqueue app ts) k"
proof -
  let ?P = "\<lambda>t. \<not> TV_LESS_THAN (timeout app) (timeout t)"
  define xs ys where xs: "xs = takeWhile ?P ts" and ys: "ys = dropWhile ?P ts"
  have ts: "ts = xs @ ys" by (simp add: xs ys)
  have "in_order (enqueue app ts)" using assms(1) by (simp add: timers_ok_def enqueue_in_order)
  moreover have "enqueue app ts = (case ys of [] \<Rightarrow> xs @ [app]
      | t # ws \<Rightarrow> if xs = [] then app\<lparr>in_use := True\<rparr> # t\<lparr>in_use := False\<rparr> # ws else xs @ app # ys)"
    unfolding enqueue_def Let_def xs [symmetric] ys [symmetric] ..
  ultimately show ?thesis
    using assms unfolding timers_ok_def ts by (cases xs; cases ys) auto
qed

lemma cancel_ok:
  assumes "timers_ok ts k"
  shows "timers_ok (cancel i f ts) k"
proof (cases i f ts rule: cancel_cases)
  case (marked xs t zs p)
  with assms show ?thesis by (cases xs) (auto simp: timers_ok_def in_order_def)
next
  case (removed xs t zs)
  with assms show ?thesis
    by (cases xs; cases zs) (auto simp: timers_ok_def in_order_def sorted_wrt_append)
qed (use assms in simp)

text \<open>The steps of the library, in any order: the two functions may be called at any moment.\<close>

inductive timer_step :: "timerq \<times> ticker \<Rightarrow> timerq \<times> ticker \<Rightarrow> bool" where
  add: "timer_add now new sec usec run arg q = Some (r, q', out) \<Longrightarrow>
     \<forall>a. new = Some a \<longrightarrow> tq_timers q a = None \<Longrightarrow> timer_step (q, k) (q', k)"
| rem: "timer_rem i f q = Some (q', out) \<Longrightarrow> timer_step (q, k) (q', k)"
| arm: "tq_first q \<noteq> None \<Longrightarrow> ticker_arm now q = Some (q', out) \<Longrightarrow> timer_step (q, Ready) (q', In_sigwait)"
| alarm: "ticker_alarm q = Some (q', k) \<Longrightarrow> timer_step (q, In_sigwait) (q', k)"
| handled: "timer_step (q, In_handler run arg) (q, Ready)"

inductive timers_reachable :: "timerq \<times> ticker \<Rightarrow> bool" where
  start: "timers_reachable (timer_init, Ready)"
| step: "timers_reachable s \<Longrightarrow> timer_step s s' \<Longrightarrow> timers_reachable s'"

inductive_cases timer_stepE: "timer_step (q, k) s'"

lemma new_timer_not_in_use [simp]: "\<not> in_use (new_timer now sec usec run arg i)"
  by (simp add: new_timer_def)

lemma timer_add_queue:
  assumes "queue_of q ts" "\<forall>a. new = Some a \<longrightarrow> tq_timers q a = None"
  shows "\<exists>r q' out ts'. timer_add now new sec usec run arg q = Some (r, q', out) \<and> queue_of q' ts' \<and>
    (ts' = ts \<or> (\<exists>h. ts' = enqueue (new_timer now sec usec h arg (tq_cur_id q)) ts))"
proof (cases "run = None \<or> (sec < 0 \<or> usec < 0 \<or> sec = 0 \<and> usec = 0) \<or> new = None")
  case True
  with assms(1) show ?thesis by (cases run; cases new) (auto simp: timer_add_def)
next
  case False
  then obtain h a where "run = Some h" "new = Some a" by auto
  with add_queue [OF assms(1), of a sec usec now h arg] assms(2) False show ?thesis by fastforce
qed

lemma timers_invariant:
  assumes "timers_reachable s"
  shows "\<exists>ts. queue_of (fst s) ts \<and> timers_ok ts (snd s)"
  using assms
proof induction
  case start
  have "queue_at timer_init [] []" by (simp add: timer_init_def)
  then show ?case by (intro exI [of _ "[]"]) (auto simp: queue_of_def timers_ok_def in_order_def)
next
  case (step s s')
  then obtain ts where ts: "queue_of (fst s) ts" "timers_ok ts (snd s)" by blast
  from step.hyps(2) ts show ?case
  proof cases
    case (add now new sec usec run arg q r q' out k)
    then have "queue_of q ts" using ts by simp
    from timer_add_queue [OF this add(4), where now = now and sec = sec and usec = usec and run = run and arg = arg] add(3) have "queue_of q' ts \<or>
        (\<exists>h. queue_of q' (enqueue (new_timer now sec usec h arg (tq_cur_id q)) ts))"
      by auto
    then show ?thesis using add(1,2) ts enqueue_ok [OF _ new_timer_not_in_use, of ts k] by auto
  next
    case (rem i f q q' out k)
    with rem_queue [of q ts i f] ts show ?thesis by (auto intro: cancel_ok)
  next
    case (arm q now q' out)
    with ts obtain y zs where "ts = y # zs" using queue_empty by (cases ts) auto
    with arm_queue [of q y zs now] arm ts show ?thesis
      by (force simp: timers_ok_def in_order_def)
  next
    case (alarm q q' k)
    with ts obtain y zs where y: "ts = y # zs" by (cases ts) (auto simp: timers_ok_def)
    with alarm_queue [of q y zs] alarm ts have "queue_of q' zs"
      by auto
    moreover have "timers_ok zs k"
      using ts alarm y alarm_queue [of q y zs]
      by (cases zs) (auto simp: timers_ok_def in_order_def split: if_split_asm)
    ultimately show ?thesis using alarm by auto
  next
    case (handled q run arg)
    with ts show ?thesis by (auto simp: timers_ok_def)
  qed
qed

subsection \<open>Properties\<close>

text \<open>
  C17: Whatever calls add and remove timers between the steps of the ticker, the queue stays a
  well-formed list in the order of expiry and no call follows a bad pointer or walks for ever; while the
  ticker waits for the signal the queue is not empty, so that the signal finds the timer to run, which
  is one that expires first.
\<close>

theorem timer_queue_stays_in_order:
  assumes "timers_reachable (q, k)"
  shows "\<exists>as ts. chain timer_prev timer_next (tq_timers q) (tq_first q) (tq_last q) as \<and>
      map (\<lambda>a. map_option unlinked (tq_timers q a)) as = map Some ts \<and>
      sorted_wrt (\<lambda>s t. \<not> TV_LESS_THAN (timeout t) (timeout s)) ts \<and>
      (\<forall>now new sec usec run arg. (\<forall>a. new = Some a \<longrightarrow> tq_timers q a = None) \<longrightarrow>
        timer_add now new sec usec run arg q \<noteq> None) \<and>
      (\<forall>i f. timer_rem i f q \<noteq> None) \<and>
      (k = In_sigwait \<longrightarrow> (\<exists>q'. ticker_alarm q = Some (q',
        if cancelled (hd ts) then Ready else In_handler (handler (hd ts)) (handler_arg (hd ts)))) \<and>
        (\<forall>t\<in>set ts. \<not> TV_LESS_THAN (timeout t) (timeout (hd ts))))"
proof -
  from timers_invariant [OF assms] obtain ts where q: "queue_of q ts" and ok: "timers_ok ts k" by auto
  from q obtain as where "queue_at q as ts" by (auto simp: queue_of_def)
  then have "chain timer_prev timer_next (tq_timers q) (tq_first q) (tq_last q) as"
    "map (\<lambda>a. map_option unlinked (tq_timers q a)) as = map Some ts"
    by (auto simp: stands_for_def)
  moreover have s: "sorted_wrt (\<lambda>s t. \<not> TV_LESS_THAN (timeout t) (timeout s)) ts"
    using ok by (simp add: timers_ok_def in_order_def sorted_wrt_map)
  moreover have "(\<forall>a. new = Some a \<longrightarrow> tq_timers q a = None) \<longrightarrow> timer_add now new sec usec run arg q \<noteq> None"
    for now new sec usec run arg
    using timer_add_queue [OF q, of new now sec usec run arg] by auto
  moreover have "timer_rem i f q \<noteq> None" for i f
    using rem_queue [OF q, of i f] by auto
  moreover have "(\<exists>q'. ticker_alarm q = Some (q',
        if cancelled (hd ts) then Ready else In_handler (handler (hd ts)) (handler_arg (hd ts)))) \<and>
        (\<forall>t\<in>set ts. \<not> TV_LESS_THAN (timeout t) (timeout (hd ts)))" if "k = In_sigwait"
  proof -
    from that ok obtain y zs where "ts = y # zs" by (cases ts) (auto simp: timers_ok_def)
    with alarm_queue [of q y zs] q s show ?thesis by (auto simp: TV_LESS_THAN_def)
  qed
  ultimately show ?thesis by blast
qed

definition one_timer :: timerq where
  "one_timer = fst (snd (the (timer_add \<lparr>tv_sec = 10, tv_usec = 0\<rparr> (Some 0) 30 0 (Some 7) None timer_init)))"

lemma one_timer_added:
  "timer_add \<lparr>tv_sec = 10, tv_usec = 0\<rparr> (Some 0) 30 0 (Some 7) None timer_init = Some (0, one_timer, [Wake_ticker])"
  by (simp add: one_timer_def timer_add_def timer_init_def)

lemma one_timer_reachable: "timers_reachable (one_timer, Ready)"
  by (rule timers_reachable.step [OF timers_reachable.start timer_step.add [OF one_timer_added]])
    (simp add: timer_init_def)

lemma timer_queue_stays_in_order_witness:
  "\<exists>as. chain timer_prev timer_next (tq_timers one_timer) (tq_first one_timer) (tq_last one_timer) as"
  using timer_queue_stays_in_order [OF one_timer_reachable] by blast

text \<open>Turns of the loop of the ticker while the queue is not empty, and the handlers that ran.\<close>

fun ticker_rounds :: "timeval list \<Rightarrow> timerq \<Rightarrow> ((nat \<times> pointer) list \<times> timerq) option" where
  "ticker_rounds [] q = Some ([], q)"
| "ticker_rounds (now # nows) q =
     (if tq_first q = None then Some ([], q)
      else do {
        (q, _) \<leftarrow> ticker_arm now q;
        (q, k) \<leftarrow> ticker_alarm q;
        (calls, q) \<leftarrow> ticker_rounds nows q;
        Some ((case k of In_handler run arg \<Rightarrow> (run, arg) # calls | _ \<Rightarrow> calls), q)
      })"

lemma ticker_rounds_drain:
  assumes "queue_of q ts" "length ts \<le> length nows"
  shows "\<exists>q'. ticker_rounds nows q =
      Some (map (\<lambda>t. (handler t, handler_arg t)) (filter (\<lambda>t. \<not> cancelled t) ts), q') \<and> queue_of q' []"
  using assms
proof (induction ts arbitrary: q nows)
  case Nil
  with queue_empty [OF Nil(1)] show ?case by (cases nows) auto
next
  case (Cons y zs)
  then obtain now ns where nows: "nows = now # ns" by (cases nows) auto
  from arm_queue [OF Cons.prems(1), of now] obtain q1 where
    1: "ticker_arm now q = Some (q1, [Set_itimer (timer_start now (timeout y))])"
       "queue_of q1 (y\<lparr>in_use := True\<rparr> # zs)" by blast
  from alarm_queue [OF 1(2)] obtain q2 where
    2: "ticker_alarm q1 = Some (q2, if cancelled y then Ready else In_handler (handler y) (handler_arg y))"
       "queue_of q2 zs" by auto
  from Cons.IH [OF 2(2), of ns] Cons.prems(2) nows 1 2 queue_empty [OF Cons.prems(1)] show ?case by auto
qed



definition microseconds :: "timeval \<Rightarrow> int" where
  "microseconds t = tv_sec t * MICRO_PER_SEC + tv_usec t"

text \<open>
  C19: The interval the ticker asks for is exact, or one microsecond short when the subtraction borrows a
  second. So it is zero, which disarms the timer of the process and leaves the ticker waiting, exactly when
  one microsecond remains and a second begins in it.
\<close>

theorem timer_start_can_disarm:
  assumes "0 \<le> tv_usec now" "tv_usec now \<le> MAX_USEC" "0 \<le> tv_usec to" "tv_usec to \<le> MAX_USEC"
    and "TV_LESS_THAN now to"
  shows "microseconds (timer_start now to) = microseconds to - microseconds now -
      (if tv_usec to < tv_usec now then 1 else 0) \<and>
    (microseconds (timer_start now to) = 0 \<longleftrightarrow>
      tv_sec to = tv_sec now + 1 \<and> tv_usec now = MAX_USEC \<and> tv_usec to = 0)"
proof (cases "tv_usec to < tv_usec now")
  case True
  then have "timer_start now to = \<lparr>tv_sec = tv_sec to - tv_sec now - 1,
      tv_usec = tv_usec to + (MAX_USEC - tv_usec now)\<rparr>"
    using assms(5) by (simp add: timer_start_def TV_MINUS_def)
  then have m: "microseconds (timer_start now to) = microseconds to - microseconds now - 1"
    by (simp add: microseconds_def MICRO_PER_SEC_def MAX_USEC_def left_diff_distrib)
  have "microseconds to - microseconds now = 1 \<longleftrightarrow> (tv_sec to - tv_sec now) * 1000000 + tv_usec to - tv_usec now = 1"
    unfolding microseconds_def MICRO_PER_SEC_def left_diff_distrib by linarith
  also have "\<dots> \<longleftrightarrow> tv_sec to = tv_sec now + 1 \<and> tv_usec now = MAX_USEC \<and> tv_usec to = 0"
  proof -
    have "s = 1 \<and> v = 999999 \<and> u = 0" if "s * 1000000 + u - v = 1" "0 \<le> u" "v \<le> 999999" "u < v" for s u v :: int
    proof -
      from that have "s = 1" by linarith
      with that show ?thesis by simp
    qed
    from this [of "tv_sec to - tv_sec now" "tv_usec to" "tv_usec now"] True assms(2,3) show ?thesis
      unfolding MAX_USEC_def by fastforce
  qed
  finally show ?thesis using True m by auto
next
  case False
  then have "microseconds (timer_start now to) = microseconds to - microseconds now"
    using assms(5) by (simp add: timer_start_def TV_MINUS_def microseconds_def MICRO_PER_SEC_def left_diff_distrib)
  moreover have "microseconds now < microseconds to"
    using assms(1,3,5) False by (auto simp: microseconds_def TV_LESS_THAN_def MICRO_PER_SEC_def)
  moreover have "\<not> (tv_usec now = MAX_USEC \<and> tv_usec to = 0)" using False by (simp add: MAX_USEC_def)
  ultimately show ?thesis using False by simp
qed

lemma timer_start_can_disarm_witness:
  "microseconds (timer_start \<lparr>tv_sec = 9, tv_usec = 999999\<rparr> \<lparr>tv_sec = 10, tv_usec = 0\<rparr>) = 0"
  using timer_start_can_disarm [of "\<lparr>tv_sec = 9, tv_usec = 999999\<rparr>" "\<lparr>tv_sec = 10, tv_usec = 0\<rparr>"]
  by (simp add: MAX_USEC_def TV_LESS_THAN_def)

end
