(* ===== verification/WTP_States.thy ===== *)
theory WTP_States
  imports WTP_Exchange Discovery Configure Timer_Lib
begin

text \<open>
  The states of the WTP before Run (\<open>WTPSulkingState.c\<close>, \<open>WTPJoinState.c\<close>, \<open>WTPConfigureState.c\<close>,
  \<open>WTPDataCheckState.c\<close>) and the loop over the states (\<open>WTP.c\<close>), in the build without DTLS.

  A step is one call of a state's function, one turn of the loop of the Run state, or a timer that expires between them. The
  record \<open>wtp_inputs\<close> is what comes from outside in a step. What a state that ends the program leaves behind is not recorded.
\<close>

subsection \<open>Times\<close>

text \<open>The difference and whether it is negative. The carry is taken from a copy of \<open>y\<close>.\<close>

definition CWTimevalSubtract :: "timeval \<Rightarrow> timeval \<Rightarrow> timeval \<times> bool" where
  "CWTimevalSubtract x y =
     (let z = y;
          z = (if tv_usec x < tv_usec z then
                 (let nsec = (tv_usec z - tv_usec x) div 1000000 + 1
                  in z\<lparr>tv_usec := tv_usec z - 1000000 * nsec, tv_sec := tv_sec z + nsec\<rparr>)
               else z);
          z = (if tv_usec x - tv_usec z > 1000000 then
                 (let nsec = (tv_usec x - tv_usec z) div 1000000
                  in z\<lparr>tv_usec := tv_usec z + 1000000 * nsec, tv_sec := tv_sec z - nsec\<rparr>)
               else z)
      in (\<lparr>tv_sec = tv_sec x - tv_sec z, tv_usec = tv_usec x - tv_usec z\<rparr>,
          tv_sec x < tv_sec z \<or> tv_sec x = tv_sec z \<and> tv_usec x < tv_usec z))"

subsection \<open>Sulking\<close>

text \<open>How \<open>select\<close> answers, and what \<open>CWNetworkTimedPollRead\<close> makes of it.\<close>

datatype select_answer = Nothing_read | Something_to_read | Signal_caught | Select_failed

definition CWNetworkTimedPollRead :: "select_answer \<Rightarrow> CWErrorCode + unit" where
  "CWNetworkTimedPollRead r =
     (case r of
        Nothing_read \<Rightarrow> Inl CW_ERROR_TIME_EXPIRED
      | Something_to_read \<Rightarrow> Inr ()
      | Signal_caught \<Rightarrow> Inl CW_ERROR_INTERRUPTED
      | Select_failed \<Rightarrow> Inl CW_ERROR_GENERAL)"

text \<open>A poll: the answer, how the datagram is read if there is one, and the time after that.\<close>

record poll =
  poll_answer :: select_answer
  poll_read :: "CWErrorCode option"
  poll_after :: timeval

text \<open>The result carries the time each poll was given.\<close>

fun sulk :: "wtp_run_env \<Rightarrow> timeval \<Rightarrow> timeval \<Rightarrow> timeval \<Rightarrow> poll list \<Rightarrow> (CWStateTransition outcome \<times> timeval list) option" where
  "sulk env interval before newTimeout [] = None"
| "sulk env interval before newTimeout (p # ps) =
     (let go_on = (let (delta, _) = CWTimevalSubtract (poll_after p) before;
                       (newTimeout', over) = CWTimevalSubtract interval delta
                   in if over then Some (Done CW_ENTER_DISCOVERY, [newTimeout])
                      else map_option (map_prod id ((#) newTimeout)) (sulk env interval before newTimeout' ps))
      in case CWNetworkTimedPollRead (poll_answer p) of
           Inr _ \<Rightarrow>
             (case poll_read p of
                None \<Rightarrow> go_on
              | Some e \<Rightarrow>
                  (case CWErr env e of
                     Ends \<Rightarrow> Some (Ends, [newTimeout])
                   | Done True \<Rightarrow> go_on
                   | Done False \<Rightarrow> Some (Done CW_QUIT, [newTimeout])))
         | Inl e \<Rightarrow> if e = CW_ERROR_INTERRUPTED then go_on else Some (Done CW_ENTER_DISCOVERY, [newTimeout]))"

definition gCWSilentInterval :: int where "gCWSilentInterval = 30"

definition CWWTPEnterSulking :: "wtp_run_env \<Rightarrow> timeval \<Rightarrow> poll list \<Rightarrow> (CWStateTransition outcome \<times> timeval list) option" where
  "CWWTPEnterSulking env before ps =
     (let interval = \<lparr>tv_sec = gCWSilentInterval, tv_usec = 0\<rparr> in sulk env interval before interval ps)"

subsection \<open>The state of the program and its inputs\<close>

text \<open>
  \<open>sino_left\<close> is the static variable \<open>sino_count\<close>. \<open>gACInfoPtr\<close> and the list of ACs are in \<open>search\<close>, all else in \<open>core\<close>; the
  number of the last request is a variable of both, and \<open>core\<close> has it between the steps.
\<close>

record wtp =
  search :: discovery_state
  core :: wtp_state
  sino_left :: int

text \<open>
  \<open>in_client\<close> and \<open>in_thread\<close> are the errors of the socket and of the thread that receives packets, \<open>in_address\<close> the addresses of the
  socket; \<open>in_waits\<close> what the waits of the state bring; \<open>in_join_expires\<close> whether the timer of the Join state expires during them.
  \<open>in_values k\<close> is what the structure for the response holds when the k-th message is parsed. \<open>in_forced\<close> is whether the
  settings name an AC, and \<open>in_forced_address\<close> what its address is then taken to be. \<open>in_descriptor\<close> are the fields of an AC
  whose response did not have them.
\<close>

record wtp_inputs =
  in_run :: wtp_run_env
  in_discovery :: wtp_env
  in_arrivals :: "nat \<Rightarrow> arrival list"
  in_before :: timeval
  in_polls :: "poll list"
  in_forced :: bool
  in_forced_address :: CWNetworkLev4Address
  in_forced_MTU :: int
  in_wait_join :: u32
  in_client :: "CWErrorCode option"
  in_address :: "u32 \<times> u8 list"
  in_thread :: "CWErrorCode option"
  in_join_expires :: bool
  in_sessionID :: u32
  in_values :: "nat \<Rightarrow> CWProtocolJoinResponseValues"
  in_configure_values :: CWProtocolConfigureResponseValues
  in_sino :: sino_env
  in_descriptor :: ac_descriptor
  in_waits :: "cw_msg waited list"
  in_woken :: wakeup

type_synonym state_step = "(CWStateTransition outcome \<times> wtp \<times> wtp_action list) option"

definition put_AC :: "known_AC option \<Rightarrow> wtp \<Rightarrow> wtp" where
  "put_AC ac w = w\<lparr>search := (search w)\<lparr>gACInfoPtr := ac\<rparr>\<rparr>"

text \<open>A call under \<open>CWErr\<close> that failed with an error, or did not.\<close>

definition checked :: "wtp_run_env \<Rightarrow> CWErrorCode option \<Rightarrow> wtp \<Rightarrow> wtp_action list \<Rightarrow> state_step \<Rightarrow> state_step \<Rightarrow> state_step" where
  "checked env r w out failed succeeded =
     (case r of
        None \<Rightarrow> succeeded
      | Some e \<Rightarrow>
          (case CWErr env e of
             Ends \<Rightarrow> Some (Ends, w, out)
           | Done True \<Rightarrow> succeeded
           | Done False \<Rightarrow> failed))"

text \<open>The messages that are waited for, each with what the ones before it have left.\<close>

fun counted :: "('a \<Rightarrow> 'm \<Rightarrow> 'a) \<Rightarrow> 'a \<Rightarrow> 'm waited list \<Rightarrow> ('a \<times> 'm) waited list" where
  "counted after a [] = []"
| "counted after a (e # es) =
     map_waited (Pair a) e # counted after (case e of Message _ m \<Rightarrow> after a m | _ \<Rightarrow> a) es"

definition max_retransmit :: "wtp_run_env \<Rightarrow> nat" where "max_retransmit env = nat (sint (wr_MaxRetransmit env))"

subsection \<open>Join\<close>

text \<open>What the responses of an AC assign in \<open>*gACInfoPtr\<close>, taken out and put back.\<close>

definition info_of :: "ac_descriptor \<Rightarrow> known_AC \<Rightarrow> CWACInfoValues" where
  "info_of d ac = \<lparr>aci_descriptor = d, aci_ACIPv4List = jp_ACIPv4List (ac_info ac), aci_ACIPv6List = jp_ACIPv6List (ac_info ac)\<rparr>"

definition put_lists :: "CWACInfoValues \<Rightarrow> known_AC \<Rightarrow> known_AC" where
  "put_lists info ac =
     ac\<lparr>ac_info := (ac_info ac)\<lparr>jp_ACIPv4List := aci_ACIPv4List info, jp_ACIPv6List := aci_ACIPv6List info\<rparr>\<rparr>"

definition put_info :: "CWACInfoValues \<Rightarrow> known_AC \<Rightarrow> known_AC" where
  "put_info info ac = (put_lists info ac)\<lparr>ac_info := (ac_info (put_lists info ac))\<lparr>jp_descriptor := Some (aci_descriptor info)\<rparr>\<rparr>"

text \<open>A response that is accepted frees the vendor information of the AC, which must have been assigned.\<close>

definition save_join :: "known_AC \<Rightarrow> CWProtocolJoinResponseValues \<Rightarrow> (CWErrorCode + known_AC) option" where
  "save_join ac v =
     (if jp_code v = CW_PROTOCOL_SUCCESS \<or> jp_code v = CW_PROTOCOL_SUCCESS_NAT then do {
        d \<leftarrow> jp_descriptor (ac_info ac);
        (r, info) \<leftarrow> CWSaveJoinResponseMessage (Some (info_of d ac)) v;
        info \<leftarrow> info;
        Some (map_sum id (\<lambda>_. put_info info ac) r) }
      else do {
        (r, _) \<leftarrow> CWSaveJoinResponseMessage None v;
        Some (map_sum id (\<lambda>_. ac) r) })"

definition leave_join :: "u32 \<Rightarrow> wtp \<Rightarrow> wtp_action list \<Rightarrow> state_step" where
  "leave_join i w out = Some (Done CW_ENTER_DISCOVERY, w\<lparr>core := rem_timer i (core w)\<rparr>, out)"

definition join_exchanged :: "u32 \<Rightarrow> wtp \<Rightarrow> wtp_action list \<Rightarrow> state_step" where
  "join_exchanged i w out =
     (if \<not> gSuccessfulHandshake (core w) then leave_join i w out
      else Some (Done CW_ENTER_CONFIGURE, w\<lparr>core := rem_timer i (core w)\<rparr>, out))"

text \<open>After the exchange: the timer may have expired while it went on.\<close>

definition join_answered ::
  "wtp_inputs \<Rightarrow> wtp_run_env \<Rightarrow> u32 \<Rightarrow> wtp \<Rightarrow> (CWErrorCode + known_AC) \<times> wtp_action list \<Rightarrow> state_step" where
  "join_answered inp env i w = (\<lambda>(r, out). do {
     (s, _) \<leftarrow> (if in_join_expires inp then timer_expires env i (core w) else Some (core w, []));
     let w = w\<lparr>core := s\<rparr>;
     (case r of
        Inl e \<Rightarrow> checked env (Some e) w out (leave_join i w out) (join_exchanged i w out)
      | Inr ac \<Rightarrow> join_exchanged i (put_AC (Some ac) w) out)
   })"

text \<open>From the path MTU on.\<close>

definition join_env :: "wtp_inputs \<Rightarrow> wtp_run_env" where
  "join_env inp =
     (if in_forced_MTU inp > 0 then (in_run inp)\<lparr>gWTPPathMTU := in_forced_MTU inp\<rparr> else in_run inp)"

definition exchange_join :: "wtp_inputs \<Rightarrow> u32 \<Rightarrow> known_AC \<Rightarrow> wtp \<Rightarrow> state_step" where
  "exchange_join inp i ac w =
     (let env = join_env inp; alloc = wr_alloc env
      in case CWGetSeqNum (seq_next (core w)) of
           (seqValue, n) \<Rightarrow> do {
             let w = w\<lparr>core := (core w)\<lparr>seq_next := n\<rparr>\<rparr>;
             x \<leftarrow> CWWTPSendAcknowledgedPacket env (max_retransmit env)
               (CWAssembleJoinRequest alloc (wr_le env) (we_longsz (in_discovery inp)) (we_junk (in_discovery inp))
                  (wtp_globals (core w)) (in_sessionID inp) (wr_fragID env) (gWTPPathMTU env) seqValue (wr_crypt env))
               (\<lambda>(k, m). CWParseJoinResponseMessage alloc (wr_le env) (in_values inp k) m (offset m) seqValue)
               (save_join ac) (counted (\<lambda>k _. Suc k) 0 (in_waits inp));
             join_answered inp env i w x
           })"

text \<open>
  The AC is dereferenced before anything else. When the structure for a forced address cannot be allocated the function returns
  \<open>CW_FALSE\<close>, which is the number of \<open>CW_ENTER_SULKING\<close>.
\<close>

definition CWWTPEnterJoin :: "wtp_inputs \<Rightarrow> wtp \<Rightarrow> state_step" where
  "CWWTPEnterJoin inp w = do {
     let env = in_run inp;
     ac \<leftarrow> gACInfoPtr (search w);
     let ac = put_lists \<lparr>aci_descriptor = in_descriptor inp, aci_ACIPv4List = [], aci_ACIPv6List = []\<rparr> ac;
     (case add_timer env (in_wait_join inp) WaitJoin (core w) of
        (i, s) \<Rightarrow>
          (let w = (put_AC (Some ac) w)\<lparr>core := s\<rparr>
           in if i = - 1 then Some (Done CW_ENTER_DISCOVERY, w, [])
              else if in_forced inp \<and> \<not> wr_alloc env sizeof_CWACInfoValues then Some (Done CW_ENTER_SULKING, put_AC None w, [])
              else
                (let ac = (if in_forced inp then (we_blank (in_discovery inp))\<lparr>preferredAddress := in_forced_address inp\<rparr> else ac);
                     w = put_AC (Some ac) w;
                     g = (wtp_globals s)\<lparr>sock_ipv4 := fst (in_address inp), sock_ipv6 := snd (in_address inp)\<rparr>;
                     connected = w\<lparr>core := s\<lparr>wtp_globals := g\<rparr>\<rparr>
                 in checked env (in_client inp) w [] (leave_join i w [])
                      (checked env (in_thread inp) connected [] (leave_join i connected [])
                         (exchange_join inp i ac connected)))))
   }"

subsection \<open>Configure and Data Check\<close>

text \<open>
  What a response leaves in \<open>sino_count\<close>, accepted or not: the first pass over its elements up to the one that is refused. A
  switch that refuses an element ends the pass here with what it was given.
\<close>

definition ending ::
  "(u16 \<Rightarrow> nat \<Rightarrow> 's \<Rightarrow> cw_msg \<Rightarrow> (CWErrorCode + 's \<times> cw_msg) option) \<Rightarrow> int \<Rightarrow> u16 \<Rightarrow> nat \<Rightarrow> 's \<Rightarrow> cw_msg \<Rightarrow>
     (CWErrorCode + 's \<times> cw_msg) option" where
  "ending handle stop elemType elemLen v m = do {
     r \<leftarrow> handle elemType elemLen v m;
     Some (Inr (case r of Inl _ \<Rightarrow> (v, m\<lparr>offset := nat stop\<rparr>) | Inr x \<Rightarrow> x))
   }"

definition sino_count_after ::
  "(nat \<Rightarrow> bool) \<Rightarrow> sino_env \<Rightarrow> CWProtocolConfigureResponseValues \<Rightarrow> u32 \<Rightarrow> int \<Rightarrow> cw_msg \<Rightarrow> int" where
  "sino_count_after alloc se junk seqValue n m =
     (case open_message CW_MSG_TYPE_VALUE_CONFIGURE_RESPONSE m of
        Some (Inr ((seq, elemsLen), m)) \<Rightarrow>
          (let stop = int (offset m) + int elemsLen
           in if seq \<noteq> seqValue then n
              else (case element_loop (ending (configure_response_switch alloc se) stop) stop (start_response n junk) m of
                      Some (Inr (v, _)) \<Rightarrow> cp_sino_count v
                    | _ \<Rightarrow> n))
      | _ \<Rightarrow> n)"

text \<open>What an accepted response gives: the AC, the radios, the interval of the heartbeat and \<open>sino_count\<close>.\<close>

definition save_configure ::
  "wtp_inputs \<Rightarrow> wtp \<Rightarrow> CWProtocolConfigureResponseValues \<Rightarrow>
     (CWErrorCode + known_AC option \<times> binding_radio list \<times> u32 \<times> int) option" where
  "save_configure inp w v = do {
     let known = gACInfoPtr (search w);
     let d = (\<lambda>ac. case jp_descriptor (ac_info ac) of Some d \<Rightarrow> d | None \<Rightarrow> in_descriptor inp);
     (r, info, rs, echo) \<leftarrow> CWSaveConfigureResponseMessage (wr_driver (in_run inp)) v
       (map_option (\<lambda>ac. info_of (d ac) ac) known) (radios (core w)) (gEchoInterval (core w));
     Some (map_sum id (\<lambda>_. (case info of None \<Rightarrow> known | Some info \<Rightarrow> map_option (put_lists info) known, rs, echo,
       cp_sino_count v)) r)
   }"

text \<open>The name of the AC is read where it is assembled. The end of the program follows every failure.\<close>

definition CWWTPEnterConfigure :: "wtp_inputs \<Rightarrow> wtp \<Rightarrow> state_step" where
  "CWWTPEnterConfigure inp w =
     (let env = in_run inp; alloc = wr_alloc env
      in case CWGetSeqNum (seq_next (core w)) of
           (seqValue, n) \<Rightarrow> do {
             ac \<leftarrow> gACInfoPtr (search w);
             name \<leftarrow> jp_name (ac_info ac);
             name \<leftarrow> name;
             let w = w\<lparr>core := (core w)\<lparr>seq_next := n, wtp_globals := (wtp_globals (core w))\<lparr>gACInfo_name := name\<rparr>\<rparr>\<rparr>;
             (r, out) \<leftarrow> CWWTPSendAcknowledgedPacket env (max_retransmit env)
               (CWAssembleConfigureRequest alloc (wtp_globals (core w)) (wr_fragID env) (gWTPPathMTU env) seqValue (wr_crypt env))
               (\<lambda>(k, m). CWParseConfigureResponseMessage alloc (in_sino inp) k (in_configure_values inp) m (offset m) seqValue)
               (save_configure inp w)
               (counted (sino_count_after alloc (in_sino inp) (in_configure_values inp) seqValue) (sino_left w) (in_waits inp));
             (case r of
                Inl e \<Rightarrow> checked env (Some e) w out (Some (Done CW_QUIT, w, out)) (Some (Done CW_ENTER_DATA_CHECK, w, out))
              | Inr (found, rs, echo, k) \<Rightarrow>
                  Some (Done CW_ENTER_DATA_CHECK,
                    (put_AC found w)\<lparr>core := (core w)\<lparr>radios := rs, gEchoInterval := echo\<rparr>, sino_left := k\<rparr>, out))
           })"

definition CWWTPEnterDataCheck :: "wtp_inputs \<Rightarrow> wtp \<Rightarrow> state_step" where
  "CWWTPEnterDataCheck inp w =
     (let env = in_run inp; alloc = wr_alloc env
      in case CWGetSeqNum (seq_next (core w)) of
           (seqValue, n) \<Rightarrow>
             (case CWStartHeartbeatTimer env ((core w)\<lparr>seq_next := n\<rparr>) of
                (started, s) \<Rightarrow>
                  (let w = w\<lparr>core := s\<rparr>
                   in checked env (if started then None else Some CW_ERROR_NONE) w [] (Some (Done CW_ENTER_RESET, w, [])) (do {
                        (r, out) \<leftarrow> CWWTPSendAcknowledgedPacket env (max_retransmit env)
                          (CWAssembleChangeStateEventRequest alloc (wtp_globals s) (wr_fragID env) (gWTPPathMTU env) seqValue
                             (wr_crypt env))
                          (\<lambda>m. CWParseChangeStateEventResponseMessage m seqValue) (\<lambda>v. Some (Inr v)) (in_waits inp);
                        checked env (case r of Inl e \<Rightarrow> Some e | Inr _ \<Rightarrow> None) w out (Some (Done CW_ENTER_RESET, w, out))
                          (Some (Done CW_ENTER_RUN, w\<lparr>core := CWStopHeartbeatTimer s\<rparr>, out))
                      }))))"

subsection \<open>The loop over the states\<close>

text \<open>
  \<open>At q\<close>: the function of the state \<open>q\<close> is called next. \<open>Running\<close>: the loop of the Run state goes on. \<open>Stopped\<close>: the thread or the
  process has ended. The Reset state does nothing.
\<close>

datatype phase = At CWStateTransition | Running | Stopped

definition first_phase :: "bool \<Rightarrow> phase" where
  "first_phase forced = At (if forced then CW_ENTER_JOIN else CW_ENTER_DISCOVERY)"

definition entered :: "state_step \<Rightarrow> (phase \<times> wtp \<times> wtp_action list) option" where
  "entered r = do {
     (t, w, out) \<leftarrow> r;
     Some (case t of Done q \<Rightarrow> At q | Ends \<Rightarrow> Stopped, w, out) }"

definition run_result :: "wtp \<Rightarrow> run_state wtp_step \<Rightarrow> (phase \<times> wtp \<times> wtp_action list) option" where
  "run_result w r = do {
     (t, s, out) \<leftarrow> r;
     Some (case t of Done Stays \<Rightarrow> Running | Done Resets \<Rightarrow> At CW_ENTER_RESET | Ends \<Rightarrow> Stopped, w\<lparr>core := s\<rparr>, out) }"

definition enter_discovery :: "wtp_inputs \<Rightarrow> wtp \<Rightarrow> (phase \<times> wtp \<times> wtp_action list) option" where
  "enter_discovery inp w = do {
     (t, s, out) \<leftarrow> CWWTPEnterDiscovery (in_discovery inp) (wtp_globals (core w)) (in_arrivals inp)
                       ((search w)\<lparr>next_seqNum := seq_next (core w)\<rparr>);
     Some (case t of Enter q \<Rightarrow> At q | Exited \<Rightarrow> Stopped,
           w\<lparr>search := s, core := (core w)\<lparr>seq_next := next_seqNum s\<rparr>\<rparr>, map To_ac out) }"

definition state_machine :: "wtp_inputs \<Rightarrow> phase \<Rightarrow> wtp \<Rightarrow> (phase \<times> wtp \<times> wtp_action list) option" where
  "state_machine inp p w =
     (case p of
        Stopped \<Rightarrow> Some (Stopped, w, [])
      | Running \<Rightarrow> run_result w (CWWTPEnterRun_turn (in_run inp) (in_woken inp) (core w))
      | At q \<Rightarrow>
          (case q of
             CW_ENTER_DISCOVERY \<Rightarrow> enter_discovery inp w
           | CW_ENTER_SULKING \<Rightarrow> do {
               (t, _) \<leftarrow> CWWTPEnterSulking (in_run inp) (in_before inp) (in_polls inp);
               entered (Some (t, w, [])) }
           | CW_ENTER_JOIN \<Rightarrow> entered (CWWTPEnterJoin inp w)
           | CW_ENTER_CONFIGURE \<Rightarrow> entered (CWWTPEnterConfigure inp w)
           | CW_ENTER_DATA_CHECK \<Rightarrow> entered (CWWTPEnterDataCheck inp w)
           | CW_ENTER_RUN \<Rightarrow> run_result w (CWWTPEnterRun_begin (in_run inp) (core w))
           | CW_ENTER_RESET \<Rightarrow> Some (At CW_ENTER_DISCOVERY, w, [])
           | CW_QUIT \<Rightarrow> Some (Stopped, w, [])))"

text \<open>Whatever the inputs of the steps are, and whichever timers expire between them.\<close>

inductive goes_to :: "phase \<times> wtp \<Rightarrow> phase \<times> wtp \<Rightarrow> bool" for c where
  start: "goes_to c c"
| state: "goes_to c (p, w) \<Longrightarrow> state_machine inp p w = Some (p', w', out) \<Longrightarrow> goes_to c (p', w')"
| timer: "goes_to c (p, w) \<Longrightarrow> p \<noteq> Stopped \<Longrightarrow> timer_expires env i (core w) = Some (s, out) \<Longrightarrow> goes_to c (p, w\<lparr>core := s\<rparr>)"

end
