(* ===== verification/WTP_Machine.thy ===== *)
theory WTP_Machine
  imports WTP_States
begin

text \<open>
  What holds along the states of the WTP: what a state needs of the ones before, what the errors of the code lead to, and how a WTP
  gets from its search for an AC to the Run state.
\<close>

subsection \<open>Sulking\<close>

definition normal_time :: "timeval \<Rightarrow> bool" where "normal_time t \<longleftrightarrow> 0 \<le> tv_usec t \<and> tv_usec t < 1000000"

text \<open>The difference of two times is exact, unlike that of the timer library.\<close>

lemma subtract_exact:
  assumes "normal_time x" and "normal_time y"
  shows "normal_time (fst (CWTimevalSubtract x y))"
    and "microseconds (fst (CWTimevalSubtract x y)) = microseconds x - microseconds y"
    and "snd (CWTimevalSubtract x y) \<longleftrightarrow> microseconds x < microseconds y"
proof -
  have "(tv_usec y - tv_usec x) div 1000000 = 0" if "tv_usec x < tv_usec y"
    using that assms by (simp add: normal_time_def)
  then show "normal_time (fst (CWTimevalSubtract x y))"
    and "microseconds (fst (CWTimevalSubtract x y)) = microseconds x - microseconds y"
    and "snd (CWTimevalSubtract x y) \<longleftrightarrow> microseconds x < microseconds y"
    using assms by (auto simp: CWTimevalSubtract_def Let_def normal_time_def microseconds_def MICRO_PER_SEC_def)
qed

text \<open>A poll that something ends before its time, but that does not fail, and how long after the start this is.\<close>

definition disturbed :: "poll \<Rightarrow> bool" where
  "disturbed p \<longleftrightarrow> poll_answer p = Signal_caught \<or> poll_answer p = Something_to_read \<and> poll_read p = None"

definition elapsed :: "timeval \<Rightarrow> poll \<Rightarrow> int" where
  "elapsed before p = microseconds (poll_after p) - microseconds before"

lemma sulk_disturbed:
  fixes interval
  defines "M \<equiv> microseconds interval"
  assumes "normal_time interval" and "normal_time before"
  shows "\<forall>p \<in> set ps. disturbed p \<and> normal_time (poll_after p) \<Longrightarrow>
    (if \<exists>p \<in> set ps. M < elapsed before p
     then \<exists>ts. sulk env interval before t ps = Some (Done CW_ENTER_DISCOVERY, t # ts) \<and>
       map microseconds ts = map (\<lambda>p. M - elapsed before p) (takeWhile (\<lambda>p. elapsed before p \<le> M) ps)
     else sulk env interval before t ps = None)"
proof (induction ps arbitrary: t)
  case (Cons p ps)
  obtain delta b where delta: "CWTimevalSubtract (poll_after p) before = (delta, b)" by fastforce
  obtain t' over where t': "CWTimevalSubtract interval delta = (t', over)" by fastforce
  have d: "normal_time delta" "microseconds delta = elapsed before p"
    using subtract_exact [of "poll_after p" before] Cons.prems assms(3) delta by (simp_all add: elapsed_def)
  have n: "microseconds t' = M - elapsed before p" "over \<longleftrightarrow> M < elapsed before p"
    using subtract_exact [OF assms(2) d(1)] t' d(2) by (simp_all add: M_def)
  have step: "sulk env interval before t (p # ps) =
      (if over then Some (Done CW_ENTER_DISCOVERY, [t])
       else map_option (map_prod id ((#) t)) (sulk env interval before t' ps))"
    using Cons.prems by (auto simp: disturbed_def CWNetworkTimedPollRead_def delta t' Let_def)
  show ?case
    using Cons.IH [of t'] Cons.prems n unfolding step by (auto split: if_splits)
qed simp

text \<open>
  C33: Packets do not prolong the sulking. When nothing but packets and signals ends the polls and the clock is well formed, the
  state ends, for Discovery, at the first time more than 30 seconds after its start, and not before; the first poll is
  given 30 seconds, and each of the others exactly what is left of them, to the microsecond.
\<close>

theorem packets_do_not_prolong_sulking:
  fixes before
  defines "M \<equiv> gCWSilentInterval * 1000000"
  assumes "normal_time before" and "\<forall>p \<in> set ps. disturbed p \<and> normal_time (poll_after p)"
  shows "if \<exists>p \<in> set ps. M < elapsed before p
    then \<exists>ts. CWWTPEnterSulking env before ps = Some (Done CW_ENTER_DISCOVERY, ts) \<and>
      map microseconds ts = M # map (\<lambda>p. M - elapsed before p) (takeWhile (\<lambda>p. elapsed before p \<le> M) ps)
    else CWWTPEnterSulking env before ps = None"
proof -
  let ?i = "\<lparr>tv_sec = gCWSilentInterval, tv_usec = 0\<rparr>"
  have "normal_time ?i" "microseconds ?i = M"
    by (simp_all add: normal_time_def microseconds_def M_def MICRO_PER_SEC_def)
  then show ?thesis
    using sulk_disturbed [of ?i before ps env ?i] assms(2,3) by (auto simp: CWWTPEnterSulking_def Let_def split: if_splits)
qed

lemma packets_do_not_prolong_sulking_witness:
  "\<exists>ts. CWWTPEnterSulking sample_run_env \<lparr>tv_sec = 5, tv_usec = 900000\<rparr>
      [\<lparr>poll_answer = Something_to_read, poll_read = None, poll_after = \<lparr>tv_sec = 20, tv_usec = 100000\<rparr>\<rparr>,
       \<lparr>poll_answer = Signal_caught, poll_read = None, poll_after = \<lparr>tv_sec = 36, tv_usec = 0\<rparr>\<rparr>] =
      Some (Done CW_ENTER_DISCOVERY, ts) \<and> map microseconds ts = [30000000, 15800000]"
  using packets_do_not_prolong_sulking [of "\<lparr>tv_sec = 5, tv_usec = 900000\<rparr>"
      "[\<lparr>poll_answer = Something_to_read, poll_read = None, poll_after = \<lparr>tv_sec = 20, tv_usec = 100000\<rparr>\<rparr>,
        \<lparr>poll_answer = Signal_caught, poll_read = None, poll_after = \<lparr>tv_sec = 36, tv_usec = 0\<rparr>\<rparr>]" sample_run_env]
  by (simp add: normal_time_def disturbed_def elapsed_def microseconds_def MICRO_PER_SEC_def gCWSilentInterval_def)

subsection \<open>The Join timer\<close>

lemma timers_keep_flag [simp]:
  "gSuccessfulHandshake (rem_timer i s) = gSuccessfulHandshake s"
  "gSuccessfulHandshake (snd (add_timer env sec h s)) = gSuccessfulHandshake s"
  "gSuccessfulHandshake (snd (CWStartHeartbeatTimer env s)) = gSuccessfulHandshake s"
  "gSuccessfulHandshake (snd (CWStartNeighborDeadTimer env s)) = gSuccessfulHandshake s"
  "gSuccessfulHandshake (CWStopNeighborDeadTimer s) = gSuccessfulHandshake s"
  "gSuccessfulHandshake (CWStopHeartbeatTimer s) = gSuccessfulHandshake s"
  by (simp_all add: rem_timer_def add_timer_def CWStartHeartbeatTimer_def CWStartNeighborDeadTimer_def
      CWStopNeighborDeadTimer_def CWStopHeartbeatTimer_def Let_def)

lemma heartbeat_keeps_flag:
  assumes "CWWTPHeartBeatTimerExpiredHandler env s = Some (s', out)"
  shows "gSuccessfulHandshake s' = gSuccessfulHandshake s"
proof -
  obtain ok s1 where dead: "(if gNeighborDeadTimerSet s then (True, s) else CWStartNeighborDeadTimer env s) = (ok, s1)"
    by fastforce
  then have "gSuccessfulHandshake s1 = gSuccessfulHandshake s" by (metis snd_conv timers_keep_flag(4))
  then show ?thesis
    using assms
    by (cases ok) (auto simp: CWWTPHeartBeatTimerExpiredHandler_def dead Let_def
        split: prod.split_asm sum.split_asm bind_split_asm)
qed

lemma retransmission_keeps_flag:
  assumes "CWWTPRetransmitTimerExpiredHandler env c s = Some (s', out)"
  shows "gSuccessfulHandshake s' = gSuccessfulHandshake s"
  using assms
  by (auto simp: CWWTPRetransmitTimerExpiredHandler_def free_cell_def set_box_def add_timer_def Let_def
      split: sum.split_asm if_split_asm prod.split_asm bind_split_asm)

lemma timer_expires_flag:
  assumes "timer_expires env i s = Some (s', out)" and "\<not> gSuccessfulHandshake s"
  shows "\<not> gSuccessfulHandshake s'"
proof -
  obtain t where "timers s i = Some t" using assms(1) by (auto simp: timer_expires_def bind_eq_Some_conv)
  then show ?thesis
    using assms heartbeat_keeps_flag [of env "rem_timer i s" s' out] retransmission_keeps_flag [of env _ "rem_timer i s" s' out]
    by (cases "at_handler t")
      (auto simp: timer_expires_def CWWTPNeighborDeadTimerExpired_def CWWTPWaitJoinExpired_def Let_def)
qed

lemma timer_expires_step:
  "timer_expires env i s = Some (s', out) \<Longrightarrow> timers s i = Some \<lparr>at_sec = n, at_handler = WaitJoin\<rparr> \<Longrightarrow>
    \<not> gSuccessfulHandshake s'"
  by (simp add: timer_expires_def CWWTPWaitJoinExpired_def Let_def) auto

lemma map_sum_Inl: "map_sum f g r = Inl t \<longleftrightarrow> (\<exists>u. r = Inl u \<and> t = f u)"
  by (cases r) auto

lemma send_requests_result: "send_requests env g as n = Some (Inl t) \<Longrightarrow> t = Exited \<or> t = Enter CW_QUIT"
proof (induction as arbitrary: n t)
  case (Cons a as)
  from Cons.prems show ?case
    by (auto simp: map_sum_Inl split: prod.split_asm sum.split_asm list.split_asm if_split_asm bind_split_asm dest!: Cons.IH)
qed simp

definition search_result :: "discovery_result \<times> discovery_state \<times> u8 list list \<Rightarrow> bool" where
  "search_result r \<longleftrightarrow>
     (case r of (t, s, _) \<Rightarrow> t \<in> {Enter CW_ENTER_SULKING, Enter CW_QUIT, Exited} \<or> t = Enter CW_ENTER_JOIN \<and> gACInfoPtr s \<noteq> None)"

lemma discovery_loop_result:
  assumes "discovery_loop env g arrivals s = Some r"
  shows "search_result r"
proof (rule discovery_loop.raw_induct [OF _ assms], goal_cases)
  case (1 loop env g arrivals s r)
  show ?case
    using 1(2)
    by (auto simp: search_result_def Let_def split: if_split_asm bind_split_asm sum.split_asm prod.split_asm 
      dest!: 1(1) send_requests_result)
qed

lemma enter_discovery_result:
  assumes "enter_discovery inp w = Some (p, w', out)"
  shows "p \<in> {At CW_ENTER_SULKING, At CW_QUIT, Stopped} \<or> p = At CW_ENTER_JOIN \<and> gACInfoPtr (search w') \<noteq> None"
    and "gSuccessfulHandshake (core w') = gSuccessfulHandshake (core w)"
  using assms discovery_loop_result
  by (fastforce simp: enter_discovery_def CWWTPEnterDiscovery_def Let_def search_result_def
      split: if_split_asm bind_split_asm prod.split_asm discovery_result.split_asm)+

lemma checked_cases:
  "checked env r w out failed succeeded = Some x \<Longrightarrow> x = (Ends, w, out) \<or> failed = Some x \<or> succeeded = Some x"
  by (auto simp: checked_def split: option.split_asm outcome.split_asm bool.split_asm)

lemma join_answered_barred:
  assumes "join_answered inp env i w x = Some (t, w', out)" and "\<not> gSuccessfulHandshake (core w)"
  shows "t \<in> {Ends, Done CW_ENTER_DISCOVERY} \<and> \<not> gSuccessfulHandshake (core w')"
proof -
  obtain r o' where x: "x = (r, o')" by fastforce
  obtain s u where s: "(if in_join_expires inp then timer_expires env i (core w) else Some (core w, [])) = Some (s, u)"
    using assms(1) by (auto simp: join_answered_def x split: bind_split_asm)
  then have "\<not> gSuccessfulHandshake s" using assms(2) timer_expires_flag by (auto split: if_split_asm)
  then show ?thesis
    using assms(1)
    by (auto simp: join_answered_def x s leave_join_def join_exchanged_def put_AC_def Let_def
        split: sum.split_asm dest!: checked_cases)
qed

lemma exchange_join_barred:
  assumes "exchange_join inp i ac w = Some (t, w', out)" and "\<not> gSuccessfulHandshake (core w)"
  shows "t \<in> {Ends, Done CW_ENTER_DISCOVERY} \<and> \<not> gSuccessfulHandshake (core w')"
proof -
  have "\<exists>env n x. join_answered inp env i (w\<lparr>core := (core w)\<lparr>seq_next := n\<rparr>\<rparr>) x = Some (t, w', out)"
    using assms(1) by (auto simp: exchange_join_def Let_def split: prod.split_asm bind_split_asm)
  then show ?thesis using join_answered_barred assms(2) by fastforce
qed

lemma join_barred:
  assumes "CWWTPEnterJoin inp w = Some (t, w', out)" and "\<not> gSuccessfulHandshake (core w)"
  shows "t \<in> {Ends, Done CW_ENTER_DISCOVERY, Done CW_ENTER_SULKING} \<and> \<not> gSuccessfulHandshake (core w')"
proof -
  obtain i s where add: "add_timer (in_run inp) (in_wait_join inp) WaitJoin (core w) = (i, s)" by fastforce
  then have "\<not> gSuccessfulHandshake s" using assms(2) by (metis snd_conv timers_keep_flag(2))
  then show ?thesis
    using assms(1)
    by (auto simp: CWWTPEnterJoin_def add leave_join_def put_AC_def Let_def
        split: if_split_asm bind_split_asm dest!: checked_cases exchange_join_barred)
qed

lemma sulk_result:
  "sulk env interval before now ps = Some (t, ts) \<Longrightarrow> t \<in> {Ends, Done CW_ENTER_DISCOVERY, Done CW_QUIT}"
proof (induction ps arbitrary: now t ts)
  case (Cons p ps)
  then show ?case
    by (fastforce simp: Let_def
        split: sum.split_asm option.split_asm outcome.split_asm bool.split_asm if_split_asm prod.split_asm)
qed simp

text \<open>The phases of a WTP that has no AC, and how they follow each other once the flag is cleared.\<close>

definition seeking :: "phase set" where
  "seeking = {At CW_ENTER_DISCOVERY, At CW_ENTER_SULKING, At CW_ENTER_JOIN, At CW_QUIT, Stopped}"

lemma seeking_step:
  assumes "state_machine inp p w = Some (p', w', out)" and "p \<in> seeking" and "\<not> gSuccessfulHandshake (core w)"
  shows "p' \<in> seeking \<and> \<not> gSuccessfulHandshake (core w')"
proof -
  consider "p = At CW_ENTER_DISCOVERY" | "p = At CW_ENTER_SULKING" | "p = At CW_ENTER_JOIN" | "p \<in> {At CW_QUIT, Stopped}"
    using assms(2) by (auto simp: seeking_def)
  then show ?thesis
  proof cases
    case 1
    then show ?thesis using assms enter_discovery_result [of inp w p' w' out] by (auto simp: state_machine_def seeking_def)
  next
    case 2
    then show ?thesis
      using assms
      by (auto simp: state_machine_def CWWTPEnterSulking_def entered_def Let_def seeking_def split: bind_split_asm
          dest!: sulk_result)
  next
    case 3
    then show ?thesis
      using assms by (auto simp: state_machine_def entered_def seeking_def split: bind_split_asm dest!: join_barred)
  qed (use assms in \<open>auto simp: state_machine_def seeking_def\<close>)
qed

text \<open>
  C29: A Join timer that expires once keeps the WTP from every AC. Nothing sets the flag the timer clears again, and no Join
  succeeds without it: whatever arrives afterwards, in however many rounds of Discovery, Sulking and Join, the WTP never
  reaches the Configure state.
\<close>

theorem join_timer_bars_the_wtp:
  assumes "timers s i = Some \<lparr>at_sec = n, at_handler = WaitJoin\<rparr>" and "timer_expires env i s = Some (core w, out)"
    and "q \<in> {CW_ENTER_DISCOVERY, CW_ENTER_SULKING, CW_ENTER_JOIN}" and "goes_to (At q, w) (p, w')"
  shows "p \<in> {At CW_ENTER_DISCOVERY, At CW_ENTER_SULKING, At CW_ENTER_JOIN, At CW_QUIT, Stopped}"
proof -
  have "case (p, w') of (p, w') \<Rightarrow> p \<in> seeking \<and> \<not> gSuccessfulHandshake (core w')"
    using assms(4)
  proof (induction rule: goes_to.induct)
    case start
    then show ?case using assms(3) timer_expires_step [OF assms(2,1)] by (auto simp: seeking_def)
  next
    case (state p w inp p' w' out)
    then show ?case using seeking_step by fastforce
  next
    case (timer p w env i s out)
    then show ?case using timer_expires_flag by auto
  qed
  then show ?thesis by (simp add: seeking_def)
qed

subsection \<open>A sample\<close>

definition no_address :: CWNetworkLev4Address where "no_address = \<lparr>sa_family = 0, sa_addr = [], sa_port = 0\<rparr>"

definition blank_configure :: CWProtocolConfigureResponseValues where
  "blank_configure = \<lparr>cp_ACIPv4List = [], cp_ACIPv6List = [], cp_discoveryTimer = 0, cp_echoRequestTimer = 0,
     cp_radioOperationalInfoCount = 0, cp_radioOperationalInfo = [], cp_radiosCount = 0, cp_radios = [], cp_idleTimeout = 0,
     cp_fallback = 0, cp_bindingFound = False, cp_bindingValues = None, cp_sino_count = 0, cp_announced = Ignored\<rparr>"

definition sample_inputs :: "cw_msg waited list \<Rightarrow> wtp_inputs" where
  "sample_inputs waits = \<lparr>in_run = sample_run_env, in_discovery = sample_wtp_env, in_arrivals = (\<lambda>_. []),
     in_before = \<lparr>tv_sec = 0, tv_usec = 0\<rparr>, in_polls = [], in_forced = False, in_forced_address = no_address,
     in_forced_MTU = 0, in_wait_join = 60, in_client = None, in_address = (0xC0A80001, replicate 16 0), in_thread = None,
     in_join_expires = False, in_sessionID = 77, in_values = (\<lambda>_. unassigned_join_response 0),
     in_configure_values = blank_configure, in_sino = sample_sino_env,
     in_descriptor = ac_descriptor_of True True sample_ac, in_waits = waits, in_woken = Failed CW_ERROR_TIME_EXPIRED\<rparr>"

definition sample_known :: known_AC where
  "sample_known = \<lparr>ac_info = response_values True True sample_ac CW_PROTOCOL_SUCCESS (unassigned_join_response 0),
     preferredAddress = no_address, incomingAddress = no_address\<rparr>"

definition sample_program :: wtp where
  "sample_program = \<lparr>search = (sample_search 1)\<lparr>gACInfoPtr := Some sample_known\<rparr>, core = sample_running, sino_left = 1\<rparr>"

definition no_socket :: wtp_inputs where
  "no_socket = (sample_inputs [])\<lparr>in_discovery := sample_wtp_env\<lparr>we_socket := False\<rparr>\<rparr>"

definition barred_program :: wtp where
  "barred_program = sample_program\<lparr>core := sample_running\<lparr>gSuccessfulHandshake := False\<rparr>\<rparr>"

lemma join_timer_bars_the_wtp_witness:
  "\<exists>w' out. state_machine no_socket (At CW_ENTER_DISCOVERY) barred_program = Some (At CW_QUIT, w', out) \<and>
    At CW_QUIT \<in> {At CW_ENTER_DISCOVERY, At CW_ENTER_SULKING, At CW_ENTER_JOIN, At CW_QUIT, Stopped}"
proof -
  let ?s = "sample_running\<lparr>timers := [5 \<mapsto> \<lparr>at_sec = 60, at_handler = WaitJoin\<rparr>]\<rparr>"
  have expires: "timer_expires sample_run_env 5 ?s = Some (core barred_program, [])"
    by (simp add: timer_expires_def rem_timer_def CWWTPWaitJoinExpired_def barred_program_def sample_running_def Let_def)
  obtain w' out where quit: "state_machine no_socket (At CW_ENTER_DISCOVERY) barred_program = Some (At CW_QUIT, w', out)"
    by (simp add: state_machine_def enter_discovery_def CWWTPEnterDiscovery_def no_socket_def Let_def)
  then have "goes_to (At CW_ENTER_DISCOVERY, barred_program) (At CW_QUIT, w')" by (rule goes_to.state [OF goes_to.start])
  then show ?thesis
    using join_timer_bars_the_wtp [of ?s 5 60 sample_run_env barred_program "[]" CW_ENTER_DISCOVERY "At CW_QUIT" w'] expires quit
    by simp
qed

subsection \<open>The AC that was found\<close>

definition known :: "wtp \<Rightarrow> bool" where "known w \<longleftrightarrow> gACInfoPtr (search w) \<noteq> None"

lemma known_simps [simp]:
  "known (w\<lparr>core := s\<rparr>) = known w" "known (w\<lparr>sino_left := k\<rparr>) = known w" "known (put_AC (Some ac) w)"
  by (simp_all add: known_def put_AC_def)

lemma exchange_join_known:
  "exchange_join inp i ac w = Some (t, w', out) \<Longrightarrow> known w \<Longrightarrow>
    t \<in> {Ends, Done CW_ENTER_DISCOVERY} \<or> t = Done CW_ENTER_CONFIGURE \<and> known w'"
  by (auto simp: exchange_join_def join_answered_def leave_join_def join_exchanged_def Let_def
      split: prod.split_asm bind_split_asm sum.split_asm if_split_asm dest!: checked_cases)

lemma join_known:
  "CWWTPEnterJoin inp w = Some (t, w', out) \<Longrightarrow>
    t \<in> {Ends, Done CW_ENTER_DISCOVERY, Done CW_ENTER_SULKING} \<or> t = Done CW_ENTER_CONFIGURE \<and> known w'"
  by (auto simp: CWWTPEnterJoin_def leave_join_def Let_def
      split: if_split_asm bind_split_asm prod.split_asm dest!: checked_cases exchange_join_known)

lemma acknowledged_save:
  assumes "acknowledge env limit ms parse save count es = Some (Inr x, out)"
  shows "\<exists>v. save v = Some (Inr x)"
  using assms
proof (induction es arbitrary: count x out)
  case (Cons e es)
  then show ?case
    by (cases e) (fastforce simp: Let_def give_up_def split: if_split_asm bind_split_asm sum.split_asm prod.split_asm)+
qed simp

lemma sent_save:
  assumes "CWWTPSendAcknowledgedPacket env limit request parse save es = Some (Inr x, out)"
  shows "\<exists>v. save v = Some (Inr x)"
  using assms acknowledged_save [of env limit _ parse save 0 es x]
  by (auto simp: CWWTPSendAcknowledgedPacket_def give_up_def
      split: bind_split_asm sum.split_asm if_split_asm prod.split_asm)

lemma save_configure_known: "save_configure inp w v = Some (Inr (k, x)) \<Longrightarrow> k \<noteq> None"
  by (auto simp: save_configure_def CWSaveConfigureResponseMessage_def Let_def
      split: bind_split_asm option.split_asm sum.split_asm prod.split_asm)

lemma configure_known:
  assumes "CWWTPEnterConfigure inp w = Some (Done q, w', out)"
  shows "known w' \<and> q \<in> {CW_QUIT, CW_ENTER_DATA_CHECK}"
proof -
  have "known w" using assms by (auto simp: CWWTPEnterConfigure_def known_def Let_def split: bind_split_asm prod.split_asm)
  then show ?thesis
    using assms
    by (auto simp: CWWTPEnterConfigure_def Let_def
        split: bind_split_asm prod.split_asm sum.split_asm dest!: checked_cases sent_save save_configure_known)
qed

lemma data_check_known:
  assumes "CWWTPEnterDataCheck inp w = Some (t, w', out)"
  shows "search w' = search w \<and> t \<in> {Ends, Done CW_ENTER_RESET, Done CW_ENTER_RUN}"
  using assms
  by (auto simp: CWWTPEnterDataCheck_def Let_def
      split: prod.split_asm bind_split_asm dest!: checked_cases)

text \<open>The phases with an AC.\<close>

definition settled :: "phase set" where
  "settled = {At CW_ENTER_JOIN, At CW_ENTER_CONFIGURE, At CW_ENTER_DATA_CHECK, At CW_ENTER_RUN, Running}"

lemma settled_step:
  assumes "state_machine inp p w = Some (p', w', out)" and "p \<in> settled \<longrightarrow> known w" and "p' \<in> settled"
  shows "known w'"
proof (cases p)
  case (At q)
  show ?thesis
  proof (cases q)
    case CW_ENTER_SULKING
    then show ?thesis
      using assms At
      by (auto simp: state_machine_def CWWTPEnterSulking_def entered_def Let_def settled_def split: bind_split_asm
          dest!: sulk_result)
  next
    case CW_ENTER_DISCOVERY
    then show ?thesis
      using assms At enter_discovery_result(1) [of inp w p' w' out] by (auto simp: state_machine_def settled_def known_def)
  next
    case CW_ENTER_JOIN
    then show ?thesis
      using assms At by (auto simp: state_machine_def entered_def settled_def split: bind_split_asm
          dest!: join_known)
  next
    case CW_ENTER_CONFIGURE
    then show ?thesis
      using assms At by (auto simp: state_machine_def entered_def settled_def split: bind_split_asm outcome.split_asm
          dest: configure_known)
  next
    case CW_ENTER_DATA_CHECK
    then show ?thesis
      using assms At by (auto simp: state_machine_def entered_def settled_def known_def split: bind_split_asm
          dest!: data_check_known)
  qed (use assms At in \<open>auto simp: state_machine_def run_result_def settled_def split: bind_split_asm\<close>)
qed (use assms in \<open>auto simp: state_machine_def run_result_def settled_def split: bind_split_asm\<close>)

text \<open>
  C30: A WTP that starts with its search knows the AC in every state that uses it; one that is told which AC to join does not. From
  the start in Discovery, whatever happens, \<open>gACInfoPtr\<close> points to an AC in Join, Configure, Data Check and Run; when the
  settings name an AC the program starts in Join, where it is dereferenced before it is allocated.
\<close>

theorem ac_is_known_where_it_is_used:
  assumes "gACInfoPtr (search start) = None" and "goes_to (first_phase False, start) (p, w)"
    and "p \<in> {At CW_ENTER_JOIN, At CW_ENTER_CONFIGURE, At CW_ENTER_DATA_CHECK, At CW_ENTER_RUN, Running}"
  shows "gACInfoPtr (search w) \<noteq> None \<and> state_machine inp (first_phase True) start = None"
proof -
  have "case (p, w) of (p, w) \<Rightarrow> p \<in> settled \<longrightarrow> known w"
    using assms(2)
  proof (induction rule: goes_to.induct)
    case start
    then show ?case by (simp add: first_phase_def settled_def)
  next
    case (state p w inp p' w' out)
    then show ?case using settled_step by fastforce
  qed auto
  then show ?thesis
    using assms(1,3) by (auto simp: settled_def known_def first_phase_def state_machine_def CWWTPEnterJoin_def entered_def)
qed

end
