(* ===== verification/WTP_Joins.thy ===== *)
theory WTP_Joins
  imports WTP_Machine
begin

text \<open>
  The way of a WTP from the Discovery state to the Run state against the answers of an AC, and where it goes wrong.
\<close>

subsection \<open>The answers of the AC\<close>

definition join_answer :: "bool \<Rightarrow> bool \<Rightarrow> AC_globals \<Rightarrow> u32 \<Rightarrow> u32 \<Rightarrow> u8 list" where
  "join_answer le locked ac code seq =
     control_message seq CW_MSG_TYPE_VALUE_JOIN_RESPONSE response_type (response_body le locked ac) (join_response ac code)"

definition configure_answer :: "bool \<Rightarrow> AC_globals \<Rightarrow> firmware \<Rightarrow> RadioQosValues \<times> u8 \<Rightarrow> u32 \<Rightarrow> u8 list" where
  "configure_answer le ac f q seq =
     control_message seq CW_MSG_TYPE_VALUE_CONFIGURE_RESPONSE reply_type (reply_body le ac) (configure_response ac f q)"

definition state_answer :: "u32 \<Rightarrow> u8 list" where
  "state_answer seq = message_bytes seq CW_MSG_TYPE_VALUE_CHANGE_STATE_EVENT_RESPONSE []"

lemma state_answer_parsed:
  "msg m = state_answer seq \<Longrightarrow> ucast (ucast seq :: u8) = seq \<Longrightarrow> CWParseChangeStateEventResponseMessage m seq = Some (Inr ())"
  using open_received [of m seq CW_MSG_TYPE_VALUE_CHANGE_STATE_EVENT_RESPONSE "\<lambda>_. 0" "\<lambda>_. []" "[] :: unit list"]
  by (simp add: state_answer_def control_message_def CWParseChangeStateEventResponseMessage_def stream_def)

subsection \<open>An exchange that is answered at once\<close>

lemma transmitted:
  "\<forall>m \<in> set ms. msg_fits m \<Longrightarrow> \<forall>p. send p = None \<Longrightarrow> transmit send ms = Some (Inr (), map To_ac (map contents ms))"
  by (induction ms) simp_all

lemma answered_at_once:
  assumes "wtp_ready env" and "0 < limit" and "\<forall>p \<in> set ps. msg_fits p" and "parse m = Some (Inr v)"
  shows "save v = Some (Inr x) \<Longrightarrow> CWWTPSendAcknowledgedPacket env limit (Some (Inr ps)) parse save (Message b m # es) =
      Some (Inr x, map To_ac (map contents ps))"
    and "save v = Some (Inl CW_ERROR_NONE) \<Longrightarrow>
      CWWTPSendAcknowledgedPacket env limit (Some (Inr ps)) parse save (Message b m # es) =
        Some (Inl (after_reading b CW_ERROR_NONE), map To_ac (map contents ps))"
  using assms transmitted [OF assms(3), of "wr_send env"]
  by (simp_all add: CWWTPSendAcknowledgedPacket_def wtp_ready_def)

lemma no_answer:
  assumes "wtp_ready env" and "\<forall>p \<in> set ps. msg_fits p"
  shows "\<forall>e \<in> set es. e = Time_over \<or> (\<exists>b m. e = Message b m \<and> parse m = Some (Inl CW_ERROR_INVALID_FORMAT)) \<Longrightarrow>
    limit = count + length es \<Longrightarrow> es \<noteq> [] \<Longrightarrow>
    acknowledge env limit ps parse save count es =
      Some (Inl CW_ERROR_NEED_RESOURCE, concat (replicate (length es - 1) (map To_ac (map contents ps))))"
proof (induction es arbitrary: count)
  case (Cons e es)
  have sent: "transmit (wr_send env) ps = Some (Inr (), map To_ac (map contents ps))"
    using transmitted [OF assms(2)] assms(1) by (simp add: wtp_ready_def)
  show ?case
  proof (cases es)
    case Nil
    then show ?thesis using Cons.prems by (auto simp: give_up_def)
  next
    case (Cons e' es')
    then have "acknowledge env limit ps parse save (Suc count) es =
        Some (Inl CW_ERROR_NEED_RESOURCE, concat (replicate (length es - 1) (map To_ac (map contents ps))))"
      using Cons.IH [of "Suc count"] Cons.prems by simp
    then show ?thesis using Cons.prems Cons sent by (auto simp del: acknowledge.simps(1))
  qed
qed simp

lemma never_answered:
  assumes "wtp_ready env" and "\<forall>p \<in> set ps. msg_fits p"
    and "\<forall>e \<in> set es. e = Time_over \<or> (\<exists>b m. e = Message b m \<and> parse m = Some (Inl CW_ERROR_INVALID_FORMAT))"
    and "limit = length es" and "es \<noteq> []"
  shows "CWWTPSendAcknowledgedPacket env limit (Some (Inr ps)) parse save es =
    Some (Inl CW_ERROR_NEED_RESOURCE, concat (replicate limit (map To_ac (map contents ps))))"
proof -
  obtain k where k: "limit = Suc k" "length es = Suc k" using assms(4,5) by (cases es) simp_all
  show ?thesis
    using no_answer [OF assms(1-3), of limit 0 save] assms(5) transmitted [OF assms(2), of "wr_send env"] assms(1)
    by (simp add: CWWTPSendAcknowledgedPacket_def k wtp_ready_def)
qed

lemma ends_a_wait: "CWErr env CW_ERROR_NEED_RESOURCE = Done False" "CWErr env CW_ERROR_SUCCESS = Done True"
  by (simp_all add: CWErr_def raised_def CWErrorHandleLast_def)

subsection \<open>The requests of the WTP\<close>

lemma join_request_sent:
  assumes "wtp_ok longsz junk g" and "fragID < 65536"
    and "length (stream join_type (join_body le longsz junk g) (join_request sessionID)) < 65528"
  shows "\<exists>ps. CWAssembleJoinRequest plenty le longsz junk g sessionID fragID PMTU seq crypt = Some (Inr ps) \<and>
    (\<forall>p \<in> set ps. msg_fits p) \<and>
    delivers (map contents ps) (control_message seq CW_MSG_TYPE_VALUE_JOIN_REQUEST join_type (join_body le longsz junk g)
      (join_request sessionID))"
proof -
  let ?q = "map (\<lambda>e. elem_msg (join_type e) (join_body le longsz junk g e)) (join_request sessionID)"
  have "\<forall>m \<in> set ?q. msg_fits m" by (auto simp: msg_fits_def)
  from message_delivered [OF this assms(2), of seq CW_MSG_TYPE_VALUE_JOIN_REQUEST PMTU crypt] assms(3)
  show ?thesis
    by (auto simp: assemble_join_request [OF assms(1)] control_message_def [symmetric] length_control_message)
qed

lemma configure_request_sent:
  assumes "wtp_fits g" and "fragID < 65536"
    and "length (stream configure_type configure_body (configure_request g)) < 65528"
  shows "\<exists>ps. CWAssembleConfigureRequest plenty g fragID PMTU seq crypt = Some (Inr ps) \<and> (\<forall>p \<in> set ps. msg_fits p) \<and>
    delivers (map contents ps)
      (control_message seq CW_MSG_TYPE_VALUE_CONFIGURE_REQUEST configure_type configure_body (configure_request g))"
proof -
  obtain es where es: "\<forall>m \<in> set es. msg_fits m"
      "CWAssembleConfigureRequest plenty g fragID PMTU seq crypt = CWAssembleMessage plenty fragID PMTU seq
         CW_MSG_TYPE_VALUE_CONFIGURE_REQUEST (Some es) (length es) (Some []) 0 crypt"
      "message_bytes seq CW_MSG_TYPE_VALUE_CONFIGURE_REQUEST es =
         control_message seq CW_MSG_TYPE_VALUE_CONFIGURE_REQUEST configure_type configure_body (configure_request g)"
    using assemble_configure_request [OF assms(1)] by blast
  show ?thesis
    using message_delivered [OF es(1) assms(2), of seq CW_MSG_TYPE_VALUE_CONFIGURE_REQUEST PMTU crypt] es(2,3) assms(3)
    by (auto simp: length_control_message)
qed

lemma state_request_sent:
  assumes "length (gRadiosInfo g) < 256" and "fragID < 65536"
  shows "\<exists>ps. CWAssembleChangeStateEventRequest plenty g fragID PMTU seq crypt = Some (Inr ps) \<and> (\<forall>p \<in> set ps. msg_fits p)"
proof -
  let ?t = "ucast CW_MSG_ELEMENT_RADIO_OPERAT_STATE_CW_TYPE :: u16"
  let ?f = "\<lambda>r. [ucast (oi_ID r), ucast (oi_state r), ucast (oi_cause r)] :: u8 list"
  let ?rs = "map radio_operational (gRadiosInfo g)"
  let ?b = "concat (map (\<lambda>x. elem_bytes ?t (?f x)) ?rs)"
  let ?es = "[wbuf (length ?b) ?b, elem_msg (ucast CW_MSG_ELEMENT_RESULT_CODE_CW_TYPE) (be32 CW_PROTOCOL_SUCCESS)]"
  have "\<forall>r \<in> set ?rs. assemble_operational_state plenty r = Some (Inr (elem_msg ?t (?f r)))"
    by (simp add: assemble_operational_state_def cw_wire)
  from assemble_array_all [of plenty, OF TrueI this]
  have states: "CWAssembleMsgElemRadioOperationalState plenty g (- 1) = Some (Inr (?es ! 0))"
    by (simp add: CWAssembleMsgElemRadioOperationalState_def CWGetWTPRadiosOperationalState_def Let_def)
  have "CWAssembleMsgElemResultCode plenty CW_PROTOCOL_SUCCESS = Some (Inr (?es ! 1))"
    using result_code.assemble_enc by simp
  with states have "CWAssembleChangeStateEventRequest plenty g fragID PMTU seq crypt =
      CWAssembleMessage plenty fragID PMTU seq CW_MSG_TYPE_VALUE_CHANGE_STATE_EVENT_REQUEST (Some ?es) 2 None 0 crypt"
    by (simp add: CWAssembleChangeStateEventRequest_def Let_def)
  moreover have "\<forall>m \<in> set ?es. msg_fits m" by (simp add: msg_fits_def)
  moreover have "length (message_bytes seq CW_MSG_TYPE_VALUE_CHANGE_STATE_EVENT_REQUEST ?es) \<le> 65536"
  proof -
    have "length ?b = 7 * length (gRadiosInfo g)" by (simp add: length_concat comp_def sum_list_triv)
    then show ?thesis using assms(1) by (simp add: message_bytes_def Let_def)
  qed
  ultimately show ?thesis
    using message_delivered [of ?es fragID seq CW_MSG_TYPE_VALUE_CHANGE_STATE_EVENT_REQUEST PMTU crypt] assms(2)
    by (auto simp: CWAssembleMessage_NULL numeral_2_eq_2)
qed

subsection \<open>Join\<close>

text \<open>Nothing outside fails, no address is forced, and the timer of the Join state does not expire.\<close>

definition undisturbed :: "wtp_inputs \<Rightarrow> bool" where
  "undisturbed inp \<longleftrightarrow> wtp_ready (in_run inp) \<and> 0 < max_retransmit (in_run inp) \<and> in_client inp = None \<and> in_thread inp = None \<and>
     \<not> in_forced inp \<and> \<not> in_join_expires inp"

definition connected :: "wtp_inputs \<Rightarrow> WTP_globals \<Rightarrow> WTP_globals" where
  "connected inp g = g\<lparr>sock_ipv4 := fst (in_address inp), sock_ipv6 := snd (in_address inp)\<rparr>"

text \<open>The state apart from the AC after a Join: the timer was armed and removed.\<close>

definition after_join :: "wtp_inputs \<Rightarrow> wtp_state \<Rightarrow> wtp_state" where
  "after_join inp s = s\<lparr>timers := (timers s)(wr_timer (in_run inp) (timers s) := None),
     wtp_globals := connected inp (wtp_globals s), seq_next := snd (CWGetSeqNum (seq_next s))\<rparr>"

definition join_message :: "wtp_inputs \<Rightarrow> wtp_state \<Rightarrow> u8 list" where
  "join_message inp s = control_message (seq_next s) CW_MSG_TYPE_VALUE_JOIN_REQUEST join_type
     (join_body (wr_le (in_run inp)) (we_longsz (in_discovery inp)) (we_junk (in_discovery inp))
        (connected inp (wtp_globals s))) (join_request (in_sessionID inp))"

definition can_join :: "wtp_inputs \<Rightarrow> wtp_state \<Rightarrow> bool" where
  "can_join inp s \<longleftrightarrow> undisturbed inp \<and> wtp_ok (we_longsz (in_discovery inp)) (we_junk (in_discovery inp)) (wtp_globals s) \<and>
     length (join_message inp s) < 65536 \<and> gSuccessfulHandshake s"

text \<open>The AC as the Join state starts with it.\<close>

abbreviation no_lists :: "known_AC \<Rightarrow> known_AC" where
  "no_lists ac \<equiv> ac\<lparr>ac_info := (ac_info ac)\<lparr>jp_ACIPv4List := [], jp_ACIPv6List := []\<rparr>\<rparr>"

lemma join_env_facts:
  "wtp_ready (in_run inp) \<Longrightarrow> wtp_ready (join_env inp)" "max_retransmit (join_env inp) = max_retransmit (in_run inp)"
  "wr_le (join_env inp) = wr_le (in_run inp)" "wr_alloc (join_env inp) = wr_alloc (in_run inp)"
  "wr_fragID (join_env inp) = wr_fragID (in_run inp)"
  by (simp_all add: join_env_def wtp_ready_def max_retransmit_def)

lemma join_starts:
  assumes "can_join inp (core w)" and "gACInfoPtr (search w) = Some ac"
  shows "CWWTPEnterJoin inp w = exchange_join inp (wr_timer (in_run inp) (timers (core w))) (no_lists ac)
    ((put_AC (Some (no_lists ac)) w)\<lparr>core := (core w)\<lparr>
       timers := (timers (core w))(wr_timer (in_run inp) (timers (core w)) \<mapsto> \<lparr>at_sec = in_wait_join inp, at_handler = WaitJoin\<rparr>),
       wtp_globals := connected inp (wtp_globals (core w))\<rparr>\<rparr>)"
  using assms
  by (simp add: CWWTPEnterJoin_def can_join_def undisturbed_def wtp_ready_def put_lists_def add_timer_def checked_def
      put_AC_def connected_def Let_def)

text \<open>What follows the exchange, whatever its result.\<close>

lemma join_ends:
  assumes "\<not> in_join_expires inp" and "gSuccessfulHandshake (core w)"
    and "CWErr env CW_ERROR_SUCCESS = Done True" and "CWErr env CW_ERROR_NEED_RESOURCE = Done False"
  shows "join_answered inp env i w (Inr ac, out) =
      Some (Done CW_ENTER_CONFIGURE, (put_AC (Some ac) w)\<lparr>core := rem_timer i (core w)\<rparr>, out)"
    and "join_answered inp env i w (Inl (after_reading b CW_ERROR_NONE), out) =
      Some (Done (if b then CW_ENTER_DISCOVERY else CW_ENTER_CONFIGURE), w\<lparr>core := rem_timer i (core w)\<rparr>, out)"
  using assms
  by (simp_all add: join_answered_def join_exchanged_def leave_join_def checked_def after_reading_def put_AC_def)

lemma join_answered_first:
  assumes "can_join inp (core w)" and "gACInfoPtr (search w) = Some ac" and "in_waits inp = Message b m # es"
    and parse: "CWParseJoinResponseMessage plenty (wr_le (in_run inp)) (in_values inp 0) m (offset m) (seq_next (core w)) = Some (Inr v)"
  shows "save_join (no_lists ac) v = Some (Inr ac') \<Longrightarrow>
      \<exists>ps. CWWTPEnterJoin inp w = Some (Done CW_ENTER_CONFIGURE, (put_AC (Some ac') w)\<lparr>core := after_join inp (core w)\<rparr>,
        map To_ac ps) \<and> delivers ps (join_message inp (core w))"
    and "save_join (no_lists ac) v = Some (Inl CW_ERROR_NONE) \<Longrightarrow>
      \<exists>ps. CWWTPEnterJoin inp w = Some (Done (if b then CW_ENTER_DISCOVERY else CW_ENTER_CONFIGURE),
        (put_AC (Some (no_lists ac)) w)\<lparr>core := after_join inp (core w)\<rparr>, map To_ac ps) \<and>
        delivers ps (join_message inp (core w))"
proof -
  let ?env = "join_env inp" and ?s = "core w" and ?d = "in_discovery inp" and ?i = "wr_timer (in_run inp) (timers (core w))"
  let ?g = "connected inp (wtp_globals ?s)" and ?n = "snd (CWGetSeqNum (seq_next (core w)))"
  let ?w = "(put_AC (Some (no_lists ac)) w)\<lparr>core := ?s\<lparr>timers := (timers ?s)(?i \<mapsto> \<lparr>at_sec = in_wait_join inp, at_handler = WaitJoin\<rparr>),
       wtp_globals := ?g, seq_next := ?n\<rparr>\<rparr>"
  have ok: "wtp_ready (in_run inp)" "0 < max_retransmit ?env" "\<not> in_join_expires inp" "gSuccessfulHandshake ?s"
    using assms(1) by (simp_all add: can_join_def undisturbed_def join_env_facts)
  then have alloc: "wr_alloc ?env = plenty" "wr_fragID ?env < 65536" by (simp_all add: wtp_ready_def join_env_facts)
  have g: "wtp_ok (we_longsz ?d) (we_junk ?d) ?g" using assms(1) by (simp add: can_join_def wtp_ok_def connected_def)
  have len: "length (stream join_type (join_body (wr_le ?env) (we_longsz ?d) (we_junk ?d) ?g) (join_request (in_sessionID inp))) < 65528"
    using assms(1) by (simp add: can_join_def join_message_def length_control_message join_env_facts)
  obtain ps where ps: "CWAssembleJoinRequest plenty (wr_le ?env) (we_longsz ?d) (we_junk ?d) ?g (in_sessionID inp)
        (wr_fragID ?env) (gWTPPathMTU ?env) (seq_next ?s) (wr_crypt ?env) = Some (Inr ps)"
      "\<forall>p \<in> set ps. msg_fits p" "delivers (map contents ps) (join_message inp ?s)"
    using join_request_sent [OF g alloc(2) len] unfolding join_message_def by (metis join_env_facts(3))
  let ?parse = "\<lambda>(k, m). CWParseJoinResponseMessage plenty (wr_le ?env) (in_values inp k) m (offset m) (seq_next ?s)"
  let ?sent = "CWWTPSendAcknowledgedPacket ?env (max_retransmit ?env) (Some (Inr ps)) ?parse (save_join (no_lists ac))
    (Message b (0, m) # counted (\<lambda>k _. Suc k) (Suc 0) es)"
  have step: "CWWTPEnterJoin inp w = do { x \<leftarrow> ?sent; join_answered inp ?env ?i ?w x }"
    using ps(1) assms(3) alloc
    by (simp add: join_starts [OF assms(1,2)] exchange_join_def CWGetSeqNum_def Let_def connected_def split del: if_split)
  have after: "(put_AC ac' ?w)\<lparr>core := rem_timer ?i (core ?w)\<rparr> = (put_AC ac' w)\<lparr>core := after_join inp ?s\<rparr>" for ac'
    by (simp add: put_AC_def rem_timer_def after_join_def)
  have p: "?parse (0, m) = Some (Inr v)" using parse by (simp add: join_env_facts)
  note once = answered_at_once [where parse = ?parse, OF join_env_facts(1) [OF ok(1)] ok(2) ps(2) p]
  note ends = join_ends [OF ok(3), of ?w ?env, OF _ ends_a_wait(2,1)]
  show "\<exists>ps. CWWTPEnterJoin inp w = Some (Done CW_ENTER_CONFIGURE, (put_AC (Some ac') w)\<lparr>core := after_join inp (core w)\<rparr>,
        map To_ac ps) \<and> delivers ps (join_message inp (core w))"
    if "save_join (no_lists ac) v = Some (Inr ac')"
    using once(1) [where save = "save_join (no_lists ac)", OF that] ends(1) ok(4) after ps(3)
    by (intro exI [of _ "map contents ps"]) (simp add: step)
  have "(put_AC (Some (no_lists ac)) ?w) = ?w" by (simp add: put_AC_def)
  then show "\<exists>ps. CWWTPEnterJoin inp w = Some (Done (if b then CW_ENTER_DISCOVERY else CW_ENTER_CONFIGURE),
        (put_AC (Some (no_lists ac)) w)\<lparr>core := after_join inp (core w)\<rparr>, map To_ac ps) \<and>
        delivers ps (join_message inp (core w))"
    if "save_join (no_lists ac) v = Some (Inl CW_ERROR_NONE)"
    using once(2) [where save = "save_join (no_lists ac)", OF that] ends(2) [where b = b] ok(4) after [of "Some (no_lists ac)"] ps(3)
    by (intro exI [of _ "map contents ps"]) (simp add: step)
qed

lemma small_number: "n < 256 \<Longrightarrow> ucast (ucast (n :: u32) :: u8) = n"
  by simp

text \<open>The response of an AC, whatever its code.\<close>

lemma join_response_arrives:
  assumes "ac_ok g" and "length (join_answer le locked g code n) < 65536" and "n < 256"
    and "msg m = join_answer le locked g code n" and "offset m = length (msg m)"
  shows "CWParseJoinResponseMessage plenty le junk m (offset m) n = Some (Inr (response_values le locked g code junk))"
  using parse_join_response [of g le locked code m n junk] assms small_number [OF assms(3)]
  by (simp add: join_answer_def length_control_message)

text \<open>
  C28: A Join that the AC refuses is taken for a success. When the answer comes in one packet and has a code that is not a success,
  \<open>CWSaveJoinResponseMessage\<close> fails without raising an error, the last error is the success that was raised before the message
  was read, and the WTP goes on to the Configure state with nothing of the answer kept. Only a refusal that comes in
  fragments sends it back to Discovery.
\<close>

theorem refused_join_is_taken_for_success:
  assumes "can_join inp (core w)" and "gACInfoPtr (search w) = Some ac" and "in_waits inp = Message b m # es"
    and "ac_ok g" and "length (join_answer (wr_le (in_run inp)) locked g code (seq_next (core w))) < 65536"
    and "seq_next (core w) < 256" and "msg m = join_answer (wr_le (in_run inp)) locked g code (seq_next (core w))"
    and "offset m = length (msg m)" and "code \<noteq> CW_PROTOCOL_SUCCESS" and "code \<noteq> CW_PROTOCOL_SUCCESS_NAT"
  shows "\<exists>ps. CWWTPEnterJoin inp w = Some (Done (if b then CW_ENTER_DISCOVERY else CW_ENTER_CONFIGURE),
      (put_AC (Some (no_lists ac)) w)\<lparr>core := after_join inp (core w)\<rparr>, map To_ac ps) \<and> delivers ps (join_message inp (core w))"
proof -
  have "save_join (no_lists ac) (response_values (wr_le (in_run inp)) locked g code (in_values inp 0)) = Some (Inl CW_ERROR_NONE)"
    using assms(9,10) by (simp add: save_join_def CWSaveJoinResponseMessage_def response_values_def)
  then show ?thesis by (rule join_answered_first(2) [OF assms(1-3) join_response_arrives [OF assms(4-8)]])
qed

lemma sample_can_join: "can_join (sample_inputs es) sample_running"
proof -
  have "length (join_message (sample_inputs es) sample_running) < 65536"
    using infos_lengths [of 4 "[]" True]
    by (simp add: join_message_def sample_inputs_def sample_run_env_def sample_wtp_env_def sample_running_def length_control_message
        connected_def join_request_def sample_wtp_def longsz_ok_def wtp_descriptor_of_def Let_def)
  then show ?thesis
    using sample_running_facts(1) sample_wtp_ready(1)
    by (simp add: can_join_def undisturbed_def sample_inputs_def sample_wtp_env_def sample_running_def max_retransmit_def
        sample_run_env_def)
qed

lemma sample_join_answer:
  "ac_ok sample_ac" "length (join_answer True True sample_ac code n) < 65536"
proof -
  show "ac_ok sample_ac" by (simp add: ac_ok_def ac_fits_def sample_ac_def)
  have "length (stream response_type (response_body True True sample_ac) (join_response sample_ac code)) < 65528"
    using ac_infos_facts(4) [of True True sample_ac]
    by (simp add: join_response_def ac_descriptor_of_def Let_def if4_bytes_def)
      (simp add: sample_ac_def if4_bytes_def)
  then show "length (join_answer True True sample_ac code n) < 65536" by (simp add: join_answer_def length_control_message)
qed

lemma sample_facts:
  "wr_le sample_run_env" "in_waits (sample_inputs es) = es" "seq_next sample_running = 5"
  "gACInfoPtr (search sample_program) = Some sample_known" "core sample_program = sample_running"
  "in_run (sample_inputs es) = sample_run_env"
  by (simp_all add: sample_inputs_def sample_run_env_def sample_program_def sample_running_def)

lemma refused_join_is_taken_for_success_witness:
  "\<exists>w' out. CWWTPEnterJoin (sample_inputs [Message False (received (join_answer True True sample_ac CW_PROTOCOL_FAILURE 5))])
      sample_program = Some (Done CW_ENTER_CONFIGURE, w', out)"
proof -
  have codes: "CW_PROTOCOL_FAILURE \<noteq> CW_PROTOCOL_SUCCESS" "CW_PROTOCOL_FAILURE \<noteq> CW_PROTOCOL_SUCCESS_NAT"
    by (simp_all add: CW_PROTOCOL_FAILURE_def CW_PROTOCOL_SUCCESS_def CW_PROTOCOL_SUCCESS_NAT_def)
  show ?thesis
    using refused_join_is_taken_for_success [where inp = "sample_inputs [Message False (received
        (join_answer True True sample_ac CW_PROTOCOL_FAILURE 5))]" and w = sample_program and g = sample_ac and locked = True
        and code = CW_PROTOCOL_FAILURE and b = False, OF _ sample_facts(4)] sample_can_join sample_join_answer codes sample_facts
    by (fastforce simp: received_def)
qed

subsection \<open>Configure, Data Check and Run\<close>

definition configure_message :: "wtp_state \<Rightarrow> u8 list \<Rightarrow> u8 list" where
  "configure_message s name = control_message (seq_next s) CW_MSG_TYPE_VALUE_CONFIGURE_REQUEST configure_type configure_body
     (configure_request ((wtp_globals s)\<lparr>gACInfo_name := name\<rparr>))"

text \<open>A WTP that can send its Configure Request to the AC it knows.\<close>

definition can_configure :: "wtp_inputs \<Rightarrow> wtp \<Rightarrow> known_AC \<Rightarrow> u8 list \<Rightarrow> bool" where
  "can_configure inp w ac name \<longleftrightarrow> wtp_ready (in_run inp) \<and> 0 < max_retransmit (in_run inp) \<and>
     gACInfoPtr (search w) = Some ac \<and> jp_name (ac_info ac) = Some (Some name) \<and>
     wtp_fits ((wtp_globals (core w))\<lparr>gACInfo_name := name\<rparr>) \<and> length (configure_message (core w) name) < 65536"

abbreviation named :: "wtp \<Rightarrow> u8 list \<Rightarrow> wtp" where
  "named w name \<equiv> w\<lparr>core := (core w)\<lparr>seq_next := snd (CWGetSeqNum (seq_next (core w))),
     wtp_globals := (wtp_globals (core w))\<lparr>gACInfo_name := name\<rparr>\<rparr>\<rparr>"

text \<open>The exchange once its packets \<open>ps\<close> are made.\<close>

abbreviation configuring :: "wtp_inputs \<Rightarrow> wtp \<Rightarrow> u8 list \<Rightarrow> cw_msg list \<Rightarrow> state_step" where
  "configuring inp w name ps \<equiv> do {
      (r, out) \<leftarrow> CWWTPSendAcknowledgedPacket (in_run inp) (max_retransmit (in_run inp)) (Some (Inr ps))
        (\<lambda>(k, m). CWParseConfigureResponseMessage plenty (in_sino inp) k (in_configure_values inp) m (offset m) (seq_next (core w)))
        (save_configure inp (named w name))
        (counted (sino_count_after plenty (in_sino inp) (in_configure_values inp) (seq_next (core w))) (sino_left w) (in_waits inp));
      (case r of
         Inl e \<Rightarrow> checked (in_run inp) (Some e) (named w name) out (Some (Done CW_QUIT, named w name, out))
           (Some (Done CW_ENTER_DATA_CHECK, named w name, out))
       | Inr (found, rs, echo, k) \<Rightarrow>
           Some (Done CW_ENTER_DATA_CHECK,
             (put_AC found (named w name))\<lparr>core := (core (named w name))\<lparr>radios := rs, gEchoInterval := echo\<rparr>, sino_left := k\<rparr>, out))
    }"

lemma configure_starts:
  assumes "can_configure inp w ac name"
  shows "\<exists>ps. (\<forall>p \<in> set ps. msg_fits p) \<and> delivers (map contents ps) (configure_message (core w) name) \<and>
    CWWTPEnterConfigure inp w = configuring inp w name ps"
proof -
  let ?g = "(wtp_globals (core w))\<lparr>gACInfo_name := name\<rparr>" and ?env = "in_run inp"
  have env: "wr_alloc ?env = plenty" "wr_fragID ?env < 65536" using assms by (simp_all add: can_configure_def wtp_ready_def)
  have len: "length (stream configure_type configure_body (configure_request ?g)) < 65528"
    using assms by (simp add: can_configure_def configure_message_def length_control_message)
  have fits: "wtp_fits ?g" using assms by (simp add: can_configure_def)
  obtain ps where ps: "CWAssembleConfigureRequest plenty ?g (wr_fragID ?env) (gWTPPathMTU ?env) (seq_next (core w)) (wr_crypt ?env) =
        Some (Inr ps)" "\<forall>p \<in> set ps. msg_fits p" "delivers (map contents ps) (configure_message (core w) name)"
    using configure_request_sent [OF fits env(2) len] unfolding configure_message_def by blast
  then show ?thesis
    using assms env(1)
    by (intro exI [of _ ps])
      (auto simp: CWWTPEnterConfigure_def can_configure_def CWGetSeqNum_def Let_def split: sum.split intro!: Option.bind_cong)
qed

lemma configure_response_arrives:
  assumes "Configure.timers_ok g" and "firmware_ok f" and "radio_fits q" and "1 \<le> k" and "length (configure_answer le g f q n) < 65536"
    and "n < 256" and "msg m = configure_answer le g f q n" and "offset m = length (msg m)"
  shows "CWParseConfigureResponseMessage plenty se k junk m (offset m) n = Some (Inr (response_read le g se f (fst q) k))"
  using parse_configure_response [OF assms(1-4), of le m n se junk] assms(5-8) small_number [OF assms(6)]
  by (simp add: configure_answer_def length_control_message)

lemma configure_saved:
  assumes "gACInfoPtr (search w) = Some ac" and "Configure.timers_ok g"
    and "CWBindingSaveConfigureResponse (wr_driver (in_run inp)) [q] (radios (core w)) = Some (Inr code, rs)"
  shows "save_configure inp w (response_read le g se f q k) =
    Some (Inr (Some (ac\<lparr>ac_info := (ac_info ac)\<lparr>jp_ACIPv4List := ac_ipv4 le, jp_ACIPv6List := ac_ipv6\<rparr>\<rparr>), rs,
      if gEchoRequestTimer g = 0 then gEchoInterval (core w) else gEchoRequestTimer g, k - 1))"
proof -
  have "ac_ipv4 le \<noteq> []" "ac_ipv6 \<noteq> []"
    by (simp_all add: ac_ipv4_def ac_ipv6_def CWACGetACIPv4List_def CWACGetACIPv6List_def)
  then show ?thesis
    using assms echo_interval [of g]
    by (simp add: save_configure_def CWSaveConfigureResponseMessage_def response_read_def Configure.timers_ok_def put_lists_def info_of_def)
qed

lemma configure_accepted:
  assumes can: "can_configure inp w ac name" and "in_waits inp = Message b m # es"
    and "Configure.timers_ok g" and "firmware_ok f" and "radio_fits q" and "1 \<le> sino_left w"
    and "length (configure_answer le g f q (seq_next (core w))) < 65536" and "seq_next (core w) < 256"
    and "msg m = configure_answer le g f q (seq_next (core w))" and "offset m = length (msg m)"
    and "CWBindingSaveConfigureResponse (wr_driver (in_run inp)) [fst q] (radios (core w)) = Some (Inr code, rs)"
  shows "\<exists>ps. delivers ps (configure_message (core w) name) \<and>
    CWWTPEnterConfigure inp w = Some (Done CW_ENTER_DATA_CHECK,
      (put_AC (Some (ac\<lparr>ac_info := (ac_info ac)\<lparr>jp_ACIPv4List := ac_ipv4 le, jp_ACIPv6List := ac_ipv6\<rparr>\<rparr>)) (named w name))\<lparr>
        core := (core (named w name))\<lparr>radios := rs,
          gEchoInterval := if gEchoRequestTimer g = 0 then gEchoInterval (core w) else gEchoRequestTimer g\<rparr>,
        sino_left := sino_left w - 1\<rparr>, map To_ac ps)"
proof -
  obtain ps where ps: "\<forall>p \<in> set ps. msg_fits p" "delivers (map contents ps) (configure_message (core w) name)"
    "CWWTPEnterConfigure inp w = configuring inp w name ps" using configure_starts [OF can] by blast
  have env: "wtp_ready (in_run inp)" "0 < max_retransmit (in_run inp)" "gACInfoPtr (search (named w name)) = Some ac"
    using can by (simp_all add: can_configure_def)
  let ?parse = "\<lambda>(k, m). CWParseConfigureResponseMessage plenty (in_sino inp) k (in_configure_values inp) m (offset m) (seq_next (core w))"
  have parse: "?parse (sino_left w, m) = Some (Inr (response_read le g (in_sino inp) f (fst q) (sino_left w)))"
    using configure_response_arrives [OF assms(3-10)] by simp
  have drv: "CWBindingSaveConfigureResponse (wr_driver (in_run inp)) [fst q] (radios (core (named w name))) = Some (Inr code, rs)"
    using assms(11) by simp
  show ?thesis
    using answered_at_once(1) [where parse = ?parse and save = "save_configure inp (named w name)", OF env(1,2) ps(1) parse
        configure_saved [OF env(3) assms(3) drv]] ps(2)
    by (intro exI [of _ "map contents ps"]) (simp add: ps(3) assms(2))
qed

definition sends_requests :: "wtp_inputs \<Rightarrow> wtp_state \<Rightarrow> bool" where
  "sends_requests inp s \<longleftrightarrow> wtp_ready (in_run inp) \<and> 0 < max_retransmit (in_run inp) \<and> length (gRadiosInfo (wtp_globals s)) < 256 \<and>
     seq_next s < 256"

text \<open>Data Check starts the heartbeat, and stops it when its request was answered.\<close>

abbreviation beating :: "wtp_inputs \<Rightarrow> wtp_state \<Rightarrow> wtp_state" where
  "beating inp s \<equiv> s\<lparr>seq_next := snd (CWGetSeqNum (seq_next s)),
     timers := (timers s)(wr_timer (in_run inp) (timers s) \<mapsto> \<lparr>at_sec = gEchoInterval s, at_handler = HeartBeat\<rparr>),
     gCWHeartBeatTimerID := wr_timer (in_run inp) (timers s)\<rparr>"

lemma checked_None [simp]: "checked env None w out failed succeeded = succeeded"
  by (simp add: checked_def)

lemma data_check_starts:
  assumes "sends_requests inp (core w)"
  shows "\<exists>ps. (\<forall>p \<in> set ps. msg_fits p) \<and>
    CWWTPEnterDataCheck inp w = do {
      (r, out) \<leftarrow> CWWTPSendAcknowledgedPacket (in_run inp) (max_retransmit (in_run inp)) (Some (Inr ps))
        (\<lambda>m. CWParseChangeStateEventResponseMessage m (seq_next (core w))) (\<lambda>v. Some (Inr v)) (in_waits inp);
      checked (in_run inp) (case r of Inl e \<Rightarrow> Some e | Inr _ \<Rightarrow> None) (w\<lparr>core := beating inp (core w)\<rparr>) out
        (Some (Done CW_ENTER_RESET, w\<lparr>core := beating inp (core w)\<rparr>, out))
        (Some (Done CW_ENTER_RUN, w\<lparr>core := CWStopHeartbeatTimer (beating inp (core w))\<rparr>, out))
    }"
proof -
  let ?env = "in_run inp" and ?g = "wtp_globals (core w)"
  have env: "wr_alloc ?env = plenty" "wr_fragID ?env < 65536" "wr_timer ?env t \<noteq> - 1" "length (gRadiosInfo ?g) < 256" for t
    using assms by (simp_all add: sends_requests_def wtp_ready_def)
  obtain ps where "CWAssembleChangeStateEventRequest plenty ?g (wr_fragID ?env) (gWTPPathMTU ?env) (seq_next (core w))
      (wr_crypt ?env) = Some (Inr ps)" "\<forall>p \<in> set ps. msg_fits p"
    using state_request_sent [OF env(4,2)] by blast
  moreover have started: "CWStartHeartbeatTimer ?env ((core w)\<lparr>seq_next := n\<rparr>) = (True, (core w)\<lparr>seq_next := n,
     timers := (timers (core w))(wr_timer ?env (timers (core w)) \<mapsto> \<lparr>at_sec = gEchoInterval (core w), at_handler = HeartBeat\<rparr>),
     gCWHeartBeatTimerID := wr_timer ?env (timers (core w))\<rparr>)" for n
    using env by (simp add: CWStartHeartbeatTimer_def add_timer_def Let_def)
  ultimately show ?thesis
    using env started
    by (intro exI [of _ ps]) (auto simp: CWWTPEnterDataCheck_def CWGetSeqNum_def Let_def intro!: Option.bind_cong)
qed

lemma data_check_accepted:
  assumes "sends_requests inp (core w)" and "in_waits inp = Message b m # es" and "msg m = state_answer (seq_next (core w))"
  shows "\<exists>out. CWWTPEnterDataCheck inp w =
    Some (Done CW_ENTER_RUN, w\<lparr>core := CWStopHeartbeatTimer (beating inp (core w))\<rparr>, out)"
proof -
  have env: "wtp_ready (in_run inp)" "0 < max_retransmit (in_run inp)" using assms(1) by (simp_all add: sends_requests_def)
  have parse: "CWParseChangeStateEventResponseMessage m (seq_next (core w)) = Some (Inr ())"
    using state_answer_parsed [OF assms(3)] assms(1) by (simp add: sends_requests_def)
  obtain ps where ps: "\<forall>p \<in> set ps. msg_fits p" "CWWTPEnterDataCheck inp w = do {
      (r, out) \<leftarrow> CWWTPSendAcknowledgedPacket (in_run inp) (max_retransmit (in_run inp)) (Some (Inr ps))
        (\<lambda>m. CWParseChangeStateEventResponseMessage m (seq_next (core w))) (\<lambda>v. Some (Inr v)) (in_waits inp);
      checked (in_run inp) (case r of Inl e \<Rightarrow> Some e | Inr _ \<Rightarrow> None) (w\<lparr>core := beating inp (core w)\<rparr>) out
        (Some (Done CW_ENTER_RESET, w\<lparr>core := beating inp (core w)\<rparr>, out))
        (Some (Done CW_ENTER_RUN, w\<lparr>core := CWStopHeartbeatTimer (beating inp (core w))\<rparr>, out))
    }" using data_check_starts [OF assms(1)] by blast
  show ?thesis
    using answered_at_once(1) [where parse = "\<lambda>m. CWParseChangeStateEventResponseMessage m (seq_next (core w))"
        and save = "\<lambda>v. Some (Inr v)", OF env ps(1) parse refl]
    by (simp add: ps(2) assms(2) checked_def)
qed

text \<open>Boxes without a cell and without packets, as the boxes of a program that has just started are.\<close>

definition boxes_clean :: "wtp_state \<Rightarrow> bool" where
  "boxes_clean s \<longleftrightarrow> length (pending s) = MAX_PENDING_REQUEST_MSGS \<and>
     (\<forall>b \<in> set (pending s). pr_timer_arg b = None \<and> pr_fragmentsNum b = 0)"

lemma reset_clean_boxes:
  "n + k \<le> length (pending s) \<Longrightarrow> \<forall>b \<in> set (pending s). pr_timer_arg b = None \<and> pr_fragmentsNum b = 0 \<Longrightarrow>
    \<exists>s'. reset_boxes n k s = Some s' \<and> gEchoInterval s' = gEchoInterval s"
proof (induction n arbitrary: k s)
  case (Suc n)
  let ?b = "(pending s ! k)\<lparr>pr_msgType := UNUSED_MSG_TYPE, pr_seqNum := 0, pr_retransmission := 0, pr_timer_sec := 0,
    pr_timer_arg := None, pr_msgElems := None, pr_fragmentsNum := 0\<rparr>"
  let ?s = "set_box k ?b (rem_timer (pr_timer (pending s ! k)) s)"
  have "CWResetPendingMsgBox k s = Some ?s"
    using Suc.prems by (simp add: CWResetPendingMsgBox_def free_cell_def array_prefix_def set_box_def rem_timer_def Let_def)
  moreover have "\<forall>b \<in> set (pending ?s). pr_timer_arg b = None \<and> pr_fragmentsNum b = 0"
    using Suc.prems(2) by (auto simp: set_box_def rem_timer_def dest!: set_update_subset_insert [THEN subsetD])
  ultimately show ?case
    using Suc.IH [of "Suc k" ?s] Suc.prems(1) by (simp add: set_box_def rem_timer_def)
qed simp

lemma run_begins:
  assumes "boxes_clean s" and "wtp_ready env"
  shows "\<exists>s'. CWWTPEnterRun_begin env s = Some (Done Stays, s', []) \<and>
    timers s' (gCWHeartBeatTimerID s') = Some \<lparr>at_sec = gEchoInterval s, at_handler = HeartBeat\<rparr>"
proof -
  obtain s' where "reset_boxes MAX_PENDING_REQUEST_MSGS 0 s = Some s'" "gEchoInterval s' = gEchoInterval s"
    using reset_clean_boxes [of MAX_PENDING_REQUEST_MSGS 0 s] assms(1) by (auto simp: boxes_clean_def)
  then show ?thesis
    using assms(2) by (simp add: CWWTPEnterRun_begin_def CWStartHeartbeatTimer_def add_timer_def wtp_ready_def Let_def)
qed

subsection \<open>From the search to the Run state\<close>

lemma discovery_finds:
  assumes "ready env g" and "gCWACList s = [a]" and n: "CWGetSeqNum (next_seqNum s) = (n, n')"
    and arrived: "arrivals 1 = [Datagram buf len sender]"
    and first: "CWParseDiscoveryResponseMessage plenty (we_le env) (ac_info (we_blank env)) buf len = Some (Inr (n, v))"
  shows "\<exists>s' out ac. CWWTPEnterDiscovery env g arrivals s = Some (Enter CW_ENTER_JOIN, s', out) \<and>
    gACInfoPtr s' = Some ac \<and> ac_info ac = v \<and> next_seqNum s' = n' \<and> length out = 1"
proof -
  have alloc: "we_alloc env = plenty" "we_socket env" using assms(1) by (simp_all add: ready_def)
  obtain p where sent: "send_requests env g [a\<lparr>ad_received := False\<rparr>] (next_seqNum s) =
      Some (Inr ([a\<lparr>ad_received := False, ad_seqNum := n\<rparr>], n', [p]))"
    using first_request [OF assms(1-3)] assms(2) by auto
  let ?ac = "(we_blank env)\<lparr>ac_info := v, incomingAddress := sock_cpy_addr_port (incomingAddress (we_blank env)) sender\<rparr>"
  let ?s = "s\<lparr>gCWDiscoveryCount := 0, gCWACList := [a\<lparr>ad_received := False\<rparr>]\<rparr>"
  let ?s' = "s\<lparr>gCWDiscoveryCount := 1, gCWACList := [a\<lparr>ad_received := True, ad_seqNum := n\<rparr>], next_seqNum := n',
    gACInfoPtr := Some ?ac\<rparr>"
  have read: "CWReadResponses env (arrivals (gCWDiscoveryCount ?s + 1)) (?s\<lparr>
      gCWACList := [a\<lparr>ad_received := False, ad_seqNum := n\<rparr>], next_seqNum := n', gACInfoPtr := None,
      gCWDiscoveryCount := gCWDiscoveryCount ?s + 1\<rparr>) = Some (True, ?s')"
    using arrived by (simp add: alloc first CWReadResponses_def CWReceiveDiscoveryResponse_def CWWTPEvaluateAC_def Let_def)
  have "discovery_loop env g arrivals ?s = Some (Enter CW_ENTER_JOIN, ?s', [p])"
    using discovery_round [where s = ?s and env = env and arrivals = arrivals and out = "[p]" and g = g, OF _ _ _ read] sent
    by (simp add: gCWMaxDiscoveries_def)
  then show ?thesis
    by (simp add: CWWTPEnterDiscovery_def assms(2) alloc CWWTPPickACInterface_def Let_def)
qed

lemma next_number: "n < 256 \<Longrightarrow> snd (CWGetSeqNum n) < 256"
proof -
  assume n: "n < 256"
  show ?thesis
  proof (cases "n = CW_MAX_SEQ_NUM")
    case False
    then have "n < 255" using n by (simp add: CW_MAX_SEQ_NUM_def word_less_nat_alt unat_arith_simps)
    then have "n + 1 < 256" by (simp add: word_less_nat_alt unat_arith_simps)
    then show ?thesis using False by (simp add: CWGetSeqNum_def)
  qed (simp add: CWGetSeqNum_def)
qed

text \<open>What a WTP needs to get to the Run state: one AC in its list, a state as the program starts with, room for its messages.\<close>

definition fresh :: "wtp_inputs \<Rightarrow> wtp \<Rightarrow> bool" where
  "fresh inp w \<longleftrightarrow> ready (in_discovery inp) (wtp_globals (core w)) \<and> (\<exists>a. gCWACList (search w) = [a]) \<and>
     can_join inp (core w) \<and> boxes_clean (core w) \<and> 1 \<le> sino_left w \<and> seq_next (core w) < 256"

text \<open>What is answered to the request of a state.\<close>

definition answer :: "bool \<Rightarrow> u8 list \<Rightarrow> wtp_inputs \<Rightarrow> wtp_inputs" where
  "answer in_fragments B inp = inp\<lparr>in_waits := [Message in_fragments (received B)]\<rparr>"

lemma answer_simps [simp]:
  "in_run (answer b B inp) = in_run inp" "in_discovery (answer b B inp) = in_discovery inp"
  "in_waits (answer b B inp) = [Message b (received B)]" "in_values (answer b B inp) = in_values inp"
  "can_join (answer b B inp) = can_join inp" "join_message (answer b B inp) = join_message inp"
  "after_join (answer b B inp) = after_join inp" "sends_requests (answer b B inp) = sends_requests inp"
  "can_configure (answer b B inp) = can_configure inp"
  by (simp_all add: answer_def fun_eq_iff can_join_def undisturbed_def join_message_def after_join_def connected_def
      sends_requests_def can_configure_def)

lemma join_accepted:
  assumes "can_join inp (core w)" and "gACInfoPtr (search w) = Some ac" and "jp_descriptor (ac_info ac) = Some d"
    and "ac_ok g" and "length (join_answer (wr_le (in_run inp)) locked g CW_PROTOCOL_SUCCESS (seq_next (core w))) < 65536"
    and "seq_next (core w) < 256"
  shows "\<exists>ps ac'. CWWTPEnterJoin (answer b (join_answer (wr_le (in_run inp)) locked g CW_PROTOCOL_SUCCESS (seq_next (core w))) inp) w =
      Some (Done CW_ENTER_CONFIGURE, (put_AC (Some ac') w)\<lparr>core := after_join inp (core w)\<rparr>, map To_ac ps) \<and>
    delivers ps (join_message inp (core w)) \<and> jp_name (ac_info ac') = jp_name (ac_info ac) \<and>
    jp_descriptor (ac_info ac') = Some ((ac_descriptor_of (wr_le (in_run inp)) locked g)\<lparr>ad_DTLSPolicy := ad_DTLSPolicy d\<rparr>)"
proof -
  let ?le = "wr_le (in_run inp)" and ?n = "seq_next (core w)"
  let ?a = "join_answer ?le locked g CW_PROTOCOL_SUCCESS ?n"
  let ?v = "response_values ?le locked g CW_PROTOCOL_SUCCESS (in_values inp 0)"
  let ?ac = "put_info \<lparr>aci_descriptor = (ac_descriptor_of ?le locked g)\<lparr>ad_DTLSPolicy := ad_DTLSPolicy d\<rparr>, aci_ACIPv4List = [],
    aci_ACIPv6List = []\<rparr> (no_lists ac)"
  have parse: "CWParseJoinResponseMessage plenty (wr_le (in_run (answer b ?a inp))) (in_values (answer b ?a inp) 0) (received ?a)
      (offset (received ?a)) ?n = Some (Inr ?v)"
    using join_response_arrives [OF assms(4,5,6)] by (simp add: received_def)
  have save: "save_join (no_lists ac) ?v = Some (Inr ?ac)"
    using assms(3) by (simp add: save_join_def CWSaveJoinResponseMessage_def response_values_def info_of_def)
  have "can_join (answer b ?a inp) (core w)" "in_waits (answer b ?a inp) = Message b (received ?a) # []"
    using assms(1) by simp_all
  from join_answered_first(1) [OF this(1) assms(2) this(2) parse save]
  obtain ps where "CWWTPEnterJoin (answer b ?a inp) w =
      Some (Done CW_ENTER_CONFIGURE, (put_AC (Some ?ac) w)\<lparr>core := after_join inp (core w)\<rparr>, map To_ac ps)"
      "delivers ps (join_message inp (core w))" by auto
  then show ?thesis by (intro exI [of _ ps] exI [of _ ?ac]) (simp add: put_info_def put_lists_def)
qed

lemma found_and_joined:
  fixes w inp
  defines "le \<equiv> wr_le (in_run inp)" and "n0 \<equiv> seq_next (core w)"
  defines "n1 \<equiv> snd (CWGetSeqNum n0)"
  assumes fresh: "fresh inp w" and le: "we_le (in_discovery inp) = le" and ac: "discovery_fits le locked g"
    and arrives: "in_arrivals inp 1 = [Datagram (response_datagram le locked g n0) (length (response_datagram le locked g n0)) sender]"
    and len: "length (join_answer le locked g CW_PROTOCOL_SUCCESS n1) < 65536"
  shows "\<exists>w1 w2 o1 o2 ac. state_machine inp (At CW_ENTER_DISCOVERY) w = Some (At CW_ENTER_JOIN, w1, o1) \<and>
    state_machine (answer b (join_answer le locked g CW_PROTOCOL_SUCCESS n1) inp) (At CW_ENTER_JOIN) w1 =
      Some (At CW_ENTER_CONFIGURE, w2, map To_ac o2) \<and> delivers o2 (join_message inp (core w1)) \<and>
    gACInfoPtr (search w2) = Some ac \<and> jp_name (ac_info ac) = Some (Some (gACName g)) \<and>
    jp_descriptor (ac_info ac) = Some (ac_descriptor_of le locked g) \<and>
    core w2 = after_join inp ((core w)\<lparr>seq_next := n1\<rparr>) \<and> sino_left w2 = sino_left w"
proof -
  have f: "ready (in_discovery inp) (wtp_globals (core w))" "can_join inp (core w)" "n0 < 256" and "\<exists>a. gCWACList (search w) = [a]"
    using fresh by (simp_all add: fresh_def n0_def)
  then obtain a where a: "gCWACList (search w) = [a]" by blast
  have n: "n1 < 256" using f(3) by (simp add: n1_def next_number)
  let ?env = "in_discovery inp" and ?d = "ac_descriptor_of le locked g" and ?s = "(search w)\<lparr>next_seqNum := n0\<rparr>"
  have first: "CWParseDiscoveryResponseMessage plenty (we_le ?env) (ac_info (we_blank ?env)) (response_datagram le locked g n0)
      (length (response_datagram le locked g n0)) = Some (Inr (n0, discovered le locked g (ac_info (we_blank ?env))))"
    using parse_discovery_response [OF ac, of "ac_info (we_blank ?env)" n0 "[]"] small_number [OF f(3)] le by simp
  have list: "gCWACList ?s = [a]" "CWGetSeqNum (next_seqNum ?s) = (n0, n1)" using a by (simp_all add: n1_def CWGetSeqNum_def)
  obtain s1 o1 ac1 where found: "CWWTPEnterDiscovery ?env (wtp_globals (core w)) (in_arrivals inp) ?s =
        Some (Enter CW_ENTER_JOIN, s1, o1)" "gACInfoPtr s1 = Some ac1" "ac_info ac1 = discovered le locked g (ac_info (we_blank ?env))"
      "next_seqNum s1 = n1"
    using discovery_finds [where s = ?s and arrivals = "in_arrivals inp", OF f(1) list arrives first] by blast
  define w1 where "w1 = w\<lparr>search := s1, core := (core w)\<lparr>seq_next := n1\<rparr>\<rparr>"
  have 1: "state_machine inp (At CW_ENTER_DISCOVERY) w = Some (At CW_ENTER_JOIN, w1, map To_ac o1)"
    using found by (simp add: state_machine_def enter_discovery_def n0_def [symmetric] w1_def)
  have w1: "can_join inp (core w1)" "gACInfoPtr (search w1) = Some ac1" "jp_descriptor (ac_info ac1) = Some ?d" "ac_ok g"
      "jp_name (ac_info ac1) = Some (Some (gACName g))" "seq_next (core w1) = n1"
    using f(2) found(2,3) ac
    by (simp_all add: can_join_def join_message_def length_control_message w1_def discovered_def discovery_fits_def)
  obtain o2 ac2 where joined: "CWWTPEnterJoin (answer b (join_answer le locked g CW_PROTOCOL_SUCCESS n1) inp) w1 =
        Some (Done CW_ENTER_CONFIGURE, (put_AC (Some ac2) w1)\<lparr>core := after_join inp (core w1)\<rparr>, map To_ac o2)"
      "delivers o2 (join_message inp (core w1))" "jp_name (ac_info ac2) = Some (Some (gACName g))"
      "jp_descriptor (ac_info ac2) = Some (?d\<lparr>ad_DTLSPolicy := ad_DTLSPolicy ?d\<rparr>)"
    using join_accepted [OF w1(1-4), unfolded w1(6), OF len [unfolded le_def] n, of b] w1(5) by (auto simp: le_def)
  then show ?thesis
    by - (rule exI [of _ w1], rule exI [of _ "(put_AC (Some ac2) w1)\<lparr>core := after_join inp (core w1)\<rparr>"],
      rule exI [of _ "map To_ac o1"], rule exI [of _ o2], rule exI [of _ ac2], simp add: 1,
      simp add: state_machine_def entered_def put_AC_def w1_def)
qed

lemma configured_and_running:
  fixes w inp
  defines "n \<equiv> seq_next (core w)"
  defines "n' \<equiv> snd (CWGetSeqNum n)"
  assumes can: "can_configure inp w ac name" and config: "Configure.timers_ok g" "firmware_ok f" "radio_fits q"
    and w: "1 \<le> sino_left w" "n < 256" "boxes_clean (core w)" "length (gRadiosInfo (wtp_globals (core w))) < 256"
    and len: "length (configure_answer le g f q n) < 65536"
    and driver: "CWBindingSaveConfigureResponse (wr_driver (in_run inp)) [fst q] (radios (core w)) = Some (Inr code, rs)"
  shows "\<exists>w1 w2 w3 o1 o2.
    state_machine (answer b (configure_answer le g f q n) inp) (At CW_ENTER_CONFIGURE) w = Some (At CW_ENTER_DATA_CHECK, w1, map To_ac o1) \<and>
    delivers o1 (configure_message (core w) name) \<and>
    state_machine (answer b' (state_answer n') inp) (At CW_ENTER_DATA_CHECK) w1 = Some (At CW_ENTER_RUN, w2, o2) \<and>
    state_machine inp (At CW_ENTER_RUN) w2 = Some (Running, w3, []) \<and>
    gACInfoPtr (search w2) = Some (ac\<lparr>ac_info := (ac_info ac)\<lparr>jp_ACIPv4List := ac_ipv4 le, jp_ACIPv6List := ac_ipv6\<rparr>\<rparr>) \<and>
    radios (core w2) = rs \<and> sino_left w2 = sino_left w - 1 \<and>
    gEchoInterval (core w2) = (if gEchoRequestTimer g = 0 then gEchoInterval (core w) else gEchoRequestTimer g) \<and>
    timers (core w3) (gCWHeartBeatTimerID (core w3)) = Some \<lparr>at_sec = gEchoInterval (core w2), at_handler = HeartBeat\<rparr>"
proof -
  let ?echo = "if gEchoRequestTimer g = 0 then gEchoInterval (core w) else gEchoRequestTimer g"
  have env: "wtp_ready (in_run inp)" "0 < max_retransmit (in_run inp)" using can by (simp_all add: can_configure_def)
  define w1 where "w1 = (put_AC (Some (ac\<lparr>ac_info := (ac_info ac)\<lparr>jp_ACIPv4List := ac_ipv4 le, jp_ACIPv6List := ac_ipv6\<rparr>\<rparr>))
      (named w name))\<lparr>core := (core (named w name))\<lparr>radios := rs, gEchoInterval := ?echo\<rparr>, sino_left := sino_left w - 1\<rparr>"
  have "can_configure (answer b (configure_answer le g f q n) inp) w ac name" using can by simp
  from configure_accepted [OF this _ config, where b = b and m = "received (configure_answer le g f q n)" and es = "[]"
        and code = code and rs = rs and le = le] w(1,2) len driver
  obtain o1 where configured: "delivers o1 (configure_message (core w) name)"
    "CWWTPEnterConfigure (answer b (configure_answer le g f q n) inp) w = Some (Done CW_ENTER_DATA_CHECK, w1, map To_ac o1)"
    unfolding w1_def n_def by (auto simp: received_def)
  have w1: "sends_requests (answer b' (state_answer n') inp) (core w1)" "seq_next (core w1) = n'" "boxes_clean (core w1)"
    using w env next_number [OF w(2)]
    by (simp_all add: sends_requests_def w1_def boxes_clean_def n_def n'_def)
  obtain o2 where checked: "CWWTPEnterDataCheck (answer b' (state_answer n') inp) w1 = Some (Done CW_ENTER_RUN,
      w1\<lparr>core := CWStopHeartbeatTimer (beating inp (core w1))\<rparr>, o2)"
    using data_check_accepted [OF w1(1), of b' "received (state_answer n')" "[]"] w1(2) by auto
  define w2 where "w2 = w1\<lparr>core := CWStopHeartbeatTimer (beating inp (core w1))\<rparr>"
  have "boxes_clean (core w2)" using w1(3) by (simp add: w2_def CWStopHeartbeatTimer_def rem_timer_def boxes_clean_def)
  from run_begins [OF this env(1)] obtain s3 where runs: "CWWTPEnterRun_begin (in_run inp) (core w2) = Some (Done Stays, s3, [])"
      "timers s3 (gCWHeartBeatTimerID s3) = Some \<lparr>at_sec = gEchoInterval (core w2), at_handler = HeartBeat\<rparr>" by blast
  have w2: "gACInfoPtr (search w2) = Some (ac\<lparr>ac_info := (ac_info ac)\<lparr>jp_ACIPv4List := ac_ipv4 le, jp_ACIPv6List := ac_ipv6\<rparr>\<rparr>)"
      "radios (core w2) = rs" "sino_left w2 = sino_left w - 1" "gEchoInterval (core w2) = ?echo"
    by (simp_all add: w2_def w1_def put_AC_def CWStopHeartbeatTimer_def rem_timer_def)
  have steps: "state_machine (answer b (configure_answer le g f q n) inp) (At CW_ENTER_CONFIGURE) w =
        Some (At CW_ENTER_DATA_CHECK, w1, map To_ac o1)"
      "state_machine (answer b' (state_answer n') inp) (At CW_ENTER_DATA_CHECK) w1 = Some (At CW_ENTER_RUN, w2, o2)"
      "state_machine inp (At CW_ENTER_RUN) w2 = Some (Running, w2\<lparr>core := s3\<rparr>, [])"
    using configured(2) checked runs(1) by (simp_all add: state_machine_def entered_def run_result_def w2_def)
  show ?thesis
    by (rule exI [of _ w1], rule exI [of _ w2], rule exI [of _ "w2\<lparr>core := s3\<rparr>"], rule exI [of _ o1], rule exI [of _ o2])
      (use steps configured(1) runs(2) w2 in simp)
qed

text \<open>
  C2: A WTP gets from its search to the Run state. With one AC in its list, from the state the program starts with, when the AC
  answers each request with the number of that request, the WTP goes through Discovery, Join, Configure and Data Check to
  Run; its Join and Configure Requests go out whole, it keeps the descriptor the AC sent when it was joined, gives the
  QoS values to the driver, takes the echo interval of the AC, uses up one announcement of firmware, and starts the heartbeat.
\<close>

theorem wtp_gets_running:
  fixes w inp
  defines "le \<equiv> wr_le (in_run inp)" and "n0 \<equiv> seq_next (core w)"
  defines "n1 \<equiv> snd (CWGetSeqNum n0)"
  defines "n2 \<equiv> snd (CWGetSeqNum n1)"
  defines "n3 \<equiv> snd (CWGetSeqNum n2)"
  assumes fresh: "fresh inp w" and le: "we_le (in_discovery inp) = le" and ac: "discovery_fits le locked g"
    and config: "Configure.timers_ok g" "firmware_ok f" "radio_fits q"
    and arrives: "in_arrivals inp 1 = [Datagram (response_datagram le locked g n0) (length (response_datagram le locked g n0)) sender]"
    and len: "length (join_answer le locked g CW_PROTOCOL_SUCCESS n1) < 65536" "length (configure_answer le g f q n2) < 65536"
    and fits: "wtp_fits ((wtp_globals (core w))\<lparr>gACInfo_name := gACName g\<rparr>)"
      "length (configure_message (after_join inp (core w)) (gACName g)) < 65536"
    and driver: "CWBindingSaveConfigureResponse (wr_driver (in_run inp)) [fst q] (radios (core w)) = Some (Inr code, rs)"
  shows "\<exists>w1 w2 w3 w4 w5 o1 o2 o3 o4 ac.
    state_machine inp (At CW_ENTER_DISCOVERY) w = Some (At CW_ENTER_JOIN, w1, o1) \<and>
    state_machine (answer b1 (join_answer le locked g CW_PROTOCOL_SUCCESS n1) inp) (At CW_ENTER_JOIN) w1 =
      Some (At CW_ENTER_CONFIGURE, w2, map To_ac o2) \<and> delivers o2 (join_message inp (core w1)) \<and>
    state_machine (answer b2 (configure_answer le g f q n2) inp) (At CW_ENTER_CONFIGURE) w2 =
      Some (At CW_ENTER_DATA_CHECK, w3, map To_ac o3) \<and> delivers o3 (configure_message (core w2) (gACName g)) \<and>
    state_machine (answer b3 (state_answer n3) inp) (At CW_ENTER_DATA_CHECK) w3 = Some (At CW_ENTER_RUN, w4, o4) \<and>
    state_machine inp (At CW_ENTER_RUN) w4 = Some (Running, w5, []) \<and>
    gACInfoPtr (search w4) = Some ac \<and> jp_descriptor (ac_info ac) = Some (ac_descriptor_of le locked g) \<and>
    jp_ACIPv4List (ac_info ac) = ac_ipv4 le \<and> radios (core w4) = rs \<and> sino_left w4 = sino_left w - 1 \<and>
    gEchoInterval (core w4) = (if gEchoRequestTimer g = 0 then gEchoInterval (core w) else gEchoRequestTimer g) \<and>
    timers (core w5) (gCWHeartBeatTimerID (core w5)) = Some \<lparr>at_sec = gEchoInterval (core w4), at_handler = HeartBeat\<rparr>"
proof -
  obtain w1 w2 o1 o2 ac where joined:
    "state_machine inp (At CW_ENTER_DISCOVERY) w = Some (At CW_ENTER_JOIN, w1, o1)"
    "state_machine (answer b1 (join_answer le locked g CW_PROTOCOL_SUCCESS n1) inp) (At CW_ENTER_JOIN) w1 =
      Some (At CW_ENTER_CONFIGURE, w2, map To_ac o2)" "delivers o2 (join_message inp (core w1))"
    and ac: "gACInfoPtr (search w2) = Some ac" "jp_name (ac_info ac) = Some (Some (gACName g))"
      "jp_descriptor (ac_info ac) = Some (ac_descriptor_of le locked g)"
    and w2: "core w2 = after_join inp ((core w)\<lparr>seq_next := n1\<rparr>)" "sino_left w2 = sino_left w"
    using found_and_joined [OF fresh le [unfolded le_def] ac [unfolded le_def] arrives [unfolded le_def n0_def]
        len(1) [unfolded le_def n1_def n0_def], of b1] unfolding le_def n1_def n0_def by blast
  have can: "can_configure inp w2 ac (gACName g)" and n2: "seq_next (core w2) = n2"
    using fits fresh ac
    by (simp_all add: can_configure_def w2 after_join_def connected_def wtp_fits_def configure_message_def length_control_message
        n2_def fresh_def can_join_def undisturbed_def)
  have w: "1 \<le> sino_left w2" "seq_next (core w2) < 256" "boxes_clean (core w2)" "length (gRadiosInfo (wtp_globals (core w2))) < 256"
    using fresh
    by (simp_all add: fresh_def w2 boxes_clean_def after_join_def connected_def can_join_def wtp_ok_def n1_def n0_def next_number)
  have same: "radios (core w2) = radios (core w)" "gEchoInterval (core w2) = gEchoInterval (core w)"
    by (simp_all add: w2 after_join_def)
  from configured_and_running [OF can config w, unfolded n2 same, OF len(2) driver, of b2 b3]
  obtain w3 w4 w5 o3 o4 where
    "state_machine (answer b2 (configure_answer le g f q n2) inp) (At CW_ENTER_CONFIGURE) w2 = Some (At CW_ENTER_DATA_CHECK, w3, map To_ac o3)"
    "delivers o3 (configure_message (core w2) (gACName g))"
    "state_machine (answer b3 (state_answer n3) inp) (At CW_ENTER_DATA_CHECK) w3 = Some (At CW_ENTER_RUN, w4, o4)"
    "state_machine inp (At CW_ENTER_RUN) w4 = Some (Running, w5, [])"
    "gACInfoPtr (search w4) = Some (ac\<lparr>ac_info := (ac_info ac)\<lparr>jp_ACIPv4List := ac_ipv4 le, jp_ACIPv6List := ac_ipv6\<rparr>\<rparr>)"
    "radios (core w4) = rs" "sino_left w4 = sino_left w2 - 1"
    "gEchoInterval (core w4) = (if gEchoRequestTimer g = 0 then gEchoInterval (core w) else gEchoRequestTimer g)"
    "timers (core w5) (gCWHeartBeatTimerID (core w5)) = Some \<lparr>at_sec = gEchoInterval (core w4), at_handler = HeartBeat\<rparr>"
    unfolding n3_def by blast
  with joined ac(3) w2(2) show ?thesis
    by - (rule exI [of _ w1], rule exI [of _ w2], rule exI [of _ w3], rule exI [of _ w4], rule exI [of _ w5], rule exI [of _ o1],
      rule exI [of _ o2], rule exI [of _ o3], rule exI [of _ o4], rule exI [of _ "ac\<lparr>ac_info := (ac_info ac)\<lparr>jp_ACIPv4List := ac_ipv4 le, jp_ACIPv6List := ac_ipv6\<rparr>\<rparr>"], simp)
qed

definition sample_qos_order :: "RadioQosValues \<times> u8" where
  "sample_qos_order = (radio_qos sample_radio [sample_qos 7, sample_qos 8, sample_qos 9, sample_qos 11], 0)"

definition answered_search :: wtp_inputs where
  "answered_search = (sample_inputs [])\<lparr>in_arrivals := only_first [whole (response_datagram True True one_interface 5) 1]\<rparr>"

lemma sample_settings:
  "Configure.timers_ok one_interface" "radio_fits sample_qos_order" "length (configure_answer True one_interface sample_firmware sample_qos_order n) < 65536"
  "ac_ok one_interface" "length (join_answer True True one_interface code n) < 65536"
proof -
  show "Configure.timers_ok one_interface" using sample_configure_facts(3) by (simp add: one_interface_def Configure.timers_ok_def)
  show "radio_fits sample_qos_order" unfolding sample_qos_order_def by (rule one_radio_assembled(2) [OF sample_configure_facts(1)])
  have "reply_body True one_interface = reply_body True sample_ac"
    by (rule ext, rename_tac e, case_tac e) (simp_all add: one_interface_def)
  moreover have "configure_response one_interface = configure_response sample_ac"
    by (intro ext) (simp add: configure_response_def one_interface_def)
  ultimately show "length (configure_answer True one_interface sample_firmware sample_qos_order n) < 65536"
    using sample_configure_facts(5) [of True] by (simp add: configure_answer_def length_control_message sample_qos_order_def)
  show ok: "ac_ok one_interface" using one_interface_fits by (simp add: discovery_fits_def)
  have "length (stream response_type (response_body True True one_interface) (join_response one_interface code)) < 65528"
    using ac_infos_facts(4) [of True True one_interface]
    by (simp add: join_response_def ac_descriptor_of_def Let_def if4_bytes_def)
      (simp add: one_interface_def sample_ac_def if4_bytes_def)
  then show "length (join_answer True True one_interface code n) < 65536" by (simp add: join_answer_def length_control_message)
qed

lemma sample_fresh: "fresh answered_search sample_program"
proof -
  have "can_join answered_search sample_running" "in_discovery answered_search = sample_wtp_env"
    using sample_can_join [of "[]"]
    by (simp_all add: answered_search_def can_join_def undisturbed_def join_message_def connected_def sample_inputs_def)
  then show ?thesis
    using sample_wtp_ready(2)
    by (simp add: fresh_def sample_program_def boxes_clean_def sample_running_def unused_box_def sample_search_def)
qed

lemma wtp_gets_running_witness:
  "\<exists>w1 w2 w3 w4 w5 o1 o2 o3 o4.
    state_machine answered_search (At CW_ENTER_DISCOVERY) sample_program = Some (At CW_ENTER_JOIN, w1, o1) \<and>
    state_machine (answer True (join_answer True True one_interface CW_PROTOCOL_SUCCESS 6) answered_search) (At CW_ENTER_JOIN) w1 =
      Some (At CW_ENTER_CONFIGURE, w2, o2) \<and>
    state_machine (answer False (configure_answer True one_interface sample_firmware sample_qos_order 7) answered_search)
      (At CW_ENTER_CONFIGURE) w2 = Some (At CW_ENTER_DATA_CHECK, w3, o3) \<and>
    state_machine (answer False (state_answer 8) answered_search) (At CW_ENTER_DATA_CHECK) w3 = Some (At CW_ENTER_RUN, w4, o4) \<and>
    state_machine answered_search (At CW_ENTER_RUN) w4 = Some (Running, w5, [])"
proof -
  have inp: "in_run answered_search = sample_run_env" "in_discovery answered_search = sample_wtp_env" "wr_le sample_run_env"
      "we_le sample_wtp_env" "in_arrivals answered_search 1 = [whole (response_datagram True True one_interface 5) 1]"
      "seq_next (core sample_program) = 5" "radios (core sample_program) = []" "wtp_globals (core sample_program) = sample_wtp"
    by (simp_all add: answered_search_def sample_inputs_def sample_run_env_def sample_wtp_env_def only_first_def sample_program_def
        sample_running_def)
  have numbers: "snd (CWGetSeqNum 5) = 6" "snd (CWGetSeqNum 6) = 7" "snd (CWGetSeqNum 7) = 8"
    by (simp_all add: CWGetSeqNum_def CW_MAX_SEQ_NUM_def)
  have driver: "CWBindingSaveConfigureResponse (wr_driver sample_run_env) [fst sample_qos_order] [] = Some (Inr CW_PROTOCOL_SUCCESS, [])"
    by (simp add: CWBindingSaveConfigureResponse_def CWBindingSetQosValues_def sample_run_env_def)
  have fits: "wtp_fits (sample_wtp\<lparr>gACInfo_name := gACName one_interface\<rparr>)"
      "length (configure_message (after_join answered_search (core sample_program)) (gACName one_interface)) < 65536"
    using inp by (simp_all add: wtp_fits_def sample_wtp_def reboot_fits_def one_interface_def sample_ac_def configure_message_def
        length_control_message configure_request_def reboot_bytes_def c_string_def after_join_def connected_def)
  show ?thesis
    using wtp_gets_running [of answered_search sample_program True one_interface sample_firmware sample_qos_order
        "\<lparr>sa_family = AF_INET, sa_addr = [192, 0, 2, 1], sa_port = 5246\<rparr>" CW_PROTOCOL_SUCCESS "[]" True False False]
      sample_fresh one_interface_fits sample_settings sample_firmware_ok driver fits
    unfolding inp numbers by (simp add: inp(3,4) whole_def) blast
qed

text \<open>The same program before it has found the AC.\<close>

definition sample_start :: wtp where
  "sample_start = sample_program\<lparr>search := sample_search 1\<rparr>"

lemma ac_is_known_where_it_is_used_witness:
  "\<exists>w o1. state_machine answered_search (first_phase False) sample_start = Some (At CW_ENTER_JOIN, w, o1) \<and>
    gACInfoPtr (search w) \<noteq> None \<and> state_machine answered_search (first_phase True) sample_start = None"
proof -
  have first: "first_phase False = At CW_ENTER_DISCOVERY" by (simp add: first_phase_def)
  have start: "gACInfoPtr (search sample_start) = None" "fresh answered_search sample_start"
    using sample_fresh by (simp_all add: sample_start_def fresh_def sample_program_def sample_search_def)
  have inp: "wr_le (in_run answered_search)" "we_le (in_discovery answered_search)" "seq_next (core sample_start) = 5"
      "in_arrivals answered_search 1 = [whole (response_datagram True True one_interface 5) 1]"
    by (simp_all add: answered_search_def sample_inputs_def sample_run_env_def sample_wtp_env_def only_first_def sample_start_def
        sample_program_def sample_running_def)
  obtain w o1 where found: "state_machine answered_search (first_phase False) sample_start = Some (At CW_ENTER_JOIN, w, o1)"
    using found_and_joined [OF start(2), of True one_interface "\<lparr>sa_family = AF_INET, sa_addr = [192, 0, 2, 1], sa_port = 5246\<rparr>" True]
      one_interface_fits sample_settings(5)
    unfolding inp(3) by (auto simp: inp inp(4) [unfolded One_nat_def] first whole_def)
  show ?thesis
    using ac_is_known_where_it_is_used [OF start(1) goes_to.state [OF goes_to.start found], of answered_search] found by blast
qed

end
