(* ===== verification/WTP_Requests.thy ===== *)
theory WTP_Requests
  imports WTP_Exchange
begin

text \<open>
  What the Run state of the WTP does with the requests of the AC beside the orders of the update manager: the heartbeat and its
  answer, settings for the radios, and the requests for stations and for a cleared configuration.
\<close>

subsection \<open>A message that is handled without an order\<close>

lemmas run_types = message_types CW_MSG_TYPE_VALUE_CONFIGURE_UPDATE_REQUEST_def
  CW_MSG_TYPE_VALUE_STATION_CONFIGURATION_REQUEST_def CW_MSG_TYPE_VALUE_CLEAR_CONFIGURATION_REQUEST_def
  CW_MSG_TYPE_VALUE_ECHO_RESPONSE_def

lemma message_as_control:
  "message_bytes seq type (map (\<lambda>e. elem_msg (ty e) (body e)) es) = control_message seq type ty body es"
  by (simp add: control_message_def comp_def)

text \<open>A response that carries one result code.\<close>

definition result_answered :: "wtp_action list \<Rightarrow> u32 \<Rightarrow> u32 \<Rightarrow> u32 \<Rightarrow> bool" where
  "result_answered out seq type code \<longleftrightarrow> (\<exists>ps. out = map To_ac ps \<and> delivers ps
     (message_bytes seq type [elem_msg (ucast CW_MSG_ELEMENT_RESULT_CODE_CW_TYPE) (be32 code)]))"

lemma result_code_elem:
  "CWAssembleMsgElemResultCode plenty code = Some (Inr (elem_msg (ucast CW_MSG_ELEMENT_RESULT_CODE_CW_TYPE) (be32 code)))"
  by (simp add: CWAssembleMsgElemResultCode_def cw_wire)

lemma result_sent:
  assumes "wtp_ready env" and "\<not> exit_on_commit (update s)"
  shows "\<exists>out. send_response env []
        (assemble_result env type seq (CWAssembleMsgElemResultCode (wr_alloc env) code)) s =
      Some (Done (Inr ()), s, out) \<and> result_answered out seq type code"
proof -
  have alloc: "wr_alloc env = plenty" using assms(1) by (simp add: wtp_ready_def)
  obtain ms where "assemble_result env type seq (CWAssembleMsgElemResultCode plenty code) = Some (Inr ms)"
      "transmit (wr_send env) ms = Some (Inr (), map To_ac (map contents ms))"
      "delivers (map contents ms) (message_bytes seq type
         [elem_msg (ucast CW_MSG_ELEMENT_RESULT_CODE_CW_TYPE) (be32 code)])"
    using one_element_sent [OF assms(1), of "be32 code" type seq] by (auto simp: result_code_elem)
  then show ?thesis
    using assms(2) by (intro exI [of _ "map To_ac (map contents ms)"] conjI)
      (auto simp: send_response_def alloc result_answered_def simp del: map_map)
qed

lemma message_handled:
  assumes "boxes_idle s" and "type \<noteq> 0" and "length bs < 60020" and "msg m = message_bytes seq type [elem_msg t bs]"
  shows "CWWTPManageGenericRunMessage env (Some m) s =
    manage_request env type (ucast (ucast seq :: u8)) (rbuf (data_msgType m) [] (elem_bytes t bs))
      (int (length (elem_bytes t bs))) s"
  using run_opens [OF assms(1,2), of "\<lambda>_. t" id "[bs]" m seq env] assms(3,4)
    message_as_control [of seq type "\<lambda>_. t" id "[bs]"] by simp

lemma empty_message_handled:
  assumes "boxes_idle s" and "type \<noteq> 0" and "msg m = message_bytes seq type []"
  shows "CWWTPManageGenericRunMessage env (Some m) s =
    manage_request env type (ucast (ucast seq :: u8)) (rbuf (data_msgType m) [] []) 0 s"
  using run_opens [OF assms(1,2), of "\<lambda>_. 0" id "[]" m seq env] assms(3)
    message_as_control [of seq type "\<lambda>_. 0" id "[]"] by simp

lemma start_of: "(rbuf d [] rest)\<lparr>offset := 0\<rparr> = rbuf d [] rest"
  by (simp add: rbuf_def)

lemma one_element:
  "0 < stop \<Longrightarrow> length bs < 65536 \<Longrightarrow>
   element_loop h stop s (rbuf d [] (elem_bytes t bs)) = do {
     r \<leftarrow> h t (length bs) s (rbuf d (be16 t @ be16 (of_nat (length bs))) bs);
     (case r of Inl e \<Rightarrow> Some (Inl e) | Inr (s, m) \<Rightarrow> element_loop h stop s m) }"
  using element_loop_step [of "[]" stop bs h s d t "[]"] by simp

lemma turn_of_crash:
  assumes "CWReceiveMessage (wr_alloc env) ps = Some (Inr m, [])" and "ps \<noteq> []" and "resting s"
    and "CWWTPManageGenericRunMessage env (Some m) s = None"
  shows "CWWTPEnterRun_turn env (Arrived ps []) s = None"
proof -
  have "s\<lparr>gFrameList := [], gPacketReceiveList := []\<rparr> = s" using assms(3) by (simp add: resting_def)
  then have "run_message env (s\<lparr>gPacketReceiveList := ps, gFrameList := []\<rparr>) = None"
    using assms(1,4) by (simp add: run_message_def)
  then show ?thesis using assms(2,3) by (simp add: CWWTPEnterRun_turn_def resting_def)
qed

subsection \<open>Station and clear requests\<close>

text \<open>
  C36: The WTP configures nothing, and says so in two ways. A Station Configuration Request with the address of a station is
  answered with the result code \<open>CW_PROTOCOL_FAILURE\<close> whatever the address is, and leaves everything but the timers as it was. A
  Clear Configuration Request whose two steps both succeed is answered with the value of \<open>CW_TRUE\<close>, which as a result code is
  \<open>CW_PROTOCOL_FAILURE_AC_LIST\<close>, not success.
\<close>

theorem configuration_answers_report_failure:
  assumes "wtp_ready env" and "boxes_idle s" and "\<not> exit_on_commit (update s)" and "length mac = 6"
    and "msg m = message_bytes seq CW_MSG_TYPE_VALUE_STATION_CONFIGURATION_REQUEST
      [elem_msg (ucast CW_MSG_ELEMENT_ADD_STATION_CW_TYPE) ([radio, 6] @ mac)]"
    and "wr_load env (wtp_globals s) = (None, g)" and "wr_init env g = (None, g')"
    and "msg m' = message_bytes seq' CW_MSG_TYPE_VALUE_CLEAR_CONFIGURATION_REQUEST []"
  shows "(\<exists>out. CWWTPManageGenericRunMessage env (Some m) s = Some (Done (Inr ()), reset_timers env s, out) \<and>
        result_answered out (ucast (ucast seq :: u8)) CW_MSG_TYPE_VALUE_STATION_CONFIGURATION_RESPONSE CW_PROTOCOL_FAILURE) \<and>
    (\<exists>out. CWWTPManageGenericRunMessage env (Some m') s =
          Some (Done (Inr ()), (reset_timers env s)\<lparr>wtp_globals := g'\<rparr>, out) \<and>
        result_answered out (ucast (ucast seq' :: u8)) CW_MSG_TYPE_VALUE_CLEAR_CONFIGURATION_RESPONSE
          CW_PROTOCOL_FAILURE_AC_LIST)"
proof -
  let ?t = "ucast CW_MSG_ELEMENT_ADD_STATION_CW_TYPE :: u16" and ?bs = "[radio, 6] @ mac"
  have alloc: "wr_alloc env = plenty" using assms(1) by (simp add: wtp_ready_def)
  have types: "CW_MSG_TYPE_VALUE_STATION_CONFIGURATION_REQUEST \<noteq> 0" "CW_MSG_TYPE_VALUE_CLEAR_CONFIGURATION_REQUEST \<noteq> 0"
      "CW_MSG_TYPE_VALUE_STATION_CONFIGURATION_REQUEST \<noteq> CW_MSG_TYPE_VALUE_CONFIGURE_UPDATE_REQUEST"
      "CW_MSG_TYPE_VALUE_STATION_CONFIGURATION_REQUEST \<noteq> CW_MSG_TYPE_VALUE_CLEAR_CONFIGURATION_REQUEST"
      "CW_MSG_TYPE_VALUE_CLEAR_CONFIGURATION_REQUEST \<noteq> CW_MSG_TYPE_VALUE_CONFIGURE_UPDATE_REQUEST"
    by (simp_all add: run_types)
  have code: "CW_TRUE = CW_PROTOCOL_FAILURE_AC_LIST" by (simp add: CW_TRUE_def CW_PROTOCOL_FAILURE_AC_LIST_def)
  have t: "ucast ?t = CW_MSG_ELEMENT_ADD_STATION_CW_TYPE" by (simp add: CW_MSG_ELEMENT_ADD_STATION_CW_TYPE_def)
  have station: "CWParseStationConfigurationRequest plenty (rbuf d [] (elem_bytes ?t ?bs)) (int (length (elem_bytes ?t ?bs))) =
      Some (Inr ())" for d
    using assms(4) RetrieveRaw_rbuf [of plenty 6 mac d "be16 ?t @ be16 8 @ [radio, 6]" "[]"] one_element [of "int (length (elem_bytes ?t ?bs))" ?bs "station_switch plenty" "()" d ?t]
    by (simp add: CWParseStationConfigurationRequest_def loop_to_end_def start_of station_switch_def t parse_into_def
        CWParseAddStation_def cw_wire)
  show ?thesis
  proof (rule conjI)
    have "length ?bs < 60020" using assms(4) by simp
    note open_it = message_handled [OF assms(2) types(1) this assms(5)]
    show "\<exists>out. CWWTPManageGenericRunMessage env (Some m) s = Some (Done (Inr ()), reset_timers env s, out) \<and>
        result_answered out (ucast (ucast seq :: u8)) CW_MSG_TYPE_VALUE_STATION_CONFIGURATION_RESPONSE CW_PROTOCOL_FAILURE"
      unfolding open_it manage_request_def after_reset_ready [OF assms(1)]
      using result_sent [OF assms(1), of "reset_timers env s"] assms(3) types(3,4)
      by (simp only: manage_station_request_def alloc station CWAssembleStationConfigurationResponse_def
          bind.bind_lunit sum.case if_False if_True simp_thms refl reset_timers_sel)
  next
    note open_it = empty_message_handled [OF assms(2) types(2) assms(8)]
    have save: "CWSaveClearConfigurationRequest env (reset_timers env s) =
        (Done (Inr CW_TRUE), (reset_timers env s)\<lparr>wtp_globals := g'\<rparr>)"
      using assms(6,7) by (simp add: CWSaveClearConfigurationRequest_def Let_def)
    show "\<exists>out. CWWTPManageGenericRunMessage env (Some m') s =
          Some (Done (Inr ()), (reset_timers env s)\<lparr>wtp_globals := g'\<rparr>, out) \<and>
        result_answered out (ucast (ucast seq' :: u8)) CW_MSG_TYPE_VALUE_CLEAR_CONFIGURATION_RESPONSE
          CW_PROTOCOL_FAILURE_AC_LIST"
      unfolding open_it manage_request_def after_reset_ready [OF assms(1)] code [symmetric]
      using result_sent [OF assms(1), of "(reset_timers env s)\<lparr>wtp_globals := g'\<rparr>"] assms(3) types(5)
      by (simp add: manage_clear_request_def save CWAssembleClearConfigurationResponse_def)
  qed
qed

lemma configuration_answers_report_failure_witness:
  "\<exists>out s'. CWWTPManageGenericRunMessage sample_run_env (Some (received (message_bytes 7
        CW_MSG_TYPE_VALUE_STATION_CONFIGURATION_REQUEST
        [elem_msg (ucast CW_MSG_ELEMENT_ADD_STATION_CW_TYPE) [0, 6, 2, 0, 0, 1, 2, 3]]))) sample_running =
      Some (Done (Inr ()), s', out) \<and>
    result_answered out (ucast (ucast (7 :: u32) :: u8)) CW_MSG_TYPE_VALUE_STATION_CONFIGURATION_RESPONSE CW_PROTOCOL_FAILURE"
proof -
  have "boxes_idle sample_running" "\<not> exit_on_commit (update sample_running)"
      "wr_load sample_run_env = (\<lambda>g. (None, g))" "wr_init sample_run_env = (\<lambda>g. (None, g))"
    using sample_running_facts(5,6,8) by (simp_all add: resting_def sample_run_env_def)
  with configuration_answers_report_failure [of sample_run_env sample_running "[2, 0, 0, 1, 2, 3]" "received (message_bytes 7
        CW_MSG_TYPE_VALUE_STATION_CONFIGURATION_REQUEST
        [elem_msg (ucast CW_MSG_ELEMENT_ADD_STATION_CW_TYPE) [0, 6, 2, 0, 0, 1, 2, 3]])" 7 0 "wtp_globals sample_running"
      "wtp_globals sample_running" "received (message_bytes 8 CW_MSG_TYPE_VALUE_CLEAR_CONFIGURATION_REQUEST [])" 8]
    sample_running_facts(1)
  show ?thesis by auto
qed

subsection \<open>The heartbeat\<close>

lemma echo_assembled:
  assumes "wtp_ready env"
  shows "\<exists>ms. CWAssembleEchoRequest env seq = Some (Inr ms) \<and>
    transmit (wr_send env) ms = Some (Inr (), map To_ac (map contents ms)) \<and>
    delivers (map contents ms) (message_bytes seq CW_MSG_TYPE_VALUE_ECHO_REQUEST [])"
proof -
  have "length (message_bytes seq CW_MSG_TYPE_VALUE_ECHO_REQUEST []) \<le> 65536"
    by (simp add: message_bytes_def Let_def control_bytes_def)
  then obtain ms where "CWAssembleMessage plenty (wr_fragID env) (gWTPPathMTU env) seq CW_MSG_TYPE_VALUE_ECHO_REQUEST
        (Some []) 0 (Some []) 0 (wr_crypt env) = Some (Inr ms)" "\<forall>m \<in> set ms. msg_fits m"
      "delivers (map contents ms) (message_bytes seq CW_MSG_TYPE_VALUE_ECHO_REQUEST [])"
    using message_delivered [of "[]" "wr_fragID env" seq CW_MSG_TYPE_VALUE_ECHO_REQUEST "gWTPPathMTU env" "wr_crypt env"]
      assms by (auto simp: wtp_ready_def)
  then show ?thesis
    using assms transmit_all [OF assms, of ms]
    by (auto simp: CWAssembleEchoRequest_def assemble_empty_def CWAssembleMessage_NULL wtp_ready_def)
qed

lemma timers_after_reset:
  assumes "wtp_ready env"
  shows "timers (reset_timers env s) (gCWHeartBeatTimerID (reset_timers env s)) =
      Some \<lparr>at_sec = gEchoInterval s, at_handler = HeartBeat\<rparr>"
    and "\<not> gNeighborDeadTimerSet (reset_timers env s)"
    and "gNeighborDeadTimerSet s \<Longrightarrow>
      timers (reset_timers env s) (gCWNeighborDeadTimerID (reset_timers env s)) \<noteq> Some \<lparr>at_sec = n, at_handler = NeighborDead\<rparr>"
  using assms
  by (auto simp: reset_timers_def CWResetTimers_def CWStartHeartbeatTimer_def CWStopHeartbeatTimer_def
      CWStopNeighborDeadTimer_def add_timer_def rem_timer_def Let_def wtp_ready_def)

text \<open>
  C12: The heartbeat goes round. When it expires while the NeighborDead timer is not set, the WTP sends one Echo Request under its
  next sequence number, arms the NeighborDead timer and starts the heartbeat again; the AC in its Run state answers the request
  under the same number and watches the WTP afresh; and that answer makes the WTP stop the NeighborDead timer and start
  the heartbeat once more, with the interval of the session, without sending anything.
\<close>

theorem heartbeat_exchange:
  assumes "nothing_fails env" and "wtp_ready wenv" and "boxes_idle s" and "\<not> gNeighborDeadTimerSet s"
    and "timers s i = Some \<lparr>at_sec = n, at_handler = HeartBeat\<rparr>"
    and "a = wr_timer wenv ((timers s)(i := None))" and "\<forall>t. wr_timer wenv ((timers s)(i := None, a \<mapsto> t)) \<noteq> a"
    and "q = fst (CWGetSeqNum (seq_next s))"
  shows "\<exists>s' ps. timer_expires wenv i s = Some (s', map To_ac ps) \<and>
      delivers ps (message_bytes q CW_MSG_TYPE_VALUE_ECHO_REQUEST []) \<and> seq_next s' = snd (CWGetSeqNum (seq_next s)) \<and>
      timers s' (gCWNeighborDeadTimerID s') = Some \<lparr>at_sec = wr_NeighborDeadInterval wenv, at_handler = NeighborDead\<rparr> \<and>
      timers s' (gCWHeartBeatTimerID s') = Some \<lparr>at_sec = gEchoInterval s, at_handler = HeartBeat\<rparr> \<and>
      answers (ACEnterRun env k wtp (received (message_bytes q CW_MSG_TYPE_VALUE_ECHO_REQUEST [])) False) (awaiting env wtp)
        (message_bytes q CW_MSG_TYPE_VALUE_ECHO_RESPONSE []) \<and>
      (\<exists>s''. CWWTPManageGenericRunMessage wenv (Some (received (message_bytes q CW_MSG_TYPE_VALUE_ECHO_RESPONSE []))) s' =
          Some (Done (Inr ()), s'', []) \<and> \<not> gNeighborDeadTimerSet s'' \<and>
        timers s'' (gCWNeighborDeadTimerID s'') \<noteq>
          Some \<lparr>at_sec = wr_NeighborDeadInterval wenv, at_handler = NeighborDead\<rparr> \<and>
        timers s'' (gCWHeartBeatTimerID s'') = Some \<lparr>at_sec = gEchoInterval s, at_handler = HeartBeat\<rparr>)"
proof -
  obtain ms where ms: "CWAssembleEchoRequest wenv q = Some (Inr ms)"
      "transmit (wr_send wenv) ms = Some (Inr (), map To_ac (map contents ms))"
      "delivers (map contents ms) (message_bytes q CW_MSG_TYPE_VALUE_ECHO_REQUEST [])"
    using echo_assembled [OF assms(2)] by blast
  have live: "wr_timer wenv t \<noteq> - 1" for t using assms(2) by (simp add: wtp_ready_def)
  let ?dead = "\<lparr>at_sec = wr_NeighborDeadInterval wenv, at_handler = NeighborDead\<rparr>"
  let ?b = "wr_timer wenv ((timers s)(i := None, a \<mapsto> ?dead))"
  define s' where "s' = s\<lparr>timers := (timers s)(i := None, a \<mapsto> ?dead, ?b \<mapsto> \<lparr>at_sec = gEchoInterval s, at_handler = HeartBeat\<rparr>),
    gCWHeartBeatTimerID := ?b, gCWNeighborDeadTimerID := a, gNeighborDeadTimerSet := True,
    seq_next := snd (CWGetSeqNum (seq_next s))\<rparr>"
  have expires: "timer_expires wenv i s = Some (s', map To_ac (map contents ms))"
    using assms(4,5) live ms(1,2) unfolding assms(6,8) s'_def
    by (simp add: timer_expires_def CWWTPHeartBeatTimerExpiredHandler_def CWStartNeighborDeadTimer_def add_timer_def
        rem_timer_def CWStartHeartbeatTimer_def Let_def CWGetSeqNum_def)
  have "?b \<noteq> a" using assms(7) by blast
  then have s': "gNeighborDeadTimerSet s'" "timers s' (gCWNeighborDeadTimerID s') = Some ?dead"
      "timers s' (gCWHeartBeatTimerID s') = Some \<lparr>at_sec = gEchoInterval s, at_handler = HeartBeat\<rparr>"
      "gEchoInterval s' = gEchoInterval s" "pending s' = pending s" "seq_next s' = snd (CWGetSeqNum (seq_next s))"
    by (simp_all add: s'_def)
  have "boxes_idle s'" using assms(3) s'(5) by (simp add: boxes_idle_def)
  then have "CWWTPManageGenericRunMessage wenv
      (Some (received (message_bytes q CW_MSG_TYPE_VALUE_ECHO_RESPONSE []))) s' = Some (Done (Inr ()), reset_timers wenv s', [])"
    using empty_message_handled [of s' CW_MSG_TYPE_VALUE_ECHO_RESPONSE] after_reset_ready [OF assms(2)]
    by (simp add: manage_request_def run_types)
  then show ?thesis
    using expires s' ms(3) timers_after_reset [OF assms(2), of s'] run_echo [OF assms(1)]
    by (intro exI [of _ s'] exI [of _ "map contents ms"]) (auto simp: control_message_def)
qed

lemma heartbeat_exchange_witness:
  "\<exists>s' ps. timer_expires (sample_run_env\<lparr>wr_timer := \<lambda>t. if t 8 = None then 8 else 9\<rparr>) 5
        (sample_running\<lparr>timers := [5 \<mapsto> \<lparr>at_sec = 30, at_handler = HeartBeat\<rparr>]\<rparr>) = Some (s', map To_ac ps) \<and>
    timers s' (gCWHeartBeatTimerID s') = Some \<lparr>at_sec = 30, at_handler = HeartBeat\<rparr> \<and>
    delivers ps (message_bytes 5 CW_MSG_TYPE_VALUE_ECHO_REQUEST [])"
proof -
  let ?env = "sample_run_env\<lparr>wr_timer := \<lambda>t. if t 8 = None then 8 else 9\<rparr>"
  let ?s = "sample_running\<lparr>timers := [5 \<mapsto> \<lparr>at_sec = 30, at_handler = HeartBeat\<rparr>]\<rparr>"
  have "wtp_ready ?env" using sample_running_facts(1) by (simp add: wtp_ready_def)
  moreover have "boxes_idle ?s" "\<not> gNeighborDeadTimerSet ?s" "gEchoInterval ?s = 30" "seq_next ?s = 5"
    by (simp_all add: boxes_idle_def sample_running_def unused_box_def)
  ultimately show ?thesis
    using heartbeat_exchange [of sample_env ?env ?s 5 30 8 5 0 sample_session]
    by (fastforce simp: CWGetSeqNum_def)
qed

subsection \<open>Settings for the radios\<close>

text \<open>
  C35: An order with settings for the radios is carried out and then crashes the WTP. The AC assembles the QoS settings for a WTP
  with one radio, its packets arrive and are parsed, the driver takes every value and the saving succeeds; but as the
  request has no vendor payload, the handler then looks through a null pointer, and no response is ever sent.
\<close>

theorem qos_order_crashes_the_wtp:
  assumes "nothing_fails env" and "wtp_ready wenv" and "resting s"
    and "pm_radioCount (WTPProtocolManager wtp) = 1" and "pm_radiosInfo (WTPProtocolManager wtp) = [r]"
    and "qosValues wtp = Some qs" and "length qs = 4" and "length (pm_bindingQos (WTPProtocolManager wtp)) = 4"
    and "merged = map2 merge_qos qs (pm_bindingQos (WTPProtocolManager wtp))" and "\<forall>q \<in> set merged. qos_fits q"
    and "takes_all (wr_driver wenv)" and "radios s = [radio]" and "br_radioID radio = ucast (ucast (radioID r) :: u8)"
    and "length (br_qosValues radio) = 4"
    and "order = \<lparr>bindingValues = Some (Qos_update [\<lparr>rq_radioID = ucast (radioID r), rq_qosValues = merged\<rparr>]),
      protocolValues = None, updateRequestType = BINDING_MSG_ELEMENT_TYPE_WTP_QOS\<rparr>"
  shows "\<exists>wtp' ps bs. CWAssembleConfigurationUpdateRequest env wtp n CONFIG_UPDATE_REQ_QOS_ELEMENT_TYPE =
        Some (wtp', Inr ()) \<and> messages wtp' = Some ps \<and>
      delivers (map contents ps) (control_message n CW_MSG_TYPE_VALUE_CONFIGURE_UPDATE_REQUEST
        (\<lambda>_. ucast BINDING_MSG_ELEMENT_TYPE_WTP_QOS) id [bs]) \<and>
      CWParseConfigurationUpdateRequest wenv (received (elem_bytes (ucast BINDING_MSG_ELEMENT_TYPE_WTP_QOS) bs))
        (int (length (elem_bytes (ucast BINDING_MSG_ELEMENT_TYPE_WTP_QOS) bs))) = Some (Inr order) \<and>
      CWSaveConfigurationUpdateRequest wenv order s = Some (Inr (CW_PROTOCOL_SUCCESS, None),
        s\<lparr>radios := [radio\<lparr>br_qosValues := map2 applied (br_qosValues radio) merged\<rparr>]\<rparr>, []) \<and>
      CWWTPEnterRun_turn wenv (Arrived (map contents ps) []) s = None"
proof -
  let ?v = "\<lparr>rq_radioID = ucast (radioID r), rq_qosValues = merged\<rparr>" and ?t = "ucast BINDING_MSG_ELEMENT_TYPE_WTP_QOS :: u16"
  let ?bs = "qos_body (?v, 0)" and ?type = CW_MSG_TYPE_VALUE_CONFIGURE_UPDATE_REQUEST
  let ?e = "elem_msg ?t ?bs" and ?len = "int (length (elem_bytes ?t ?bs))"
  have alloc: "wr_alloc wenv = plenty" "env_alloc env = plenty" using assms(1,2) by (simp_all add: nothing_fails_def wtp_ready_def)
  have n: "length merged = 4" using assms(7-9) by simp
  have "CWMergeQosValues qs (pm_bindingQos (WTPProtocolManager wtp)) = Some merged"
    using assms(7-9) by (simp add: CWMergeQosValues_def NUM_QOS_PROFILES_def)
  from CWAssembleWTPQoS_eq [OF this, of "radioID r" 0]
  have elem: "update_request_elements plenty wtp CONFIG_UPDATE_REQ_QOS_ELEMENT_TYPE =
      Some (wtp\<lparr>qosValues := Some merged\<rparr>, Inr ([], [?e]))"
    using assms(4-6) n by (simp add: update_request_elements_def CWBindingAssembleConfigurationUpdateRequest_def
        binding_elements_def NUM_QOS_PROFILES_def)
  have fits: "radio_fits (?v, 0)" using assms(10) n by (simp add: radio_fits_def NUM_QOS_PROFILES_def)
  have len: "length ?bs = 34" using n by (simp add: qos_body_def)
  have small: "length (message_bytes n ?type [?e]) \<le> 65520" using len by (simp add: message_bytes_def Let_def control_bytes_def)
  have ID: "env_fragID env < 65536" using assms(1) by (simp add: nothing_fails_def)
  obtain ps m where ps: "CWAssembleMessage plenty (env_fragID env) (pathMTU wtp) n ?type (Some [?e]) (length [?e]) (Some []) 0
        (env_crypt env) = Some (Inr ps)" "ps \<noteq> []" "CWReceiveMessage plenty (map contents ps) = Some (Inr m, [])"
      "msg m = message_bytes n ?type [?e]"
    using message_received [of "[?e]" "env_fragID env" n ?type "pathMTU wtp" "env_crypt env" "[]"] small ID
    by (auto simp: elem_msg_fits)
  have swap: "CWAssembleMessage plenty (env_fragID env) (pathMTU wtp) n ?type (Some []) (length []) (Some [?e]) (length [?e])
      (env_crypt env) = Some (Inr ps)"
    using CWAssembleMessage_eq [of plenty "[]" "[?e]" "env_fragID env" n ?type "pathMTU wtp" "env_crypt env"]
      CWAssembleMessage_eq [of plenty "[?e]" "[]" "env_fragID env" n ?type "pathMTU wtp" "env_crypt env"] ps(1) small ID
    by (simp add: elem_msg_fits)
  then have asm: "CWAssembleConfigurationUpdateRequest env wtp n CONFIG_UPDATE_REQ_QOS_ELEMENT_TYPE =
      Some (wtp\<lparr>qosValues := Some merged, messages := Some ps, messagesCount := length ps\<rparr>, Inr ())"
    by (simp add: CWAssembleConfigurationUpdateRequest_def alloc elem)
  have del: "delivers (map contents ps) (control_message n ?type (\<lambda>_. ?t) id [?bs])"
    using message_delivered [of "[?e]" "env_fragID env" n ?type "pathMTU wtp" "env_crypt env"] ps(1) small ID
    by (auto simp: elem_msg_fits control_message_def)
  have check: "CWBindingCheckType (ucast ?t)" by (simp add: CWBindingCheckType_def binding_types)
  have parse: "CWParseConfigurationUpdateRequest wenv b ?len = Some (Inr order)"
    if "b\<lparr>offset := 0\<rparr> = rbuf d [] (elem_bytes ?t ?bs)" for b d
  proof -
    have one: "element_loop h 38 st (rbuf d [] (elem_bytes ?t ?bs)) = do {
        r \<leftarrow> h ?t 34 st (rbuf d (be16 ?t @ be16 34) ?bs);
        (case r of Inl e \<Rightarrow> Some (Inl e) | Inr (s, m) \<Rightarrow> element_loop h 38 s m) }"
      for h :: "u16 \<Rightarrow> nat \<Rightarrow> 'x \<Rightarrow> cw_msg \<Rightarrow> (CWErrorCode + 'x \<times> cw_msg) option" and st
      using one_element [of 38 ?bs h st d ?t] len by simp
    note skip = skip_element_rbuf [of ?bs _ _ _ "[]", unfolded len append_Nil2]
    have "CWBindingParseConfigurationUpdateRequest plenty b (nat ?len) None = Some (Inr (Some (Qos_update [?v])))"
      using CWParseWTPQoS_rbuf [OF fits, of d "be16 ?t @ be16 34" "[]"] len
      by (simp add: CWBindingParseConfigurationUpdateRequest_def elements_to_end_def that one skip update_count_switch_def
          update_fill_switch_def parse_into_def no_result_on_error_def)
    then show ?thesis
      using len check
      by (simp add: CWParseConfigurationUpdateRequest_def loop_to_end_def that one skip update_switch_def alloc assms(15))
  qed
  have set: "CWBindingSetQosValues (wr_driver wenv) [?v] [radio] code = Some (Inr CW_PROTOCOL_SUCCESS,
      [radio\<lparr>br_qosValues := map2 applied (br_qosValues radio) merged\<rparr>])" for code
    using assms(11,13,14) n set_queues_taken [OF assms(11), of 4 merged "br_qosValues radio" 0 CW_PROTOCOL_SUCCESS]
    by (simp add: CWBindingSetQosValues_def NUM_QOS_PROFILES_def takes_all_def)
  have save: "CWSaveConfigurationUpdateRequest wenv order s' = Some (Inr (CW_PROTOCOL_SUCCESS, None),
        s'\<lparr>radios := [radio\<lparr>br_qosValues := map2 applied (br_qosValues radio) merged\<rparr>]\<rparr>, [])" if "radios s' = [radio]" for s'
    using set that by (simp add: CWSaveConfigurationUpdateRequest_def assms(15) CWBindingSaveConfigurationUpdateRequest_def)
  have "boxes_idle s" using assms(3) by (simp add: resting_def)
  note open_it = message_handled [OF this _ _ ps(4)]
  obtain ms where response: "CWAssembleConfigurationUpdateResponse wenv (ucast (ucast n :: u8)) CW_PROTOCOL_SUCCESS None =
      Some (Inr ms)"
    using one_element_sent [OF assms(2), of "be32 CW_PROTOCOL_SUCCESS" CW_MSG_TYPE_VALUE_CONFIGURE_UPDATE_RESPONSE
        "ucast (ucast n :: u8)" "ucast CW_MSG_ELEMENT_RESULT_CODE_CW_TYPE"]
    by (auto simp: CWAssembleConfigurationUpdateResponse_def alloc result_code_elem)
  have crash: "CWWTPManageGenericRunMessage wenv (Some m) s = None"
    using open_it [of wenv] len parse [OF start_of] save [of "reset_timers wenv s"] assms(12) response
    by (simp add: manage_request_def after_reset_ready [OF assms(2)] manage_update_request_def run_types)
  have "CWWTPEnterRun_turn wenv (Arrived (map contents ps) []) s = None"
    using turn_of_crash [OF _ _ assms(3) crash] ps(2,3) by (simp add: alloc)
  then show ?thesis
    using asm del parse [of "received (elem_bytes ?t ?bs)"] save [OF assms(12)]
    by (intro exI [of _ ps] exI [of _ ?bs] exI) (auto simp: received_def rbuf_def)
qed

lemma qos_order_crashes_the_wtp_witness:
  "\<exists>wtp' ps. CWAssembleConfigurationUpdateRequest sample_env
        (sample_binding_session\<lparr>qosValues := Some (map sample_qos [7, 8, 9, 11])\<rparr>) 7 CONFIG_UPDATE_REQ_QOS_ELEMENT_TYPE =
      Some (wtp', Inr ()) \<and> messages wtp' = Some ps \<and>
    CWWTPEnterRun_turn sample_run_env (Arrived (map contents ps) []) (sample_running\<lparr>radios :=
      [\<lparr>br_radioID = ucast (ucast (radioID sample_radio) :: u8), br_qosValues = map sample_qos [0, 0, 0, 0]\<rparr>]\<rparr>) = None"
proof -
  let ?wtp = "sample_binding_session\<lparr>qosValues := Some (map sample_qos [7, 8, 9, 11])\<rparr>"
  let ?radio = "\<lparr>br_radioID = ucast (ucast (radioID sample_radio) :: u8), br_qosValues = map sample_qos [0, 0, 0, 0]\<rparr>"
  let ?s = "sample_running\<lparr>radios := [?radio]\<rparr>"
  have "\<forall>q \<in> set (map2 merge_qos (map sample_qos [7, 8, 9, 11]) (pm_bindingQos (WTPProtocolManager ?wtp))). qos_fits q"
    by (simp add: sample_binding_session_def merge_qos_def sample_qos_def UNUSED_QOS_VALUE_def qos_fits_def)
  moreover have "resting ?s" using sample_running_facts(5) by (simp add: resting_def boxes_idle_def)
  moreover have "takes_all (wr_driver sample_run_env)" by (simp add: takes_all_def sample_run_env_def)
  moreover have "pm_radioCount (WTPProtocolManager ?wtp) = 1" "pm_radiosInfo (WTPProtocolManager ?wtp) = [sample_radio]"
      "length (pm_bindingQos (WTPProtocolManager ?wtp)) = 4" "qosValues ?wtp = Some (map sample_qos [7, 8, 9, 11])"
    by (simp_all add: sample_binding_session_def sample_session_def)
  ultimately show ?thesis
    using qos_order_crashes_the_wtp [of sample_env sample_run_env ?s ?wtp sample_radio "map sample_qos [7, 8, 9, 11]" _ ?radio _ 7,
        OF _ sample_running_facts(1) _ _ _ _ _ _ refl _ _ _ _ _ refl] by auto
qed

end
