(* ===== verification/WTP_Returns.thy ===== *)
theory WTP_Returns
  imports WTP_Joins WTP_Requests
begin

text \<open>
  What a WTP that lost its AC comes back with: the announcement it has used up, and the heartbeat it left running.
\<close>

subsection \<open>The second Configure state\<close>

text \<open>What a switch keeps, the loop over the elements keeps.\<close>

lemma element_loop_keeps:
  assumes step: "\<And>t l v m v' m'. I v \<Longrightarrow> handle t l v m = Some (Inr (v', m')) \<Longrightarrow> I v'"
    and "element_loop handle stop v m = Some (Inr (v', m'))" and "I v"
  shows "I v'"
proof -
  have "h = handle \<longrightarrow> I u \<longrightarrow> (\<forall>u' n. r = Inr (u', n) \<longrightarrow> I u')" if "element_loop h stop u m = Some r" for h stop u m r
  proof (rule element_loop.raw_induct [OF _ that], goal_cases)
    case (1 loop h stop u m r)
    from 1(2) show ?case
      by (auto split: if_split_asm bind_split_asm sum.split_asm prod.split_asm dest: step dest!: 1(1))
  qed
  from this [OF assms(2)] assms(3) show ?thesis by simp
qed

lemma parse_into_result: "parse_into r f = Some (Inr (v', m')) \<Longrightarrow> \<exists>x. v' = f x"
  by (auto simp: parse_into_def map_sum_def split: bind_split_asm sum.split_asm)

lemma switch_keeps_count:
  assumes "cp_sino_count v \<le> 0" and "configure_response_switch alloc se t l v m = Some (Inr (v', m'))"
  shows "cp_sino_count v' = cp_sino_count v"
  using assms
  by (auto simp: configure_response_switch_def skip_element_def split: if_split_asm dest!: parse_into_result)

lemma spent_count_stays: "sino_count_after alloc se junk seqValue 0 m = 0"
proof -
  have kept: "cp_sino_count v' = 0"
    if "element_loop (ending (configure_response_switch alloc se) stop) stop' (start_response 0 junk) m = Some (Inr (v', m'))"
    for stop stop' m v' m'
  proof (rule element_loop_keeps [where I = "\<lambda>v. cp_sino_count v = 0", OF _ that])
    show "cp_sino_count w' = 0" if "cp_sino_count w = 0"
        "ending (configure_response_switch alloc se) stop t l w n = Some (Inr (w', n'))" for t l w n w' n'
      using that switch_keeps_count [of w alloc se t l n]
      by (auto simp: ending_def split: bind_split_asm sum.split_asm prod.split_asm)
  qed (simp add: start_response_def)
  show ?thesis
    using kept by (auto simp: sino_count_after_def Let_def split: option.split sum.split prod.split)
qed

lemma counted_spent:
  "counted (sino_count_after alloc se junk seqValue) 0 es = map (map_waited (Pair 0)) es"
  by (induction es) (auto simp: spent_count_stays split: waited.split)


text \<open>An element of \<open>in_waits\<close> is a time that runs over, or the answer of the AC to the request with the number \<open>n\<close>.\<close>

definition silence_or_answer :: "u8 list \<Rightarrow> cw_msg waited \<Rightarrow> bool" where
  "silence_or_answer B e \<longleftrightarrow> (case e of Time_over \<Rightarrow> True | Message _ m \<Rightarrow> msg m = B \<and> offset m = length B | _ \<Rightarrow> False)"

lemma silent_or_refused:
  "silence_or_answer B e \<Longrightarrow> (\<And>m. msg m = B \<Longrightarrow> offset m = length (msg m) \<Longrightarrow> parse (a, m) = r) \<Longrightarrow>
    map_waited (Pair a) e = Time_over \<or> (\<exists>b m. map_waited (Pair a) e = Message b m \<and> parse m = r)"
  by (cases e) (auto simp: silence_or_answer_def)

text \<open>
  C31: A WTP that comes back to its AC ends itself. Once the announcement it may take is used up, which its first Configure state
  does, no Configure Response of an AC that announces firmware is accepted: the Configure Request goes out again for every answer,
  \<open>gCWMaxRetransmit\<close> times in all, and the program leaves its loop over the states, its state kept.
\<close>

theorem returning_wtp_quits:
  assumes can: "can_configure inp w ac name" and spent: "sino_left w = 0"
    and g: "Configure.timers_ok g" "firmware_ok f" "radio_fits q"
    and len: "length (configure_answer le g f q (seq_next (core w))) < 65536" and n: "seq_next (core w) < 256"
    and limit: "length (in_waits inp) = max_retransmit (in_run inp)"
    and waits: "\<forall>e \<in> set (in_waits inp). silence_or_answer (configure_answer le g f q (seq_next (core w))) e"
  shows "\<exists>ps. delivers ps (configure_message (core w) name) \<and>
    state_machine inp (At CW_ENTER_CONFIGURE) w =
      Some (At CW_QUIT, named w name, concat (replicate (max_retransmit (in_run inp)) (map To_ac ps)))"
proof -
  let ?n = "seq_next (core w)" and ?es = "map (map_waited (Pair (0 :: int))) (in_waits inp)"
  let ?parse = "\<lambda>(k, m). CWParseConfigureResponseMessage plenty (in_sino inp) k (in_configure_values inp) m (offset m) ?n"
  obtain ps where ps: "\<forall>p \<in> set ps. msg_fits p" "delivers (map contents ps) (configure_message (core w) name)"
    "CWWTPEnterConfigure inp w = configuring inp w name ps" using configure_starts [OF can] by blast
  have env: "wtp_ready (in_run inp)" "0 < max_retransmit (in_run inp)" using can by (simp_all add: can_configure_def)
  have refused: "?parse (0, m) = Some (Inl CW_ERROR_INVALID_FORMAT)"
    if "msg m = configure_answer le g f q ?n" "offset m = length (msg m)" for m
    using second_configure_response_refused [OF g small_number [OF n], of le m "in_sino inp" "in_configure_values inp"] that len
    by (simp add: configure_answer_def length_control_message)
  have "\<forall>e \<in> set ?es. e = Time_over \<or> (\<exists>b m. e = Message b m \<and> ?parse m = Some (Inl CW_ERROR_INVALID_FORMAT))"
    using waits silent_or_refused [where parse = ?parse and a = 0, OF _ refused] unfolding set_map ball_simps(9) by blast
  moreover have "max_retransmit (in_run inp) = length ?es" "?es \<noteq> []" using limit env(2) by auto
  ultimately have sent: "CWWTPSendAcknowledgedPacket (in_run inp) (max_retransmit (in_run inp)) (Some (Inr ps)) ?parse
      (save_configure inp (named w name)) ?es =
    Some (Inl CW_ERROR_NEED_RESOURCE, concat (replicate (max_retransmit (in_run inp)) (map To_ac (map contents ps))))"
    by (rule never_answered [OF env(1) ps(1)])
  have "CWWTPEnterConfigure inp w =
      Some (Done CW_QUIT, named w name, concat (replicate (max_retransmit (in_run inp)) (map To_ac (map contents ps))))"
    unfolding ps(3) spent counted_spent sent by (simp add: checked_def ends_a_wait)
  then show ?thesis using ps(2) by (intro exI [of _ "map contents ps"]) (simp add: state_machine_def entered_def)
qed

definition sample_returned :: wtp where
  "sample_returned = sample_program\<lparr>search := (sample_search 1)\<lparr>gACInfoPtr := Some (sample_known\<lparr>ac_info := (ac_info sample_known)\<lparr>jp_name := Some (Some (gACName one_interface))\<rparr>\<rparr>)\<rparr>, sino_left := 0\<rparr>"

definition sample_second :: wtp_inputs where
  "sample_second = sample_inputs (Time_over # replicate 4
     (Message False (received (configure_answer True one_interface sample_firmware sample_qos_order 5))))"

lemma returning_wtp_quits_witness:
  "\<exists>w' out. state_machine sample_second (At CW_ENTER_CONFIGURE) sample_returned = Some (At CW_QUIT, w', out)"
proof -
  have facts: "sino_left sample_returned = 0" "seq_next (core sample_returned) = 5" "max_retransmit sample_run_env = 5"
      "in_run sample_second = sample_run_env" "core sample_returned = sample_running"
    by (simp_all add: sample_returned_def sample_program_def sample_running_def max_retransmit_def sample_run_env_def sample_second_def
        sample_inputs_def)
  have waits: "length (in_waits sample_second) = 5"
      "\<forall>e \<in> set (in_waits sample_second). silence_or_answer (configure_answer True one_interface sample_firmware sample_qos_order 5) e"
    by (simp_all add: sample_second_def sample_inputs_def silence_or_answer_def received_def)
  have can: "can_configure sample_second sample_returned
      (sample_known\<lparr>ac_info := (ac_info sample_known)\<lparr>jp_name := Some (Some (gACName one_interface))\<rparr>\<rparr>) (gACName one_interface)"
    using sample_running_facts(1)
    by (simp add: can_configure_def facts)
      (simp add: sample_returned_def wtp_fits_def sample_running_def sample_wtp_def reboot_fits_def one_interface_def sample_ac_def
        configure_message_def length_control_message configure_request_def reboot_bytes_def c_string_def)
  show ?thesis
    using returning_wtp_quits [OF can facts(1) sample_settings(1) sample_firmware_ok sample_settings(2), of True]
      sample_settings(3) waits
    unfolding facts sample_facts(3) by auto
qed

subsection \<open>The heartbeat of the Data Check state\<close>

text \<open>
  C32: A Data Check that is not answered leaves its heartbeat running. The WTP goes through Reset, which does nothing, back to
  Discovery with the HeartBeat timer still armed; when that timer expires the WTP sends an Echo Request to the AC it has
  given up, arms the NeighborDead timer, and arms the HeartBeat timer again.
\<close>

theorem data_check_leaves_its_heartbeat:
  assumes ok: "sends_requests inp (core w)" and silent: "in_waits inp = replicate (max_retransmit (in_run inp)) Time_over"
    and dead: "\<not> gNeighborDeadTimerSet (core w)"
  shows "\<exists>w' out packets s.
    state_machine inp (At CW_ENTER_DATA_CHECK) w = Some (At CW_ENTER_RESET, w', out) \<and>
    state_machine inp (At CW_ENTER_RESET) w' = Some (At CW_ENTER_DISCOVERY, w', []) \<and>
    timers (core w') (gCWHeartBeatTimerID (core w')) = Some \<lparr>at_sec = gEchoInterval (core w), at_handler = HeartBeat\<rparr> \<and>
    timer_expires (in_run inp) (gCWHeartBeatTimerID (core w')) (core w') = Some (s, map To_ac packets) \<and>
    delivers packets (message_bytes (seq_next (core w')) CW_MSG_TYPE_VALUE_ECHO_REQUEST []) \<and>
    gNeighborDeadTimerSet s \<and>
    timers s (gCWHeartBeatTimerID s) = Some \<lparr>at_sec = gEchoInterval (core w), at_handler = HeartBeat\<rparr>"
proof -
  let ?env = "in_run inp" and ?s = "beating inp (core w)"
  have env: "wtp_ready ?env" "0 < max_retransmit ?env" using ok by (simp_all add: sends_requests_def)
  let ?parse = "\<lambda>m. CWParseChangeStateEventResponseMessage m (seq_next (core w))"
  obtain ps where ps: "\<forall>p \<in> set ps. msg_fits p" "CWWTPEnterDataCheck inp w = do {
      (r, out) \<leftarrow> CWWTPSendAcknowledgedPacket ?env (max_retransmit ?env) (Some (Inr ps)) ?parse (\<lambda>v. Some (Inr v)) (in_waits inp);
      checked ?env (case r of Inl e \<Rightarrow> Some e | Inr _ \<Rightarrow> None) (w\<lparr>core := ?s\<rparr>) out
        (Some (Done CW_ENTER_RESET, w\<lparr>core := ?s\<rparr>, out))
        (Some (Done CW_ENTER_RUN, w\<lparr>core := CWStopHeartbeatTimer ?s\<rparr>, out))
    }" using data_check_starts [OF ok] by blast
  have "\<forall>e \<in> set (in_waits inp). e = Time_over \<or> (\<exists>b m. e = Message b m \<and> ?parse m = Some (Inl CW_ERROR_INVALID_FORMAT))"
    by (simp add: silent)
  from never_answered [OF env(1) ps(1) this, of "max_retransmit ?env" "\<lambda>v. Some (Inr v)"] env(2)
  obtain out where left: "CWWTPEnterDataCheck inp w = Some (Done CW_ENTER_RESET, w\<lparr>core := ?s\<rparr>, out)"
    by (auto simp: ps(2) silent checked_def ends_a_wait)
  obtain ms where echo: "CWAssembleEchoRequest ?env (seq_next ?s) = Some (Inr ms)"
    "transmit (wr_send ?env) ms = Some (Inr (), map To_ac (map contents ms))"
    "delivers (map contents ms) (message_bytes (seq_next ?s) CW_MSG_TYPE_VALUE_ECHO_REQUEST [])"
    using echo_assembled [OF env(1)] by blast
  have expires: "\<exists>s. timer_expires ?env (gCWHeartBeatTimerID ?s) ?s = Some (s, map To_ac (map contents ms)) \<and>
      gNeighborDeadTimerSet s \<and> timers s (gCWHeartBeatTimerID s) = Some \<lparr>at_sec = gEchoInterval (core w), at_handler = HeartBeat\<rparr>"
    using echo(1,2) env(1) dead
    by (auto simp: timer_expires_def rem_timer_def CWWTPHeartBeatTimerExpiredHandler_def CWStartNeighborDeadTimer_def
        CWStartHeartbeatTimer_def add_timer_def CWGetSeqNum_def wtp_ready_def Let_def)
  then obtain s where s: "timer_expires ?env (gCWHeartBeatTimerID ?s) ?s = Some (s, map To_ac (map contents ms))"
    "gNeighborDeadTimerSet s" "timers s (gCWHeartBeatTimerID s) = Some \<lparr>at_sec = gEchoInterval (core w), at_handler = HeartBeat\<rparr>" by blast
  show ?thesis
    by (rule exI [of _ "w\<lparr>core := ?s\<rparr>"], rule exI [of _ out], rule exI [of _ "map contents ms"], rule exI [of _ s])
      (use left s echo(3) in \<open>simp add: state_machine_def entered_def\<close>)
qed

lemma data_check_leaves_its_heartbeat_witness:
  "\<exists>w' out s packets. state_machine (sample_inputs (replicate 5 Time_over)) (At CW_ENTER_DATA_CHECK) sample_program =
      Some (At CW_ENTER_RESET, w', out) \<and>
    timer_expires sample_run_env (gCWHeartBeatTimerID (core w')) (core w') = Some (s, map To_ac packets) \<and>
    delivers packets (message_bytes (seq_next (core w')) CW_MSG_TYPE_VALUE_ECHO_REQUEST [])"
proof -
  have facts: "in_run (sample_inputs es) = sample_run_env" "in_waits (sample_inputs es) = es" "max_retransmit sample_run_env = 5"
      "\<not> gNeighborDeadTimerSet (core sample_program)" for es
    by (simp_all add: sample_inputs_def max_retransmit_def sample_run_env_def sample_program_def sample_running_def)
  have "sends_requests (sample_inputs (replicate 5 Time_over)) (core sample_program)"
    using sample_running_facts(1)
    by (simp add: sends_requests_def facts) (simp add: sample_program_def sample_running_def sample_wtp_def)
  from data_check_leaves_its_heartbeat [OF this _ facts(4)] show ?thesis unfolding facts by blast
qed

end
