(* ===== verification/WTP_Update.thy ===== *)
theory WTP_Update
  imports WTP_Exchange
begin

text \<open>
  The update manager of the WTP beside the update that goes right: parts that come twice, a commit out of order, the states
  it can reach and the requests it accepts.
\<close>

subsection \<open>A part that comes again\<close>

definition repeated :: "u8 list \<Rightarrow> nat \<Rightarrow> WUMState \<Rightarrow> bool" where
  "repeated pack j s \<longleftrightarrow> wum_state s = WUM_STATE_BUSY \<and> cupTmp s \<and> total_fragments s = of_nat (chunks pack) \<and>
     received_fragments s = of_nat j \<and> (\<exists>old. cup_file s = Some old \<and> (old = [] \<or> old = chunk pack 0))"

lemma first_part_again:
  assumes "repeated pack j s" and "j < chunks pack" and "length pack < 2 ^ 31" and "all_written env"
  shows "\<exists>s'. CWWTPSaveWUMValues env (cup_part w pack 0) s =
      Some (Answer CW_PROTOCOL_SUCCESS ((cup_part w pack 0)\<lparr>wum_type := WTP_CUP_ACK, wum_cup := None\<rparr>) False, s') \<and>
    exit_on_commit s' = exit_on_commit s \<and>
    (if Suc j = chunks pack then updated (chunk pack 0) s' else repeated pack (Suc j) s')"
proof -
  let ?bs = "chunk pack 0"
  obtain old where old: "cup_file s = Some old" "old = [] \<or> old = ?bs" using assms(1) by (auto simp: repeated_def)
  have same: "write_at 0 ?bs old = ?bs" using old(2) by (auto simp: write_at_def)
  have some: "?bs \<noteq> []" using assms(2) by (auto simp: chunks_def chunk_def CUP_FRAGMENT_SIZE_def)
  have len: "length ?bs < 2 ^ 31" using assms(3) by (simp add: length_chunk)
  note part_size = int_word [OF len]
  have "chunks pack < 2 ^ 31" using chunks_le [of pack] assms(3) by linarith
  note total = int_word [OF this]
  have "Suc j < 2 ^ 31" using assms(2) \<open>chunks pack < 2 ^ 31\<close> by linarith
  note received = int_word [OF this]
  let ?s = "s\<lparr>cup_file := Some ?bs, received_fragments := of_nat (Suc j)\<rparr>"
  have store: "WUMStoreFragment env ((cup_part w pack 0)\<lparr>wum_type := WTP_CUP_ACK\<rparr>) s =
      Some (True, (cup_part w pack 0)\<lparr>wum_type := WTP_CUP_ACK, wum_cup := None\<rparr>, ?s)"
    using assms(1,4) part_size old(1) same some
    by (simp add: WUMStoreFragment_def repeated_def cup_part_def all_written_def Let_def min_absorb2 add.commute)
  have complete: "WUMIsComplete ?s \<longleftrightarrow> Suc j = chunks pack"
    using assms(1,2) total(2) received(2) by (auto simp: WUMIsComplete_def repeated_def)
  show ?thesis
    using store complete assms(1)
    by (auto simp: CWWTPSaveWUMValues_def cup_part_def wum_types WUMCloseFile_def updated_def repeated_def)
qed

lemma first_part_repeated:
  assumes "nothing_fails env" and "wtp_ready wenv" and "all_written (wr_files wenv)" and "length pack < 2 ^ 31"
  shows "resting s \<Longrightarrow> \<not> exit_on_commit (update s) \<Longrightarrow> repeated pack j (update s) \<Longrightarrow> ns \<noteq> [] \<Longrightarrow>
    j + length ns = chunks pack \<Longrightarrow>
    \<exists>outs s'. send_orders env wtp (map (\<lambda>n. (n, cup_part w pack 0)) ns) wenv s = Some (outs, s') \<and>
      updated (chunk pack 0) (update s') \<and> resting s' \<and> \<not> exit_on_commit (update s') \<and>
      orders_answered (map (\<lambda>n. (n, cup_part w pack 0)) ns) WTP_CUP_ACK outs"
proof (induction ns arbitrary: s j)
  case (Cons n ns)
  let ?w = "(cup_part (wr_junk wenv) pack 0)\<lparr>wum_type := WTP_CUP_ACK, wum_cup := None\<rparr>"
  have "j < chunks pack" using Cons.prems(5) by simp
  from first_part_again [OF Cons.prems(3) this assms(4,3), of "wr_junk wenv"] obtain u where
    save: "CWWTPSaveWUMValues (wr_files wenv) (heard_wum (wr_junk wenv) (cup_part w pack 0)) (update s) =
      Some (Answer CW_PROTOCOL_SUCCESS ?w False, u)"
    and u: "exit_on_commit u = exit_on_commit (update s)"
      "if Suc j = chunks pack then updated (chunk pack 0) u else repeated pack (Suc j) u"
    by (auto simp: heard_part)
  let ?s = "(reset_timers wenv s)\<lparr>update := u\<rparr>"
  obtain out where out: "send_order env wtp (n, cup_part w pack 0) wenv s = Some (Done Stays, ?s, out)"
      "answered out (ucast (ucast n :: u8)) CW_PROTOCOL_SUCCESS [WTP_CUP_ACK]"
    using order_carried_out [OF assms(1,2) Cons.prems(1) part_ok save, of wtp n] u(1) Cons.prems(2)
    by (auto simp: answer_bytes_def wum_types)
  show ?case
  proof (cases "ns = []")
    case True
    then show ?thesis using out u Cons.prems(1,2,5) by (auto simp: orders_answered_def)
  next
    case False
    then have "Suc j \<noteq> chunks pack" using Cons.prems(5) by (cases ns) simp_all
    then have "repeated pack (Suc j) u" using u(2) by simp
    then show ?thesis
      using Cons.IH [of ?s "Suc j"] out u(1) False Cons.prems by (auto simp: orders_answered_def)
  qed
qed simp

text \<open>
  C37: A part that comes twice counts twice. When the WTP was told to expect a package of two parts or more and the AC
  sends its first part as many times as there are parts, every order is answered with success and the update is ready with a
  file that holds only that part; the commit that follows is answered with success too, starts the agent on the file and
  ends the program.
\<close>

theorem duplicate_parts_complete_the_update:
  assumes "nothing_fails env" and "wtp_ready wenv" and "all_written (wr_files wenv)" and "resting s"
    and "\<not> exit_on_commit (update s)" and "updating pack {} (update s)" and "cup_file (update s) = Some []"
    and "CUP_FRAGMENT_SIZE < length pack" and "length pack < 2 ^ 31" and "length ns = chunks pack"
    and "orders = map (\<lambda>n. (n, cup_part w pack 0)) ns" and "wum_type commit = WTP_COMMIT_UPDATE"
  shows "\<exists>outs s' out' s''. send_orders env wtp orders wenv s = Some (outs, s') \<and> orders_answered orders WTP_CUP_ACK outs \<and>
      updated (chunk pack 0) (update s') \<and> chunk pack 0 \<noteq> pack \<and>
      send_order env wtp (n', commit) wenv s' =
        Some (Ends, s'', (if can_fork (wr_files wenv) then [Agent_started] else []) @ out') \<and>
      answered out' (ucast (ucast n' :: u8)) CW_PROTOCOL_SUCCESS [WTP_COMMIT_ACK]"
proof -
  have "0 < chunks pack" using assms(8) by (simp add: chunks_def CUP_FRAGMENT_SIZE_def)
  then have "ns \<noteq> []" "repeated pack 0 (update s)" using assms(6,7,10) by (auto simp: repeated_def updating_def)
  then obtain outs s' where sent: "send_orders env wtp orders wenv s = Some (outs, s')" "resting s'"
      "updated (chunk pack 0) (update s')" "orders_answered orders WTP_CUP_ACK outs"
    using first_part_repeated [OF assms(1-3,9,4,5), of 0 ns wtp w] assms(10,11) by auto
  have "length (chunk pack 0) = CUP_FRAGMENT_SIZE" using assms(8) by (simp add: length_chunk)
  then have part: "chunk pack 0 \<noteq> pack" using assms(8) by auto
  have ok: "wum_ok commit" "wum_type (heard_wum junk commit) = WTP_COMMIT_UPDATE" for junk
    using assms(12) by (simp_all add: wum_ok_def wum_size_def heard_wum_def wum_types)
  obtain out' where "send_order env wtp (n', commit) wenv s' = Some (Ends, (reset_timers wenv s')\<lparr>update :=
        (update s')\<lparr>exit_on_commit := True\<rparr>\<rparr>, (if can_fork (wr_files wenv) then [Agent_started] else []) @ out')"
      "answered out' (ucast (ucast n' :: u8)) CW_PROTOCOL_SUCCESS [WTP_COMMIT_ACK]"
    using order_carried_out [OF assms(1,2) sent(2) ok(1) update_committed [OF sent(3) ok(2)], of wtp n']
    by (auto simp: answer_bytes_def wum_types)
  then show ?thesis using sent part by auto
qed

lemma duplicate_parts_complete_the_update_witness:
  "\<exists>outs s' out' s''. send_orders sample_env sample_session [(8, cup_part sample_wum (replicate 5000 9) 0),
        (9, cup_part sample_wum (replicate 5000 9) 0)] sample_run_env
      (sample_running\<lparr>update := wumState\<lparr>wum_state := WUM_STATE_BUSY, cupTmp := True, cupSize := 5000,
         total_fragments := 2, cup_file := Some []\<rparr>\<rparr>) = Some (outs, s') \<and>
    updated (chunk (replicate 5000 9) 0) (update s') \<and>
    send_order sample_env sample_session (10, sample_wum\<lparr>wum_type := WTP_COMMIT_UPDATE\<rparr>) sample_run_env s' =
      Some (Ends, s'', Agent_started # out')"
proof -
  let ?s = "sample_running\<lparr>update := wumState\<lparr>wum_state := WUM_STATE_BUSY, cupTmp := True, cupSize := 5000,
         total_fragments := 2, cup_file := Some []\<rparr>\<rparr>"
  have two: "chunks (replicate 5000 (9 :: u8)) = 2" by (simp add: chunks_def CUP_FRAGMENT_SIZE_def)
  have "resting ?s" using sample_running_facts(5) by (simp add: resting_def boxes_idle_def)
  moreover have "\<not> exit_on_commit (update ?s)" by (simp add: wumState_def)
  moreover have "updating (replicate 5000 9) {} (update ?s)"
    by (simp add: updating_def two holds_parts_def wumState_def)
  moreover have "CUP_FRAGMENT_SIZE < length (replicate 5000 (9 :: u8))" by (simp add: CUP_FRAGMENT_SIZE_def)
  ultimately show ?thesis
    using duplicate_parts_complete_the_update [of sample_env sample_run_env ?s "replicate 5000 9" "[8, 9]"
        "[(8, cup_part sample_wum (replicate 5000 9) 0), (9, cup_part sample_wum (replicate 5000 9) 0)]" sample_wum
        "sample_wum\<lparr>wum_type := WTP_COMMIT_UPDATE\<rparr>" sample_session 10]
    by (fastforce simp: sample_running_facts two)
qed

text \<open>
  A commit without an update ends the WTP. In whatever state the update is, as long as it is not ready, the order to commit
  is answered with \<open>CW_PROTOCOL_FAILURE\<close>, and nevertheless the agent is started, the program is told to exit and does.
\<close>

theorem commit_ends_the_wtp_in_any_state:
  assumes "nothing_fails env" and "wtp_ready wenv" and "resting s" and "wum_state (update s) \<noteq> WUM_STATE_READY"
    and "wum_type commit = WTP_COMMIT_UPDATE" and "can_fork (wr_files wenv)"
  shows "\<exists>out s'. send_order env wtp (n, commit) wenv s = Some (Ends, s', Agent_started # out) \<and>
      answered out (ucast (ucast n :: u8)) CW_PROTOCOL_FAILURE [WTP_COMMIT_ACK] \<and>
      cup_file (update s') = cup_file (update s)"
proof -
  have ok: "wum_ok commit" "wum_type (heard_wum junk commit) = WTP_COMMIT_UPDATE" for junk
    using assms(5) by (simp_all add: wum_ok_def wum_size_def heard_wum_def wum_types)
  have "CWWTPSaveWUMValues (wr_files wenv) (heard_wum (wr_junk wenv) commit) (update s) = Some (Answer CW_PROTOCOL_FAILURE
      ((heard_wum (wr_junk wenv) commit)\<lparr>wum_type := WTP_COMMIT_ACK\<rparr>) True, (update s)\<lparr>exit_on_commit := True\<rparr>)"
    using assms(4,6) ok(2) by (simp add: CWWTPSaveWUMValues_def wum_types StartWUA_def)
  from order_carried_out [OF assms(1-3) ok(1) this, of wtp n] show ?thesis
    by (auto simp: answer_bytes_def wum_types)
qed

lemma commit_ends_the_wtp_in_any_state_witness:
  "\<exists>out s'. send_order sample_env sample_session (10, sample_wum\<lparr>wum_type := WTP_COMMIT_UPDATE\<rparr>) sample_run_env
      sample_running = Some (Ends, s', Agent_started # out)"
  using commit_ends_the_wtp_in_any_state [of sample_env sample_run_env sample_running
      "sample_wum\<lparr>wum_type := WTP_COMMIT_UPDATE\<rparr>" sample_session 10] sample_running_facts
  by (auto simp: wum_states)

text \<open>The states the update manager can be in, and the orders a parser can deliver with a size that is not negative.\<close>

definition wum_typed :: "WUMState \<Rightarrow> bool" where
  "wum_typed s \<longleftrightarrow> wum_state s \<in> {WUM_STATE_WAIT, WUM_STATE_BUSY, WUM_STATE_READY} \<and>
     (cupTmp s \<longleftrightarrow> wum_state s = WUM_STATE_BUSY)"

definition order_typed :: "CWVendorWumValues \<Rightarrow> bool" where
  "order_typed w \<longleftrightarrow> (wum_type w = WTP_CUP_FRAGMENT \<longrightarrow> 0 \<le> sint (wum_cup_fragment_size w) \<and>
     (\<exists>bs. wum_cup w = Some bs \<and> unat (wum_cup_fragment_size w) \<le> length bs))"

fun save_orders :: "(wum_env \<times> CWVendorWumValues) list \<Rightarrow> WUMState \<Rightarrow> (wum_result list \<times> WUMState) option" where
  "save_orders [] s = Some ([], s)"
| "save_orders ((env, w) # ws) s = do {
     (r, s) \<leftarrow> CWWTPSaveWUMValues env w s;
     (rs, s) \<leftarrow> save_orders ws s;
     Some (r # rs, s) }"

lemma store_keeps_type:
  assumes "cupTmp s" and "0 \<le> sint (wum_cup_fragment_size w)" and "wum_cup w = Some bs"
    and "unat (wum_cup_fragment_size w) \<le> length bs"
  shows "\<exists>ok w' s'. WUMStoreFragment env w s = Some (ok, w', s') \<and> wum_state s' = wum_state s \<and> cupTmp s' = cupTmp s"
proof (cases "wum_state s \<noteq> WUM_STATE_BUSY \<or> wum_seq_num w > total_fragments s \<or>
    sint (wum_seq_num w * of_nat CUP_FRAGMENT_SIZE) < 0 \<or> \<not> fs_seek env")
  case True
  then show ?thesis using assms(1) by (auto simp: WUMStoreFragment_def Let_def)
next
  case False
  obtain data where "(if wum_cup_fragment_size w = 0 then Some [] else wum_cup w) = Some data"
      "unat (wum_cup_fragment_size w) \<le> length data"
    using assms(3,4) by (cases "wum_cup_fragment_size w = 0") auto
  then show ?thesis using assms(1,2) False by (simp add: WUMStoreFragment_def Let_def not_less) blast
qed

lemma order_keeps_type:
  assumes "wum_typed s" and "order_typed w"
  shows "\<exists>r s'. CWWTPSaveWUMValues env w s = Some (r, s') \<and> wum_typed s'"
proof (cases "wum_type w = WTP_CUP_FRAGMENT")
  case True
  let ?w = "w\<lparr>wum_type := WTP_CUP_ACK\<rparr>"
  obtain ok w' s' where store: "WUMStoreFragment env ?w s = Some (ok, w', s')" "wum_state s' = wum_state s" "cupTmp s' = cupTmp s"
  proof (cases "wum_state s = WUM_STATE_BUSY")
    case busy: True
    then have "cupTmp s" using assms(1) by (simp add: wum_typed_def)
    then show ?thesis using that store_keeps_type [of s ?w _ env] assms(2) True by (auto simp: order_typed_def)
  next
    case False
    then show ?thesis using that by (simp add: WUMStoreFragment_def)
  qed
  then have "wum_typed s'" using assms(1) by (simp add: wum_typed_def)
  then show ?thesis
    using store(1) True
    by (cases "WUMIsComplete s'")
      (auto simp: CWWTPSaveWUMValues_def wum_types_distinct WUMCloseFile_def WUMIsComplete_def wum_typed_def wum_states
        split: if_splits)
next
  case False
  then show ?thesis
    using assms(1)
    by (auto simp: CWWTPSaveWUMValues_def WUMPrepareForUpdate_def WUMCloseFile_def remove_cup_def wum_typed_def wum_states
        Let_def)
qed

text \<open>
  C38: The update manager stays well typed and never gets stuck. From its initial state, any sequence of orders with
  fragment sizes that are not negative and within what was received, whatever the file system does at each of them, is
  carried out to its end, and then the state is one of the three, with the file open exactly when an update is going on.
\<close>

theorem update_orders_are_type_safe:
  assumes "\<forall>(env, w) \<in> set ws. order_typed w"
  shows "\<exists>rs s'. save_orders ws wumState = Some (rs, s') \<and> length rs = length ws \<and> wum_typed s'"
proof -
  have "wum_typed s \<Longrightarrow> \<exists>rs s'. save_orders ws s = Some (rs, s') \<and> length rs = length ws \<and> wum_typed s'" for s
    using assms
  proof (induction ws arbitrary: s)
    case (Cons x ws)
    then show ?case using order_keeps_type [of s "snd x" "fst x"] by (cases x) fastforce
  qed simp
  moreover have "wum_typed wumState" by (simp add: wum_typed_def wumState_def wum_states)
  ultimately show ?thesis by blast
qed

lemma update_orders_are_type_safe_witness:
  "\<exists>rs s'. save_orders [(sample_wum_env, sample_wum), (sample_wum_env, cup_part sample_wum (replicate 5000 9) 0)] wumState =
      Some (rs, s') \<and> wum_typed s'"
proof -
  have "sint (of_nat (length (chunk (replicate 5000 (9 :: u8)) 0)) :: u32) = 4000"
      "unat (of_nat (length (chunk (replicate 5000 (9 :: u8)) 0)) :: u32) = length (chunk (replicate 5000 (9 :: u8)) 0)"
    using int_word [of "length (chunk (replicate 5000 (9 :: u8)) 0)"] by (simp_all add: length_chunk CUP_FRAGMENT_SIZE_def)
  then have "order_typed sample_wum" "order_typed (cup_part sample_wum (replicate 5000 9) 0)"
    by (simp_all add: order_typed_def sample_wum_def cup_part_def wum_types)
  then show ?thesis
    using update_orders_are_type_safe [of "[(sample_wum_env, sample_wum),
        (sample_wum_env, cup_part sample_wum (replicate 5000 9) 0)]"] by auto
qed

text \<open>
  C39: What the WTP accepts as an update is the order on versions. An update request is answered with success exactly when its
  version comes after 0.93.2 in lexicographic order, no other update is waiting or going on, the file can be created, and
  the free space exceeds the size of the package, which counts as almost \<open>2 ^ 64\<close> when it is negative; then a new update begins
  with an empty file and as many parts as the size rounded up, and otherwise the update is in the state it was.
\<close>

theorem update_accepted_exactly_when_newer:
  assumes "wum_type w = WTP_UPDATE_REQUEST"
  shows "\<exists>code s'. CWWTPSaveWUMValues env w s = Some (Answer code (w\<lparr>wum_type := WTP_UPDATE_RESPONSE\<rparr>) False, s') \<and>
    (code = CW_PROTOCOL_SUCCESS \<longleftrightarrow>
       (0, 93, 2) < (wum_major_v w, wum_minor_v w, wum_revision_v w) \<and> wum_state s = WUM_STATE_WAIT \<and> fs_open env \<and>
       (\<exists>free. fs_free env = Some free \<and> sint (wum_pack_size w) mod 2 ^ 64 < uint free)) \<and>
    (if code = CW_PROTOCOL_SUCCESS
     then s' = s\<lparr>wum_state := WUM_STATE_BUSY, cupTmp := True, cup_file := Some [], cupSize := wum_pack_size w,
                 total_fragments := fragments_of (wum_pack_size w), received_fragments := 0\<rparr>
     else s' = s \<or> s' = s\<lparr>cupTmp := False\<rparr>)"
proof -
  have version: "CWWTPCheckVersion (w\<lparr>wum_type := t\<rparr>) \<longleftrightarrow> (0, 93, 2) < (wum_major_v w, wum_minor_v w, wum_revision_v w)" for t
    by (auto simp: CWWTPCheckVersion_def WTP_VERSION_MAJOR_def WTP_VERSION_MINOR_def WTP_VERSION_REVISION_def less_prod_simp word_gt_0)
  have wide: "uint (scast n :: 64 word) = sint n mod 2 ^ 64" for n :: u32
    unfolding scast_eq uint_word_of_int by simp
  have room: "check_free_space env n \<longleftrightarrow> (\<exists>free. fs_free env = Some free \<and> sint n mod 2 ^ 64 < uint free)" for n
    by (auto simp: check_free_space_def word_less_def wide split: option.split)
  have codes: "CW_PROTOCOL_FAILURE \<noteq> CW_PROTOCOL_SUCCESS" by (simp add: CW_PROTOCOL_FAILURE_def CW_PROTOCOL_SUCCESS_def)
  let ?w = "w\<lparr>wum_type := WTP_UPDATE_RESPONSE\<rparr>" and ?n = "wum_pack_size w"
  have save: "CWWTPSaveWUMValues env w s =
      (if CWWTPCheckVersion ?w \<and> check_free_space env ?n then
         (case WUMPrepareForUpdate env ?n s of
            (ok, s) \<Rightarrow> Some (Answer (if ok then CW_PROTOCOL_SUCCESS else CW_PROTOCOL_FAILURE) ?w False, s))
       else Some (Answer CW_PROTOCOL_FAILURE ?w False, s))"
    using assms wum_types_distinct(2) by (simp add: CWWTPSaveWUMValues_def Let_def)
  show ?thesis
    unfolding version [of WTP_UPDATE_RESPONSE, symmetric] room [of ?n, symmetric]
  proof (cases "CWWTPCheckVersion ?w \<and> check_free_space env ?n")
    case True
    then show "\<exists>code s'. CWWTPSaveWUMValues env w s = Some (Answer code ?w False, s') \<and>
        (code = CW_PROTOCOL_SUCCESS \<longleftrightarrow>
           CWWTPCheckVersion ?w \<and> wum_state s = WUM_STATE_WAIT \<and> fs_open env \<and> check_free_space env ?n) \<and>
        (if code = CW_PROTOCOL_SUCCESS
         then s' = s\<lparr>wum_state := WUM_STATE_BUSY, cupTmp := True, cup_file := Some [], cupSize := ?n,
                     total_fragments := fragments_of ?n, received_fragments := 0\<rparr>
         else s' = s \<or> s' = s\<lparr>cupTmp := False\<rparr>)"
      unfolding save using codes
      by (cases "wum_state s = WUM_STATE_WAIT"; cases "fs_open env") (simp_all add: WUMPrepareForUpdate_def)
  next
    case False
    then have "CWWTPSaveWUMValues env w s = Some (Answer CW_PROTOCOL_FAILURE ?w False, s)"
      unfolding save by (simp only: if_False)
    then show "\<exists>code s'. CWWTPSaveWUMValues env w s = Some (Answer code ?w False, s') \<and>
        (code = CW_PROTOCOL_SUCCESS \<longleftrightarrow>
           CWWTPCheckVersion ?w \<and> wum_state s = WUM_STATE_WAIT \<and> fs_open env \<and> check_free_space env ?n) \<and>
        (if code = CW_PROTOCOL_SUCCESS
         then s' = s\<lparr>wum_state := WUM_STATE_BUSY, cupTmp := True, cup_file := Some [], cupSize := ?n,
                     total_fragments := fragments_of ?n, received_fragments := 0\<rparr>
         else s' = s \<or> s' = s\<lparr>cupTmp := False\<rparr>)"
      using codes False by auto
  qed
qed

lemma update_accepted_exactly_when_newer_witness:
  "\<exists>s'. CWWTPSaveWUMValues sample_wum_env sample_wum wumState =
    Some (Answer CW_PROTOCOL_SUCCESS (sample_wum\<lparr>wum_type := WTP_UPDATE_RESPONSE\<rparr>) False, s')"
proof -
  have "wum_type sample_wum = WTP_UPDATE_REQUEST" by (simp add: sample_wum_def)
  from update_accepted_exactly_when_newer [OF this, of sample_wum_env wumState] obtain code s' where
    saved: "CWWTPSaveWUMValues sample_wum_env sample_wum wumState =
      Some (Answer code (sample_wum\<lparr>wum_type := WTP_UPDATE_RESPONSE\<rparr>) False, s')"
    and code: "code = CW_PROTOCOL_SUCCESS \<longleftrightarrow>
       (0, 93, 2) < (wum_major_v sample_wum, wum_minor_v sample_wum, wum_revision_v sample_wum) \<and>
       wum_state wumState = WUM_STATE_WAIT \<and> fs_open sample_wum_env \<and>
       (\<exists>free. fs_free sample_wum_env = Some free \<and> sint (wum_pack_size sample_wum) mod 2 ^ 64 < uint free)" by blast
  have "code = CW_PROTOCOL_SUCCESS"
    unfolding code by (simp add: sample_wum_def sample_wum_env_def wumState_def less_prod_simp)
  then show ?thesis using saved by blast
qed

end
