(* ===== verification/Spec2Isabelle.thy ===== *)
theory Spec2Isabelle
  imports AC_Process Safe_List WTP_Retry WTP_Returns WTP_Update
begin

text \<open>
  A model of sicapwap, the implementation of the CAPWAP protocol (RFC 5415) in C: an access controller
  (AC) configures and supervises wireless termination points (WTPs). Both ends exchange control messages
  made of message elements, cut into packets with a transport header; data frames use the same header.

  \<^bold>\<open>How the program is modelled.\<close> A function of the program is a definition of the same name. It answers an
  option: \<open>None\<close> is a run the C standard gives no meaning to (a store or read outside a block, a pointer
  that was never assigned) or one that never ends; \<open>Some\<close> of a sum is an answer, \<open>Inl e\<close> for
  \<open>CWErrorRaise(e, ...)\<close> (\<open>CW_ERROR_NONE\<close> where the code returns \<open>CW_FALSE\<close> and raises nothing), \<open>Inr\<close> for
  success. Machine integers are words of their width; the functions of the session layer take the state of
  the session and answer it updated, together with the list of actions (packets sent, signals raised,
  replies to applications) in their order. What comes from outside is an argument: \<open>alloc\<close> says which
  sizes malloc provides (\<open>plenty\<close> is always), \<open>le\<close> the byte order of the machine, the record \<open>run_env\<close> the
  settings of the AC and the answers of timers, sockets and the application socket.

  \<^bold>\<open>Theories.\<close>
  \<^item> \<open>Prelude\<close>: the monad notation, lists read and written at an offset, byte orders of words.
  \<^item> \<open>Wire\<close> (CWProtocol.c): storing and retrieving values in a message buffer, the frame of a message
    element. The collection \<open>cw_wire\<close> reads any buffer built from stored values.
  \<^item> \<open>Constants\<close> (CWProtocol.h, CWBinding.h): message types, element types, header layout.
  \<^item> \<open>Transport\<close> (CWProtocol.c, CWBinding.c): transport header, its 802.11 part, control header.
  \<^item> \<open>Lists\<close> (CWList.c): the singly linked list as the list of its data.
  \<^item> \<open>Fragments\<close> (CWProtocol.c, CWBinding.c): cutting a message into packets, collecting fragments.
  \<^item> \<open>Elements\<close>, \<open>WTP_Elements\<close>, \<open>AC_Elements\<close> (CWProtocol.c, WTPProtocol.c, WTPProtocol_User.c,
    ACProtocol.c, ACProtocol_User.c): the message elements, their assemblers with the getters of the
    state they report, and their parsers at the other end.
  \<^item> \<open>Messages\<close>: the loop over the elements of a message, shared by all parsers; the locale
    \<open>element_switch\<close> says what a parser's switch owes to the loop.
  \<^item> \<open>AC_Session\<close> (CWAC.h, ACRetransmission.c, ACMainLoop.c): the state of the session of one WTP, sending and
    retransmitting requests, the timers' handlers, ending the session.
  \<^item> \<open>AC_Run\<close>, \<open>AC_Requests\<close>, \<open>AC_Responses\<close> (ACRunState.c): the Run state. \<open>AC_Run\<close> holds the parsers, the
    functions that keep what was parsed and \<open>ACEnterRun\<close>; the others the theorems on requests of the WTP
    and on responses, data frames and messages the state ignores.
  \<^item> \<open>Join\<close> (ACJoinState.c, WTPJoinState.c), \<open>Configure\<close> (ACConfigureState.c, ACDataCheckState.c and their
    counterparts of the WTP), \<open>Discovery\<close> (ACDiscoveryState.c, WTPDiscoveryState.c): both sides of these exchanges, and
    the search of the WTP for an AC.
  \<^item> \<open>Binding\<close> (ACBinding.c, WTPBinding.c, ACProtocol.c, CWVendorPayloadsAC.c): QoS and OFDM values, from the settings of
    the AC to the driver of the WTP, and the Configuration Update Request with all it can carry.
  \<^item> \<open>Sino\<close> (sino_comm.c, AC.c, CWVendorPayloadsAC.c, WTPProtocol.c): the vendor element that announces
    firmware, from the settings of the AC to the decision of the WTP to upgrade.
  \<^item> \<open>Common\<close> (CWErrorHandling.c): how an error ends a thread or the process. \<open>AC_Loop\<close> (ACMainLoop.c): the dispatch of
    datagrams, the threads of the sessions, their signals and timers, as the steps of one process; \<open>AC_Process\<close> has what
    holds in every run of it, and how a WTP gets from its first datagram to the Configure state.
  \<^item> \<open>WTP_Vendor\<close> (CWVendorPayloadsWTP.c): the UCI commands and the update manager of the WTP. \<open>WTP_Run\<close> (WTPRunState.c,
    WTPRunStateCheck.c, WTPRetransmission.c, WTP.c): the Run state of the WTP, its timers and pending requests, and the wait for
    an acknowledgement. The theorems are in \<open>WTP_Exchange\<close> (a package installed by orders of the AC), \<open>WTP_Requests\<close>
    (heartbeat, settings, stations), \<open>WTP_Update\<close> (the update manager alone) and \<open>WTP_Retry\<close> (what is sent again).
  \<^item> \<open>WTP_States\<close> (WTPSulkingState.c, WTPJoinState.c, WTPConfigureState.c, WTPDataCheckState.c, WTP.c): the state functions of the
    WTP before Run and the loop over the states, whose record \<open>wtp\<close> joins the states of \<open>Discovery\<close> and \<open>WTP_Run\<close>.
    \<open>WTP_Machine\<close> has what holds along every run of it, \<open>WTP_Joins\<close> the way from Discovery to Run against the answers of
    an AC, \<open>WTP_Returns\<close> what a WTP that lost its AC comes back with.
  \<^item> \<open>Chains\<close>: doubly linked lists in a heap; the locale \<open>links\<close> proves unlinking and linking once for any
    cell type. \<open>Safe_List\<close> (CWSafeList.c) and \<open>Timer_Lib\<close> (timerlib.c, CWThread.c) interpret it.

  \<^bold>\<open>Both ends.\<close> The sessions of \<open>AC_Loop\<close> call the handlers of Join, Configure, Data Check and Run, those call the parsers of
  \<open>Messages\<close> with the switch of each message, and the parsers call those of the elements. What one end assembles goes through
  \<open>Fragments\<close>: \<open>delivers\<close> says that packets, parsed in order, give a message, whatever the path MTU. The exchange theorems
  compose an assembler of one end with the handler of the other over \<open>delivers\<close> or over the reception of the WTP.

  \<^bold>\<open>Bounds.\<close> There is no fuel. Loops over an array or a list recurse on it; the loop over message elements and the
  loop of the discovery rounds are partial functions whose value is \<open>None\<close> when they do not end, so a theorem that answers
  \<open>Some\<close> shows that the loop ended. A loop that waits is given what it waits for as a list, and the end of the list is \<open>None\<close>.
  A buffer of the network has 65536 bytes; theorems about messages bound their length by what fits a datagram.

  \<^bold>\<open>Not modelled.\<close> Sockets, DTLS, logging, configuration files, drivers and the firmware service are I/O around library calls;
  what they answer is an argument. Mutexes and the conditions of pthread appear only where a step can wait for ever. The
  model of the WTP is that of the build without DTLS, which the Makefile makes. What a state function
  of the WTP does before Run is all there but the sockets and the thread it makes, which only succeed or fail. The server for
  applications on the AC and the update agent are left out.
\<close>

end
